(* ===== verification/Go_Prelude.thy ===== *)
theory Go_Prelude
  imports Main "HOL-Library.Word" "HOL-Library.Signed_Division"
begin

text \<open>
  Shared ground of the development: the effect monad in which the Go functions are written, its
  weakest-precondition calculus, Go's error values, the machine integers the program uses, and
  the generic lemmas the component theories rely on.

  A Go function that touches the outside world is a function of the \<^emph>\<open>history\<close> of the calls made
  so far to code the repository does not contain (the database driver, the message bus, the
  clock). It ends in one of three ways: it returns, it panics (nil dereference, failed type
  assertion, write to a nil map), or the process exits (\<^verbatim>\<open>log.Fatal\<close>). Logging and tracing have no
  effect on the modelled state and are dropped, except where building a log field dereferences
  a pointer.
\<close>

section \<open>Outcomes and the effect monad\<close>

datatype 'a outcome = Ret 'a | Panicked string | Exited

type_synonym ('s, 'a) go = "'s \<Rightarrow> 'a outcome \<times> 's"

definition ret :: "'a \<Rightarrow> ('s, 'a) go" where
  "ret a = (\<lambda>s. (Ret a, s))"

definition bnd :: "('s, 'a) go \<Rightarrow> ('a \<Rightarrow> ('s, 'b) go) \<Rightarrow> ('s, 'b) go" where
  "bnd m f = (\<lambda>s. case m s of
      (Ret a, s') \<Rightarrow> f a s'
    | (Panicked p, s') \<Rightarrow> (Panicked p, s')
    | (Exited, s') \<Rightarrow> (Exited, s'))"

definition go_panic :: "string \<Rightarrow> ('s, 'a) go" where
  "go_panic p = (\<lambda>s. (Panicked p, s))"

definition go_exit :: "('s, 'a) go" where
  "go_exit = (\<lambda>s. (Exited, s))"

text \<open>Pointer dereference: a nil pointer panics.\<close>

definition deref :: "'a option \<Rightarrow> ('s, 'a) go" where
  "deref p = (case p of None \<Rightarrow> go_panic ''nil pointer dereference'' | Some a \<Rightarrow> ret a)"

lemma bnd_ret [simp]: "bnd (ret a) f = f a"
  by (simp add: bnd_def ret_def)

lemma bnd_assoc: "bnd (bnd m f) g = bnd m (\<lambda>a. bnd (f a) g)"
  by (rule ext) (simp add: bnd_def split: prod.splits outcome.splits)

lemma deref_Some [simp]: "deref (Some a) = ret a"
  by (simp add: deref_def)

lemma deref_None [simp]: "deref None = go_panic ''nil pointer dereference''"
  by (simp add: deref_def)

lemma bnd_panic [simp]: "bnd (go_panic p) f = go_panic p"
  by (simp add: bnd_def go_panic_def)

lemma bnd_exit [simp]: "bnd go_exit f = go_exit"
  by (simp add: bnd_def go_exit_def)

section \<open>Weakest preconditions\<close>

text \<open>
  \<open>wp m Q s\<close>: running \<open>m\<close> from \<open>s\<close> ends in an outcome and a state that satisfy \<open>Q\<close>. All
  computations are total, so this is a total-correctness statement. The collection \<open>wp\<close> holds
  the equations that push it through a body; \<open>go_defs\<close> holds the definitions of the small
  helpers a body is made of.
\<close>

named_theorems wp "weakest-precondition equations"
named_theorems go_defs "definitions of the helper operations"

definition wp :: "('s, 'a) go \<Rightarrow> ('a outcome \<Rightarrow> 's \<Rightarrow> bool) \<Rightarrow> 's \<Rightarrow> bool" where
  "wp m Q s = (case m s of (r, s') \<Rightarrow> Q r s')"

lemma wp_ret [wp]: "wp (ret a) Q s = Q (Ret a) s"
  by (simp add: wp_def ret_def)

lemma wp_panic [wp]: "wp (go_panic p) Q s = Q (Panicked p) s"
  by (simp add: wp_def go_panic_def)

lemma wp_exit [wp]: "wp go_exit Q s = Q Exited s"
  by (simp add: wp_def go_exit_def)

lemma wp_bnd [wp]:
  "wp (bnd m f) Q s =
     wp m (\<lambda>r s'. case r of Ret a \<Rightarrow> wp (f a) Q s' | Panicked p \<Rightarrow> Q (Panicked p) s'
                          | Exited \<Rightarrow> Q Exited s') s"
  by (simp add: wp_def bnd_def split: prod.splits outcome.splits)

lemma wp_if [wp]: "wp (if b then m else m') Q s = (if b then wp m Q s else wp m' Q s)"
  by simp

lemma wp_case_option [wp]:
  "wp (case x of None \<Rightarrow> m | Some a \<Rightarrow> f a) Q s =
     (case x of None \<Rightarrow> wp m Q s | Some a \<Rightarrow> wp (f a) Q s)"
  by (simp split: option.splits)

lemma wp_case_sum [wp]:
  "wp (case x of Inl a \<Rightarrow> f a | Inr b \<Rightarrow> g b) Q s =
     (case x of Inl a \<Rightarrow> wp (f a) Q s | Inr b \<Rightarrow> wp (g b) Q s)"
  by (simp split: sum.splits)

lemma wp_case_prod [wp]:
  "wp (case x of (a, b) \<Rightarrow> f a b) Q s = (case x of (a, b) \<Rightarrow> wp (f a b) Q s)"
  by (simp split: prod.splits)

lemma wp_let [wp]: "wp (let x = e in f x) Q s = (let x = e in wp (f x) Q s)"
  by (simp add: Let_def)

lemma wp_mono: "wp m Q s \<Longrightarrow> (\<And>r s'. Q r s' \<Longrightarrow> Q' r s') \<Longrightarrow> wp m Q' s"
  by (simp add: wp_def split: prod.splits)

lemma wp_conj: "wp m Q s \<Longrightarrow> wp m Q' s \<Longrightarrow> wp m (\<lambda>r s'. Q r s' \<and> Q' r s') s"
  by (simp add: wp_def split: prod.splits)

lemma wp_iff: "wp m Q s \<longleftrightarrow> Q (fst (m s)) (snd (m s))"
  by (simp add: wp_def split: prod.splits)

text \<open>The three ways out, as an observation.\<close>

fun returns :: "'a outcome \<Rightarrow> ('a \<Rightarrow> bool) \<Rightarrow> bool" where
  "returns (Ret a) P = P a"
| "returns (Panicked p) P = False"
| "returns Exited P = False"

section \<open>Errors\<close>

text \<open>
  Go error values. The sentinels of \<^verbatim>\<open>pkg/database\<close> are constructors; \<open>ErrWrap s e\<close> is
  \<^verbatim>\<open>fmt.Errorf("s: %w", e)\<close> and \<open>ErrNote e s\<close> is \<^verbatim>\<open>fmt.Errorf("%w: s", e)\<close>; \<open>ErrJSON\<close> carries the text of an \<^verbatim>\<open>encoding/json\<close> error and \<open>ErrExt\<close>
  the text of an error made by a third-party package.
\<close>

datatype gerr =
    ErrNotFound
  | ErrInvalidId
  | ErrPollMessageInsert
  | ErrRecordNotFound
  | ErrNew string
  | ErrWrap string gerr
  | ErrNote gerr string
  | ErrJSON string
  | ErrExt string

fun err_text :: "gerr \<Rightarrow> string" where
  "err_text ErrNotFound = ''not found''"
| "err_text ErrInvalidId = ''invalid id format''"
| "err_text ErrPollMessageInsert = ''poll message insertion failed''"
| "err_text ErrRecordNotFound = ''record not found''"
| "err_text (ErrNew s) = s"
| "err_text (ErrWrap s e) = s @ '': '' @ err_text e"
| "err_text (ErrNote e s) = err_text e @ '': '' @ s"
| "err_text (ErrJSON s) = s"
| "err_text (ErrExt s) = s"

text \<open>\<^verbatim>\<open>errors.Is\<close>: the error itself or anything it wraps.\<close>

fun errors_is :: "gerr \<Rightarrow> gerr \<Rightarrow> bool" where
  "errors_is (ErrWrap s e) t = (ErrWrap s e = t \<or> errors_is e t)"
| "errors_is (ErrNote e s) t = (ErrNote e s = t \<or> errors_is e t)"
| "errors_is e t = (e = t)"

lemma errors_is_refl [simp]: "errors_is e e"
  by (cases e) auto

section \<open>Machine integers\<close>

type_synonym i32 = "32 word"
type_synonym i64 = "64 word"
type_synonym u32 = "32 word"
type_synonym f64 = "64 word"

text \<open>Go's \<^verbatim>\<open>/\<close> and \<^verbatim>\<open>%\<close> on signed integers truncate towards zero.\<close>

definition i32_div :: "i32 \<Rightarrow> i32 \<Rightarrow> i32" where
  "i32_div a b = word_of_int (sint a sdiv sint b)"

definition i32_mod :: "i32 \<Rightarrow> i32 \<Rightarrow> i32" where
  "i32_mod a b = word_of_int (sint a smod sint b)"

text \<open>Conversions: \<^verbatim>\<open>int32(x)\<close> of an \<^verbatim>\<open>int\<close> truncates to 32 bits, \<^verbatim>\<open>int64(x)\<close> of an \<^verbatim>\<open>int32\<close> extends.\<close>

definition to_i32 :: "int \<Rightarrow> i32" where
  "to_i32 n = word_of_int n"

definition i64_of_i32 :: "i32 \<Rightarrow> i64" where
  "i64_of_i32 w = word_of_int (sint w)"

lemma sint_word_of_int_32:
  assumes "- (2 ^ 31) \<le> n" "n < 2 ^ 31"
  shows "sint (word_of_int n :: 32 word) = n"
  using assms by (simp add: sint_sbintrunc' signed_take_bit_int_eq_self)

lemma sint_word_of_int_64:
  assumes "- (2 ^ 63) \<le> n" "n < 2 ^ 63"
  shows "sint (word_of_int n :: 64 word) = n"
  using assms by (simp add: sint_sbintrunc' signed_take_bit_int_eq_self)

lemma sint_bounds_32: "- (2 ^ 31) \<le> sint (w :: 32 word) \<and> sint w < 2 ^ 31"
  using sint_ge [of w] sint_lt [of w] by simp

lemma sint_add_32:
  assumes "- (2 ^ 31) \<le> sint a + sint b" "sint a + sint b < 2 ^ 31"
  shows "sint (a + b :: 32 word) = sint a + sint b"
proof -
  have "a + b = word_of_int (sint a + sint b)" by simp
  then show ?thesis using sint_word_of_int_32 [OF assms] by presburger
qed

section \<open>What a computation adds to its history\<close>

text \<open>
  A history grows at the front. \<open>adds P W k m\<close> says that \<open>m\<close> only adds events to it, that each
  new event satisfies \<open>P\<close>, and that at most \<open>k\<close> of them satisfy \<open>W\<close>, whatever the services
  answer and however \<open>m\<close> ends. It composes along the structure of a body.
\<close>

definition adds :: "('e \<Rightarrow> bool) \<Rightarrow> ('e \<Rightarrow> bool) \<Rightarrow> nat \<Rightarrow> ('e list, 'a) go \<Rightarrow> bool" where
  "adds P W k m \<longleftrightarrow>
     (\<forall>h. \<exists>d. snd (m h) = d @ h \<and> list_all P d \<and> length (filter W d) \<le> k)"

named_theorems adds_rules "introduction rules for adds"

lemma addsE:
  assumes "adds P W k m"
  obtains d where "snd (m h) = d @ h" "list_all P d" "length (filter W d) \<le> k"
  using assms by (auto simp: adds_def)

lemma adds_ret [adds_rules]: "adds P W k (ret a)"
  by (simp add: adds_def ret_def)

lemma adds_panic [adds_rules]: "adds P W k (go_panic p)"
  by (simp add: adds_def go_panic_def)

lemma adds_exit [adds_rules]: "adds P W k go_exit"
  by (simp add: adds_def go_exit_def)

lemma adds_bnd_sum:
  assumes m: "adds P W a m" and f: "\<And>x. adds P W b (f x)"
  shows "adds P W (a + b) (bnd m f)"
  unfolding adds_def
proof
  fix h
  obtain d where d: "snd (m h) = d @ h" "list_all P d" "length (filter W d) \<le> a"
    using addsE [OF m] by metis
  show "\<exists>d. snd (bnd m f h) = d @ h \<and> list_all P d \<and> length (filter W d) \<le> a + b"
  proof (cases "m h")
    case (Pair r s)
    then have s: "s = d @ h" using d(1) by simp
    show ?thesis
    proof (cases r)
      case (Ret x)
      obtain d' where d': "snd (f x s) = d' @ s" "list_all P d'" "length (filter W d') \<le> b"
        using addsE [OF f] by metis
      have "snd (bnd m f h) = (d' @ d) @ h"
        using d'(1) s Pair Ret by (simp add: bnd_def)
      moreover have "list_all P (d' @ d)" and "length (filter W (d' @ d)) \<le> a + b"
        using d'(2,3) d(2,3) by simp_all
      ultimately show ?thesis by blast
    qed (use Pair s d in \<open>auto simp: bnd_def\<close>)
  qed
qed

text \<open>The rule for a body: all but its last step leave the counted events alone.\<close>

lemma adds_bnd [adds_rules]:
  "adds P W 0 m \<Longrightarrow> (\<And>x. adds P W k (f x)) \<Longrightarrow> adds P W k (bnd m f)"
  using adds_bnd_sum [of P W 0 m k f] by simp

lemma adds_bnd_last: "adds P W k m \<Longrightarrow> (\<And>x. adds P W 0 (f x)) \<Longrightarrow> adds P W k (bnd m f)"
  using adds_bnd_sum [of P W k m 0 f] by simp

lemma adds_if [adds_rules]: "adds P W k m \<Longrightarrow> adds P W k m' \<Longrightarrow> adds P W k (if b then m else m')"
  by simp

lemma adds_case_option [adds_rules]:
  "adds P W k m \<Longrightarrow> (\<And>a. adds P W k (f a)) \<Longrightarrow> adds P W k (case x of None \<Rightarrow> m | Some a \<Rightarrow> f a)"
  by (cases x) simp_all

lemma adds_case_sum [adds_rules]:
  "(\<And>a. adds P W k (f a)) \<Longrightarrow> (\<And>b. adds P W k (g b)) \<Longrightarrow>
   adds P W k (case x of Inl a \<Rightarrow> f a | Inr b \<Rightarrow> g b)"
  by (cases x) simp_all

lemma adds_case_prod [adds_rules]:
  "(\<And>a b. adds P W k (f a b)) \<Longrightarrow> adds P W k (case x of (a, b) \<Rightarrow> f a b)"
  by (cases x) simp

lemma adds_let [adds_rules]: "adds P W k (f e) \<Longrightarrow> adds P W k (let x = e in f x)"
  by (simp add: Let_def)

lemma adds_deref [adds_rules]: "adds P W k (deref x)"
  by (cases x) (simp_all add: adds_rules)

lemma adds_mono:
  assumes "adds P W k m" "\<And>e. P e \<Longrightarrow> P' e" "\<And>e. W' e \<Longrightarrow> W e" "k \<le> k'"
  shows "adds P' W' k' m"
  unfolding adds_def
proof
  fix h
  obtain d where d: "snd (m h) = d @ h" "list_all P d" "length (filter W d) \<le> k"
    using addsE [OF assms(1)] by metis
  have "length (filter W' d) \<le> length (filter W d)"
    using assms(3) by (induction d) auto
  then show "\<exists>d. snd (m h) = d @ h \<and> list_all P' d \<and> length (filter W' d) \<le> k'"
    using d assms(2,4) by (intro exI [of _ d]) (auto simp: list_all_iff)
qed

section \<open>What holds when a computation returns\<close>

text \<open>
  \<open>ends Q m\<close>: whenever \<open>m\<close> returns, its result and the final state satisfy \<open>Q\<close>. A body is judged by
  its last step, so the rules follow the tail positions.
\<close>

definition ends :: "('a \<Rightarrow> 's \<Rightarrow> bool) \<Rightarrow> ('s, 'a) go \<Rightarrow> bool" where
  "ends Q m \<longleftrightarrow> (\<forall>s a s'. m s = (Ret a, s') \<longrightarrow> Q a s')"

named_theorems ends_rules "introduction rules for ends"

lemma endsD: "ends Q m \<Longrightarrow> m s = (Ret a, s') \<Longrightarrow> Q a s'"
  by (simp add: ends_def)

lemma ends_wp: "ends Q m \<longleftrightarrow> (\<forall>s. wp m (\<lambda>r s'. case r of Ret a \<Rightarrow> Q a s' | _ \<Rightarrow> True) s)"
  unfolding ends_def wp_def by (auto split: prod.split outcome.split)

lemma ends_ret [ends_rules]: "(\<And>s. Q a s) \<Longrightarrow> ends Q (ret a)"
  by (simp add: ends_def ret_def)

lemma ends_panic [ends_rules]: "ends Q (go_panic p)"
  by (simp add: ends_def go_panic_def)

lemma ends_exit [ends_rules]: "ends Q go_exit"
  by (simp add: ends_def go_exit_def)

lemma bnd_Ret_iff:
  "bnd m f s = (Ret b, s'') \<longleftrightarrow> (\<exists>a s'. m s = (Ret a, s') \<and> f a s' = (Ret b, s''))"
  by (simp add: bnd_def split: prod.split outcome.split)

lemma ends_bnd_after:
  assumes "ends Q m" "\<And>x s a s'. Q x s \<Longrightarrow> f x s = (Ret a, s') \<Longrightarrow> Q' a s'"
  shows "ends Q' (bnd m f)"
  using assms unfolding ends_def bnd_Ret_iff by metis

lemma ends_bnd [ends_rules]:
  assumes "\<And>x. ends Q (f x)"
  shows "ends Q (bnd m f)"
  using assms unfolding ends_def bnd_Ret_iff by metis

lemma ends_if [ends_rules]: "ends Q m \<Longrightarrow> ends Q m' \<Longrightarrow> ends Q (if b then m else m')"
  by simp

lemma ends_case_option [ends_rules]:
  "ends Q m \<Longrightarrow> (\<And>a. ends Q (f a)) \<Longrightarrow> ends Q (case x of None \<Rightarrow> m | Some a \<Rightarrow> f a)"
  by (cases x) simp_all

lemma ends_case_sum [ends_rules]:
  "(\<And>a. ends Q (f a)) \<Longrightarrow> (\<And>b. ends Q (g b)) \<Longrightarrow> ends Q (case x of Inl a \<Rightarrow> f a | Inr b \<Rightarrow> g b)"
  by (cases x) simp_all

lemma ends_case_prod [ends_rules]: "(\<And>a b. ends Q (f a b)) \<Longrightarrow> ends Q (case x of (a, b) \<Rightarrow> f a b)"
  by (cases x) simp

lemma ends_let [ends_rules]: "ends Q (f e) \<Longrightarrow> ends Q (let x = e in f x)"
  by (simp add: Let_def)

text \<open>A step whose result is known bounds what follows it.\<close>

lemma ends_bnd_with:
  assumes "ends Q m" "\<And>x s. Q x s \<Longrightarrow> ends Q' (f x)"
  shows "ends Q' (bnd m f)"
  using assms unfolding ends_def bnd_Ret_iff by metis

lemma ends_case_sum_eq:
  "(\<And>a. x = Inl a \<Longrightarrow> ends Q (f a)) \<Longrightarrow> (\<And>b. x = Inr b \<Longrightarrow> ends Q (g b)) \<Longrightarrow>
   ends Q (case x of Inl a \<Rightarrow> f a | Inr b \<Rightarrow> g b)"
  by (cases x) simp_all

lemma adds_bnd_ends:
  assumes "adds P W a m" "ends (\<lambda>x s. Q x) m" "\<And>x. Q x \<Longrightarrow> adds P W b (f x)"
  shows "adds P W (a + b) (bnd m f)"
proof -
  let ?f = "\<lambda>x. if Q x then f x else go_exit"
  have "adds P W (a + b) (bnd m ?f)"
    using assms(1,3) by (intro adds_bnd_sum) (auto intro: adds_rules)
  moreover have "bnd m ?f = bnd m f"
    using endsD [OF assms(2)] by (fastforce simp: bnd_def split: prod.split outcome.split)
  ultimately show ?thesis by simp
qed

end
