(* ===== verification/Go_Time.thy ===== *)
theory Go_Time
  imports Go_Prelude
begin

text \<open>
  What the program uses of Go's \<^verbatim>\<open>time\<close> package: instants with a fixed zone offset, their calendar
  date, \<open>AddDate\<close> and \<open>After\<close>, and the RFC 3339 form in which \<^verbatim>\<open>encoding/json\<close> reads a
  \<^verbatim>\<open>time.Time\<close>. Instants are counted in seconds and nanoseconds from 1970-01-01T00:00:00Z. A
  location is its offset from UTC, so a zone whose offset changes during the year is outside the
  model (the registry's timestamps are UTC and the workers run in UTC).
\<close>

record gotime =
  t_sec :: int
  t_nsec :: int
  t_off :: int

text \<open>The zero \<^verbatim>\<open>time.Time\<close>: January 1, year 1, 00:00:00 UTC.\<close>

definition zero_time :: gotime where
  "zero_time = \<lparr>t_sec = - 62135596800, t_nsec = 0, t_off = 0\<rparr>"

section \<open>Calendar dates\<close>

text \<open>Days since 1970-01-01 of a date of the proleptic Gregorian calendar, and back.\<close>

definition days_from_civil :: "int \<Rightarrow> int \<Rightarrow> int \<Rightarrow> int" where
  "days_from_civil y m d =
     (let y' = (if m \<le> 2 then y - 1 else y);
          yoe = y' mod 400;
          doy = (153 * (if m > 2 then m - 3 else m + 9) + 2) div 5 + d - 1;
          doe = yoe * 365 + yoe div 4 - yoe div 100 + doy
      in y' div 400 * 146097 + doe - 719468)"

definition civil_from_days :: "int \<Rightarrow> int \<times> int \<times> int" where
  "civil_from_days z =
     (let z' = z + 719468;
          doe = z' mod 146097;
          yoe = (doe - doe div 1460 + doe div 36524 - doe div 146096) div 365;
          doy = doe - (365 * yoe + yoe div 4 - yoe div 100);
          mp = (5 * doy + 2) div 153;
          d = doy - (153 * mp + 2) div 5 + 1;
          m = (if mp < 10 then mp + 3 else mp - 9);
          y = yoe + z' div 146097 * 400
      in (if m \<le> 2 then y + 1 else y, m, d))"

definition time_civil :: "gotime \<Rightarrow> int \<times> int \<times> int" where
  "time_civil t = civil_from_days ((t_sec t + t_off t) div 86400)"

definition time_Year :: "gotime \<Rightarrow> int" where
  "time_Year t = fst (time_civil t)"

definition time_Month :: "gotime \<Rightarrow> int" where
  "time_Month t = fst (snd (time_civil t))"

definition time_Day :: "gotime \<Rightarrow> int" where
  "time_Day t = snd (snd (time_civil t))"

text \<open>
  \<^verbatim>\<open>t.AddDate(years, 0, 0)\<close>: the same clock reading on the same month and day of the shifted year;
  a day past the end of its month runs over into the next one, as \<^verbatim>\<open>time.Date\<close> normalises it.
\<close>

definition time_AddYears :: "gotime \<Rightarrow> int \<Rightarrow> gotime" where
  "time_AddYears t n =
     (case time_civil t of (y, m, d) \<Rightarrow>
        t\<lparr>t_sec := days_from_civil (y + n) m d * 86400 + (t_sec t + t_off t) mod 86400 - t_off t\<rparr>)"

definition time_After :: "gotime \<Rightarrow> gotime \<Rightarrow> bool" where
  "time_After t u \<longleftrightarrow> t_sec t > t_sec u \<or> (t_sec t = t_sec u \<and> t_nsec t > t_nsec u)"

section \<open>RFC 3339\<close>

definition digit_val :: "char \<Rightarrow> int option" where
  "digit_val c = (let n = int (of_char c) in if 48 \<le> n \<and> n \<le> 57 then Some (n - 48) else None)"

fun digits_val :: "int \<Rightarrow> string \<Rightarrow> int option" where
  "digits_val acc [] = Some acc"
| "digits_val acc (c # cs) =
     (case digit_val c of None \<Rightarrow> None | Some d \<Rightarrow> digits_val (10 * acc + d) cs)"

definition sub_val :: "string \<Rightarrow> nat \<Rightarrow> nat \<Rightarrow> int option" where
  "sub_val s i n = digits_val 0 (take n (drop i s))"

definition days_in_month :: "int \<Rightarrow> int \<Rightarrow> int" where
  "days_in_month y m =
     (if m = 12 then 31 else days_from_civil y (m + 1) 1 - days_from_civil y m 1)"

definition parse_zone :: "string \<Rightarrow> int option" where
  "parse_zone z =
     (if z = ''Z'' then Some 0
      else if length z = 6 \<and> (z ! 0 = CHR ''+'' \<or> z ! 0 = CHR ''-'') \<and> z ! 3 = CHR '':''
      then (case (sub_val z 1 2, sub_val z 4 2) of
              (Some hh, Some mm) \<Rightarrow>
                 if hh < 24 \<and> mm < 60
                 then Some ((if z ! 0 = CHR ''-'' then - 1 else 1) * (hh * 3600 + mm * 60))
                 else None
            | _ \<Rightarrow> None)
      else None)"

definition parse_frac :: "string \<Rightarrow> (int \<times> string) option" where
  "parse_frac s =
     (case s of
        [] \<Rightarrow> Some (0, [])
      | c # cs \<Rightarrow>
          if c = CHR ''.''
          then (let ds = takeWhile (\<lambda>c. digit_val c \<noteq> None) cs
                in if ds = [] then None
                   else map_option (\<lambda>v. (v, dropWhile (\<lambda>c. digit_val c \<noteq> None) cs))
                          (digits_val 0 (take 9 (ds @ replicate 9 CHR ''0''))))
          else Some (0, s))"

definition parse_rfc3339 :: "string \<Rightarrow> gotime option" where
  "parse_rfc3339 s =
     (if length s < 20 \<or> s ! 4 \<noteq> CHR ''-'' \<or> s ! 7 \<noteq> CHR ''-'' \<or> s ! 10 \<noteq> CHR ''T''
         \<or> s ! 13 \<noteq> CHR '':'' \<or> s ! 16 \<noteq> CHR '':'' then None
      else (case (sub_val s 0 4, sub_val s 5 2, sub_val s 8 2) of
          (Some y, Some mo, Some d) \<Rightarrow>
            (case (sub_val s 11 2, sub_val s 14 2, sub_val s 17 2, parse_frac (drop 19 s)) of
               (Some hh, Some mi, Some sec, Some (ns, z)) \<Rightarrow>
                 (case parse_zone z of
                    None \<Rightarrow> None
                  | Some off \<Rightarrow>
                      if 1 \<le> mo \<and> mo \<le> 12 \<and> 1 \<le> d \<and> d \<le> days_in_month y mo
                         \<and> hh < 24 \<and> mi < 60 \<and> sec < 60
                      then Some \<lparr>t_sec = days_from_civil y mo d * 86400 + hh * 3600 + mi * 60 + sec - off,
                                 t_nsec = ns, t_off = off\<rparr>
                      else None)
             | _ \<Rightarrow> None)
        | _ \<Rightarrow> None))"

end
