(* ===== verification/Go_Json.thy ===== *)
theory Go_Json
  imports Go_Time "HOL-Library.AList" "HOL-Library.Char_ord" "HOL-Library.List_Lexorder"
begin

text \<open>
  JSON values and the part of \<^verbatim>\<open>encoding/json\<close> the workers use: decoding a value into a Go struct,
  field by field, and encoding a Go map.

  A value of type \<open>json\<close> is the result of scanning bytes; bytes that do not scan are \<open>RawBad\<close>.
  A number written as an integer literal is \<open>JInt\<close>, any other number keeps its text. A struct is
  decoded from an object by looking up each member's key among the struct's fields, first exactly
  and then ignoring case (which is how the untagged field \<^verbatim>\<open>Accreditation\<close> receives the member
  \<^verbatim>\<open>accreditation\<close>); members with no field are ignored, fields with no member keep their value, a
  member \<^verbatim>\<open>null\<close> leaves a non-pointer field unchanged and sets a pointer, slice or map to nil. A
  value of the wrong kind makes the whole decoding fail (\<open>None\<close>): the callers never look at the
  struct after a failed decoding. Keys are compared as ASCII.
\<close>

datatype json =
    JNull
  | JBool bool
  | JInt int
  | JNum string
  | JStr string
  | JArr "json list"
  | JObj "(string \<times> json) list"

datatype raw = RawBad | Raw json

section \<open>Decoding\<close>

type_synonym 'a decoder = "json \<Rightarrow> 'a \<Rightarrow> 'a option"
type_synonym 'r fieldspec = "string \<times> 'r decoder"

definition lower_char :: "char \<Rightarrow> char" where
  "lower_char c = (if 65 \<le> (of_char c :: nat) \<and> (of_char c :: nat) \<le> 90 then char_of (of_char c + 32 :: nat) else c)"

definition find_field :: "string \<Rightarrow> 'r fieldspec list \<Rightarrow> 'r decoder option" where
  "find_field k fs =
     (case map_of fs k of
        Some d \<Rightarrow> Some d
      | None \<Rightarrow> map_option snd (find (\<lambda>f. map lower_char (fst f) = map lower_char k) fs))"

fun decode_members :: "'r fieldspec list \<Rightarrow> (string \<times> json) list \<Rightarrow> 'r \<Rightarrow> 'r option" where
  "decode_members fs [] r = Some r"
| "decode_members fs ((k, v) # kvs) r =
     (case find_field k fs of
        None \<Rightarrow> decode_members fs kvs r
      | Some d \<Rightarrow> (case d v r of None \<Rightarrow> None | Some r' \<Rightarrow> decode_members fs kvs r'))"

definition dec_struct :: "'r fieldspec list \<Rightarrow> 'r decoder" where
  "dec_struct fs j r =
     (case j of JNull \<Rightarrow> Some r | JObj kvs \<Rightarrow> decode_members fs kvs r | _ \<Rightarrow> None)"

text \<open>A field of a record, from its selector, its update function and its decoder.\<close>

definition fld :: "('r \<Rightarrow> 'a) \<Rightarrow> (('a \<Rightarrow> 'a) \<Rightarrow> 'r \<Rightarrow> 'r) \<Rightarrow> 'a decoder \<Rightarrow> 'r decoder" where
  "fld sel upd d = (\<lambda>j r. map_option (\<lambda>x. upd (\<lambda>_. x) r) (d j (sel r)))"

fun dec_string :: "string decoder" where
  "dec_string JNull old = Some old"
| "dec_string (JStr s) old = Some s"
| "dec_string _ old = None"

fun dec_bool :: "bool decoder" where
  "dec_bool JNull old = Some old"
| "dec_bool (JBool b) old = Some b"
| "dec_bool _ old = None"

fun dec_u32 :: "u32 decoder" where
  "dec_u32 JNull old = Some old"
| "dec_u32 (JInt n) old = (if 0 \<le> n \<and> n < 2 ^ 32 then Some (word_of_int n) else None)"
| "dec_u32 _ old = None"

fun dec_i32 :: "i32 decoder" where
  "dec_i32 JNull old = Some old"
| "dec_i32 (JInt n) old = (if - (2 ^ 31) \<le> n \<and> n < 2 ^ 31 then Some (word_of_int n) else None)"
| "dec_i32 _ old = None"

text \<open>Go's \<^verbatim>\<open>int\<close> is 64 bits wide; its range is checked and its value kept as an integer.\<close>

fun dec_int :: "int decoder" where
  "dec_int JNull old = Some old"
| "dec_int (JInt n) old = (if - (2 ^ 63) \<le> n \<and> n < 2 ^ 63 then Some n else None)"
| "dec_int _ old = None"

fun dec_time :: "gotime decoder" where
  "dec_time JNull old = Some old"
| "dec_time (JStr s) old = parse_rfc3339 s"
| "dec_time _ old = None"

text \<open>A float is read by \<^verbatim>\<open>strconv.ParseFloat\<close>, a parameter here (binary64 arithmetic is opaque).\<close>

fun dec_f64 :: "(int \<Rightarrow> f64) \<Rightarrow> (string \<Rightarrow> f64 option) \<Rightarrow> f64 decoder" where
  "dec_f64 of_i of_s JNull old = Some old"
| "dec_f64 of_i of_s (JInt n) old = Some (of_i n)"
| "dec_f64 of_i of_s (JNum s) old = of_s s"
| "dec_f64 of_i of_s _ old = None"

text \<open>
  Decoding into \<^verbatim>\<open>interface{}\<close>: objects at every depth become Go maps, in which the last of several
  members with one key wins; they are kept sorted by key, the order in which they are written
  again. Numbers keep their text (Go passes them through a float64, which changes the text of
  integers beyond 2^53 and of fractions not in shortest form).
\<close>

fun any_value :: "json \<Rightarrow> json" where
  "any_value (JArr js) = JArr (map any_value js)"
| "any_value (JObj kvs) =
     JObj (sort_key fst (foldl (\<lambda>m (k, v). AList.update k v m) [] (map (\<lambda>(k, v). (k, any_value v)) kvs)))"
| "any_value j = j"

definition dec_any :: "json decoder" where
  "dec_any j old = Some (any_value j)"

definition dec_ptr :: "'a \<Rightarrow> 'a decoder \<Rightarrow> 'a option decoder" where
  "dec_ptr z d j old =
     (if j = JNull then Some None
      else map_option Some (d j (case old of None \<Rightarrow> z | Some x \<Rightarrow> x)))"

fun dec_elems :: "'a \<Rightarrow> 'a decoder \<Rightarrow> json list \<Rightarrow> 'a list option" where
  "dec_elems z d [] = Some []"
| "dec_elems z d (j # js) =
     (case d j z of
        None \<Rightarrow> None
      | Some x \<Rightarrow> (case dec_elems z d js of None \<Rightarrow> None | Some xs \<Rightarrow> Some (x # xs)))"

text \<open>Slices: \<^verbatim>\<open>null\<close> is the nil slice.\<close>

definition dec_slice :: "'a \<Rightarrow> 'a decoder \<Rightarrow> 'a list option decoder" where
  "dec_slice z d j old =
     (case j of JNull \<Rightarrow> Some None | JArr js \<Rightarrow> map_option Some (dec_elems z d js) | _ \<Rightarrow> None)"

text \<open>Maps with string keys, as association lists; \<^verbatim>\<open>null\<close> is the nil map.\<close>

fun dec_entries :: "'a \<Rightarrow> 'a decoder \<Rightarrow> (string \<times> json) list \<Rightarrow> (string \<times> 'a) list \<Rightarrow> (string \<times> 'a) list option" where
  "dec_entries z d [] m = Some m"
| "dec_entries z d ((k, v) # kvs) m =
     (case d v z of None \<Rightarrow> None | Some x \<Rightarrow> dec_entries z d kvs (AList.update k x m))"

definition dec_map :: "'a \<Rightarrow> 'a decoder \<Rightarrow> (string \<times> 'a) list option decoder" where
  "dec_map z d j old =
     (case j of
        JNull \<Rightarrow> Some None
      | JObj kvs \<Rightarrow> map_option Some (dec_entries z d kvs (case old of None \<Rightarrow> [] | Some m \<Rightarrow> m))
      | _ \<Rightarrow> None)"

text \<open>\<^verbatim>\<open>json.Unmarshal\<close> into a fresh struct.\<close>

definition unmarshal :: "'a decoder \<Rightarrow> 'a \<Rightarrow> raw \<Rightarrow> 'a option" where
  "unmarshal d z b = (case b of RawBad \<Rightarrow> None | Raw j \<Rightarrow> d j z)"

section \<open>Encoding\<close>

text \<open>\<^verbatim>\<open>json.Marshal\<close> of a map writes its entries sorted by key.\<close>

definition enc_map :: "(string \<times> json) list \<Rightarrow> json" where
  "enc_map m = JObj (sort_key fst m)"

definition enc_ptr :: "('a \<Rightarrow> json) \<Rightarrow> 'a option \<Rightarrow> json" where
  "enc_ptr f p = (case p of None \<Rightarrow> JNull | Some x \<Rightarrow> f x)"

text \<open>The text of a value, as \<^verbatim>\<open>json.Marshal\<close> writes it: compact, with HTML-escaped strings.\<close>

definition hex_digit :: "nat \<Rightarrow> char" where
  "hex_digit n = (if n < 10 then char_of (48 + n) else char_of (87 + n))"

definition esc_char :: "char \<Rightarrow> string" where
  "esc_char c =
     (let n = of_char c :: nat in
      if n = 34 then [CHR 0x5C, c] else if n = 92 then [CHR 0x5C, c]
      else if n = 10 then [CHR 0x5C, CHR ''n''] else if n = 13 then [CHR 0x5C, CHR ''r'']
      else if n = 9 then [CHR 0x5C, CHR ''t'']
      else if n < 32 \<or> n = 60 \<or> n = 62 \<or> n = 38
      then [CHR 0x5C, CHR ''u'', CHR ''0'', CHR ''0'', hex_digit (n div 16), hex_digit (n mod 16)]
      else [c])"

definition quote_string :: "string \<Rightarrow> string" where
  "quote_string s = [CHR 0x22] @ concat (map esc_char s) @ [CHR 0x22]"

fun nat_text :: "nat \<Rightarrow> string" where
  "nat_text n = (if n < 10 then [char_of (48 + n)] else nat_text (n div 10) @ [char_of (48 + n mod 10)])"

declare nat_text.simps [simp del]

definition int_text :: "int \<Rightarrow> string" where
  "int_text i = (if i < 0 then CHR ''-'' # nat_text (nat (- i)) else nat_text (nat i))"

fun commas :: "string list \<Rightarrow> string" where
  "commas [] = []"
| "commas [x] = x"
| "commas (x # xs) = x @ '','' @ commas xs"

fun json_print :: "json \<Rightarrow> string" where
  "json_print JNull = ''null''"
| "json_print (JBool b) = (if b then ''true'' else ''false'')"
| "json_print (JInt i) = int_text i"
| "json_print (JNum s) = s"
| "json_print (JStr s) = quote_string s"
| "json_print (JArr js) = ''['' @ commas (map json_print js) @ '']''"
| "json_print (JObj kvs) =
     ''{'' @ commas (map (\<lambda>(k, v). quote_string k @ '':'' @ json_print v) kvs) @ ''}''"

section \<open>Facts\<close>

lemma find_field_exact: "map_of fs k = Some d \<Longrightarrow> find_field k fs = Some d"
  by (simp add: find_field_def)

lemma alist_update_new: "k \<notin> fst ` set m \<Longrightarrow> AList.update k v m = m @ [(k, v)]"
  by (induction m) auto

lemma dec_elems_map:
  assumes "\<And>x. x \<in> set xs \<Longrightarrow> d (e x) z = Some x"
  shows "dec_elems z d (map e xs) = Some xs"
  using assms by (induction xs) auto

lemma dec_elems_length: "dec_elems z d js = Some xs \<Longrightarrow> length xs = length js"
  by (induction js arbitrary: xs) (auto split: option.splits)

lemma decode_members_append:
  "decode_members fs (xs @ ys) r =
     (case decode_members fs xs r of None \<Rightarrow> None | Some r' \<Rightarrow> decode_members fs ys r')"
  by (induction fs xs r rule: decode_members.induct) (auto split: option.splits)

text \<open>A member no field answers to does not change what is decoded.\<close>

lemma decode_members_ignores:
  "find_field k fs = None \<Longrightarrow>
   decode_members fs (xs @ (k, v) # ys) r = decode_members fs (xs @ ys) r"
  by (simp add: decode_members_append split: option.splits)

end
