(* ===== verification/Model_Rows.thy ===== *)
theory Model_Rows
  imports Go_Json
begin

text \<open>
  The rows of the database tables and views the workers read and write, one record per Go struct of
  \<^verbatim>\<open>pkg/database/model\<close>, with the struct's fields in its order. Field names carry a short prefix of the
  struct. A pointer field is an \<^verbatim>\<open>option\<close>, a \<^verbatim>\<open>JSONText\<close> column is \<open>raw\<close>, a nullable array is an optional
  list. Each record comes with the struct's zero value, from which the handlers build the partial
  rows they hand to the database layer.
\<close>

record VJob =
  vj_JobID :: "string option"
  vj_JobParentID :: "string option"
  vj_TenantCustomerID :: "string option"
  vj_JobStatusName :: "string option"
  vj_JobTypeName :: "string option"
  vj_CreatedDate :: "gotime option"
  vj_StartDate :: "gotime option"
  vj_EndDate :: "gotime option"
  vj_RetryDate :: "gotime option"
  vj_RetryCount :: "i32 option"
  vj_ReferenceID :: "string option"
  vj_ReferenceTable :: "string option"
  vj_ResultMsg :: "string option"
  vj_ResultData :: raw
  vj_Data :: raw
  vj_TenantCustomer :: raw
  vj_RoutingKey :: "string option"
  vj_JobStatusIsFinal :: "bool option"
  vj_EventID :: "string option"

definition zero_VJob :: VJob where
  "zero_VJob =
     \<lparr>vj_JobID = None,
      vj_JobParentID = None,
      vj_TenantCustomerID = None,
      vj_JobStatusName = None,
      vj_JobTypeName = None,
      vj_CreatedDate = None,
      vj_StartDate = None,
      vj_EndDate = None,
      vj_RetryDate = None,
      vj_RetryCount = None,
      vj_ReferenceID = None,
      vj_ReferenceTable = None,
      vj_ResultMsg = None,
      vj_ResultData = RawBad,
      vj_Data = RawBad,
      vj_TenantCustomer = RawBad,
      vj_RoutingKey = None,
      vj_JobStatusIsFinal = None,
      vj_EventID = None\<rparr>"

record Job =
  job_CreatedDate :: gotime
  job_UpdatedDate :: "gotime option"
  job_CreatedBy :: string
  job_UpdatedBy :: "string option"
  job_ID :: string
  job_TenantCustomerID :: "string option"
  job_TypeID :: string
  job_StatusID :: string
  job_StartDate :: "gotime option"
  job_EndDate :: "gotime option"
  job_RetryDate :: "gotime option"
  job_RetryCount :: "i32 option"
  job_ReferenceID :: "string option"
  job_Data :: raw
  job_ResultMessage :: "string option"
  job_ResultData :: raw
  job_EventID :: "string option"
  job_Info :: "VJob option"

definition zero_Job :: Job where
  "zero_Job =
     \<lparr>job_CreatedDate = zero_time,
      job_UpdatedDate = None,
      job_CreatedBy = [],
      job_UpdatedBy = None,
      job_ID = [],
      job_TenantCustomerID = None,
      job_TypeID = [],
      job_StatusID = [],
      job_StartDate = None,
      job_EndDate = None,
      job_RetryDate = None,
      job_RetryCount = None,
      job_ReferenceID = None,
      job_Data = RawBad,
      job_ResultMessage = None,
      job_ResultData = RawBad,
      job_EventID = None,
      job_Info = None\<rparr>"

record ProvisionDomain =
  pd_CreatedDate :: "gotime option"
  pd_UpdatedDate :: "gotime option"
  pd_CreatedBy :: "string option"
  pd_UpdatedBy :: "string option"
  pd_ID :: string
  pd_AccreditationID :: string
  pd_TenantCustomerID :: string
  pd_ProvisionedDate :: "gotime option"
  pd_StatusID :: string
  pd_Roid :: "string option"
  pd_JobID :: "string option"
  pd_OrderItemPlanIds :: "string option"
  pd_ResultMessage :: "string option"
  pd_ResultData :: "raw option"
  pd_DomainName :: string
  pd_RegistrationPeriod :: i32
  pd_Pw :: string
  pd_IsComplete :: bool
  pd_AccreditationTldID :: string
  pd_RyCreatedDate :: "gotime option"
  pd_RyExpiryDate :: "gotime option"
  pd_AutoRenew :: bool
  pd_OrderMetadata :: "string option"
  pd_RyCltrid :: "string option"
  pd_AttemptCount :: "i32 option"
  pd_AllowedAttempts :: "i32 option"

definition zero_ProvisionDomain :: ProvisionDomain where
  "zero_ProvisionDomain =
     \<lparr>pd_CreatedDate = None,
      pd_UpdatedDate = None,
      pd_CreatedBy = None,
      pd_UpdatedBy = None,
      pd_ID = [],
      pd_AccreditationID = [],
      pd_TenantCustomerID = [],
      pd_ProvisionedDate = None,
      pd_StatusID = [],
      pd_Roid = None,
      pd_JobID = None,
      pd_OrderItemPlanIds = None,
      pd_ResultMessage = None,
      pd_ResultData = None,
      pd_DomainName = [],
      pd_RegistrationPeriod = 0,
      pd_Pw = [],
      pd_IsComplete = False,
      pd_AccreditationTldID = [],
      pd_RyCreatedDate = None,
      pd_RyExpiryDate = None,
      pd_AutoRenew = False,
      pd_OrderMetadata = None,
      pd_RyCltrid = None,
      pd_AttemptCount = None,
      pd_AllowedAttempts = None\<rparr>"

record ProvisionDomainUpdate =
  pdu_CreatedDate :: "gotime option"
  pdu_UpdatedDate :: "gotime option"
  pdu_CreatedBy :: "string option"
  pdu_UpdatedBy :: "string option"
  pdu_ID :: string
  pdu_TenantCustomerID :: string
  pdu_ProvisionedDate :: "gotime option"
  pdu_StatusID :: string
  pdu_Roid :: "string option"
  pdu_JobID :: "string option"
  pdu_OrderItemPlanIds :: "string option"
  pdu_ResultMessage :: "string option"
  pdu_ResultData :: "string option"
  pdu_DomainName :: string
  pdu_AuthInfo :: "string option"
  pdu_Hosts :: "string option"
  pdu_AccreditationID :: string
  pdu_AccreditationTldID :: string
  pdu_IsComplete :: bool
  pdu_AutoRenew :: "bool option"
  pdu_OrderMetadata :: "string option"
  pdu_RyCltrid :: "string option"
  pdu_DomainID :: "string option"

definition zero_ProvisionDomainUpdate :: ProvisionDomainUpdate where
  "zero_ProvisionDomainUpdate =
     \<lparr>pdu_CreatedDate = None,
      pdu_UpdatedDate = None,
      pdu_CreatedBy = None,
      pdu_UpdatedBy = None,
      pdu_ID = [],
      pdu_TenantCustomerID = [],
      pdu_ProvisionedDate = None,
      pdu_StatusID = [],
      pdu_Roid = None,
      pdu_JobID = None,
      pdu_OrderItemPlanIds = None,
      pdu_ResultMessage = None,
      pdu_ResultData = None,
      pdu_DomainName = [],
      pdu_AuthInfo = None,
      pdu_Hosts = None,
      pdu_AccreditationID = [],
      pdu_AccreditationTldID = [],
      pdu_IsComplete = False,
      pdu_AutoRenew = None,
      pdu_OrderMetadata = None,
      pdu_RyCltrid = None,
      pdu_DomainID = None\<rparr>"

record ProvisionDomainDelete =
  pdd_CreatedDate :: "gotime option"
  pdd_UpdatedDate :: "gotime option"
  pdd_CreatedBy :: "string option"
  pdd_UpdatedBy :: "string option"
  pdd_ID :: string
  pdd_TenantCustomerID :: string
  pdd_ProvisionedDate :: "gotime option"
  pdd_StatusID :: string
  pdd_Roid :: "string option"
  pdd_JobID :: "string option"
  pdd_OrderItemPlanIds :: "string option"
  pdd_ResultMessage :: "string option"
  pdd_ResultData :: "string option"
  pdd_DomainID :: "string option"
  pdd_AccreditationID :: string
  pdd_OrderMetadata :: "string option"
  pdd_RyCltrid :: "string option"
  pdd_DomainName :: string
  pdd_InRedemptionGracePeriod :: bool
  pdd_IsComplete :: bool
  pdd_Hosts :: "string list option"
  pdd_AttemptCount :: "i32 option"
  pdd_AllowedAttempts :: "i32 option"

definition zero_ProvisionDomainDelete :: ProvisionDomainDelete where
  "zero_ProvisionDomainDelete =
     \<lparr>pdd_CreatedDate = None,
      pdd_UpdatedDate = None,
      pdd_CreatedBy = None,
      pdd_UpdatedBy = None,
      pdd_ID = [],
      pdd_TenantCustomerID = [],
      pdd_ProvisionedDate = None,
      pdd_StatusID = [],
      pdd_Roid = None,
      pdd_JobID = None,
      pdd_OrderItemPlanIds = None,
      pdd_ResultMessage = None,
      pdd_ResultData = None,
      pdd_DomainID = None,
      pdd_AccreditationID = [],
      pdd_OrderMetadata = None,
      pdd_RyCltrid = None,
      pdd_DomainName = [],
      pdd_InRedemptionGracePeriod = False,
      pdd_IsComplete = False,
      pdd_Hosts = None,
      pdd_AttemptCount = None,
      pdd_AllowedAttempts = None\<rparr>"

record ProvisionDomainRenew =
  pdrn_CreatedDate :: "gotime option"
  pdrn_UpdatedDate :: "gotime option"
  pdrn_CreatedBy :: "string option"
  pdrn_UpdatedBy :: "string option"
  pdrn_ID :: string
  pdrn_TenantCustomerID :: string
  pdrn_ProvisionedDate :: "gotime option"
  pdrn_StatusID :: string
  pdrn_Roid :: "string option"
  pdrn_JobID :: "string option"
  pdrn_OrderItemPlanIds :: "string option"
  pdrn_ResultMessage :: "string option"
  pdrn_ResultData :: "string option"
  pdrn_DomainID :: "string option"
  pdrn_AccreditationID :: string
  pdrn_Period :: "i32 option"
  pdrn_CurrentExpiryDate :: gotime
  pdrn_IsAuto :: bool
  pdrn_RyExpiryDate :: "gotime option"
  pdrn_OrderMetadata :: "string option"
  pdrn_RyCltrid :: "string option"
  pdrn_DomainName :: string
  pdrn_AttemptCount :: "i32 option"
  pdrn_AllowedAttempts :: "i32 option"

definition zero_ProvisionDomainRenew :: ProvisionDomainRenew where
  "zero_ProvisionDomainRenew =
     \<lparr>pdrn_CreatedDate = None,
      pdrn_UpdatedDate = None,
      pdrn_CreatedBy = None,
      pdrn_UpdatedBy = None,
      pdrn_ID = [],
      pdrn_TenantCustomerID = [],
      pdrn_ProvisionedDate = None,
      pdrn_StatusID = [],
      pdrn_Roid = None,
      pdrn_JobID = None,
      pdrn_OrderItemPlanIds = None,
      pdrn_ResultMessage = None,
      pdrn_ResultData = None,
      pdrn_DomainID = None,
      pdrn_AccreditationID = [],
      pdrn_Period = None,
      pdrn_CurrentExpiryDate = zero_time,
      pdrn_IsAuto = False,
      pdrn_RyExpiryDate = None,
      pdrn_OrderMetadata = None,
      pdrn_RyCltrid = None,
      pdrn_DomainName = [],
      pdrn_AttemptCount = None,
      pdrn_AllowedAttempts = None\<rparr>"

record ProvisionDomainRedeem =
  pdrd_CreatedDate :: "gotime option"
  pdrd_UpdatedDate :: "gotime option"
  pdrd_CreatedBy :: "string option"
  pdrd_UpdatedBy :: "string option"
  pdrd_ID :: string
  pdrd_TenantCustomerID :: string
  pdrd_ProvisionedDate :: "gotime option"
  pdrd_StatusID :: string
  pdrd_Roid :: "string option"
  pdrd_JobID :: "string option"
  pdrd_OrderItemPlanIds :: "string option"
  pdrd_ResultMessage :: "string option"
  pdrd_ResultData :: "string option"
  pdrd_DomainName :: string
  pdrd_DomainID :: "string option"
  pdrd_AccreditationID :: string
  pdrd_OrderMetadata :: "string option"
  pdrd_RyCltrid :: "string option"
  pdrd_RyExpiryDate :: gotime
  pdrd_AttemptCount :: "i32 option"
  pdrd_AllowedAttempts :: "i32 option"
  pdrd_InRestorePendingStatus :: "bool option"

definition zero_ProvisionDomainRedeem :: ProvisionDomainRedeem where
  "zero_ProvisionDomainRedeem =
     \<lparr>pdrd_CreatedDate = None,
      pdrd_UpdatedDate = None,
      pdrd_CreatedBy = None,
      pdrd_UpdatedBy = None,
      pdrd_ID = [],
      pdrd_TenantCustomerID = [],
      pdrd_ProvisionedDate = None,
      pdrd_StatusID = [],
      pdrd_Roid = None,
      pdrd_JobID = None,
      pdrd_OrderItemPlanIds = None,
      pdrd_ResultMessage = None,
      pdrd_ResultData = None,
      pdrd_DomainName = [],
      pdrd_DomainID = None,
      pdrd_AccreditationID = [],
      pdrd_OrderMetadata = None,
      pdrd_RyCltrid = None,
      pdrd_RyExpiryDate = zero_time,
      pdrd_AttemptCount = None,
      pdrd_AllowedAttempts = None,
      pdrd_InRestorePendingStatus = None\<rparr>"

record ProvisionDomainTransferIn =
  pdti_CreatedDate :: "gotime option"
  pdti_UpdatedDate :: "gotime option"
  pdti_CreatedBy :: "string option"
  pdti_UpdatedBy :: "string option"
  pdti_ID :: string
  pdti_TenantCustomerID :: string
  pdti_ProvisionedDate :: "gotime option"
  pdti_StatusID :: string
  pdti_Roid :: "string option"
  pdti_JobID :: "string option"
  pdti_OrderItemPlanIds :: "string option"
  pdti_OrderMetadata :: "string option"
  pdti_ResultMessage :: "string option"
  pdti_ResultData :: "string option"
  pdti_DomainName :: string
  pdti_AccreditationID :: string
  pdti_AccreditationTldID :: string
  pdti_ProvisionTransferRequestID :: "string option"
  pdti_Pw :: "string option"
  pdti_RyCreatedDate :: "gotime option"
  pdti_RyExpiryDate :: "gotime option"
  pdti_RyUpdatedDate :: "gotime option"
  pdti_RyTransferedDate :: "gotime option"
  pdti_Hosts :: "(string list option) option"
  pdti_Tags :: "string option"
  pdti_Metadata :: "string option"
  pdti_SecdnsType :: "string option"
  pdti_Uname :: "string option"
  pdti_Language :: "string option"
  pdti_AttemptCount :: "i32 option"
  pdti_AllowedAttempts :: "i32 option"

definition zero_ProvisionDomainTransferIn :: ProvisionDomainTransferIn where
  "zero_ProvisionDomainTransferIn =
     \<lparr>pdti_CreatedDate = None,
      pdti_UpdatedDate = None,
      pdti_CreatedBy = None,
      pdti_UpdatedBy = None,
      pdti_ID = [],
      pdti_TenantCustomerID = [],
      pdti_ProvisionedDate = None,
      pdti_StatusID = [],
      pdti_Roid = None,
      pdti_JobID = None,
      pdti_OrderItemPlanIds = None,
      pdti_OrderMetadata = None,
      pdti_ResultMessage = None,
      pdti_ResultData = None,
      pdti_DomainName = [],
      pdti_AccreditationID = [],
      pdti_AccreditationTldID = [],
      pdti_ProvisionTransferRequestID = None,
      pdti_Pw = None,
      pdti_RyCreatedDate = None,
      pdti_RyExpiryDate = None,
      pdti_RyUpdatedDate = None,
      pdti_RyTransferedDate = None,
      pdti_Hosts = None,
      pdti_Tags = None,
      pdti_Metadata = None,
      pdti_SecdnsType = None,
      pdti_Uname = None,
      pdti_Language = None,
      pdti_AttemptCount = None,
      pdti_AllowedAttempts = None\<rparr>"

record ProvisionDomainTransferInRequest =
  pdtr_CreatedDate :: "gotime option"
  pdtr_UpdatedDate :: "gotime option"
  pdtr_CreatedBy :: "string option"
  pdtr_UpdatedBy :: "string option"
  pdtr_ID :: string
  pdtr_TenantCustomerID :: string
  pdtr_ProvisionedDate :: "gotime option"
  pdtr_StatusID :: string
  pdtr_Roid :: "string option"
  pdtr_JobID :: "string option"
  pdtr_OrderItemPlanIds :: "string option"
  pdtr_OrderMetadata :: "string option"
  pdtr_ResultMessage :: "string option"
  pdtr_ResultData :: "string option"
  pdtr_DomainName :: string
  pdtr_AccreditationID :: string
  pdtr_AccreditationTldID :: string
  pdtr_Pw :: "string option"
  pdtr_TransferPeriod :: i32
  pdtr_TransferStatusID :: string
  pdtr_RequestedBy :: "string option"
  pdtr_RequestedDate :: "gotime option"
  pdtr_ActionBy :: "string option"
  pdtr_ActionDate :: "gotime option"
  pdtr_ExpiryDate :: "gotime option"
  pdtr_AttemptCount :: "i32 option"
  pdtr_AllowedAttempts :: "i32 option"

definition zero_ProvisionDomainTransferInRequest :: ProvisionDomainTransferInRequest where
  "zero_ProvisionDomainTransferInRequest =
     \<lparr>pdtr_CreatedDate = None,
      pdtr_UpdatedDate = None,
      pdtr_CreatedBy = None,
      pdtr_UpdatedBy = None,
      pdtr_ID = [],
      pdtr_TenantCustomerID = [],
      pdtr_ProvisionedDate = None,
      pdtr_StatusID = [],
      pdtr_Roid = None,
      pdtr_JobID = None,
      pdtr_OrderItemPlanIds = None,
      pdtr_OrderMetadata = None,
      pdtr_ResultMessage = None,
      pdtr_ResultData = None,
      pdtr_DomainName = [],
      pdtr_AccreditationID = [],
      pdtr_AccreditationTldID = [],
      pdtr_Pw = None,
      pdtr_TransferPeriod = 0,
      pdtr_TransferStatusID = [],
      pdtr_RequestedBy = None,
      pdtr_RequestedDate = None,
      pdtr_ActionBy = None,
      pdtr_ActionDate = None,
      pdtr_ExpiryDate = None,
      pdtr_AttemptCount = None,
      pdtr_AllowedAttempts = None\<rparr>"

record OrderItemTransferAwayDomain =
  ota_CreatedDate :: "gotime option"
  ota_UpdatedDate :: "gotime option"
  ota_CreatedBy :: "string option"
  ota_UpdatedBy :: "string option"
  ota_ID :: "string option"
  ota_OrderID :: string
  ota_StatusID :: string
  ota_ParentOrderItemID :: "string option"
  ota_DomainID :: "string option"
  ota_Name :: string
  ota_TransferStatusID :: string
  ota_RequestedBy :: string
  ota_RequestedDate :: gotime
  ota_ActionBy :: string
  ota_ActionDate :: gotime
  ota_ExpiryDate :: gotime
  ota_AccreditationTldID :: "string option"

definition zero_OrderItemTransferAwayDomain :: OrderItemTransferAwayDomain where
  "zero_OrderItemTransferAwayDomain =
     \<lparr>ota_CreatedDate = None,
      ota_UpdatedDate = None,
      ota_CreatedBy = None,
      ota_UpdatedBy = None,
      ota_ID = None,
      ota_OrderID = [],
      ota_StatusID = [],
      ota_ParentOrderItemID = None,
      ota_DomainID = None,
      ota_Name = [],
      ota_TransferStatusID = [],
      ota_RequestedBy = [],
      ota_RequestedDate = zero_time,
      ota_ActionBy = [],
      ota_ActionDate = zero_time,
      ota_ExpiryDate = zero_time,
      ota_AccreditationTldID = None\<rparr>"

record OrderItemUpdateHostingCertificate =
  ouhc_CreatedDate :: "gotime option"
  ouhc_UpdatedDate :: "gotime option"
  ouhc_CreatedBy :: "string option"
  ouhc_UpdatedBy :: "string option"
  ouhc_ID :: string
  ouhc_Body :: string
  ouhc_Chain :: "string option"
  ouhc_PrivateKey :: string
  ouhc_NotBefore :: gotime
  ouhc_NotAfter :: gotime

definition zero_OrderItemUpdateHostingCertificate :: OrderItemUpdateHostingCertificate where
  "zero_OrderItemUpdateHostingCertificate =
     \<lparr>ouhc_CreatedDate = None,
      ouhc_UpdatedDate = None,
      ouhc_CreatedBy = None,
      ouhc_UpdatedBy = None,
      ouhc_ID = [],
      ouhc_Body = [],
      ouhc_Chain = None,
      ouhc_PrivateKey = [],
      ouhc_NotBefore = zero_time,
      ouhc_NotAfter = zero_time\<rparr>"

record OrderItemUpdateHosting =
  ouh_CreatedDate :: "gotime option"
  ouh_UpdatedDate :: "gotime option"
  ouh_CreatedBy :: "string option"
  ouh_UpdatedBy :: "string option"
  ouh_ID :: string
  ouh_OrderID :: string
  ouh_StatusID :: string
  ouh_ParentOrderItemID :: "string option"
  ouh_HostingID :: string
  ouh_IsActive :: "bool option"
  ouh_CertificateID :: "string option"
  ouh_Certificate :: "OrderItemUpdateHostingCertificate option"

definition zero_OrderItemUpdateHosting :: OrderItemUpdateHosting where
  "zero_OrderItemUpdateHosting =
     \<lparr>ouh_CreatedDate = None,
      ouh_UpdatedDate = None,
      ouh_CreatedBy = None,
      ouh_UpdatedBy = None,
      ouh_ID = [],
      ouh_OrderID = [],
      ouh_StatusID = [],
      ouh_ParentOrderItemID = None,
      ouh_HostingID = [],
      ouh_IsActive = None,
      ouh_CertificateID = None,
      ouh_Certificate = None\<rparr>"

record Order =
  ord_CreatedDate :: "gotime option"
  ord_UpdatedDate :: "gotime option"
  ord_CreatedBy :: "string option"
  ord_UpdatedBy :: "string option"
  ord_ID :: string
  ord_TenantCustomerID :: string
  ord_TypeID :: string
  ord_CustomerUserID :: "string option"
  ord_PathID :: string
  ord_StatusID :: string
  ord_Metadata :: "string option"
  ord_OrderItemTransferAwayDomain :: OrderItemTransferAwayDomain
  ord_OrderItemUpdateHosting :: OrderItemUpdateHosting

definition zero_Order :: Order where
  "zero_Order =
     \<lparr>ord_CreatedDate = None,
      ord_UpdatedDate = None,
      ord_CreatedBy = None,
      ord_UpdatedBy = None,
      ord_ID = [],
      ord_TenantCustomerID = [],
      ord_TypeID = [],
      ord_CustomerUserID = None,
      ord_PathID = [],
      ord_StatusID = [],
      ord_Metadata = None,
      ord_OrderItemTransferAwayDomain = zero_OrderItemTransferAwayDomain,
      ord_OrderItemUpdateHosting = zero_OrderItemUpdateHosting\<rparr>"

record OrderItemCreateDomain =
  ocd_CreatedDate :: "gotime option"
  ocd_UpdatedDate :: "gotime option"
  ocd_CreatedBy :: "string option"
  ocd_UpdatedBy :: "string option"
  ocd_ID :: string
  ocd_OrderID :: string
  ocd_StatusID :: string
  ocd_ParentOrderItemID :: "string option"
  ocd_Name :: string
  ocd_RegistrationPeriod :: i32
  ocd_AccreditationTldID :: string
  ocd_AutoRenew :: bool
  ocd_Locks :: "string option"
  ocd_LaunchData :: "string option"
  ocd_AuthInfo :: "string option"
  ocd_SecdnsMaxSigLife :: "i32 option"
  ocd_Tags :: "string option"
  ocd_Metadata :: "string option"

definition zero_OrderItemCreateDomain :: OrderItemCreateDomain where
  "zero_OrderItemCreateDomain =
     \<lparr>ocd_CreatedDate = None,
      ocd_UpdatedDate = None,
      ocd_CreatedBy = None,
      ocd_UpdatedBy = None,
      ocd_ID = [],
      ocd_OrderID = [],
      ocd_StatusID = [],
      ocd_ParentOrderItemID = None,
      ocd_Name = [],
      ocd_RegistrationPeriod = 0,
      ocd_AccreditationTldID = [],
      ocd_AutoRenew = False,
      ocd_Locks = None,
      ocd_LaunchData = None,
      ocd_AuthInfo = None,
      ocd_SecdnsMaxSigLife = None,
      ocd_Tags = None,
      ocd_Metadata = None\<rparr>"

record VDomain =
  vd_CreatedDate :: "gotime option"
  vd_UpdatedDate :: "gotime option"
  vd_CreatedBy :: "string option"
  vd_UpdatedBy :: "string option"
  vd_ID :: "string option"
  vd_TenantCustomerID :: "string option"
  vd_AccreditationTldID :: "string option"
  vd_Name :: "string option"
  vd_AuthInfo :: "string option"
  vd_Roid :: "string option"
  vd_RyCreatedDate :: "gotime option"
  vd_RyExpiryDate :: "gotime option"
  vd_RyUpdatedDate :: "gotime option"
  vd_RyTransferedDate :: "gotime option"
  vd_DeletedDate :: "gotime option"
  vd_ExpiryDate :: "gotime option"
  vd_AutoRenew :: "bool option"
  vd_Metadata :: "string option"
  vd_RgpStatusID :: "string option"
  vd_RgpEppStatus :: "string option"

definition zero_VDomain :: VDomain where
  "zero_VDomain =
     \<lparr>vd_CreatedDate = None,
      vd_UpdatedDate = None,
      vd_CreatedBy = None,
      vd_UpdatedBy = None,
      vd_ID = None,
      vd_TenantCustomerID = None,
      vd_AccreditationTldID = None,
      vd_Name = None,
      vd_AuthInfo = None,
      vd_Roid = None,
      vd_RyCreatedDate = None,
      vd_RyExpiryDate = None,
      vd_RyUpdatedDate = None,
      vd_RyTransferedDate = None,
      vd_DeletedDate = None,
      vd_ExpiryDate = None,
      vd_AutoRenew = None,
      vd_Metadata = None,
      vd_RgpStatusID = None,
      vd_RgpEppStatus = None\<rparr>"

record OrderItemPlan =
  oip_ID :: string
  oip_OrderItemID :: string
  oip_ParentID :: "string option"
  oip_StatusID :: string
  oip_ValidationStatusID :: string
  oip_OrderItemObjectID :: string
  oip_ReferenceID :: "string option"
  oip_ResultMessage :: "string option"
  oip_ResultData :: "string option"
  oip_ValidationData :: "string option"
  oip_ProvisionOrder :: "i32 option"
  oip_CreatedDate :: "gotime option"
  oip_UpdatedDate :: "gotime option"
  oip_CreatedBy :: "string option"
  oip_UpdatedBy :: "string option"

definition zero_OrderItemPlan :: OrderItemPlan where
  "zero_OrderItemPlan =
     \<lparr>oip_ID = [],
      oip_OrderItemID = [],
      oip_ParentID = None,
      oip_StatusID = [],
      oip_ValidationStatusID = [],
      oip_OrderItemObjectID = [],
      oip_ReferenceID = None,
      oip_ResultMessage = None,
      oip_ResultData = None,
      oip_ValidationData = None,
      oip_ProvisionOrder = None,
      oip_CreatedDate = None,
      oip_UpdatedDate = None,
      oip_CreatedBy = None,
      oip_UpdatedBy = None\<rparr>"

record TransferInDomainSecdnsDsDatum =
  tds_ID :: string
  tds_KeyTag :: u32
  tds_Algorithm :: u32
  tds_DigestType :: u32
  tds_Digest :: string
  tds_KeyDataID :: "string option"
  tds_ProvisionDomainTransferInID :: string

definition zero_TransferInDomainSecdnsDsDatum :: TransferInDomainSecdnsDsDatum where
  "zero_TransferInDomainSecdnsDsDatum =
     \<lparr>tds_ID = [],
      tds_KeyTag = 0,
      tds_Algorithm = 0,
      tds_DigestType = 0,
      tds_Digest = [],
      tds_KeyDataID = None,
      tds_ProvisionDomainTransferInID = []\<rparr>"

record TransferInDomainSecdnsKeyDatum =
  tky_ID :: string
  tky_Flags :: u32
  tky_Protocol :: u32
  tky_Algorithm :: u32
  tky_PublicKey :: string
  tky_ProvisionDomainTransferInID :: string

definition zero_TransferInDomainSecdnsKeyDatum :: TransferInDomainSecdnsKeyDatum where
  "zero_TransferInDomainSecdnsKeyDatum =
     \<lparr>tky_ID = [],
      tky_Flags = 0,
      tky_Protocol = 0,
      tky_Algorithm = 0,
      tky_PublicKey = [],
      tky_ProvisionDomainTransferInID = []\<rparr>"

record HostAddr =
  had_CreatedDate :: "gotime option"
  had_UpdatedDate :: "gotime option"
  had_CreatedBy :: "string option"
  had_UpdatedBy :: "string option"
  had_ID :: string
  had_HostID :: string
  had_Address :: "string option"

definition zero_HostAddr :: HostAddr where
  "zero_HostAddr =
     \<lparr>had_CreatedDate = None,
      had_UpdatedDate = None,
      had_CreatedBy = None,
      had_UpdatedBy = None,
      had_ID = [],
      had_HostID = [],
      had_Address = None\<rparr>"

record Host =
  hst_CreatedDate :: "gotime option"
  hst_UpdatedDate :: "gotime option"
  hst_CreatedBy :: "string option"
  hst_UpdatedBy :: "string option"
  hst_ID :: string
  hst_TenantCustomerID :: string
  hst_Name :: string
  hst_DomainID :: "string option"
  hst_Metadata :: "string option"
  hst_HostAddrs :: "HostAddr list option"

definition zero_Host :: Host where
  "zero_Host =
     \<lparr>hst_CreatedDate = None,
      hst_UpdatedDate = None,
      hst_CreatedBy = None,
      hst_UpdatedBy = None,
      hst_ID = [],
      hst_TenantCustomerID = [],
      hst_Name = [],
      hst_DomainID = None,
      hst_Metadata = None,
      hst_HostAddrs = None\<rparr>"

record DomainHost =
  dh_CreatedDate :: "gotime option"
  dh_UpdatedDate :: "gotime option"
  dh_CreatedBy :: "string option"
  dh_UpdatedBy :: "string option"
  dh_ID :: string
  dh_DomainID :: string
  dh_HostID :: string
  dh_Host :: Host

definition zero_DomainHost :: DomainHost where
  "zero_DomainHost =
     \<lparr>dh_CreatedDate = None,
      dh_UpdatedDate = None,
      dh_CreatedBy = None,
      dh_UpdatedBy = None,
      dh_ID = [],
      dh_DomainID = [],
      dh_HostID = [],
      dh_Host = zero_Host\<rparr>"

record DomainContactRow =
  dcw_CreatedDate :: "gotime option"
  dcw_UpdatedDate :: "gotime option"
  dcw_CreatedBy :: "string option"
  dcw_UpdatedBy :: "string option"
  dcw_ID :: string
  dcw_DomainID :: string
  dcw_ContactID :: string
  dcw_DomainContactTypeID :: string
  dcw_IsLocalPresence :: bool
  dcw_IsPrivacyProxy :: bool
  dcw_Handle :: string

definition zero_DomainContactRow :: DomainContactRow where
  "zero_DomainContactRow =
     \<lparr>dcw_CreatedDate = None,
      dcw_UpdatedDate = None,
      dcw_CreatedBy = None,
      dcw_UpdatedBy = None,
      dcw_ID = [],
      dcw_DomainID = [],
      dcw_ContactID = [],
      dcw_DomainContactTypeID = [],
      dcw_IsLocalPresence = False,
      dcw_IsPrivacyProxy = False,
      dcw_Handle = []\<rparr>"

record Domain =
  dom_CreatedDate :: "gotime option"
  dom_UpdatedDate :: "gotime option"
  dom_CreatedBy :: "string option"
  dom_UpdatedBy :: "string option"
  dom_ID :: string
  dom_TenantCustomerID :: string
  dom_AccreditationTldID :: "string option"
  dom_Name :: string
  dom_AuthInfo :: "string option"
  dom_Roid :: "string option"
  dom_RyCreatedDate :: gotime
  dom_RyExpiryDate :: gotime
  dom_RyUpdatedDate :: "gotime option"
  dom_RyTransferedDate :: "gotime option"
  dom_DeletedDate :: "gotime option"
  dom_ExpiryDate :: gotime
  dom_AutoRenew :: bool
  dom_Metadata :: "string option"
  dom_DomainHosts :: "DomainHost list option"
  dom_DomainContacts :: "DomainContactRow list option"

definition zero_Domain :: Domain where
  "zero_Domain =
     \<lparr>dom_CreatedDate = None,
      dom_UpdatedDate = None,
      dom_CreatedBy = None,
      dom_UpdatedBy = None,
      dom_ID = [],
      dom_TenantCustomerID = [],
      dom_AccreditationTldID = None,
      dom_Name = [],
      dom_AuthInfo = None,
      dom_Roid = None,
      dom_RyCreatedDate = zero_time,
      dom_RyExpiryDate = zero_time,
      dom_RyUpdatedDate = None,
      dom_RyTransferedDate = None,
      dom_DeletedDate = None,
      dom_ExpiryDate = zero_time,
      dom_AutoRenew = False,
      dom_Metadata = None,
      dom_DomainHosts = None,
      dom_DomainContacts = None\<rparr>"

record VAttribute =
  vat_TenantID :: "string option"
  vat_TenantName :: "string option"
  vat_TldName :: "string option"
  vat_TldID :: "string option"
  vat_Path :: "string option"
  vat_CategoryID :: "string option"
  vat_KeyID :: "string option"
  vat_DataType :: "string option"
  vat_DataTypeName :: "string option"
  vat_Key :: "string option"
  vat_Value :: string
  vat_IsDefault :: "bool option"
  vat_AccreditationTldID :: string

definition zero_VAttribute :: VAttribute where
  "zero_VAttribute =
     \<lparr>vat_TenantID = None,
      vat_TenantName = None,
      vat_TldName = None,
      vat_TldID = None,
      vat_Path = None,
      vat_CategoryID = None,
      vat_KeyID = None,
      vat_DataType = None,
      vat_DataTypeName = None,
      vat_Key = None,
      vat_Value = [],
      vat_IsDefault = None,
      vat_AccreditationTldID = []\<rparr>"

record AccreditationRow =
  ac_CreatedDate :: "gotime option"
  ac_UpdatedDate :: "gotime option"
  ac_CreatedBy :: "string option"
  ac_UpdatedBy :: "string option"
  ac_ID :: string
  ac_Name :: string
  ac_TenantID :: string
  ac_ProviderInstanceID :: string
  ac_ServiceRange :: string
  ac_RegistrarID :: string

definition zero_AccreditationRow :: AccreditationRow where
  "zero_AccreditationRow =
     \<lparr>ac_CreatedDate = None,
      ac_UpdatedDate = None,
      ac_CreatedBy = None,
      ac_UpdatedBy = None,
      ac_ID = [],
      ac_Name = [],
      ac_TenantID = [],
      ac_ProviderInstanceID = [],
      ac_ServiceRange = [],
      ac_RegistrarID = []\<rparr>"

record VOrderTransferAwayDomain =
  vota_OrderItemID :: string
  vota_OrderID :: string
  vota_AccreditationTldID :: string
  vota_OrderMetadata :: "string option"
  vota_TenantCustomerID :: "string option"
  vota_TypeID :: "string option"
  vota_CustomerUserID :: "string option"
  vota_StatusID :: "string option"
  vota_StatusName :: string
  vota_StatusDescr :: "string option"
  vota_StatusIsFinal :: "bool option"
  vota_TenantID :: "string option"
  vota_CustomerID :: "string option"
  vota_TenantName :: "string option"
  vota_Name :: "string option"
  vota_ProviderName :: "string option"
  vota_ProviderInstanceID :: "string option"
  vota_ProviderInstanceName :: "string option"
  vota_TldID :: "string option"
  vota_TldName :: "string option"
  vota_AccreditationID :: string
  vota_DomainName :: string
  vota_TransferStatusID :: "string option"
  vota_TransferStatus :: string
  vota_RequestedBy :: "string option"
  vota_RequestedDate :: "gotime option"
  vota_ActionBy :: "string option"
  vota_ActionDate :: "gotime option"
  vota_ExpiryDate :: "gotime option"
  vota_AuthInfo :: "string option"
  vota_Metadata :: "string option"

definition zero_VOrderTransferAwayDomain :: VOrderTransferAwayDomain where
  "zero_VOrderTransferAwayDomain =
     \<lparr>vota_OrderItemID = [],
      vota_OrderID = [],
      vota_AccreditationTldID = [],
      vota_OrderMetadata = None,
      vota_TenantCustomerID = None,
      vota_TypeID = None,
      vota_CustomerUserID = None,
      vota_StatusID = None,
      vota_StatusName = [],
      vota_StatusDescr = None,
      vota_StatusIsFinal = None,
      vota_TenantID = None,
      vota_CustomerID = None,
      vota_TenantName = None,
      vota_Name = None,
      vota_ProviderName = None,
      vota_ProviderInstanceID = None,
      vota_ProviderInstanceName = None,
      vota_TldID = None,
      vota_TldName = None,
      vota_AccreditationID = [],
      vota_DomainName = [],
      vota_TransferStatusID = None,
      vota_TransferStatus = [],
      vota_RequestedBy = None,
      vota_RequestedDate = None,
      vota_ActionBy = None,
      vota_ActionDate = None,
      vota_ExpiryDate = None,
      vota_AuthInfo = None,
      vota_Metadata = None\<rparr>"

record VProvisionDomain =
  vpd_ID :: "string option"
  vpd_AccreditationID :: "string option"
  vpd_AccreditationName :: "string option"
  vpd_TenantCustomerID :: "string option"
  vpd_DomainName :: "string option"
  vpd_RyCltrid :: "string option"
  vpd_StatusID :: "string option"
  vpd_ReferenceTable :: "string option"

definition zero_VProvisionDomain :: VProvisionDomain where
  "zero_VProvisionDomain =
     \<lparr>vpd_ID = None,
      vpd_AccreditationID = None,
      vpd_AccreditationName = None,
      vpd_TenantCustomerID = None,
      vpd_DomainName = None,
      vpd_RyCltrid = None,
      vpd_StatusID = None,
      vpd_ReferenceTable = None\<rparr>"

record PollMessageRow =
  pm_ID :: string
  pm_Accreditation :: string
  pm_EppMessageID :: string
  pm_Msg :: "string option"
  pm_Lang :: "string option"
  pm_TypeID :: string
  pm_StatusID :: string
  pm_Data :: "raw option"
  pm_QueueDate :: "gotime option"
  pm_CreatedDate :: "gotime option"
  pm_LastSubmittedDate :: "gotime option"

definition zero_PollMessageRow :: PollMessageRow where
  "zero_PollMessageRow =
     \<lparr>pm_ID = [],
      pm_Accreditation = [],
      pm_EppMessageID = [],
      pm_Msg = None,
      pm_Lang = None,
      pm_TypeID = [],
      pm_StatusID = [],
      pm_Data = None,
      pm_QueueDate = None,
      pm_CreatedDate = None,
      pm_LastSubmittedDate = None\<rparr>"

record VEventUnprocessed =
  veu_ID :: string
  veu_ReferenceID :: "string option"
  veu_TenantID :: string
  veu_TypeID :: string
  veu_Payload :: raw
  veu_Header :: "string option"
  veu_IsProcessed :: bool
  veu_CreatedAt :: gotime
  veu_EventTypeName :: string
  veu_EventTypeReferenceTableName :: "string option"

definition zero_VEventUnprocessed :: VEventUnprocessed where
  "zero_VEventUnprocessed =
     \<lparr>veu_ID = [],
      veu_ReferenceID = None,
      veu_TenantID = [],
      veu_TypeID = [],
      veu_Payload = RawBad,
      veu_Header = None,
      veu_IsProcessed = False,
      veu_CreatedAt = zero_time,
      veu_EventTypeName = [],
      veu_EventTypeReferenceTableName = None\<rparr>"

record HostingCertificateRow =
  hsc_CreatedDate :: "gotime option"
  hsc_UpdatedDate :: "gotime option"
  hsc_CreatedBy :: "string option"
  hsc_UpdatedBy :: "string option"
  hsc_ID :: string
  hsc_Body :: string
  hsc_Chain :: "string option"
  hsc_PrivateKey :: string
  hsc_NotBefore :: gotime
  hsc_NotAfter :: gotime

definition zero_HostingCertificateRow :: HostingCertificateRow where
  "zero_HostingCertificateRow =
     \<lparr>hsc_CreatedDate = None,
      hsc_UpdatedDate = None,
      hsc_CreatedBy = None,
      hsc_UpdatedBy = None,
      hsc_ID = [],
      hsc_Body = [],
      hsc_Chain = None,
      hsc_PrivateKey = [],
      hsc_NotBefore = zero_time,
      hsc_NotAfter = zero_time\<rparr>"

record HostingClientRow =
  hscl_CreatedDate :: "gotime option"
  hscl_UpdatedDate :: "gotime option"
  hscl_CreatedBy :: "string option"
  hscl_UpdatedBy :: "string option"
  hscl_ID :: string
  hscl_TenantCustomerID :: string
  hscl_ExternalClientID :: "string option"
  hscl_Name :: "string option"
  hscl_Email :: string
  hscl_Username :: "string option"
  hscl_Password :: "string option"
  hscl_IsActive :: bool

definition zero_HostingClientRow :: HostingClientRow where
  "zero_HostingClientRow =
     \<lparr>hscl_CreatedDate = None,
      hscl_UpdatedDate = None,
      hscl_CreatedBy = None,
      hscl_UpdatedBy = None,
      hscl_ID = [],
      hscl_TenantCustomerID = [],
      hscl_ExternalClientID = None,
      hscl_Name = None,
      hscl_Email = [],
      hscl_Username = None,
      hscl_Password = None,
      hscl_IsActive = False\<rparr>"

record HostingProduct =
  hsp_CreatedDate :: "gotime option"
  hsp_UpdatedDate :: "gotime option"
  hsp_CreatedBy :: "string option"
  hsp_UpdatedBy :: "string option"
  hsp_ID :: string
  hsp_Name :: string
  hsp_IsActive :: bool

definition zero_HostingProduct :: HostingProduct where
  "zero_HostingProduct =
     \<lparr>hsp_CreatedDate = None,
      hsp_UpdatedDate = None,
      hsp_CreatedBy = None,
      hsp_UpdatedBy = None,
      hsp_ID = [],
      hsp_Name = [],
      hsp_IsActive = False\<rparr>"

record Hosting =
  hos_CreatedDate :: "gotime option"
  hos_UpdatedDate :: "gotime option"
  hos_CreatedBy :: "string option"
  hos_UpdatedBy :: "string option"
  hos_ID :: string
  hos_DomainName :: string
  hos_ProductID :: string
  hos_RegionID :: string
  hos_ClientID :: string
  hos_TenantCustomerID :: string
  hos_CertificateID :: "string option"
  hos_HostingStatusID :: "string option"
  hos_Descr :: "string option"
  hos_IsActive :: bool
  hos_IsDeleted :: bool
  hos_ExternalOrderID :: "string option"
  hos_Tags :: "string option"
  hos_Metadata :: "string option"
  hos_StatusReason :: "string option"
  hos_Certificate :: "HostingCertificateRow option"
  hos_Client :: HostingClientRow
  hos_Product :: HostingProduct

definition zero_Hosting :: Hosting where
  "zero_Hosting =
     \<lparr>hos_CreatedDate = None,
      hos_UpdatedDate = None,
      hos_CreatedBy = None,
      hos_UpdatedBy = None,
      hos_ID = [],
      hos_DomainName = [],
      hos_ProductID = [],
      hos_RegionID = [],
      hos_ClientID = [],
      hos_TenantCustomerID = [],
      hos_CertificateID = None,
      hos_HostingStatusID = None,
      hos_Descr = None,
      hos_IsActive = False,
      hos_IsDeleted = False,
      hos_ExternalOrderID = None,
      hos_Tags = None,
      hos_Metadata = None,
      hos_StatusReason = None,
      hos_Certificate = None,
      hos_Client = zero_HostingClientRow,
      hos_Product = zero_HostingProduct\<rparr>"

record ProvisionHostingCreate =
  phc_CreatedDate :: "gotime option"
  phc_UpdatedDate :: "gotime option"
  phc_CreatedBy :: "string option"
  phc_UpdatedBy :: "string option"
  phc_ID :: string
  phc_TenantCustomerID :: string
  phc_ProvisionedDate :: "gotime option"
  phc_StatusID :: string
  phc_Roid :: "string option"
  phc_JobID :: "string option"
  phc_OrderItemPlanIds :: "string option"
  phc_OrderMetadata :: "string option"
  phc_ResultMessage :: "string option"
  phc_ResultData :: "string option"
  phc_HostingID :: string
  phc_DomainName :: string
  phc_RegionID :: string
  phc_ClientID :: string
  phc_ClientUsername :: "string option"
  phc_ProductID :: string
  phc_CertificateID :: "string option"
  phc_ExternalOrderID :: "string option"
  phc_ExternalClientID :: "string option"
  phc_HostingStatusID :: "string option"
  phc_IsActive :: bool
  phc_IsDeleted :: bool

definition zero_ProvisionHostingCreate :: ProvisionHostingCreate where
  "zero_ProvisionHostingCreate =
     \<lparr>phc_CreatedDate = None,
      phc_UpdatedDate = None,
      phc_CreatedBy = None,
      phc_UpdatedBy = None,
      phc_ID = [],
      phc_TenantCustomerID = [],
      phc_ProvisionedDate = None,
      phc_StatusID = [],
      phc_Roid = None,
      phc_JobID = None,
      phc_OrderItemPlanIds = None,
      phc_OrderMetadata = None,
      phc_ResultMessage = None,
      phc_ResultData = None,
      phc_HostingID = [],
      phc_DomainName = [],
      phc_RegionID = [],
      phc_ClientID = [],
      phc_ClientUsername = None,
      phc_ProductID = [],
      phc_CertificateID = None,
      phc_ExternalOrderID = None,
      phc_ExternalClientID = None,
      phc_HostingStatusID = None,
      phc_IsActive = False,
      phc_IsDeleted = False\<rparr>"

record ProvisionHostingUpdate =
  phu_CreatedDate :: "gotime option"
  phu_UpdatedDate :: "gotime option"
  phu_CreatedBy :: "string option"
  phu_UpdatedBy :: "string option"
  phu_ID :: string
  phu_TenantCustomerID :: string
  phu_ProvisionedDate :: "gotime option"
  phu_StatusID :: string
  phu_Roid :: "string option"
  phu_JobID :: "string option"
  phu_OrderItemPlanIds :: "string option"
  phu_ResultMessage :: "string option"
  phu_ResultData :: "string option"
  phu_HostingID :: string
  phu_CertificateID :: "string option"
  phu_ExternalOrderID :: "string option"
  phu_HostingStatusID :: "string option"
  phu_IsActive :: "bool option"

definition zero_ProvisionHostingUpdate :: ProvisionHostingUpdate where
  "zero_ProvisionHostingUpdate =
     \<lparr>phu_CreatedDate = None,
      phu_UpdatedDate = None,
      phu_CreatedBy = None,
      phu_UpdatedBy = None,
      phu_ID = [],
      phu_TenantCustomerID = [],
      phu_ProvisionedDate = None,
      phu_StatusID = [],
      phu_Roid = None,
      phu_JobID = None,
      phu_OrderItemPlanIds = None,
      phu_ResultMessage = None,
      phu_ResultData = None,
      phu_HostingID = [],
      phu_CertificateID = None,
      phu_ExternalOrderID = None,
      phu_HostingStatusID = None,
      phu_IsActive = None\<rparr>"

record ProvisionHostingDelete =
  phd_CreatedDate :: "gotime option"
  phd_UpdatedDate :: "gotime option"
  phd_CreatedBy :: "string option"
  phd_UpdatedBy :: "string option"
  phd_ID :: string
  phd_TenantCustomerID :: string
  phd_ProvisionedDate :: "gotime option"
  phd_StatusID :: string
  phd_Roid :: "string option"
  phd_JobID :: "string option"
  phd_OrderItemPlanIds :: "string option"
  phd_ResultMessage :: "string option"
  phd_ResultData :: "string option"
  phd_HostingID :: string
  phd_ExternalOrderID :: "string option"
  phd_HostingStatusID :: "string option"
  phd_IsActive :: "bool option"
  phd_IsDeleted :: "bool option"

definition zero_ProvisionHostingDelete :: ProvisionHostingDelete where
  "zero_ProvisionHostingDelete =
     \<lparr>phd_CreatedDate = None,
      phd_UpdatedDate = None,
      phd_CreatedBy = None,
      phd_UpdatedBy = None,
      phd_ID = [],
      phd_TenantCustomerID = [],
      phd_ProvisionedDate = None,
      phd_StatusID = [],
      phd_Roid = None,
      phd_JobID = None,
      phd_OrderItemPlanIds = None,
      phd_ResultMessage = None,
      phd_ResultData = None,
      phd_HostingID = [],
      phd_ExternalOrderID = None,
      phd_HostingStatusID = None,
      phd_IsActive = None,
      phd_IsDeleted = None\<rparr>"

record ProvisionHostingCertificateCreate =
  phcc_CreatedDate :: "gotime option"
  phcc_UpdatedDate :: "gotime option"
  phcc_CreatedBy :: "string option"
  phcc_UpdatedBy :: "string option"
  phcc_ID :: string
  phcc_TenantCustomerID :: string
  phcc_ProvisionedDate :: "gotime option"
  phcc_StatusID :: string
  phcc_Roid :: "string option"
  phcc_JobID :: "string option"
  phcc_OrderItemPlanIds :: "string option"
  phcc_OrderMetadata :: "string option"
  phcc_ResultMessage :: "string option"
  phcc_ResultData :: "string option"
  phcc_HostingID :: string
  phcc_CertificateID :: "string option"
  phcc_DomainName :: string
  phcc_Body :: "string option"
  phcc_Chain :: "string option"
  phcc_PrivateKey :: "string option"
  phcc_NotBefore :: "gotime option"
  phcc_NotAfter :: "gotime option"

definition zero_ProvisionHostingCertificateCreate :: ProvisionHostingCertificateCreate where
  "zero_ProvisionHostingCertificateCreate =
     \<lparr>phcc_CreatedDate = None,
      phcc_UpdatedDate = None,
      phcc_CreatedBy = None,
      phcc_UpdatedBy = None,
      phcc_ID = [],
      phcc_TenantCustomerID = [],
      phcc_ProvisionedDate = None,
      phcc_StatusID = [],
      phcc_Roid = None,
      phcc_JobID = None,
      phcc_OrderItemPlanIds = None,
      phcc_OrderMetadata = None,
      phcc_ResultMessage = None,
      phcc_ResultData = None,
      phcc_HostingID = [],
      phcc_CertificateID = None,
      phcc_DomainName = [],
      phcc_Body = None,
      phcc_Chain = None,
      phcc_PrivateKey = None,
      phcc_NotBefore = None,
      phcc_NotAfter = None\<rparr>"

record DomainRgpStatus =
  drs_ID :: string
  drs_DomainID :: string
  drs_StatusID :: string
  drs_CreatedDate :: "gotime option"
  drs_ExpiryDate :: "gotime option"

definition zero_DomainRgpStatus :: DomainRgpStatus where
  "zero_DomainRgpStatus =
     \<lparr>drs_ID = [],
      drs_DomainID = [],
      drs_StatusID = [],
      drs_CreatedDate = None,
      drs_ExpiryDate = None\<rparr>"

record StaleJob =
  stj_JobID :: string
  stj_JobStatusName :: string
  stj_NotifyEvent :: bool

definition zero_StaleJob :: StaleJob where
  "zero_StaleJob =
     \<lparr>stj_JobID = [],
      stj_JobStatusName = [],
      stj_NotifyEvent = False\<rparr>"

record NotificationRow =
  ntf_CreatedDate :: "gotime option"
  ntf_UpdatedDate :: "gotime option"
  ntf_CreatedBy :: "string option"
  ntf_UpdatedBy :: "string option"
  ntf_DeletedDate :: "gotime option"
  ntf_DeletedBy :: "string option"
  ntf_ID :: string
  ntf_TypeID :: string
  ntf_Payload :: "raw option"
  ntf_TenantID :: string
  ntf_TenantCustomerID :: "string option"

definition zero_NotificationRow :: NotificationRow where
  "zero_NotificationRow =
     \<lparr>ntf_CreatedDate = None,
      ntf_UpdatedDate = None,
      ntf_CreatedBy = None,
      ntf_UpdatedBy = None,
      ntf_DeletedDate = None,
      ntf_DeletedBy = None,
      ntf_ID = [],
      ntf_TypeID = [],
      ntf_Payload = None,
      ntf_TenantID = [],
      ntf_TenantCustomerID = None\<rparr>"

record NotificationType =
  ntt_ID :: string
  ntt_Name :: string
  ntt_Descr :: "string option"

definition zero_NotificationType :: NotificationType where
  "zero_NotificationType =
     \<lparr>ntt_ID = [],
      ntt_Name = [],
      ntt_Descr = None\<rparr>"

end
