(* ===== verification/Job_Data.thy ===== *)
theory Job_Data
  imports Model_Rows
begin

text \<open>
  The payloads of the jobs: the structs of \<^verbatim>\<open>pkg/types\<close> that handlers decode from the \<^verbatim>\<open>data\<close> column of
  a job, each as a record with its zero value, the list of its JSON fields and its decoder. Slices
  and maps are optional (nil or not).
\<close>

text \<open>
  Binary64 arithmetic is hardware the model does not describe: a 64-bit pattern with the
  operations as parameters.
\<close>

record f64ops =
  f64_of_int :: "int \<Rightarrow> f64"
  f64_parse :: "string \<Rightarrow> f64 option"
  f64_of_i32 :: "i32 \<Rightarrow> f64"
  f64_of_i64 :: "i64 \<Rightarrow> f64"
  f64_div :: "f64 \<Rightarrow> f64 \<Rightarrow> f64"
  f64_sub :: "f64 \<Rightarrow> f64 \<Rightarrow> f64"
  f64_mul :: "f64 \<Rightarrow> f64 \<Rightarrow> f64"
  f64_floor :: "f64 \<Rightarrow> f64"
  f64_round :: "f64 \<Rightarrow> f64"
  i64_of_f64 :: "f64 \<Rightarrow> i64"
  i32_of_f64 :: "f64 \<Rightarrow> i32"

record Accreditation =
  acc_IsProxy :: bool
  acc_TenantId :: string
  acc_TenantName :: string
  acc_ProviderId :: string
  acc_ProviderName :: string
  acc_AccreditationId :: string
  acc_AccreditationName :: string
  acc_ProviderInstanceId :: string
  acc_ProviderInstanceName :: string
  acc_RegistrarID :: string

definition zero_Accreditation :: Accreditation where
  "zero_Accreditation =
     \<lparr>acc_IsProxy = False,
      acc_TenantId = [],
      acc_TenantName = [],
      acc_ProviderId = [],
      acc_ProviderName = [],
      acc_AccreditationId = [],
      acc_AccreditationName = [],
      acc_ProviderInstanceId = [],
      acc_ProviderInstanceName = [],
      acc_RegistrarID = []\<rparr>"

definition Accreditation_fields :: "Accreditation fieldspec list" where
  "Accreditation_fields =
     [(''is_proxy'', fld acc_IsProxy acc_IsProxy_update dec_bool),
      (''tenant_id'', fld acc_TenantId acc_TenantId_update dec_string),
      (''tenant_name'', fld acc_TenantName acc_TenantName_update dec_string),
      (''provider_id'', fld acc_ProviderId acc_ProviderId_update dec_string),
      (''provider_name'', fld acc_ProviderName acc_ProviderName_update dec_string),
      (''accreditation_id'', fld acc_AccreditationId acc_AccreditationId_update dec_string),
      (''accreditation_name'', fld acc_AccreditationName acc_AccreditationName_update dec_string),
      (''provider_instance_id'', fld acc_ProviderInstanceId acc_ProviderInstanceId_update dec_string),
      (''provider_instance_name'', fld acc_ProviderInstanceName acc_ProviderInstanceName_update dec_string),
      (''registrar_id'', fld acc_RegistrarID acc_RegistrarID_update dec_string)]"

definition dec_Accreditation :: "Accreditation decoder" where
  "dec_Accreditation = dec_struct Accreditation_fields"

record AccreditationTld =
  atld_TldId :: string
  atld_IsProxy :: bool
  atld_TldName :: string
  atld_TenantId :: string
  atld_IsDefault :: bool
  atld_CustomId :: string
  atld_ProviderId :: string
  atld_RegistryId :: string
  atld_TenantName :: string
  atld_CustomerName :: string
  atld_ProviderName :: string
  atld_RegistryName :: string
  atld_AccreditationId :: string
  atld_AccreditationName :: string
  atld_TenantCustomerId :: string
  atld_AccreditationTldId :: string
  atld_ProviderInstanceId :: string
  atld_ProviderInstanceName :: string
  atld_TenantCustomerNumber :: string

definition zero_AccreditationTld :: AccreditationTld where
  "zero_AccreditationTld =
     \<lparr>atld_TldId = [],
      atld_IsProxy = False,
      atld_TldName = [],
      atld_TenantId = [],
      atld_IsDefault = False,
      atld_CustomId = [],
      atld_ProviderId = [],
      atld_RegistryId = [],
      atld_TenantName = [],
      atld_CustomerName = [],
      atld_ProviderName = [],
      atld_RegistryName = [],
      atld_AccreditationId = [],
      atld_AccreditationName = [],
      atld_TenantCustomerId = [],
      atld_AccreditationTldId = [],
      atld_ProviderInstanceId = [],
      atld_ProviderInstanceName = [],
      atld_TenantCustomerNumber = []\<rparr>"

definition AccreditationTld_fields :: "AccreditationTld fieldspec list" where
  "AccreditationTld_fields =
     [(''tld_id'', fld atld_TldId atld_TldId_update dec_string),
      (''is_proxy'', fld atld_IsProxy atld_IsProxy_update dec_bool),
      (''tld_name'', fld atld_TldName atld_TldName_update dec_string),
      (''tenant_id'', fld atld_TenantId atld_TenantId_update dec_string),
      (''is_default'', fld atld_IsDefault atld_IsDefault_update dec_bool),
      (''customer_id'', fld atld_CustomId atld_CustomId_update dec_string),
      (''provider_id'', fld atld_ProviderId atld_ProviderId_update dec_string),
      (''registry_id'', fld atld_RegistryId atld_RegistryId_update dec_string),
      (''tenant_name'', fld atld_TenantName atld_TenantName_update dec_string),
      (''customer_name'', fld atld_CustomerName atld_CustomerName_update dec_string),
      (''provider_name'', fld atld_ProviderName atld_ProviderName_update dec_string),
      (''registry_name'', fld atld_RegistryName atld_RegistryName_update dec_string),
      (''accreditation_id'', fld atld_AccreditationId atld_AccreditationId_update dec_string),
      (''accreditation_name'', fld atld_AccreditationName atld_AccreditationName_update dec_string),
      (''tenant_customer_id'', fld atld_TenantCustomerId atld_TenantCustomerId_update dec_string),
      (''accreditation_tld_id'', fld atld_AccreditationTldId atld_AccreditationTldId_update dec_string),
      (''provider_instance_id'', fld atld_ProviderInstanceId atld_ProviderInstanceId_update dec_string),
      (''provider_instance_name'', fld atld_ProviderInstanceName atld_ProviderInstanceName_update dec_string),
      (''tenant_customer_number'', fld atld_TenantCustomerNumber atld_TenantCustomerNumber_update dec_string)]"

definition dec_AccreditationTld :: "AccreditationTld decoder" where
  "dec_AccreditationTld = dec_struct AccreditationTld_fields"

record OrderPrice =
  op_Currency :: string
  op_Amount :: f64
  op_Fraction :: i32

definition zero_OrderPrice :: OrderPrice where
  "zero_OrderPrice =
     \<lparr>op_Currency = [],
      op_Amount = 0,
      op_Fraction = 0\<rparr>"

definition OrderPrice_fields :: "f64ops \<Rightarrow> OrderPrice fieldspec list" where
  "OrderPrice_fields F =
     [(''currency'', fld op_Currency op_Currency_update dec_string),
      (''amount'', fld op_Amount op_Amount_update (dec_f64 (f64_of_int F) (f64_parse F))),
      (''fraction'', fld op_Fraction op_Fraction_update dec_i32)]"

definition dec_OrderPrice :: "f64ops \<Rightarrow> OrderPrice decoder" where
  "dec_OrderPrice F = dec_struct (OrderPrice_fields F)"

record DomainContact =
  dc_Type :: string
  dc_Handle :: string

definition zero_DomainContact :: DomainContact where
  "zero_DomainContact =
     \<lparr>dc_Type = [],
      dc_Handle = []\<rparr>"

definition DomainContact_fields :: "DomainContact fieldspec list" where
  "DomainContact_fields =
     [(''type'', fld dc_Type dc_Type_update dec_string),
      (''handle'', fld dc_Handle dc_Handle_update dec_string)]"

definition dec_DomainContact :: "DomainContact decoder" where
  "dec_DomainContact = dec_struct DomainContact_fields"

record ClaimsNotice =
  cn_NoticeId :: string
  cn_ValidatorId :: "string option"
  cn_NotAfter :: gotime
  cn_AcceptedDate :: gotime

definition zero_ClaimsNotice :: ClaimsNotice where
  "zero_ClaimsNotice =
     \<lparr>cn_NoticeId = [],
      cn_ValidatorId = None,
      cn_NotAfter = zero_time,
      cn_AcceptedDate = zero_time\<rparr>"

definition ClaimsNotice_fields :: "ClaimsNotice fieldspec list" where
  "ClaimsNotice_fields =
     [(''noticeid'', fld cn_NoticeId cn_NoticeId_update dec_string),
      (''validatorid'', fld cn_ValidatorId cn_ValidatorId_update (dec_ptr [] dec_string)),
      (''notafter'', fld cn_NotAfter cn_NotAfter_update dec_time),
      (''accepteddate'', fld cn_AcceptedDate cn_AcceptedDate_update dec_time)]"

definition dec_ClaimsNotice :: "ClaimsNotice decoder" where
  "dec_ClaimsNotice = dec_struct ClaimsNotice_fields"

record DomainClaimsData =
  dcl_Type :: "string option"
  dcl_Phase :: string
  dcl_Notice :: "ClaimsNotice list option"

definition zero_DomainClaimsData :: DomainClaimsData where
  "zero_DomainClaimsData =
     \<lparr>dcl_Type = None,
      dcl_Phase = [],
      dcl_Notice = None\<rparr>"

definition DomainClaimsData_fields :: "DomainClaimsData fieldspec list" where
  "DomainClaimsData_fields =
     [(''type'', fld dcl_Type dcl_Type_update (dec_ptr [] dec_string)),
      (''phase'', fld dcl_Phase dcl_Phase_update dec_string),
      (''notice'', fld dcl_Notice dcl_Notice_update (dec_slice zero_ClaimsNotice dec_ClaimsNotice))]"

definition dec_DomainClaimsData :: "DomainClaimsData decoder" where
  "dec_DomainClaimsData = dec_struct DomainClaimsData_fields"

record DomainLaunchData =
  dl_Claims :: "DomainClaimsData option"

definition zero_DomainLaunchData :: DomainLaunchData where
  "zero_DomainLaunchData =
     \<lparr>dl_Claims = None\<rparr>"

definition DomainLaunchData_fields :: "DomainLaunchData fieldspec list" where
  "DomainLaunchData_fields =
     [(''claims'', fld dl_Claims dl_Claims_update (dec_ptr zero_DomainClaimsData dec_DomainClaimsData))]"

definition dec_DomainLaunchData :: "DomainLaunchData decoder" where
  "dec_DomainLaunchData = dec_struct DomainLaunchData_fields"

record KeyData =
  kd_Flags :: int
  kd_Protocol :: int
  kd_Algorithm :: int
  kd_PublicKey :: string

definition zero_KeyData :: KeyData where
  "zero_KeyData =
     \<lparr>kd_Flags = 0,
      kd_Protocol = 0,
      kd_Algorithm = 0,
      kd_PublicKey = []\<rparr>"

definition KeyData_fields :: "KeyData fieldspec list" where
  "KeyData_fields =
     [(''flags'', fld kd_Flags kd_Flags_update dec_int),
      (''protocol'', fld kd_Protocol kd_Protocol_update dec_int),
      (''algorithm'', fld kd_Algorithm kd_Algorithm_update dec_int),
      (''public_key'', fld kd_PublicKey kd_PublicKey_update dec_string)]"

definition dec_KeyData :: "KeyData decoder" where
  "dec_KeyData = dec_struct KeyData_fields"

record DSData =
  ds_KeyTag :: int
  ds_Algorithm :: int
  ds_DigestType :: int
  ds_Digest :: string
  ds_KeyData :: "KeyData option"

definition zero_DSData :: DSData where
  "zero_DSData =
     \<lparr>ds_KeyTag = 0,
      ds_Algorithm = 0,
      ds_DigestType = 0,
      ds_Digest = [],
      ds_KeyData = None\<rparr>"

definition DSData_fields :: "DSData fieldspec list" where
  "DSData_fields =
     [(''key_tag'', fld ds_KeyTag ds_KeyTag_update dec_int),
      (''algorithm'', fld ds_Algorithm ds_Algorithm_update dec_int),
      (''digest_type'', fld ds_DigestType ds_DigestType_update dec_int),
      (''digest'', fld ds_Digest ds_Digest_update dec_string),
      (''key_data'', fld ds_KeyData ds_KeyData_update (dec_ptr zero_KeyData dec_KeyData))]"

definition dec_DSData :: "DSData decoder" where
  "dec_DSData = dec_struct DSData_fields"

record SecDNSData =
  sd_MaxSigLife :: "int option"
  sd_KeyData :: "(KeyData list option) option"
  sd_DsData :: "(DSData list option) option"

definition zero_SecDNSData :: SecDNSData where
  "zero_SecDNSData =
     \<lparr>sd_MaxSigLife = None,
      sd_KeyData = None,
      sd_DsData = None\<rparr>"

definition SecDNSData_fields :: "SecDNSData fieldspec list" where
  "SecDNSData_fields =
     [(''max_sig_life'', fld sd_MaxSigLife sd_MaxSigLife_update (dec_ptr 0 dec_int)),
      (''key_data'', fld sd_KeyData sd_KeyData_update (dec_ptr None (dec_slice zero_KeyData dec_KeyData))),
      (''ds_data'', fld sd_DsData sd_DsData_update (dec_ptr None (dec_slice zero_DSData dec_DSData)))]"

definition dec_SecDNSData :: "SecDNSData decoder" where
  "dec_SecDNSData = dec_struct SecDNSData_fields"

record IdnData =
  idn_IdnUname :: string
  idn_IdnLang :: string

definition zero_IdnData :: IdnData where
  "zero_IdnData =
     \<lparr>idn_IdnUname = [],
      idn_IdnLang = []\<rparr>"

definition IdnData_fields :: "IdnData fieldspec list" where
  "IdnData_fields =
     [(''uname'', fld idn_IdnUname idn_IdnUname_update dec_string),
      (''language'', fld idn_IdnLang idn_IdnLang_update dec_string)]"

definition dec_IdnData :: "IdnData decoder" where
  "dec_IdnData = dec_struct IdnData_fields"

record Nameserver =
  ns_Name :: string
  ns_IpAddresses :: "string list option"

definition zero_Nameserver :: Nameserver where
  "zero_Nameserver =
     \<lparr>ns_Name = [],
      ns_IpAddresses = None\<rparr>"

definition Nameserver_fields :: "Nameserver fieldspec list" where
  "Nameserver_fields =
     [(''name'', fld ns_Name ns_Name_update dec_string),
      (''ip_addresses'', fld ns_IpAddresses ns_IpAddresses_update (dec_slice [] dec_string))]"

definition dec_Nameserver :: "Nameserver decoder" where
  "dec_Nameserver = dec_struct Nameserver_fields"

record DomainData =
  dd_Name :: string
  dd_Pw :: string
  dd_Contacts :: "DomainContact list option"
  dd_Nameservers :: "Nameserver list option"
  dd_Accreditation :: Accreditation
  dd_AccreditationTld :: AccreditationTld
  dd_TenantCustomerId :: string
  dd_RegistrationPeriod :: u32
  dd_ProviderContactId :: string
  dd_Price :: "OrderPrice option"
  dd_LaunchData :: "DomainLaunchData option"
  dd_SecDNS :: "SecDNSData option"
  dd_IdnData :: "IdnData option"

definition zero_DomainData :: DomainData where
  "zero_DomainData =
     \<lparr>dd_Name = [],
      dd_Pw = [],
      dd_Contacts = None,
      dd_Nameservers = None,
      dd_Accreditation = zero_Accreditation,
      dd_AccreditationTld = zero_AccreditationTld,
      dd_TenantCustomerId = [],
      dd_RegistrationPeriod = 0,
      dd_ProviderContactId = [],
      dd_Price = None,
      dd_LaunchData = None,
      dd_SecDNS = None,
      dd_IdnData = None\<rparr>"

definition DomainData_fields :: "f64ops \<Rightarrow> DomainData fieldspec list" where
  "DomainData_fields F =
     [(''name'', fld dd_Name dd_Name_update dec_string),
      (''pw'', fld dd_Pw dd_Pw_update dec_string),
      (''contacts'', fld dd_Contacts dd_Contacts_update (dec_slice zero_DomainContact dec_DomainContact)),
      (''nameservers'', fld dd_Nameservers dd_Nameservers_update (dec_slice zero_Nameserver dec_Nameserver)),
      (''accreditation'', fld dd_Accreditation dd_Accreditation_update dec_Accreditation),
      (''accreditation_tld'', fld dd_AccreditationTld dd_AccreditationTld_update dec_AccreditationTld),
      (''tenant_customer_id'', fld dd_TenantCustomerId dd_TenantCustomerId_update dec_string),
      (''registration_period'', fld dd_RegistrationPeriod dd_RegistrationPeriod_update dec_u32),
      (''provider_contact_id'', fld dd_ProviderContactId dd_ProviderContactId_update dec_string),
      (''price'', fld dd_Price dd_Price_update (dec_ptr zero_OrderPrice (dec_OrderPrice F))),
      (''launch_data'', fld dd_LaunchData dd_LaunchData_update (dec_ptr zero_DomainLaunchData dec_DomainLaunchData)),
      (''secdns'', fld dd_SecDNS dd_SecDNS_update (dec_ptr zero_SecDNSData dec_SecDNSData)),
      (''idn'', fld dd_IdnData dd_IdnData_update (dec_ptr zero_IdnData dec_IdnData))]"

definition dec_DomainData :: "f64ops \<Rightarrow> DomainData decoder" where
  "dec_DomainData F = dec_struct (DomainData_fields F)"

record SecDNSUpdateAddData =
  sua_DSData :: "(DSData list option) option"
  sua_KeyData :: "(KeyData list option) option"

definition zero_SecDNSUpdateAddData :: SecDNSUpdateAddData where
  "zero_SecDNSUpdateAddData =
     \<lparr>sua_DSData = None,
      sua_KeyData = None\<rparr>"

definition SecDNSUpdateAddData_fields :: "SecDNSUpdateAddData fieldspec list" where
  "SecDNSUpdateAddData_fields =
     [(''ds_data'', fld sua_DSData sua_DSData_update (dec_ptr None (dec_slice zero_DSData dec_DSData))),
      (''key_data'', fld sua_KeyData sua_KeyData_update (dec_ptr None (dec_slice zero_KeyData dec_KeyData)))]"

definition dec_SecDNSUpdateAddData :: "SecDNSUpdateAddData decoder" where
  "dec_SecDNSUpdateAddData = dec_struct SecDNSUpdateAddData_fields"

record SecDNSUpdateRemData =
  sur_DSData :: "(DSData list option) option"
  sur_KeyData :: "(KeyData list option) option"

definition zero_SecDNSUpdateRemData :: SecDNSUpdateRemData where
  "zero_SecDNSUpdateRemData =
     \<lparr>sur_DSData = None,
      sur_KeyData = None\<rparr>"

definition SecDNSUpdateRemData_fields :: "SecDNSUpdateRemData fieldspec list" where
  "SecDNSUpdateRemData_fields =
     [(''ds_data'', fld sur_DSData sur_DSData_update (dec_ptr None (dec_slice zero_DSData dec_DSData))),
      (''key_data'', fld sur_KeyData sur_KeyData_update (dec_ptr None (dec_slice zero_KeyData dec_KeyData)))]"

definition dec_SecDNSUpdateRemData :: "SecDNSUpdateRemData decoder" where
  "dec_SecDNSUpdateRemData = dec_struct SecDNSUpdateRemData_fields"

record SecDNSUpdateData =
  su_AddData :: "SecDNSUpdateAddData option"
  su_RemData :: "SecDNSUpdateRemData option"
  su_MaxSigLife :: "int option"

definition zero_SecDNSUpdateData :: SecDNSUpdateData where
  "zero_SecDNSUpdateData =
     \<lparr>su_AddData = None,
      su_RemData = None,
      su_MaxSigLife = None\<rparr>"

definition SecDNSUpdateData_fields :: "SecDNSUpdateData fieldspec list" where
  "SecDNSUpdateData_fields =
     [(''add'', fld su_AddData su_AddData_update (dec_ptr zero_SecDNSUpdateAddData dec_SecDNSUpdateAddData)),
      (''rem'', fld su_RemData su_RemData_update (dec_ptr zero_SecDNSUpdateRemData dec_SecDNSUpdateRemData)),
      (''max_sig_life'', fld su_MaxSigLife su_MaxSigLife_update (dec_ptr 0 dec_int))]"

definition dec_SecDNSUpdateData :: "SecDNSUpdateData decoder" where
  "dec_SecDNSUpdateData = dec_struct SecDNSUpdateData_fields"

record DomainUpdateContactData =
  duc_All :: "DomainContact list option"
  duc_Add :: "DomainContact list option"
  duc_Rem :: "DomainContact list option"

definition zero_DomainUpdateContactData :: DomainUpdateContactData where
  "zero_DomainUpdateContactData =
     \<lparr>duc_All = None,
      duc_Add = None,
      duc_Rem = None\<rparr>"

text \<open>
  \<^verbatim>\<open>DomainUpdateContactData\<close> has its own decoder: a flat array of contacts (the old form) or an
  object with \<^verbatim>\<open>add\<close> and \<^verbatim>\<open>rem\<close> (the new form), tried in this order. The field \<^verbatim>\<open>All\<close> is hidden from
  JSON.
\<close>

definition DomainUpdateContactData_alias :: "DomainUpdateContactData fieldspec list" where
  "DomainUpdateContactData_alias =
     [(''add'', fld duc_Add duc_Add_update (dec_slice zero_DomainContact dec_DomainContact)),
      (''rem'', fld duc_Rem duc_Rem_update (dec_slice zero_DomainContact dec_DomainContact))]"

definition dec_DomainUpdateContactData :: "DomainUpdateContactData decoder" where
  "dec_DomainUpdateContactData j c =
     (case dec_slice zero_DomainContact dec_DomainContact j None of
        Some oldFormat \<Rightarrow> Some (c\<lparr>duc_All := oldFormat\<rparr>)
      | None \<Rightarrow>
          (case dec_struct DomainUpdateContactData_alias j zero_DomainUpdateContactData of
             None \<Rightarrow> None
           | Some newFormat \<Rightarrow> Some (c\<lparr>duc_Add := duc_Add newFormat, duc_Rem := duc_Rem newFormat\<rparr>)))"

text \<open>Its encoder writes the old form when \<^verbatim>\<open>All\<close> has contacts and the new form otherwise, leaving out
  empty lists (\<^verbatim>\<open>omitempty\<close>).\<close>

definition enc_DomainContact :: "DomainContact \<Rightarrow> json" where
  "enc_DomainContact c = JObj [(''type'', JStr (dc_Type c)), (''handle'', JStr (dc_Handle c))]"

definition go_slice :: "'a list option \<Rightarrow> 'a list" where
  "go_slice s = (case s of None \<Rightarrow> [] | Some xs \<Rightarrow> xs)"

definition enc_omitempty :: "string \<Rightarrow> DomainContact list option \<Rightarrow> (string \<times> json) list" where
  "enc_omitempty k s =
     (if go_slice s = [] then [] else [(k, JArr (map enc_DomainContact (go_slice s)))])"

definition DomainUpdateContactData_MarshalJSON :: "DomainUpdateContactData \<Rightarrow> json" where
  "DomainUpdateContactData_MarshalJSON c =
     (if length (go_slice (duc_All c)) > 0
      then JArr (map enc_DomainContact (go_slice (duc_All c)))
      else JObj (enc_omitempty ''add'' (duc_Add c) @ enc_omitempty ''rem'' (duc_Rem c)))"

record DomainUpdateNameservers =
  dun_Add :: "(Nameserver option) list option"
  dun_Rem :: "(Nameserver option) list option"

definition zero_DomainUpdateNameservers :: DomainUpdateNameservers where
  "zero_DomainUpdateNameservers =
     \<lparr>dun_Add = None,
      dun_Rem = None\<rparr>"

definition DomainUpdateNameservers_fields :: "DomainUpdateNameservers fieldspec list" where
  "DomainUpdateNameservers_fields =
     [(''add'', fld dun_Add dun_Add_update (dec_slice None (dec_ptr zero_Nameserver dec_Nameserver))),
      (''rem'', fld dun_Rem dun_Rem_update (dec_slice None (dec_ptr zero_Nameserver dec_Nameserver)))]"

definition dec_DomainUpdateNameservers :: "DomainUpdateNameservers decoder" where
  "dec_DomainUpdateNameservers = dec_struct DomainUpdateNameservers_fields"

record DomainUpdateData =
  dud_Name :: string
  dud_Pw :: "string option"
  dud_Contacts :: "DomainUpdateContactData option"
  dud_Nameservers :: DomainUpdateNameservers
  dud_Accreditation :: Accreditation
  dud_AccreditationTld :: AccreditationTld
  dud_TenantCustomerId :: string
  dud_ProvisionDomainUpdateId :: string
  dud_Locks :: "(string \<times> bool) list option"
  dud_SecDNSData :: "SecDNSUpdateData option"

definition zero_DomainUpdateData :: DomainUpdateData where
  "zero_DomainUpdateData =
     \<lparr>dud_Name = [],
      dud_Pw = None,
      dud_Contacts = None,
      dud_Nameservers = zero_DomainUpdateNameservers,
      dud_Accreditation = zero_Accreditation,
      dud_AccreditationTld = zero_AccreditationTld,
      dud_TenantCustomerId = [],
      dud_ProvisionDomainUpdateId = [],
      dud_Locks = None,
      dud_SecDNSData = None\<rparr>"

definition DomainUpdateData_fields :: "DomainUpdateData fieldspec list" where
  "DomainUpdateData_fields =
     [(''name'', fld dud_Name dud_Name_update dec_string),
      (''pw'', fld dud_Pw dud_Pw_update (dec_ptr [] dec_string)),
      (''contacts'', fld dud_Contacts dud_Contacts_update (dec_ptr zero_DomainUpdateContactData dec_DomainUpdateContactData)),
      (''nameservers'', fld dud_Nameservers dud_Nameservers_update dec_DomainUpdateNameservers),
      (''accreditation'', fld dud_Accreditation dud_Accreditation_update dec_Accreditation),
      (''accreditation_tld'', fld dud_AccreditationTld dud_AccreditationTld_update dec_AccreditationTld),
      (''tenant_customer_id'', fld dud_TenantCustomerId dud_TenantCustomerId_update dec_string),
      (''provision_domain_update_id'', fld dud_ProvisionDomainUpdateId dud_ProvisionDomainUpdateId_update dec_string),
      (''locks'', fld dud_Locks dud_Locks_update (dec_map False dec_bool)),
      (''secdns'', fld dud_SecDNSData dud_SecDNSData_update (dec_ptr zero_SecDNSUpdateData dec_SecDNSUpdateData))]"

definition dec_DomainUpdateData :: "DomainUpdateData decoder" where
  "dec_DomainUpdateData = dec_struct DomainUpdateData_fields"

record DomainTransferInRequestData =
  dtr_Name :: string
  dtr_Pw :: string
  dtr_Price :: "OrderPrice option"
  dtr_TransferPeriod :: u32
  dtr_Accreditation :: Accreditation
  dtr_TenantCustomerId :: string
  dtr_ProvisionDomainTransferInRequestId :: string

definition zero_DomainTransferInRequestData :: DomainTransferInRequestData where
  "zero_DomainTransferInRequestData =
     \<lparr>dtr_Name = [],
      dtr_Pw = [],
      dtr_Price = None,
      dtr_TransferPeriod = 0,
      dtr_Accreditation = zero_Accreditation,
      dtr_TenantCustomerId = [],
      dtr_ProvisionDomainTransferInRequestId = []\<rparr>"

definition DomainTransferInRequestData_fields :: "f64ops \<Rightarrow> DomainTransferInRequestData fieldspec list" where
  "DomainTransferInRequestData_fields F =
     [(''domain_name'', fld dtr_Name dtr_Name_update dec_string),
      (''pw'', fld dtr_Pw dtr_Pw_update dec_string),
      (''price'', fld dtr_Price dtr_Price_update (dec_ptr zero_OrderPrice (dec_OrderPrice F))),
      (''transfer_period'', fld dtr_TransferPeriod dtr_TransferPeriod_update dec_u32),
      (''accreditation'', fld dtr_Accreditation dtr_Accreditation_update dec_Accreditation),
      (''tenant_customer_id'', fld dtr_TenantCustomerId dtr_TenantCustomerId_update dec_string),
      (''provision_domain_transfer_in_request_id'', fld dtr_ProvisionDomainTransferInRequestId dtr_ProvisionDomainTransferInRequestId_update dec_string)]"

definition dec_DomainTransferInRequestData :: "f64ops \<Rightarrow> DomainTransferInRequestData decoder" where
  "dec_DomainTransferInRequestData F = dec_struct (DomainTransferInRequestData_fields F)"

record DomainInfoData =
  di_Name :: string
  di_TenantCustomerId :: string
  di_Pw :: "string option"
  di_Accreditation :: Accreditation

definition zero_DomainInfoData :: DomainInfoData where
  "zero_DomainInfoData =
     \<lparr>di_Name = [],
      di_TenantCustomerId = [],
      di_Pw = None,
      di_Accreditation = zero_Accreditation\<rparr>"

definition DomainInfoData_fields :: "DomainInfoData fieldspec list" where
  "DomainInfoData_fields =
     [(''domain_name'', fld di_Name di_Name_update dec_string),
      (''tenant_customer_id'', fld di_TenantCustomerId di_TenantCustomerId_update dec_string),
      (''pw'', fld di_Pw di_Pw_update (dec_ptr [] dec_string)),
      (''Accreditation'', fld di_Accreditation di_Accreditation_update dec_Accreditation)]"

definition dec_DomainInfoData :: "DomainInfoData decoder" where
  "dec_DomainInfoData = dec_struct DomainInfoData_fields"

record DomainRenewData =
  drn_Name :: string
  drn_Period :: "u32 option"
  drn_ExpiryDate :: "gotime option"
  drn_Price :: "OrderPrice option"
  drn_Accreditation :: Accreditation
  drn_TenantCustomerId :: string
  drn_ProvisionDomainRenewId :: string
  drn_Metadata :: "(string \<times> json) list option"

definition zero_DomainRenewData :: DomainRenewData where
  "zero_DomainRenewData =
     \<lparr>drn_Name = [],
      drn_Period = None,
      drn_ExpiryDate = None,
      drn_Price = None,
      drn_Accreditation = zero_Accreditation,
      drn_TenantCustomerId = [],
      drn_ProvisionDomainRenewId = [],
      drn_Metadata = None\<rparr>"

definition DomainRenewData_fields :: "f64ops \<Rightarrow> DomainRenewData fieldspec list" where
  "DomainRenewData_fields F =
     [(''domain_name'', fld drn_Name drn_Name_update dec_string),
      (''period'', fld drn_Period drn_Period_update (dec_ptr 0 dec_u32)),
      (''expiry_date'', fld drn_ExpiryDate drn_ExpiryDate_update (dec_ptr zero_time dec_time)),
      (''price'', fld drn_Price drn_Price_update (dec_ptr zero_OrderPrice (dec_OrderPrice F))),
      (''Accreditation'', fld drn_Accreditation drn_Accreditation_update dec_Accreditation),
      (''tenant_customer_id'', fld drn_TenantCustomerId drn_TenantCustomerId_update dec_string),
      (''provision_domain_renew_id'', fld drn_ProvisionDomainRenewId drn_ProvisionDomainRenewId_update dec_string),
      (''metadata'', fld drn_Metadata drn_Metadata_update (dec_map JNull dec_any))]"

definition dec_DomainRenewData :: "f64ops \<Rightarrow> DomainRenewData decoder" where
  "dec_DomainRenewData F = dec_struct (DomainRenewData_fields F)"

record DomainRedeemData =
  drd_Name :: string
  drd_Status :: string
  drd_DeleteDate :: gotime
  drd_RestoreDate :: gotime
  drd_CreateDate :: gotime
  drd_ExpiryDate :: gotime
  drd_Contacts :: "DomainContact list option"
  drd_Nameservers :: "Nameserver list option"
  drd_Price :: "OrderPrice option"
  drd_Accreditation :: Accreditation
  drd_TenantCustomerId :: string
  drd_ProvisionDomainRedeemId :: string
  drd_RestoreReportIncludesFeeExt :: bool
  drd_IsReportRequired :: bool

definition zero_DomainRedeemData :: DomainRedeemData where
  "zero_DomainRedeemData =
     \<lparr>drd_Name = [],
      drd_Status = [],
      drd_DeleteDate = zero_time,
      drd_RestoreDate = zero_time,
      drd_CreateDate = zero_time,
      drd_ExpiryDate = zero_time,
      drd_Contacts = None,
      drd_Nameservers = None,
      drd_Price = None,
      drd_Accreditation = zero_Accreditation,
      drd_TenantCustomerId = [],
      drd_ProvisionDomainRedeemId = [],
      drd_RestoreReportIncludesFeeExt = False,
      drd_IsReportRequired = False\<rparr>"

definition DomainRedeemData_fields :: "f64ops \<Rightarrow> DomainRedeemData fieldspec list" where
  "DomainRedeemData_fields F =
     [(''domain_name'', fld drd_Name drd_Name_update dec_string),
      (''status'', fld drd_Status drd_Status_update dec_string),
      (''delete_date'', fld drd_DeleteDate drd_DeleteDate_update dec_time),
      (''restore_date'', fld drd_RestoreDate drd_RestoreDate_update dec_time),
      (''create_date'', fld drd_CreateDate drd_CreateDate_update dec_time),
      (''expiry_date'', fld drd_ExpiryDate drd_ExpiryDate_update dec_time),
      (''contacts'', fld drd_Contacts drd_Contacts_update (dec_slice zero_DomainContact dec_DomainContact)),
      (''nameservers'', fld drd_Nameservers drd_Nameservers_update (dec_slice zero_Nameserver dec_Nameserver)),
      (''price'', fld drd_Price drd_Price_update (dec_ptr zero_OrderPrice (dec_OrderPrice F))),
      (''Accreditation'', fld drd_Accreditation drd_Accreditation_update dec_Accreditation),
      (''tenant_customer_id'', fld drd_TenantCustomerId drd_TenantCustomerId_update dec_string),
      (''provision_domain_redeem_id'', fld drd_ProvisionDomainRedeemId drd_ProvisionDomainRedeemId_update dec_string),
      (''restore_report_includes_fee_ext'', fld drd_RestoreReportIncludesFeeExt drd_RestoreReportIncludesFeeExt_update dec_bool),
      (''is_redeem_report_required'', fld drd_IsReportRequired drd_IsReportRequired_update dec_bool)]"

definition dec_DomainRedeemData :: "f64ops \<Rightarrow> DomainRedeemData decoder" where
  "dec_DomainRedeemData F = dec_struct (DomainRedeemData_fields F)"

record DomainDeleteData =
  ddl_Name :: string
  ddl_Accreditation :: Accreditation
  ddl_TenantCustomerId :: string
  ddl_ProvisionDomainDeleteId :: string
  ddl_InRedemptionGracePeriod :: bool
  ddl_Hosts :: "string list option"
  ddl_Metadata :: "(string \<times> json) list option"

definition zero_DomainDeleteData :: DomainDeleteData where
  "zero_DomainDeleteData =
     \<lparr>ddl_Name = [],
      ddl_Accreditation = zero_Accreditation,
      ddl_TenantCustomerId = [],
      ddl_ProvisionDomainDeleteId = [],
      ddl_InRedemptionGracePeriod = False,
      ddl_Hosts = None,
      ddl_Metadata = None\<rparr>"

definition DomainDeleteData_fields :: "DomainDeleteData fieldspec list" where
  "DomainDeleteData_fields =
     [(''domain_name'', fld ddl_Name ddl_Name_update dec_string),
      (''Accreditation'', fld ddl_Accreditation ddl_Accreditation_update dec_Accreditation),
      (''tenant_customer_id'', fld ddl_TenantCustomerId ddl_TenantCustomerId_update dec_string),
      (''provision_domain_delete_id'', fld ddl_ProvisionDomainDeleteId ddl_ProvisionDomainDeleteId_update dec_string),
      (''in_redemption_grace_period'', fld ddl_InRedemptionGracePeriod ddl_InRedemptionGracePeriod_update dec_bool),
      (''hosts'', fld ddl_Hosts ddl_Hosts_update (dec_slice [] dec_string)),
      (''metadata'', fld ddl_Metadata ddl_Metadata_update (dec_map JNull dec_any))]"

definition dec_DomainDeleteData :: "DomainDeleteData decoder" where
  "dec_DomainDeleteData = dec_struct DomainDeleteData_fields"

record DomainClaimsValidationData =
  dcv_Name :: string
  dcv_OrderItemPlanId :: string
  dcv_OrderItemId :: string
  dcv_RegistrationPeriod :: u32
  dcv_LaunchData :: "DomainLaunchData option"
  dcv_Accreditation :: Accreditation
  dcv_TenantCustomerId :: string

definition zero_DomainClaimsValidationData :: DomainClaimsValidationData where
  "zero_DomainClaimsValidationData =
     \<lparr>dcv_Name = [],
      dcv_OrderItemPlanId = [],
      dcv_OrderItemId = [],
      dcv_RegistrationPeriod = 0,
      dcv_LaunchData = None,
      dcv_Accreditation = zero_Accreditation,
      dcv_TenantCustomerId = []\<rparr>"

definition DomainClaimsValidationData_fields :: "DomainClaimsValidationData fieldspec list" where
  "DomainClaimsValidationData_fields =
     [(''domain_name'', fld dcv_Name dcv_Name_update dec_string),
      (''order_item_plan_id'', fld dcv_OrderItemPlanId dcv_OrderItemPlanId_update dec_string),
      (''order_item_id'', fld dcv_OrderItemId dcv_OrderItemId_update dec_string),
      (''registration_period'', fld dcv_RegistrationPeriod dcv_RegistrationPeriod_update dec_u32),
      (''launch_data'', fld dcv_LaunchData dcv_LaunchData_update (dec_ptr zero_DomainLaunchData dec_DomainLaunchData)),
      (''accreditation'', fld dcv_Accreditation dcv_Accreditation_update dec_Accreditation),
      (''tenant_customer_id'', fld dcv_TenantCustomerId dcv_TenantCustomerId_update dec_string)]"

definition dec_DomainClaimsValidationData :: "DomainClaimsValidationData decoder" where
  "dec_DomainClaimsValidationData = dec_struct DomainClaimsValidationData_fields"

record DomainTransferValidationData =
  dtv_Name :: string
  dtv_DomainMaxLifetime :: u32
  dtv_TransferPeriod :: u32
  dtv_OrderItemPlanId :: string
  dtv_Accreditation :: Accreditation
  dtv_TenantCustomerId :: string
  dtv_Pw :: string

definition zero_DomainTransferValidationData :: DomainTransferValidationData where
  "zero_DomainTransferValidationData =
     \<lparr>dtv_Name = [],
      dtv_DomainMaxLifetime = 0,
      dtv_TransferPeriod = 0,
      dtv_OrderItemPlanId = [],
      dtv_Accreditation = zero_Accreditation,
      dtv_TenantCustomerId = [],
      dtv_Pw = []\<rparr>"

definition DomainTransferValidationData_fields :: "DomainTransferValidationData fieldspec list" where
  "DomainTransferValidationData_fields =
     [(''domain_name'', fld dtv_Name dtv_Name_update dec_string),
      (''domain_max_lifetime'', fld dtv_DomainMaxLifetime dtv_DomainMaxLifetime_update dec_u32),
      (''transfer_period'', fld dtv_TransferPeriod dtv_TransferPeriod_update dec_u32),
      (''order_item_plan_id'', fld dtv_OrderItemPlanId dtv_OrderItemPlanId_update dec_string),
      (''accreditation'', fld dtv_Accreditation dtv_Accreditation_update dec_Accreditation),
      (''tenant_customer_id'', fld dtv_TenantCustomerId dtv_TenantCustomerId_update dec_string),
      (''pw'', fld dtv_Pw dtv_Pw_update dec_string)]"

definition dec_DomainTransferValidationData :: "DomainTransferValidationData decoder" where
  "dec_DomainTransferValidationData = dec_struct DomainTransferValidationData_fields"

record DomainCheckValidationData =
  dchk_Name :: string
  dchk_OrderItemPlanId :: string
  dchk_OrderType :: string
  dchk_Price :: "OrderPrice option"
  dchk_Period :: "u32 option"
  dchk_PremiumDomainEnabled :: bool
  dchk_PremiumOperation :: "bool option"
  dchk_Accreditation :: Accreditation
  dchk_TenantCustomerId :: string

definition zero_DomainCheckValidationData :: DomainCheckValidationData where
  "zero_DomainCheckValidationData =
     \<lparr>dchk_Name = [],
      dchk_OrderItemPlanId = [],
      dchk_OrderType = [],
      dchk_Price = None,
      dchk_Period = None,
      dchk_PremiumDomainEnabled = False,
      dchk_PremiumOperation = None,
      dchk_Accreditation = zero_Accreditation,
      dchk_TenantCustomerId = []\<rparr>"

definition DomainCheckValidationData_fields :: "f64ops \<Rightarrow> DomainCheckValidationData fieldspec list" where
  "DomainCheckValidationData_fields F =
     [(''domain_name'', fld dchk_Name dchk_Name_update dec_string),
      (''order_item_plan_id'', fld dchk_OrderItemPlanId dchk_OrderItemPlanId_update dec_string),
      (''order_type'', fld dchk_OrderType dchk_OrderType_update dec_string),
      (''price'', fld dchk_Price dchk_Price_update (dec_ptr zero_OrderPrice (dec_OrderPrice F))),
      (''period'', fld dchk_Period dchk_Period_update (dec_ptr 0 dec_u32)),
      (''premium_domain_enabled'', fld dchk_PremiumDomainEnabled dchk_PremiumDomainEnabled_update dec_bool),
      (''premium_Operation'', fld dchk_PremiumOperation dchk_PremiumOperation_update (dec_ptr False dec_bool)),
      (''accreditation'', fld dchk_Accreditation dchk_Accreditation_update dec_Accreditation),
      (''tenant_customer_id'', fld dchk_TenantCustomerId dchk_TenantCustomerId_update dec_string)]"

definition dec_DomainCheckValidationData :: "f64ops \<Rightarrow> DomainCheckValidationData decoder" where
  "dec_DomainCheckValidationData F = dec_struct (DomainCheckValidationData_fields F)"

record DomainTransferInData =
  dti_Name :: string
  dti_Accreditation :: Accreditation
  dti_TenantCustomerId :: string
  dti_ProvisionDomainTransferInId :: string

definition zero_DomainTransferInData :: DomainTransferInData where
  "zero_DomainTransferInData =
     \<lparr>dti_Name = [],
      dti_Accreditation = zero_Accreditation,
      dti_TenantCustomerId = [],
      dti_ProvisionDomainTransferInId = []\<rparr>"

definition DomainTransferInData_fields :: "DomainTransferInData fieldspec list" where
  "DomainTransferInData_fields =
     [(''domain_name'', fld dti_Name dti_Name_update dec_string),
      (''Accreditation'', fld dti_Accreditation dti_Accreditation_update dec_Accreditation),
      (''tenant_customer_id'', fld dti_TenantCustomerId dti_TenantCustomerId_update dec_string),
      (''provision_domain_transfer_in_id'', fld dti_ProvisionDomainTransferInId dti_ProvisionDomainTransferInId_update dec_string)]"

definition dec_DomainTransferInData :: "DomainTransferInData decoder" where
  "dec_DomainTransferInData = dec_struct DomainTransferInData_fields"

record DomainTransferActionData =
  dta_Name :: string
  dta_Pw :: "string option"
  dta_TransferStatus :: string
  dta_Accreditation :: Accreditation
  dta_TenantCustomerId :: string
  dta_ProvisionDomainTransferActionId :: string

definition zero_DomainTransferActionData :: DomainTransferActionData where
  "zero_DomainTransferActionData =
     \<lparr>dta_Name = [],
      dta_Pw = None,
      dta_TransferStatus = [],
      dta_Accreditation = zero_Accreditation,
      dta_TenantCustomerId = [],
      dta_ProvisionDomainTransferActionId = []\<rparr>"

definition DomainTransferActionData_fields :: "DomainTransferActionData fieldspec list" where
  "DomainTransferActionData_fields =
     [(''domain_name'', fld dta_Name dta_Name_update dec_string),
      (''pw'', fld dta_Pw dta_Pw_update (dec_ptr [] dec_string)),
      (''transfer_status'', fld dta_TransferStatus dta_TransferStatus_update dec_string),
      (''Accreditation'', fld dta_Accreditation dta_Accreditation_update dec_Accreditation),
      (''tenant_customer_id'', fld dta_TenantCustomerId dta_TenantCustomerId_update dec_string),
      (''provision_domain_transfer_action_id'', fld dta_ProvisionDomainTransferActionId dta_ProvisionDomainTransferActionId_update dec_string)]"

definition dec_DomainTransferActionData :: "DomainTransferActionData decoder" where
  "dec_DomainTransferActionData = dec_struct DomainTransferActionData_fields"

record DomainTransferAwayData =
  dtaw_Name :: string
  dtaw_Accreditation :: Accreditation
  dtaw_TenantCustomerId :: string
  dtaw_Metadata :: "(string \<times> json) list option"

definition zero_DomainTransferAwayData :: DomainTransferAwayData where
  "zero_DomainTransferAwayData =
     \<lparr>dtaw_Name = [],
      dtaw_Accreditation = zero_Accreditation,
      dtaw_TenantCustomerId = [],
      dtaw_Metadata = None\<rparr>"

section \<open>Facts about the contact payload\<close>

lemmas contact_json_defs =
  dec_DomainContact_def DomainContact_fields_def enc_DomainContact_def zero_DomainContact_def
  dec_struct_def find_field_def fld_def

lemma dec_enc_DomainContact: "dec_DomainContact (enc_DomainContact c) z = Some c"
  by (simp add: contact_json_defs)

lemma dec_slice_contacts:
  "dec_slice zero_DomainContact dec_DomainContact (JArr (map enc_DomainContact cs)) x = Some (Some cs)"
  by (simp add: dec_slice_def dec_elems_map dec_enc_DomainContact)

lemma dec_slice_object:
  "dec_slice zero_DomainContact dec_DomainContact (JObj kvs) x = None"
  by (simp add: dec_slice_def)

section \<open>Contacts of an update\<close>

text \<open>
  Writing the contacts of a domain update to JSON and reading them back gives the same contacts
  in the same lists, in the old flat form and in the new form with additions and removals, as long
  as the two forms are not mixed. Empty lists may come back as nil.
\<close>

theorem update_contacts_roundtrip:
  assumes "go_slice (duc_All c) = [] \<or> go_slice (duc_Add c) = [] \<and> go_slice (duc_Rem c) = []"
  shows "\<exists>c'. unmarshal dec_DomainUpdateContactData zero_DomainUpdateContactData
       (Raw (DomainUpdateContactData_MarshalJSON c)) = Some c' \<and>
     go_slice (duc_All c') = go_slice (duc_All c) \<and> go_slice (duc_Add c') = go_slice (duc_Add c) \<and>
     go_slice (duc_Rem c') = go_slice (duc_Rem c)"
proof (cases "go_slice (duc_All c) = []")
  case False
  then show ?thesis
    using assms
    by (simp add: DomainUpdateContactData_MarshalJSON_def dec_DomainUpdateContactData_def unmarshal_def
        dec_slice_contacts) (simp add: zero_DomainUpdateContactData_def go_slice_def)
next
  case True
  have sel: "find_field ''add'' DomainUpdateContactData_alias =
      Some (fld duc_Add duc_Add_update (dec_slice zero_DomainContact dec_DomainContact))"
    "find_field ''rem'' DomainUpdateContactData_alias =
      Some (fld duc_Rem duc_Rem_update (dec_slice zero_DomainContact dec_DomainContact))"
    by (simp_all add: find_field_def DomainUpdateContactData_alias_def)
  show ?thesis
    using True
    by (cases "go_slice (duc_Add c) = []"; cases "go_slice (duc_Rem c) = []")
       (simp_all add: DomainUpdateContactData_MarshalJSON_def dec_DomainUpdateContactData_def unmarshal_def
          dec_slice_contacts dec_slice_object enc_omitempty_def dec_struct_def sel fld_def
          zero_DomainUpdateContactData_def, simp_all add: go_slice_def)
qed

theorem update_contacts_roundtrip_witness:
  "\<exists>c'. unmarshal dec_DomainUpdateContactData zero_DomainUpdateContactData
      (Raw (DomainUpdateContactData_MarshalJSON (zero_DomainUpdateContactData
         \<lparr>duc_Add := Some [\<lparr>dc_Type = ''admin'', dc_Handle = ''h1''\<rparr>]\<rparr>))) = Some c' \<and>
     go_slice (duc_Add c') = [\<lparr>dc_Type = ''admin'', dc_Handle = ''h1''\<rparr>]"
  using update_contacts_roundtrip [of "zero_DomainUpdateContactData
         \<lparr>duc_Add := Some [\<lparr>dc_Type = ''admin'', dc_Handle = ''h1''\<rparr>]\<rparr>"]
  by (auto simp: zero_DomainUpdateContactData_def go_slice_def)

end
