(* ===== verification/Hosting_Data.thy ===== *)
theory Hosting_Data
  imports Go_Json
begin

text \<open>
  The payloads of the hosting jobs (\<^verbatim>\<open>pkg/types/hosting.go\<close>), the announcement of a job
  (\<^verbatim>\<open>types.JobEvent\<close>, \<^verbatim>\<open>pgevents.Notification\<close>) and the requests and responses of the hosting and
  certificate backends (\<^verbatim>\<open>hosting/handlers/types.go\<close>): a record per struct with its zero value and,
  where the code decodes it itself, its JSON fields and its decoder. The fields of an embedded
  struct are promoted: the decoder of the outer struct finds them.
\<close>

record Metadata =
  md_TraceParent :: json
  md_TraceState :: json
  md_OrderId :: string

definition zero_Metadata :: Metadata where
  "zero_Metadata =
     \<lparr>md_TraceParent = JNull,
      md_TraceState = JNull,
      md_OrderId = []\<rparr>"

definition Metadata_fields :: "Metadata fieldspec list" where
  "Metadata_fields =
     [(''traceparent'', fld md_TraceParent md_TraceParent_update dec_any),
      (''tracestate'', fld md_TraceState md_TraceState_update dec_any),
      (''order_id'', fld md_OrderId md_OrderId_update dec_string)]"

definition dec_Metadata :: "Metadata decoder" where
  "dec_Metadata = dec_struct Metadata_fields"

record JobEvent =
  je_JobId :: string
  je_Type :: string
  je_Status :: string
  je_ReferenceId :: string
  je_ReferenceTable :: string
  je_RoutingKey :: string
  je_Metadata :: Metadata

definition zero_JobEvent :: JobEvent where
  "zero_JobEvent =
     \<lparr>je_JobId = [],
      je_Type = [],
      je_Status = [],
      je_ReferenceId = [],
      je_ReferenceTable = [],
      je_RoutingKey = [],
      je_Metadata = zero_Metadata\<rparr>"

definition JobEvent_fields :: "JobEvent fieldspec list" where
  "JobEvent_fields =
     [(''job_id'', fld je_JobId je_JobId_update dec_string),
      (''type'', fld je_Type je_Type_update dec_string),
      (''status'', fld je_Status je_Status_update dec_string),
      (''reference_id'', fld je_ReferenceId je_ReferenceId_update dec_string),
      (''reference_table'', fld je_ReferenceTable je_ReferenceTable_update dec_string),
      (''routing_key'', fld je_RoutingKey je_RoutingKey_update dec_string),
      (''metadata'', fld je_Metadata je_Metadata_update dec_Metadata)]"

definition dec_JobEvent :: "JobEvent decoder" where
  "dec_JobEvent = dec_struct JobEvent_fields"

record PgNotification =
  pgn_ID :: string
  pgn_Type :: string
  pgn_Payload :: string

definition zero_PgNotification :: PgNotification where
  "zero_PgNotification =
     \<lparr>pgn_ID = [],
      pgn_Type = [],
      pgn_Payload = []\<rparr>"

definition PgNotification_fields :: "PgNotification fieldspec list" where
  "PgNotification_fields =
     [(''id'', fld pgn_ID pgn_ID_update dec_string),
      (''type'', fld pgn_Type pgn_Type_update dec_string),
      (''payload'', fld pgn_Payload pgn_Payload_update dec_string)]"

definition dec_PgNotification :: "PgNotification decoder" where
  "dec_PgNotification = dec_struct PgNotification_fields"

record DNSCheckData =
  dnc_DomainName :: string
  dnc_Metadata :: Metadata

definition zero_DNSCheckData :: DNSCheckData where
  "zero_DNSCheckData =
     \<lparr>dnc_DomainName = [],
      dnc_Metadata = zero_Metadata\<rparr>"

definition DNSCheckData_fields :: "DNSCheckData fieldspec list" where
  "DNSCheckData_fields =
     [(''domain_name'', fld dnc_DomainName dnc_DomainName_update dec_string),
      (''order_metadata'', fld dnc_Metadata dnc_Metadata_update dec_Metadata)]"

definition dec_DNSCheckData :: "DNSCheckData decoder" where
  "dec_DNSCheckData = dec_struct DNSCheckData_fields"

record HostingClient =
  hcl_ExternalClientId :: "string option"
  hcl_Name :: string
  hcl_Email :: string
  hcl_Username :: string
  hcl_Password :: string

definition zero_HostingClient :: HostingClient where
  "zero_HostingClient =
     \<lparr>hcl_ExternalClientId = None,
      hcl_Name = [],
      hcl_Email = [],
      hcl_Username = [],
      hcl_Password = []\<rparr>"

definition HostingClient_fields :: "HostingClient fieldspec list" where
  "HostingClient_fields =
     [(''external_client_id'', fld hcl_ExternalClientId hcl_ExternalClientId_update (dec_ptr [] dec_string)),
      (''name'', fld hcl_Name hcl_Name_update dec_string),
      (''email'', fld hcl_Email hcl_Email_update dec_string),
      (''username'', fld hcl_Username hcl_Username_update dec_string),
      (''password'', fld hcl_Password hcl_Password_update dec_string)]"

definition dec_HostingClient :: "HostingClient decoder" where
  "dec_HostingClient = dec_struct HostingClient_fields"

record HostingComponent =
  hcm_Name :: string
  hcm_Type :: string

definition zero_HostingComponent :: HostingComponent where
  "zero_HostingComponent =
     \<lparr>hcm_Name = [],
      hcm_Type = []\<rparr>"

definition HostingComponent_fields :: "HostingComponent fieldspec list" where
  "HostingComponent_fields =
     [(''name'', fld hcm_Name hcm_Name_update dec_string),
      (''type'', fld hcm_Type hcm_Type_update dec_string)]"

definition dec_HostingComponent :: "HostingComponent decoder" where
  "dec_HostingComponent = dec_struct HostingComponent_fields"

record HostingCertificate =
  hce_Body :: string
  hce_Chain :: string
  hce_PrivateKey :: string

definition zero_HostingCertificate :: HostingCertificate where
  "zero_HostingCertificate =
     \<lparr>hce_Body = [],
      hce_Chain = [],
      hce_PrivateKey = []\<rparr>"

definition HostingCertificate_fields :: "HostingCertificate fieldspec list" where
  "HostingCertificate_fields =
     [(''body'', fld hce_Body hce_Body_update dec_string),
      (''chain'', fld hce_Chain hce_Chain_update dec_string),
      (''private_key'', fld hce_PrivateKey hce_PrivateKey_update dec_string)]"

definition dec_HostingCertificate :: "HostingCertificate decoder" where
  "dec_HostingCertificate = dec_struct HostingCertificate_fields"

record HostingData =
  hod_DomainName :: string
  hod_ProductId :: string
  hod_RegionId :: string
  hod_Components :: "HostingComponent list option"
  hod_Client :: HostingClient
  hod_Certificate :: "HostingCertificate option"
  hod_CustomerName :: string
  hod_CustomerEmail :: string
  hod_TenantCustomerId :: string
  hod_HostingId :: string
  hod_Metadata :: Metadata

definition zero_HostingData :: HostingData where
  "zero_HostingData =
     \<lparr>hod_DomainName = [],
      hod_ProductId = [],
      hod_RegionId = [],
      hod_Components = None,
      hod_Client = zero_HostingClient,
      hod_Certificate = None,
      hod_CustomerName = [],
      hod_CustomerEmail = [],
      hod_TenantCustomerId = [],
      hod_HostingId = [],
      hod_Metadata = zero_Metadata\<rparr>"

definition HostingData_fields :: "HostingData fieldspec list" where
  "HostingData_fields =
     [(''domain_name'', fld hod_DomainName hod_DomainName_update dec_string),
      (''product_id'', fld hod_ProductId hod_ProductId_update dec_string),
      (''region_id'', fld hod_RegionId hod_RegionId_update dec_string),
      (''components'', fld hod_Components hod_Components_update (dec_slice zero_HostingComponent dec_HostingComponent)),
      (''client'', fld hod_Client hod_Client_update dec_HostingClient),
      (''certificate'', fld hod_Certificate hod_Certificate_update (dec_ptr zero_HostingCertificate dec_HostingCertificate)),
      (''customer_name'', fld hod_CustomerName hod_CustomerName_update dec_string),
      (''customer_email'', fld hod_CustomerEmail hod_CustomerEmail_update dec_string),
      (''tenant_customer_id'', fld hod_TenantCustomerId hod_TenantCustomerId_update dec_string),
      (''hosting_id'', fld hod_HostingId hod_HostingId_update dec_string),
      (''metadata'', fld hod_Metadata hod_Metadata_update dec_Metadata)]"

definition dec_HostingData :: "HostingData decoder" where
  "dec_HostingData = dec_struct HostingData_fields"

record HostingUpdateData =
  hou_HostingId :: string
  hou_ExternalOrderId :: string
  hou_IsActive :: "bool option"
  hou_Certificate :: "HostingCertificate option"
  hou_Metadata :: Metadata

definition zero_HostingUpdateData :: HostingUpdateData where
  "zero_HostingUpdateData =
     \<lparr>hou_HostingId = [],
      hou_ExternalOrderId = [],
      hou_IsActive = None,
      hou_Certificate = None,
      hou_Metadata = zero_Metadata\<rparr>"

definition HostingUpdateData_fields :: "HostingUpdateData fieldspec list" where
  "HostingUpdateData_fields =
     [(''hosting_id'', fld hou_HostingId hou_HostingId_update dec_string),
      (''external_order_id'', fld hou_ExternalOrderId hou_ExternalOrderId_update dec_string),
      (''is_active'', fld hou_IsActive hou_IsActive_update (dec_ptr False dec_bool)),
      (''certificate'', fld hou_Certificate hou_Certificate_update (dec_ptr zero_HostingCertificate dec_HostingCertificate)),
      (''metadata'', fld hou_Metadata hou_Metadata_update dec_Metadata)]"

definition dec_HostingUpdateData :: "HostingUpdateData decoder" where
  "dec_HostingUpdateData = dec_struct HostingUpdateData_fields"

record HostingCertificateData =
  hocd_DomainName :: string
  hocd_RequestId :: string
  hocd_HostingCertificate :: HostingCertificate
  hocd_Metadata :: Metadata

definition zero_HostingCertificateData :: HostingCertificateData where
  "zero_HostingCertificateData =
     \<lparr>hocd_DomainName = [],
      hocd_RequestId = [],
      hocd_HostingCertificate = zero_HostingCertificate,
      hocd_Metadata = zero_Metadata\<rparr>"

definition HostingCertificateData_fields :: "HostingCertificateData fieldspec list" where
  "HostingCertificateData_fields =
     [(''domain_name'', fld hocd_DomainName hocd_DomainName_update dec_string),
      (''request_id'', fld hocd_RequestId hocd_RequestId_update dec_string),
      (''body'', fld hocd_HostingCertificate hocd_HostingCertificate_update (fld hce_Body hce_Body_update dec_string)),
      (''chain'', fld hocd_HostingCertificate hocd_HostingCertificate_update (fld hce_Chain hce_Chain_update dec_string)),
      (''private_key'', fld hocd_HostingCertificate hocd_HostingCertificate_update (fld hce_PrivateKey hce_PrivateKey_update dec_string)),
      (''order_metadata'', fld hocd_Metadata hocd_Metadata_update dec_Metadata)]"

definition dec_HostingCertificateData :: "HostingCertificateData decoder" where
  "dec_HostingCertificateData = dec_struct HostingCertificateData_fields"

record HostingDeleteData =
  hodd_HostingId :: string
  hodd_ExternalOrderId :: string
  hodd_Metadata :: Metadata

definition zero_HostingDeleteData :: HostingDeleteData where
  "zero_HostingDeleteData =
     \<lparr>hodd_HostingId = [],
      hodd_ExternalOrderId = [],
      hodd_Metadata = zero_Metadata\<rparr>"

definition HostingDeleteData_fields :: "HostingDeleteData fieldspec list" where
  "HostingDeleteData_fields =
     [(''hosting_id'', fld hodd_HostingId hodd_HostingId_update dec_string),
      (''external_order_id'', fld hodd_ExternalOrderId hodd_ExternalOrderId_update dec_string),
      (''metadata'', fld hodd_Metadata hodd_Metadata_update dec_Metadata)]"

definition dec_HostingDeleteData :: "HostingDeleteData decoder" where
  "dec_HostingDeleteData = dec_struct HostingDeleteData_fields"

section \<open>The hosting backend\<close>

record CertificateDetails =
  cde_Body :: string
  cde_Chain :: string
  cde_PrivateKey :: string


record ContainerDetails =
  cond_Name :: string


record DatabaseDetails =
  dbd_Name :: string


record ComponentsDetails =
  cmpd_Containers :: "ContainerDetails list option"
  cmpd_Database :: "DatabaseDetails option"

definition zero_ComponentsDetails :: ComponentsDetails where
  "zero_ComponentsDetails =
     \<lparr>cmpd_Containers = None,
      cmpd_Database = None\<rparr>"

record DomainDetails =
  domd_Name :: string
  domd_Certificate :: "CertificateDetails option"


record ClientDetails =
  cld_Name :: string
  cld_Email :: string
  cld_ResellerName :: string

definition zero_ClientDetails :: ClientDetails where
  "zero_ClientDetails =
     \<lparr>cld_Name = [],
      cld_Email = [],
      cld_ResellerName = []\<rparr>"

record ResellerDetails =
  rsd_Name :: string
  rsd_Email :: string

definition zero_ResellerDetails :: ResellerDetails where
  "zero_ResellerDetails =
     \<lparr>rsd_Name = [],
      rsd_Email = []\<rparr>"

record CreateOrderRequest =
  cor_ClientId :: string
  cor_ProductId :: string
  cor_Domain :: DomainDetails
  cor_Components :: "ComponentsDetails option"
  cor_AwsRegionId :: string


record UpdateOrderRequest =
  uor_orderId :: string
  uor_IsActive :: bool


record UpdateCertificateRequest =
  ucr_orderId :: string
  ucr_CertificateDetails :: CertificateDetails


record DeleteOrderRequest =
  dor_orderId :: string


record CreateClientRequest =
  ccr_ClientDetails :: ClientDetails
  ccr_Password :: string


record CreateResellerRequest =
  crr_ResellerDetails :: ResellerDetails


record OrderResponse =
  orr_Id :: string
  orr_ProductId :: string
  orr_ProductName :: string
  orr_ClientId :: string
  orr_ClientName :: string
  orr_DomainName :: string
  orr_AwsAccountId :: string
  orr_AwsRegionId :: string
  orr_Status :: string
  orr_IsActive :: bool
  orr_IsDeleted :: bool
  orr_CreatedAt :: gotime
  orr_UpdatedAt :: gotime

definition zero_OrderResponse :: OrderResponse where
  "zero_OrderResponse =
     \<lparr>orr_Id = [],
      orr_ProductId = [],
      orr_ProductName = [],
      orr_ClientId = [],
      orr_ClientName = [],
      orr_DomainName = [],
      orr_AwsAccountId = [],
      orr_AwsRegionId = [],
      orr_Status = [],
      orr_IsActive = False,
      orr_IsDeleted = False,
      orr_CreatedAt = zero_time,
      orr_UpdatedAt = zero_time\<rparr>"

record ClientResponse =
  clr_Id :: string
  clr_Username :: string
  clr_IsActive :: bool
  clr_CreatedAt :: gotime
  clr_UpdatedAt :: gotime
  clr_ClientDetails :: ClientDetails

definition zero_ClientResponse :: ClientResponse where
  "zero_ClientResponse =
     \<lparr>clr_Id = [],
      clr_Username = [],
      clr_IsActive = False,
      clr_CreatedAt = zero_time,
      clr_UpdatedAt = zero_time,
      clr_ClientDetails = zero_ClientDetails\<rparr>"

record ResellerResponse =
  rsr_Id :: string
  rsr_IsActive :: bool
  rsr_CreatedAt :: gotime
  rsr_UpdatedAt :: "gotime option"
  rsr_ResellerDetails :: ResellerDetails

definition zero_ResellerResponse :: ResellerResponse where
  "zero_ResellerResponse =
     \<lparr>rsr_Id = [],
      rsr_IsActive = False,
      rsr_CreatedAt = zero_time,
      rsr_UpdatedAt = None,
      rsr_ResellerDetails = zero_ResellerDetails\<rparr>"

record CreateCertificateRequest =
  cctr_Domain :: string
  cctr_RequestId :: string


record CreateCertificateResponse =
  cctp_DomainName :: string
  cctp_Message :: string
  cctp_Status :: string


record GetCertificateResponse =
  gcr_Cert :: string
  gcr_Chain :: string
  gcr_Domain :: string
  gcr_Fullchain :: string
  gcr_Privkey :: string

definition zero_GetCertificateResponse :: GetCertificateResponse where
  "zero_GetCertificateResponse =
     \<lparr>gcr_Cert = [],
      gcr_Chain = [],
      gcr_Domain = [],
      gcr_Fullchain = [],
      gcr_Privkey = []\<rparr>"

record CertificateErrorDetails =
  ced_Error :: string


record HostingErrorDetails =
  hed_Message :: string


end
