(* ===== verification/Services.thy ===== *)
theory Services
  imports Job_Data Hosting_Data
begin

text \<open>
  What the workers talk to. The registry interface's messages (only the fields the workers use),
  the calls the workers make to code outside the repository, and the record \<open>services\<close> of how
  that code answers.

  A \<^emph>\<open>history\<close> is the list of calls made so far, newest first. Every answer is an arbitrary
  function of the history and the call: nothing is assumed about PostgreSQL, gorm, RabbitMQ or the
  registries unless a statement says so. A database failure, a lost lock, a refused message are
  just answers. \<open>sv_now S h k\<close> is the \<open>k\<close>-th reading of the clock after the last call of \<open>h\<close>;
  \<open>sv_json_text S ty b\<close> is the wording of the error of decoding \<open>b\<close> into struct \<open>ty\<close>;
  \<open>sv_range S h ks\<close> is the order in which a \<^verbatim>\<open>range\<close> over a Go map with keys \<open>ks\<close> visits them;
  \<open>sv_pack\<close> is \<^verbatim>\<open>anypb.New\<close>; \<open>sv_time_string\<close> is \<^verbatim>\<open>time.Time.String\<close>, which reads the local time zone;
  \<open>sv_operation0\<close> is the zero value of the generated enumeration of operations. The HTTP client
  answers with a response, an error or both (\<open>sv_http\<close>), and decodes the body into the result of the
  request's type. \<open>sv_ctx_done\<close> is a look at the deadline of a context; \<open>sv_pem\<close> is \<^verbatim>\<open>pem.Decode\<close> (type,
  headers or not, bytes, rest) and \<open>sv_x509\<close> the validity dates in what \<^verbatim>\<open>x509.ParseCertificates\<close>
  finds; \<open>sv_unpack\<close> is \<^verbatim>\<open>UnmarshalNew\<close> and \<open>sv_ext_json\<close> \<^verbatim>\<open>protojson.Marshal\<close> of what it returns.
\<close>

section \<open>Constants of pkg/types\<close>

abbreviation JobStatus_Created :: string where "JobStatus_Created \<equiv> ''created''"
abbreviation JobStatus_Submitted :: string where "JobStatus_Submitted \<equiv> ''submitted''"
abbreviation JobStatus_Processing :: string where "JobStatus_Processing \<equiv> ''processing''"
abbreviation JobStatus_Completed :: string where "JobStatus_Completed \<equiv> ''completed''"
abbreviation JobStatus_Failed :: string where "JobStatus_Failed \<equiv> ''failed''"
abbreviation JobStatus_CompletedConditionally :: string where
  "JobStatus_CompletedConditionally \<equiv> ''completed_conditionally''"

abbreviation ProvisionStatus_PendingAction :: string where
  "ProvisionStatus_PendingAction \<equiv> ''pending_action''"
abbreviation TransferStatus_ServerApproved :: string where
  "TransferStatus_ServerApproved \<equiv> ''serverApproved''"
abbreviation OrderItemPlanStatus_Completed :: string where
  "OrderItemPlanStatus_Completed \<equiv> ''completed''"
abbreviation OrderItemPlanValidationStatus_Completed :: string where
  "OrderItemPlanValidationStatus_Completed \<equiv> ''completed''"
abbreviation OrderItemPlanValidationStatus_Failed :: string where
  "OrderItemPlanValidationStatus_Failed \<equiv> ''failed''"

abbreviation EppCode_Success :: i32 where "EppCode_Success \<equiv> 1000"
abbreviation EppCode_Pending :: i32 where "EppCode_Pending \<equiv> 1001"
abbreviation EppCode_Exists :: i32 where "EppCode_Exists \<equiv> 2302"
abbreviation EppCode_NotPendingTransfer :: i32 where "EppCode_NotPendingTransfer \<equiv> 2301"
abbreviation EppCode_ObjectDoesNotExist :: i32 where "EppCode_ObjectDoesNotExist \<equiv> 2303"

abbreviation EPPStatusCode_PendingDelete :: string where
  "EPPStatusCode_PendingDelete \<equiv> ''pendingDelete''"
abbreviation EPPStatusCode_ServerRenewProhibited :: string where
  "EPPStatusCode_ServerRenewProhibited \<equiv> ''serverRenewProhibited''"
abbreviation EPPStatusCode_ServerTransferProhibited :: string where
  "EPPStatusCode_ServerTransferProhibited \<equiv> ''serverTransferProhibited''"
abbreviation EPPStatusCode_ClientRenewProhibited :: string where
  "EPPStatusCode_ClientRenewProhibited \<equiv> ''clientRenewProhibited''"
abbreviation EPPStatusCode_ClientTransferProhibited :: string where
  "EPPStatusCode_ClientTransferProhibited \<equiv> ''clientTransferProhibited''"

abbreviation RgpStatus_AddPeriod :: string where "RgpStatus_AddPeriod \<equiv> ''addPeriod''"
abbreviation RgpStatus_TransferPeriod :: string where "RgpStatus_TransferPeriod \<equiv> ''transferPeriod''"
abbreviation RgpStatus_RedemptionPeriod :: string where
  "RgpStatus_RedemptionPeriod \<equiv> ''redemptionPeriod''"
abbreviation RgpStatus_PendingRestore :: string where "RgpStatus_PendingRestore \<equiv> ''pendingRestore''"

abbreviation DomainOrderType_Create :: string where "DomainOrderType_Create \<equiv> ''create''"
abbreviation DomainOrderType_Renew :: string where "DomainOrderType_Renew \<equiv> ''renew''"
abbreviation DomainOrderType_Redeem :: string where "DomainOrderType_Redeem \<equiv> ''redeem''"
abbreviation DomainOrderType_TransferIn :: string where "DomainOrderType_TransferIn \<equiv> ''transfer_in''"

abbreviation TransferStatus_ClientApproved :: string where
  "TransferStatus_ClientApproved \<equiv> ''clientApproved''"
abbreviation TransferStatus_ClientRejected :: string where
  "TransferStatus_ClientRejected \<equiv> ''clientRejected''"
abbreviation TransferStatus_ClientCancelled :: string where
  "TransferStatus_ClientCancelled \<equiv> ''clientCancelled''"

abbreviation TransferStatus_Pending :: string where "TransferStatus_Pending \<equiv> ''pending''"
abbreviation TransferStatus_ServerCancelled :: string where
  "TransferStatus_ServerCancelled \<equiv> ''serverCancelled''"
abbreviation ProvisionStatus_Completed :: string where "ProvisionStatus_Completed \<equiv> ''completed''"
abbreviation PollMessageStatus_Pending :: string where "PollMessageStatus_Pending \<equiv> ''pending''"
abbreviation PollMessageStatus_Submitted :: string where "PollMessageStatus_Submitted \<equiv> ''submitted''"
abbreviation PollMessageStatus_Processed :: string where "PollMessageStatus_Processed \<equiv> ''processed''"
abbreviation PollMessageStatus_Failed :: string where "PollMessageStatus_Failed \<equiv> ''failed''"
abbreviation OrderStatusEnum_Created :: string where "OrderStatusEnum_Created \<equiv> ''created''"

abbreviation LogMessages_HandleMessageFailed :: string where
  "LogMessages_HandleMessageFailed \<equiv> ''Failed to handle message''"

section \<open>Messages of the registry interface\<close>

text \<open>A protobuf timestamp; a nil one reads as the epoch (\<^verbatim>\<open>AsTime\<close> of a nil pointer).\<close>

record timestamp =
  ts_seconds :: int
  ts_nanos :: int

definition AsTime :: "timestamp option \<Rightarrow> gotime" where
  "AsTime t = (case t of
      None \<Rightarrow> \<lparr>t_sec = 0, t_nsec = 0, t_off = 0\<rparr>
    | Some t \<Rightarrow> \<lparr>t_sec = ts_seconds t, t_nsec = ts_nanos t, t_off = 0\<rparr>)"

text \<open>\<^verbatim>\<open>timestamppb.New\<close>.\<close>

definition timestamp_New :: "gotime \<Rightarrow> timestamp" where
  "timestamp_New t = \<lparr>ts_seconds = t_sec t, ts_nanos = t_nsec t\<rparr>"

text \<open>A packed extension (\<^verbatim>\<open>anypb.Any\<close>): a type URL and bytes.\<close>

datatype any = Any string string

text \<open>A Go map iterates in no fixed order; the list is the order of this run.\<close>

type_synonym extensions = "(string \<times> any option) list"

record RegistryResponse =
  rr_IsSuccess :: bool
  rr_EppCode :: i32
  rr_EppMessage :: string
  rr_EppCltrid :: string
  rr_Xml :: string

record Money =
  mo_CurrencyCode :: string
  mo_Units :: i64
  mo_Nanos :: i32

datatype BaseOperation = REGISTRATION | RENEWAL | TRANSFER | RESTORE | OTHER_OPERATION

record DomainOperationFee =
  fee_Operation :: BaseOperation
  fee_Phase :: "string option"
  fee_Price :: "Money option"

record DomainAvailResponse =
  av_IsAvailable :: bool
  av_PricingTier :: "string option"
  av_Fees :: "DomainOperationFee list"

datatype DomainContactType = CONTACT_TYPE_UNSPECIFIED | ADMIN | BILLING | TECH

record DomainContactMsg =
  dcm_Type :: DomainContactType
  dcm_Id :: string

record DomainCreateResponse =
  dcr_Name :: string
  dcr_CreatedDate :: "timestamp option"
  dcr_ExpiryDate :: "timestamp option"
  dcr_RegistryResponse :: "RegistryResponse option"

record DomainRenewResponse =
  dre_ExpiryDate :: "timestamp option"
  dre_RegistryResponse :: "RegistryResponse option"

record DomainCheckResponse =
  dck_Domains :: "DomainAvailResponse list"
  dck_Extensions :: extensions
  dck_RegistryResponse :: "RegistryResponse option"

record DomainTransferResponse =
  dtx_Name :: string
  dtx_Status :: string
  dtx_RequestedBy :: string
  dtx_RequestedDate :: "timestamp option"
  dtx_ActionBy :: string
  dtx_ActionDate :: "timestamp option"
  dtx_ExpiryDate :: "timestamp option"
  dtx_RegistryResponse :: "RegistryResponse option"

record DomainInfoResponse =
  din_Clid :: string
  din_CreatedDate :: "timestamp option"
  din_ExpiryDate :: "timestamp option"
  din_TransferredDate :: "timestamp option"
  din_Statuses :: "string list"
  din_Hosts :: "string list option"
  din_Contacts :: "DomainContactMsg list"
  din_Nameservers :: "string list"
  din_Extensions :: extensions
  din_RegistryResponse :: "RegistryResponse option"

record ErrorResponse =
  er_Code :: i32
  er_Message :: string

record DomainHostAttribute =
  ha_Name :: string
  ha_Addresses :: "string list"

record DomainAddRemBlock =
  arb_Contacts :: "DomainContactMsg list"
  arb_Nameservers :: "string list"
  arb_Nsattributes :: "DomainHostAttribute list"
  arb_Status :: "string list"

record DomainChgBlock =
  chg_Registrant :: "string option"
  chg_Pw :: "string option"

record DomainUpdateRequest =
  dur_Name :: string
  dur_Add :: "DomainAddRemBlock option"
  dur_Rem :: "DomainAddRemBlock option"
  dur_Chg :: "DomainChgBlock option"
  dur_Extensions :: extensions

text \<open>Every period the workers send is in years.\<close>

datatype PeriodUnit = PeriodUnit_YEAR

record DomainCreateRequest =
  dcq_Name :: string
  dcq_Period :: u32
  dcq_PeriodUnit :: PeriodUnit
  dcq_Registrant :: string
  dcq_Contacts :: "DomainContactMsg list"
  dcq_Nameservers :: "string list"
  dcq_Nsattributes :: "DomainHostAttribute list"
  dcq_Pw :: string
  dcq_Extensions :: extensions

record DomainRenewRequest =
  drq_Name :: string
  drq_Period :: u32
  drq_PeriodUnit :: PeriodUnit
  drq_CurrentExpiryDate :: timestamp
  drq_Extensions :: extensions

record DomainTransferRequest =
  dtq_Name :: string
  dtq_Pw :: string
  dtq_Period :: u32
  dtq_PeriodUnit :: PeriodUnit
  dtq_Extensions :: extensions

record ContactPostalAddress =
  cpa_Street1 :: "string option"
  cpa_Street2 :: "string option"
  cpa_Street3 :: "string option"
  cpa_City :: "string option"
  cpa_Sp :: "string option"
  cpa_Pc :: "string option"
  cpa_Cc :: "string option"

record ContactPostalInfo =
  cpi_Name :: "string option"
  cpi_Org :: "string option"
  cpi_Address :: ContactPostalAddress

record ContactCreateRequest =
  ccq_Id :: string
  ccq_Email :: "string option"
  ccq_Voice :: "string option"
  ccq_VoiceExt :: "string option"
  ccq_Fax :: "string option"
  ccq_FaxExt :: "string option"
  ccq_Pw :: string
  ccq_PostalInfoInt :: "ContactPostalInfo option"
  ccq_PostalInfoLoc :: "ContactPostalInfo option"

record ContactChgBlock =
  ccb_Email :: "string option"
  ccb_Voice :: "string option"
  ccb_VoiceExt :: "string option"
  ccb_Fax :: "string option"
  ccb_FaxExt :: "string option"
  ccb_PostalInfoInt :: "ContactPostalInfo option"
  ccb_PostalInfoLoc :: "ContactPostalInfo option"

record HostUpdateRequest =
  huq_Name :: string
  huq_Add :: "string list option"
  huq_Rem :: "string list option"
  huq_NewName :: string

record HostCheckResponse =
  hck_Hosts :: "bool list"
  hck_RegistryResponse :: "RegistryResponse option"

text \<open>Poll messages: as the registry interface delivers them, and as the poll enqueuer passes them on.\<close>

record EppPollTrnData =
  trn_Name :: "string option"
  trn_Status :: "string option"
  trn_RequestedBy :: "string option"
  trn_RequestedDate :: "timestamp option"
  trn_ActionBy :: "string option"
  trn_ActionDate :: "timestamp option"
  trn_ExpiryDate :: "timestamp option"

record EppPollRenData =
  ren_Name :: string
  ren_ExDate :: "timestamp option"

record EppPollPanData =
  pan_Name :: string
  pan_PaResult :: i32
  pan_PaCltrid :: string

datatype poll_data =
    TrnData EppPollTrnData
  | RenData EppPollRenData
  | PanData EppPollPanData
  | DomainInfoPoll DomainInfoResponse
  | ContactInfoPoll any
  | HostInfoPoll any

record EppPollMessage =
  epm_Id :: string
  epm_Msg :: "string option"
  epm_Lang :: "string option"
  epm_QueueDate :: "timestamp option"
  epm_Data :: "poll_data option"

record PollMessage =
  wpm_Id :: string
  wpm_Msg :: string
  wpm_Type :: string
  wpm_Status :: string
  wpm_Accreditation :: string
  wpm_CreatedDate :: "timestamp option"
  wpm_Data :: "poll_data option"

record TransferNotification =
  tnf_Name :: "string option"
  tnf_Status :: "string option"
  tnf_RequestedBy :: "string option"
  tnf_RequestedDate :: "timestamp option"
  tnf_ActionBy :: "string option"
  tnf_ActionDate :: "timestamp option"
  tnf_ExpiryDate :: "timestamp option"

record NotificationMessage =
  nmg_Type :: string
  nmg_Data :: "any option"
  nmg_TenantId :: string
  nmg_TenantCustomerId :: "string option"

text \<open>What the certificate backend reports.\<close>

datatype CertStatus = CERT_STATUS_ERROR | CERT_STATUS_OTHER

record CertificateMsg =
  cmg_Cert :: string
  cmg_Chain :: string
  cmg_PrivateKey :: string
  cmg_NotBefore :: "timestamp option"
  cmg_NotAfter :: "timestamp option"

record CertificateNotification =
  cnt_RequestId :: string
  cnt_Domain :: string
  cnt_Status :: CertStatus
  cnt_Message :: string
  cnt_Certificate :: "CertificateMsg option"

datatype message =
    DomainCreateResponseMsg DomainCreateResponse
  | DomainRenewResponseMsg DomainRenewResponse
  | DomainUpdateResponseMsg "RegistryResponse option"
  | DomainDeleteResponseMsg "RegistryResponse option"
  | DomainCheckResponseMsg DomainCheckResponse
  | DomainTransferResponseMsg DomainTransferResponse
  | DomainInfoResponseMsg DomainInfoResponse
  | ErrorResponseMsg ErrorResponse
  | DomainInfoRequestMsg string "string option"
  | DomainTransferQueryRequestMsg string "string option"
  | DomainCreateRequestMsg DomainCreateRequest
  | DomainRenewRequestMsg DomainRenewRequest
  | DomainUpdateRequestMsg DomainUpdateRequest
  | DomainDeleteRequestMsg string
  | DomainCheckRequestMsg "string list" extensions
  | DomainTransferRequestMsg DomainTransferRequest
  | DomainTransferApproveRequestMsg string "string option"
  | DomainTransferRejectRequestMsg string "string option"
  | DomainTransferCancelRequestMsg string "string option"
  | ContactCreateResponseMsg "RegistryResponse option"
  | ContactUpdateResponseMsg "RegistryResponse option"
  | ContactDeleteResponseMsg "RegistryResponse option"
  | ContactCreateRequestMsg ContactCreateRequest
  | ContactUpdateRequestMsg string ContactChgBlock
  | ContactDeleteRequestMsg string
  | HostCreateResponseMsg "RegistryResponse option"
  | HostUpdateResponseMsg "RegistryResponse option"
  | HostDeleteResponseMsg "RegistryResponse option"
  | HostCheckResponseMsg HostCheckResponse
  | HostInfoResponseMsg "string list"
  | HostCreateRequestMsg string "string list"
  | HostUpdateRequestMsg HostUpdateRequest
  | HostDeleteRequestMsg string
  | HostCheckRequestMsg "string list"
  | HostInfoRequestMsg string
  | JobNotificationMsg string string string string string
  | EppPollMessageMsg EppPollMessage
  | PollMessageMsg PollMessage
  | NotificationMessageMsg NotificationMessage
  | CertificateIssuedMsg CertificateNotification
  | CertificateRenewedMsg CertificateNotification
  | SuccessResponseMsg
  | OtherMsg string

text \<open>\<open>JobNotificationMsg\<close> carries the id, type and status of the announced job, and the id and table of the
  row it is about.\<close>

text \<open>Nil-safe getters of the generated code.\<close>

definition GetIsSuccess :: "RegistryResponse option \<Rightarrow> bool" where
  "GetIsSuccess r = (case r of None \<Rightarrow> False | Some r \<Rightarrow> rr_IsSuccess r)"

definition GetEppCode :: "RegistryResponse option \<Rightarrow> i32" where
  "GetEppCode r = (case r of None \<Rightarrow> 0 | Some r \<Rightarrow> rr_EppCode r)"

definition GetEppMessage :: "RegistryResponse option \<Rightarrow> string" where
  "GetEppMessage r = (case r of None \<Rightarrow> [] | Some r \<Rightarrow> rr_EppMessage r)"

definition GetXml :: "RegistryResponse option \<Rightarrow> string" where
  "GetXml r = (case r of None \<Rightarrow> [] | Some r \<Rightarrow> rr_Xml r)"

datatype secdns_data = DsSet "(u32 \<times> u32 \<times> u32 \<times> string) list" | KeySet "(u32 \<times> u32 \<times> u32 \<times> string) list" | NoSecdns

text \<open>The extension messages the workers pack into their requests (\<^verbatim>\<open>anypb.New\<close>).\<close>

datatype LaunchCreateType = LAUNCH_CREATE_TYPE_UNKNOWN | LCRT_APPLICATION | LCRT_REGISTRATION

record LaunchNotice =
  ln_NoticeId :: string
  ln_ValidatorId :: "string option"
  ln_NotAfter :: timestamp
  ln_AcceptedDate :: timestamp

record RgpReport =
  rgp_PreData :: string
  rgp_PostData :: string
  rgp_DelTime :: timestamp
  rgp_ResTime :: timestamp
  rgp_ResReason :: string
  rgp_Statement1 :: string
  rgp_Statement2 :: string

record FeeCheckRequest =
  fcq_Names :: "string list"
  fcq_Operation :: BaseOperation
  fcq_Period :: "u32 option"
  fcq_PeriodUnit :: "PeriodUnit option"
  fcq_Currency :: "string option"

datatype ext_message =
    FeeTransformRequestExt "Money list"
  | LaunchCreateRequestExt "LaunchCreateType option" "LaunchNotice list"
  | LaunchCheckClaimsExt
  | SecdnsCreateRequestExt secdns_data "u32 option"
  | SecdnsUpdateRequestExt "secdns_data option" "secdns_data option" "u32 option"
  | IdnCreateRequestExt string string
  | RgpUpdateRequestExt string "RgpReport option"
  | FeeCheckRequestExt FeeCheckRequest
  | TransferNotificationExt TransferNotification

section \<open>Other messages\<close>

text \<open>The notice of the hosting backend, and the answers of the backends to requests.\<close>

record OrderDetailsResponse =
  odr_Id :: string
  odr_Status :: string
  odr_StatusDetails :: string
  odr_IsActive :: bool
  odr_IsDeleted :: bool

record http_response =
  hr_StatusCode :: int
  hr_Error :: string

text \<open>A request to a backend, by endpoint.\<close>

datatype http_request =
    PostOrders CreateOrderRequest
  | PatchOrder UpdateOrderRequest
  | PatchCertificate UpdateCertificateRequest
  | DeleteOrder DeleteOrderRequest
  | PostClients CreateClientRequest
  | GetClients string string
  | PostResellers CreateResellerRequest
  | GetResellers string
  | PostNewcert CreateCertificateRequest
  | GetGetcert string

section \<open>Calls and histories\<close>

text \<open>A database handle is the connection pool or an open transaction.\<close>

datatype session = Pool | Tx nat

datatype "query" =
    FindJob string string bool
  | FindProvisionDomain string
  | FindProvisionDomainRenew string
  | FindProvisionDomainRedeem string
  | FindProvisionDomainDelete string
  | FindProvisionDomainTransferIn string
  | FirstProvisionDomainTransferInRequest ProvisionDomainTransferInRequest
  | FirstVDomain VDomain
  | FirstOrderItemCreateDomain string
  | FirstDomain Domain
  | FindTLDSetting string string
  | FirstAccreditation string string
  | ScanDomainAccreditation string
  | ScanPendingTransferIns string gotime
  | ScanTransferAwayOrders string gotime
  | ScanPurgeableDomains string gotime int
  | FirstTransferAwayOrder string string string
  | FirstVProvisionDomain VProvisionDomain
  | FirstHosting Hosting
  | FirstProvisionHostingCertificate ProvisionHostingCertificateCreate
  | ScanStaleJobs

text \<open>The condition of an update of \<^verbatim>\<open>provision_hosting_create\<close>: the id in a map, or a row to match.\<close>

datatype hosting_where = WhereId "string option" | WhereRow ProvisionHostingCreate

datatype stmt =
    UpdatesJob Job
  | UpdatesOrderItemPlan OrderItemPlan
  | UpdatesProvisionDomain ProvisionDomain
  | UpdatesProvisionDomainUpdate ProvisionDomainUpdate
  | UpdatesProvisionDomainDelete ProvisionDomainDelete
  | UpdatesProvisionDomainRenew ProvisionDomainRenew
  | UpdatesProvisionDomainRedeem ProvisionDomainRedeem
  | UpdatesProvisionDomainTransferInRequest ProvisionDomainTransferInRequest
  | UpdatesProvisionDomainTransferIn ProvisionDomainTransferIn
  | UpdatesOrderItemCreateDomain OrderItemCreateDomain
  | CreateOrderRow Order
  | OrderNextStatusStmt string bool
  | CreateDsRows "TransferInDomainSecdnsDsDatum list"
  | CreateKeyRows "TransferInDomainSecdnsKeyDatum list"
  | UpdatesProvisionContactHandle string string
  | UpdatesTransferAwayDomain OrderItemTransferAwayDomain
  | DeleteDomainStmt string string
  | CreatePollMessageRow PollMessageRow
  | UpdatePollMessageStatusStmt string string
  | UpdateProvisionDomainStatusStmt string string
  | UpdatesDomain Domain
  | CreateDomainRgpStatusRow DomainRgpStatus
  | UpdatesProvisionHostingCreate hosting_where ProvisionHostingCreate
  | UpdatesProvisionHostingUpdate string ProvisionHostingUpdate
  | UpdatesProvisionHostingDelete string ProvisionHostingDelete
  | UpdatesHosting Hosting
  | UpdatesProvisionHostingCertificate ProvisionHostingCertificateCreate
  | CreateNotificationStmt NotificationRow

datatype event =
    BeginTx nat
  | CommitTx session
  | RollbackTx session
  | Query session "query"
  | Exec session stmt
  | BusCall string message
  | BusSend string message "(string \<times> string) list"
  | LookupIP string
  | Reply message
  | ErrorReply string
  | Ack bool
  | HttpCall http_request
  | ResolveCNAME string

type_synonym hist = "event list"

record services =
  sv_err :: "hist \<Rightarrow> event \<Rightarrow> gerr option"
  sv_job :: "hist \<Rightarrow> event \<Rightarrow> Job \<times> gerr option"
  sv_pd :: "hist \<Rightarrow> event \<Rightarrow> ProvisionDomain option \<times> gerr option"
  sv_pdrn :: "hist \<Rightarrow> event \<Rightarrow> ProvisionDomainRenew option \<times> gerr option"
  sv_pdrd :: "hist \<Rightarrow> event \<Rightarrow> ProvisionDomainRedeem option \<times> gerr option"
  sv_pdd :: "hist \<Rightarrow> event \<Rightarrow> ProvisionDomainDelete option \<times> gerr option"
  sv_pdti :: "hist \<Rightarrow> event \<Rightarrow> ProvisionDomainTransferIn option \<times> gerr option"
  sv_pdtr :: "hist \<Rightarrow> event \<Rightarrow> ProvisionDomainTransferInRequest option \<times> gerr option"
  sv_vd :: "hist \<Rightarrow> event \<Rightarrow> VDomain option \<times> gerr option"
  sv_ocd :: "hist \<Rightarrow> event \<Rightarrow> OrderItemCreateDomain option \<times> gerr option"
  sv_domain :: "hist \<Rightarrow> event \<Rightarrow> Domain option \<times> gerr option"
  sv_attribute :: "hist \<Rightarrow> event \<Rightarrow> VAttribute option \<times> gerr option"
  sv_acc :: "hist \<Rightarrow> event \<Rightarrow> AccreditationRow option \<times> gerr option"
  sv_acc_cache :: "hist \<Rightarrow> string \<Rightarrow> AccreditationRow option"
  sv_dacc :: "hist \<Rightarrow> event \<Rightarrow> (Domain \<times> AccreditationRow) option \<times> gerr option"
  sv_pdtrs :: "hist \<Rightarrow> event \<Rightarrow> ProvisionDomainTransferInRequest list \<times> gerr option"
  sv_votas :: "hist \<Rightarrow> event \<Rightarrow> VOrderTransferAwayDomain list \<times> gerr option"
  sv_vds :: "hist \<Rightarrow> event \<Rightarrow> VDomain list \<times> gerr option"
  sv_ota :: "hist \<Rightarrow> event \<Rightarrow> OrderItemTransferAwayDomain option \<times> gerr option"
  sv_vpd :: "hist \<Rightarrow> event \<Rightarrow> VProvisionDomain option \<times> gerr option"
  sv_pg_code :: "gerr \<Rightarrow> string option"
  sv_poll_json :: "poll_data \<Rightarrow> gerr + json"
  sv_lookup :: "hist \<Rightarrow> event \<Rightarrow> gerr + (nat list) list"
  sv_order_id :: "hist \<Rightarrow> event \<Rightarrow> string"
  sv_reply :: "hist \<Rightarrow> event \<Rightarrow> gerr + message"
  sv_now :: "hist \<Rightarrow> nat \<Rightarrow> gotime"
  sv_protojson :: "message \<Rightarrow> gerr + json"
  sv_rgp :: "any option \<Rightarrow> gerr + string"
  sv_launch :: "any option \<Rightarrow> gerr + bool list"
  sv_secdns :: "any option \<Rightarrow> gerr + secdns_data"
  sv_idn :: "any option \<Rightarrow> gerr + string \<times> string"
  sv_epp_xml :: "string \<Rightarrow> string list option"
  sv_connect_error :: "gerr \<Rightarrow> bool"
  sv_uuid_ok :: "string \<Rightarrow> bool"
  sv_json_text :: "string \<Rightarrow> raw \<Rightarrow> string"
  sv_money_equal :: "Money \<Rightarrow> Money option \<Rightarrow> bool"
  sv_type_name :: "message \<Rightarrow> string"
  sv_f64 :: f64ops
  sv_pack :: "ext_message \<Rightarrow> gerr + any"
  sv_range :: "hist \<Rightarrow> string list \<Rightarrow> string list"
  sv_time_string :: "gotime \<Rightarrow> string"
  sv_operation0 :: BaseOperation
  sv_hosting :: "hist \<Rightarrow> event \<Rightarrow> Hosting option \<times> gerr option"
  sv_phcc :: "hist \<Rightarrow> event \<Rightarrow> ProvisionHostingCertificateCreate option \<times> gerr option"
  sv_rows_affected :: "hist \<Rightarrow> event \<Rightarrow> nat"
  sv_stale :: "hist \<Rightarrow> event \<Rightarrow> StaleJob list \<times> gerr option"
  sv_http :: "hist \<Rightarrow> event \<Rightarrow> http_response option \<times> gerr option"
  sv_order_result :: "hist \<Rightarrow> event \<Rightarrow> OrderResponse"
  sv_client_results :: "hist \<Rightarrow> event \<Rightarrow> ClientResponse list"
  sv_reseller_results :: "hist \<Rightarrow> event \<Rightarrow> ResellerResponse list"
  sv_client_result :: "hist \<Rightarrow> event \<Rightarrow> ClientResponse"
  sv_reseller_result :: "hist \<Rightarrow> event \<Rightarrow> ResellerResponse"
  sv_newcert_result :: "hist \<Rightarrow> event \<Rightarrow> CreateCertificateResponse"
  sv_cert_result :: "hist \<Rightarrow> event \<Rightarrow> GetCertificateResponse"
  sv_ctx_done :: "hist \<Rightarrow> bool"
  sv_cname :: "hist \<Rightarrow> event \<Rightarrow> gerr + string list"
  sv_pem :: "string \<Rightarrow> (string \<times> bool \<times> string \<times> string) option"
  sv_x509 :: "string \<Rightarrow> gerr + (gotime \<times> gotime) list"
  sv_unpack :: "any option \<Rightarrow> gerr + ext_message"
  sv_ext_json :: "ext_message \<Rightarrow> gerr + json"

definition perform :: "event \<Rightarrow> (hist \<Rightarrow> event \<Rightarrow> 'a) \<Rightarrow> (hist, 'a) go" where
  "perform e answer = (\<lambda>h. (Ret (answer h e), e # h))"

definition observe :: "(hist \<Rightarrow> 'a) \<Rightarrow> (hist, 'a) go" where
  "observe f = (\<lambda>h. (Ret (f h), h))"

lemma wp_perform [wp]: "wp (perform e f) Q h = Q (Ret (f h e)) (e # h)"
  by (simp add: wp_def perform_def)

lemma wp_observe [wp]: "wp (observe f) Q h = Q (Ret (f h)) h"
  by (simp add: wp_def observe_def)

lemma adds_perform [adds_rules]: "P e \<Longrightarrow> \<not> W e \<Longrightarrow> adds P W k (perform e f)"
  by (auto simp: adds_def perform_def)

lemma adds_perform_counted: "P e \<Longrightarrow> adds P W (Suc k) (perform e f)"
  by (auto simp: adds_def perform_def)

lemma adds_observe [adds_rules]: "adds P W k (observe f)"
  by (simp add: adds_def observe_def)

section \<open>Reading a history\<close>

text \<open>The job rows written, newest first, and the ones written through one handle.\<close>

fun job_writes :: "hist \<Rightarrow> Job list" where
  "job_writes [] = []"
| "job_writes (Exec s (UpdatesJob j) # h) = j # job_writes h"
| "job_writes (e # h) = job_writes h"

text \<open>The messages put on the bus without waiting for an answer, newest first.\<close>

fun sends :: "hist \<Rightarrow> (string \<times> message \<times> (string \<times> string) list) list" where
  "sends [] = []"
| "sends (BusSend q m hs # h) = (q, m, hs) # sends h"
| "sends (e # h) = sends h"

fun is_send :: "event \<Rightarrow> bool" where
  "is_send (BusSend q m hs) = True"
| "is_send e = False"

text \<open>An event that changes the database.\<close>

fun is_write :: "event \<Rightarrow> bool" where
  "is_write (Exec s q) = True"
| "is_write e = False"

fun is_job_write :: "event \<Rightarrow> bool" where
  "is_job_write (Exec s (UpdatesJob j)) = True"
| "is_job_write e = False"

fun event_session :: "event \<Rightarrow> session option" where
  "event_session (Query s q) = Some s"
| "event_session (Exec s q) = Some s"
| "event_session (CommitTx s) = Some s"
| "event_session (RollbackTx s) = Some s"
| "event_session _ = None"

lemma job_writes_append [simp]: "job_writes (d @ h) = job_writes d @ job_writes h"
  by (induction d rule: job_writes.induct) auto

lemma sends_append [simp]: "sends (d @ h) = sends d @ sends h"
  by (induction d rule: sends.induct) auto

lemma length_sends: "length (sends h) = length (filter is_send h)"
  by (induction h rule: sends.induct) auto

lemma job_writes_Nil_iff: "job_writes h = [] \<longleftrightarrow> list_all (\<lambda>e. \<not> is_job_write e) h"
  by (induction h rule: job_writes.induct) auto

lemma job_write_is_write: "is_job_write e \<Longrightarrow> is_write e"
  by (cases e rule: is_job_write.cases) auto

end
