(* ===== verification/Enumerator.thy ===== *)
theory Enumerator
  imports Services
begin

text \<open>
  \<^verbatim>\<open>pkg/enumerator\<close> and \<^verbatim>\<open>pkg/database/model/enumerators.go\<close>: lookup tables read once from the
  database and kept as two-way maps between names and ids.

  The two-way map itself comes from a third-party package: a value of type \<open>bimap\<close> is what it
  answers to \<^verbatim>\<open>Get\<close> and \<^verbatim>\<open>GetInverse\<close>, and its constructor is the parameter \<open>mk\<close> of \<open>New\<close>. What
  the program relies on is \<open>bimap_spec\<close>.
\<close>

record bimap =
  bm_Get :: "string \<Rightarrow> string option"
  bm_GetInverse :: "string \<Rightarrow> string option"

record EnumTable =
  et_data :: bimap

text \<open>Rows of a lookup table with the columns the code reads.\<close>

record name_row =
  nr_ID :: string
  nr_Name :: string

record VOrderType =
  vot_ProductName :: "string option"
  vot_ID :: "string option"
  vot_Name :: "string option"

section \<open>Enumerate\<close>

text \<open>
  Each table's \<^verbatim>\<open>Enumerate\<close> has the same body: read every row, stop at an error, else fill a map
  from names to ids, later rows winning. The result of \<^verbatim>\<open>tx.Find\<close> is the argument.
\<close>

fun fill_names :: "name_row list \<Rightarrow> (string \<times> string) list \<Rightarrow> (string \<times> string) list" where
  "fill_names [] data = data"
| "fill_names (item # items) data = fill_names items (AList.update (nr_Name item) (nr_ID item) data)"

definition Enumerate :: "name_row list \<times> gerr option \<Rightarrow> (string \<times> string) list \<times> gerr option" where
  "Enumerate found = (case found of (items, err) \<Rightarrow>
     if err \<noteq> None then ([], err) else (fill_names items [], None))"

definition JobStatus_Enumerate where "JobStatus_Enumerate = Enumerate"
definition JobType_Enumerate where "JobType_Enumerate = Enumerate"
definition ProvisionStatus_Enumerate where "ProvisionStatus_Enumerate = Enumerate"
definition DomainContactType_Enumerate where "DomainContactType_Enumerate = Enumerate"
definition PollMessageType_Enumerate where "PollMessageType_Enumerate = Enumerate"
definition PollMessageStatus_Enumerate where "PollMessageStatus_Enumerate = Enumerate"
definition RgpStatus_Enumerate where "RgpStatus_Enumerate = Enumerate"
definition TransferStatus_Enumerate where "TransferStatus_Enumerate = Enumerate"
definition OrderItemPlanStatus_Enumerate where "OrderItemPlanStatus_Enumerate = Enumerate"
definition OrderItemPlanValidationStatus_Enumerate where
  "OrderItemPlanValidationStatus_Enumerate = Enumerate"
definition HostingStatus_Enumerate where "HostingStatus_Enumerate = Enumerate"

text \<open>Order types are keyed by \<open>name.product\<close>; a row with a missing column panics.\<close>

fun fill_order_types ::
  "VOrderType list \<Rightarrow> (string \<times> string) list \<Rightarrow> (hist, (string \<times> string) list) go" where
  "fill_order_types [] data = ret data"
| "fill_order_types (item # items) data =
     bnd (deref (vot_Name item)) (\<lambda>name.
     bnd (deref (vot_ProductName item)) (\<lambda>product.
     bnd (deref (vot_ID item)) (\<lambda>id.
     fill_order_types items (AList.update (name @ ''.'' @ product) id data))))"

definition VOrderType_Enumerate ::
  "VOrderType list \<times> gerr option \<Rightarrow> (hist, (string \<times> string) list \<times> gerr option) go" where
  "VOrderType_Enumerate found = (case found of (items, err) \<Rightarrow>
     if err \<noteq> None then ret ([], err)
     else bnd (fill_order_types items []) (\<lambda>data. ret (data, None)))"

section \<open>EnumTable\<close>

definition New ::
  "((string \<times> string) list \<Rightarrow> bimap) \<Rightarrow> (string \<times> string) list \<times> gerr option
     \<Rightarrow> EnumTable option \<times> gerr option" where
  "New mk enumerated = (case enumerated of (data, err) \<Rightarrow>
     if err \<noteq> None then (None, err) else (Some \<lparr>et_data = mk data\<rparr>, None))"

definition GetByKey :: "EnumTable \<Rightarrow> string \<Rightarrow> string" where
  "GetByKey et key = (case bm_Get (et_data et) key of None \<Rightarrow> [] | Some v \<Rightarrow> v)"

definition GetByValue :: "EnumTable \<Rightarrow> string \<Rightarrow> string" where
  "GetByValue et v = (case bm_GetInverse (et_data et) v of None \<Rightarrow> [] | Some k \<Rightarrow> k)"

section \<open>The two-way map package\<close>

definition bimap_spec :: "((string \<times> string) list \<Rightarrow> bimap) \<Rightarrow> bool" where
  "bimap_spec mk \<longleftrightarrow>
     (\<forall>m. distinct (map fst m) \<longrightarrow> distinct (map snd m) \<longrightarrow>
        bm_Get (mk m) = map_of m \<and> bm_GetInverse (mk m) = map_of (map prod.swap m))"

text \<open>A two-way map built from association lists, to run examples with.\<close>

definition assoc_bimap :: "(string \<times> string) list \<Rightarrow> bimap" where
  "assoc_bimap m = \<lparr>bm_Get = map_of m, bm_GetInverse = map_of (map prod.swap m)\<rparr>"

lemma bimap_spec_assoc: "bimap_spec assoc_bimap"
  by (simp add: bimap_spec_def assoc_bimap_def)

section \<open>Facts\<close>

lemma fill_names_distinct:
  "distinct (map nr_Name items) \<Longrightarrow> set (map nr_Name items) \<inter> fst ` set data = {} \<Longrightarrow>
   fill_names items data = data @ map (\<lambda>i. (nr_Name i, nr_ID i)) items"
proof (induction items arbitrary: data)
  case (Cons i items)
  have "AList.update (nr_Name i) (nr_ID i) data = data @ [(nr_Name i, nr_ID i)]"
    using Cons.prems(2) by (intro alist_update_new) auto
  with Cons show ?case by auto
qed simp

lemma Enumerate_distinct:
  "distinct (map nr_Name items) \<Longrightarrow>
   Enumerate (items, None) = (map (\<lambda>i. (nr_Name i, nr_ID i)) items, None)"
  by (simp add: Enumerate_def fill_names_distinct)

section \<open>Lookups\<close>

lemma map_of_swap:
  "distinct (map snd m) \<Longrightarrow> (k, v) \<in> set m \<Longrightarrow> map_of (map prod.swap m) v = Some k"
  by (rule map_of_is_SomeI) (force simp: comp_def)+

text \<open>
  A lookup table whose names and ids are unique answers both ways: each row's name gives its id
  and its id gives its name, and a name that is in no row gives the empty string.
\<close>

theorem enum_roundtrip:
  assumes "bimap_spec mk" "distinct (map nr_Name items)" "distinct (map nr_ID items)"
  shows "\<exists>et. New mk (Enumerate (items, None)) = (Some et, None) \<and>
     (\<forall>i \<in> set items. GetByKey et (nr_Name i) = nr_ID i \<and> GetByValue et (nr_ID i) = nr_Name i) \<and>
     (\<forall>k. k \<notin> nr_Name ` set items \<longrightarrow> GetByKey et k = [])"
proof -
  let ?m = "map (\<lambda>i. (nr_Name i, nr_ID i)) items"
  have d: "distinct (map fst ?m)" "distinct (map snd ?m)" using assms(2,3) by (simp_all add: comp_def)
  then have mk: "bm_Get (mk ?m) = map_of ?m" "bm_GetInverse (mk ?m) = map_of (map prod.swap ?m)"
    using assms(1) unfolding bimap_spec_def by blast+
  have "GetByKey \<lparr>et_data = mk ?m\<rparr> (nr_Name i) = nr_ID i \<and> GetByValue \<lparr>et_data = mk ?m\<rparr> (nr_ID i) = nr_Name i"
    if "i \<in> set items" for i
  proof -
    have "(nr_Name i, nr_ID i) \<in> set ?m" using that by simp
    from map_of_is_SomeI [OF d(1) this] map_of_swap [OF d(2) this] show ?thesis
      by (simp add: GetByKey_def GetByValue_def mk del: map_map)
  qed
  moreover have "GetByKey \<lparr>et_data = mk ?m\<rparr> k = []" if "k \<notin> nr_Name ` set items" for k
  proof -
    have "map_of ?m k = None" using that by (auto simp: map_of_eq_None_iff image_iff)
    then show ?thesis by (simp add: GetByKey_def mk)
  qed
  ultimately show ?thesis
    using Enumerate_distinct [OF assms(2)] by (simp add: New_def)
qed

theorem enum_roundtrip_witness:
  "\<exists>et. New assoc_bimap (Enumerate ([\<lparr>nr_ID = ''s1'', nr_Name = ''created''\<rparr>, \<lparr>nr_ID = ''s2'', nr_Name = ''failed''\<rparr>], None))
       = (Some et, None) \<and> GetByKey et ''failed'' = ''s2'' \<and> GetByValue et ''s1'' = ''created''"
  using enum_roundtrip [OF bimap_spec_assoc,
      of "[\<lparr>nr_ID = ''s1'', nr_Name = ''created''\<rparr>, \<lparr>nr_ID = ''s2'', nr_Name = ''failed''\<rparr>]"]
  by auto

end
