(* ===== verification/Database.thy ===== *)
theory Database
  imports Enumerator
begin

text \<open>
  \<^verbatim>\<open>pkg/database/database.go\<close>: the database layer the workers share. A handle is a gorm session (the
  pool or an open transaction) together with the lookup tables loaded at start. Every method
  issues one or two gorm calls through its session, recorded as events, and translates their
  errors. A connection error ends the process (\<^verbatim>\<open>log.Fatal\<close>); whether an error is one is decided by
  \<^verbatim>\<open>errors.Is\<close> against a fresh \<^verbatim>\<open>pgconn.ConnectError\<close>, which is the driver's business
  (\<open>sv_connect_error\<close>).
\<close>

record database =
  db_gorm :: session
  db_jobStatusEnum :: EnumTable
  db_jobTypeEnum :: EnumTable
  db_provisionStatusEnum :: EnumTable
  db_transferStatusEnum :: EnumTable
  db_orderItemPlanStatusEnum :: EnumTable
  db_orderItemPlanValidationStatusEnum :: EnumTable
  db_orderTypeEnum :: EnumTable
  db_domainContactTypeEnum :: EnumTable
  db_pollMessageTypeEnum :: EnumTable
  db_pollMessageStatusEnum :: EnumTable
  db_rgpStatusEnum :: EnumTable
  db_hostingStatusEnum :: EnumTable

section \<open>Lookups\<close>

definition GetJobStatusId :: "database \<Rightarrow> string \<Rightarrow> string" where
  "GetJobStatusId db name = GetByKey (db_jobStatusEnum db) name"

definition GetJobStatusName :: "database \<Rightarrow> string \<Rightarrow> string" where
  "GetJobStatusName db i = GetByValue (db_jobStatusEnum db) i"

definition GetJobTypeName :: "database \<Rightarrow> string \<Rightarrow> string" where
  "GetJobTypeName db i = GetByValue (db_jobTypeEnum db) i"

definition GetProvisionStatusId :: "database \<Rightarrow> string \<Rightarrow> string" where
  "GetProvisionStatusId db name = GetByKey (db_provisionStatusEnum db) name"

definition GetProvisionStatusName :: "database \<Rightarrow> string \<Rightarrow> string" where
  "GetProvisionStatusName db i = GetByValue (db_provisionStatusEnum db) i"

definition GetTransferStatusId :: "database \<Rightarrow> string \<Rightarrow> string" where
  "GetTransferStatusId db name = GetByKey (db_transferStatusEnum db) name"

definition GetTransferStatusName :: "database \<Rightarrow> string \<Rightarrow> string" where
  "GetTransferStatusName db i = GetByValue (db_transferStatusEnum db) i"

definition GetOrderItemPlanStatusId :: "database \<Rightarrow> string \<Rightarrow> string" where
  "GetOrderItemPlanStatusId db name = GetByKey (db_orderItemPlanStatusEnum db) name"

definition GetOrderItemPlanValidationStatusId :: "database \<Rightarrow> string \<Rightarrow> string" where
  "GetOrderItemPlanValidationStatusId db name = GetByKey (db_orderItemPlanValidationStatusEnum db) name"

definition GetDomainContactTypeName :: "database \<Rightarrow> string \<Rightarrow> string" where
  "GetDomainContactTypeName db i = GetByValue (db_domainContactTypeEnum db) i"

definition GetDomainContactTypeId :: "database \<Rightarrow> string \<Rightarrow> string" where
  "GetDomainContactTypeId db name = GetByKey (db_domainContactTypeEnum db) name"

definition GetPollMessageTypeId :: "database \<Rightarrow> string \<Rightarrow> string" where
  "GetPollMessageTypeId db name = GetByKey (db_pollMessageTypeEnum db) name"

definition GetPollMessageTypeName :: "database \<Rightarrow> string \<Rightarrow> string" where
  "GetPollMessageTypeName db i = GetByValue (db_pollMessageTypeEnum db) i"

definition GetPollMessageStatusName :: "database \<Rightarrow> string \<Rightarrow> string" where
  "GetPollMessageStatusName db i = GetByValue (db_pollMessageStatusEnum db) i"

definition GetPollMessageStatusId :: "database \<Rightarrow> string \<Rightarrow> string" where
  "GetPollMessageStatusId db name = GetByKey (db_pollMessageStatusEnum db) name"

definition GetRgpStatusId :: "database \<Rightarrow> string \<Rightarrow> string" where
  "GetRgpStatusId db name = GetByKey (db_rgpStatusEnum db) name"

definition GetHostingStatusName :: "database \<Rightarrow> string \<Rightarrow> string" where
  "GetHostingStatusName db i = GetByValue (db_hostingStatusEnum db) i"

definition GetHostingStatusId :: "database \<Rightarrow> string \<Rightarrow> string" where
  "GetHostingStatusId db name = GetByKey (db_hostingStatusEnum db) name"

definition GetOrderTypeId :: "database \<Rightarrow> string \<Rightarrow> string \<Rightarrow> string" where
  "GetOrderTypeId db name productName = GetByKey (db_orderTypeEnum db) (name @ ''.'' @ productName)"

text \<open>\<^verbatim>\<open>strings.Split(s, ".")\<close>.\<close>

fun split_dot :: "string \<Rightarrow> string \<Rightarrow> string list" where
  "split_dot acc [] = [rev acc]"
| "split_dot acc (c # cs) = (if c = CHR ''.'' then rev acc # split_dot [] cs else split_dot (c # acc) cs)"

definition GetOrderTypeName :: "database \<Rightarrow> string \<Rightarrow> (hist, string \<times> string) go" where
  "GetOrderTypeName db i =
     (let n = split_dot [] (GetByValue (db_orderTypeEnum db) i)
      in if length n < 2 then go_panic ''index out of range'' else ret (n ! 0, n ! 1))"

section \<open>Transactions\<close>

text \<open>Transactions are numbered in the order they are opened.\<close>

definition fresh_tx :: "hist \<Rightarrow> nat" where
  "fresh_tx h = length (filter (\<lambda>e. case e of BeginTx _ \<Rightarrow> True | _ \<Rightarrow> False) h)"

definition Begin :: "database \<Rightarrow> (hist, database) go" where
  "Begin db = bnd (observe fresh_tx) (\<lambda>n.
     bnd (perform (BeginTx n) (\<lambda>_ _. ())) (\<lambda>_. ret (db\<lparr>db_gorm := Tx n\<rparr>)))"

definition Commit :: "services \<Rightarrow> database \<Rightarrow> (hist, gerr option) go" where
  "Commit S db = perform (CommitTx (db_gorm db)) (sv_err S)"

definition Rollback :: "services \<Rightarrow> database \<Rightarrow> (hist, gerr option) go" where
  "Rollback S db = perform (RollbackTx (db_gorm db)) (sv_err S)"

text \<open>
  \<^verbatim>\<open>WithTransaction\<close> runs its deferred function when \<open>f\<close> returns and also when it panics; then the
  named result \<^verbatim>\<open>err\<close> is still nil, so the deferred function commits before the panic goes on.
  \<^verbatim>\<open>os.Exit\<close> runs no deferred function.
\<close>

definition WithTransaction ::
  "services \<Rightarrow> database \<Rightarrow> (database \<Rightarrow> (hist, gerr option) go) \<Rightarrow> (hist, gerr option) go" where
  "WithTransaction S db f = bnd (Begin db) (\<lambda>tx. \<lambda>h.
     case f tx h of
       (Ret (Some e), h') \<Rightarrow> bnd (Rollback S tx) (\<lambda>_. ret (Some e)) h'
     | (Ret None, h') \<Rightarrow> Commit S tx h'
     | (Panicked p, h') \<Rightarrow> bnd (Commit S tx) (\<lambda>_. go_panic p) h'
     | (Exited, h') \<Rightarrow> (Exited, h'))"

section \<open>Jobs\<close>

definition getJobByField ::
  "services \<Rightarrow> database \<Rightarrow> string \<Rightarrow> string \<Rightarrow> bool \<Rightarrow> (hist, Job \<times> gerr option) go" where
  "getJobByField S db name value lock =
     bnd (perform (Query (db_gorm db) (FindJob name value lock)) (sv_job S)) (\<lambda>(job, err).
     if (case err of None \<Rightarrow> False | Some e \<Rightarrow> sv_connect_error S e) then go_exit
     else if job_ID job = [] then ret (job, Some ErrNotFound)
     else ret (job, err))"

definition GetJobByEventId :: "services \<Rightarrow> database \<Rightarrow> string \<Rightarrow> bool \<Rightarrow> (hist, Job \<times> gerr option) go" where
  "GetJobByEventId S db eventId lock = getJobByField S db ''event_id'' eventId lock"

definition GetJobById :: "services \<Rightarrow> database \<Rightarrow> string \<Rightarrow> bool \<Rightarrow> (hist, Job \<times> gerr option) go" where
  "GetJobById S db i lock =
     bnd (getJobByField S db ''id'' i lock) (\<lambda>(job, err).
     if (case err of None \<Rightarrow> False | Some e \<Rightarrow> errors_is e ErrNotFound)
     then GetJobByEventId S db i lock
     else ret (job, err))"

text \<open>The result data of a job (\<^verbatim>\<open>types.JobResultData\<close>) and its JSON form.\<close>

record ErrorDetails =
  ed_EppCode :: "i32 option"
  ed_Message :: "string option"

record JobResultData =
  jrd_Message :: "message option"
  jrd_Error :: "ErrorDetails option"

definition SetErrorDetails :: "JobResultData \<Rightarrow> i32 option \<Rightarrow> string option \<Rightarrow> JobResultData" where
  "SetErrorDetails jrd eppCode msg = jrd\<lparr>jrd_Error := Some \<lparr>ed_EppCode = eppCode, ed_Message = msg\<rparr>\<rparr>"

definition enc_ErrorDetails :: "ErrorDetails \<Rightarrow> json" where
  "enc_ErrorDetails e =
     JObj [(''epp_code'', enc_ptr (\<lambda>c. JInt (sint c)) (ed_EppCode e)),
           (''message'', enc_ptr JStr (ed_Message e))]"

definition JobResultData_MarshalJSON :: "services \<Rightarrow> JobResultData \<Rightarrow> (hist, gerr + json) go" where
  "JobResultData_MarshalJSON S jrd =
     (case jrd_Message jrd of
        None \<Rightarrow> ret (Inr (JObj (case jrd_Error jrd of
                            None \<Rightarrow> [] | Some e \<Rightarrow> [(''error_details'', enc_ErrorDetails e)])))
      | Some m \<Rightarrow>
          (case sv_protojson S m of
             Inl e \<Rightarrow> ret (Inl e)
           | Inr messageJSON \<Rightarrow>
               (case dec_map JNull dec_any messageJSON None of
                  None \<Rightarrow> ret (Inl (ErrJSON (sv_json_text S ''map'' (Raw messageJSON))))
                | Some messageMap \<Rightarrow>
                    (case jrd_Error jrd of
                       None \<Rightarrow> ret (Inr (enc_ptr enc_map messageMap))
                     | Some e \<Rightarrow>
                         (case messageMap of
                            None \<Rightarrow> go_panic ''assignment to entry in nil map''
                          | Some mm \<Rightarrow>
                              ret (Inr (enc_map (AList.update ''error'' (enc_ErrorDetails e) mm))))))))"

text \<open>
  An update: one gorm call whose error is returned, unless it is a connection error.
\<close>

definition exec_or_die :: "services \<Rightarrow> database \<Rightarrow> stmt \<Rightarrow> (hist, gerr option) go" where
  "exec_or_die S db q =
     bnd (perform (Exec (db_gorm db) q) (sv_err S)) (\<lambda>err.
     if (case err of None \<Rightarrow> False | Some e \<Rightarrow> sv_connect_error S e) then go_exit else ret err)"

definition UpdateJob :: "services \<Rightarrow> database \<Rightarrow> Job \<Rightarrow> (hist, gerr option) go" where
  "UpdateJob S db job = exec_or_die S db (UpdatesJob job)"

text \<open>
  \<^verbatim>\<open>SetJobStatus\<close> fills the job in place, so it also returns the job: result data first, then the
  status (an unknown one is an error), then the write.
\<close>

definition set_status ::
  "services \<Rightarrow> database \<Rightarrow> Job \<Rightarrow> string \<Rightarrow> (hist, Job \<times> gerr option) go" where
  "set_status S db job status =
     (if status \<noteq> [] then
        (let statusId = GetJobStatusId db status
         in if statusId = [] then ret (job, Some (ErrNew (''invalid status \"'' @ status @ ''\"'')))
            else bnd (deref (job_Info job)) (\<lambda>info.
                 let job = job\<lparr>job_StatusID := statusId,
                               job_Info := Some (info\<lparr>vj_JobStatusName := Some status\<rparr>)\<rparr>
                 in bnd (UpdateJob S db job) (\<lambda>err. ret (job, err))))
      else bnd (UpdateJob S db job) (\<lambda>err. ret (job, err)))"

definition SetJobStatus ::
  "services \<Rightarrow> database \<Rightarrow> Job \<Rightarrow> string \<Rightarrow> JobResultData option \<Rightarrow> (hist, Job \<times> gerr option) go" where
  "SetJobStatus S db job status jrd =
     (case jrd of
        None \<Rightarrow> set_status S db job status
      | Some jrd \<Rightarrow>
          bnd (JobResultData_MarshalJSON S jrd) (\<lambda>r.
          case r of
            Inl e \<Rightarrow> ret (job, Some e)
          | Inr resultData \<Rightarrow> set_status S db (job\<lparr>job_ResultData := Raw resultData\<rparr>) status))"

text \<open>The handlers' closing idiom: set the status, log an error, return it.\<close>

definition finish_job ::
  "services \<Rightarrow> database \<Rightarrow> Job \<Rightarrow> string \<Rightarrow> JobResultData option \<Rightarrow> (hist, gerr option) go" where
  "finish_job S db job status jrd =
     bnd (SetJobStatus S db job status jrd) (\<lambda>(job, err). ret err)"

section \<open>Provisioning rows and orders\<close>

definition UpdateOrderItemPlan :: "services \<Rightarrow> database \<Rightarrow> OrderItemPlan \<Rightarrow> (hist, gerr option) go" where
  "UpdateOrderItemPlan S db oip = exec_or_die S db (UpdatesOrderItemPlan oip)"

definition UpdateProvisionDomain :: "services \<Rightarrow> database \<Rightarrow> ProvisionDomain \<Rightarrow> (hist, gerr option) go" where
  "UpdateProvisionDomain S db pd = exec_or_die S db (UpdatesProvisionDomain pd)"

definition UpdateProvisionDomainUpdate :: "services \<Rightarrow> database \<Rightarrow> ProvisionDomainUpdate \<Rightarrow> (hist, gerr option) go" where
  "UpdateProvisionDomainUpdate S db pdu = exec_or_die S db (UpdatesProvisionDomainUpdate pdu)"

definition UpdateProvisionDomainDelete :: "services \<Rightarrow> database \<Rightarrow> ProvisionDomainDelete \<Rightarrow> (hist, gerr option) go" where
  "UpdateProvisionDomainDelete S db pdd = exec_or_die S db (UpdatesProvisionDomainDelete pdd)"

definition UpdateProvisionDomainRenew :: "services \<Rightarrow> database \<Rightarrow> ProvisionDomainRenew \<Rightarrow> (hist, gerr option) go" where
  "UpdateProvisionDomainRenew S db pdrn = exec_or_die S db (UpdatesProvisionDomainRenew pdrn)"

definition UpdateProvisionDomainRedeem :: "services \<Rightarrow> database \<Rightarrow> ProvisionDomainRedeem \<Rightarrow> (hist, gerr option) go" where
  "UpdateProvisionDomainRedeem S db pdrd = exec_or_die S db (UpdatesProvisionDomainRedeem pdrd)"

definition UpdateProvisionDomainTransferInRequest :: "services \<Rightarrow> database \<Rightarrow> ProvisionDomainTransferInRequest \<Rightarrow> (hist, gerr option) go" where
  "UpdateProvisionDomainTransferInRequest S db pdtr = exec_or_die S db (UpdatesProvisionDomainTransferInRequest pdtr)"

definition UpdateProvisionDomainTransferIn :: "services \<Rightarrow> database \<Rightarrow> ProvisionDomainTransferIn \<Rightarrow> (hist, gerr option) go" where
  "UpdateProvisionDomainTransferIn S db pdti = exec_or_die S db (UpdatesProvisionDomainTransferIn pdti)"

definition UpdateOrderItemCreateDomain :: "services \<Rightarrow> database \<Rightarrow> OrderItemCreateDomain \<Rightarrow> (hist, gerr option) go" where
  "UpdateOrderItemCreateDomain S db ocd = exec_or_die S db (UpdatesOrderItemCreateDomain ocd)"

definition CreateDsDataSet :: "services \<Rightarrow> database \<Rightarrow> TransferInDomainSecdnsDsDatum list \<Rightarrow> (hist, gerr option) go" where
  "CreateDsDataSet S db rows = exec_or_die S db (CreateDsRows rows)"

definition CreateKeyDataSet :: "services \<Rightarrow> database \<Rightarrow> TransferInDomainSecdnsKeyDatum list \<Rightarrow> (hist, gerr option) go" where
  "CreateKeyDataSet S db rows = exec_or_die S db (CreateKeyRows rows)"

text \<open>\<^verbatim>\<open>Find\<close> into a row pointer: an error makes the result nil.\<close>

definition find_row ::
  "database \<Rightarrow> query \<Rightarrow> (hist \<Rightarrow> event \<Rightarrow> 'r option \<times> gerr option) \<Rightarrow> (hist, 'r option \<times> gerr option) go" where
  "find_row db q answer =
     bnd (perform (Query (db_gorm db) q) answer) (\<lambda>(row, err).
     if err \<noteq> None then ret (None, err) else ret (row, None))"

text \<open>\<^verbatim>\<open>First\<close>: a missing row becomes \<^verbatim>\<open>ErrNotFound\<close>.\<close>

definition first_row ::
  "database \<Rightarrow> query \<Rightarrow> (hist \<Rightarrow> event \<Rightarrow> 'r option \<times> gerr option) \<Rightarrow> (hist, 'r option \<times> gerr option) go" where
  "first_row db q answer =
     bnd (perform (Query (db_gorm db) q) answer) (\<lambda>(row, err).
     ret (row, (case err of
                  None \<Rightarrow> None
                | Some e \<Rightarrow> if errors_is e ErrRecordNotFound then Some ErrNotFound else Some e)))"

definition GetProvisionDomain ::
  "services \<Rightarrow> database \<Rightarrow> string \<Rightarrow> (hist, ProvisionDomain option \<times> gerr option) go" where
  "GetProvisionDomain S db i = find_row db (FindProvisionDomain i) (sv_pd S)"

definition GetProvisionDomainRenew ::
  "services \<Rightarrow> database \<Rightarrow> string \<Rightarrow> (hist, ProvisionDomainRenew option \<times> gerr option) go" where
  "GetProvisionDomainRenew S db i = find_row db (FindProvisionDomainRenew i) (sv_pdrn S)"

definition GetProvisionDomainRedeem ::
  "services \<Rightarrow> database \<Rightarrow> string \<Rightarrow> (hist, ProvisionDomainRedeem option \<times> gerr option) go" where
  "GetProvisionDomainRedeem S db i = find_row db (FindProvisionDomainRedeem i) (sv_pdrd S)"

definition GetProvisionDomainDelete ::
  "services \<Rightarrow> database \<Rightarrow> string \<Rightarrow> (hist, ProvisionDomainDelete option \<times> gerr option) go" where
  "GetProvisionDomainDelete S db i = find_row db (FindProvisionDomainDelete i) (sv_pdd S)"

definition GetProvisionDomainTransferIn ::
  "services \<Rightarrow> database \<Rightarrow> string \<Rightarrow> (hist, ProvisionDomainTransferIn option \<times> gerr option) go" where
  "GetProvisionDomainTransferIn S db i = find_row db (FindProvisionDomainTransferIn i) (sv_pdti S)"

definition GetProvisionDomainTransferInRequest ::
  "services \<Rightarrow> database \<Rightarrow> ProvisionDomainTransferInRequest
     \<Rightarrow> (hist, ProvisionDomainTransferInRequest option \<times> gerr option) go" where
  "GetProvisionDomainTransferInRequest S db pdtr =
     first_row db (FirstProvisionDomainTransferInRequest pdtr) (sv_pdtr S)"

definition GetVDomain :: "services \<Rightarrow> database \<Rightarrow> VDomain \<Rightarrow> (hist, VDomain option \<times> gerr option) go" where
  "GetVDomain S db domain = first_row db (FirstVDomain domain) (sv_vd S)"

definition GetOrderItemCreateDomain ::
  "services \<Rightarrow> database \<Rightarrow> string \<Rightarrow> (hist, OrderItemCreateDomain option \<times> gerr option) go" where
  "GetOrderItemCreateDomain S db orderItemId =
     (if \<not> sv_uuid_ok S orderItemId then ret (None, Some ErrInvalidId)
      else first_row db (FirstOrderItemCreateDomain orderItemId) (sv_ocd S))"

definition GetDomain :: "services \<Rightarrow> database \<Rightarrow> Domain \<Rightarrow> (hist, Domain option \<times> gerr option) go" where
  "GetDomain S db domain = first_row db (FirstDomain domain) (sv_domain S)"

definition GetTLDSetting ::
  "services \<Rightarrow> database \<Rightarrow> string \<Rightarrow> string \<Rightarrow> (hist, VAttribute option \<times> gerr option) go" where
  "GetTLDSetting S db accreditationTldID key =
     find_row db (FindTLDSetting accreditationTldID key) (sv_attribute S)"

definition SetProvisionContactHandle ::
  "services \<Rightarrow> database \<Rightarrow> string \<Rightarrow> string \<Rightarrow> (hist, gerr option) go" where
  "SetProvisionContactHandle S db i handle = exec_or_die S db (UpdatesProvisionContactHandle i handle)"

text \<open>\<^verbatim>\<open>Create\<close> writes the generated id back into the order.\<close>

definition TransferAwayDomainOrder ::
  "services \<Rightarrow> database \<Rightarrow> Order \<Rightarrow> (hist, Order \<times> gerr option) go" where
  "TransferAwayDomainOrder S db order =
     bnd (perform (Exec (db_gorm db) (CreateOrderRow order))
            (\<lambda>h e. (order\<lparr>ord_ID := sv_order_id S h e\<rparr>, sv_err S h e))) ret"

definition OrderNextStatus ::
  "services \<Rightarrow> database \<Rightarrow> string \<Rightarrow> bool \<Rightarrow> (hist, gerr option) go" where
  "OrderNextStatus S db orderId isSuccess =
     perform (Exec (db_gorm db) (OrderNextStatusStmt orderId isSuccess)) (sv_err S)"

definition GetAccreditationByName ::
  "services \<Rightarrow> database \<Rightarrow> string \<Rightarrow> (hist, AccreditationRow option \<times> gerr option) go" where
  "GetAccreditationByName S db name = first_row db (FirstAccreditation ''name'' name) (sv_acc S)"

definition GetAccreditationById ::
  "services \<Rightarrow> database \<Rightarrow> string \<Rightarrow> (hist, AccreditationRow option \<times> gerr option) go" where
  "GetAccreditationById S db i = first_row db (FirstAccreditation ''id'' i) (sv_acc S)"

definition GetVProvisionDomain ::
  "services \<Rightarrow> database \<Rightarrow> VProvisionDomain \<Rightarrow> (hist, VProvisionDomain option \<times> gerr option) go" where
  "GetVProvisionDomain S db pd = first_row db (FirstVProvisionDomain pd) (sv_vpd S)"

definition GetTransferAwayOrder ::
  "services \<Rightarrow> database \<Rightarrow> string \<Rightarrow> string \<Rightarrow> string
     \<Rightarrow> (hist, OrderItemTransferAwayDomain option \<times> gerr option) go" where
  "GetTransferAwayOrder S db orderStatus domainName tenantID =
     first_row db (FirstTransferAwayOrder orderStatus domainName tenantID) (sv_ota S)"

text \<open>
  The answer to the join is the row that was read, if any, and the error of the session \<^verbatim>\<open>tx\<close>, not of
  the statement derived from it.
\<close>

definition GetDomainAccreditation ::
  "services \<Rightarrow> database \<Rightarrow> string \<Rightarrow> (hist, (Domain \<times> AccreditationRow) option \<times> gerr option) go" where
  "GetDomainAccreditation S db domainName =
     bnd (perform (Query (db_gorm db) (ScanDomainAccreditation domainName)) (sv_dacc S)) (\<lambda>(row, err).
     if row = None \<and> err = None then ret (None, Some ErrNotFound)
     else if err \<noteq> None then ret (None, err)
     else ret (row, None))"

text \<open>In these two queries \<^verbatim>\<open>Limit\<close> comes after \<^verbatim>\<open>Scan\<close> and does not reach the statement.\<close>

definition GetExpiredPendingProvisionDomainTransferInRequests ::
  "services \<Rightarrow> database \<Rightarrow> int \<Rightarrow> (hist, ProvisionDomainTransferInRequest list \<times> gerr option) go" where
  "GetExpiredPendingProvisionDomainTransferInRequests S db batchSize =
     bnd (observe (\<lambda>h. sv_now S h 0)) (\<lambda>actionDate.
     perform (Query (db_gorm db)
       (ScanPendingTransferIns (GetProvisionStatusId db ProvisionStatus_PendingAction) actionDate)) (sv_pdtrs S))"

definition GetActionableTransferAwayOrders ::
  "services \<Rightarrow> database \<Rightarrow> int \<Rightarrow> (hist, VOrderTransferAwayDomain list \<times> gerr option) go" where
  "GetActionableTransferAwayOrders S db batchSize =
     bnd (observe (\<lambda>h. sv_now S h 0)) (\<lambda>now.
     perform (Query (db_gorm db)
       (ScanTransferAwayOrders OrderStatusEnum_Created (now\<lparr>t_sec := t_sec now - 2 * 3600\<rparr>))) (sv_votas S))"

definition GetPurgeableDomains ::
  "services \<Rightarrow> database \<Rightarrow> int \<Rightarrow> (hist, VDomain list \<times> gerr option) go" where
  "GetPurgeableDomains S db batchSize =
     bnd (observe (\<lambda>h. sv_now S h 0)) (\<lambda>now.
     perform (Query (db_gorm db)
       (ScanPurgeableDomains (GetRgpStatusId db ''redemption_grace_period'') now batchSize)) (sv_vds S))"

definition UpdateTransferAwayDomain ::
  "services \<Rightarrow> database \<Rightarrow> OrderItemTransferAwayDomain \<Rightarrow> (hist, gerr option) go" where
  "UpdateTransferAwayDomain S db ota = exec_or_die S db (UpdatesTransferAwayDomain ota)"

definition DeleteDomainWithReason :: "services \<Rightarrow> database \<Rightarrow> string \<Rightarrow> string \<Rightarrow> (hist, gerr option) go" where
  "DeleteDomainWithReason S db i reason = exec_or_die S db (DeleteDomainStmt i reason)"

definition SetProvisionDomainStatus :: "services \<Rightarrow> database \<Rightarrow> string \<Rightarrow> string \<Rightarrow> (hist, gerr option) go" where
  "SetProvisionDomainStatus S db i status =
     (let statusId = GetProvisionStatusId db status in
      if statusId = [] then ret (Some (ErrNew (''invalid status \"'' @ status @ ''\"'')))
      else exec_or_die S db (UpdateProvisionDomainStatusStmt i statusId))"

definition UpdatePollMessageStatus :: "services \<Rightarrow> database \<Rightarrow> string \<Rightarrow> string \<Rightarrow> (hist, gerr option) go" where
  "UpdatePollMessageStatus S db messageId status =
     (let statusId = GetPollMessageStatusId db status in
      if statusId = [] then ret (Some (ErrNew (''invalid status \"'' @ status @ ''\"'')))
      else exec_or_die S db (UpdatePollMessageStatusStmt messageId statusId))"

text \<open>The code of a unique violation in PostgreSQL is 23505.\<close>

definition CreatePollMessage :: "services \<Rightarrow> database \<Rightarrow> PollMessageRow \<Rightarrow> (hist, gerr option) go" where
  "CreatePollMessage S db message =
     bnd (exec_or_die S db (CreatePollMessageRow message)) (\<lambda>err.
     case err of
       None \<Rightarrow> ret None
     | Some e \<Rightarrow> (case sv_pg_code S e of
                    None \<Rightarrow> ret (Some e)
                  | Some code \<Rightarrow> ret (Some (if code = ''23505'' then e else ErrPollMessageInsert))))"

section \<open>Hosting\<close>

text \<open>No row matched the condition: \<^verbatim>\<open>ErrNotFound\<close>.\<close>

definition UpdateProvisionHostingCreate ::
  "services \<Rightarrow> database \<Rightarrow> ProvisionHostingCreate \<Rightarrow> hosting_where \<Rightarrow> (hist, gerr option) go" where
  "UpdateProvisionHostingCreate S db upd cond =
     bnd (perform (Exec (db_gorm db) (UpdatesProvisionHostingCreate cond upd))
            (\<lambda>h e. (sv_err S h e, sv_rows_affected S h e))) (\<lambda>(err, rows).
     ret (case err of Some e \<Rightarrow> Some e | None \<Rightarrow> if rows = 0 then Some ErrNotFound else None))"

definition SetProvisionHostingUpdateDetails ::
  "services \<Rightarrow> database \<Rightarrow> string \<Rightarrow> string \<Rightarrow> (hist, gerr option) go" where
  "SetProvisionHostingUpdateDetails S db i status =
     exec_or_die S db (UpdatesProvisionHostingUpdate i
       (zero_ProvisionHostingUpdate\<lparr>phu_HostingStatusID := Some (GetHostingStatusId db status)\<rparr>))"

definition SetProvisionHostingDeleteDetails ::
  "services \<Rightarrow> database \<Rightarrow> string \<Rightarrow> string \<Rightarrow> bool \<Rightarrow> (hist, gerr option) go" where
  "SetProvisionHostingDeleteDetails S db i status isDeleted =
     exec_or_die S db (UpdatesProvisionHostingDelete i
       (zero_ProvisionHostingDelete\<lparr>phd_HostingStatusID := Some (GetHostingStatusId db status),
                                   phd_IsDeleted := Some isDeleted\<rparr>))"

text \<open>The database's own error is returned as it is; the result is read for its id when there is none.\<close>

definition GetHosting :: "services \<Rightarrow> database \<Rightarrow> Hosting \<Rightarrow> (hist, Hosting option \<times> gerr option) go" where
  "GetHosting S db hosting =
     bnd (perform (Query (db_gorm db) (FirstHosting hosting)) (sv_hosting S)) (\<lambda>(result, err).
     case err of
       Some e \<Rightarrow> if sv_connect_error S e then go_exit else ret (result, Some e)
     | None \<Rightarrow> bnd (deref result) (\<lambda>r. if hos_ID r = [] then ret (Some r, Some ErrNotFound) else ret (Some r, None)))"

definition UpdateHosting :: "services \<Rightarrow> database \<Rightarrow> Hosting \<Rightarrow> (hist, gerr option) go" where
  "UpdateHosting S db hosting = exec_or_die S db (UpdatesHosting hosting)"

definition GetProvisionHostingCertififcate ::
  "services \<Rightarrow> database \<Rightarrow> ProvisionHostingCertificateCreate
     \<Rightarrow> (hist, ProvisionHostingCertificateCreate option \<times> gerr option) go" where
  "GetProvisionHostingCertififcate S db row = first_row db (FirstProvisionHostingCertificate row) (sv_phcc S)"

definition UpdateProvisionHostingCertificate ::
  "services \<Rightarrow> database \<Rightarrow> ProvisionHostingCertificateCreate \<Rightarrow> (hist, gerr option) go" where
  "UpdateProvisionHostingCertificate S db row = exec_or_die S db (UpdatesProvisionHostingCertificate row)"

definition CreateOrder :: "services \<Rightarrow> database \<Rightarrow> Order \<Rightarrow> (hist, Order \<times> gerr option) go" where
  "CreateOrder S db order =
     bnd (perform (Exec (db_gorm db) (CreateOrderRow order))
            (\<lambda>h e. (order\<lparr>ord_ID := sv_order_id S h e\<rparr>, sv_err S h e))) ret"

section \<open>Domains and stale jobs\<close>

definition UpdateDomain :: "services \<Rightarrow> database \<Rightarrow> Domain \<Rightarrow> (hist, gerr option) go" where
  "UpdateDomain S db domain =
     bnd (perform (Exec (db_gorm db) (UpdatesDomain domain)) (sv_err S)) (\<lambda>err.
     case err of
       None \<Rightarrow> ret None
     | Some e \<Rightarrow> if errors_is e ErrRecordNotFound then ret (Some ErrNotFound)
                 else if sv_connect_error S e then go_exit else ret (Some e))"

definition CreateDomainRgpStatus :: "services \<Rightarrow> database \<Rightarrow> DomainRgpStatus \<Rightarrow> (hist, gerr option) go" where
  "CreateDomainRgpStatus S db drs = exec_or_die S db (CreateDomainRgpStatusRow drs)"

text \<open>The query announces every stale job again through \<^verbatim>\<open>NOTIFY_EVENT\<close> as it reads it.\<close>

definition GetStaleJobs :: "services \<Rightarrow> database \<Rightarrow> (hist, StaleJob list \<times> gerr option) go" where
  "GetStaleJobs S db = perform (Query (db_gorm db) ScanStaleJobs) (sv_stale S)"

section \<open>Properties\<close>

lemma split_dot_plain: "CHR ''.'' \<notin> set s \<Longrightarrow> split_dot acc s = [rev acc @ s]"
  by (induction acc s rule: split_dot.induct) auto

lemma split_dot_dot: "CHR ''.'' \<notin> set s \<Longrightarrow> split_dot acc (s @ CHR ''.'' # t) = (rev acc @ s) # split_dot [] t"
  by (induction s arbitrary: acc) auto

text \<open>
  Order types are stored under the name of the type and the name of the product joined by a dot.
  The id of a pair leads back to the pair when neither name has a dot; an id that is not in the
  table panics.
\<close>

theorem order_type_roundtrip:
  assumes "bm_GetInverse (et_data (db_orderTypeEnum db)) (GetOrderTypeId db name product) = Some (name @ ''.'' @ product)"
    "CHR ''.'' \<notin> set name" "CHR ''.'' \<notin> set product"
    "bm_GetInverse (et_data (db_orderTypeEnum db)) unknown = None"
  shows "GetOrderTypeName db (GetOrderTypeId db name product) = ret (name, product) \<and>
     GetOrderTypeName db unknown = go_panic ''index out of range''"
  using assms
  by (simp add: GetOrderTypeName_def GetByValue_def split_dot_dot split_dot_plain Let_def)

text \<open>
  A job lookup hides the database's errors: if both lookups come back without a row, the caller
  sees \<^verbatim>\<open>ErrNotFound\<close>, whatever error the database reported (a lock that was not available included).
\<close>

theorem job_lookup_hides_errors:
  fixes h :: hist and db :: database and i :: string and lock :: bool
  defines "q \<equiv> \<lambda>f. Query (db_gorm db) (FindJob f i lock)"
  assumes "sv_job S h (q ''id'') = (job1, Some e1)" "sv_job S (q ''id'' # h) (q ''event_id'') = (job2, Some e2)"
    "job_ID job1 = []" "job_ID job2 = []" "\<not> sv_connect_error S e1" "\<not> sv_connect_error S e2"
  shows "GetJobById S db i lock h = (Ret (job2, Some ErrNotFound), [q ''event_id'', q ''id''] @ h)"
  using assms
  by (simp add: GetJobById_def GetJobByEventId_def getJobByField_def perform_def bnd_def ret_def)

text \<open>
  Setting a status writes the job once, with the id of that status and with the status name in
  its attached view; a status that is not in the lookup table is refused and nothing is written.
\<close>

theorem set_status_writes:
  fixes db :: database
  assumes "status \<noteq> []" "job_Info job = Some info" "\<And>e. \<not> sv_connect_error S e"
  defines "j \<equiv> job\<lparr>job_StatusID := GetJobStatusId db status,
       job_Info := Some (info\<lparr>vj_JobStatusName := Some status\<rparr>)\<rparr>"
  defines "w \<equiv> Exec (db_gorm db) (UpdatesJob j)"
  shows "SetJobStatus S db job status None h =
     (if GetJobStatusId db status = []
      then (Ret (job, Some (ErrNew (''invalid status \"'' @ status @ ''\"''))), h)
      else (Ret (j, sv_err S h w), w # h))"
  using assms
  by (simp add: SetJobStatus_def set_status_def UpdateJob_def exec_or_die_def perform_def bnd_def ret_def Let_def
      split: option.split)

end
