(* ===== verification/Job_Protocol.thy ===== *)
theory Job_Protocol
  imports Database
begin

text \<open>
  The discipline all response handlers follow, stated once.

  \<^item> \<open>effective S h\<close>: the statements that took effect in a history, by the rules of database
    transactions: a successful statement on the pool at once, the successful statements of a
    transaction when its commit succeeds.
  \<^item> \<open>with_job\<close>: the frame every job handler runs in: open a transaction, fetch and lock
    the job named by the correlation id, do nothing unless the job has the expected status, else run
    the handler's body; \<open>process_job\<close> and \<open>submit_job\<close> are its two uses.
  \<^item> The locale \<open>status_body\<close>: what a body may do (writes through the transaction only, a bounded
    number of job writes, of the fetched job, to given statuses), and what every handler whose body
    keeps to it then guarantees; \<open>job_body\<close> is the case of a response handler: one job write, to a
    final status.
\<close>

section \<open>Statements that take effect\<close>

fun pending :: "services \<Rightarrow> nat \<Rightarrow> hist \<Rightarrow> stmt list" where
  "pending S n [] = []"
| "pending S n (BeginTx m # h) = (if m = n then [] else pending S n h)"
| "pending S n (CommitTx s # h) = (if s = Tx n then [] else pending S n h)"
| "pending S n (RollbackTx s # h) = (if s = Tx n then [] else pending S n h)"
| "pending S n (Exec s q # h) =
     (if s = Tx n \<and> sv_err S h (Exec s q) = None then q # pending S n h else pending S n h)"
| "pending S n (e # h) = pending S n h"

fun effective :: "services \<Rightarrow> hist \<Rightarrow> stmt list" where
  "effective S [] = []"
| "effective S (Exec Pool q # h) =
     (if sv_err S h (Exec Pool q) = None then q # effective S h else effective S h)"
| "effective S (CommitTx (Tx n) # h) =
     (if sv_err S h (CommitTx (Tx n)) = None then pending S n h @ effective S h else effective S h)"
| "effective S (e # h) = effective S h"

text \<open>The status last given to a job by the statements that took effect (newest first). Zero fields
  are not written.\<close>

fun last_status :: "stmt list \<Rightarrow> string \<Rightarrow> string option" where
  "last_status [] i = None"
| "last_status (UpdatesJob j # qs) i =
     (if job_ID j = i \<and> job_StatusID j \<noteq> [] then Some (job_StatusID j) else last_status qs i)"
| "last_status (q # qs) i = last_status qs i"

text \<open>
  What a database promises a reader: a job row read through the pool, or in a transaction that has
  not written yet, carries the status last written by a statement that took effect.
\<close>

definition reads_committed :: "services \<Rightarrow> bool" where
  "reads_committed S \<longleftrightarrow>
     (\<forall>h s name v lock job err st.
        sv_job S h (Query s (FindJob name v lock)) = (job, err) \<longrightarrow> job_ID job \<noteq> [] \<longrightarrow>
        (\<forall>n. s = Tx n \<longrightarrow> pending S n h = []) \<longrightarrow>
        last_status (effective S h) (job_ID job) = Some st \<longrightarrow> job_StatusID job = st)"

section \<open>The frame of a response handler\<close>

definition if_status ::
  "string \<Rightarrow> database \<Rightarrow> (Job \<Rightarrow> (hist, gerr option) go) \<Rightarrow> Job \<times> gerr option \<Rightarrow> (hist, gerr option) go" where
  "if_status st tx body = (\<lambda>(job, err).
     if err \<noteq> None then ret err
     else bnd (deref (job_Info job)) (\<lambda>info.
          bnd (deref (vj_JobTypeName info)) (\<lambda>_.
          if job_StatusID job \<noteq> GetJobStatusId tx st then ret None
          else body job)))"

definition with_job ::
  "string \<Rightarrow> services \<Rightarrow> database \<Rightarrow> string \<Rightarrow> (database \<Rightarrow> Job \<Rightarrow> (hist, gerr option) go) \<Rightarrow> (hist, gerr option) go" where
  "with_job st S db correlationId body =
     WithTransaction S db (\<lambda>tx.
       bnd (GetJobById S tx correlationId True) (if_status st tx (body tx)))"

text \<open>Answers are handled for jobs in processing, announcements for submitted jobs.\<close>

abbreviation "process_job \<equiv> with_job JobStatus_Processing"
abbreviation "submit_job \<equiv> with_job JobStatus_Submitted"

section \<open>Rules for the database layer\<close>

definition final_statuses :: "string set" where
  "final_statuses = {JobStatus_Completed, JobStatus_Failed, JobStatus_CompletedConditionally}"

lemma final_statuses_simps [simp]:
  "JobStatus_Completed \<in> final_statuses" "JobStatus_Failed \<in> final_statuses"
  "JobStatus_CompletedConditionally \<in> final_statuses"
  by (simp_all add: final_statuses_def)

text \<open>
  The events a body may add: calls through the transaction, to the bus or a backend, reads through the pool, no
  transaction control, and job writes only of the fetched job and only to one of the statuses \<open>outs\<close>.
\<close>

fun job_event :: "string set \<Rightarrow> database \<Rightarrow> Job \<Rightarrow> event \<Rightarrow> bool" where
  "job_event outs tx job (Query s q) = (s = db_gorm tx \<or> s = Pool)"
| "job_event outs tx job (Exec s (UpdatesJob j)) =
     (s = db_gorm tx \<and> job_ID j = job_ID job \<and> job_StatusID j \<in> GetJobStatusId tx ` outs)"
| "job_event outs tx job (Exec s q) = (s = db_gorm tx)"
| "job_event outs tx job (BusCall q m) = True"
| "job_event outs tx job (BusSend q m hs) = True"
| "job_event outs tx job (LookupIP name) = True"
| "job_event outs tx job (HttpCall req) = True"
| "job_event outs tx job (ResolveCNAME name) = True"
| "job_event outs tx job e = False"

abbreviation "body_event \<equiv> job_event final_statuses"

lemma wp_exec_or_die [wp]:
  "wp (exec_or_die S db q) Q h =
     (let e = Exec (db_gorm db) q; err = sv_err S h e
      in if (case err of None \<Rightarrow> False | Some x \<Rightarrow> sv_connect_error S x)
         then Q Exited (e # h) else Q (Ret err) (e # h))"
  by (simp add: exec_or_die_def wp Let_def)

lemma adds_exec_or_die [adds_rules]:
  "P (Exec (db_gorm db) q) \<Longrightarrow> \<not> W (Exec (db_gorm db) q) \<Longrightarrow> adds P W k (exec_or_die S db q)"
  by (simp add: exec_or_die_def adds_rules)

lemma adds_find_row [adds_rules]:
  "P (Query (db_gorm db) q) \<Longrightarrow> \<not> W (Query (db_gorm db) q) \<Longrightarrow> adds P W k (find_row db q f)"
  by (simp add: find_row_def adds_rules)

lemma adds_first_row [adds_rules]:
  "P (Query (db_gorm db) q) \<Longrightarrow> \<not> W (Query (db_gorm db) q) \<Longrightarrow> adds P W k (first_row db q f)"
  by (simp add: first_row_def adds_rules)

lemmas row_ops =
  UpdateOrderItemPlan_def UpdateProvisionDomain_def UpdateProvisionDomainUpdate_def
  UpdateProvisionDomainDelete_def UpdateProvisionDomainRenew_def UpdateProvisionDomainRedeem_def
  UpdateProvisionDomainTransferInRequest_def UpdateProvisionDomainTransferIn_def
  UpdateOrderItemCreateDomain_def CreateDsDataSet_def CreateKeyDataSet_def SetProvisionContactHandle_def
  GetDomain_def GetTLDSetting_def
  GetProvisionDomain_def GetProvisionDomainRenew_def GetProvisionDomainRedeem_def
  GetProvisionDomainDelete_def GetProvisionDomainTransferIn_def
  GetProvisionDomainTransferInRequest_def GetVDomain_def GetOrderItemCreateDomain_def
  TransferAwayDomainOrder_def OrderNextStatus_def

lemma adds_MarshalJSON [adds_rules]: "adds P W k (JobResultData_MarshalJSON S jrd)"
  by (simp add: JobResultData_MarshalJSON_def adds_rules split: option.split sum.split)

lemma adds_UpdateJob:
  "P (Exec (db_gorm db) (UpdatesJob job)) \<Longrightarrow> adds P W (Suc 0) (UpdateJob S db job)"
  unfolding UpdateJob_def exec_or_die_def
  by (intro adds_bnd_last adds_perform_counted adds_rules)

lemma adds_set_status:
  assumes "status \<in> outs" "status \<noteq> []" "job_ID job = job_ID job0"
  shows "adds (job_event outs tx job0) W (Suc 0) (set_status S tx job status)"
  unfolding set_status_def Let_def using assms
  by (auto intro!: adds_rules adds_bnd_last [OF adds_UpdateJob])

lemma adds_SetJobStatus [adds_rules]:
  assumes "status \<in> outs" "status \<noteq> []" "job_ID job = job_ID job0"
  shows "adds (job_event outs tx job0) W (Suc 0) (SetJobStatus S tx job status jrd)"
  unfolding SetJobStatus_def using assms
  by (intro adds_rules adds_set_status) simp_all

lemma adds_finish_job [adds_rules]:
  assumes "status \<in> outs" "status \<noteq> []" "job_ID job = job_ID job0"
  shows "adds (job_event outs tx job0) W (Suc 0) (finish_job S tx job status jrd)"
  unfolding finish_job_def
  by (intro adds_bnd_last [OF adds_SetJobStatus [OF assms]] adds_rules)

section \<open>Settled jobs\<close>

text \<open>
  The newest call was a successful write of this job with a final status. It is how a body that
  reports no error has to end.
\<close>

fun settled :: "services \<Rightarrow> database \<Rightarrow> Job \<Rightarrow> hist \<Rightarrow> bool" where
  "settled S db job (Exec s (UpdatesJob j) # h) =
     (s = db_gorm db \<and> job_ID j = job_ID job \<and> job_StatusID j \<noteq> [] \<and>
      job_StatusID j \<in> GetJobStatusId db ` final_statuses \<and> sv_err S h (Exec s (UpdatesJob j)) = None)"
| "settled S db job h = False"

lemma ends_set_status:
  assumes "status \<in> final_statuses" "job_ID job = job_ID job0"
  shows "ends (\<lambda>(job', err) h. job_ID job' = job_ID job0 \<and> (err = None \<longrightarrow> settled S db job0 h))
           (set_status S db job status)"
  using assms
  by (auto simp: ends_wp set_status_def UpdateJob_def wp Let_def final_statuses_def deref_def split: option.split)

lemma ends_SetJobStatus [ends_rules]:
  assumes "status \<in> final_statuses" "job_ID job = job_ID job0"
  shows "ends (\<lambda>(job', err) h. job_ID job' = job_ID job0 \<and> (err = None \<longrightarrow> settled S db job0 h))
           (SetJobStatus S db job status jrd)"
  unfolding SetJobStatus_def using assms
  by (intro ends_rules ends_set_status) simp_all

lemma ends_finish_job [ends_rules]:
  assumes "status \<in> final_statuses" "job_ID job = job_ID job0"
  shows "ends (\<lambda>err h. err = None \<longrightarrow> settled S db job0 h) (finish_job S db job status jrd)"
  unfolding finish_job_def
  by (rule ends_bnd_after [OF ends_SetJobStatus [OF assms]]) (auto simp: ret_def)

section \<open>Transactions\<close>

text \<open>Events that stay inside transaction \<open>n\<close>.\<close>

fun inside :: "nat \<Rightarrow> event \<Rightarrow> bool" where
  "inside n (Query s q) = (s = Tx n \<or> s = Pool)"
| "inside n (Exec s q) = (s = Tx n)"
| "inside n (BusCall q m) = True"
| "inside n (BusSend q m hs) = True"
| "inside n (LookupIP name) = True"
| "inside n (HttpCall req) = True"
| "inside n (ResolveCNAME name) = True"
| "inside n e = False"

lemma inside_job_event: "job_event outs tx job e \<Longrightarrow> db_gorm tx = Tx n \<Longrightarrow> inside n e"
  by (induction outs tx job e rule: job_event.induct) auto

lemma effective_inside: "list_all (inside n) d \<Longrightarrow> effective S (d @ h) = effective S h"
proof (induction d)
  case (Cons e d)
  then show ?case by (cases e) auto
qed simp

lemma pending_inside:
  "list_all (inside n) d \<Longrightarrow> set (pending S n (d @ BeginTx n # h)) \<subseteq> {q. Exec (Tx n) q \<in> set d}"
proof (induction d)
  case (Cons e d)
  then show ?case by (cases e) auto
qed simp

lemma WithTransaction_run:
  "WithTransaction S db f h =
     (let n = fresh_tx h in
      case f (db\<lparr>db_gorm := Tx n\<rparr>) (BeginTx n # h) of
        (Ret (Some e), h') \<Rightarrow> (Ret (Some e), RollbackTx (Tx n) # h')
      | (Ret None, h') \<Rightarrow> (Ret (sv_err S h' (CommitTx (Tx n))), CommitTx (Tx n) # h')
      | (Panicked p, h') \<Rightarrow> (Panicked p, CommitTx (Tx n) # h')
      | (Exited, h') \<Rightarrow> (Exited, h'))"
  by (simp add: WithTransaction_def Begin_def Commit_def Rollback_def perform_def observe_def
      bnd_def ret_def go_panic_def Let_def split: prod.split outcome.split option.split)

text \<open>The end of a transaction whose body stayed inside it.\<close>

lemma WithTransaction_cases:
  fixes S :: services and db :: database and h :: hist
  defines "n \<equiv> fresh_tx h"
  assumes f: "adds (inside n) W k (f (db\<lparr>db_gorm := Tx n\<rparr>))"
    and run: "WithTransaction S db f h = (r, h')"
  obtains d e where "list_all (inside n) d" "length (filter W d) \<le> k"
      "f (db\<lparr>db_gorm := Tx n\<rparr>) (BeginTx n # h) = (Ret (Some e), d @ BeginTx n # h)"
      "r = Ret (Some e)" "h' = RollbackTx (Tx n) # d @ BeginTx n # h"
  | d where "list_all (inside n) d" "length (filter W d) \<le> k"
      "f (db\<lparr>db_gorm := Tx n\<rparr>) (BeginTx n # h) = (Ret None, d @ BeginTx n # h)"
      "r = Ret (sv_err S (d @ BeginTx n # h) (CommitTx (Tx n)))"
      "h' = CommitTx (Tx n) # d @ BeginTx n # h"
  | d p where "list_all (inside n) d" "length (filter W d) \<le> k"
      "f (db\<lparr>db_gorm := Tx n\<rparr>) (BeginTx n # h) = (Panicked p, d @ BeginTx n # h)"
      "r = Panicked p" "h' = CommitTx (Tx n) # d @ BeginTx n # h"
  | d where "list_all (inside n) d" "length (filter W d) \<le> k"
      "f (db\<lparr>db_gorm := Tx n\<rparr>) (BeginTx n # h) = (Exited, d @ BeginTx n # h)"
      "r = Exited" "h' = d @ BeginTx n # h"
proof -
  obtain d where d: "snd (f (db\<lparr>db_gorm := Tx n\<rparr>) (BeginTx n # h)) = d @ BeginTx n # h"
    "list_all (inside n) d" "length (filter W d) \<le> k"
    using addsE [OF f] by metis
  obtain o' where o': "f (db\<lparr>db_gorm := Tx n\<rparr>) (BeginTx n # h) = (o', d @ BeginTx n # h)"
    using d(1) by (metis prod.collapse)
  show thesis
    using that d(2,3) o' run
    by (cases o') (auto simp: WithTransaction_run Let_def n_def split: option.splits)
qed

text \<open>What a finished transaction leaves behind: all of its successful statements or none.\<close>

lemma WithTransaction_effective:
  fixes S :: services and db :: database and h :: hist
  defines "n \<equiv> fresh_tx h"
  assumes f: "adds (inside n) W k (f (db\<lparr>db_gorm := Tx n\<rparr>))"
    and run: "WithTransaction S db f h = (r, h')"
  shows "(r = Ret None \<longrightarrow> (\<exists>d. list_all (inside n) d \<and> f (db\<lparr>db_gorm := Tx n\<rparr>) (BeginTx n # h) = (Ret None, d @ BeginTx n # h)
              \<and> effective S h' = pending S n (d @ BeginTx n # h) @ effective S h))
       \<and> (\<forall>e. r = Ret (Some e) \<longrightarrow> effective S h' = effective S h)
       \<and> (r = Exited \<longrightarrow> effective S h' = effective S h)"
  using f run unfolding n_def
  by (cases rule: WithTransaction_cases) (auto simp: effective_inside)

section \<open>Fetching the job\<close>

lemma adds_getJobByField [adds_rules]:
  "P (Query (db_gorm db) (FindJob name v lock)) \<Longrightarrow> \<not> W (Query (db_gorm db) (FindJob name v lock)) \<Longrightarrow>
   adds P W k (getJobByField S db name v lock)"
  by (simp add: getJobByField_def adds_rules)

lemma adds_GetJobById [adds_rules]:
  "(\<And>name. P (Query (db_gorm db) (FindJob name v lock)) \<and> \<not> W (Query (db_gorm db) (FindJob name v lock))) \<Longrightarrow>
   adds P W k (GetJobById S db v lock)"
  by (auto simp: GetJobById_def GetJobByEventId_def intro!: adds_rules)

text \<open>The job a response handler finds, run from history \<open>h\<close>.\<close>

definition fetched :: "services \<Rightarrow> database \<Rightarrow> string \<Rightarrow> hist \<Rightarrow> (Job \<times> gerr option) outcome \<times> hist" where
  "fetched S db correlationId h =
     (let n = fresh_tx h
      in GetJobById S (db\<lparr>db_gorm := Tx n\<rparr>) correlationId True (BeginTx n # h))"

text \<open>The frame runs its body on the job it has fetched, and on no other.\<close>

lemma with_job_cong:
  assumes "fetched S db cid h = (Ret (job, None), h1)"
    "body (db\<lparr>db_gorm := Tx (fresh_tx h)\<rparr>) job = body' (db\<lparr>db_gorm := Tx (fresh_tx h)\<rparr>) job"
  shows "with_job st S db cid body h = with_job st S db cid body' h"
proof -
  have "if_status st tx (body tx) (job, None) h1 = if_status st tx (body' tx) (job, None) h1"
    if "body tx job = body' tx job" for tx
    using that by (simp add: if_status_def)
  from this [OF assms(2)] show ?thesis
    using assms(1) unfolding with_job_def WithTransaction_run fetched_def Let_def
    by (simp only: bnd_def outcome.case prod.case)
qed

fun is_query :: "event \<Rightarrow> bool" where
  "is_query (Query s q) = True"
| "is_query e = False"

lemma fetched_only_queries:
  obtains d where "snd (fetched S db cid h) = d @ BeginTx (fresh_tx h) # h"
    "list_all (inside (fresh_tx h)) d" "list_all is_query d"
proof -
  have "adds (\<lambda>e. inside (fresh_tx h) e \<and> is_query e) (\<lambda>_. False) 0
          (GetJobById S (db\<lparr>db_gorm := Tx (fresh_tx h)\<rparr>) cid True)"
    by (intro adds_rules) simp
  then obtain d where "snd (fetched S db cid h) = d @ BeginTx (fresh_tx h) # h"
    "list_all (\<lambda>e. inside (fresh_tx h) e \<and> is_query e) d"
    unfolding fetched_def Let_def by (rule addsE)
  then show thesis
    using that by (auto simp: list_all_iff)
qed

section \<open>The contract of a handler body\<close>

lemma no_job_write_query: "list_all is_query d \<Longrightarrow> filter is_job_write d = []"
  by (induction d) (auto elim!: is_query.elims)

locale status_body =
  fixes st :: string and outs :: "string set" and bound :: nat
    and body :: "services \<Rightarrow> message \<Rightarrow> database \<Rightarrow> Job \<Rightarrow> (hist, gerr option) go"
  assumes body_adds: "job_StatusID job = GetJobStatusId tx st \<Longrightarrow>
    adds (job_event outs tx job) is_job_write bound (body S m tx job)"
begin

text \<open>One step of the frame: after the fetch, either nothing more happens or the body runs.\<close>

lemma if_status_trace:
  assumes "db_gorm tx = Tx n"
  obtains d where "snd (if_status st tx (body S m tx) (job, err) h) = d @ h"
    "list_all (inside n) d" "length (filter is_job_write d) \<le> bound"
    "d = [] \<or> err = None \<and> job_StatusID job = GetJobStatusId tx st
       \<and> list_all (job_event outs tx job) d"
proof (cases "\<exists>info ty. err = None \<and> job_Info job = Some info \<and> vj_JobTypeName info = Some ty
    \<and> job_StatusID job = GetJobStatusId tx st")
  case True
  then have "if_status st tx (body S m tx) (job, err) h = body S m tx job h"
    by (auto simp: if_status_def)
  moreover obtain d where "snd (body S m tx job h) = d @ h" "list_all (job_event outs tx job) d"
    "length (filter is_job_write d) \<le> bound"
    using addsE [OF body_adds] True by metis
  ultimately show thesis
    using that True inside_job_event [OF _ assms] by (auto simp: list_all_iff)
next
  case False
  then have "snd (if_status st tx (body S m tx) (job, err) h) = h"
    by (cases "job_Info job")
       (auto simp: if_status_def ret_def go_panic_def deref_def bnd_def split: option.splits)
  then show thesis using that [of "[]"] by simp
qed

text \<open>
  A run of the handler: the transaction is opened, events inside it follow, and it is committed,
  rolled back, or left open when the process exits. If anything was written, the job had been
  fetched and was being processed, and at most \<open>bound\<close> of the writes are job writes, of that job, to
  statuses of \<open>outs\<close>.
\<close>

lemma inner_trace:
  fixes S db h
  defines "tx \<equiv> db\<lparr>db_gorm := Tx (fresh_tx h)\<rparr>"
  obtains d where
    "snd (bnd (GetJobById S tx cid True) (if_status st tx (body S m tx)) (BeginTx (fresh_tx h) # h))
       = d @ BeginTx (fresh_tx h) # h"
    "list_all (inside (fresh_tx h)) d" "length (filter is_job_write d) \<le> bound"
    "list_all is_query d \<or>
     (\<exists>job h1. fetched S db cid h = (Ret (job, None), h1) \<and>
        job_StatusID job = GetJobStatusId db st \<and>
        list_all (\<lambda>e. is_query e \<or> job_event outs tx job e) d)"
proof -
  let ?h = "BeginTx (fresh_tx h) # h"
  have tx: "db_gorm tx = Tx (fresh_tx h)" "GetJobStatusId tx = GetJobStatusId db"
    by (simp_all add: tx_def GetJobStatusId_def fun_eq_iff)
  have F: "fetched S db cid h = GetJobById S tx cid True ?h"
    by (simp add: fetched_def tx_def Let_def)
  obtain q where q: "snd (GetJobById S tx cid True ?h) = q @ ?h"
    "list_all (inside (fresh_tx h)) q" "list_all is_query q"
    using fetched_only_queries [of S db cid h] F by metis
  show thesis
  proof (cases "GetJobById S tx cid True ?h")
    case (Pair r h1)
    show thesis
    proof (cases r)
      case (Ret je)
      obtain job err where je: "je = (job, err)" by force
      obtain d where d: "snd (if_status st tx (body S m tx) (job, err) h1) = d @ h1"
        "list_all (inside (fresh_tx h)) d" "length (filter is_job_write d) \<le> bound"
        "d = [] \<or> err = None \<and> job_StatusID job = GetJobStatusId tx st
           \<and> list_all (job_event outs tx job) d"
        using if_status_trace [OF tx(1)] by metis
      have "snd (bnd (GetJobById S tx cid True) (if_status st tx (body S m tx)) ?h) = (d @ q) @ ?h"
        using Pair Ret je d(1) q(1) by (simp add: bnd_def)
      then show thesis
        using that [of "d @ q"] d q no_job_write_query [OF q(3)] F Pair Ret je tx
        by (auto simp: list_all_iff)
    qed (use that [of q] q no_job_write_query [OF q(3)] Pair in \<open>auto simp: bnd_def\<close>)
  qed
qed

lemma handler_trace:
  assumes run: "with_job st S db cid (body S m) h = (r, h')"
  obtains d c where "h' = c @ d @ BeginTx (fresh_tx h) # h"
    "list_all (inside (fresh_tx h)) d"
    "c = [] \<and> r = Exited \<or> c = [CommitTx (Tx (fresh_tx h))] \<or>
     c = [RollbackTx (Tx (fresh_tx h))] \<and> (\<exists>e. r = Ret (Some e))"
    "length (filter is_job_write d) \<le> bound"
    "list_all is_query d \<or>
     (\<exists>job h1. fetched S db cid h = (Ret (job, None), h1) \<and>
        job_StatusID job = GetJobStatusId db st \<and>
        list_all (\<lambda>e. is_query e \<or> job_event outs (db\<lparr>db_gorm := Tx (fresh_tx h)\<rparr>) job e) d)"
proof -
  let ?tx = "db\<lparr>db_gorm := Tx (fresh_tx h)\<rparr>"
  obtain d where d:
    "snd (bnd (GetJobById S ?tx cid True) (if_status st ?tx (body S m ?tx)) (BeginTx (fresh_tx h) # h))
       = d @ BeginTx (fresh_tx h) # h"
    "list_all (inside (fresh_tx h)) d" "length (filter is_job_write d) \<le> bound"
    "list_all is_query d \<or>
     (\<exists>job h1. fetched S db cid h = (Ret (job, None), h1) \<and>
        job_StatusID job = GetJobStatusId db st \<and>
        list_all (\<lambda>e. is_query e \<or> job_event outs ?tx job e) d)"
    by (rule inner_trace)
  from run d(1) have "\<exists>c. h' = c @ d @ BeginTx (fresh_tx h) # h \<and>
     (c = [] \<and> r = Exited \<or> c = [CommitTx (Tx (fresh_tx h))] \<or>
     c = [RollbackTx (Tx (fresh_tx h))] \<and> (\<exists>e. r = Ret (Some e)))"
    unfolding with_job_def WithTransaction_run Let_def
    by (auto split: prod.splits outcome.splits option.splits)
  then show thesis using that d by blast
qed

end

section \<open>What the contract gives\<close>

lemma list_all_inside_pending: "list_all (inside n) d \<Longrightarrow> list_all is_query d \<Longrightarrow>
  pending S n (d @ BeginTx n # h) = []"
  by (induction d) (auto elim!: is_query.elims)

lemma fetched_from_query:
  assumes "fetched S db cid h = (Ret (job, None), h1)"
  obtains hq name where "sv_job S hq (Query (Tx (fresh_tx h)) (FindJob name cid True)) = (job, None)"
    "job_ID job \<noteq> []" "pending S (fresh_tx h) hq = []" "effective S hq = effective S h"
proof -
  let ?n = "fresh_tx h" and ?e = "\<lambda>name. Query (Tx (fresh_tx h)) (FindJob name cid True)"
  let ?h2 = "?e ''id'' # BeginTx ?n # h"
  have "job_ID job \<noteq> [] \<and>
    (sv_job S (BeginTx ?n # h) (?e ''id'') = (job, None) \<or> sv_job S ?h2 (?e ''event_id'') = (job, None))"
    using assms
    by (auto simp: fetched_def Let_def GetJobById_def GetJobByEventId_def getJobByField_def bnd_def
        perform_def ret_def go_exit_def split: prod.splits option.splits if_splits)
  then show thesis
    using that [of "BeginTx ?n # h" "''id''"] that [of ?h2 "''event_id''"] by auto
qed

lemma last_status_append:
  "last_status (xs @ ys) i = (case last_status xs i of None \<Rightarrow> last_status ys i | Some s \<Rightarrow> Some s)"
  by (induction xs i rule: last_status.induct) auto

lemma last_status_mem:
  "UpdatesJob j \<in> set qs \<Longrightarrow> job_StatusID j \<noteq> [] \<Longrightarrow> \<exists>st. last_status qs (job_ID j) = Some st"
  by (induction qs "job_ID j" rule: last_status.induct) auto

lemma last_status_from:
  "last_status qs i = Some st \<Longrightarrow> \<exists>j. UpdatesJob j \<in> set qs \<and> job_ID j = i \<and> job_StatusID j = st"
  by (induction qs i rule: last_status.induct) (auto split: if_splits)

context status_body
begin

lemma handler_error_no_effect:
  assumes "with_job st S db cid (body S m) h = (Ret (Some e), h')"
  shows "effective S h' = effective S h"
proof -
  obtain d c where t: "h' = c @ d @ BeginTx (fresh_tx h) # h" "list_all (inside (fresh_tx h)) d"
    "c = [] \<and> Ret (Some e) = (Exited :: gerr option outcome) \<or> c = [CommitTx (Tx (fresh_tx h))] \<or>
     c = [RollbackTx (Tx (fresh_tx h))] \<and> (\<exists>e'. Ret (Some e) = Ret (Some e'))"
    by (rule handler_trace [OF assms])
  moreover have "c = [CommitTx (Tx (fresh_tx h))] \<Longrightarrow>
      sv_err S (d @ BeginTx (fresh_tx h) # h) (CommitTx (Tx (fresh_tx h))) \<noteq> None"
    using assms t(1) unfolding with_job_def WithTransaction_run Let_def
    by (auto split: prod.splits outcome.splits option.splits)
  ultimately show ?thesis by (auto simp: effective_inside)
qed

lemma handler_idle:
  assumes "with_job st S db cid (body S m) h = (r, h')"
    "fetched S db cid h = (Ret (job, None), h1)"
    "job_StatusID job \<noteq> GetJobStatusId db st"
  shows "\<exists>d. h' = d @ h \<and> list_all (\<lambda>e. \<not> is_write e) d"
proof -
  obtain d c where t: "h' = c @ d @ BeginTx (fresh_tx h) # h"
    "c = [] \<and> r = Exited \<or> c = [CommitTx (Tx (fresh_tx h))] \<or>
     c = [RollbackTx (Tx (fresh_tx h))] \<and> (\<exists>e. r = Ret (Some e))"
    "list_all is_query d \<or> (\<exists>job h1. fetched S db cid h = (Ret (job, None), h1) \<and>
        job_StatusID job = GetJobStatusId db st \<and>
        list_all (\<lambda>e. is_query e \<or> job_event outs (db\<lparr>db_gorm := Tx (fresh_tx h)\<rparr>) job e) d)"
    by (rule handler_trace [OF assms(1)])
  have q: "list_all is_query d" using t(3) assms(2,3) by auto
  have "list_all (\<lambda>e. \<not> is_write e) d"
    using q by (induction d) (auto elim!: is_query.elims)
  then show ?thesis
    using t(1,2) by (intro exI [of _ "c @ d @ [BeginTx (fresh_tx h)]"]) auto
qed

lemma handler_job_writes:
  assumes run: "with_job st S db cid (body S m) h = (r, h')"
  shows "\<exists>d. h' = d @ h \<and> length (job_writes d) \<le> bound \<and>
     (\<forall>j \<in> set (job_writes d). \<exists>job h1. fetched S db cid h = (Ret (job, None), h1) \<and>
        job_StatusID job = GetJobStatusId db st \<and>
        job_ID j = job_ID job \<and> job_StatusID j \<in> GetJobStatusId db ` outs)"
proof -
  let ?tx = "db\<lparr>db_gorm := Tx (fresh_tx h)\<rparr>"
  obtain d c where t: "h' = c @ d @ BeginTx (fresh_tx h) # h"
    "c = [] \<and> r = Exited \<or> c = [CommitTx (Tx (fresh_tx h))] \<or>
     c = [RollbackTx (Tx (fresh_tx h))] \<and> (\<exists>e. r = Ret (Some e))"
    "length (filter is_job_write d) \<le> bound"
    "list_all is_query d \<or> (\<exists>job h1. fetched S db cid h = (Ret (job, None), h1) \<and>
        job_StatusID job = GetJobStatusId db st \<and>
        list_all (\<lambda>e. is_query e \<or> job_event outs ?tx job e) d)"
    by (rule handler_trace [OF run])
  have len: "length (job_writes d) = length (filter is_job_write d)" for d
    by (induction d rule: job_writes.induct) auto
  have mem: "j \<in> set (job_writes d) \<Longrightarrow> \<exists>s. Exec s (UpdatesJob j) \<in> set d" for j
    by (induction d rule: job_writes.induct) auto
  have ids: "GetJobStatusId ?tx = GetJobStatusId db" by (simp add: GetJobStatusId_def fun_eq_iff)
  have "job_writes c = []" using t(2) by auto
  then show ?thesis
    using t len [of d] mem ids
    by (intro exI [of _ "c @ d @ [BeginTx (fresh_tx h)]"]) (fastforce simp: list_all_iff)
qed

lemma handler_idle_silent:
  assumes "with_job st S db cid (body S m) h = (r, h')"
    "fetched S db cid h = (Ret (job, None), h1)" "job_StatusID job \<noteq> GetJobStatusId db st"
  shows "sends h' = sends h"
proof -
  obtain d c where t: "h' = c @ d @ BeginTx (fresh_tx h) # h"
    "c = [] \<and> r = Exited \<or> c = [CommitTx (Tx (fresh_tx h))] \<or>
     c = [RollbackTx (Tx (fresh_tx h))] \<and> (\<exists>e. r = Ret (Some e))"
    "list_all is_query d \<or> (\<exists>job h1. fetched S db cid h = (Ret (job, None), h1) \<and>
        job_StatusID job = GetJobStatusId db st \<and>
        list_all (\<lambda>e. is_query e \<or> job_event outs (db\<lparr>db_gorm := Tx (fresh_tx h)\<rparr>) job e) d)"
    by (rule handler_trace [OF assms(1)])
  have "list_all is_query d" using t(3) assms(2,3) by auto
  then have "sends d = []" by (induction d) (auto elim!: is_query.elims)
  then show ?thesis using t(1,2) by auto
qed

text \<open>
  One delivery moves the status of a job at most once, from the status the frame asks for to one the
  body may set, however the handler ends (a panic commits what was done).
\<close>

lemma handler_step:
  assumes run: "with_job st S db cid (body S m) h = (r, h')" and rc: "reads_committed S"
    and old: "last_status (effective S h) i = Some a"
  shows "last_status (effective S h') i = Some a \<or>
     a = GetJobStatusId db st \<and> (\<exists>new \<in> outs. last_status (effective S h') i = Some (GetJobStatusId db new))"
proof -
  let ?n = "fresh_tx h"
  let ?tx = "db\<lparr>db_gorm := Tx ?n\<rparr>"
  obtain d c where t: "h' = c @ d @ BeginTx ?n # h" "list_all (inside ?n) d"
    "c = [] \<and> r = Exited \<or> c = [CommitTx (Tx ?n)] \<or> c = [RollbackTx (Tx ?n)] \<and> (\<exists>e. r = Ret (Some e))"
    "list_all is_query d \<or> (\<exists>job h1. fetched S db cid h = (Ret (job, None), h1) \<and>
        job_StatusID job = GetJobStatusId db st \<and>
        list_all (\<lambda>e. is_query e \<or> job_event outs ?tx job e) d)"
    by (rule handler_trace [OF run])
  let ?p = "pending S ?n (d @ BeginTx ?n # h)"
  have eff: "effective S h' = effective S h \<or> effective S h' = ?p @ effective S h"
    using t(1,2,3) by (auto simp: effective_inside)
  show ?thesis
  proof (cases "last_status ?p i")
    case None
    then show ?thesis using eff old by (auto simp: last_status_append)
  next
    case (Some b)
    obtain j where j: "UpdatesJob j \<in> set ?p" "job_ID j = i" "job_StatusID j = b"
      using last_status_from [OF Some] by blast
    then have mem: "Exec (Tx ?n) (UpdatesJob j) \<in> set d" using pending_inside [OF t(2), of S h] by auto
    then have "\<not> list_all is_query d" by (force simp: list_all_iff)
    then obtain job h1 where job: "fetched S db cid h = (Ret (job, None), h1)"
      "job_StatusID job = GetJobStatusId db st" "job_event outs ?tx job (Exec (Tx ?n) (UpdatesJob j))"
      using t(4) mem by (fastforce simp: list_all_iff)
    have ids: "GetJobStatusId ?tx = GetJobStatusId db" by (simp add: GetJobStatusId_def fun_eq_iff)
    obtain hq name where q: "sv_job S hq (Query (Tx ?n) (FindJob name cid True)) = (job, None)"
      "job_ID job \<noteq> []" "pending S ?n hq = []" "effective S hq = effective S h"
      using fetched_from_query [OF job(1)] .
    have "job_StatusID job = a"
      using q rc old j(2) job(3) unfolding reads_committed_def by fastforce
    moreover have "b \<in> GetJobStatusId db ` outs" using job(3) j(3) ids by simp
    ultimately show ?thesis
      using eff old Some job(2) by (auto simp: last_status_append)
  qed
qed

text \<open>A job whose last effective status is final is left alone by every later delivery.\<close>

lemma handler_redelivery:
  assumes "with_job st S db cid (body S m) h = (r, h')" "reads_committed S"
    "fetched S db cid h = (Ret (job, None), h1)"
    "last_status (effective S h) (job_ID job) = Some old"
    "old \<noteq> GetJobStatusId db st"
  shows "\<exists>d. h' = d @ h \<and> list_all (\<lambda>e. \<not> is_write e) d"
proof -
  obtain hq name where "sv_job S hq (Query (Tx (fresh_tx h)) (FindJob name cid True)) = (job, None)"
    "job_ID job \<noteq> []" "pending S (fresh_tx h) hq = []" "effective S hq = effective S h"
    using fetched_from_query [OF assms(3)] .
  then have "job_StatusID job = old"
    using assms(2,4) unfolding reads_committed_def by fastforce
  then show ?thesis using handler_idle [OF assms(1,3)] assms(5) by simp
qed

end

section \<open>Bodies that settle their job\<close>

lemma pending_settled:
  "settled S tx job h \<Longrightarrow> db_gorm tx = Tx n \<Longrightarrow>
     \<exists>st \<in> GetJobStatusId tx ` final_statuses. last_status (pending S n h) (job_ID job) = Some st"
  by (cases "(S, tx, job, h)" rule: settled.cases) auto

lemma with_job_run:
  assumes "with_job st S db cid body h = (Ret None, h')" "fetched S db cid h = (Ret (job, None), h1)"
    "job_StatusID job = GetJobStatusId db st"
  shows "\<exists>h2. body (db\<lparr>db_gorm := Tx (fresh_tx h)\<rparr>) job h1 = (Ret None, h2) \<and>
     h' = CommitTx (Tx (fresh_tx h)) # h2 \<and> sv_err S h2 (CommitTx (Tx (fresh_tx h))) = None"
proof -
  let ?tx = "db\<lparr>db_gorm := Tx (fresh_tx h)\<rparr>"
  have tx: "GetJobStatusId ?tx st = GetJobStatusId db st"
    by (simp add: GetJobStatusId_def)
  have "bnd (GetJobById S ?tx cid True) (if_status st ?tx (body ?tx)) (BeginTx (fresh_tx h) # h)
      = if_status st ?tx (body ?tx) (job, None) h1"
    using assms(2) by (simp add: fetched_def Let_def bnd_def)
  then show ?thesis
    using assms(1,3) tx unfolding with_job_def WithTransaction_run Let_def
    by (cases "job_Info job")
       (auto simp: if_status_def deref_def bnd_def ret_def go_panic_def
             split: prod.splits outcome.splits option.splits if_splits)
qed

locale job_body = status_body JobStatus_Processing final_statuses 1 body
  for body :: "services \<Rightarrow> message \<Rightarrow> database \<Rightarrow> Job \<Rightarrow> (hist, gerr option) go"

locale final_body = status_body +
  assumes body_settles: "ends (\<lambda>err h. err = None \<longrightarrow> settled S tx job h) (body S m tx job)"
begin

text \<open>A handler that reports success has moved the job it found with the expected status to a final one.\<close>

lemma handler_settles:
  assumes run: "with_job st S db cid (body S m) h = (Ret None, h')"
    and job: "fetched S db cid h = (Ret (job, None), h1)"
      "job_StatusID job = GetJobStatusId db st"
  shows "\<exists>st \<in> GetJobStatusId db ` final_statuses. last_status (effective S h') (job_ID job) = Some st"
proof -
  let ?tx = "db\<lparr>db_gorm := Tx (fresh_tx h)\<rparr>"
  obtain h2 where h2: "body S m ?tx job h1 = (Ret None, h2)"
    "h' = CommitTx (Tx (fresh_tx h)) # h2" "sv_err S h2 (CommitTx (Tx (fresh_tx h))) = None"
    using with_job_run [OF run job] by blast
  have "settled S ?tx job h2" using endsD [OF body_settles h2(1)] by simp
  then obtain final where st: "final \<in> GetJobStatusId ?tx ` final_statuses"
    "last_status (pending S (fresh_tx h) h2) (job_ID job) = Some final"
    using pending_settled [of S ?tx job h2 "fresh_tx h"] by auto
  moreover have "GetJobStatusId ?tx = GetJobStatusId db" by (simp add: GetJobStatusId_def fun_eq_iff)
  ultimately show ?thesis
    using h2 by (intro bexI [of _ final]) (simp_all add: last_status_append)
qed

end

locale settling_body = final_body JobStatus_Processing final_statuses 1 body
  for body :: "services \<Rightarrow> message \<Rightarrow> database \<Rightarrow> Job \<Rightarrow> (hist, gerr option) go"

sublocale settling_body \<subseteq> job_body body ..

end
