(* ===== verification/Pkg_Types.thy ===== *)
theory Pkg_Types
  imports Database
begin

text \<open>
  Helper functions of \<^verbatim>\<open>pkg/types\<close> (queue names, timestamps, money), \<^verbatim>\<open>pkg/epp_utils\<close> (error texts of
  registry responses) and \<^verbatim>\<open>pkg/message_bus\<close> (the request/response call).
\<close>

section \<open>pkg/types\<close>

definition TimestampToTime :: "timestamp option \<Rightarrow> gotime option" where
  "TimestampToTime t = (case t of None \<Rightarrow> None | Some _ \<Rightarrow> Some (AsTime t))"

definition GetQueryQueue :: "string \<Rightarrow> string" where
  "GetQueryQueue accreditation = ''ry-'' @ accreditation @ ''-query''"

definition GetTransformQueue :: "string \<Rightarrow> string" where
  "GetTransformQueue accreditation = ''ry-'' @ accreditation @ ''-transform''"

text \<open>Prices arrive as an amount in fractions of the unit.\<close>

definition ToMoneyMsg :: "f64ops \<Rightarrow> OrderPrice \<Rightarrow> Money" where
  "ToMoneyMsg F p =
     (let price = f64_div F (op_Amount p) (f64_of_i32 F (op_Fraction p));
          priceUnits = i64_of_f64 F (f64_floor F price);
          priceNanos = i32_of_f64 F (f64_round F (f64_mul F (f64_sub F price (f64_of_i64 F priceUnits))
                                                              (f64_of_int F 1000000000)))
      in \<lparr>mo_CurrencyCode = op_Currency p, mo_Units = priceUnits, mo_Nanos = priceNanos\<rparr>)"

definition AddMoney :: "Money option \<Rightarrow> Money option \<Rightarrow> gerr + Money" where
  "AddMoney a b =
     (case (a, b) of
        (Some a, Some b) \<Rightarrow>
          if mo_CurrencyCode a \<noteq> mo_CurrencyCode b
          then Inl (ErrNew (''cannot add different currencies: '' @ mo_CurrencyCode a @ '' and '' @ mo_CurrencyCode b))
          else (let totalNanos = mo_Nanos a + mo_Nanos b;
                    extraUnits = i64_of_i32 (i32_div totalNanos 1000000000);
                    totalNanos = i32_mod totalNanos 1000000000;
                    totalUnits = mo_Units a + mo_Units b + extraUnits
                in Inr \<lparr>mo_CurrencyCode = mo_CurrencyCode a, mo_Units = totalUnits, mo_Nanos = totalNanos\<rparr>)
      | _ \<Rightarrow> Inl (ErrNew ''cannot add nil Money values''))"

section \<open>pkg/epp_utils\<close>

text \<open>\<^verbatim>\<open>encoding/xml\<close> reads the \<^verbatim>\<open>value\<close> elements of the registry's answer (\<open>sv_epp_xml\<close>, nil on a decoding
  error); their messages are joined with a semicolon.\<close>

fun join_with :: "string \<Rightarrow> string list \<Rightarrow> string" where
  "join_with sep [] = []"
| "join_with sep [x] = x"
| "join_with sep (x # y # zs) = x @ sep @ join_with sep (y # zs)"

definition ExtractMsgsFromXml :: "services \<Rightarrow> string \<Rightarrow> string option" where
  "ExtractMsgsFromXml S xmlBytes =
     (case sv_epp_xml S xmlBytes of
        None \<Rightarrow> None
      | Some values \<Rightarrow>
          if values = [] then None
          else (let msgs = filter (\<lambda>v. v \<noteq> []) values
                in if msgs = [] then None else Some (join_with '';'' msgs)))"

definition GetMessageFromRegistryResponse :: "services \<Rightarrow> RegistryResponse option \<Rightarrow> string option" where
  "GetMessageFromRegistryResponse S registryResponse =
     (case registryResponse of
        None \<Rightarrow> None
      | Some r \<Rightarrow>
          (let resMsg = GetEppMessage registryResponse
           in Some (case ExtractMsgsFromXml S (GetXml registryResponse) of
                      None \<Rightarrow> resMsg | Some eppMsg \<Rightarrow> resMsg @ ''; '' @ eppMsg)))"

text \<open>The address of a field of a nil response panics, after the nil-safe message lookup.\<close>

definition SetJobErrorFromRegistryResponse ::
  "services \<Rightarrow> RegistryResponse option \<Rightarrow> Job \<Rightarrow> JobResultData \<Rightarrow> (hist, Job \<times> JobResultData) go" where
  "SetJobErrorFromRegistryResponse S registryResponse job jrd =
     (let resMsg = GetMessageFromRegistryResponse S registryResponse;
          job = job\<lparr>job_ResultMessage := resMsg\<rparr>
      in bnd (deref registryResponse) (\<lambda>r.
         ret (job, SetErrorDetails jrd (Some (rr_EppCode r)) resMsg)))"

definition SetJobErrorFromRegistryErrorResponse ::
  "ErrorResponse \<Rightarrow> Job \<Rightarrow> JobResultData \<Rightarrow> Job \<times> JobResultData" where
  "SetJobErrorFromRegistryErrorResponse errorResponse job jrd =
     (let resMsg = er_Message errorResponse
      in (job\<lparr>job_ResultMessage := Some resMsg\<rparr>,
          SetErrorDetails jrd (Some (er_Code errorResponse)) (Some resMsg)))"

lemma bnd_SetJobError:
  "bnd (SetJobErrorFromRegistryResponse S rr job jrd) f =
     (case rr of
        None \<Rightarrow> go_panic ''nil pointer dereference''
      | Some r \<Rightarrow> f (job\<lparr>job_ResultMessage := GetMessageFromRegistryResponse S rr\<rparr>,
                     SetErrorDetails jrd (Some (rr_EppCode r)) (GetMessageFromRegistryResponse S rr)))"
  by (simp add: SetJobErrorFromRegistryResponse_def Let_def bnd_assoc split: option.split)

section \<open>pkg/message_bus\<close>

text \<open>The call adds a deadline when there is none; an error response becomes an error.\<close>

definition bus_Call :: "services \<Rightarrow> string \<Rightarrow> message \<Rightarrow> (hist, gerr + message) go" where
  "bus_Call S queue msg =
     bnd (perform (BusCall queue msg) (sv_reply S)) (\<lambda>r.
     ret (case r of
            Inl e \<Rightarrow> Inl (ErrWrap ''error sending message'' e)
          | Inr m \<Rightarrow> (case m of
                        ErrorResponseMsg er \<Rightarrow>
                          Inl (ErrNew (''error response from message bus: '' @ er_Message er))
                      | _ \<Rightarrow> Inr m)))"

lemma adds_bus_Call [adds_rules]:
  "P (BusCall queue msg) \<Longrightarrow> \<not> W (BusCall queue msg) \<Longrightarrow> adds P W k (bus_Call S queue msg)"
  by (simp add: bus_Call_def adds_rules)

section \<open>Properties\<close>

text \<open>
  Queue names: no accreditation's query queue is any accreditation's transform queue, and two
  accreditations never share a queue.
\<close>

theorem queues_separate:
  "GetQueryQueue a \<noteq> GetTransformQueue b \<and>
   (GetQueryQueue a = GetQueryQueue b \<longleftrightarrow> a = b) \<and> (GetTransformQueue a = GetTransformQueue b \<longleftrightarrow> a = b)"
proof -
  have "last (GetQueryQueue a) \<noteq> last (GetTransformQueue b)"
    by (simp add: GetQueryQueue_def GetTransformQueue_def)
  then show ?thesis by (auto simp: GetQueryQueue_def GetTransformQueue_def)
qed

text \<open>
  A refusal that carries no registry response makes the error report panic, although the message
  lookup it starts with allows for a missing response.
\<close>

theorem missing_response_panics:
  "SetJobErrorFromRegistryResponse S None job jrd h = (Panicked ''nil pointer dereference'', h)"
  by (simp add: SetJobErrorFromRegistryResponse_def Let_def) (simp add: go_panic_def)

text \<open>
  The error text of a refused command: the registry's message, followed by the messages found in
  its XML answer if there are any.
\<close>

theorem refusal_text:
  "wp (SetJobErrorFromRegistryResponse S (Some rr) job jrd) (\<lambda>r h'. h' = h \<and>
     (\<exists>job' jrd'. r = Ret (job', jrd') \<and>
        (let msg = rr_EppMessage rr @ (case sv_epp_xml S (rr_Xml rr) of
                None \<Rightarrow> []
              | Some vs \<Rightarrow> if filter (\<lambda>v. v \<noteq> []) vs = [] then []
                           else ''; '' @ join_with '';'' (filter (\<lambda>v. v \<noteq> []) vs))
         in job_ResultMessage job' = Some msg \<and>
            jrd_Error jrd' = Some \<lparr>ed_EppCode = Some (rr_EppCode rr), ed_Message = Some msg\<rparr>))) h"
  by (auto simp: SetJobErrorFromRegistryResponse_def GetMessageFromRegistryResponse_def GetEppMessage_def
      GetXml_def ExtractMsgsFromXml_def SetErrorDetails_def Let_def wp split: option.split)

end
