(* ===== verification/Sample.thy ===== *)
theory Sample
  imports Job_Protocol Pkg_Types
begin

text \<open>
  Concrete surroundings for the witnesses: lookup tables, jobs, and services that answer in a
  simple way. Nothing in the model depends on this theory.
\<close>

definition sample_statuses :: EnumTable where
  "sample_statuses = \<lparr>et_data = assoc_bimap
     [(''created'', ''s1''), (''submitted'', ''s2''), (''processing'', ''s3''), (''completed'', ''s4''),
      (''failed'', ''s5''), (''completed_conditionally'', ''s6'')]\<rparr>"

definition sample_db :: database where
  "sample_db = \<lparr>db_gorm = Pool, db_jobStatusEnum = sample_statuses, db_jobTypeEnum = sample_statuses,
     db_provisionStatusEnum = sample_statuses, db_transferStatusEnum = sample_statuses,
     db_orderItemPlanStatusEnum = sample_statuses, db_orderItemPlanValidationStatusEnum = sample_statuses,
     db_orderTypeEnum = \<lparr>et_data = assoc_bimap [(''transfer_away.domain'', ''o1'')]\<rparr>,
     db_domainContactTypeEnum = \<lparr>et_data = assoc_bimap [(''registrant'', ''c1''), (''admin'', ''c2''),
       (''tech'', ''c3''), (''billing'', ''c4'')]\<rparr>,
     db_pollMessageTypeEnum = \<lparr>et_data = assoc_bimap [(''transfer'', ''t1''), (''pending_action'', ''t2''), (''unspec'', ''t3'')]\<rparr>,
     db_pollMessageStatusEnum = \<lparr>et_data = assoc_bimap [(''pending'', ''p1''), (''submitted'', ''p2''), (''processed'', ''p3''),
       (''failed'', ''p4'')]\<rparr>,
     db_rgpStatusEnum = \<lparr>et_data = assoc_bimap [(''redemption_grace_period'', ''g1'')]\<rparr>,
     db_hostingStatusEnum = \<lparr>et_data = assoc_bimap [(''In progress'', ''hs1''), (''Completed'', ''hs2''), (''Failed'', ''hs3''), (''Failed Certificate Renewal'', ''hs4'')]\<rparr>\<rparr>"

text \<open>A job in processing, of a given type and with given data.\<close>

definition sample_info :: "string \<Rightarrow> json \<Rightarrow> VJob" where
  "sample_info ty data =
     zero_VJob\<lparr>vj_JobTypeName := Some ty, vj_ReferenceID := Some ''r1'', vj_Data := Raw data\<rparr>"

definition sample_job :: "string \<Rightarrow> json \<Rightarrow> Job" where
  "sample_job ty data =
     zero_Job\<lparr>job_ID := ''j1'', job_StatusID := ''s3'', job_Info := Some (sample_info ty data)\<rparr>"

definition sample_f64 :: f64ops where
  "sample_f64 = \<lparr>f64_of_int = word_of_int, f64_parse = (\<lambda>_. None), f64_of_i32 = (\<lambda>w. word_of_int (sint w)),
     f64_of_i64 = id, f64_div = (\<lambda>a b. a div b), f64_sub = (-), f64_mul = (*), f64_floor = id, f64_round = id,
     i64_of_f64 = id, i32_of_f64 = (\<lambda>w. word_of_int (sint w))\<rparr>"

text \<open>
  Services that find a given job whatever is asked, report the errors they are told to report, and
  answer every registry question with a given message.
\<close>

definition sample_services :: "Job \<Rightarrow> (event \<Rightarrow> gerr option) \<Rightarrow> (gerr + message) \<Rightarrow> services" where
  "sample_services job err reply =
     \<lparr>sv_err = (\<lambda>h. err), sv_job = (\<lambda>h e. (job, None)),
      sv_pd = (\<lambda>h e. (Some (zero_ProvisionDomain\<lparr>pd_AllowedAttempts := Some 1\<rparr>), None)),
      sv_pdrn = (\<lambda>h e. (Some (zero_ProvisionDomainRenew\<lparr>pdrn_AllowedAttempts := Some 1\<rparr>), None)),
      sv_pdrd = (\<lambda>h e. (Some (zero_ProvisionDomainRedeem\<lparr>pdrd_AllowedAttempts := Some 1\<rparr>), None)),
      sv_pdd = (\<lambda>h e. (Some (zero_ProvisionDomainDelete\<lparr>pdd_AllowedAttempts := Some 1\<rparr>), None)),
      sv_pdti = (\<lambda>h e. (Some (zero_ProvisionDomainTransferIn\<lparr>pdti_AllowedAttempts := Some 1\<rparr>), None)),
      sv_pdtr = (\<lambda>h e. (Some (zero_ProvisionDomainTransferInRequest\<lparr>pdtr_AllowedAttempts := Some 1\<rparr>), None)),
      sv_vd = (\<lambda>h e. (Some (zero_VDomain\<lparr>vd_RgpEppStatus := Some ''addPeriod''\<rparr>), None)),
      sv_ocd = (\<lambda>h e. (Some zero_OrderItemCreateDomain, None)),
      sv_domain = (\<lambda>h e. (Some zero_Domain, None)), sv_attribute = (\<lambda>h e. (Some (zero_VAttribute\<lparr>vat_Value := ''true''\<rparr>), None)),
      sv_acc = (\<lambda>h e. (Some (zero_AccreditationRow\<lparr>ac_RegistrarID := ''us''\<rparr>), None)), sv_acc_cache = (\<lambda>h k. None),
      sv_dacc = (\<lambda>h e. (Some (zero_Domain, zero_AccreditationRow\<lparr>ac_RegistrarID := ''us''\<rparr>), None)),
      sv_pdtrs = (\<lambda>h e. ([], None)), sv_votas = (\<lambda>h e. ([], None)), sv_vds = (\<lambda>h e. ([], None)),
      sv_ota = (\<lambda>h e. (None, Some ErrRecordNotFound)), sv_vpd = (\<lambda>h e. (None, Some ErrRecordNotFound)),
      sv_pg_code = (\<lambda>e. None), sv_poll_json = (\<lambda>d. Inr (JObj [])),
      sv_lookup = (\<lambda>h e. Inr []), sv_order_id = (\<lambda>h e. ''o2''), sv_reply = (\<lambda>h e. reply), sv_now = (\<lambda>h n. zero_time),
      sv_protojson = (\<lambda>m. Inr (JObj [])), sv_rgp = (\<lambda>a. Inr ''redemptionPeriod''),
      sv_launch = (\<lambda>a. Inr [False]), sv_secdns = (\<lambda>a. Inr NoSecdns), sv_idn = (\<lambda>a. Inr ([], [])),
      sv_epp_xml = (\<lambda>x. None), sv_connect_error = (\<lambda>e. False), sv_uuid_ok = (\<lambda>s. True),
      sv_json_text = (\<lambda>ty b. ''bad json''), sv_money_equal = (\<lambda>m p. p = Some m),
      sv_type_name = (\<lambda>m. ''message''), sv_f64 = sample_f64,
      sv_pack = (\<lambda>m. Inr (Any [] [])), sv_range = (\<lambda>h ks. ks), sv_time_string = (\<lambda>t. ''time''),
      sv_operation0 = OTHER_OPERATION,
      sv_hosting = (\<lambda>h e. (Some (zero_Hosting\<lparr>hos_ID := ''h1''\<rparr>), None)),
      sv_phcc = (\<lambda>h e. (Some (zero_ProvisionHostingCertificateCreate\<lparr>phcc_ID := ''pc1''\<rparr>), None)),
      sv_rows_affected = (\<lambda>h e. 1), sv_stale = (\<lambda>h e. ([], None)),
      sv_http = (\<lambda>h e. (Some \<lparr>hr_StatusCode = 200, hr_Error = []\<rparr>, None)),
      sv_order_result = (\<lambda>h e. zero_OrderResponse\<lparr>orr_Id := ''ho1'', orr_Status := ''In progress''\<rparr>),
      sv_client_results = (\<lambda>h e. [zero_ClientResponse\<lparr>clr_Id := ''hc1''\<rparr>]),
      sv_reseller_results = (\<lambda>h e. [zero_ResellerResponse\<lparr>rsr_Id := ''hr1''\<rparr>]),
      sv_client_result = (\<lambda>h e. zero_ClientResponse\<lparr>clr_Id := ''hc1''\<rparr>),
      sv_reseller_result = (\<lambda>h e. zero_ResellerResponse\<lparr>rsr_Id := ''hr1''\<rparr>),
      sv_newcert_result = (\<lambda>h e. \<lparr>cctp_DomainName = [], cctp_Message = [], cctp_Status = []\<rparr>),
      sv_cert_result = (\<lambda>h e. zero_GetCertificateResponse), sv_ctx_done = (\<lambda>h. False),
      sv_cname = (\<lambda>h e. Inr []), sv_pem = (\<lambda>s. None), sv_x509 = (\<lambda>s. Inr []),
      sv_unpack = (\<lambda>a. Inl (ErrExt ''unknown type'')), sv_ext_json = (\<lambda>m. Inr (JObj []))\<rparr>"

definition sample_rr :: "bool \<Rightarrow> i32 \<Rightarrow> RegistryResponse" where
  "sample_rr ok code = \<lparr>rr_IsSuccess = ok, rr_EppCode = code, rr_EppMessage = ''m'', rr_EppCltrid = ''t'', rr_Xml = []\<rparr>"

text \<open>A job of a given type with no data, and services for it that report no error.\<close>

abbreviation plain_job :: "string \<Rightarrow> Job" where "plain_job ty \<equiv> sample_job ty (JObj [])"

definition plain_services :: "string \<Rightarrow> services" where
  "plain_services ty = sample_services (plain_job ty) (\<lambda>e. None) (Inl ErrNotFound)"

lemma sample_info_simps [simp]:
  "vj_JobTypeName (sample_info ty data) = Some ty" "vj_ReferenceID (sample_info ty data) = Some ''r1''"
  "vj_Data (sample_info ty data) = Raw data"
  by (simp_all add: sample_info_def)

lemma sample_job_simps [simp]:
  "job_ID (sample_job ty data) = ''j1''" "job_StatusID (sample_job ty data) = ''s3''"
  "job_ResultMessage (sample_job ty data) = None"
  "job_Info (sample_job ty data) = Some (sample_info ty data)"
  by (simp_all add: sample_job_def zero_Job_def)

lemma sample_rr_simps [simp]:
  "rr_IsSuccess (sample_rr ok code) = ok" "rr_EppCode (sample_rr ok code) = code"
  by (simp_all add: sample_rr_def)

lemma plain_services_simps [simp]:
  "sv_err (plain_services ty) h = (\<lambda>e. None)" "sv_job (plain_services ty) h e = (plain_job ty, None)"
  "sv_connect_error (plain_services ty) = (\<lambda>e. False)" "sv_reply (plain_services ty) h e = Inl ErrNotFound"
  by (simp_all add: plain_services_def sample_services_def)

lemma unmarshal_empty: "unmarshal (dec_struct fs) z (Raw (JObj [])) = Some z"
  by (simp add: unmarshal_def dec_struct_def)

text \<open>Services whose database forgets nothing: a job is found with the status last made effective.\<close>

definition store_services :: "Job \<Rightarrow> services" where
  "store_services job =
     (let S = sample_services job (\<lambda>e. None) (Inl (ErrNew ''no reply''))
      in S\<lparr>sv_job := (\<lambda>h e. (job\<lparr>job_StatusID := (case last_status (effective S h) (job_ID job) of
                                  None \<Rightarrow> job_StatusID job | Some st \<Rightarrow> st)\<rparr>, None))\<rparr>)"

lemma pending_cong: "sv_err S = sv_err S' \<Longrightarrow> pending S n h = pending S' n h"
  by (induction S n h rule: pending.induct) auto

lemma effective_cong:
  assumes "sv_err S = sv_err S'"
  shows "effective S h = effective S' h"
proof (induction h)
  case (Cons e h)
  have "pending S n h = pending S' n h" for n by (rule pending_cong [OF assms])
  with Cons assms show ?case by (cases "(S, e # h)" rule: effective.cases) auto
qed simp

lemma store_reads_committed: "reads_committed (store_services job)"
proof -
  have "effective (store_services job) h = effective (sample_services job (\<lambda>e. None) (Inl (ErrNew ''no reply''))) h" for h
    by (rule effective_cong) (simp add: store_services_def Let_def)
  then show ?thesis
    unfolding reads_committed_def by (auto simp: store_services_def Let_def)
qed

section \<open>The database layer on the samples\<close>

theorem order_type_roundtrip_witness:
  "GetOrderTypeName sample_db (GetOrderTypeId sample_db ''transfer_away'' ''domain'') = ret (''transfer_away'', ''domain'')"
  using order_type_roundtrip [of sample_db "''transfer_away''" "''domain''" "''zz''"]
  by (simp add: GetOrderTypeId_def GetByKey_def assoc_bimap_def sample_db_def)

theorem job_lookup_hides_errors_witness:
  "GetJobById (plain_services ''t''\<lparr>sv_job := \<lambda>h e. (zero_Job, Some (ErrExt ''lock not available''))\<rparr>) sample_db ''c'' True [] =
     (Ret (zero_Job, Some ErrNotFound),
      [Query Pool (FindJob ''event_id'' ''c'' True), Query Pool (FindJob ''id'' ''c'' True)])"
  using job_lookup_hides_errors [of "plain_services ''t''\<lparr>sv_job := \<lambda>h e. (zero_Job, Some (ErrExt ''lock not available''))\<rparr>"
      "[]" sample_db "''c''" True zero_Job "ErrExt ''lock not available''" zero_Job "ErrExt ''lock not available''"]
  by (simp add: zero_Job_def sample_db_def)

end
