(* ===== verification/DU_Common.thy ===== *)
theory DU_Common
  imports Sample
begin

text \<open>
  \<^verbatim>\<open>domain_updater/handlers/types.go\<close>: what the handlers of the domain updater share. Also the type
  assertions on incoming messages (a message of another type panics) and the handlers' common
  reaction to job data that does not decode.
\<close>

section \<open>Type assertions\<close>

definition as_DomainCreateResponse :: "message \<Rightarrow> (hist, DomainCreateResponse) go" where
  "as_DomainCreateResponse m =
     (case m of DomainCreateResponseMsg r \<Rightarrow> ret r | _ \<Rightarrow> go_panic ''interface conversion'')"

definition as_DomainRenewResponse :: "message \<Rightarrow> (hist, DomainRenewResponse) go" where
  "as_DomainRenewResponse m =
     (case m of DomainRenewResponseMsg r \<Rightarrow> ret r | _ \<Rightarrow> go_panic ''interface conversion'')"

definition as_DomainUpdateResponse :: "message \<Rightarrow> (hist, RegistryResponse option) go" where
  "as_DomainUpdateResponse m =
     (case m of DomainUpdateResponseMsg r \<Rightarrow> ret r | _ \<Rightarrow> go_panic ''interface conversion'')"

definition as_DomainDeleteResponse :: "message \<Rightarrow> (hist, RegistryResponse option) go" where
  "as_DomainDeleteResponse m =
     (case m of DomainDeleteResponseMsg r \<Rightarrow> ret r | _ \<Rightarrow> go_panic ''interface conversion'')"

definition as_DomainCheckResponse :: "message \<Rightarrow> (hist, DomainCheckResponse) go" where
  "as_DomainCheckResponse m =
     (case m of DomainCheckResponseMsg r \<Rightarrow> ret r | _ \<Rightarrow> go_panic ''interface conversion'')"

definition as_DomainTransferResponse :: "message \<Rightarrow> (hist, DomainTransferResponse) go" where
  "as_DomainTransferResponse m =
     (case m of DomainTransferResponseMsg r \<Rightarrow> ret r | _ \<Rightarrow> go_panic ''interface conversion'')"

definition as_DomainInfoResponse :: "message \<Rightarrow> (hist, DomainInfoResponse) go" where
  "as_DomainInfoResponse m =
     (case m of DomainInfoResponseMsg r \<Rightarrow> ret r | _ \<Rightarrow> go_panic ''interface conversion'')"

definition as_ErrorResponse :: "message \<Rightarrow> (hist, ErrorResponse) go" where
  "as_ErrorResponse m =
     (case m of ErrorResponseMsg r \<Rightarrow> ret r | _ \<Rightarrow> go_panic ''interface conversion'')"

lemmas as_defs =
  as_DomainCreateResponse_def as_DomainRenewResponse_def as_DomainUpdateResponse_def
  as_DomainDeleteResponse_def as_DomainCheckResponse_def as_DomainTransferResponse_def
  as_DomainInfoResponse_def as_ErrorResponse_def

lemma adds_as [adds_rules]:
  "adds P W k (as_DomainCreateResponse m)" "adds P W k (as_DomainRenewResponse m)"
  "adds P W k (as_DomainUpdateResponse m)" "adds P W k (as_DomainDeleteResponse m)"
  "adds P W k (as_DomainCheckResponse m)" "adds P W k (as_DomainTransferResponse m)"
  "adds P W k (as_DomainInfoResponse m)" "adds P W k (as_ErrorResponse m)"
  by (simp_all add: as_defs adds_rules split: message.split)

section \<open>Shared steps\<close>

definition result_data :: "message \<Rightarrow> JobResultData" where
  "result_data m = \<lparr>jrd_Message = Some m, jrd_Error = None\<rparr>"

text \<open>Job data that does not decode fails the job with the decoder's message.\<close>

definition fail_decode :: "services \<Rightarrow> database \<Rightarrow> Job \<Rightarrow> string \<Rightarrow> raw \<Rightarrow> (hist, gerr option) go" where
  "fail_decode S tx job ty b =
     finish_job S tx (job\<lparr>job_ResultMessage := Some (sv_json_text S ty b)\<rparr>) JobStatus_Failed None"

text \<open>A refusal by the registry fails the job with the registry's message.\<close>

definition fail_registry ::
  "services \<Rightarrow> database \<Rightarrow> Job \<Rightarrow> RegistryResponse option \<Rightarrow> JobResultData \<Rightarrow> (hist, gerr option) go" where
  "fail_registry S tx job registryResponse jrd =
     bnd (SetJobErrorFromRegistryResponse S registryResponse job jrd) (\<lambda>(job, jrd).
     finish_job S tx job JobStatus_Failed (Some jrd))"

text \<open>Other failures carry a message of the handler's own.\<close>

definition fail_with ::
  "services \<Rightarrow> database \<Rightarrow> Job \<Rightarrow> string \<Rightarrow> JobResultData option \<Rightarrow> (hist, gerr option) go" where
  "fail_with S tx job msg jrd =
     finish_job S tx (job\<lparr>job_ResultMessage := Some msg\<rparr>) JobStatus_Failed jrd"

section \<open>Transfer-away orders\<close>

definition order_metadata :: "DomainTransferAwayData \<Rightarrow> json" where
  "order_metadata data =
     enc_map [(''internal'', JBool True),
              (''orig_order_id'', (case dtaw_Metadata data of
                  None \<Rightarrow> JNull
                | Some m \<Rightarrow> (case map_of m ''order_id'' of None \<Rightarrow> JNull | Some v \<Rightarrow> v))),
              (''reason'', JStr (''domain is no longer sponsored by registrar '' @ [CHR 0x27]
                  @ acc_RegistrarID (dtaw_Accreditation data) @ [CHR 0x27]))]"

definition createTransferAwayOrder ::
  "services \<Rightarrow> database \<Rightarrow> DomainTransferAwayData \<Rightarrow> DomainInfoResponse \<Rightarrow> (hist, gerr option) go" where
  "createTransferAwayOrder S tx data domainInfoResp =
     bnd (observe (sv_now S)) (\<lambda>now.
     let order = zero_Order
           \<lparr>ord_TypeID := GetOrderTypeId tx ''transfer_away'' ''domain'',
            ord_TenantCustomerID := dtaw_TenantCustomerId data,
            ord_OrderItemTransferAwayDomain := zero_OrderItemTransferAwayDomain
              \<lparr>ota_Name := dtaw_Name data,
               ota_TransferStatusID := GetTransferStatusId tx TransferStatus_ServerApproved,
               ota_RequestedBy := din_Clid domainInfoResp,
               ota_RequestedDate := now 0,
               ota_ActionBy := acc_RegistrarID (dtaw_Accreditation data),
               ota_ActionDate := now 1,
               ota_ExpiryDate := now 2\<rparr>\<rparr>;
         order = order\<lparr>ord_Metadata := Some (json_print (order_metadata data))\<rparr>
     in bnd (TransferAwayDomainOrder S tx order) (\<lambda>(order, err).
        case err of
          Some e \<Rightarrow> ret (Some (ErrWrap ''error creating transfer away domain order'' e))
        | None \<Rightarrow>
            bnd (OrderNextStatus S tx (ord_ID order) True) (\<lambda>err.
            case err of
              Some e \<Rightarrow> ret (Some (ErrWrap ''failed to update order status'' e))
            | None \<Rightarrow> ret None)))"

section \<open>Questions to the registry\<close>

definition getDomainInfo ::
  "services \<Rightarrow> string \<Rightarrow> string \<Rightarrow> (hist, gerr + DomainInfoResponse) go" where
  "getDomainInfo S domainName accName =
     bnd (bus_Call S (GetTransformQueue accName) (DomainInfoRequestMsg domainName None)) (\<lambda>r.
     case r of
       Inl e \<Rightarrow> ret (Inl e)
     | Inr response \<Rightarrow>
         (case response of
            DomainInfoResponseMsg m \<Rightarrow> ret (Inr m)
          | _ \<Rightarrow> ret (Inl (ErrNew (''unexpected message type received for domain info response: ''
                              @ sv_type_name S response)))))"

definition getTransferInfo ::
  "services \<Rightarrow> string \<Rightarrow> string option \<Rightarrow> string \<Rightarrow> (hist, gerr + DomainTransferResponse) go" where
  "getTransferInfo S domainName pw accName =
     bnd (bus_Call S (GetTransformQueue accName) (DomainTransferQueryRequestMsg domainName pw)) (\<lambda>r.
     case r of
       Inl e \<Rightarrow> ret (Inl e)
     | Inr response \<Rightarrow>
         (case response of
            DomainTransferResponseMsg m \<Rightarrow> ret (Inr m)
          | _ \<Rightarrow> ret (Inl (ErrNew (''unexpected message type received for domain transfer query response: ''
                              @ sv_type_name S response)))))"

definition rgpStatusExists :: "extensions \<Rightarrow> bool" where
  "rgpStatusExists exts = (case map_of exts ''rgp'' of Some rgpExt \<Rightarrow> rgpExt \<noteq> None | None \<Rightarrow> False)"

text \<open>The RGP status of a response; the empty status when there is no extension.\<close>

definition handleRgpExtension :: "services \<Rightarrow> extensions \<Rightarrow> gerr + string" where
  "handleRgpExtension S exts =
     (if rgpStatusExists exts
      then sv_rgp S (case map_of exts ''rgp'' of None \<Rightarrow> None | Some x \<Rightarrow> x)
      else Inr [])"

section \<open>Facts\<close>

lemma bnd_run: "m h = (Ret a, h1) \<Longrightarrow> bnd m f h = f a h1"
  by (simp add: bnd_def)

lemma adds_fail_decode [adds_rules]:
  "JobStatus_Failed \<in> outs \<Longrightarrow> job_ID job = job_ID job0 \<Longrightarrow>
   adds (job_event outs tx job0) W (Suc 0) (fail_decode S tx job ty b)"
  by (simp add: fail_decode_def adds_rules)

lemma adds_fail_with [adds_rules]:
  "JobStatus_Failed \<in> outs \<Longrightarrow> job_ID job = job_ID job0 \<Longrightarrow>
   adds (job_event outs tx job0) W (Suc 0) (fail_with S tx job msg jrd)"
  by (simp add: fail_with_def adds_rules)

lemma adds_fail_registry [adds_rules]:
  "JobStatus_Failed \<in> outs \<Longrightarrow> job_ID job = job_ID job0 \<Longrightarrow>
   adds (job_event outs tx job0) W (Suc 0) (fail_registry S tx job rr jrd)"
  by (simp add: fail_registry_def bnd_SetJobError adds_rules split: option.split)

lemma ends_fail_decode [ends_rules]:
  "job_ID job = job_ID job0 \<Longrightarrow> ends (\<lambda>err h. err = None \<longrightarrow> settled S tx job0 h) (fail_decode S tx job ty b)"
  by (simp add: fail_decode_def ends_rules)

lemma ends_fail_with [ends_rules]:
  "job_ID job = job_ID job0 \<Longrightarrow> ends (\<lambda>err h. err = None \<longrightarrow> settled S tx job0 h) (fail_with S tx job msg jrd)"
  by (simp add: fail_with_def ends_rules)

lemma ends_fail_registry [ends_rules]:
  "job_ID job = job_ID job0 \<Longrightarrow> ends (\<lambda>err h. err = None \<longrightarrow> settled S tx job0 h) (fail_registry S tx job rr jrd)"
  by (simp add: fail_registry_def bnd_SetJobError ends_rules split: option.split)

lemma adds_getDomainInfo [adds_rules]:
  "adds (body_event tx job) is_job_write 0 (getDomainInfo S name acc)"
  by (auto simp: getDomainInfo_def intro!: adds_rules split: message.split)

lemma adds_getTransferInfo [adds_rules]:
  "adds (body_event tx job) is_job_write 0 (getTransferInfo S name pw acc)"
  by (auto simp: getTransferInfo_def intro!: adds_rules split: message.split)

lemma adds_createTransferAwayOrder [adds_rules]:
  "adds (body_event tx job) is_job_write 0 (createTransferAwayOrder S tx data resp)"
  unfolding createTransferAwayOrder_def Let_def TransferAwayDomainOrder_def OrderNextStatus_def
  by (intro adds_rules) simp_all

section \<open>Outcomes\<close>

text \<open>
  Surroundings in which a body reaches its decision: job writes succeed, no error is a lost
  connection, messages have a JSON form. Other calls may fail; the outcome then says how.
\<close>

definition calm :: "services \<Rightarrow> bool" where
  "calm S \<longleftrightarrow> (\<forall>h s j. sv_err S h (Exec s (UpdatesJob j)) = None) \<and> (\<forall>e. \<not> sv_connect_error S e) \<and>
     (\<forall>m. \<exists>kvs. sv_protojson S m = Inr (JObj kvs))"

definition statuses_known :: "database \<Rightarrow> bool" where
  "statuses_known tx \<longleftrightarrow> (\<forall>st \<in> insert JobStatus_Processing final_statuses. GetJobStatusId tx st \<noteq> [])"

text \<open>The last step of a run: the job written with this status and this message, nothing else.\<close>

fun closes :: "database \<Rightarrow> Job \<Rightarrow> string \<Rightarrow> string option \<Rightarrow> hist \<Rightarrow> hist \<Rightarrow> bool" where
  "closes tx job st msg h (Exec s (UpdatesJob j) # h') =
     (s = db_gorm tx \<and> h' = h \<and> job_ID j = job_ID job \<and> job_StatusID j = GetJobStatusId tx st \<and>
      job_ResultMessage j = msg)"
| "closes tx job st msg h h' = False"

lemma dec_entries_any: "\<exists>m'. dec_entries JNull dec_any kvs m = Some m'"
  by (induction kvs arbitrary: m) (auto simp: dec_any_def)

text \<open>What a question about a domain returns.\<close>

lemma getDomainInfo_run:
  obtains r where
    "getDomainInfo S domainName accName h =
       (Ret r, BusCall (GetTransformQueue accName) (DomainInfoRequestMsg domainName None) # h)"
    "\<And>resp. r = Inr resp \<longleftrightarrow>
       sv_reply S h (BusCall (GetTransformQueue accName) (DomainInfoRequestMsg domainName None)) =
         Inr (DomainInfoResponseMsg resp)"
proof (cases "sv_reply S h (BusCall (GetTransformQueue accName) (DomainInfoRequestMsg domainName None))")
  case (Inr m)
  then show thesis
    by (cases m) (auto simp: getDomainInfo_def bus_Call_def perform_def bnd_def ret_def intro: that)
qed (auto simp: getDomainInfo_def bus_Call_def perform_def bnd_def ret_def intro: that)

lemma MarshalJSON_calm:
  assumes "calm S"
  shows "\<exists>j. JobResultData_MarshalJSON S jrd h = (Ret (Inr j), h)"
proof (cases "jrd_Message jrd")
  case (Some m)
  obtain kvs where "sv_protojson S m = Inr (JObj kvs)" using assms unfolding calm_def by blast
  then show ?thesis
    using Some dec_entries_any [of kvs "[]"]
    by (auto simp: JobResultData_MarshalJSON_def dec_map_def ret_def split: option.split)
qed (simp add: JobResultData_MarshalJSON_def ret_def)

lemma set_status_calm:
  assumes "calm S" "GetJobStatusId tx st \<noteq> []" "st \<noteq> []" "job_Info job \<noteq> None"
  shows "\<exists>j. set_status S tx job st h = (Ret (j, None), Exec (db_gorm tx) (UpdatesJob j) # h) \<and>
     job_ID j = job_ID job \<and> job_StatusID j = GetJobStatusId tx st \<and> job_ResultMessage j = job_ResultMessage job"
  using assms
  by (auto simp: set_status_def Let_def UpdateJob_def exec_or_die_def perform_def bnd_def ret_def calm_def)

lemma finish_job_calm:
  assumes "calm S" "statuses_known tx" "st \<in> insert JobStatus_Processing final_statuses" "job_Info job \<noteq> None"
  shows "wp (finish_job S tx job st jrd) (\<lambda>r h'. r = Ret None \<and> closes tx job st (job_ResultMessage job) h h') h"
proof -
  have st: "GetJobStatusId tx st \<noteq> []" "st \<noteq> []"
    using assms(2,3) by (auto simp: statuses_known_def final_statuses_def)
  show ?thesis
  proof (cases jrd)
    case None
    then show ?thesis
      using set_status_calm [OF assms(1) st assms(4), of h]
      by (auto simp: wp_def finish_job_def SetJobStatus_def bnd_def ret_def)
  next
    case (Some d)
    obtain js where "JobResultData_MarshalJSON S d h = (Ret (Inr js), h)"
      using MarshalJSON_calm [OF assms(1)] by blast
    then show ?thesis
      using Some set_status_calm [OF assms(1) st, of "job\<lparr>job_ResultData := Raw js\<rparr>" h] assms(4)
      by (auto simp: wp_def finish_job_def SetJobStatus_def bnd_def ret_def)
  qed
qed

text \<open>Rules that carry a decision table through a body.\<close>

named_theorems closing "how the closing steps of a body end in calm surroundings"

lemma wp_finish_job [closing]:
  assumes "calm S" "statuses_known tx" "st \<in> insert JobStatus_Processing final_statuses" "job_Info job \<noteq> None"
    and "\<And>h'. closes tx job st (job_ResultMessage job) h h' \<Longrightarrow> Q (Ret None) h'"
  shows "wp (finish_job S tx job st jrd) Q h"
  using wp_mono [OF finish_job_calm [OF assms(1-4)]] assms(5) by blast

lemma closes_same_ID:
  "job_ID job = job_ID job' \<Longrightarrow> closes tx job st msg h h' = closes tx job' st msg h h'"
  by (cases "(tx, job, st, msg, h, h')" rule: closes.cases) auto

lemma wp_fail_with [closing]:
  assumes "calm S" "statuses_known tx" "job_Info job \<noteq> None"
    and "\<And>h'. closes tx job JobStatus_Failed (Some msg) h h' \<Longrightarrow> Q (Ret None) h'"
  shows "wp (fail_with S tx job msg jrd) Q h"
  unfolding fail_with_def
  by (rule wp_finish_job) (use assms closes_same_ID [of "job\<lparr>job_ResultMessage := Some msg\<rparr>" job] in auto)

lemma wp_fail_decode [closing]:
  assumes "calm S" "statuses_known tx" "job_Info job \<noteq> None"
    and "\<And>h'. closes tx job JobStatus_Failed (Some (sv_json_text S ty b)) h h' \<Longrightarrow> Q (Ret None) h'"
  shows "wp (fail_decode S tx job ty b) Q h"
  unfolding fail_decode_def
  by (rule wp_finish_job)
     (use assms closes_same_ID [of "job\<lparr>job_ResultMessage := Some (sv_json_text S ty b)\<rparr>" job] in auto)

text \<open>A refusal without a registry response panics; the code takes the address of its code field.\<close>

lemma wp_fail_registry [closing]:
  assumes "calm S" "statuses_known tx" "job_Info job \<noteq> None"
    and "rr = None \<Longrightarrow> Q (Panicked ''nil pointer dereference'') h"
    and "\<And>h' r. rr = Some r \<Longrightarrow>
           closes tx job JobStatus_Failed (GetMessageFromRegistryResponse S rr) h h' \<Longrightarrow> Q (Ret None) h'"
  shows "wp (fail_registry S tx job rr jrd) Q h"
proof (cases rr)
  case None
  then show ?thesis using assms(4) by (simp add: fail_registry_def bnd_SetJobError wp)
next
  case (Some r)
  then show ?thesis
    using assms closes_same_ID [of "job\<lparr>job_ResultMessage := GetMessageFromRegistryResponse S rr\<rparr>" job]
    by (auto simp: fail_registry_def bnd_SetJobError intro!: wp_finish_job)
qed

lemma calm_connect [simp]: "calm S \<Longrightarrow> sv_connect_error S e = False"
  by (simp add: calm_def)

lemma sample_calm: "(\<And>s j. err (Exec s (UpdatesJob j)) = None) \<Longrightarrow> calm (sample_services job err reply)"
  by (simp add: calm_def sample_services_def)

lemma sample_statuses_known: "statuses_known sample_db"
  by (simp add: statuses_known_def final_statuses_def sample_db_def GetJobStatusId_def sample_statuses_def
      GetByKey_def assoc_bimap_def)

lemma TimestampToTime_map: "TimestampToTime = map_option (\<lambda>t. AsTime (Some t))"
  by (auto simp: TimestampToTime_def fun_eq_iff split: option.split)

lemma plain_calm: "calm (plain_services ty)"
  unfolding plain_services_def by (rule sample_calm) simp

end
