(* ===== verification/Request_Protocol.thy ===== *)
theory Request_Protocol
  imports DU_Common
begin

text \<open>
  The discipline of the request workers (\<^verbatim>\<open>domain\<close>, \<^verbatim>\<open>host\<close>, \<^verbatim>\<open>contact\<close>). The database announces a
  submitted job (\<^verbatim>\<open>job.Notification\<close>); the worker fetches and locks it, translates its data into a
  message of the registry interface, puts the message on the bus with the job's id as correlation
  id, and marks the job as being processed. It is the frame of theory \<open>Job_Protocol\<close> with another
  expected status.

  \<^item> \<open>send_and_mark\<close>: the closing idiom of the handlers.
  \<^item> The locale \<open>request_body\<close>: at most one message per delivery; \<open>dispatching_body\<close>: a delivery that
    reports success has either put the request on the bus and marked the job, or closed the job.
\<close>

section \<open>Shared steps\<close>

definition as_Notification :: "message \<Rightarrow> (hist, string \<times> string) go" where
  "as_Notification m =
     (case m of JobNotificationMsg jobId ty st ri rt \<Rightarrow> ret (jobId, ty) | _ \<Rightarrow> go_panic ''interface conversion'')"

definition bus_Send ::
  "services \<Rightarrow> string \<Rightarrow> message \<Rightarrow> (string \<times> string) list \<Rightarrow> (hist, gerr option) go" where
  "bus_Send S queue msg headers = perform (BusSend queue msg headers) (sv_err S)"

definition request_headers :: "string \<Rightarrow> string \<Rightarrow> (string \<times> string) list" where
  "request_headers reply_to jobId = [(''reply_to'', reply_to), (''correlation_id'', jobId)]"

text \<open>Send the request, then mark the job; an error of either ends the handler.\<close>

definition send_and_mark ::
  "services \<Rightarrow> database \<Rightarrow> Job \<Rightarrow> string \<Rightarrow> message \<Rightarrow> (string \<times> string) list \<Rightarrow> (hist, gerr option) go" where
  "send_and_mark S tx job queue msg headers =
     bnd (bus_Send S queue msg headers) (\<lambda>err.
     case err of
       Some e \<Rightarrow> ret (Some e)
     | None \<Rightarrow> finish_job S tx job JobStatus_Processing None)"

text \<open>\<^verbatim>\<open>strconv.ParseBool\<close>.\<close>

definition ParseBool :: "string \<Rightarrow> gerr + bool" where
  "ParseBool s =
     (if s \<in> {''1'', ''t'', ''T'', ''true'', ''TRUE'', ''True''} then Inr True
      else if s \<in> {''0'', ''f'', ''F'', ''false'', ''FALSE'', ''False''} then Inr False
      else Inl (ErrNew (''strconv.ParseBool: parsing '' @ quote_string s @ '': invalid syntax'')))"

text \<open>The pairs of a map in the order a \<^verbatim>\<open>range\<close> visits them.\<close>

definition range_map :: "services \<Rightarrow> hist \<Rightarrow> (string \<times> 'v) list \<Rightarrow> (string \<times> 'v) list" where
  "range_map S h m =
     List.map_filter (\<lambda>k. map_option (Pair k) (map_of m k)) (sv_range S h (map fst m))"

section \<open>What a delivery may do\<close>

definition request_statuses :: "string set" where
  "request_statuses = {JobStatus_Processing, JobStatus_Completed, JobStatus_Failed}"

lemma request_statuses_simps [simp]:
  "JobStatus_Processing \<in> request_statuses" "JobStatus_Completed \<in> request_statuses"
  "JobStatus_Failed \<in> request_statuses"
  by (simp_all add: request_statuses_def)

abbreviation "request_event \<equiv> job_event request_statuses"

fun notified :: "message \<Rightarrow> string" where
  "notified (JobNotificationMsg jobId ty st ri rt) = jobId"
| "notified m = []"

text \<open>The request for job \<open>i\<close> was accepted by the bus, with nothing but row updates since.\<close>

fun sent :: "services \<Rightarrow> string \<Rightarrow> hist \<Rightarrow> bool" where
  "sent S i (BusSend q m hs # h) =
     (map_of hs ''correlation_id'' = Some i \<and> sv_err S h (BusSend q m hs) = None)"
| "sent S i (Exec s q # h) = sent S i h"
| "sent S i h = False"

text \<open>How a delivery without error ends: the job marked after its request was sent, or closed.\<close>

fun dispatched :: "services \<Rightarrow> database \<Rightarrow> Job \<Rightarrow> string \<Rightarrow> hist \<Rightarrow> bool" where
  "dispatched S db job i (Exec s (UpdatesJob j) # h) =
     (s = db_gorm db \<and> job_ID j = job_ID job \<and> job_StatusID j \<noteq> [] \<and>
      sv_err S h (Exec s (UpdatesJob j)) = None \<and>
      (job_StatusID j = GetJobStatusId db JobStatus_Processing \<and> sent S i h \<or>
       job_StatusID j \<in> GetJobStatusId db ` {JobStatus_Completed, JobStatus_Failed}))"
| "dispatched S db job i h = False"

lemma sent_sends: "sent S i h \<Longrightarrow> \<exists>q m hs. (q, m, hs) \<in> set (sends h) \<and> map_of hs ''correlation_id'' = Some i"
  by (induction S i h rule: sent.induct) auto

section \<open>Rules\<close>

lemma adds_as_Notification [adds_rules]: "adds P W k (as_Notification m)"
  by (simp add: as_Notification_def adds_rules split: message.split)

lemma as_Notification_Ret: "as_Notification m h = (Ret (i, ty), h') \<longleftrightarrow> (\<exists>st ri rt. m = JobNotificationMsg i ty st ri rt) \<and> h' = h"
  by (auto simp: as_Notification_def ret_def go_panic_def split: message.split)

lemma ends_as_Notification:
  assumes "\<And>i ty st ri rt. m = JobNotificationMsg i ty st ri rt \<Longrightarrow> ends Q (f (i, ty))"
  shows "ends Q (bnd (as_Notification m) f)"
  using assms by (cases m) (simp_all add: as_Notification_def ends_rules)

lemma adds_bus_Send:
  "P (BusSend q m hs) \<Longrightarrow> \<not> W (BusSend q m hs) \<Longrightarrow> adds P W k (bus_Send S q m hs)"
  by (simp add: bus_Send_def adds_rules)

lemma adds_finish_sends:
  assumes "status \<in> outs" "status \<noteq> []" "job_ID job = job_ID job0"
  shows "adds (job_event outs tx job0) is_send k (finish_job S tx job status jrd)"
  unfolding finish_job_def SetJobStatus_def set_status_def UpdateJob_def Let_def using assms
  by (auto intro!: adds_rules split: option.split)

lemma adds_send_and_mark [adds_rules]:
  assumes "job_ID job = job_ID job0"
  shows "adds (request_event tx job0) is_job_write (Suc 0) (send_and_mark S tx job q m hs)"
    "adds (request_event tx job0) is_send (Suc 0) (send_and_mark S tx job q m hs)"
proof -
  show "adds (request_event tx job0) is_job_write (Suc 0) (send_and_mark S tx job q m hs)"
    unfolding send_and_mark_def using assms by (intro adds_rules adds_bus_Send) simp_all
  show "adds (request_event tx job0) is_send (Suc 0) (send_and_mark S tx job q m hs)"
    unfolding send_and_mark_def bus_Send_def using assms
    by (intro adds_bnd_last adds_perform_counted adds_case_option adds_ret adds_finish_sends) simp_all
qed

lemma ends_set_status_any:
  assumes "status \<noteq> []" "job_ID job = job_ID job0"
  shows "ends (\<lambda>(job', err) h. err = None \<longrightarrow>
           (\<exists>j h'. h = Exec (db_gorm db) (UpdatesJob j) # h' \<and> job_ID j = job_ID job0 \<and>
              job_StatusID j = GetJobStatusId db status \<and> job_StatusID j \<noteq> [] \<and>
              sv_err S h' (Exec (db_gorm db) (UpdatesJob j)) = None))
           (set_status S db job status)"
  using assms
  by (auto simp: ends_wp set_status_def UpdateJob_def wp Let_def deref_def split: option.split)

lemma ends_finish_any:
  assumes "status \<noteq> []" "job_ID job = job_ID job0"
  shows "ends (\<lambda>err h. err = None \<longrightarrow>
           (\<exists>j h'. h = Exec (db_gorm db) (UpdatesJob j) # h' \<and> job_ID j = job_ID job0 \<and>
              job_StatusID j = GetJobStatusId db status \<and> job_StatusID j \<noteq> [] \<and>
              sv_err S h' (Exec (db_gorm db) (UpdatesJob j)) = None))
           (finish_job S db job status jrd)" (is "ends ?Q _")
proof -
  have "ends (\<lambda>(job', err) h. ?Q err h) (SetJobStatus S db job status jrd)"
    unfolding SetJobStatus_def using assms
    by (intro ends_rules ends_set_status_any) simp_all
  then show ?thesis
    unfolding finish_job_def by (rule ends_bnd_after) (auto simp: ret_def)
qed

lemma ends_closed [ends_rules]:
  assumes "status \<in> {JobStatus_Completed, JobStatus_Failed}" "job_ID job = job_ID job0"
  shows "ends (\<lambda>err h. err = None \<longrightarrow> dispatched S tx job0 i h) (finish_job S tx job status jrd)"
proof -
  have "status \<noteq> []" using assms(1) by auto
  from ends_finish_any [OF this assms(2), of tx S jrd] show ?thesis
    using assms(1) unfolding ends_def by fastforce
qed

lemma ends_closed_fail [ends_rules]:
  assumes "job_ID job = job_ID job0"
  shows "ends (\<lambda>err h. err = None \<longrightarrow> dispatched S tx job0 i h) (fail_decode S tx job ty b)"
    "ends (\<lambda>err h. err = None \<longrightarrow> dispatched S tx job0 i h) (fail_with S tx job msg jrd)"
  using assms by (simp_all add: fail_decode_def fail_with_def ends_closed)

text \<open>Marking a job keeps the history before the write, so what held then is still there.\<close>

lemma finish_job_history:
  assumes "finish_job S tx job status jrd h = (Ret None, h')" "status \<noteq> []"
  shows "\<exists>j. h' = Exec (db_gorm tx) (UpdatesJob j) # h"
  using assms
  by (auto simp: finish_job_def SetJobStatus_def set_status_def UpdateJob_def exec_or_die_def perform_def
      bnd_def ret_def Let_def deref_def go_panic_def go_exit_def JobResultData_MarshalJSON_def
      split: option.splits prod.splits outcome.splits if_splits sum.splits)

lemma finish_dispatched:
  assumes "finish_job S tx job JobStatus_Processing None h = (Ret None, h')" "sent S i h" "job_ID job = job_ID job0"
  shows "dispatched S tx job0 i h'"
proof -
  obtain j h1 where "h' = Exec (db_gorm tx) (UpdatesJob j) # h1" "job_ID j = job_ID job0"
      "job_StatusID j = GetJobStatusId tx JobStatus_Processing" "job_StatusID j \<noteq> []"
      "sv_err S h1 (Exec (db_gorm tx) (UpdatesJob j)) = None"
    using endsD [OF ends_finish_any [OF _ assms(3)] assms(1)] by auto
  moreover have "h1 = h" using finish_job_history [OF assms(1)] calculation(1) by auto
  ultimately show ?thesis using assms(2) by simp
qed

lemma ends_send_and_mark [ends_rules]:
  assumes "map_of hs ''correlation_id'' = Some i" "job_ID job = job_ID job0"
  shows "ends (\<lambda>err h. err = None \<longrightarrow> dispatched S tx job0 i h) (send_and_mark S tx job q m hs)"
  unfolding ends_def send_and_mark_def bus_Send_def bnd_Ret_iff
proof (intro allI impI, elim exE conjE)
  fix s err s' a h1
  assume *: "perform (BusSend q m hs) (sv_err S) s = (Ret a, h1)"
    "(case a of None \<Rightarrow> finish_job S tx job JobStatus_Processing None | Some e \<Rightarrow> ret (Some e)) h1 = (Ret err, s')"
    "err = None"
  then have "a = None" by (auto simp: ret_def split: option.splits)
  then have "sent S i h1" using * assms(1) by (auto simp: perform_def)
  then show "dispatched S tx job0 i s'" using finish_dispatched assms(2) * \<open>a = None\<close> by auto
qed

lemma correlation_header [simp]: "map_of (request_headers r i) ''correlation_id'' = Some i"
  by (simp add: request_headers_def)

section \<open>The contract of a request handler\<close>

lemma adds_WithTransaction:
  assumes f: "\<And>tx. adds (\<lambda>_. True) W k (f tx)"
    and W: "\<And>n. \<not> W (BeginTx n)" "\<And>s. \<not> W (CommitTx s)" "\<And>s. \<not> W (RollbackTx s)"
  shows "adds (\<lambda>_. True) W k (WithTransaction S db f)"
  unfolding adds_def
proof
  fix h
  let ?n = "fresh_tx h"
  obtain d where d: "snd (f (db\<lparr>db_gorm := Tx ?n\<rparr>) (BeginTx ?n # h)) = d @ BeginTx ?n # h"
    "length (filter W d) \<le> k"
    using addsE [OF f] by metis
  then have "\<exists>c. snd (WithTransaction S db f h) = c @ d @ BeginTx ?n # h \<and> filter W c = []"
    using W by (auto simp: WithTransaction_run Let_def split: prod.split outcome.split option.split)
  then obtain c where "snd (WithTransaction S db f h) = c @ d @ BeginTx ?n # h" "filter W c = []" by blast
  then show "\<exists>d. snd (WithTransaction S db f h) = d @ h \<and> list_all (\<lambda>_. True) d \<and> length (filter W d) \<le> k"
    using d(2) W(1) by (intro exI [of _ "c @ d @ [BeginTx ?n]"]) (simp add: list_all_iff)
qed

lemma adds_if_status:
  assumes "\<And>job. adds P W k (body job)"
  shows "adds P W k (if_status st tx body je)"
  unfolding if_status_def using assms by (auto intro!: adds_rules split: prod.split)

lemma sent_inside:
  "sent S i (d @ BeginTx n # h) \<Longrightarrow>
   \<exists>q m hs. (q, m, hs) \<in> set (sends d) \<and> map_of hs ''correlation_id'' = Some i"
proof (induction d)
  case (Cons e d)
  then show ?case by (cases e) auto
qed simp

locale request_body = status_body JobStatus_Submitted request_statuses 1 body
  for body :: "services \<Rightarrow> message \<Rightarrow> database \<Rightarrow> Job \<Rightarrow> (hist, gerr option) go" +
  assumes body_sends: "adds (request_event tx job) is_send 1 (body S m tx job)"
begin

text \<open>A delivery puts at most one message on the bus.\<close>

lemma handler_sends:
  assumes "submit_job S db cid (body S m) h = (r, h')"
  shows "\<exists>d. h' = d @ h \<and> length (sends d) \<le> 1"
proof -
  have "adds (\<lambda>_. True) is_send 1 (submit_job S db cid (body S m))"
    unfolding with_job_def
    by (intro adds_WithTransaction adds_bnd adds_GetJobById adds_if_status adds_mono [OF body_sends]) simp_all
  then obtain d where "snd (submit_job S db cid (body S m) h) = d @ h" "length (filter is_send d) \<le> 1"
    by (rule addsE)
  then show ?thesis using assms by (auto simp: length_sends)
qed

end

locale dispatching_body = request_body +
  assumes body_dispatches: "ends (\<lambda>err h. err = None \<longrightarrow> dispatched S tx job (notified m) h) (body S m tx job)"
begin

text \<open>A delivery that reports success has moved the job; if to processing, its request is on the bus.\<close>

lemma handler_dispatches:
  assumes run: "submit_job S db cid (body S m) h = (Ret None, h')"
    and job: "fetched S db cid h = (Ret (job, None), h1)"
      "job_StatusID job = GetJobStatusId db JobStatus_Submitted"
  shows "\<exists>d. h' = d @ h \<and>
     (last_status (effective S h') (job_ID job) = Some (GetJobStatusId db JobStatus_Processing) \<and>
        (\<exists>q msg hs. (q, msg, hs) \<in> set (sends d) \<and> map_of hs ''correlation_id'' = Some (notified m)) \<or>
      (\<exists>st \<in> {JobStatus_Completed, JobStatus_Failed}.
        last_status (effective S h') (job_ID job) = Some (GetJobStatusId db st)))"
proof -
  let ?n = "fresh_tx h"
  let ?tx = "db\<lparr>db_gorm := Tx ?n\<rparr>"
  obtain d c where t: "h' = c @ d @ BeginTx ?n # h"
    "c = [] \<and> Ret None = (Exited :: gerr option outcome) \<or> c = [CommitTx (Tx ?n)] \<or>
     c = [RollbackTx (Tx ?n)] \<and> (\<exists>e. (Ret None :: gerr option outcome) = Ret (Some e))"
    by (rule handler_trace [OF run])
  obtain h2 where h2: "body S m ?tx job h1 = (Ret None, h2)"
    "h' = CommitTx (Tx ?n) # h2" "sv_err S h2 (CommitTx (Tx ?n)) = None"
    using with_job_run [OF run job] by blast
  have eq: "h2 = d @ BeginTx ?n # h" using t h2(2) by auto
  have ids: "GetJobStatusId ?tx = GetJobStatusId db" by (simp add: GetJobStatusId_def fun_eq_iff)
  have "dispatched S ?tx job (notified m) h2" using endsD [OF body_dispatches h2(1)] by simp
  then obtain j h3 where j: "h2 = Exec (Tx ?n) (UpdatesJob j) # h3" "job_ID j = job_ID job"
    "job_StatusID j \<noteq> []" "sv_err S h3 (Exec (Tx ?n) (UpdatesJob j)) = None"
    "job_StatusID j = GetJobStatusId db JobStatus_Processing \<and> sent S (notified m) h3 \<or>
     job_StatusID j \<in> GetJobStatusId db ` {JobStatus_Completed, JobStatus_Failed}"
    by (cases "(S, ?tx, job, notified m, h2)" rule: dispatched.cases) (auto simp: ids)
  obtain d3 where d3: "d = Exec (Tx ?n) (UpdatesJob j) # d3" "h3 = d3 @ BeginTx ?n # h"
    using eq j(1) by (cases d) auto
  have "last_status (effective S h') (job_ID job) = Some (job_StatusID j)"
    using h2 j by (simp add: last_status_append)
  then show ?thesis
    using j(5) d3 t(1) sent_inside [of S "notified m" d3 ?n h]
    by (intro exI [of _ "c @ d @ [BeginTx ?n]"]) auto
qed

end

end
