(* ===== verification/Go_Strings.thy ===== *)
theory Go_Strings
  imports Go_Prelude
begin

text \<open>The functions of \<^verbatim>\<open>strings\<close> and \<^verbatim>\<open>fmt\<close> on strings that several components use.\<close>

text \<open>\<^verbatim>\<open>strings.Contains\<close>, and \<^verbatim>\<open>strings.ToLower\<close> on ASCII letters; other characters are kept.\<close>

fun go_contains :: "string \<Rightarrow> string \<Rightarrow> bool" where
  "go_contains [] sub = (sub = [])"
| "go_contains (c # s) sub = (take (length sub) (c # s) = sub \<or> go_contains s sub)"

definition char_lower :: "char \<Rightarrow> char" where
  "char_lower c = (let n = of_char c :: nat in if 65 \<le> n \<and> n \<le> 90 then char_of (n + 32) else c)"

definition ToLower :: "string \<Rightarrow> string" where
  "ToLower s = map char_lower s"

lemma go_contains_iff: "go_contains s sub \<longleftrightarrow> (\<exists>a b. s = a @ sub @ b)"
proof (induction s)
  case (Cons c s)
  have "take (length sub) (c # s) = sub \<longleftrightarrow> (\<exists>b. c # s = sub @ b)"
    by (metis append_eq_conv_conj)
  moreover have "(\<exists>a b. c # s = a @ sub @ b) \<longleftrightarrow> (\<exists>b. c # s = sub @ b) \<or> (\<exists>a b. s = a @ sub @ b)"
    by (auto simp: Cons_eq_append_conv)
  ultimately show ?case using Cons by (simp only: go_contains.simps)
qed simp

text \<open>Numbers in a base; \<^verbatim>\<open>%v\<close> of an \<^verbatim>\<open>int32\<close>.\<close>

fun to_base :: "nat \<Rightarrow> nat \<Rightarrow> string" where
  "to_base b n =
     (let digit = (\<lambda>d. char_of (if d < 10 then 48 + d else 87 + d))
      in if b < 2 \<or> n < b then [digit n] else to_base b (n div b) @ [digit (n mod b)])"

definition show_i32 :: "i32 \<Rightarrow> string" where
  "show_i32 w = (let n = sint w in if n < 0 then ''-'' @ to_base 10 (nat (- n)) else to_base 10 (nat n))"

end
