(* ===== verification/Hosting_Api.thy ===== *)
theory Hosting_Api
  imports Request_Protocol Go_Strings
begin

text \<open>
  The backends the hosting worker calls: \<^verbatim>\<open>hosting/handlers/hosting_api.go\<close>, \<^verbatim>\<open>certificate_api.go\<close> and
  the conversions of \<^verbatim>\<open>types.go\<close>; \<^verbatim>\<open>pkg/certificate\<close>, which reads the validity of a certificate. The
  HTTP client with its retries is a parameter: \<open>sv_http\<close> gives the response of a call, which may be
  missing, and its error; the decoded body of a successful response is another field of \<open>services\<close>.
\<close>

section \<open>Requests\<close>

text \<open>A component of an unknown type is skipped; of several databases the last one stays.\<close>

fun order_components :: "HostingComponent list \<Rightarrow> ComponentsDetails \<Rightarrow> ComponentsDetails" where
  "order_components [] components = components"
| "order_components (c # cs) components =
     order_components cs
       (if hcm_Type c = ''container'' then
          components\<lparr>cmpd_Containers :=
            Some ((case cmpd_Containers components of None \<Rightarrow> [] | Some l \<Rightarrow> l) @ [\<lparr>cond_Name = hcm_Name c\<rparr>])\<rparr>
        else if hcm_Type c = ''database'' then components\<lparr>cmpd_Database := Some \<lparr>dbd_Name = hcm_Name c\<rparr>\<rparr>
        else components)"

definition createOrderRequest :: "HostingData \<Rightarrow> (hist, CreateOrderRequest) go" where
  "createOrderRequest data =
     bnd (deref (hcl_ExternalClientId (hod_Client data))) (\<lambda>clientId.
     ret \<lparr>cor_ClientId = clientId, cor_ProductId = hod_ProductId data,
          cor_Domain = \<lparr>domd_Name = hod_DomainName data,
            domd_Certificate = map_option (\<lambda>c. \<lparr>cde_Body = hce_Body c, cde_Chain = hce_Chain c,
                                                cde_PrivateKey = hce_PrivateKey c\<rparr>) (hod_Certificate data)\<rparr>,
          cor_Components = map_option (\<lambda>cs. order_components cs zero_ComponentsDetails) (hod_Components data),
          cor_AwsRegionId = hod_RegionId data\<rparr>)"

definition createClientRequest :: "HostingData \<Rightarrow> CreateClientRequest" where
  "createClientRequest data =
     \<lparr>ccr_ClientDetails = \<lparr>cld_Name = hcl_Name (hod_Client data), cld_Email = hcl_Email (hod_Client data),
                           cld_ResellerName = hod_CustomerName data\<rparr>,
      ccr_Password = hcl_Password (hod_Client data)\<rparr>"

definition createUpdateOrderRequest :: "HostingUpdateData \<Rightarrow> (hist, UpdateOrderRequest) go" where
  "createUpdateOrderRequest data =
     bnd (deref (hou_IsActive data)) (\<lambda>isActive.
     ret \<lparr>uor_orderId = hou_ExternalOrderId data, uor_IsActive = isActive\<rparr>)"

definition createUpdateCertificateRequest :: "HostingUpdateData \<Rightarrow> (hist, UpdateCertificateRequest) go" where
  "createUpdateCertificateRequest data =
     bnd (deref (hou_Certificate data)) (\<lambda>c.
     ret \<lparr>ucr_orderId = hou_ExternalOrderId data,
          ucr_CertificateDetails = \<lparr>cde_Body = hce_Body c, cde_Chain = hce_Chain c, cde_PrivateKey = hce_PrivateKey c\<rparr>\<rparr>)"

definition createDeleteOrderRequest :: "HostingDeleteData \<Rightarrow> DeleteOrderRequest" where
  "createDeleteOrderRequest data = \<lparr>dor_orderId = hodd_ExternalOrderId data\<rparr>"

definition createResellerRequest :: "HostingData \<Rightarrow> CreateResellerRequest" where
  "createResellerRequest data =
     \<lparr>crr_ResellerDetails = \<lparr>rsd_Name = hod_CustomerName data, rsd_Email = hod_CustomerEmail data\<rparr>\<rparr>"

section \<open>Responses\<close>

text \<open>\<^verbatim>\<open>resty\<close>'s \<^verbatim>\<open>IsSuccess\<close>.\<close>

definition IsSuccess :: "http_response \<Rightarrow> bool" where
  "IsSuccess r \<longleftrightarrow> 200 \<le> hr_StatusCode r \<and> hr_StatusCode r < 300"

text \<open>\<^verbatim>\<open>errorMessages\<close> by the method of the request.\<close>

fun errorMessages :: "http_request \<Rightarrow> string" where
  "errorMessages (PatchOrder r) = ''error sending patch command''"
| "errorMessages (PatchCertificate r) = ''error sending patch command''"
| "errorMessages (GetClients e n) = ''error sending get command''"
| "errorMessages (GetResellers n) = ''error sending get command''"
| "errorMessages (GetGetcert d) = ''error sending get command''"
| "errorMessages (DeleteOrder r) = ''error sending delete command''"
| "errorMessages (PostOrders r) = ''error sending post command''"
| "errorMessages (PostClients r) = ''error sending post command''"
| "errorMessages (PostResellers r) = ''error sending post command''"
| "errorMessages (PostNewcert r) = ''error sending post command''"

text \<open>The error made of the backend's message.\<close>

definition response_error :: "http_request \<Rightarrow> http_response \<Rightarrow> gerr" where
  "response_error req r = ErrNew (errorMessages req @ '': '' @ hr_Error r)"

definition processHostingResponse ::
  "http_request \<Rightarrow> http_response option \<Rightarrow> 'r \<Rightarrow> (hist, 'r option \<times> gerr option) go" where
  "processHostingResponse req resp body =
     bnd (deref resp) (\<lambda>r.
     if IsSuccess r then ret (Some body, None)
     else ret (None, Some (response_error req r)))"

definition ErrorCertificateExists :: gerr where
  "ErrorCertificateExists = ErrNew ''certificate already exists for this domain''"

definition ErrorClientTimeout :: gerr where
  "ErrorClientTimeout = ErrNew ''client timed out waiting for response''"

definition processCertificateResponse ::
  "http_request \<Rightarrow> http_response option \<Rightarrow> 'r \<Rightarrow> (hist, 'r option \<times> gerr option) go" where
  "processCertificateResponse req resp body =
     bnd (deref resp) (\<lambda>r.
     if IsSuccess r then ret (Some body, None)
     else if go_contains (hr_Error r) ''domain already processed'' then ret (None, Some ErrorCertificateExists)
     else ret (None, Some (response_error req r)))"

section \<open>The hosting backend\<close>

definition http :: "services \<Rightarrow> http_request \<Rightarrow> (hist \<Rightarrow> event \<Rightarrow> 'r)
    \<Rightarrow> (hist, (http_response option \<times> gerr option) \<times> 'r) go" where
  "http S req body = perform (HttpCall req) (\<lambda>h e. (sv_http S h e, body h e))"

text \<open>The shape most calls share: an error of the client is returned, else the response is processed.\<close>

definition hosting_call ::
  "services \<Rightarrow> http_request \<Rightarrow> (hist \<Rightarrow> event \<Rightarrow> 'r) \<Rightarrow> (hist, 'r option \<times> gerr option) go" where
  "hosting_call S req body =
     bnd (http S req body) (\<lambda>((resp, err), result).
     if err = None then processHostingResponse req resp result else ret (None, err))"

definition CreateHosting :: "services \<Rightarrow> CreateOrderRequest \<Rightarrow> (hist, OrderResponse option \<times> gerr option) go" where
  "CreateHosting S request = hosting_call S (PostOrders request) (sv_order_result S)"

definition Api_UpdateHosting :: "services \<Rightarrow> UpdateOrderRequest \<Rightarrow> (hist, OrderResponse option \<times> gerr option) go" where
  "Api_UpdateHosting S request = hosting_call S (PatchOrder request) (sv_order_result S)"

definition UpdateHostingCertificate :: "services \<Rightarrow> UpdateCertificateRequest \<Rightarrow> (hist, gerr option) go" where
  "UpdateHostingCertificate S request =
     bnd (hosting_call S (PatchCertificate request) (\<lambda>_ _. ())) (\<lambda>(_, err). ret err)"

definition DeleteHosting :: "services \<Rightarrow> DeleteOrderRequest \<Rightarrow> (hist, OrderResponse option \<times> gerr option) go" where
  "DeleteHosting S request = hosting_call S (DeleteOrder request) (sv_order_result S)"

definition CreateClient :: "services \<Rightarrow> CreateClientRequest \<Rightarrow> (hist, ClientResponse option \<times> gerr option) go" where
  "CreateClient S request = hosting_call S (PostClients request) (sv_client_result S)"

definition CreateReseller ::
  "services \<Rightarrow> CreateResellerRequest \<Rightarrow> (hist, ResellerResponse option \<times> gerr option) go" where
  "CreateReseller S request = hosting_call S (PostResellers request) (sv_reseller_result S)"

text \<open>
  Looking something up: nothing for 404, which is tested before the error; else the first element of
  the list, which panics when the list is empty.
\<close>

definition lookup_first ::
  "services \<Rightarrow> http_request \<Rightarrow> (hist \<Rightarrow> event \<Rightarrow> 'r list) \<Rightarrow> (hist, 'r option \<times> gerr option) go" where
  "lookup_first S req body =
     bnd (http S req body) (\<lambda>((resp, err), results).
     bnd (deref resp) (\<lambda>r.
     if hr_StatusCode r = 404 then ret (None, None)
     else if err = None then
       bnd (processHostingResponse req resp results) (\<lambda>(slice, e).
       case slice of
         Some [] \<Rightarrow> go_panic ''index out of range''
       | Some (x # xs) \<Rightarrow> ret (Some x, e)
       | None \<Rightarrow> ret (None, e))
     else ret (None, err)))"

definition GetClientByEmail ::
  "services \<Rightarrow> string \<Rightarrow> string \<Rightarrow> (hist, ClientResponse option \<times> gerr option) go" where
  "GetClientByEmail S email resellerName = lookup_first S (GetClients email resellerName) (sv_client_results S)"

definition GetResellerByName :: "services \<Rightarrow> string \<Rightarrow> (hist, ResellerResponse option \<times> gerr option) go" where
  "GetResellerByName S name = lookup_first S (GetResellers name) (sv_reseller_results S)"

section \<open>The certificate backend\<close>

text \<open>\<open>CreateCertificate\<close> processes the response even when the client reports an error.\<close>

definition CreateCertificate ::
  "services \<Rightarrow> CreateCertificateRequest \<Rightarrow> (hist, CreateCertificateResponse option \<times> gerr option) go" where
  "CreateCertificate S request =
     bnd (http S (PostNewcert request) (sv_newcert_result S)) (\<lambda>((resp, err), result).
     processCertificateResponse (PostNewcert request) resp result)"

definition GetCertificate :: "services \<Rightarrow> string \<Rightarrow> (hist, GetCertificateResponse option \<times> gerr option) go" where
  "GetCertificate S domainName =
     bnd (http S (GetGetcert domainName) (sv_cert_result S)) (\<lambda>((resp, err), result).
     if err = None then processCertificateResponse (GetGetcert domainName) resp result else ret (None, err))"

section \<open>pkg/certificate\<close>

text \<open>
  \<open>sv_pem\<close> is \<^verbatim>\<open>pem.Decode\<close>: the type of the next block, whether it has headers, its bytes and the
  rest; \<open>sv_x509\<close> is \<^verbatim>\<open>x509.ParseCertificates\<close>, of which only the validity is used. The rest is shorter
  than what it is the rest of; a decoder that broke this would make the loop run on, so the recursion
  stops there.
\<close>

function parse_blocks :: "services \<Rightarrow> string \<Rightarrow> (gotime \<times> gotime) list \<Rightarrow> gerr + (gotime \<times> gotime) list" where
  "parse_blocks S pemCerts certificates =
     (case sv_pem S pemCerts of
        None \<Rightarrow>
          if certificates = [] then Inl (ErrNew ''unable to parse certificate'') else Inr certificates
      | Some (ty, headers, bytes, rest) \<Rightarrow>
          if length rest \<ge> length pemCerts then Inl (ErrNew ''no progress'')
          else if ty \<noteq> ''CERTIFICATE'' then
            Inl (ErrNew (''only CERTIFICATE PEM blocks are allowed, found '' @ quote_string ty))
          else if headers then Inl (ErrNew ''no PEM block headers are permitted'')
          else (case sv_x509 S bytes of
                  Inl e \<Rightarrow> Inl e
                | Inr certs \<Rightarrow>
                    if certs = [] then Inl (ErrNew ''found CERTIFICATE PEM block containing 0 valid certificates'')
                    else parse_blocks S rest (certificates @ certs)))"
  by pat_completeness auto
termination by (relation "measure (\<lambda>(S, s, cs). length s)") auto

declare parse_blocks.simps [simp del]

definition ParseCertificates :: "services \<Rightarrow> string \<Rightarrow> gerr + (gotime \<times> gotime) list" where
  "ParseCertificates S pemCerts = parse_blocks S pemCerts []"

definition ParseSingleCertificates :: "services \<Rightarrow> string \<Rightarrow> gerr + gotime \<times> gotime" where
  "ParseSingleCertificates S pemCerts =
     (case ParseCertificates S pemCerts of
        Inl e \<Rightarrow> Inl e
      | Inr [c] \<Rightarrow> Inr c
      | Inr certificates \<Rightarrow> Inl (ErrNew ''CERTIFICATE body must contain one CERTIFICATE''))"

definition GetCertificateValidDates :: "services \<Rightarrow> string \<Rightarrow> gotime option \<times> gotime option" where
  "GetCertificateValidDates S certBody =
     (case ParseSingleCertificates S certBody of
        Inl e \<Rightarrow> (None, None)
      | Inr (notBefore, notAfter) \<Rightarrow> (Some notBefore, Some notAfter))"

section \<open>Calls stay inside a handler's contract\<close>

lemma adds_http [adds_rules]:
  "(\<And>req. P (HttpCall req)) \<Longrightarrow> (\<And>req. \<not> W (HttpCall req)) \<Longrightarrow> adds P W k (http S req body)"
  by (simp add: http_def adds_rules)

lemma adds_responses [adds_rules]:
  "adds P W k (processHostingResponse req resp body)" "adds P W k (processCertificateResponse req resp body)"
  "adds P W k (createOrderRequest data)" "adds P W k (createUpdateOrderRequest udata)"
  "adds P W k (createUpdateCertificateRequest udata)"
  unfolding processHostingResponse_def processCertificateResponse_def createOrderRequest_def
    createUpdateOrderRequest_def createUpdateCertificateRequest_def
  by (intro adds_rules)+

lemmas api_defs =
  hosting_call_def lookup_first_def CreateHosting_def Api_UpdateHosting_def UpdateHostingCertificate_def
  DeleteHosting_def CreateClient_def CreateReseller_def GetClientByEmail_def GetResellerByName_def
  CreateCertificate_def GetCertificate_def

lemma adds_api [adds_rules]:
  assumes "\<And>req. P (HttpCall req)" "\<And>req. \<not> W (HttpCall req)"
  shows "adds P W k (CreateHosting S ord)" "adds P W k (Api_UpdateHosting S u)"
    "adds P W k (UpdateHostingCertificate S c)" "adds P W k (DeleteHosting S d)"
    "adds P W k (CreateClient S cc)" "adds P W k (CreateReseller S cr)"
    "adds P W k (GetClientByEmail S email name)" "adds P W k (GetResellerByName S name)"
    "adds P W k (CreateCertificate S ct)" "adds P W k (GetCertificate S dn)"
  using assms unfolding api_defs by (auto intro!: adds_rules split: list.split prod.split)

end
