(* ===== verification/Hosting_Worker.thy ===== *)
theory Hosting_Worker
  imports Hosting_Api
begin

text \<open>
  \<^verbatim>\<open>hosting/handlers\<close>: the worker that places orders at the hosting backend, asks for certificates
  and checks DNS records. It runs in the frame of the request workers (\<open>submit_job\<close>), but asks its
  backend and waits, inside the transaction: a delivery sets the job to processing and then to a final
  status.
\<close>

section \<open>Creating a hosting order\<close>

definition getOrCreateReseller ::
  "services \<Rightarrow> HostingData \<Rightarrow> (hist, ResellerResponse option \<times> gerr option) go" where
  "getOrCreateReseller S data =
     bnd (GetResellerByName S (hod_CustomerName data)) (\<lambda>(reseller, err).
     if err \<noteq> None then ret (reseller, err)
     else if reseller = None then CreateReseller S (createResellerRequest data)
     else ret (reseller, None))"

definition getOrCreateClient ::
  "services \<Rightarrow> HostingData \<Rightarrow> (hist, ClientResponse option \<times> gerr option) go" where
  "getOrCreateClient S data =
     bnd (GetClientByEmail S (hcl_Email (hod_Client data)) (hod_CustomerName data)) (\<lambda>(client, err).
     if err \<noteq> None then ret (client, err)
     else if client = None then
       bnd (getOrCreateReseller S data) (\<lambda>(_, err).
       if err \<noteq> None then ret (client, err)
       else CreateClient S (createClientRequest data))
     else ret (client, None))"

text \<open>The data is passed by pointer: the client that was found or created is recorded in it.\<close>

definition createHosting ::
  "services \<Rightarrow> HostingData \<Rightarrow> (hist, HostingData \<times> OrderResponse option \<times> gerr option) go" where
  "createHosting S data =
     bnd (if hcl_ExternalClientId (hod_Client data) = None then
            bnd (getOrCreateClient S data) (\<lambda>(client, err).
            case err of
              Some e \<Rightarrow> ret (data, Some e)
            | None \<Rightarrow>
                bnd (deref client) (\<lambda>client.
                ret (data\<lparr>hod_Client := (hod_Client data)\<lparr>hcl_ExternalClientId := Some (clr_Id client),
                                                          hcl_Username := clr_Username client\<rparr>\<rparr>, None)))
          else ret (data, None)) (\<lambda>(data, err).
     case err of
       Some e \<Rightarrow> ret (data, None, Some e)
     | None \<Rightarrow>
         bnd (createOrderRequest data) (\<lambda>request.
         bnd (CreateHosting S request) (\<lambda>(response, err). ret (data, response, err))))"

text \<open>The opening the handlers share: mark the job as being processed, in memory too.\<close>

definition mark_processing ::
  "services \<Rightarrow> database \<Rightarrow> Job \<Rightarrow> (Job \<Rightarrow> (hist, gerr option) go) \<Rightarrow> (hist, gerr option) go" where
  "mark_processing S tx job rest =
     bnd (SetJobStatus S tx job JobStatus_Processing None) (\<lambda>(job, err).
     case err of Some e \<Rightarrow> ret (Some e) | None \<Rightarrow> rest job)"

text \<open>What is recorded of a placed order.\<close>

definition placed_update :: "database \<Rightarrow> HostingData \<Rightarrow> OrderResponse \<Rightarrow> ProvisionHostingCreate" where
  "placed_update tx data response =
     zero_ProvisionHostingCreate
       \<lparr>phc_ExternalOrderID := Some (orr_Id response),
        phc_ExternalClientID := hcl_ExternalClientId (hod_Client data),
        phc_ClientUsername := Some (hcl_Username (hod_Client data)),
        phc_HostingStatusID := Some (GetHostingStatusId tx (orr_Status response)),
        phc_IsDeleted := orr_IsDeleted response,
        phc_StatusID := GetProvisionStatusId tx ProvisionStatus_PendingAction\<rparr>"

definition HostingProvision_body :: "services \<Rightarrow> message \<Rightarrow> database \<Rightarrow> Job \<Rightarrow> (hist, gerr option) go" where
  "HostingProvision_body S message tx job =
     bnd (deref (job_Info job)) (\<lambda>info.
     case unmarshal dec_HostingData zero_HostingData (vj_Data info) of
       None \<Rightarrow> fail_decode S tx job ''HostingData'' (vj_Data info)
     | Some data \<Rightarrow>
         mark_processing S tx job (\<lambda>job.
         bnd (createHosting S data) (\<lambda>(data, response, err).
         case err of
           Some e \<Rightarrow> fail_with S tx job (err_text e) None
         | None \<Rightarrow>
             bnd (deref response) (\<lambda>response.
             let upd = placed_update tx data response
             in bnd (UpdateProvisionHostingCreate S tx upd (WhereId (vj_ReferenceID info))) (\<lambda>err.
                if (case err of None \<Rightarrow> False | Some e \<Rightarrow> \<not> errors_is e ErrNotFound) then ret err
                else finish_job S tx job JobStatus_CompletedConditionally None)))))"

definition HostingProvisionHandler :: "services \<Rightarrow> database \<Rightarrow> message \<Rightarrow> (hist, gerr option) go" where
  "HostingProvisionHandler S db message =
     bnd (as_Notification message) (\<lambda>(jobId, _). submit_job S db jobId (HostingProvision_body S message))"

section \<open>Updating and deleting\<close>

text \<open>The status reported for a certificate update is made up, since the backend returns none.\<close>

definition request_update ::
  "services \<Rightarrow> HostingUpdateData \<Rightarrow> (hist, OrderResponse option \<times> gerr option) go" where
  "request_update S data =
     (if hou_IsActive data \<noteq> None then
        bnd (createUpdateOrderRequest data) (Api_UpdateHosting S)
      else if hou_Certificate data \<noteq> None then
        bnd (createUpdateCertificateRequest data) (\<lambda>request.
        bnd (UpdateHostingCertificate S request) (\<lambda>err.
        ret (if err \<noteq> None then None else Some (zero_OrderResponse\<lparr>orr_Status := ''In progress''\<rparr>), err)))
      else
        ret (Some (zero_OrderResponse\<lparr>orr_Status := ''Failed''\<rparr>),
             Some (ErrNew (''Invalid update request for hosting '' @ quote_string (hou_HostingId data)))))"

definition HostingUpdate_body :: "services \<Rightarrow> message \<Rightarrow> database \<Rightarrow> Job \<Rightarrow> (hist, gerr option) go" where
  "HostingUpdate_body S message tx job =
     bnd (deref (job_Info job)) (\<lambda>info.
     case unmarshal dec_HostingUpdateData zero_HostingUpdateData (vj_Data info) of
       None \<Rightarrow> fail_decode S tx job ''HostingUpdateData'' (vj_Data info)
     | Some data \<Rightarrow>
         mark_processing S tx job (\<lambda>job.
         bnd (request_update S data) (\<lambda>(response, err).
         case err of
           Some e \<Rightarrow> fail_with S tx job (err_text e) None
         | None \<Rightarrow>
             bnd (deref response) (\<lambda>response.
             bnd (deref (vj_ReferenceID info)) (\<lambda>refId.
             bnd (SetProvisionHostingUpdateDetails S tx refId (orr_Status response)) (\<lambda>err.
             case err of
               Some e \<Rightarrow> ret (Some e)
             | None \<Rightarrow> finish_job S tx job JobStatus_Completed None))))))"

definition HostingUpdateHandler :: "services \<Rightarrow> database \<Rightarrow> message \<Rightarrow> (hist, gerr option) go" where
  "HostingUpdateHandler S db message =
     bnd (as_Notification message) (\<lambda>(jobId, _). submit_job S db jobId (HostingUpdate_body S message))"

definition HostingDelete_body :: "services \<Rightarrow> message \<Rightarrow> database \<Rightarrow> Job \<Rightarrow> (hist, gerr option) go" where
  "HostingDelete_body S message tx job =
     bnd (deref (job_Info job)) (\<lambda>info.
     case unmarshal dec_HostingDeleteData zero_HostingDeleteData (vj_Data info) of
       None \<Rightarrow> fail_decode S tx job ''HostingDeleteData'' (vj_Data info)
     | Some data \<Rightarrow>
         mark_processing S tx job (\<lambda>job.
         bnd (DeleteHosting S (createDeleteOrderRequest data)) (\<lambda>(response, err).
         case err of
           Some e \<Rightarrow> fail_with S tx job (err_text e) None
         | None \<Rightarrow>
             bnd (deref response) (\<lambda>response.
             bnd (deref (vj_ReferenceID info)) (\<lambda>refId.
             bnd (SetProvisionHostingDeleteDetails S tx refId (orr_Status response) (orr_IsDeleted response)) (\<lambda>err.
             case err of
               Some e \<Rightarrow> ret (Some e)
             | None \<Rightarrow> finish_job S tx job JobStatus_Completed None))))))"

definition HostingDeleteHandler :: "services \<Rightarrow> database \<Rightarrow> message \<Rightarrow> (hist, gerr option) go" where
  "HostingDeleteHandler S db message =
     bnd (as_Notification message) (\<lambda>(jobId, _). submit_job S db jobId (HostingDelete_body S message))"

section \<open>Certificates\<close>

definition errorSelector :: "gerr option \<Rightarrow> gerr option" where
  "errorSelector err =
     (case err of
        None \<Rightarrow> None
      | Some e \<Rightarrow> if errors_is e ErrorCertificateExists then Some ErrorCertificateExists
                  else Some ErrorClientTimeout)"

text \<open>\<open>sv_ctx_done\<close>: whether the time limit of the call has passed when it returns.\<close>

definition createCertificate :: "services \<Rightarrow> HostingCertificateData \<Rightarrow> (hist, gerr option) go" where
  "createCertificate S data =
     bnd (CreateCertificate S \<lparr>cctr_Domain = hocd_DomainName data, cctr_RequestId = hocd_RequestId data\<rparr>) (\<lambda>(_, err).
     bnd (observe (sv_ctx_done S)) (\<lambda>timedOut.
     ret (if timedOut then errorSelector err else err)))"

definition getCertificate ::
  "services \<Rightarrow> string \<Rightarrow> (hist, GetCertificateResponse option \<times> gerr option) go" where
  "getCertificate S domainName =
     bnd (GetCertificate S domainName) (\<lambda>(res, err).
     bnd (observe (sv_ctx_done S)) (\<lambda>timedOut.
     ret (res, if timedOut then errorSelector err else err)))"

text \<open>The backend already has a certificate for the domain: it is fetched and stored.\<close>

definition use_existing_certificate ::
  "services \<Rightarrow> database \<Rightarrow> Job \<Rightarrow> HostingCertificateData \<Rightarrow> gerr \<Rightarrow> (hist, gerr option) go" where
  "use_existing_certificate S tx job data err =
     bnd (getCertificate S (hocd_DomainName data)) (\<lambda>(res, getErr).
     case getErr of
       Some ge \<Rightarrow>
         if errors_is err ErrorClientTimeout then bnd (Rollback S tx) (\<lambda>_. ret None)
         else fail_with S tx job (err_text ge) None
     | None \<Rightarrow>
         bnd (deref res) (\<lambda>res.
         let (notBefore, notAfter) = GetCertificateValidDates S (gcr_Cert res) in
         if notBefore = None \<or> notAfter = None then finish_job S tx job JobStatus_Failed None
         else
           bnd (GetProvisionHostingCertififcate S tx
                  (zero_ProvisionHostingCertificateCreate\<lparr>phcc_HostingID := hocd_RequestId data\<rparr>)) (\<lambda>(row, provisionErr).
           case provisionErr of
             Some pe \<Rightarrow> fail_with S tx job (err_text pe) None
           | None \<Rightarrow>
               bnd (deref row) (\<lambda>row.
               bnd (UpdateProvisionHostingCertificate S tx
                      (row\<lparr>phcc_Body := Some (gcr_Cert res), phcc_Chain := Some (gcr_Chain res),
                           phcc_PrivateKey := Some (gcr_Privkey res),
                           phcc_NotBefore := notBefore, phcc_NotAfter := notAfter,
                           phcc_StatusID := GetProvisionStatusId tx ProvisionStatus_Completed\<rparr>)) (\<lambda>_.
               finish_job S tx job JobStatus_Completed None)))))"

definition HostingCertificateProvision_body ::
  "services \<Rightarrow> message \<Rightarrow> database \<Rightarrow> Job \<Rightarrow> (hist, gerr option) go" where
  "HostingCertificateProvision_body S message tx job =
     bnd (deref (job_Info job)) (\<lambda>info.
     case unmarshal dec_HostingCertificateData zero_HostingCertificateData (vj_Data info) of
       None \<Rightarrow> fail_decode S tx job ''HostingCertificateData'' (vj_Data info)
     | Some data \<Rightarrow>
         mark_processing S tx job (\<lambda>job.
         bnd (createCertificate S data) (\<lambda>err.
         case err of
           None \<Rightarrow> finish_job S tx job JobStatus_CompletedConditionally None
         | Some e \<Rightarrow>
             if errors_is e ErrorCertificateExists then use_existing_certificate S tx job data e
             else if errors_is e ErrorClientTimeout then bnd (Rollback S tx) (\<lambda>_. ret (Some e))
             else fail_with S tx job (err_text e) None)))"

definition HostingCertificateProvisionHandler ::
  "services \<Rightarrow> database \<Rightarrow> message \<Rightarrow> (hist, gerr option) go" where
  "HostingCertificateProvisionHandler S db message =
     bnd (as_Notification message) (\<lambda>(jobId, _).
     submit_job S db jobId (HostingCertificateProvision_body S message))"

section \<open>DNS checks\<close>

text \<open>\<open>acmeDomain\<close> is the service's configured domain. This handler marks the job before it reads the data.\<close>

definition DNSCheck_body ::
  "string \<Rightarrow> services \<Rightarrow> message \<Rightarrow> database \<Rightarrow> Job \<Rightarrow> (hist, gerr option) go" where
  "DNSCheck_body acmeDomain S message tx job =
     mark_processing S tx job (\<lambda>job.
     bnd (deref (job_Info job)) (\<lambda>info.
     case unmarshal dec_DNSCheckData zero_DNSCheckData (vj_Data info) of
       None \<Rightarrow> fail_decode S tx job ''DNSCheckData'' (vj_Data info)
     | Some data \<Rightarrow>
         bnd (perform (ResolveCNAME (''_acme-challenge.'' @ dnc_DomainName data)) (sv_cname S)) (\<lambda>res.
         case res of
           Inl e \<Rightarrow> fail_with S tx job (err_text e) None
         | Inr res \<Rightarrow>
             if res = [] then fail_with S tx job ''no CNAME records found'' None
             else if dnc_DomainName data @ ''.'' @ acmeDomain @ ''.'' \<in> set res
             then finish_job S tx job JobStatus_Completed None
             else fail_with S tx job ''No matching CNAME records found'' None)))"

definition DNSCheckHandler :: "string \<Rightarrow> services \<Rightarrow> database \<Rightarrow> message \<Rightarrow> (hist, gerr option) go" where
  "DNSCheckHandler acmeDomain S db message =
     bnd (as_Notification message) (\<lambda>(jobId, _). submit_job S db jobId (DNSCheck_body acmeDomain S message))"

definition HostingHandlerRouter :: "string \<Rightarrow> services \<Rightarrow> database \<Rightarrow> message \<Rightarrow> (hist, gerr option) go" where
  "HostingHandlerRouter acmeDomain S db m =
     bnd (as_Notification m) (\<lambda>(_, ty).
     if ty = ''provision_hosting_create'' then HostingProvisionHandler S db m
     else if ty = ''provision_hosting_update'' then HostingUpdateHandler S db m
     else if ty = ''provision_hosting_delete'' then HostingDeleteHandler S db m
     else if ty = ''provision_hosting_certificate_create'' then HostingCertificateProvisionHandler S db m
     else if ty = ''provision_hosting_dns_check'' then DNSCheckHandler acmeDomain S db m
     else ret (Some (ErrNew (''no handlers for type: '' @ ty))))"

end
