(* ===== verification/DU_Write.thy ===== *)
theory DU_Write
  imports DU_Common
begin

text \<open>
  The domain updater's handlers of answers to commands that change a domain at the registry:
  create, renew, update, redeem, delete (\<^verbatim>\<open>ry_domain_provision_handler.go\<close>,
  \<^verbatim>\<open>ry_domain_renew_handler.go\<close>, \<^verbatim>\<open>ry_domain_update_handler.go\<close>, \<^verbatim>\<open>ry_domain_redeem_handler.go\<close>,
  \<^verbatim>\<open>ry_domain_delete_handler.go\<close>). Each body runs in the frame \<open>process_job\<close>; the redeem and update
  bodies are reached through the update router (theory \<open>DU_Routers\<close>).
\<close>

section \<open>Create\<close>

definition ProcessRyDomainProvisionResponse ::
  "services \<Rightarrow> DomainCreateResponse \<Rightarrow> Job \<Rightarrow> database \<Rightarrow> (hist, gerr option) go" where
  "ProcessRyDomainProvisionResponse S response job tx =
     bnd (deref (job_Info job)) (\<lambda>info.
     bnd (deref (vj_ReferenceID info)) (\<lambda>refId.
     bnd (deref (dcr_RegistryResponse response)) (\<lambda>rr.
     UpdateProvisionDomain S tx (zero_ProvisionDomain
       \<lparr>pd_ID := refId,
        pd_RyCltrid := Some (rr_EppCltrid rr),
        pd_RyCreatedDate := TimestampToTime (dcr_CreatedDate response),
        pd_RyExpiryDate := TimestampToTime (dcr_ExpiryDate response)\<rparr>))))"

definition provision_body :: "services \<Rightarrow> message \<Rightarrow> database \<Rightarrow> Job \<Rightarrow> (hist, gerr option) go" where
  "provision_body S message tx job =
     bnd (as_DomainCreateResponse message) (\<lambda>response.
     bnd (deref (job_Info job)) (\<lambda>info.
     case unmarshal (dec_DomainData (sv_f64 S)) zero_DomainData (vj_Data info) of
       None \<Rightarrow> fail_decode S tx job ''DomainData'' (vj_Data info)
     | Some data \<Rightarrow>
         (let registryResponse = dcr_RegistryResponse response; jrd = result_data message in
          if GetIsSuccess registryResponse then
            bnd (ProcessRyDomainProvisionResponse S response job tx) (\<lambda>err.
            case err of
              Some e \<Rightarrow> fail_with S tx job (err_text e) (Some jrd)
            | None \<Rightarrow>
                if GetEppCode registryResponse = EppCode_Pending
                then finish_job S tx job JobStatus_CompletedConditionally (Some jrd)
                else finish_job S tx job JobStatus_Completed (Some jrd))
          else fail_registry S tx job registryResponse jrd)))"

text \<open>The message's type is asserted before the transaction is opened.\<close>

definition RyDomainProvisionHandler ::
  "services \<Rightarrow> database \<Rightarrow> string \<Rightarrow> message \<Rightarrow> (hist, gerr option) go" where
  "RyDomainProvisionHandler S db correlationId message =
     bnd (as_DomainCreateResponse message) (\<lambda>_.
     process_job S db correlationId (provision_body S message))"

section \<open>Renew\<close>

definition renew_body :: "services \<Rightarrow> message \<Rightarrow> database \<Rightarrow> Job \<Rightarrow> (hist, gerr option) go" where
  "renew_body S message tx job =
     bnd (as_DomainRenewResponse message) (\<lambda>response.
     bnd (deref (job_Info job)) (\<lambda>info.
     case unmarshal (dec_DomainRenewData (sv_f64 S)) zero_DomainRenewData (vj_Data info) of
       None \<Rightarrow> fail_decode S tx job ''DomainRenewData'' (vj_Data info)
     | Some data \<Rightarrow>
         (let registryResponse = dre_RegistryResponse response; jrd = result_data message in
          if GetIsSuccess registryResponse then
            (let expiryDate = AsTime (dre_ExpiryDate response) in
             bnd (deref (vj_ReferenceID info)) (\<lambda>refId.
             bnd (deref registryResponse) (\<lambda>rr.
             bnd (UpdateProvisionDomainRenew S tx (zero_ProvisionDomainRenew
                    \<lparr>pdrn_ID := refId,
                     pdrn_RyExpiryDate := Some expiryDate,
                     pdrn_RyCltrid := Some (rr_EppCltrid rr)\<rparr>)) (\<lambda>err.
             case err of
               Some e \<Rightarrow> fail_with S tx job (err_text e) (Some jrd)
             | None \<Rightarrow>
                 if rr_EppCode rr = EppCode_Pending
                 then finish_job S tx job JobStatus_CompletedConditionally (Some jrd)
                 else finish_job S tx job JobStatus_Completed (Some jrd)))))
          else fail_registry S tx job registryResponse jrd)))"

definition RyDomainRenewHandler ::
  "services \<Rightarrow> database \<Rightarrow> string \<Rightarrow> message \<Rightarrow> (hist, gerr option) go" where
  "RyDomainRenewHandler S db correlationId message =
     bnd (as_DomainRenewResponse message) (\<lambda>_.
     process_job S db correlationId (renew_body S message))"

section \<open>Update\<close>

definition RyDomainUpdateHandler :: "services \<Rightarrow> message \<Rightarrow> database \<Rightarrow> Job \<Rightarrow> (hist, gerr option) go" where
  "RyDomainUpdateHandler S message tx job =
     bnd (as_DomainUpdateResponse message) (\<lambda>registryResponse.
     bnd (deref (job_Info job)) (\<lambda>info.
     case unmarshal dec_DomainUpdateData zero_DomainUpdateData (vj_Data info) of
       None \<Rightarrow> fail_decode S tx job ''DomainUpdateData'' (vj_Data info)
     | Some data \<Rightarrow>
         (let jrd = result_data message in
          if GetIsSuccess registryResponse then
            bnd (deref registryResponse) (\<lambda>rr.
            bnd (case vj_ReferenceID info of
                   None \<Rightarrow> ret None
                 | Some refId \<Rightarrow> UpdateProvisionDomainUpdate S tx (zero_ProvisionDomainUpdate
                     \<lparr>pdu_ID := refId, pdu_RyCltrid := Some (rr_EppCltrid rr)\<rparr>)) (\<lambda>err.
            case err of
              Some e \<Rightarrow> fail_with S tx job (err_text e) (Some jrd)
            | None \<Rightarrow>
                if rr_EppCode rr = EppCode_Pending
                then finish_job S tx job JobStatus_CompletedConditionally (Some jrd)
                else finish_job S tx job JobStatus_Completed (Some jrd)))
          else fail_registry S tx job registryResponse jrd)))"

section \<open>Redeem\<close>

text \<open>After a redemption the registry is asked for the new expiry date; a failure here is logged only.\<close>

definition handleDomainRedeemExpiryUpdate ::
  "services \<Rightarrow> database \<Rightarrow> Job \<Rightarrow> DomainRedeemData \<Rightarrow> (hist, unit) go" where
  "handleDomainRedeemExpiryUpdate S tx job data =
     bnd (getDomainInfo S (drd_Name data) (acc_AccreditationName (drd_Accreditation data))) (\<lambda>r.
     case r of
       Inl e \<Rightarrow> ret ()
     | Inr domainInfoResp \<Rightarrow>
         bnd (deref (job_Info job)) (\<lambda>info.
         bnd (deref (vj_ReferenceID info)) (\<lambda>refId.
         bnd (UpdateProvisionDomainRedeem S tx (zero_ProvisionDomainRedeem
                \<lparr>pdrd_ID := refId, pdrd_RyExpiryDate := AsTime (din_ExpiryDate domainInfoResp)\<rparr>)) (\<lambda>err.
         ret ()))))"

definition RyDomainRedeemHandler :: "services \<Rightarrow> message \<Rightarrow> database \<Rightarrow> Job \<Rightarrow> (hist, gerr option) go" where
  "RyDomainRedeemHandler S message tx job =
     bnd (as_DomainUpdateResponse message) (\<lambda>registryResponse.
     bnd (deref (job_Info job)) (\<lambda>info.
     case unmarshal (dec_DomainRedeemData (sv_f64 S)) zero_DomainRedeemData (vj_Data info) of
       None \<Rightarrow> fail_decode S tx job ''DomainRedeemData'' (vj_Data info)
     | Some data \<Rightarrow>
         (let jrd = result_data message in
          if GetIsSuccess registryResponse then
            bnd (deref (vj_JobTypeName info)) (\<lambda>jobType.
            bnd (if jobType = ''provision_domain_redeem_report'' \<or>
                    jobType = ''provision_domain_redeem'' \<and> \<not> drd_IsReportRequired data
                 then handleDomainRedeemExpiryUpdate S tx job data
                 else ret ()) (\<lambda>_.
            finish_job S tx job JobStatus_Completed (Some jrd)))
          else fail_registry S tx job registryResponse jrd)))"

section \<open>Delete\<close>

definition ProcessRyDomainDeleteResponse ::
  "services \<Rightarrow> database \<Rightarrow> RegistryResponse option \<Rightarrow> DomainDeleteData \<Rightarrow> Job \<Rightarrow> (hist, gerr option) go" where
  "ProcessRyDomainDeleteResponse S tx registryResponse data job =
     bnd (deref (job_Info job)) (\<lambda>info.
     bnd (deref (vj_ReferenceID info)) (\<lambda>refId.
     bnd (deref registryResponse) (\<lambda>rr.
     UpdateProvisionDomainDelete S tx (zero_ProvisionDomainDelete
       \<lparr>pdd_ID := refId,
        pdd_RyCltrid := Some (rr_EppCltrid rr),
        pdd_InRedemptionGracePeriod := ddl_InRedemptionGracePeriod data\<rparr>))))"

definition IsDomainInRedemptionGracePeriod ::
  "services \<Rightarrow> database \<Rightarrow> RegistryResponse option \<Rightarrow> DomainDeleteData
     \<Rightarrow> (hist, DomainDeleteData \<times> gerr option) go" where
  "IsDomainInRedemptionGracePeriod S tx registryResponse data =
     bnd (GetVDomain S tx (zero_VDomain\<lparr>vd_TenantCustomerID := Some (ddl_TenantCustomerId data),
                                        vd_Name := Some (ddl_Name data)\<rparr>)) (\<lambda>(domain, err).
     if err \<noteq> None then ret (data, Some (ErrNew ''failed to fetch domain from database''))
     else bnd (deref domain) (\<lambda>domain.
       if vd_RgpEppStatus domain \<noteq> Some RgpStatus_AddPeriod
       then ret (data\<lparr>ddl_InRedemptionGracePeriod := True\<rparr>, None)
       else if GetEppCode registryResponse = 1000
       then ret (data\<lparr>ddl_InRedemptionGracePeriod := False\<rparr>, None)
       else
         bnd (getDomainInfo S (ddl_Name data) (acc_AccreditationName (ddl_Accreditation data))) (\<lambda>r.
         case r of
           Inl e \<Rightarrow> ret (data, Some (ErrNew ''unexpected error fetching domain info from registry''))
         | Inr domainInfoResp \<Rightarrow>
             (let code = GetEppCode (din_RegistryResponse domainInfoResp) in
              if code = EppCode_ObjectDoesNotExist
              then ret (data\<lparr>ddl_InRedemptionGracePeriod := False\<rparr>, None)
              else if code = EppCode_Success
              then (case handleRgpExtension S (din_Extensions domainInfoResp) of
                      Inl e \<Rightarrow> ret (data, Some e)
                    | Inr rgpstatus \<Rightarrow>
                        if rgpstatus = RgpStatus_RedemptionPeriod
                        then ret (data\<lparr>ddl_InRedemptionGracePeriod := True\<rparr>, None)
                        else if EPPStatusCode_PendingDelete \<in> set (din_Statuses domainInfoResp)
                        then ret (data\<lparr>ddl_InRedemptionGracePeriod := False\<rparr>, None)
                        else ret (data, Some (ErrNew (''failed to determine domain status for domain: ''
                                                @ ddl_Name data))))
              else ret (data, Some (ErrNew ''failed to fetch domain info from registry''))))))"

definition delete_body :: "services \<Rightarrow> message \<Rightarrow> database \<Rightarrow> Job \<Rightarrow> (hist, gerr option) go" where
  "delete_body S message tx job =
     bnd (as_DomainDeleteResponse message) (\<lambda>registryResponse.
     bnd (deref (job_Info job)) (\<lambda>info.
     case unmarshal dec_DomainDeleteData zero_DomainDeleteData (vj_Data info) of
       None \<Rightarrow> fail_decode S tx job ''DomainDeleteData'' (vj_Data info)
     | Some data \<Rightarrow>
         (let jrd = result_data message in
          if GetIsSuccess registryResponse then
            bnd (IsDomainInRedemptionGracePeriod S tx registryResponse data) (\<lambda>(data, err).
            if err \<noteq> None then fail_with S tx job ''Failed to retrieve the domain RGP status'' (Some jrd)
            else
              bnd (ProcessRyDomainDeleteResponse S tx registryResponse data job) (\<lambda>err.
              case err of
                Some e \<Rightarrow> fail_with S tx job (err_text e) (Some jrd)
              | None \<Rightarrow> finish_job S tx job JobStatus_Completed (Some jrd)))
          else if GetEppCode registryResponse = EppCode_ObjectDoesNotExist
          then finish_job S tx job JobStatus_Completed (Some jrd)
          else fail_registry S tx job registryResponse jrd)))"

definition RyDomainDeleteHandler ::
  "services \<Rightarrow> database \<Rightarrow> string \<Rightarrow> message \<Rightarrow> (hist, gerr option) go" where
  "RyDomainDeleteHandler S db correlationId message =
     bnd (as_DomainDeleteResponse message) (\<lambda>_.
     process_job S db correlationId (delete_body S message))"

section \<open>The bodies keep the contract\<close>

lemma adds_ProcessRyDomainProvisionResponse [adds_rules]:
  "adds (body_event tx job0) is_job_write 0 (ProcessRyDomainProvisionResponse S response job tx)"
  unfolding ProcessRyDomainProvisionResponse_def row_ops
  by (intro adds_rules) simp_all

lemma adds_ProcessRyDomainDeleteResponse [adds_rules]:
  "adds (body_event tx job0) is_job_write 0 (ProcessRyDomainDeleteResponse S tx rr data job)"
  unfolding ProcessRyDomainDeleteResponse_def row_ops
  by (intro adds_rules) simp_all

lemma adds_IsDomainInRedemptionGracePeriod [adds_rules]:
  "adds (body_event tx job0) is_job_write 0 (IsDomainInRedemptionGracePeriod S tx rr data)"
  unfolding IsDomainInRedemptionGracePeriod_def row_ops
  by (intro adds_rules) simp_all

lemma adds_handleDomainRedeemExpiryUpdate [adds_rules]:
  "adds (body_event tx job0) is_job_write 0 (handleDomainRedeemExpiryUpdate S tx job data)"
  unfolding handleDomainRedeemExpiryUpdate_def row_ops
  by (intro adds_rules) simp_all

lemma adds_provision_body [adds_rules]:
  "adds (body_event tx job) is_job_write (Suc 0) (provision_body S m tx job)"
  unfolding provision_body_def row_ops by (intro adds_rules) simp_all

lemma ends_provision_body [ends_rules]:
  "ends (\<lambda>err h. err = None \<longrightarrow> settled S tx job h) (provision_body S m tx job)"
  unfolding provision_body_def by (intro ends_rules) simp_all

interpretation provision: settling_body provision_body
  by unfold_locales (unfold One_nat_def, intro adds_rules, intro ends_rules)

lemma adds_renew_body [adds_rules]:
  "adds (body_event tx job) is_job_write (Suc 0) (renew_body S m tx job)"
  unfolding renew_body_def row_ops by (intro adds_rules) simp_all

lemma ends_renew_body [ends_rules]:
  "ends (\<lambda>err h. err = None \<longrightarrow> settled S tx job h) (renew_body S m tx job)"
  unfolding renew_body_def by (intro ends_rules) simp_all

interpretation renew: settling_body renew_body
  by unfold_locales (unfold One_nat_def, intro adds_rules, intro ends_rules)

lemma adds_delete_body [adds_rules]:
  "adds (body_event tx job) is_job_write (Suc 0) (delete_body S m tx job)"
  unfolding delete_body_def row_ops by (intro adds_rules) simp_all

lemma ends_delete_body [ends_rules]:
  "ends (\<lambda>err h. err = None \<longrightarrow> settled S tx job h) (delete_body S m tx job)"
  unfolding delete_body_def by (intro ends_rules) simp_all

interpretation delete: settling_body delete_body
  by unfold_locales (unfold One_nat_def, intro adds_rules, intro ends_rules)

lemma adds_RyDomainUpdateHandler [adds_rules]:
  "adds (body_event tx job) is_job_write (Suc 0) (RyDomainUpdateHandler S m tx job)"
  unfolding RyDomainUpdateHandler_def row_ops by (intro adds_rules) simp_all

lemma adds_RyDomainRedeemHandler [adds_rules]:
  "adds (body_event tx job) is_job_write (Suc 0) (RyDomainRedeemHandler S m tx job)"
  unfolding RyDomainRedeemHandler_def by (intro adds_rules) simp_all

lemma ends_RyDomainUpdateHandler [ends_rules]:
  "ends (\<lambda>err h. err = None \<longrightarrow> settled S tx job h) (RyDomainUpdateHandler S m tx job)"
  unfolding RyDomainUpdateHandler_def by (intro ends_rules) simp_all

lemma ends_RyDomainRedeemHandler [ends_rules]:
  "ends (\<lambda>err h. err = None \<longrightarrow> settled S tx job h) (RyDomainRedeemHandler S m tx job)"
  unfolding RyDomainRedeemHandler_def by (intro ends_rules) simp_all

section \<open>Outcomes\<close>

text \<open>
  C6. The answer to a create command decides the job, on every branch. Job data that does not decode
  fails it. An answer without a registry response makes the handler panic (it takes the address of a
  field of the missing response), and so does a success for a job without a reference id; nothing is
  written then. A refusal fails the job with the registry's message. A success records the client
  transaction id and the two dates in the provision row; if the row cannot be written the job fails
  with that error, else it is completed, conditionally if the registry reported the command as pending
  (code 1001).
\<close>

theorem provision_outcome:
  fixes resp :: DomainCreateResponse
  assumes "calm S" "statuses_known tx" "job_Info job = Some info"
  defines "row \<equiv> \<lambda>refId rr. Exec (db_gorm tx) (UpdatesProvisionDomain (zero_ProvisionDomain
       \<lparr>pd_ID := refId, pd_RyCltrid := Some (rr_EppCltrid rr),
        pd_RyCreatedDate := map_option (\<lambda>t. AsTime (Some t)) (dcr_CreatedDate resp),
        pd_RyExpiryDate := map_option (\<lambda>t. AsTime (Some t)) (dcr_ExpiryDate resp)\<rparr>))"
  shows "wp (provision_body S (DomainCreateResponseMsg resp) tx job) (\<lambda>r h'.
     if unmarshal (dec_DomainData (sv_f64 S)) zero_DomainData (vj_Data info) = None
     then r = Ret None \<and> closes tx job ''failed'' (Some (sv_json_text S ''DomainData'' (vj_Data info))) h h'
     else case (dcr_RegistryResponse resp, vj_ReferenceID info) of
       (None, _) \<Rightarrow> r = Panicked ''nil pointer dereference'' \<and> h' = h
     | (Some rr, ref) \<Rightarrow>
         if \<not> rr_IsSuccess rr
         then r = Ret None \<and> closes tx job ''failed'' (GetMessageFromRegistryResponse S (Some rr)) h h'
         else (case ref of
             None \<Rightarrow> r = Panicked ''nil pointer dereference'' \<and> h' = h
           | Some refId \<Rightarrow> r = Ret None \<and>
               (case sv_err S h (row refId rr) of
                  Some x \<Rightarrow> closes tx job ''failed'' (Some (err_text x)) (row refId rr # h) h'
                | None \<Rightarrow> closes tx job (if rr_EppCode rr = 1001 then ''completed_conditionally'' else ''completed'')
                            (job_ResultMessage job) (row refId rr # h) h'))) h"
proof (cases "unmarshal (dec_DomainData (sv_f64 S)) zero_DomainData (vj_Data info)")
  case None
  then show ?thesis
    using assms(1-3) by (auto simp: provision_body_def as_DomainCreateResponse_def wp intro!: wp_fail_decode)
next
  case data: (Some data)
  note body = provision_body_def as_DomainCreateResponse_def GetIsSuccess_def GetEppCode_def wp Let_def
  show ?thesis
  proof (cases "dcr_RegistryResponse resp")
    case None
    then show ?thesis
      using assms(1-3) data by (auto simp: body intro!: wp_fail_registry)
  next
    case rr: (Some rr)
    show ?thesis
    proof (cases "rr_IsSuccess rr")
      case False
      then show ?thesis
        using assms(1-3) data rr by (auto simp: body intro!: wp_fail_registry)
    next
      case True
      then show ?thesis
        using assms(1-3) data rr
        by (cases "vj_ReferenceID info")
           (auto simp: body ProcessRyDomainProvisionResponse_def UpdateProvisionDomain_def TimestampToTime_map row_def
             split: option.split intro!: wp_finish_job wp_fail_with)
    qed
  qed
qed

text \<open>A pending success, and an answer without a registry response.\<close>

theorem provision_outcome_witness:
  "(\<exists>e. wp (provision_body (plain_services ''t'')
         (DomainCreateResponseMsg \<lparr>dcr_Name = ''a.com'', dcr_CreatedDate = None, dcr_ExpiryDate = None,
            dcr_RegistryResponse = Some (sample_rr True 1001)\<rparr>)
         sample_db (plain_job ''t''))
     (\<lambda>r h'. r = Ret None \<and> closes sample_db (plain_job ''t'') ''completed_conditionally'' None [e] h') []) \<and>
   wp (provision_body (plain_services ''t'')
         (DomainCreateResponseMsg \<lparr>dcr_Name = ''a.com'', dcr_CreatedDate = None, dcr_ExpiryDate = None,
            dcr_RegistryResponse = None\<rparr>)
         sample_db (plain_job ''t''))
     (\<lambda>r h'. r = Panicked ''nil pointer dereference'' \<and> h' = []) []"
  using provision_outcome [OF plain_calm sample_statuses_known, of "plain_job ''t''" "sample_info ''t'' (JObj [])"
      "''t''" "\<lparr>dcr_Name = ''a.com'', dcr_CreatedDate = None, dcr_ExpiryDate = None,
        dcr_RegistryResponse = Some (sample_rr True 1001)\<rparr>" "[]"]
    provision_outcome [OF plain_calm sample_statuses_known, of "plain_job ''t''" "sample_info ''t'' (JObj [])"
      "''t''" "\<lparr>dcr_Name = ''a.com'', dcr_CreatedDate = None, dcr_ExpiryDate = None,
        dcr_RegistryResponse = None\<rparr>" "[]"]
  by (auto simp: dec_DomainData_def unmarshal_empty)

text \<open>
  The answer to a renew command: a refusal fails the job; a success records the new expiry date
  and the transaction id, and completes the job, conditionally for a pending command; a row that
  cannot be written fails the job.
\<close>

theorem renew_outcome:
  assumes "calm S" "statuses_known tx" "job_Info job = Some info" "vj_ReferenceID info = Some refId"
    "unmarshal (dec_DomainRenewData (sv_f64 S)) zero_DomainRenewData (vj_Data info) = Some data"
    "dre_RegistryResponse resp = Some rr"
  defines "e \<equiv> Exec (db_gorm tx) (UpdatesProvisionDomainRenew (zero_ProvisionDomainRenew
       \<lparr>pdrn_ID := refId, pdrn_RyExpiryDate := Some (AsTime (dre_ExpiryDate resp)),
        pdrn_RyCltrid := Some (rr_EppCltrid rr)\<rparr>))"
  shows "wp (renew_body S (DomainRenewResponseMsg resp) tx job) (\<lambda>r h'. r = Ret None \<and>
     (if \<not> rr_IsSuccess rr
      then closes tx job ''failed'' (GetMessageFromRegistryResponse S (Some rr)) h h'
      else case sv_err S h e of
             Some x \<Rightarrow> closes tx job ''failed'' (Some (err_text x)) (e # h) h'
           | None \<Rightarrow> closes tx job (if rr_EppCode rr = 1001 then ''completed_conditionally'' else ''completed'')
                       (job_ResultMessage job) (e # h) h')) h"
  using assms
  by (auto simp: renew_body_def as_DomainRenewResponse_def UpdateProvisionDomainRenew_def GetIsSuccess_def
      wp Let_def split: option.split intro!: closing)

theorem renew_outcome_witness:
  "wp (renew_body (plain_services ''t'')
         (DomainRenewResponseMsg \<lparr>dre_ExpiryDate = None, dre_RegistryResponse = Some (sample_rr False 2400)\<rparr>)
         sample_db (plain_job ''t''))
     (\<lambda>r h'. r = Ret None \<and> closes sample_db (plain_job ''t'') ''failed'' (Some ''m'') [] h') []"
  using renew_outcome [OF plain_calm sample_statuses_known, of "plain_job ''t''" "sample_info ''t'' (JObj [])"
      "''r1''" "''t''" zero_DomainRenewData
      "\<lparr>dre_ExpiryDate = None, dre_RegistryResponse = Some (sample_rr False 2400)\<rparr>" "sample_rr False 2400" "[]"]
  by (auto simp: dec_DomainRenewData_def unmarshal_empty GetMessageFromRegistryResponse_def GetEppMessage_def
      ExtractMsgsFromXml_def plain_services_def sample_services_def sample_rr_def)

text \<open>
  The answer to an update command: as for renewals, except that a job without a provision row
  (no reference id) is completed without writing one.
\<close>

theorem update_outcome:
  fixes rr :: RegistryResponse
  assumes "calm S" "statuses_known tx" "job_Info job = Some info"
    "unmarshal dec_DomainUpdateData zero_DomainUpdateData (vj_Data info) = Some data"
  defines "e \<equiv> \<lambda>refId. Exec (db_gorm tx) (UpdatesProvisionDomainUpdate (zero_ProvisionDomainUpdate
       \<lparr>pdu_ID := refId, pdu_RyCltrid := Some (rr_EppCltrid rr)\<rparr>))"
  defines "fin \<equiv> (if rr_EppCode rr = 1001 then ''completed_conditionally'' else ''completed'')"
  shows "wp (RyDomainUpdateHandler S (DomainUpdateResponseMsg (Some rr)) tx job) (\<lambda>r h'. r = Ret None \<and>
     (if \<not> rr_IsSuccess rr
      then closes tx job ''failed'' (GetMessageFromRegistryResponse S (Some rr)) h h'
      else case vj_ReferenceID info of
             None \<Rightarrow> closes tx job fin (job_ResultMessage job) h h'
           | Some refId \<Rightarrow>
               (case sv_err S h (e refId) of
                  Some x \<Rightarrow> closes tx job ''failed'' (Some (err_text x)) (e refId # h) h'
                | None \<Rightarrow> closes tx job fin (job_ResultMessage job) (e refId # h) h'))) h"
  using assms
  by (auto simp: RyDomainUpdateHandler_def as_DomainUpdateResponse_def UpdateProvisionDomainUpdate_def
      GetIsSuccess_def wp Let_def split: option.split intro!: closing)

theorem update_outcome_witness:
  "\<exists>e. wp (RyDomainUpdateHandler (plain_services ''t'') (DomainUpdateResponseMsg (Some (sample_rr True 1000)))
         sample_db (plain_job ''t''))
     (\<lambda>r h'. r = Ret None \<and> closes sample_db (plain_job ''t'') ''completed'' None [e] h') []"
  using update_outcome [OF plain_calm sample_statuses_known, of "plain_job ''t''" "sample_info ''t'' (JObj [])"
      zero_DomainUpdateData "''t''" "sample_rr True 1000" "[]"]
  by (auto simp: dec_DomainUpdateData_def unmarshal_empty)

text \<open>
  Deleting a domain: when the grace-period check returns without error, the flag it sets is true
  exactly if the domain is known not to be in its add period, or the registry did not delete it at
  once and reports it in its redemption period.
\<close>

theorem redemption_grace_flag:
  fixes S data tx h rr
  defines "q \<equiv> Query (db_gorm tx) (FirstVDomain (zero_VDomain
       \<lparr>vd_TenantCustomerID := Some (ddl_TenantCustomerId data), vd_Name := Some (ddl_Name data)\<rparr>))"
  defines "b \<equiv> BusCall (''ry-'' @ acc_AccreditationName (ddl_Accreditation data) @ ''-transform'')
       (DomainInfoRequestMsg (ddl_Name data) None)"
  assumes run: "IsDomainInRedemptionGracePeriod S tx rr data h = (Ret (data', None), h')"
    and row: "sv_vd S h q = (Some d, err)"
  shows "ddl_InRedemptionGracePeriod data' \<longleftrightarrow>
     vd_RgpEppStatus d \<noteq> Some ''addPeriod'' \<or>
     GetEppCode rr \<noteq> 1000 \<and>
       (\<exists>resp. sv_reply S (q # h) b = Inr (DomainInfoResponseMsg resp) \<and>
          GetEppCode (din_RegistryResponse resp) = 1000 \<and>
          handleRgpExtension S (din_Extensions resp) = Inr ''redemptionPeriod'')"
proof -
  obtain r where r: "getDomainInfo S (ddl_Name data) (acc_AccreditationName (ddl_Accreditation data)) (q # h) =
      (Ret r, b # q # h)"
    "\<And>resp. r = Inr resp \<longleftrightarrow> sv_reply S (q # h) b = Inr (DomainInfoResponseMsg resp)"
    unfolding b_def GetTransformQueue_def by (rule getDomainInfo_run) (auto simp: GetTransformQueue_def)
  show ?thesis
    using run unfolding r(2) [symmetric]
    by (auto simp: IsDomainInRedemptionGracePeriod_def GetVDomain_def first_row_def perform_def bnd_def ret_def
        q_def [symmetric] row r(1) Let_def split: option.splits if_splits sum.splits)
qed

definition sample_domain_info :: DomainInfoResponse where
  "sample_domain_info = \<lparr>din_Clid = ''reg'', din_CreatedDate = None, din_ExpiryDate = None,
     din_TransferredDate = None, din_Statuses = [], din_Hosts = None, din_Contacts = [], din_Nameservers = [],
     din_Extensions = [(''rgp'', Some (Any [] []))], din_RegistryResponse = Some (sample_rr True 1000)\<rparr>"

definition rgp_services :: services where
  "rgp_services = sample_services (plain_job ''t'') (\<lambda>e. None) (Inr (DomainInfoResponseMsg sample_domain_info))"

theorem redemption_grace_flag_witness:
  "\<exists>data' h'. IsDomainInRedemptionGracePeriod rgp_services sample_db (Some (sample_rr True 1001))
       zero_DomainDeleteData [] = (Ret (data', None), h') \<and> ddl_InRedemptionGracePeriod data'"
proof -
  let ?run = "IsDomainInRedemptionGracePeriod rgp_services sample_db (Some (sample_rr True 1001))
       zero_DomainDeleteData []"
  have rgp: "handleRgpExtension rgp_services (din_Extensions sample_domain_info) = Inr ''redemptionPeriod''"
    by (simp add: handleRgpExtension_def rgpStatusExists_def sample_domain_info_def rgp_services_def
        sample_services_def)
  have run: "?run = (Ret (fst (case fst ?run of Ret x \<Rightarrow> x), None), snd ?run)"
    by (simp add: IsDomainInRedemptionGracePeriod_def GetVDomain_def first_row_def perform_def bnd_def ret_def
        getDomainInfo_def bus_Call_def Let_def rgp_services_def sample_services_def sample_domain_info_def
        sample_rr_def GetEppCode_def handleRgpExtension_def rgpStatusExists_def)
  show ?thesis
    using redemption_grace_flag [OF run, of "zero_VDomain\<lparr>vd_RgpEppStatus := Some ''addPeriod''\<rparr>" None]
      run rgp
    by (auto simp: rgp_services_def sample_services_def GetEppCode_def sample_domain_info_def)
qed

text \<open>
  The answer to a delete command. A missing object (2303) counts as deleted; any other refusal
  fails the job. After a success the job is completed with the grace-period flag recorded in the
  provision row, unless the flag cannot be determined or the row cannot be written; then it fails.
\<close>

theorem delete_outcome:
  fixes rr :: RegistryResponse
  assumes "calm S" "statuses_known tx" "job_Info job = Some info" "vj_ReferenceID info = Some refId"
    "unmarshal dec_DomainDeleteData zero_DomainDeleteData (vj_Data info) = Some data"
  defines "e \<equiv> \<lambda>flag. Exec (db_gorm tx) (UpdatesProvisionDomainDelete (zero_ProvisionDomainDelete
       \<lparr>pdd_ID := refId, pdd_RyCltrid := Some (rr_EppCltrid rr), pdd_InRedemptionGracePeriod := flag\<rparr>))"
  shows "wp (delete_body S (DomainDeleteResponseMsg (Some rr)) tx job) (\<lambda>r h'.
     if rr_IsSuccess rr then
       (case IsDomainInRedemptionGracePeriod S tx (Some rr) data h of
          (Ret (data', None), h1) \<Rightarrow> r = Ret None \<and>
            (let w = e (ddl_InRedemptionGracePeriod data') in
             case sv_err S h1 w of
               None \<Rightarrow> closes tx job ''completed'' (job_ResultMessage job) (w # h1) h'
             | Some x \<Rightarrow> closes tx job ''failed'' (Some (err_text x)) (w # h1) h')
        | (Ret (data', Some x), h1) \<Rightarrow> r = Ret None \<and>
            closes tx job ''failed'' (Some ''Failed to retrieve the domain RGP status'') h1 h'
        | (Panicked p, h1) \<Rightarrow> r = Panicked p \<and> h' = h1
        | (Exited, h1) \<Rightarrow> r = Exited \<and> h' = h1)
     else r = Ret None \<and>
       (if rr_EppCode rr = 2303 then closes tx job ''completed'' (job_ResultMessage job) h h'
        else closes tx job ''failed'' (GetMessageFromRegistryResponse S (Some rr)) h h')) h"
proof (cases "rr_IsSuccess rr")
  case False
  then show ?thesis
    using assms
    by (auto simp: delete_body_def as_DomainDeleteResponse_def GetIsSuccess_def GetEppCode_def wp Let_def
        intro!: closing)
next
  case True
  let ?G = "IsDomainInRedemptionGracePeriod S tx (Some rr) data"
  obtain o' h1 where run: "?G h = (o', h1)" by force
  then have G: "wp (bnd ?G f) Q h =
      (case o' of Ret a \<Rightarrow> wp (f a) Q h1 | Panicked p \<Rightarrow> Q (Panicked p) h1 | Exited \<Rightarrow> Q Exited h1)" for f Q
    by (simp add: wp_def bnd_def split: outcome.split)
  have body: "delete_body S (DomainDeleteResponseMsg (Some rr)) tx job =
      bnd ?G (\<lambda>(data, err). if err \<noteq> None
        then fail_with S tx job ''Failed to retrieve the domain RGP status'' (Some (result_data (DomainDeleteResponseMsg (Some rr))))
        else bnd (ProcessRyDomainDeleteResponse S tx (Some rr) data job) (\<lambda>err. case err of
            Some x \<Rightarrow> fail_with S tx job (err_text x) (Some (result_data (DomainDeleteResponseMsg (Some rr))))
          | None \<Rightarrow> finish_job S tx job JobStatus_Completed (Some (result_data (DomainDeleteResponseMsg (Some rr))))))"
    using assms(3,5) True
    by (simp add: delete_body_def as_DomainDeleteResponse_def GetIsSuccess_def Let_def)
  show ?thesis
  proof (cases o')
    case (Ret a)
    obtain data' err where a: "a = (data', err)" by force
    show ?thesis
      unfolding body G using assms True run Ret a
      by (cases err; cases "sv_err S h1 (e (ddl_InRedemptionGracePeriod data'))")
         (auto simp: ProcessRyDomainDeleteResponse_def UpdateProvisionDomainDelete_def wp Let_def intro!: closing)
  qed (use True run in \<open>simp_all add: body G\<close>)
qed

theorem delete_outcome_witness:
  "wp (delete_body (plain_services ''t'') (DomainDeleteResponseMsg (Some (sample_rr False 2303)))
         sample_db (plain_job ''t''))
     (\<lambda>r h'. r = Ret None \<and> closes sample_db (plain_job ''t'') ''completed'' None [] h') []"
  using delete_outcome [OF plain_calm sample_statuses_known, of "plain_job ''t''" "sample_info ''t'' (JObj [])"
      "''r1''" zero_DomainDeleteData "''t''" "sample_rr False 2303" "[]"]
  by (auto simp: dec_DomainDeleteData_def unmarshal_empty)

end
