(* ===== verification/DU_Info.thy ===== *)
theory DU_Info
  imports DU_Write
begin

text \<open>
  The domain updater's handlers of domain info answers that prepare a renewal or a deletion
  (\<^verbatim>\<open>ry_domain_expiry_date_check_handler.go\<close>, \<^verbatim>\<open>ry_domain_hosts_check_handler.go\<close>). A domain that
  another registrar sponsors gets a transfer-away order, whose failure is logged only, and the job
  fails in every case.
\<close>

section \<open>The expiry date before a renewal\<close>

text \<open>The period and the two dates recorded when the registry and the database agree on day and month.\<close>

definition expiry_check_row :: "string \<Rightarrow> string \<Rightarrow> gotime \<Rightarrow> gotime \<Rightarrow> u32 \<Rightarrow> ProvisionDomainRenew" where
  "expiry_check_row refId cltrid ryExpiryDate dbExpiryDate period =
     (let renewPeriod = uint period;
          periodGap = time_Year ryExpiryDate - time_Year dbExpiryDate;
          provisionData = zero_ProvisionDomainRenew
            \<lparr>pdrn_ID := refId,
             pdrn_RyCltrid := Some cltrid,
             pdrn_CurrentExpiryDate := ryExpiryDate,
             pdrn_Period := Some (word_of_int (renewPeriod - periodGap))\<rparr>;
          provisionData = (if periodGap > renewPeriod
                           then provisionData\<lparr>pdrn_Period := Some (word_of_int renewPeriod)\<rparr>
                           else provisionData)
      in if periodGap = renewPeriod
         then provisionData\<lparr>pdrn_RyExpiryDate := Some ryExpiryDate\<rparr> else provisionData)"

definition RyDomainExpiryDateCheckHandler ::
  "services \<Rightarrow> message \<Rightarrow> database \<Rightarrow> Job \<Rightarrow> (hist, gerr option) go" where
  "RyDomainExpiryDateCheckHandler S message tx job =
     bnd (as_DomainInfoResponse message) (\<lambda>response.
     bnd (deref (job_Info job)) (\<lambda>info.
     case unmarshal (dec_DomainRenewData (sv_f64 S)) zero_DomainRenewData (vj_Data info) of
       None \<Rightarrow> fail_decode S tx job ''DomainRenewData'' (vj_Data info)
     | Some data \<Rightarrow>
         (let registryResponse = din_RegistryResponse response; jrd = result_data message in
          if \<not> GetIsSuccess registryResponse \<or> GetEppCode registryResponse \<noteq> EppCode_Success
          then fail_registry S tx job registryResponse jrd
          else if din_Clid response \<noteq> acc_RegistrarID (drn_Accreditation data)
          then bnd (createTransferAwayOrder S tx
                      \<lparr>dtaw_Name = drn_Name data,
                       dtaw_Accreditation = drn_Accreditation data,
                       dtaw_TenantCustomerId = drn_TenantCustomerId data,
                       dtaw_Metadata = drn_Metadata data\<rparr> response) (\<lambda>_.
               fail_with S tx job ''Domain does not belong to the registrar'' (Some jrd))
          else if EPPStatusCode_ClientRenewProhibited \<in> set (din_Statuses response) \<or>
                  EPPStatusCode_ServerRenewProhibited \<in> set (din_Statuses response)
          then fail_with S tx job ''Status prohibits operation'' (Some jrd)
          else
            (let ryExpiryDate = AsTime (din_ExpiryDate response) in
             bnd (deref (drn_ExpiryDate data)) (\<lambda>dbExpiryDate.
             if time_Day ryExpiryDate \<noteq> time_Day dbExpiryDate \<or>
                time_Month ryExpiryDate \<noteq> time_Month dbExpiryDate
             then fail_with S tx job
                    ''Domain expiry dates have day/month mismatch between registry and database'' (Some jrd)
             else
               bnd (deref (drn_Period data)) (\<lambda>period.
               bnd (deref (vj_ReferenceID info)) (\<lambda>refId.
               bnd (deref registryResponse) (\<lambda>rr.
               bnd (UpdateProvisionDomainRenew S tx
                      (expiry_check_row refId (rr_EppCltrid rr) ryExpiryDate dbExpiryDate period)) (\<lambda>err.
               if err \<noteq> None
               then fail_with S tx job ''Failed to record provision domain renew'' (Some jrd)
               else finish_job S tx job JobStatus_Completed (Some jrd)))))))))) "

section \<open>The hosts before a deletion\<close>

definition ProcessRyDomainInfoResponse ::
  "services \<Rightarrow> database \<Rightarrow> DomainInfoResponse \<Rightarrow> DomainDeleteData \<Rightarrow> Job \<Rightarrow> (hist, gerr option) go" where
  "ProcessRyDomainInfoResponse S tx response data job =
     bnd (deref (job_Info job)) (\<lambda>info.
     bnd (deref (vj_ReferenceID info)) (\<lambda>refId.
     bnd (deref (din_RegistryResponse response)) (\<lambda>rr.
     let pdd = zero_ProvisionDomainDelete\<lparr>pdd_ID := refId, pdd_RyCltrid := Some (rr_EppCltrid rr)\<rparr>;
         pdd = (if din_Hosts response \<noteq> None then pdd\<lparr>pdd_Hosts := din_Hosts response\<rparr>
                else (case ddl_Metadata data of
                        None \<Rightarrow> pdd
                      | Some md \<Rightarrow> pdd\<lparr>pdd_OrderMetadata := Some (json_print (enc_map md))\<rparr>))
     in UpdateProvisionDomainDelete S tx pdd)))"

definition RyDomainHostsCheckHandler ::
  "services \<Rightarrow> message \<Rightarrow> database \<Rightarrow> Job \<Rightarrow> (hist, gerr option) go" where
  "RyDomainHostsCheckHandler S message tx job =
     bnd (as_DomainInfoResponse message) (\<lambda>response.
     bnd (deref (job_Info job)) (\<lambda>info.
     case unmarshal dec_DomainDeleteData zero_DomainDeleteData (vj_Data info) of
       None \<Rightarrow> fail_decode S tx job ''DomainDeleteData'' (vj_Data info)
     | Some data \<Rightarrow>
         (let registryResponse = din_RegistryResponse response;
              jrd = result_data message;
              finish = (\<lambda>err. case err of
                 Some e \<Rightarrow> fail_with S tx job (err_text e) (Some jrd)
               | None \<Rightarrow> finish_job S tx job JobStatus_Completed (Some jrd)) in
          if GetIsSuccess registryResponse then
            (if din_Clid response \<noteq> acc_RegistrarID (ddl_Accreditation data)
             then bnd (createTransferAwayOrder S tx
                         \<lparr>dtaw_Name = ddl_Name data,
                          dtaw_Accreditation = ddl_Accreditation data,
                          dtaw_TenantCustomerId = ddl_TenantCustomerId data,
                          dtaw_Metadata = ddl_Metadata data\<rparr> response) (\<lambda>_.
                  fail_with S tx job ''Domain does not belong to the registrar'' (Some jrd))
             else
               (case handleRgpExtension S (din_Extensions response) of
                  Inl e \<Rightarrow> fail_with S tx job ''failed to handle RGP extension'' (Some jrd)
                | Inr rgpstatus \<Rightarrow>
                    if rgpstatus = RgpStatus_RedemptionPeriod
                    then bnd (ProcessRyDomainDeleteResponse S tx registryResponse
                                (data\<lparr>ddl_InRedemptionGracePeriod := True\<rparr>) job) finish
                    else if din_Hosts response \<noteq> None
                    then bnd (ProcessRyDomainInfoResponse S tx response
                                (data\<lparr>ddl_Hosts := din_Hosts response\<rparr>) job) finish
                    else finish None))
          else if GetEppCode registryResponse = EppCode_ObjectDoesNotExist then
            (case ddl_Metadata data of
               None \<Rightarrow> go_panic ''assignment to entry in nil map''
             | Some md \<Rightarrow>
                 bnd (ProcessRyDomainInfoResponse S tx response
                        (data\<lparr>ddl_Metadata := Some (AList.update ''domain_not_found'' (JBool True) md)\<rparr>)
                        job) finish)
          else fail_registry S tx job registryResponse jrd)))"

section \<open>The bodies keep the contract\<close>

lemma adds_RyDomainExpiryDateCheckHandler [adds_rules]:
  "adds (body_event tx job) is_job_write (Suc 0) (RyDomainExpiryDateCheckHandler S m tx job)"
  unfolding RyDomainExpiryDateCheckHandler_def row_ops by (intro adds_rules) simp_all

lemma adds_ProcessRyDomainInfoResponse [adds_rules]:
  "adds (body_event tx job0) is_job_write 0 (ProcessRyDomainInfoResponse S tx response data job)"
  unfolding ProcessRyDomainInfoResponse_def row_ops by (intro adds_rules) simp_all

lemma adds_RyDomainHostsCheckHandler [adds_rules]:
  "adds (body_event tx job) is_job_write (Suc 0) (RyDomainHostsCheckHandler S m tx job)"
  unfolding RyDomainHostsCheckHandler_def Let_def by (intro adds_rules) simp_all

lemma ends_RyDomainExpiryDateCheckHandler [ends_rules]:
  "ends (\<lambda>err h. err = None \<longrightarrow> settled S tx job h) (RyDomainExpiryDateCheckHandler S m tx job)"
  unfolding RyDomainExpiryDateCheckHandler_def by (intro ends_rules) simp_all

lemma ends_RyDomainHostsCheckHandler [ends_rules]:
  "ends (\<lambda>err h. err = None \<longrightarrow> settled S tx job h) (RyDomainHostsCheckHandler S m tx job)"
  unfolding RyDomainHostsCheckHandler_def Let_def by (intro ends_rules) simp_all

section \<open>Outcomes\<close>

text \<open>
  The period recorded before a renewal. With \<open>n\<close> years ordered and the registry \<open>g\<close> years ahead
  of the database, \<open>n - g\<close> years remain to be bought, or the ordered \<open>n\<close> if the registry is further
  ahead than that; no 32-bit overflow as long as the result fits. The registry's expiry date is
  recorded as final exactly if nothing remains to be bought, and always as the current one.
\<close>

theorem expiry_check_period:
  fixes ry dbt :: gotime and period :: u32
  defines "g \<equiv> time_Year ry - time_Year dbt"
  assumes "uint period < 2 ^ 31" "uint period - g < 2 ^ 31"
  shows "map_option sint (pdrn_Period (expiry_check_row refId cltrid ry dbt period)) =
           Some (if g > uint period then uint period else uint period - g) \<and>
         pdrn_RyExpiryDate (expiry_check_row refId cltrid ry dbt period) =
           (if g = uint period then Some ry else None) \<and>
         pdrn_CurrentExpiryDate (expiry_check_row refId cltrid ry dbt period) = ry"
proof -
  have zero: "pdrn_RyExpiryDate zero_ProvisionDomainRenew = None"
    by (simp add: zero_ProvisionDomainRenew_def)
  have fits: "sint (word_of_int k :: 32 word) = k" if "0 \<le> k" "k < 2 ^ 31" for k
    using that by (intro sint_word_of_int_32) simp_all
  show ?thesis
    using assms(2,3) fits [of "uint period"] fits [of "uint period - g"]
    by (auto simp: expiry_check_row_def Let_def g_def zero)
qed

theorem expiry_check_period_witness:
  "map_option sint (pdrn_Period (expiry_check_row ''r1'' ''t'' zero_time zero_time 2)) = Some 2"
  using expiry_check_period [of 2 zero_time zero_time "''r1''" "''t''"] by simp

lemma createTransferAwayOrder_run:
  "\<exists>err d. createTransferAwayOrder S tx data resp h =
     (Ret err, d @ Exec (db_gorm tx) (CreateOrderRow (zero_Order
        \<lparr>ord_TypeID := GetOrderTypeId tx ''transfer_away'' ''domain'',
         ord_TenantCustomerID := dtaw_TenantCustomerId data,
         ord_OrderItemTransferAwayDomain := zero_OrderItemTransferAwayDomain
           \<lparr>ota_Name := dtaw_Name data,
            ota_TransferStatusID := GetTransferStatusId tx ''serverApproved'',
            ota_RequestedBy := din_Clid resp, ota_RequestedDate := sv_now S h 0,
            ota_ActionBy := acc_RegistrarID (dtaw_Accreditation data),
            ota_ActionDate := sv_now S h 1, ota_ExpiryDate := sv_now S h 2\<rparr>,
         ord_Metadata := Some (json_print (order_metadata data))\<rparr>)) # h)"
  by (auto simp: createTransferAwayOrder_def TransferAwayDomainOrder_def OrderNextStatus_def observe_def
      perform_def bnd_def ret_def Let_def split: option.split)

text \<open>The sponsor's name on a transfer-away order, and the domain it is for.\<close>

definition away_order :: "string \<Rightarrow> string \<Rightarrow> Order \<Rightarrow> bool" where
  "away_order name sponsor o' \<longleftrightarrow>
     ota_Name (ord_OrderItemTransferAwayDomain o') = name \<and>
     ota_RequestedBy (ord_OrderItemTransferAwayDomain o') = sponsor"

lemma wp_createTransferAwayOrder:
  assumes "\<And>d o' err. away_order (dtaw_Name data) (din_Clid resp) o' \<Longrightarrow>
     Q (Ret err) (d @ Exec (db_gorm tx) (CreateOrderRow o') # h)"
  shows "wp (createTransferAwayOrder S tx data resp) Q h"
  using createTransferAwayOrder_run [of S tx data resp h] assms
  by (auto simp: wp_def away_order_def)

text \<open>
  The domain info before a renewal. If another registrar sponsors the domain, a transfer-away
  order for that registrar is written and the job fails. Else the renewal goes on, with the period
  described above recorded, exactly if no status forbids renewals and both expiry dates have the same day
  and month; otherwise, or if the row cannot be written, the job fails.
\<close>

theorem expiry_check_outcome:
  assumes "calm S" "statuses_known tx" "job_Info job = Some info" "vj_ReferenceID info = Some refId"
    "unmarshal (dec_DomainRenewData (sv_f64 S)) zero_DomainRenewData (vj_Data info) = Some data"
    "drn_ExpiryDate data = Some dbt" "drn_Period data = Some period"
    "din_RegistryResponse resp = Some rr" "rr_IsSuccess rr" "rr_EppCode rr = 1000"
  defines "ry \<equiv> AsTime (din_ExpiryDate resp)"
  defines "e \<equiv> Exec (db_gorm tx) (UpdatesProvisionDomainRenew
       (expiry_check_row refId (rr_EppCltrid rr) ry dbt period))"
  shows "wp (RyDomainExpiryDateCheckHandler S (DomainInfoResponseMsg resp) tx job) (\<lambda>r h'. r = Ret None \<and>
     (if din_Clid resp \<noteq> acc_RegistrarID (drn_Accreditation data)
      then \<exists>d o'. away_order (drn_Name data) (din_Clid resp) o' \<and>
             closes tx job ''failed'' (Some ''Domain does not belong to the registrar'')
               (d @ Exec (db_gorm tx) (CreateOrderRow o') # h) h'
      else if ''clientRenewProhibited'' \<notin> set (din_Statuses resp) \<and>
              ''serverRenewProhibited'' \<notin> set (din_Statuses resp) \<and>
              time_Day ry = time_Day dbt \<and> time_Month ry = time_Month dbt
      then \<exists>msg. closes tx job (if sv_err S h e = None then ''completed'' else ''failed'') msg (e # h) h'
      else \<exists>msg. closes tx job ''failed'' msg h h')) h"
proof (cases "din_Clid resp = acc_RegistrarID (drn_Accreditation data)")
  case False
  then show ?thesis
    using assms
    by (auto simp: RyDomainExpiryDateCheckHandler_def as_DomainInfoResponse_def GetIsSuccess_def GetEppCode_def
        wp Let_def intro!: wp_createTransferAwayOrder closing) blast
next
  case True
  have failed: "wp (fail_with S tx job msg jrd) (\<lambda>r h'. r = Ret None \<and>
      (\<exists>msg. closes tx job ''failed'' msg g h')) g" for msg jrd g
    using assms(1-3) by (intro wp_fail_with) auto
  have completed: "wp (finish_job S tx job JobStatus_Completed jrd) (\<lambda>r h'. r = Ret None \<and>
      (\<exists>msg. closes tx job ''completed'' msg g h')) g" for jrd g
    using assms(1-3) by (intro wp_finish_job) auto
  show ?thesis
    using assms(1,3-10) True failed completed unfolding ry_def e_def
    by (cases "time_Day (AsTime (din_ExpiryDate resp)) = time_Day dbt";
        cases "time_Month (AsTime (din_ExpiryDate resp)) = time_Month dbt";
        cases "''clientRenewProhibited'' \<in> set (din_Statuses resp)";
        cases "''serverRenewProhibited'' \<in> set (din_Statuses resp)";
        cases "sv_err S h (Exec (db_gorm tx) (UpdatesProvisionDomainRenew
       (expiry_check_row refId (rr_EppCltrid rr) (AsTime (din_ExpiryDate resp)) dbt period)))")
       (simp_all add: RyDomainExpiryDateCheckHandler_def as_DomainInfoResponse_def GetIsSuccess_def
        GetEppCode_def UpdateProvisionDomainRenew_def wp Let_def)
qed

definition renew_json :: json where
  "renew_json = JObj [(''period'', JInt 1), (''expiry_date'', JStr ''2025-01-02T00:00:00Z'')]"

definition renew_data :: DomainRenewData where
  "renew_data = zero_DomainRenewData
     \<lparr>drn_Period := Some 1, drn_ExpiryDate := Some \<lparr>t_sec = 1735776000, t_nsec = 0, t_off = 0\<rparr>\<rparr>"

lemma renew_json_decodes:
  "unmarshal (dec_DomainRenewData sample_f64) zero_DomainRenewData (Raw renew_json) = Some renew_data"
  by code_simp

definition renew_info :: DomainInfoResponse where
  "renew_info = \<lparr>din_Clid = [], din_CreatedDate = None,
     din_ExpiryDate = Some \<lparr>ts_seconds = 1735776000, ts_nanos = 0\<rparr>, din_TransferredDate = None,
     din_Statuses = [''ok''], din_Hosts = None, din_Contacts = [], din_Nameservers = [],
     din_Extensions = [],
     din_RegistryResponse = Some (sample_rr True 1000)\<rparr>"

theorem expiry_check_outcome_witness:
  "\<exists>e. wp (RyDomainExpiryDateCheckHandler (sample_services (sample_job ''t'' renew_json) (\<lambda>e. None) (Inl ErrNotFound))
         (DomainInfoResponseMsg renew_info) sample_db (sample_job ''t'' renew_json))
     (\<lambda>r h'. r = Ret None \<and> (\<exists>msg. closes sample_db (sample_job ''t'' renew_json) ''completed'' msg [e] h')) []"
proof -
  let ?S = "sample_services (sample_job ''t'' renew_json) (\<lambda>e. None) (Inl ErrNotFound)"
  have "calm ?S" by (rule sample_calm) simp
  moreover have "sv_f64 ?S = sample_f64" by (simp add: sample_services_def)
  ultimately show ?thesis
    using expiry_check_outcome [of ?S sample_db "sample_job ''t'' renew_json" "sample_info ''t'' renew_json" "''r1''"
        renew_data "\<lparr>t_sec = 1735776000, t_nsec = 0, t_off = 0\<rparr>" 1 renew_info "sample_rr True 1000" "[]"]
      sample_statuses_known renew_json_decodes
    by (auto simp: renew_data_def renew_info_def AsTime_def zero_DomainRenewData_def zero_Accreditation_def
        sample_services_def)
qed

text \<open>
  The domain info before a deletion, when the registry does not know the domain and the job's
  data has no metadata: the handler panics before it writes anything, so the job is not settled.
\<close>

theorem hosts_check_nil_metadata:
  assumes "job_Info job = Some info"
    "unmarshal dec_DomainDeleteData zero_DomainDeleteData (vj_Data info) = Some data"
    "ddl_Metadata data = None" "\<not> GetIsSuccess (din_RegistryResponse resp)"
    "GetEppCode (din_RegistryResponse resp) = 2303"
  shows "RyDomainHostsCheckHandler S (DomainInfoResponseMsg resp) tx job h =
     (Panicked ''assignment to entry in nil map'', h)"
  using assms
  by (simp add: RyDomainHostsCheckHandler_def as_DomainInfoResponse_def Let_def go_panic_def)

theorem hosts_check_nil_metadata_witness:
  "RyDomainHostsCheckHandler (plain_services ''t'')
     (DomainInfoResponseMsg (renew_info\<lparr>din_RegistryResponse := Some (sample_rr False 2303)\<rparr>))
     sample_db (plain_job ''t'') [] = (Panicked ''assignment to entry in nil map'', [])"
  using hosts_check_nil_metadata [of "plain_job ''t''" "sample_info ''t'' (JObj [])" zero_DomainDeleteData
      "renew_info\<lparr>din_RegistryResponse := Some (sample_rr False 2303)\<rparr>"]
  by (simp add: dec_DomainDeleteData_def unmarshal_empty zero_DomainDeleteData_def GetIsSuccess_def GetEppCode_def)

end
