(* ===== verification/DU_Check.thy ===== *)
theory DU_Check
  imports DU_Common
begin

text \<open>
  The domain updater's handlers of domain check answers: trademark claims
  (\<^verbatim>\<open>ry_validate_domain_claims_check.go\<close>) and availability and premium price
  (\<^verbatim>\<open>ry_validate_domain_check.go\<close>). The price check is compared with a reference: the sum of the fees
  of the operation that carry no phase.
\<close>

section \<open>Trademark claims\<close>

definition RyValidateDomainClaimsHandler ::
  "services \<Rightarrow> DomainCheckResponse \<Rightarrow> database \<Rightarrow> Job \<Rightarrow> (hist, gerr option) go" where
  "RyValidateDomainClaimsHandler S response tx job =
     bnd (deref (job_Info job)) (\<lambda>info.
     case unmarshal dec_DomainClaimsValidationData zero_DomainClaimsValidationData (vj_Data info) of
       None \<Rightarrow> fail_decode S tx job ''DomainClaimsValidationData'' (vj_Data info)
     | Some data \<Rightarrow>
         (let registryResponse = dck_RegistryResponse response;
              jrd = result_data (DomainCheckResponseMsg response) in
          if \<not> GetIsSuccess registryResponse \<or> GetEppCode registryResponse \<noteq> EppCode_Success
          then bnd (SetJobErrorFromRegistryResponse S registryResponse job jrd) (\<lambda>(job, jrd).
               finish_job S tx job JobStatus_Failed None)
          else
            (case sv_launch S (case map_of (dck_Extensions response) ''launch'' of
                                 None \<Rightarrow> None | Some ext \<Rightarrow> ext) of
               Inl e \<Rightarrow> fail_with S tx job ''domain validation failed'' None
             | Inr launchData \<Rightarrow>
                 if length launchData \<noteq> 1
                 then fail_with S tx job ''domain validation failed'' None
                 else if launchData ! 0 then
                   (if dcv_LaunchData data = None
                    then fail_with S tx job ''claims data is missing'' None
                    else finish_job S tx job JobStatus_Completed (Some jrd))
                 else
                   bnd (GetOrderItemCreateDomain S tx (dcv_OrderItemId data)) (\<lambda>(orderItem, err).
                   if err \<noteq> None then fail_with S tx job ''domain validation failed'' None
                   else bnd (deref orderItem) (\<lambda>orderItem.
                     bnd (UpdateOrderItemCreateDomain S tx (orderItem\<lparr>ocd_LaunchData := None\<rparr>)) (\<lambda>err.
                     if err \<noteq> None then fail_with S tx job ''domain validation failed'' None
                     else finish_job S tx job JobStatus_Completed (Some jrd)))))))"

section \<open>Premium prices\<close>

definition feeTypeMap :: "string \<rightharpoonup> BaseOperation" where
  "feeTypeMap = map_of
     [(''transfer_in'', TRANSFER), (''renew'', RENEWAL), (''redeem'', RESTORE), (''create'', REGISTRATION)]"

text \<open>\<^verbatim>\<open>strings.Contains\<close>.\<close>

fun str_contains :: "string \<Rightarrow> string \<Rightarrow> bool" where
  "str_contains s sub =
     (take (length sub) s = sub \<or> (case s of [] \<Rightarrow> False | c # cs \<Rightarrow> str_contains cs sub))"

declare str_contains.simps [simp del]

definition isPremiumDomain :: "string option \<Rightarrow> bool" where
  "isPremiumDomain tier =
     (case tier of
        None \<Rightarrow> False
      | Some t \<Rightarrow> t = ''Premium'' \<or> str_contains t ''premium'' \<or> str_contains t ''default tier legacy'')"

text \<open>The loop over the fees, from the price found so far.\<close>

fun sum_fees :: "BaseOperation \<Rightarrow> Money option \<Rightarrow> DomainOperationFee list \<Rightarrow> gerr + Money option" where
  "sum_fees target price [] = Inr price"
| "sum_fees target price (fee # fees) =
     (if fee_Operation fee = target \<and> fee_Phase fee = None then
        (if price = None then sum_fees target (fee_Price fee) fees
         else (case AddMoney price (fee_Price fee) of
                 Inl e \<Rightarrow> Inl e
               | Inr tot \<Rightarrow> sum_fees target (Some tot) fees))
      else sum_fees target price fees)"

definition getDomainOperationPrice :: "DomainOperationFee list \<Rightarrow> string \<Rightarrow> gerr + Money option" where
  "getDomainOperationPrice fees operation =
     (if fees = [] then Inr None
      else (case feeTypeMap operation of
              None \<Rightarrow> Inl (ErrNew (''unknown operation type: '' @ operation))
            | Some targetFeeType \<Rightarrow> sum_fees targetFeeType None fees))"

definition handleCheckResponse ::
  "services \<Rightarrow> DomainAvailResponse \<Rightarrow> DomainCheckValidationData \<Rightarrow> gerr option" where
  "handleCheckResponse S domain data =
     (if \<not> isPremiumDomain (av_PricingTier domain) then None
      else if \<not> dchk_PremiumDomainEnabled data then Some (ErrNew ''premium domain not enabled'')
      else if dchk_PremiumOperation data = Some True then
        (case getDomainOperationPrice (av_Fees domain) (dchk_OrderType data) of
           Inl e \<Rightarrow> Some (ErrNew ''error getting domain operation price'')
         | Inr price \<Rightarrow>
             if (case dchk_Price data of
                   None \<Rightarrow> False
                 | Some p \<Rightarrow> sv_money_equal S (ToMoneyMsg (sv_f64 S) p) price)
             then None
             else Some (ErrNew ''price mismatch''))
      else None)"

definition RyValidateDomainCheckHandler ::
  "services \<Rightarrow> DomainCheckResponse \<Rightarrow> database \<Rightarrow> Job \<Rightarrow> (hist, gerr option) go" where
  "RyValidateDomainCheckHandler S response tx job =
     bnd (deref (job_Info job)) (\<lambda>info.
     case unmarshal (dec_DomainCheckValidationData (sv_f64 S)) zero_DomainCheckValidationData (vj_Data info) of
       None \<Rightarrow> fail_decode S tx job ''DomainCheckValidationData'' (vj_Data info)
     | Some data \<Rightarrow>
         (let registryResponse = dck_RegistryResponse response;
              jrd = result_data (DomainCheckResponseMsg response) in
          if \<not> GetIsSuccess registryResponse
          then fail_registry S tx job registryResponse jrd
          else (case dck_Domains response of
                  [domain] \<Rightarrow>
                    (let (job, jobStatus) =
                           (if dchk_OrderType data = DomainOrderType_Create \<and> \<not> av_IsAvailable domain
                            then (job\<lparr>job_ResultMessage := Some ''domain is not available''\<rparr>, JobStatus_Failed)
                            else (job, JobStatus_Completed));
                         (job, jobStatus) =
                           (case handleCheckResponse S domain data of
                              Some e \<Rightarrow> (job\<lparr>job_ResultMessage := Some (err_text e)\<rparr>, JobStatus_Failed)
                            | None \<Rightarrow> (job, jobStatus))
                     in finish_job S tx job jobStatus (Some jrd))
                | _ \<Rightarrow> fail_with S tx job ''domain validation failed'' (Some jrd))))"

section \<open>The bodies keep the contract\<close>

lemma adds_RyValidateDomainClaimsHandler [adds_rules]:
  "adds (body_event tx job) is_job_write (Suc 0) (RyValidateDomainClaimsHandler S r tx job)"
  unfolding RyValidateDomainClaimsHandler_def row_ops bnd_SetJobError prod.case by (intro adds_rules) simp_all

lemma adds_RyValidateDomainCheckHandler [adds_rules]:
  "adds (body_event tx job) is_job_write (Suc 0) (RyValidateDomainCheckHandler S r tx job)"
  unfolding RyValidateDomainCheckHandler_def Let_def
  by (auto intro!: adds_rules split: list.split option.split)

lemma ends_RyValidateDomainClaimsHandler [ends_rules]:
  "ends (\<lambda>err h. err = None \<longrightarrow> settled S tx job h) (RyValidateDomainClaimsHandler S m tx job)"
  unfolding RyValidateDomainClaimsHandler_def bnd_SetJobError prod.case by (intro ends_rules) simp_all

lemma ends_RyValidateDomainCheckHandler [ends_rules]:
  "ends (\<lambda>err h. err = None \<longrightarrow> settled S tx job h) (RyValidateDomainCheckHandler S m tx job)"
  unfolding RyValidateDomainCheckHandler_def Let_def
  by (auto intro!: ends_rules split: list.split option.split)

section \<open>The price is the sum of the fees without phase\<close>

text \<open>The fees that count, and their exact total in nanos.\<close>

definition relevant_fees :: "BaseOperation \<Rightarrow> DomainOperationFee list \<Rightarrow> DomainOperationFee list" where
  "relevant_fees target = filter (\<lambda>fee. fee_Operation fee = target \<and> fee_Phase fee = None)"

definition money_value :: "Money \<Rightarrow> int" where
  "money_value m = sint (mo_Units m) * 1000000000 + sint (mo_Nanos m)"

text \<open>A well-formed amount: no negative part, less than a unit of nanos, room for a sum.\<close>

definition money_ok :: "Money \<Rightarrow> bool" where
  "money_ok m \<longleftrightarrow> 0 \<le> sint (mo_Units m) \<and> 0 \<le> sint (mo_Nanos m) \<and> sint (mo_Nanos m) < 1000000000"

lemma sum_fees_relevant: "sum_fees target price fees = sum_fees target price (relevant_fees target fees)"
  by (induction target price fees rule: sum_fees.induct) (auto simp: relevant_fees_def split: sum.split)

lemma sdiv_nonneg: "0 \<le> x \<Longrightarrow> 0 < k \<Longrightarrow> x sdiv k = x div (k :: int)"
  by (cases "x = 0") (simp_all add: signed_divide_int_def)

lemma smod_nonneg: "0 \<le> x \<Longrightarrow> 0 < k \<Longrightarrow> x smod k = x mod (k :: int)"
  by (cases "x = 0") (simp_all add: signed_modulo_int_def)

lemma nanos_carry:
  fixes a b :: i32
  assumes "0 \<le> sint a" "sint a < 1000000000" "0 \<le> sint b" "sint b < 1000000000"
  shows "sint (i64_of_i32 (i32_div (a + b) 1000000000)) = (sint a + sint b) div 1000000000"
    and "sint (i32_mod (a + b) 1000000000) = (sint a + sint b) mod 1000000000"
proof -
  have s: "sint (a + b) = sint a + sint b"
    using assms by (intro sint_add_32) simp_all
  have k: "sint (1000000000 :: 32 word) = 1000000000" by simp
  have d: "sint a + sint b < 2000000000" "0 \<le> sint a + sint b" using assms by simp_all
  then have q: "0 \<le> (sint a + sint b) div 1000000000" "(sint a + sint b) div 1000000000 < 2"
    by (simp_all add: div_less_iff_less_mult pos_imp_zdiv_nonneg_iff)
  have sd: "sint (i32_div (a + b) 1000000000) = (sint a + sint b) div 1000000000"
    unfolding i32_div_def s k sdiv_nonneg [OF d(2) zero_less_numeral]
    using q by (intro sint_word_of_int_32) simp_all
  show "sint (i64_of_i32 (i32_div (a + b) 1000000000)) = (sint a + sint b) div 1000000000"
    unfolding i64_of_i32_def sd using q by (intro sint_word_of_int_64) simp_all
  have m: "0 \<le> (sint a + sint b) mod 1000000000" "(sint a + sint b) mod 1000000000 < 1000000000"
    by simp_all
  show "sint (i32_mod (a + b) 1000000000) = (sint a + sint b) mod 1000000000"
    unfolding i32_mod_def s k smod_nonneg [OF d(2) zero_less_numeral]
    using m by (intro sint_word_of_int_32) simp_all
qed

lemma AddMoney_exact:
  assumes "money_ok a" "money_ok b" "mo_CurrencyCode a = mo_CurrencyCode b"
    and room: "sint (mo_Units a) + sint (mo_Units b) + 1 < 2 ^ 63"
  obtains m where "AddMoney (Some a) (Some b) = Inr m" "money_ok m"
    "mo_CurrencyCode m = mo_CurrencyCode a" "money_value m = money_value a + money_value b"
    "sint (mo_Units m) \<le> sint (mo_Units a) + sint (mo_Units b) + 1"
proof -
  let ?n = "sint (mo_Nanos a) + sint (mo_Nanos b)"
  let ?x = "i64_of_i32 (i32_div (mo_Nanos a + mo_Nanos b) 1000000000)"
  let ?r = "i32_mod (mo_Nanos a + mo_Nanos b) 1000000000"
  let ?u = "mo_Units a + mo_Units b + ?x"
  note ok = assms(1,2) [unfolded money_ok_def]
  have x: "sint ?x = ?n div 1000000000" and r: "sint ?r = ?n mod 1000000000"
    using nanos_carry [of "mo_Nanos a" "mo_Nanos b"] ok by blast+
  have q: "0 \<le> ?n div 1000000000" "?n div 1000000000 \<le> 1"
    using ok by (simp_all add: pos_imp_zdiv_nonneg_iff, linarith)
  have "?u = word_of_int (sint (mo_Units a) + sint (mo_Units b) + sint ?x)" by simp
  then have u: "sint ?u = sint (mo_Units a) + sint (mo_Units b) + ?n div 1000000000"
    using sint_word_of_int_64 [of "sint (mo_Units a) + sint (mo_Units b) + sint ?x"] ok room q x
    by (smt (verit) zero_less_power)
  let ?m = "\<lparr>mo_CurrencyCode = mo_CurrencyCode a, mo_Units = ?u, mo_Nanos = ?r\<rparr>"
  show ?thesis
  proof (rule that [of ?m])
    show "AddMoney (Some a) (Some b) = Inr ?m" using assms(3) by (simp add: AddMoney_def Let_def)
    show "money_ok ?m" using ok u r q by (simp add: money_ok_def)
    show "mo_CurrencyCode ?m = mo_CurrencyCode a" by simp
    show "money_value ?m = money_value a + money_value b"
      using u r by (simp add: money_value_def distrib_right)
    show "sint (mo_Units ?m) \<le> sint (mo_Units a) + sint (mo_Units b) + 1" using u q by simp
  qed
qed

text \<open>The exact total of a list of fees, and the room a sum of them needs.\<close>

definition fee_money :: "DomainOperationFee \<Rightarrow> Money" where
  "fee_money fee = the (fee_Price fee)"

definition priced_in :: "string \<Rightarrow> DomainOperationFee list \<Rightarrow> bool" where
  "priced_in cur fees \<longleftrightarrow>
     list_all (\<lambda>fee. case fee_Price fee of None \<Rightarrow> False
                     | Some p \<Rightarrow> money_ok p \<and> mo_CurrencyCode p = cur) fees \<and>
     sum_list (map (\<lambda>fee. sint (mo_Units (fee_money fee)) + 1) fees) < 2 ^ 63"

lemma sum_fees_exact:
  assumes "money_ok acc" "mo_CurrencyCode acc = cur" "relevant_fees target fees = fees"
    and "list_all (\<lambda>fee. case fee_Price fee of None \<Rightarrow> False
                     | Some p \<Rightarrow> money_ok p \<and> mo_CurrencyCode p = cur) fees"
    and "sint (mo_Units acc) + sum_list (map (\<lambda>fee. sint (mo_Units (fee_money fee)) + 1) fees) < 2 ^ 63"
  shows "\<exists>m. sum_fees target (Some acc) fees = Inr (Some m) \<and> mo_CurrencyCode m = cur \<and>
    money_value m = money_value acc + sum_list (map (\<lambda>fee. money_value (fee_money fee)) fees)"
  using assms
proof (induction fees arbitrary: acc)
  case Nil
  then show ?case by simp
next
  case (Cons fee fees)
  then obtain p where p: "fee_Price fee = Some p" "money_ok p" "mo_CurrencyCode p = cur"
    by (auto split: option.splits)
  have rel: "fee_Operation fee = target" "fee_Phase fee = None" "relevant_fees target fees = fees"
    using Cons.prems(3) unfolding relevant_fees_def
    by (auto split: if_splits dest: filter_eq_ConsD Cons_eq_filterD)
  let ?U = "\<lambda>fs. sum_list (map (\<lambda>fee. sint (mo_Units (fee_money fee)) + 1) fs)"
  have nonneg: "0 \<le> ?U fees"
    using Cons.prems(4)
    by (induction fees) (auto simp: fee_money_def money_ok_def split: option.splits)
  have room: "sint (mo_Units acc) + (sint (mo_Units p) + 1 + ?U fees) < 2 ^ 63"
    using Cons.prems(5) p(1) by (simp add: fee_money_def)
  then have room': "sint (mo_Units acc) + sint (mo_Units p) + 1 < 2 ^ 63"
    using nonneg by linarith
  obtain m where m: "AddMoney (Some acc) (Some p) = Inr m" "money_ok m" "mo_CurrencyCode m = cur"
    "money_value m = money_value acc + money_value p"
    "sint (mo_Units m) \<le> sint (mo_Units acc) + sint (mo_Units p) + 1"
    by (rule AddMoney_exact [OF Cons.prems(1) p(2) _ room']) (use Cons.prems(2) p(3) in auto)
  have "sint (mo_Units m) + ?U fees < 2 ^ 63" using m(5) room by linarith
  then obtain m' where "sum_fees target (Some m) fees = Inr (Some m')" "mo_CurrencyCode m' = cur"
    "money_value m' = money_value m + sum_list (map (\<lambda>fee. money_value (fee_money fee)) fees)"
    using Cons.IH [of m] m rel Cons.prems(4) by auto
  then show ?case using m(1,4) rel p(1) by (simp add: fee_money_def)
qed

lemma getDomainOperationPrice_exact:
  assumes "feeTypeMap operation = Some target" "relevant_fees target fees \<noteq> []"
    and "priced_in cur (relevant_fees target fees)"
  obtains m where "getDomainOperationPrice fees operation = Inr (Some m)" "mo_CurrencyCode m = cur"
    "money_value m = sum_list (map (\<lambda>fee. money_value (fee_money fee)) (relevant_fees target fees))"
proof -
  obtain fee rest where rf: "relevant_fees target fees = fee # rest"
    using assms(2) by (meson neq_Nil_conv)
  moreover have "relevant_fees target (relevant_fees target fees) = relevant_fees target fees"
    by (simp add: relevant_fees_def)
  ultimately have "relevant_fees target (fee # rest) = fee # rest" by simp
  then have rel: "fee_Operation fee = target" "fee_Phase fee = None" "relevant_fees target rest = rest"
    unfolding relevant_fees_def by (auto split: if_splits dest: filter_eq_ConsD Cons_eq_filterD)
  obtain p where p: "fee_Price fee = Some p" "money_ok p" "mo_CurrencyCode p = cur"
    using assms(3) rf by (auto simp: priced_in_def split: option.splits)
  obtain m where m: "sum_fees target (Some p) rest = Inr (Some m)" "mo_CurrencyCode m = cur"
    "money_value m = money_value p + sum_list (map (\<lambda>fee. money_value (fee_money fee)) rest)"
    using sum_fees_exact [of p cur target rest] p rel assms(3) rf
    by (auto simp: priced_in_def fee_money_def)
  have "sum_fees target None fees = Inr (Some m)"
    unfolding sum_fees_relevant [of target None fees] rf using rel p(1) m(1) by simp
  moreover have "fees \<noteq> []" using rf by (auto simp: relevant_fees_def)
  ultimately show ?thesis
    using that m(2,3) assms(1) rf p(1) by (simp add: getDomainOperationPrice_def fee_money_def)
qed

section \<open>Outcomes\<close>

text \<open>
  The price of a premium operation is the exact sum, to the nano, of the fees for that operation
  that carry no phase, in their common currency; fees for other operations or phases do not count.
\<close>

theorem operation_price_sum:
  assumes "feeTypeMap operation = Some target" "relevant_fees target fees \<noteq> []"
    "priced_in cur (relevant_fees target fees)"
  shows "\<exists>m. getDomainOperationPrice fees operation = Inr (Some m) \<and> mo_CurrencyCode m = cur \<and>
     money_value m = (\<Sum>fee\<leftarrow>relevant_fees target fees. money_value (fee_money fee))"
  using assms by (rule getDomainOperationPrice_exact) blast

definition sample_fees :: "DomainOperationFee list" where
  "sample_fees =
     [\<lparr>fee_Operation = RENEWAL, fee_Phase = None,
       fee_Price = Some \<lparr>mo_CurrencyCode = ''USD'', mo_Units = 1, mo_Nanos = 600000000\<rparr>\<rparr>,
      \<lparr>fee_Operation = RESTORE, fee_Phase = None,
       fee_Price = Some \<lparr>mo_CurrencyCode = ''USD'', mo_Units = 50, mo_Nanos = 0\<rparr>\<rparr>,
      \<lparr>fee_Operation = RENEWAL, fee_Phase = None,
       fee_Price = Some \<lparr>mo_CurrencyCode = ''USD'', mo_Units = 2, mo_Nanos = 500000000\<rparr>\<rparr>]"

theorem operation_price_sum_witness:
  "\<exists>m. getDomainOperationPrice sample_fees ''renew'' = Inr (Some m) \<and> mo_CurrencyCode m = ''USD'' \<and>
     money_value m = 4100000000"
  using operation_price_sum [of "''renew''" RENEWAL sample_fees "''USD''"]
  by (simp add: feeTypeMap_def relevant_fees_def sample_fees_def priced_in_def money_ok_def money_value_def
      fee_money_def)

text \<open>
  C7. The answer to a domain check: the validation job is completed exactly if the registry
  succeeds and names one domain, the domain is available when it is to be created, and a premium
  domain is allowed by the TLD's settings and, for a premium operation, costs what the order says.
\<close>

theorem check_outcome:
  assumes "calm S" "statuses_known tx" "job_Info job = Some info"
    "unmarshal (dec_DomainCheckValidationData (sv_f64 S)) zero_DomainCheckValidationData (vj_Data info) = Some data"
    "dck_RegistryResponse resp = Some rr"
  shows "wp (RyValidateDomainCheckHandler S resp tx job) (\<lambda>r h'. r = Ret None \<and>
     (\<exists>msg. closes tx job
        (if rr_IsSuccess rr \<and> (\<exists>d. dck_Domains resp = [d] \<and>
              (dchk_OrderType data = ''create'' \<longrightarrow> av_IsAvailable d) \<and>
              (isPremiumDomain (av_PricingTier d) \<longrightarrow> dchk_PremiumDomainEnabled data \<and>
                 (dchk_PremiumOperation data = Some True \<longrightarrow>
                    (\<exists>price p. getDomainOperationPrice (av_Fees d) (dchk_OrderType data) = Inr price \<and>
                       dchk_Price data = Some p \<and> sv_money_equal S (ToMoneyMsg (sv_f64 S) p) price))))
         then ''completed'' else ''failed'') msg h h')) h"
proof -
  have finish: "wp (finish_job S tx job st jrd) (\<lambda>r h'. r = Ret None \<and> (\<exists>msg. closes tx job st msg h h')) h"
    if "st \<in> final_statuses" for st jrd
    using assms(1-3) that by (intro wp_finish_job) auto
  have finish_msg: "wp (finish_job S tx (job\<lparr>job_ResultMessage := m\<rparr>) JobStatus_Failed jrd)
      (\<lambda>r h'. r = Ret None \<and> (\<exists>msg. closes tx job ''failed'' msg h h')) h" for jrd m
    using assms(1-3) closes_same_ID [of "job\<lparr>job_ResultMessage := m\<rparr>" job] by (intro wp_finish_job) auto
  have failed: "wp (fail_with S tx job msg jrd) (\<lambda>r h'. r = Ret None \<and>
      (\<exists>msg. closes tx job ''failed'' msg h h')) h" for msg jrd
    using assms(1-3) by (intro wp_fail_with) auto
  have refused: "wp (fail_registry S tx job (Some rr) jrd) (\<lambda>r h'. r = Ret None \<and>
      (\<exists>msg. closes tx job ''failed'' msg h h')) h" for jrd
    using assms(1-3) by (intro wp_fail_registry) auto
  have ok: "handleCheckResponse S d data = None \<longleftrightarrow>
      (isPremiumDomain (av_PricingTier d) \<longrightarrow> dchk_PremiumDomainEnabled data \<and>
         (dchk_PremiumOperation data = Some True \<longrightarrow>
            (\<exists>price p. getDomainOperationPrice (av_Fees d) (dchk_OrderType data) = Inr price \<and>
               dchk_Price data = Some p \<and> sv_money_equal S (ToMoneyMsg (sv_f64 S) p) price)))" for d
    by (auto simp: handleCheckResponse_def split: sum.split option.splits)
  have "wp (RyValidateDomainCheckHandler S resp tx job) (\<lambda>r h'. r = Ret None \<and>
     (\<exists>msg. closes tx job
        (if rr_IsSuccess rr \<and> (\<exists>d. dck_Domains resp = [d] \<and>
              (dchk_OrderType data = ''create'' \<longrightarrow> av_IsAvailable d) \<and> handleCheckResponse S d data = None)
         then ''completed'' else ''failed'') msg h h')) h"
  proof (cases "rr_IsSuccess rr")
    case False
    then show ?thesis
      using assms(3-5) refused by (simp add: RyValidateDomainCheckHandler_def GetIsSuccess_def Let_def)
  next
    case True
    show ?thesis
    proof (cases "\<exists>d. dck_Domains resp = [d]")
      case False
      then have "(case dck_Domains resp of [] \<Rightarrow> x | [d] \<Rightarrow> f d | d # d' # ds \<Rightarrow> x) = x" for x :: "(hist, gerr option) go" and f
        by (auto split: list.split)
      then show ?thesis
        using assms(3-5) True False failed by (simp add: RyValidateDomainCheckHandler_def GetIsSuccess_def Let_def)
    next
      case domain: True
      then obtain d where d: "dck_Domains resp = [d]" by blast
      show ?thesis
        using assms(3-5) True d
        by (cases "handleCheckResponse S d data")
           (simp_all add: RyValidateDomainCheckHandler_def GetIsSuccess_def Let_def finish finish_msg)
    qed
  qed
  then show ?thesis unfolding ok .
qed

definition sample_check :: DomainCheckResponse where
  "sample_check = \<lparr>dck_Domains = [\<lparr>av_IsAvailable = False, av_PricingTier = Some ''standard'', av_Fees = []\<rparr>],
     dck_Extensions = [], dck_RegistryResponse = Some (sample_rr True 1000)\<rparr>"

theorem check_outcome_witness:
  "wp (RyValidateDomainCheckHandler (plain_services ''t'') sample_check sample_db (plain_job ''t''))
     (\<lambda>r h'. r = Ret None \<and> (\<exists>msg. closes sample_db (plain_job ''t'') ''completed'' msg [] h')) []"
proof -
  have "\<not> isPremiumDomain (Some ''standard'')" by code_simp
  then show ?thesis
    using check_outcome [OF plain_calm sample_statuses_known, of "plain_job ''t''" "sample_info ''t'' (JObj [])"
        "''t''" zero_DomainCheckValidationData sample_check "sample_rr True 1000" "[]"]
    by (simp add: dec_DomainCheckValidationData_def unmarshal_empty sample_check_def
        zero_DomainCheckValidationData_def)
qed

text \<open>
  The answer to a claims check. An answer without exactly one launch result fails the job. A
  registered trademark requires claims data in the order. Without one, the claims data is removed
  from the order item and the job is completed, unless the order item is not found or cannot be
  written. The job is written last in every case.
\<close>

theorem claims_outcome:
  assumes "calm S" "statuses_known tx" "job_Info job = Some info"
    "unmarshal dec_DomainClaimsValidationData zero_DomainClaimsValidationData (vj_Data info) = Some data"
    "dck_RegistryResponse resp = Some rr" "rr_IsSuccess rr" "rr_EppCode rr = 1000"
    "sv_uuid_ok S (dcv_OrderItemId data)"
  defines "q \<equiv> Query (db_gorm tx) (FirstOrderItemCreateDomain (dcv_OrderItemId data))"
  defines "e \<equiv> \<lambda>item. Exec (db_gorm tx) (UpdatesOrderItemCreateDomain (item\<lparr>ocd_LaunchData := None\<rparr>))"
  shows "wp (RyValidateDomainClaimsHandler S resp tx job) (\<lambda>r h'.
     case sv_launch S (case map_of (dck_Extensions resp) ''launch'' of None \<Rightarrow> None | Some x \<Rightarrow> x) of
       Inr [True] \<Rightarrow> r = Ret None \<and>
         (\<exists>msg. closes tx job (if dcv_LaunchData data = None then ''failed'' else ''completed'') msg h h')
     | Inr [False] \<Rightarrow>
         (case sv_ocd S h q of
            (Some item, None) \<Rightarrow> r = Ret None \<and>
              (\<exists>msg. closes tx job (if sv_err S (q # h) (e item) = None then ''completed'' else ''failed'')
                 msg (e item # q # h) h')
          | (None, None) \<Rightarrow> r = Panicked ''nil pointer dereference'' \<and> h' = q # h
          | (row, Some x) \<Rightarrow> r = Ret None \<and> (\<exists>msg. closes tx job ''failed'' msg (q # h) h'))
     | _ \<Rightarrow> r = Ret None \<and> (\<exists>msg. closes tx job ''failed'' msg h h')) h"
proof -
  have failed: "wp (fail_with S tx job msg jrd) (\<lambda>r h'. r = Ret None \<and>
      (\<exists>msg. closes tx job ''failed'' msg g h')) g" for msg jrd g
    using assms(1-3) by (intro wp_fail_with) auto
  have completed: "wp (finish_job S tx job JobStatus_Completed jrd) (\<lambda>r h'. r = Ret None \<and>
      (\<exists>msg. closes tx job ''completed'' msg g h')) g" for jrd g
    using assms(1-3) by (intro wp_finish_job) auto
  let ?l = "sv_launch S (case map_of (dck_Extensions resp) ''launch'' of None \<Rightarrow> None | Some x \<Rightarrow> x)"
  let ?rest = "\<lambda>data. bnd (GetOrderItemCreateDomain S tx (dcv_OrderItemId data)) (\<lambda>(orderItem, err).
                   if err \<noteq> None then fail_with S tx job ''domain validation failed'' None
                   else bnd (deref orderItem) (\<lambda>orderItem.
                     bnd (UpdateOrderItemCreateDomain S tx (orderItem\<lparr>ocd_LaunchData := None\<rparr>)) (\<lambda>err.
                     if err \<noteq> None then fail_with S tx job ''domain validation failed'' None
                     else finish_job S tx job JobStatus_Completed (Some (result_data (DomainCheckResponseMsg resp))))))"
  have body: "RyValidateDomainClaimsHandler S resp tx job =
      (case ?l of Inl x \<Rightarrow> fail_with S tx job ''domain validation failed'' None
       | Inr ls \<Rightarrow> if length ls \<noteq> 1 then fail_with S tx job ''domain validation failed'' None
           else if ls ! 0 then (if dcv_LaunchData data = None then fail_with S tx job ''claims data is missing'' None
               else finish_job S tx job JobStatus_Completed (Some (result_data (DomainCheckResponseMsg resp))))
           else ?rest data)"
    using assms(3-7) by (simp add: RyValidateDomainClaimsHandler_def GetIsSuccess_def GetEppCode_def Let_def)
  consider x where "?l = Inl x" | ls where "?l = Inr ls" "length ls \<noteq> 1" | "?l = Inr [True]" | "?l = Inr [False]"
    by (cases ?l) (metis (full_types) length_0_conv length_Suc_conv One_nat_def)+
  then show ?thesis
  proof cases
    case 4
    show ?thesis
      unfolding body 4 using assms(1,8) failed completed
      by (cases "sv_ocd S h q"; cases "fst (sv_ocd S h q)"; cases "snd (sv_ocd S h q)";
          cases "sv_err S (q # h) (e (the (fst (sv_ocd S h q))))")
         (simp_all add: GetOrderItemCreateDomain_def first_row_def UpdateOrderItemCreateDomain_def q_def e_def wp Let_def)
  next
    case 2
    then show ?thesis unfolding body 2(1) using failed
      by (cases ls rule: remdups_adj.cases; cases "hd ls") simp_all
  qed (use failed completed in \<open>simp_all add: body\<close>)
qed

theorem claims_outcome_witness:
  "\<exists>e q. wp (RyValidateDomainClaimsHandler (plain_services ''t'') sample_check sample_db (plain_job ''t''))
     (\<lambda>r h'. r = Ret None \<and> (\<exists>msg. closes sample_db (plain_job ''t'') ''completed'' msg [e, q] h')) []"
  using claims_outcome [OF plain_calm sample_statuses_known, of "plain_job ''t''" "sample_info ''t'' (JObj [])"
      zero_DomainClaimsValidationData sample_check "sample_rr True 1000" "''t''" "[]"]
  by (simp add: dec_DomainClaimsValidationData_def unmarshal_empty sample_check_def plain_services_def
      sample_services_def) blast

end
