(* ===== verification/DU_Transfer.thy ===== *)
theory DU_Transfer
  imports DU_Common "HOL-Library.Multiset"
begin

text \<open>
  The domain updater's handlers of transfer answers: transfer-in requests, transfer-away and
  cancel actions, and the domain data fetched after a transfer
  (\<^verbatim>\<open>ry_domain_transfer_in_request_handler.go\<close>, \<^verbatim>\<open>ry_domain_transfer_action_handler.go\<close>,
  \<^verbatim>\<open>ry_domain_transfer_in_handler.go\<close>, \<^verbatim>\<open>ry_validate_domain_transferable.go\<close>).
\<close>

section \<open>Transfer-away and cancel actions\<close>

definition RyDomainTransferActionHandler ::
  "services \<Rightarrow> message \<Rightarrow> database \<Rightarrow> Job \<Rightarrow> (hist, gerr option) go" where
  "RyDomainTransferActionHandler S message tx job =
     bnd (as_DomainTransferResponse message) (\<lambda>response.
     bnd (deref (job_Info job)) (\<lambda>info.
     case unmarshal dec_DomainTransferActionData zero_DomainTransferActionData (vj_Data info) of
       None \<Rightarrow> fail_decode S tx job ''DomainTransferActionData'' (vj_Data info)
     | Some data \<Rightarrow>
         (let registryResponse = dtx_RegistryResponse response; jrd = result_data message in
          if GetIsSuccess registryResponse then
            bnd (deref registryResponse) (\<lambda>rr.
            if rr_EppCode rr \<noteq> EppCode_Success
            then finish_job S tx job JobStatus_Failed (Some jrd)
            else finish_job S tx job JobStatus_Completed (Some jrd))
          else fail_registry S tx job registryResponse jrd)))"

section \<open>Transfer-in requests\<close>

definition ProcessRyDomainTransferInResponse ::
  "services \<Rightarrow> DomainTransferResponse \<Rightarrow> Job \<Rightarrow> database \<Rightarrow> (hist, gerr option) go" where
  "ProcessRyDomainTransferInResponse S response job tx =
     bnd (deref (job_Info job)) (\<lambda>info.
     case vj_ReferenceID info of
       None \<Rightarrow> ret None
     | Some refId \<Rightarrow>
         UpdateProvisionDomainTransferInRequest S tx (zero_ProvisionDomainTransferInRequest
           \<lparr>pdtr_ID := refId,
            pdtr_RequestedBy := Some (dtx_RequestedBy response),
            pdtr_RequestedDate := TimestampToTime (dtx_RequestedDate response),
            pdtr_ActionBy := Some (dtx_ActionBy response),
            pdtr_ActionDate := TimestampToTime (dtx_ActionDate response),
            pdtr_ExpiryDate := TimestampToTime (dtx_ExpiryDate response),
            pdtr_TransferStatusID := GetTransferStatusId tx (dtx_Status response),
            pdtr_StatusID := GetProvisionStatusId tx ProvisionStatus_PendingAction\<rparr>))"

definition RyDomainTransferInRequestHandler ::
  "services \<Rightarrow> message \<Rightarrow> database \<Rightarrow> Job \<Rightarrow> (hist, gerr option) go" where
  "RyDomainTransferInRequestHandler S message tx job =
     bnd (as_DomainTransferResponse message) (\<lambda>response.
     bnd (deref (job_Info job)) (\<lambda>info.
     case unmarshal (dec_DomainTransferInRequestData (sv_f64 S)) zero_DomainTransferInRequestData
            (vj_Data info) of
       None \<Rightarrow> fail_decode S tx job ''DomainTransferInRequestData'' (vj_Data info)
     | Some data \<Rightarrow>
         (let registryResponse = dtx_RegistryResponse response; jrd = result_data message in
          if GetIsSuccess registryResponse then
            bnd (deref registryResponse) (\<lambda>rr.
            if rr_EppCode rr = EppCode_Pending then
              bnd (ProcessRyDomainTransferInResponse S response job tx) (\<lambda>err.
              case err of
                Some e \<Rightarrow> fail_with S tx job (err_text e) (Some jrd)
              | None \<Rightarrow> finish_job S tx job JobStatus_CompletedConditionally (Some jrd))
            else ret None)
          else fail_registry S tx job registryResponse jrd)))"

section \<open>Domain data after a transfer\<close>

definition ds_row :: "string \<Rightarrow> u32 \<times> u32 \<times> u32 \<times> string \<Rightarrow> TransferInDomainSecdnsDsDatum" where
  "ds_row pid = (\<lambda>(alg, keyTag, digestType, digest).
     \<lparr>tds_ID = [], tds_KeyTag = keyTag, tds_Algorithm = alg, tds_DigestType = digestType,
      tds_Digest = digest, tds_KeyDataID = None, tds_ProvisionDomainTransferInID = pid\<rparr>)"

definition key_row :: "string \<Rightarrow> u32 \<times> u32 \<times> u32 \<times> string \<Rightarrow> TransferInDomainSecdnsKeyDatum" where
  "key_row pid = (\<lambda>(alg, flags, protocol, pubKey).
     \<lparr>tky_ID = [], tky_Flags = flags, tky_Protocol = protocol, tky_Algorithm = alg,
      tky_PublicKey = pubKey, tky_ProvisionDomainTransferInID = pid\<rparr>)"

text \<open>
  One turn of the loop over the extensions, in the order this run visits them. It fills the row in
  place, so it returns the row beside the error.
\<close>

definition process_extension ::
  "services \<Rightarrow> database \<Rightarrow> ProvisionDomainTransferIn \<Rightarrow> string \<times> any option
     \<Rightarrow> (hist, ProvisionDomainTransferIn \<times> gerr option) go" where
  "process_extension S tx pdti = (\<lambda>(extKey, extValue).
     if extKey = ''secdns'' then
       (case sv_secdns S extValue of
          Inl e \<Rightarrow> ret (pdti, Some (ErrWrap ''failed to unmarshal secdns extension'' e))
        | Inr (DsSet dsData) \<Rightarrow>
            (let pdti = pdti\<lparr>pdti_SecdnsType := Some ''ds_data''\<rparr> in
             bnd (CreateDsDataSet S tx (map (ds_row (pdti_ID pdti)) dsData)) (\<lambda>err.
             case err of
               Some e \<Rightarrow> ret (pdti, Some (ErrWrap ''failed to create ds data set'' e))
             | None \<Rightarrow> ret (pdti, None)))
        | Inr (KeySet keyData) \<Rightarrow>
            (let pdti = pdti\<lparr>pdti_SecdnsType := Some ''key_data''\<rparr> in
             bnd (CreateKeyDataSet S tx (map (key_row (pdti_ID pdti)) keyData)) (\<lambda>err.
             case err of
               Some e \<Rightarrow> ret (pdti, Some (ErrWrap ''failed to create key data set'' e))
             | None \<Rightarrow> ret (pdti, None)))
        | Inr NoSecdns \<Rightarrow> ret (pdti, Some (ErrNew ''unsupported secdns extension data type: <nil>'')))
     else if extKey = ''idn'' then
       (case sv_idn S extValue of
          Inl e \<Rightarrow> ret (pdti, Some (ErrWrap ''failed to unmarshal idn extension'' e))
        | Inr (uname, table) \<Rightarrow> ret (pdti\<lparr>pdti_Uname := Some uname, pdti_Language := Some table\<rparr>, None))
     else ret (pdti, None))"

fun processExtensions ::
  "services \<Rightarrow> database \<Rightarrow> ProvisionDomainTransferIn \<Rightarrow> extensions
     \<Rightarrow> (hist, ProvisionDomainTransferIn \<times> gerr option) go" where
  "processExtensions S tx pdti [] = ret (pdti, None)"
| "processExtensions S tx pdti (x # xs) =
     bnd (process_extension S tx pdti x) (\<lambda>(pdti, err).
     if err \<noteq> None then ret (pdti, err) else processExtensions S tx pdti xs)"

definition RyDomainTransferInHandler ::
  "services \<Rightarrow> message \<Rightarrow> database \<Rightarrow> Job \<Rightarrow> (hist, gerr option) go" where
  "RyDomainTransferInHandler S message tx job =
     bnd (as_DomainInfoResponse message) (\<lambda>response.
     bnd (deref (job_Info job)) (\<lambda>info.
     case unmarshal dec_DomainTransferInData zero_DomainTransferInData (vj_Data info) of
       None \<Rightarrow> fail_decode S tx job ''DomainTransferInData'' (vj_Data info)
     | Some data \<Rightarrow>
         (let registryResponse = din_RegistryResponse response; jrd = result_data message in
          if GetIsSuccess registryResponse then
            (let hosts = (case go_slice (din_Hosts response) of [] \<Rightarrow> None | hs \<Rightarrow> Some hs);
                 pdti = zero_ProvisionDomainTransferIn
                   \<lparr>pdti_ID := dti_ProvisionDomainTransferInId data,
                    pdti_RyCreatedDate := TimestampToTime (din_CreatedDate response),
                    pdti_RyExpiryDate := TimestampToTime (din_ExpiryDate response),
                    pdti_RyTransferedDate := TimestampToTime (din_TransferredDate response),
                    pdti_Hosts := Some hosts\<rparr>
             in bnd (processExtensions S tx pdti (din_Extensions response)) (\<lambda>(pdti, err).
                if err \<noteq> None
                then fail_with S tx job ''Failed to handle extensions for transferred domain'' (Some jrd)
                else
                  bnd (UpdateProvisionDomainTransferIn S tx pdti) (\<lambda>err.
                  case err of
                    Some e \<Rightarrow> fail_with S tx job (err_text e) (Some jrd)
                  | None \<Rightarrow> finish_job S tx job JobStatus_Completed (Some jrd))))
          else fail_registry S tx job registryResponse jrd)))"

section \<open>Whether a domain can be transferred in\<close>

definition RyValidateDomainTransferableHandler ::
  "services \<Rightarrow> message \<Rightarrow> database \<Rightarrow> Job \<Rightarrow> (hist, gerr option) go" where
  "RyValidateDomainTransferableHandler S message tx job =
     bnd (as_DomainInfoResponse message) (\<lambda>response.
     bnd (deref (job_Info job)) (\<lambda>info.
     case unmarshal dec_DomainTransferValidationData zero_DomainTransferValidationData (vj_Data info) of
       None \<Rightarrow> fail_decode S tx job ''DomainTransferValidationData'' (vj_Data info)
     | Some data \<Rightarrow>
         (let registryResponse = din_RegistryResponse response; jrd = result_data message in
          if \<not> GetIsSuccess registryResponse \<or> GetEppCode registryResponse \<noteq> EppCode_Success
          then fail_registry S tx job registryResponse jrd
          else if din_Clid response = acc_RegistrarID (dtv_Accreditation data)
          then fail_with S tx job ''Domain is already owned by the same accreditation'' (Some jrd)
          else
            bnd (observe (\<lambda>h. sv_now S h 0)) (\<lambda>now.
            let newExpiryDate = time_AddYears (AsTime (din_ExpiryDate response)) (uint (dtv_TransferPeriod data));
                maxExpiryDate = time_AddYears now (uint (dtv_DomainMaxLifetime data))
            in if time_After newExpiryDate maxExpiryDate
               then fail_with S tx job ''Domain transfer period exceeds maximum allowed lifetime'' (Some jrd)
               else if list_ex (\<lambda>status. status = EPPStatusCode_ClientTransferProhibited \<or>
                                         status = EPPStatusCode_ServerTransferProhibited)
                         (din_Statuses response)
               then fail_with S tx job ''Domain is not transferable'' (Some jrd)
               else (case map_of (din_Extensions response) ''rgp'' of
                       None \<Rightarrow> finish_job S tx job JobStatus_Completed (Some jrd)
                     | Some rgpExt \<Rightarrow>
                         (case sv_rgp S rgpExt of
                            Inl e \<Rightarrow> fail_with S tx job ''Failed to handle extensions for domain to be transferred''
                                       (Some jrd)
                          | Inr rgpstatus \<Rightarrow>
                              if rgpstatus = RgpStatus_TransferPeriod
                              then fail_with S tx job ''Domain is in transfer period'' (Some jrd)
                              else finish_job S tx job JobStatus_Completed (Some jrd)))))))"

section \<open>The bodies keep the contract\<close>

lemma adds_RyDomainTransferActionHandler [adds_rules]:
  "adds (body_event tx job) is_job_write (Suc 0) (RyDomainTransferActionHandler S m tx job)"
  unfolding RyDomainTransferActionHandler_def by (intro adds_rules) simp_all

lemma adds_ProcessRyDomainTransferInResponse [adds_rules]:
  "adds (body_event tx job0) is_job_write 0 (ProcessRyDomainTransferInResponse S response job tx)"
  unfolding ProcessRyDomainTransferInResponse_def row_ops by (intro adds_rules) simp_all

lemma adds_RyDomainTransferInRequestHandler [adds_rules]:
  "adds (body_event tx job) is_job_write (Suc 0) (RyDomainTransferInRequestHandler S m tx job)"
  unfolding RyDomainTransferInRequestHandler_def by (intro adds_rules) simp_all

lemma adds_process_extension [adds_rules]:
  "adds (body_event tx job) is_job_write 0 (process_extension S tx pdti x)"
  unfolding process_extension_def row_ops Let_def
  by (auto intro!: adds_rules split: secdns_data.split sum.split)

lemma adds_processExtensions [adds_rules]:
  "adds (body_event tx job) is_job_write 0 (processExtensions S tx pdti xs)"
  by (induction S tx pdti xs rule: processExtensions.induct) (auto intro!: adds_rules)

lemma adds_RyDomainTransferInHandler [adds_rules]:
  "adds (body_event tx job) is_job_write (Suc 0) (RyDomainTransferInHandler S m tx job)"
  unfolding RyDomainTransferInHandler_def row_ops by (intro adds_rules) simp_all

lemma adds_RyValidateDomainTransferableHandler [adds_rules]:
  "adds (body_event tx job) is_job_write (Suc 0) (RyValidateDomainTransferableHandler S m tx job)"
  unfolding RyValidateDomainTransferableHandler_def by (intro adds_rules) simp_all

lemma ends_RyDomainTransferActionHandler [ends_rules]:
  "ends (\<lambda>err h. err = None \<longrightarrow> settled S tx job h) (RyDomainTransferActionHandler S m tx job)"
  unfolding RyDomainTransferActionHandler_def by (intro ends_rules) simp_all

lemma ends_RyDomainTransferInHandler [ends_rules]:
  "ends (\<lambda>err h. err = None \<longrightarrow> settled S tx job h) (RyDomainTransferInHandler S m tx job)"
  unfolding RyDomainTransferInHandler_def by (intro ends_rules) simp_all

lemma ends_RyValidateDomainTransferableHandler [ends_rules]:
  "ends (\<lambda>err h. err = None \<longrightarrow> settled S tx job h) (RyValidateDomainTransferableHandler S m tx job)"
  unfolding RyValidateDomainTransferableHandler_def by (intro ends_rules) simp_all

section \<open>Outcomes\<close>

text \<open>
  The answer to a transfer-in request. A refusal fails the job. Code 1001 records the transfer's
  state in the request's row and completes the job conditionally; a row that cannot be written
  fails it. Any other successful code changes nothing: the job stays in processing.
\<close>

theorem transfer_in_request_outcome:
  assumes "calm S" "statuses_known tx" "job_Info job = Some info" "vj_ReferenceID info = Some refId"
    "unmarshal (dec_DomainTransferInRequestData (sv_f64 S)) zero_DomainTransferInRequestData (vj_Data info) = Some data"
    "dtx_RegistryResponse resp = Some rr"
  defines "e \<equiv> Exec (db_gorm tx) (UpdatesProvisionDomainTransferInRequest (zero_ProvisionDomainTransferInRequest
       \<lparr>pdtr_ID := refId, pdtr_RequestedBy := Some (dtx_RequestedBy resp),
        pdtr_RequestedDate := map_option (\<lambda>t. AsTime (Some t)) (dtx_RequestedDate resp),
        pdtr_ActionBy := Some (dtx_ActionBy resp),
        pdtr_ActionDate := map_option (\<lambda>t. AsTime (Some t)) (dtx_ActionDate resp),
        pdtr_ExpiryDate := map_option (\<lambda>t. AsTime (Some t)) (dtx_ExpiryDate resp),
        pdtr_TransferStatusID := GetTransferStatusId tx (dtx_Status resp),
        pdtr_StatusID := GetProvisionStatusId tx ''pending_action''\<rparr>))"
  shows "wp (RyDomainTransferInRequestHandler S (DomainTransferResponseMsg resp) tx job) (\<lambda>r h'. r = Ret None \<and>
     (if \<not> rr_IsSuccess rr
      then closes tx job ''failed'' (GetMessageFromRegistryResponse S (Some rr)) h h'
      else if rr_EppCode rr \<noteq> 1001 then h' = h
      else case sv_err S h e of
             Some x \<Rightarrow> closes tx job ''failed'' (Some (err_text x)) (e # h) h'
           | None \<Rightarrow> closes tx job ''completed_conditionally'' (job_ResultMessage job) (e # h) h')) h"
  using assms
  by (auto simp: RyDomainTransferInRequestHandler_def ProcessRyDomainTransferInResponse_def
      as_DomainTransferResponse_def UpdateProvisionDomainTransferInRequest_def GetIsSuccess_def
      TimestampToTime_map wp Let_def split: option.split intro!: closing)

definition sample_transfer :: "i32 \<Rightarrow> DomainTransferResponse" where
  "sample_transfer code = \<lparr>dtx_Name = [], dtx_Status = ''pending'', dtx_RequestedBy = ''a'', dtx_RequestedDate = None,
     dtx_ActionBy = ''b'', dtx_ActionDate = None, dtx_ExpiryDate = None,
     dtx_RegistryResponse = Some (sample_rr True code)\<rparr>"

theorem transfer_in_request_outcome_witness:
  "wp (RyDomainTransferInRequestHandler (plain_services ''t'') (DomainTransferResponseMsg (sample_transfer 1000))
         sample_db (plain_job ''t'')) (\<lambda>r h'. r = Ret None \<and> h' = []) []"
  using transfer_in_request_outcome [OF plain_calm sample_statuses_known, of "plain_job ''t''"
      "sample_info ''t'' (JObj [])" "''r1''" "''t''" zero_DomainTransferInRequestData
      "sample_transfer 1000" "sample_rr True 1000" "[]"]
  by (auto simp: dec_DomainTransferInRequestData_def unmarshal_empty sample_transfer_def)

text \<open>
  The answer to a transfer-away or cancel command settles the job without touching any other
  row: completed exactly if the registry reports success with code 1000.
\<close>

theorem transfer_action_outcome:
  assumes "calm S" "statuses_known tx" "job_Info job = Some info"
    "unmarshal dec_DomainTransferActionData zero_DomainTransferActionData (vj_Data info) = Some data"
    "dtx_RegistryResponse resp = Some rr"
  shows "wp (RyDomainTransferActionHandler S (DomainTransferResponseMsg resp) tx job) (\<lambda>r h'. r = Ret None \<and>
     (if rr_IsSuccess rr \<and> rr_EppCode rr = 1000 then closes tx job ''completed'' (job_ResultMessage job) h h'
      else \<exists>msg. closes tx job ''failed'' msg h h')) h"
  using assms
  by (auto simp: RyDomainTransferActionHandler_def as_DomainTransferResponse_def GetIsSuccess_def
      wp Let_def split: option.split intro!: closing)

theorem transfer_action_outcome_witness:
  "wp (RyDomainTransferActionHandler (plain_services ''t'') (DomainTransferResponseMsg (sample_transfer 1000))
         sample_db (plain_job ''t''))
     (\<lambda>r h'. r = Ret None \<and> closes sample_db (plain_job ''t'') ''completed'' None [] h') []"
  using transfer_action_outcome [OF plain_calm sample_statuses_known, of "plain_job ''t''"
      "sample_info ''t'' (JObj [])" zero_DomainTransferActionData "sample_transfer 1000" "sample_rr True 1000"
      "''t''" "[]"]
  by (auto simp: dec_DomainTransferActionData_def unmarshal_empty sample_transfer_def)

definition transferable :: "services \<Rightarrow> DomainTransferValidationData \<Rightarrow> DomainInfoResponse \<Rightarrow> gotime \<Rightarrow> bool" where
  "transferable S data resp now \<longleftrightarrow>
     GetIsSuccess (din_RegistryResponse resp) \<and> GetEppCode (din_RegistryResponse resp) = 1000 \<and>
     din_Clid resp \<noteq> acc_RegistrarID (dtv_Accreditation data) \<and>
     \<not> time_After (time_AddYears (AsTime (din_ExpiryDate resp)) (uint (dtv_TransferPeriod data)))
                  (time_AddYears now (uint (dtv_DomainMaxLifetime data))) \<and>
     ''clientTransferProhibited'' \<notin> set (din_Statuses resp) \<and>
     ''serverTransferProhibited'' \<notin> set (din_Statuses resp) \<and>
     (case map_of (din_Extensions resp) ''rgp'' of
        None \<Rightarrow> True
      | Some ext \<Rightarrow> (case sv_rgp S ext of Inl e \<Rightarrow> False | Inr st \<Rightarrow> st \<noteq> ''transferPeriod''))"

text \<open>
  A domain may be transferred in exactly if the registry answers with code 1000, another
  registrar sponsors it, the longer registration stays within the maximal lifetime, no status
  forbids transfers, and the registry does not report a transfer period. The validation job is
  completed then and fails otherwise, and nothing else is written.
\<close>

theorem transferable_outcome:
  assumes "calm S" "statuses_known tx" "job_Info job = Some info"
    "unmarshal dec_DomainTransferValidationData zero_DomainTransferValidationData (vj_Data info) = Some data"
    "din_RegistryResponse resp \<noteq> None"
  shows "wp (RyValidateDomainTransferableHandler S (DomainInfoResponseMsg resp) tx job) (\<lambda>r h'. r = Ret None \<and>
     (\<exists>msg. closes tx job (if transferable S data resp (sv_now S h 0) then ''completed'' else ''failed'')
              msg h h')) h"
proof -
  have completed: "wp (finish_job S tx job JobStatus_Completed jrd) (\<lambda>r h'. r = Ret None \<and>
      (\<exists>msg. closes tx job ''completed'' msg h h')) h" for jrd
    using assms(1-3) by (intro wp_finish_job) auto
  have failed: "wp (fail_with S tx job msg jrd) (\<lambda>r h'. r = Ret None \<and>
      (\<exists>msg. closes tx job ''failed'' msg h h')) h" for msg jrd
    using assms(1-3) by (intro wp_fail_with) auto
  have refused: "wp (fail_registry S tx job (din_RegistryResponse resp) jrd) (\<lambda>r h'. r = Ret None \<and>
      (\<exists>msg. closes tx job ''failed'' msg h h')) h" for jrd
    using assms(1-3,5) by (intro wp_fail_registry) auto
  have statuses: "list_ex (\<lambda>st. st = EPPStatusCode_ClientTransferProhibited \<or>
        st = EPPStatusCode_ServerTransferProhibited) (din_Statuses resp) \<longleftrightarrow>
      ''clientTransferProhibited'' \<in> set (din_Statuses resp) \<or> ''serverTransferProhibited'' \<in> set (din_Statuses resp)"
    unfolding list_ex_iff by blast
  show ?thesis
    using assms(3,4) completed failed refused
    by (simp add: RyValidateDomainTransferableHandler_def transferable_def as_DomainInfoResponse_def
        wp Let_def statuses split: option.split sum.split)
qed

definition sample_transfer_info :: DomainInfoResponse where
  "sample_transfer_info = \<lparr>din_Clid = ''other'', din_CreatedDate = None,
     din_ExpiryDate = Some \<lparr>ts_seconds = -62135596800, ts_nanos = 0\<rparr>,
     din_TransferredDate = None, din_Statuses = [''ok''], din_Hosts = None, din_Contacts = [], din_Nameservers = [], din_Extensions = [],
     din_RegistryResponse = Some (sample_rr True 1000)\<rparr>"

theorem transferable_outcome_witness:
  "wp (RyValidateDomainTransferableHandler (plain_services ''t'') (DomainInfoResponseMsg sample_transfer_info)
         sample_db (plain_job ''t''))
     (\<lambda>r h'. r = Ret None \<and> (\<exists>msg. closes sample_db (plain_job ''t'') ''completed'' msg [] h')) []"
proof -
  have "transferable (plain_services ''t'') zero_DomainTransferValidationData sample_transfer_info
      (sv_now (plain_services ''t'') [] 0)"
    by (simp add: transferable_def sample_transfer_info_def GetIsSuccess_def GetEppCode_def AsTime_def zero_time_def
        plain_services_def sample_services_def time_After_def zero_DomainTransferValidationData_def
        zero_Accreditation_def)
  then show ?thesis
    using transferable_outcome [OF plain_calm sample_statuses_known, of "plain_job ''t''"
        "sample_info ''t'' (JObj [])" zero_DomainTransferValidationData sample_transfer_info "''t''" "[]"]
    by (simp add: dec_DomainTransferValidationData_def unmarshal_empty sample_transfer_info_def)
qed

section \<open>The order of the extensions\<close>

text \<open>What one extension does to the row, and when it is accepted.\<close>

definition extension_row ::
  "services \<Rightarrow> string \<times> any option \<Rightarrow> ProvisionDomainTransferIn \<Rightarrow> ProvisionDomainTransferIn" where
  "extension_row S = (\<lambda>(k, v) row.
     if k = ''secdns'' then
       (case sv_secdns S v of
          Inr (DsSet ds) \<Rightarrow> row\<lparr>pdti_SecdnsType := Some ''ds_data''\<rparr>
        | Inr (KeySet ks) \<Rightarrow> row\<lparr>pdti_SecdnsType := Some ''key_data''\<rparr>
        | _ \<Rightarrow> row)
     else if k = ''idn'' then
       (case sv_idn S v of
          Inr (uname, table) \<Rightarrow> row\<lparr>pdti_Uname := Some uname, pdti_Language := Some table\<rparr>
        | _ \<Rightarrow> row)
     else row)"

definition extension_ok :: "services \<Rightarrow> string \<times> any option \<Rightarrow> bool" where
  "extension_ok S = (\<lambda>(k, v).
     (k = ''secdns'' \<longrightarrow> (case sv_secdns S v of Inl e \<Rightarrow> False | Inr d \<Rightarrow> d \<noteq> NoSecdns)) \<and>
     (k = ''idn'' \<longrightarrow> (case sv_idn S v of Inl e \<Rightarrow> False | Inr u \<Rightarrow> True)))"

lemma process_extension_result:
  assumes "\<And>h e. sv_err S h e = None"
  shows "\<exists>err h'. process_extension S tx row x h = (Ret (extension_row S x row, err), h') \<and>
    (err = None \<longleftrightarrow> extension_ok S x)"
  using assms
  by (cases x; cases "sv_secdns S (snd x)"; cases "sv_idn S (snd x)")
     (auto simp: process_extension_def extension_row_def extension_ok_def CreateDsDataSet_def CreateKeyDataSet_def
        exec_or_die_def perform_def bnd_def ret_def Let_def split: secdns_data.split)

lemma processExtensions_result:
  assumes "\<And>h e. sv_err S h e = None"
  shows "\<exists>row' err h'. processExtensions S tx row xs h = (Ret (row', err), h') \<and>
    (err = None \<longleftrightarrow> list_all (extension_ok S) xs) \<and>
    (err = None \<longrightarrow> row' = fold (extension_row S) xs row)"
proof (induction xs arbitrary: row h)
  case (Cons x xs)
  obtain err h1 where x: "process_extension S tx row x h = (Ret (extension_row S x row, err), h1)"
    "err = None \<longleftrightarrow> extension_ok S x"
    using process_extension_result [of S tx row x h] assms by blast
  show ?case
    using x Cons.IH [of "extension_row S x row" h1] by (cases err) (auto simp: bnd_run ret_def)
qed (simp add: ret_def)

lemma extension_row_cases:
  obtains "\<And>row. extension_row S x row = row"
  | t where "fst x = ''secdns''" "\<And>row. extension_row S x row = row\<lparr>pdti_SecdnsType := Some t\<rparr>"
  | u t where "fst x = ''idn''" "\<And>row. extension_row S x row = row\<lparr>pdti_Uname := Some u, pdti_Language := Some t\<rparr>"
proof (cases x)
  case (Pair k v)
  consider "k = ''secdns''" | "k = ''idn''" | "k \<noteq> ''secdns''" "k \<noteq> ''idn''" by blast
  then show ?thesis
  proof cases
    case 1
    then show ?thesis
    proof (cases "sv_secdns S v")
      case (Inr d)
      show ?thesis
      proof (cases d)
        case (DsSet ds)
        show ?thesis by (rule that(2) [of "''ds_data''"]) (simp_all add: extension_row_def Pair 1 Inr DsSet)
      next
        case (KeySet ks)
        show ?thesis by (rule that(2) [of "''key_data''"]) (simp_all add: extension_row_def Pair 1 Inr KeySet)
      qed (rule that(1), simp add: extension_row_def Pair 1 Inr)
    qed (rule that(1), simp add: extension_row_def Pair)
  next
    case 2
    then show ?thesis
    proof (cases "sv_idn S v")
      case (Inr ut)
      show ?thesis
        by (rule that(3) [of "snd ut" "fst ut"]) (simp_all add: extension_row_def Pair 2 Inr case_prod_beta)
    qed (rule that(1), simp add: extension_row_def Pair)
  next
    case 3
    then show ?thesis by (intro that(1)) (simp add: extension_row_def Pair)
  qed
qed

lemma extension_row_commute:
  assumes "fst x \<noteq> fst y"
  shows "extension_row S x \<circ> extension_row S y = extension_row S y \<circ> extension_row S x"
  by (rule extension_row_cases [of S x]; rule extension_row_cases [of S y])
     (use assms in \<open>simp_all add: fun_eq_iff\<close>)

text \<open>
  A Go map is visited in no fixed order; the transferred domain's row does not depend on it. If
  no write fails and the extensions are accepted in one order, they are accepted in every order,
  with the same row.
\<close>

theorem processExtensions_order:
  assumes "\<And>h e. sv_err S h e = None" "distinct (map fst xs)" "mset xs = mset ys"
    "processExtensions S tx row xs h = (Ret (row', None), h1)"
  shows "\<exists>h2. processExtensions S tx row ys h = (Ret (row', None), h2)"
proof -
  have "list_all (extension_ok S) xs" and row': "row' = fold (extension_row S) xs row"
    using processExtensions_result [of S tx row xs h] assms(1,4) by auto
  moreover have "set xs = set ys" using assms(3) by (rule mset_eq_setD)
  ultimately have ok: "list_all (extension_ok S) ys" by (simp add: list_all_iff)
  have "extension_row S x \<circ> extension_row S y = extension_row S y \<circ> extension_row S x"
    if "x \<in> set xs" "y \<in> set xs" for x y
    using that assms(2) extension_row_commute [of x y S] eq_key_imp_eq_value
    by (cases "fst x = fst y") (auto simp: prod_eq_iff distinct_map dest: inj_onD)
  then have "fold (extension_row S) xs = fold (extension_row S) ys"
    using assms(3) by (intro fold_multiset_equiv) (auto simp: comp_def fun_eq_iff)
  then show ?thesis
    using processExtensions_result [of S tx row ys h] assms(1) ok row' by auto
qed

theorem processExtensions_order_witness:
  "\<exists>h2. processExtensions (plain_services ''t'') sample_db zero_ProvisionDomainTransferIn
       [(''idn'', None), (''fee'', None)] []
     = (Ret (zero_ProvisionDomainTransferIn\<lparr>pdti_Uname := Some [], pdti_Language := Some []\<rparr>, None), h2)"
  by (rule processExtensions_order [where xs = "[(''fee'', None), (''idn'', None)]" and h = "[]"])
     (simp_all add: process_extension_def plain_services_def sample_services_def ret_def bnd_def)

end
