(* ===== verification/DU_Timeout.thy ===== *)
theory DU_Timeout
  imports DU_Transfer DU_Write
begin

text \<open>
  \<^verbatim>\<open>domain_updater/handlers/ry_timeout_handler.go\<close>: what happens when the registry interface reports a
  timeout. The job is reconciled by its type: where the registry can be asked whether the command
  went through, the job is completed; else the provision row is given one more attempt, up to a
  limit, and the job fails so that the job chain runs again. There is no transaction and no look at
  the job's status here.

  A reconciler fills the job in place, so it returns the job beside the error. The locale
  \<open>reconciler\<close> states what the six of them share.
\<close>

abbreviation MaxRetries :: i32 where "MaxRetries \<equiv> 3"

section \<open>Lookups\<close>

definition getJobReferenceID :: "services \<Rightarrow> database \<Rightarrow> Job \<Rightarrow> (hist, gerr + string) go" where
  "getJobReferenceID S db job =
     bnd (deref (job_Info job)) (\<lambda>info.
     case vj_ReferenceID info of
       Some refId \<Rightarrow> ret (Inr refId)
     | None \<Rightarrow>
         bnd (deref (vj_JobParentID info)) (\<lambda>parentId.
         bnd (GetJobById S db parentId True) (\<lambda>(parentJob, err).
         case err of
           Some e \<Rightarrow> ret (Inl (ErrWrap ''failed to get parent job'' e))
         | None \<Rightarrow>
             bnd (deref (job_Info parentJob)) (\<lambda>parentInfo.
             case vj_ReferenceID parentInfo of
               None \<Rightarrow> ret (Inl (ErrNew ''failed to get reference ID from parent job''))
             | Some refId \<Rightarrow> ret (Inr refId)))))"

definition getAccreditationFromJob :: "services \<Rightarrow> Job \<Rightarrow> (hist, gerr + Accreditation) go" where
  "getAccreditationFromJob S job =
     bnd (deref (job_Info job)) (\<lambda>info.
     case unmarshal dec_DomainInfoData zero_DomainInfoData (vj_Data info) of
       None \<Rightarrow> ret (Inl (ErrWrap ''failed to unmarshal job data''
                          (ErrJSON (sv_json_text S ''DomainInfoData'' (vj_Data info)))))
     | Some data \<Rightarrow> ret (Inr (di_Accreditation data)))"

definition getJobResultMsg :: "string \<Rightarrow> string" where
  "getJobResultMsg jobType =
     (if jobType = ''provision_domain_renew''
      then ''Timeout error occurred while renewing domain in registry''
      else if jobType = ''provision_domain_create''
      then ''Timeout error occurred while creating domain in registry''
      else if jobType = ''provision_domain_transfer_in_request'' \<or> jobType = ''provision_domain_transfer_in''
      then ''Timeout error occurred while transferring in domain''
      else if jobType = ''provision_domain_delete''
      then ''Timeout error occurred while deleting domain in registry''
      else if jobType = ''provision_domain_redeem'' \<or> jobType = ''provision_domain_redeem_report''
      then ''Timeout error occurred while redeeming domain in registry''
      else ''Failed to process job'')"

text \<open>The message of a job that ran out of attempts; the error details go into result data that is
  then not stored.\<close>

definition exceeded :: "ErrorResponse \<Rightarrow> Job \<Rightarrow> Job" where
  "exceeded message job =
     fst (SetJobErrorFromRegistryErrorResponse message job (result_data (ErrorResponseMsg message)))"

section \<open>Reconcilers\<close>

definition renewDomain ::
  "services \<Rightarrow> database \<Rightarrow> ErrorResponse \<Rightarrow> Job \<Rightarrow> (hist, Job \<times> gerr option) go" where
  "renewDomain S db message job =
     bnd (getJobReferenceID S db job) (\<lambda>r.
     case r of
       Inl e \<Rightarrow> ret (job, Some e)
     | Inr refId \<Rightarrow>
         bnd (GetProvisionDomainRenew S db refId) (\<lambda>(row, err).
         case err of
           Some e \<Rightarrow> ret (job, Some e)
         | None \<Rightarrow>
             bnd (deref row) (\<lambda>renewRequest.
             bnd (deref (pdrn_AllowedAttempts renewRequest)) (\<lambda>attempts.
             if attempts \<le>s MaxRetries
             then bnd (UpdateProvisionDomainRenew S db
                         (renewRequest\<lparr>pdrn_AllowedAttempts := Some (attempts + 1)\<rparr>)) (\<lambda>_.
                  SetJobStatus S db job JobStatus_Failed None)
             else SetJobStatus S db (exceeded message job) JobStatus_Failed None))))"

text \<open>The second half of \<^verbatim>\<open>createDomain\<close>: another attempt, or the end of the attempts.\<close>

definition createDomain_retry ::
  "services \<Rightarrow> database \<Rightarrow> ErrorResponse \<Rightarrow> Job \<Rightarrow> ProvisionDomain \<Rightarrow> (hist, Job \<times> gerr option) go" where
  "createDomain_retry S db message job createRequest =
     bnd (deref (pd_AllowedAttempts createRequest)) (\<lambda>attempts.
     if attempts \<le>s MaxRetries
     then bnd (UpdateProvisionDomain S db (createRequest\<lparr>pd_AllowedAttempts := Some (attempts + 1)\<rparr>)) (\<lambda>err.
          case err of
            Some e \<Rightarrow> ret (job, Some e)
          | None \<Rightarrow> SetJobStatus S db job JobStatus_Failed None)
     else SetJobStatus S db (exceeded message job) JobStatus_Failed None)"

definition createDomain ::
  "services \<Rightarrow> database \<Rightarrow> ErrorResponse \<Rightarrow> Job \<Rightarrow> (hist, Job \<times> gerr option) go" where
  "createDomain S db message job =
     bnd (getJobReferenceID S db job) (\<lambda>r.
     case r of
       Inl e \<Rightarrow> ret (job, Some e)
     | Inr refId \<Rightarrow>
         bnd (GetProvisionDomain S db refId) (\<lambda>(row, err).
         case err of
           Some e \<Rightarrow> ret (job, Some e)
         | None \<Rightarrow>
             bnd (deref row) (\<lambda>createRequest.
             bnd (getAccreditationFromJob S job) (\<lambda>a.
             case a of
               Inl e \<Rightarrow> ret (job, Some e)
             | Inr acc \<Rightarrow>
                 bnd (getDomainInfo S (pd_DomainName createRequest) (acc_AccreditationName acc)) (\<lambda>d.
                 case d of
                   Inr domainInfoResp \<Rightarrow>
                     (if GetEppCode (din_RegistryResponse domainInfoResp) = EppCode_Success \<and>
                         din_Clid domainInfoResp = acc_RegistrarID acc
                      then
                        (let jrd = result_data (DomainInfoResponseMsg domainInfoResp) in
                         bnd (deref (din_RegistryResponse domainInfoResp)) (\<lambda>rr.
                         bnd (ProcessRyDomainProvisionResponse S
                                \<lparr>dcr_Name = pd_DomainName createRequest,
                                 dcr_CreatedDate = din_CreatedDate domainInfoResp,
                                 dcr_ExpiryDate = din_ExpiryDate domainInfoResp,
                                 dcr_RegistryResponse = Some
                                   \<lparr>rr_IsSuccess = False, rr_EppCode = 0, rr_EppMessage = [],
                                    rr_EppCltrid = rr_EppCltrid rr, rr_Xml = []\<rparr>\<rparr> job db) (\<lambda>err.
                         case err of
                           Some e \<Rightarrow> SetJobStatus S db (job\<lparr>job_ResultMessage := Some (err_text e)\<rparr>)
                                       JobStatus_Failed (Some jrd)
                         | None \<Rightarrow> SetJobStatus S db job JobStatus_Completed (Some jrd))))
                      else createDomain_retry S db message job createRequest)
                 | Inl e \<Rightarrow> createDomain_retry S db message job createRequest)))))"

definition transferInDomain_retry ::
  "services \<Rightarrow> database \<Rightarrow> ErrorResponse \<Rightarrow> Job \<Rightarrow> ProvisionDomainTransferInRequest
     \<Rightarrow> (hist, Job \<times> gerr option) go" where
  "transferInDomain_retry S db message job transferInRequest =
     bnd (deref (pdtr_AllowedAttempts transferInRequest)) (\<lambda>attempts.
     if attempts \<le>s MaxRetries
     then bnd (UpdateProvisionDomainTransferInRequest S db
                 (transferInRequest\<lparr>pdtr_AllowedAttempts := Some (attempts + 1)\<rparr>)) (\<lambda>_.
          SetJobStatus S db job JobStatus_Failed None)
     else SetJobStatus S db (exceeded message job) JobStatus_Failed None)"

definition transferInDomain ::
  "services \<Rightarrow> database \<Rightarrow> ErrorResponse \<Rightarrow> Job \<Rightarrow> (hist, Job \<times> gerr option) go" where
  "transferInDomain S db message job =
     bnd (getJobReferenceID S db job) (\<lambda>r.
     case r of
       Inl e \<Rightarrow> ret (job, Some e)
     | Inr refId \<Rightarrow>
         bnd (GetProvisionDomainTransferInRequest S db
                (zero_ProvisionDomainTransferInRequest\<lparr>pdtr_ID := refId\<rparr>)) (\<lambda>(row, err).
         case err of
           Some e \<Rightarrow> ret (job, Some e)
         | None \<Rightarrow>
             bnd (deref row) (\<lambda>transferInRequest.
             bnd (getAccreditationFromJob S job) (\<lambda>a.
             case a of
               Inl e \<Rightarrow> ret (job, Some e)
             | Inr acc \<Rightarrow>
                 bnd (getTransferInfo S (pdtr_DomainName transferInRequest) (pdtr_Pw transferInRequest)
                        (acc_AccreditationName acc)) (\<lambda>d.
                 case d of
                   Inr domainTransferResp \<Rightarrow>
                     (if GetEppCode (dtx_RegistryResponse domainTransferResp) = EppCode_Success
                      then
                        (let jrd = result_data (DomainTransferResponseMsg domainTransferResp) in
                         bnd (ProcessRyDomainTransferInResponse S domainTransferResp job db) (\<lambda>err.
                         case err of
                           Some e \<Rightarrow> SetJobStatus S db (job\<lparr>job_ResultMessage := Some (err_text e)\<rparr>)
                                       JobStatus_Failed (Some jrd)
                         | None \<Rightarrow> SetJobStatus S db job JobStatus_CompletedConditionally (Some jrd)))
                      else transferInDomain_retry S db message job transferInRequest)
                 | Inl e \<Rightarrow> transferInDomain_retry S db message job transferInRequest)))))"

definition deleteDomain ::
  "services \<Rightarrow> database \<Rightarrow> ErrorResponse \<Rightarrow> Job \<Rightarrow> (hist, Job \<times> gerr option) go" where
  "deleteDomain S db message job =
     bnd (getJobReferenceID S db job) (\<lambda>r.
     case r of
       Inl e \<Rightarrow> ret (job, Some e)
     | Inr refId \<Rightarrow>
         bnd (GetProvisionDomainDelete S db refId) (\<lambda>(row, err).
         case err of
           Some e \<Rightarrow> ret (job, Some e)
         | None \<Rightarrow>
             bnd (deref row) (\<lambda>deleteRequest.
             bnd (deref (pdd_AllowedAttempts deleteRequest)) (\<lambda>attempts.
             if attempts \<le>s MaxRetries
             then bnd (UpdateProvisionDomainDelete S db
                         (deleteRequest\<lparr>pdd_AllowedAttempts := Some (attempts + 1)\<rparr>)) (\<lambda>_.
                  SetJobStatus S db job JobStatus_Failed None)
             else SetJobStatus S db (exceeded message job) JobStatus_Failed None))))"

text \<open>A pending restore is remembered in the row, so that the retry sends the report only.\<close>

definition redeemDomain_retry ::
  "services \<Rightarrow> database \<Rightarrow> ErrorResponse \<Rightarrow> Job \<Rightarrow> ProvisionDomainRedeem \<Rightarrow> DomainInfoResponse option
     \<Rightarrow> (hist, Job \<times> gerr option) go" where
  "redeemDomain_retry S db message job redeemRequest domainInfoResp =
     bnd (deref (pdrd_AllowedAttempts redeemRequest)) (\<lambda>attempts.
     if attempts \<le>s MaxRetries
     then (let redeemRequest = redeemRequest\<lparr>pdrd_AllowedAttempts := Some (attempts + 1)\<rparr>;
               pendingRestore = (case domainInfoResp of
                   None \<Rightarrow> False
                 | Some resp \<Rightarrow> handleRgpExtension S (din_Extensions resp) = Inr RgpStatus_PendingRestore)
           in bnd (if pendingRestore
                   then bnd (deref (pdrd_InRestorePendingStatus redeemRequest)) (\<lambda>_.
                        ret (redeemRequest\<lparr>pdrd_InRestorePendingStatus := Some True\<rparr>))
                   else ret redeemRequest) (\<lambda>redeemRequest.
              bnd (UpdateProvisionDomainRedeem S db redeemRequest) (\<lambda>_.
              SetJobStatus S db job JobStatus_Failed None)))
     else SetJobStatus S db (exceeded message job) JobStatus_Failed None)"

definition redeemDomain ::
  "services \<Rightarrow> database \<Rightarrow> ErrorResponse \<Rightarrow> Job \<Rightarrow> (hist, Job \<times> gerr option) go" where
  "redeemDomain S db message job =
     bnd (getJobReferenceID S db job) (\<lambda>r.
     case r of
       Inl e \<Rightarrow> ret (job, Some e)
     | Inr refId \<Rightarrow>
         bnd (GetProvisionDomainRedeem S db refId) (\<lambda>(row, err).
         case err of
           Some e \<Rightarrow> ret (job, Some e)
         | None \<Rightarrow>
             bnd (deref row) (\<lambda>redeemRequest.
             bnd (getAccreditationFromJob S job) (\<lambda>a.
             case a of
               Inl e \<Rightarrow> ret (job, Some e)
             | Inr acc \<Rightarrow>
                 bnd (getDomainInfo S (pdrd_DomainName redeemRequest) (acc_AccreditationName acc)) (\<lambda>d.
                 case d of
                   Inr domainInfoResp \<Rightarrow>
                     (if GetEppCode (din_RegistryResponse domainInfoResp) = EppCode_Success \<and>
                         din_Clid domainInfoResp = acc_RegistrarID acc \<and>
                         \<not> rgpStatusExists (din_Extensions domainInfoResp)
                      then SetJobStatus S db job JobStatus_Completed None
                      else redeemDomain_retry S db message job redeemRequest (Some domainInfoResp))
                 | Inl e \<Rightarrow> redeemDomain_retry S db message job redeemRequest None)))))"

definition transferInInfoDomain ::
  "services \<Rightarrow> database \<Rightarrow> ErrorResponse \<Rightarrow> Job \<Rightarrow> (hist, Job \<times> gerr option) go" where
  "transferInInfoDomain S db message job =
     bnd (getJobReferenceID S db job) (\<lambda>r.
     case r of
       Inl e \<Rightarrow> ret (job, Some e)
     | Inr refId \<Rightarrow>
         bnd (GetProvisionDomainTransferIn S db refId) (\<lambda>(row, err).
         case err of
           Some e \<Rightarrow> ret (job, Some e)
         | None \<Rightarrow>
             bnd (deref row) (\<lambda>transferInRequest.
             bnd (deref (pdti_AllowedAttempts transferInRequest)) (\<lambda>attempts.
             if attempts \<le>s MaxRetries
             then bnd (UpdateProvisionDomainTransferIn S db
                         (transferInRequest\<lparr>pdti_AllowedAttempts := Some (attempts + 1)\<rparr>)) (\<lambda>err.
                  case err of
                    Some e \<Rightarrow> ret (job, Some e)
                  | None \<Rightarrow> SetJobStatus S db job JobStatus_Failed None)
             else SetJobStatus S db (exceeded message job) JobStatus_Failed None))))"

section \<open>The handler\<close>

definition JobReconcilerRouter ::
  "services \<Rightarrow> database \<Rightarrow> ErrorResponse \<Rightarrow> Job \<Rightarrow> (hist, Job \<times> gerr option) go" where
  "JobReconcilerRouter S db message job =
     bnd (deref (job_Info job)) (\<lambda>info.
     bnd (deref (vj_JobTypeName info)) (\<lambda>jobType.
     if jobType = ''provision_domain_renew'' then renewDomain S db message job
     else if jobType = ''provision_domain_create'' then createDomain S db message job
     else if jobType = ''provision_domain_transfer_in_request'' then transferInDomain S db message job
     else if jobType = ''provision_domain_delete'' then deleteDomain S db message job
     else if jobType = ''provision_domain_redeem'' \<or> jobType = ''provision_domain_redeem_report''
     then redeemDomain S db message job
     else if jobType = ''provision_domain_transfer_in'' then transferInInfoDomain S db message job
     else ret (job, Some (ErrNew (''unsupported job type: '' @ jobType)))))"

definition RyTimeoutHandler ::
  "services \<Rightarrow> database \<Rightarrow> string \<Rightarrow> message \<Rightarrow> (hist, gerr option) go" where
  "RyTimeoutHandler S db correlationId message =
     bnd (as_ErrorResponse message) (\<lambda>response.
     bnd (GetJobById S db correlationId True) (\<lambda>(job, err).
     if err \<noteq> None then ret err
     else
       bnd (deref (job_Info job)) (\<lambda>info.
       bnd (deref (vj_JobTypeName info)) (\<lambda>jobType.
       bnd (JobReconcilerRouter S db response job) (\<lambda>(job, err).
       if err \<noteq> None
       then finish_job S db (job\<lparr>job_ResultMessage := Some (getJobResultMsg jobType)\<rparr>) JobStatus_Failed None
       else ret None)))))"

section \<open>What the reconcilers share\<close>

text \<open>Rows are written with at most one attempt more than the limit.\<close>

definition attempts_bounded :: "i32 option \<Rightarrow> bool" where
  "attempts_bounded a = (case a of None \<Rightarrow> True | Some n \<Rightarrow> sint n \<le> 4)"

fun retry_event :: "event \<Rightarrow> bool" where
  "retry_event (Exec s (UpdatesProvisionDomain r)) = attempts_bounded (pd_AllowedAttempts r)"
| "retry_event (Exec s (UpdatesProvisionDomainRenew r)) = attempts_bounded (pdrn_AllowedAttempts r)"
| "retry_event (Exec s (UpdatesProvisionDomainDelete r)) = attempts_bounded (pdd_AllowedAttempts r)"
| "retry_event (Exec s (UpdatesProvisionDomainRedeem r)) = attempts_bounded (pdrd_AllowedAttempts r)"
| "retry_event (Exec s (UpdatesProvisionDomainTransferInRequest r)) = attempts_bounded (pdtr_AllowedAttempts r)"
| "retry_event (Exec s (UpdatesProvisionDomainTransferIn r)) = attempts_bounded (pdti_AllowedAttempts r)"
| "retry_event e = True"

lemma attempts_bounded_next [simp]:
  "attempts \<le>s MaxRetries \<Longrightarrow> attempts_bounded (Some (attempts + 1))"
proof -
  assume "attempts \<le>s MaxRetries"
  then have le: "sint attempts \<le> 3" by (simp add: word_sle_eq)
  have "sint (attempts + 1) = sint attempts + 1"
    using le sint_bounds_32 [of attempts] sint_add_32 [of attempts 1] by simp
  then show ?thesis using le by (simp add: attempts_bounded_def)
qed

lemma job_ID_exceeded [simp]: "job_ID (exceeded m job) = job_ID job"
  by (simp add: exceeded_def SetJobErrorFromRegistryErrorResponse_def Let_def)

locale reconciler =
  fixes rec :: "services \<Rightarrow> database \<Rightarrow> ErrorResponse \<Rightarrow> Job \<Rightarrow> (hist, Job \<times> gerr option) go"
  assumes rec_adds: "adds (body_event db job) is_job_write 1 (rec S db m job)"
    and rec_settles: "ends (\<lambda>(job', err) h. job_ID job' = job_ID job \<and> (err = None \<longrightarrow> settled S db job h))
                        (rec S db m job)"
    and rec_bounded: "adds retry_event (\<lambda>_. False) 0 (rec S db m job)"

lemma retry_UpdateJob [adds_rules]: "adds retry_event (\<lambda>_. False) k (UpdateJob S db job)"
  unfolding UpdateJob_def by (intro adds_rules) simp_all

lemma retry_SetJobStatus [adds_rules]: "adds retry_event (\<lambda>_. False) k (SetJobStatus S db job status jrd)"
  unfolding SetJobStatus_def set_status_def Let_def by (intro adds_rules)

text \<open>Sequencing when the result of the first step is known.\<close>

context reconciler
begin

text \<open>The timeout handler's use of a reconciler: its error fails the job.\<close>

lemma reconcile_settles:
  "ends (\<lambda>err h. err = None \<longrightarrow> settled S db job h)
     (bnd (rec S db m job) (\<lambda>(job, err).
      if err \<noteq> None then finish_job S db (job\<lparr>job_ResultMessage := msg\<rparr>) JobStatus_Failed None else ret None))"
proof (rule ends_bnd_after [OF rec_settles], clarify)
  fix job' err h err' h'
  assume "job_ID job' = job_ID job" "err = None \<longrightarrow> settled S db job h"
    "(if err \<noteq> None then finish_job S db (job'\<lparr>job_ResultMessage := msg\<rparr>) JobStatus_Failed None
      else ret None) h = (Ret None, h')"
  then show "settled S db job h'"
    using endsD [OF ends_finish_job [of JobStatus_Failed "job'\<lparr>job_ResultMessage := msg\<rparr>" job]]
    by (auto simp: ret_def split: if_splits)
qed

lemma reconcile_writes:
  "adds (body_event db job) is_job_write 2
     (bnd (rec S db m job) (\<lambda>(job, err).
      if err \<noteq> None then finish_job S db (job\<lparr>job_ResultMessage := msg\<rparr>) JobStatus_Failed None else ret None))"
proof -
  have "ends (\<lambda>x s. job_ID (fst x) = job_ID job) (rec S db m job)"
    using rec_settles [of job S db m] by (auto simp: ends_def)
  then have "adds (body_event db job) is_job_write (1 + 1)
     (bnd (rec S db m job) (\<lambda>(job, err).
      if err \<noteq> None then finish_job S db (job\<lparr>job_ResultMessage := msg\<rparr>) JobStatus_Failed None else ret None))"
    by (intro adds_bnd_ends [where Q = "\<lambda>x. job_ID (fst x) = job_ID job", OF rec_adds])
       (auto intro!: adds_rules)
  then show ?thesis unfolding one_add_one .
qed

lemma reconcile_bounded:
  "adds retry_event (\<lambda>_. False) 0
     (bnd (rec S db m job) (\<lambda>(job, err).
      if err \<noteq> None then finish_job S db (job\<lparr>job_ResultMessage := msg\<rparr>) JobStatus_Failed None else ret None))"
  unfolding finish_job_def by (intro adds_rules rec_bounded retry_SetJobStatus)

end

lemma adds_getJobReferenceID [adds_rules]:
  "(\<And>name v. P (Query (db_gorm db) (FindJob name v True)) \<and> \<not> W (Query (db_gorm db) (FindJob name v True))) \<Longrightarrow>
   adds P W k (getJobReferenceID S db job)"
  by (auto simp: getJobReferenceID_def intro!: adds_rules)

lemma adds_getAccreditationFromJob [adds_rules]: "adds P W k (getAccreditationFromJob S job)"
  by (auto simp: getAccreditationFromJob_def intro!: adds_rules)

lemma adds_createDomain_retry [adds_rules]:
  "adds (body_event db job) is_job_write (Suc 0) (createDomain_retry S db m job row)"
  unfolding createDomain_retry_def row_ops by (intro adds_rules) simp_all

lemma adds_transferInDomain_retry [adds_rules]:
  "adds (body_event db job) is_job_write (Suc 0) (transferInDomain_retry S db m job row)"
  unfolding transferInDomain_retry_def row_ops by (intro adds_rules) simp_all

lemma adds_redeemDomain_retry [adds_rules]:
  "adds (body_event db job) is_job_write (Suc 0) (redeemDomain_retry S db m job row resp)"
  unfolding redeemDomain_retry_def row_ops by (intro adds_rules) simp_all

lemma adds_reconcilers [adds_rules]:
  "adds (body_event db job) is_job_write (Suc 0) (renewDomain S db m job)"
  "adds (body_event db job) is_job_write (Suc 0) (createDomain S db m job)"
  "adds (body_event db job) is_job_write (Suc 0) (transferInDomain S db m job)"
  "adds (body_event db job) is_job_write (Suc 0) (deleteDomain S db m job)"
  "adds (body_event db job) is_job_write (Suc 0) (redeemDomain S db m job)"
  "adds (body_event db job) is_job_write (Suc 0) (transferInInfoDomain S db m job)"
  unfolding renewDomain_def createDomain_def transferInDomain_def deleteDomain_def redeemDomain_def
    transferInInfoDomain_def row_ops
  by (intro adds_rules; simp)+

text \<open>Results: a reconciler that reports no error has settled the job.\<close>

lemma ends_error [ends_rules]:
  "job_ID job' = job_ID job \<Longrightarrow>
   ends (\<lambda>(job', err) h. job_ID job' = job_ID job \<and> (err = None \<longrightarrow> settled S db job h)) (ret (job', Some e))"
  by (rule ends_ret) simp

lemma ends_retries [ends_rules]:
  "ends (\<lambda>(job', err) h. job_ID job' = job_ID job \<and> (err = None \<longrightarrow> settled S db job h))
     (createDomain_retry S db m job pd)"
  "ends (\<lambda>(job', err) h. job_ID job' = job_ID job \<and> (err = None \<longrightarrow> settled S db job h))
     (transferInDomain_retry S db m job pdtr)"
  "ends (\<lambda>(job', err) h. job_ID job' = job_ID job \<and> (err = None \<longrightarrow> settled S db job h))
     (redeemDomain_retry S db m job pdrd resp)"
  unfolding createDomain_retry_def transferInDomain_retry_def redeemDomain_retry_def
  by (intro ends_rules; simp)+

lemma ends_reconcilers [ends_rules]:
  "ends (\<lambda>(job', err) h. job_ID job' = job_ID job \<and> (err = None \<longrightarrow> settled S db job h)) (renewDomain S db m job)"
  "ends (\<lambda>(job', err) h. job_ID job' = job_ID job \<and> (err = None \<longrightarrow> settled S db job h)) (createDomain S db m job)"
  "ends (\<lambda>(job', err) h. job_ID job' = job_ID job \<and> (err = None \<longrightarrow> settled S db job h)) (transferInDomain S db m job)"
  "ends (\<lambda>(job', err) h. job_ID job' = job_ID job \<and> (err = None \<longrightarrow> settled S db job h)) (deleteDomain S db m job)"
  "ends (\<lambda>(job', err) h. job_ID job' = job_ID job \<and> (err = None \<longrightarrow> settled S db job h)) (redeemDomain S db m job)"
  "ends (\<lambda>(job', err) h. job_ID job' = job_ID job \<and> (err = None \<longrightarrow> settled S db job h)) (transferInInfoDomain S db m job)"
  unfolding renewDomain_def createDomain_def transferInDomain_def deleteDomain_def redeemDomain_def
    transferInInfoDomain_def
  by (intro ends_rules; simp)+

text \<open>Attempts: no row is written beyond the limit.\<close>

lemma retry_questions [adds_rules]:
  "adds retry_event (\<lambda>_. False) k (getDomainInfo S name acc)"
  "adds retry_event (\<lambda>_. False) k (getTransferInfo S name pw acc)"
  by (auto simp: getDomainInfo_def getTransferInfo_def intro!: adds_rules split: message.split)

lemma retry_processing [adds_rules]:
  "adds retry_event (\<lambda>_. False) k (ProcessRyDomainProvisionResponse S resp job db)"
  "adds retry_event (\<lambda>_. False) k (ProcessRyDomainTransferInResponse S tresp job db)"
  unfolding ProcessRyDomainProvisionResponse_def ProcessRyDomainTransferInResponse_def row_ops
  by (intro adds_rules;
      simp add: attempts_bounded_def zero_ProvisionDomain_def zero_ProvisionDomainTransferInRequest_def)+

lemma adds_if_cond:
  "(b \<Longrightarrow> adds P W k m) \<Longrightarrow> (\<not> b \<Longrightarrow> adds P W k m') \<Longrightarrow> adds P W k (if b then m else m')"
  by simp

lemma retry_retries [adds_rules]:
  "adds retry_event (\<lambda>_. False) 0 (createDomain_retry S db m job pd)"
  "adds retry_event (\<lambda>_. False) 0 (transferInDomain_retry S db m job pdtr)"
  unfolding createDomain_retry_def transferInDomain_retry_def row_ops
  by (intro adds_rules adds_if_cond; simp)+

text \<open>The pending-restore flag does not touch the attempts.\<close>

lemma retry_redeemDomain_retry [adds_rules]:
  "adds retry_event (\<lambda>_. False) 0 (redeemDomain_retry S db m job row resp)"
proof -
  have *: "bnd (if b then bnd (deref p) (\<lambda>_. ret x) else ret y) f =
      (if b then bnd (deref p) (\<lambda>_. f x) else f y)" for b p x y
      and f :: "ProvisionDomainRedeem \<Rightarrow> (hist, Job \<times> gerr option) go"
    by (simp add: bnd_assoc)
  show ?thesis
    unfolding redeemDomain_retry_def row_ops Let_def *
    by (intro adds_rules adds_if_cond) simp_all
qed

lemma retry_reconcilers [adds_rules]:
  "adds retry_event (\<lambda>_. False) 0 (renewDomain S db m job)"
  "adds retry_event (\<lambda>_. False) 0 (createDomain S db m job)"
  "adds retry_event (\<lambda>_. False) 0 (transferInDomain S db m job)"
  "adds retry_event (\<lambda>_. False) 0 (deleteDomain S db m job)"
  "adds retry_event (\<lambda>_. False) 0 (redeemDomain S db m job)"
  "adds retry_event (\<lambda>_. False) 0 (transferInInfoDomain S db m job)"
  unfolding renewDomain_def createDomain_def transferInDomain_def deleteDomain_def redeemDomain_def
    transferInInfoDomain_def row_ops
  by (intro adds_rules adds_if_cond; simp)+

interpretation timeout: reconciler JobReconcilerRouter
  by unfold_locales
     (unfold JobReconcilerRouter_def One_nat_def, intro adds_rules, intro ends_rules, simp, intro adds_rules)

section \<open>The handler settles the job\<close>

lemma RyTimeoutHandler_ends:
  assumes "RyTimeoutHandler S db cid message h = (Ret None, h')"
    "GetJobById S db cid True h = (Ret (job, None), h1)"
  shows "settled S db job h'"
proof -
  obtain m where "message = ErrorResponseMsg m"
    using assms(1) by (auto simp: RyTimeoutHandler_def as_ErrorResponse_def go_panic_def bnd_def split: message.splits)
  moreover obtain info ty where "job_Info job = Some info" "vj_JobTypeName info = Some ty"
    using assms calculation
    by (cases "job_Info job"; cases "vj_JobTypeName (the (job_Info job))")
       (auto simp: RyTimeoutHandler_def as_ErrorResponse_def bnd_def ret_def go_panic_def)
  ultimately have "bnd (JobReconcilerRouter S db m job) (\<lambda>(job, err).
      if err \<noteq> None then finish_job S db (job\<lparr>job_ResultMessage := Some (getJobResultMsg ty)\<rparr>)
        JobStatus_Failed None else ret None) h1 = (Ret None, h')"
    using assms by (simp add: RyTimeoutHandler_def as_ErrorResponse_def bnd_def ret_def)
  then show ?thesis using endsD [OF timeout.reconcile_settles] by blast
qed

lemma effective_settled:
  assumes "settled S db job h" "db_gorm db = Pool"
  shows "\<exists>st \<in> GetJobStatusId db ` final_statuses. last_status (effective S h) (job_ID job) = Some st"
  using assms by (cases "(S, db, job, h)" rule: settled.cases) auto

text \<open>
  C8. A timeout leaves no job behind: when the handler reports success, the job it was delivered for
  has a final status in the database.
\<close>

theorem timeout_settles:
  assumes "RyTimeoutHandler S db cid message h = (Ret None, h')"
    "GetJobById S db cid True h = (Ret (job, None), h1)" "db_gorm db = Pool"
  shows "\<exists>st \<in> GetJobStatusId db ` {''completed'', ''failed'', ''completed_conditionally''}.
     last_status (effective S h') (job_ID job) = Some st"
  using effective_settled [OF RyTimeoutHandler_ends [OF assms(1,2)] assms(3)] by (simp add: final_statuses_def)

lemma GetJobById_plain:
  "GetJobById (plain_services ty) sample_db cid True h =
     (Ret (plain_job ty, None), Query Pool (FindJob ''id'' cid True) # h)"
  by (simp add: GetJobById_def getJobByField_def perform_def bnd_def ret_def sample_db_def)

definition sample_timeout :: message where
  "sample_timeout = ErrorResponseMsg \<lparr>er_Code = 3, er_Message = ''timeout''\<rparr>"

lemma timeout_plain:
  "RyTimeoutHandler (plain_services ''provision_domain_renew'') sample_db ''c'' sample_timeout [] =
     (Ret None, snd (RyTimeoutHandler (plain_services ''provision_domain_renew'') sample_db ''c'' sample_timeout []))"
  by (simp add: RyTimeoutHandler_def sample_timeout_def as_ErrorResponse_def bnd_run [OF GetJobById_plain, simplified]
      JobReconcilerRouter_def renewDomain_def getJobReferenceID_def GetProvisionDomainRenew_def find_row_def
      perform_def bnd_def ret_def UpdateProvisionDomainRenew_def exec_or_die_def SetJobStatus_def set_status_def
      UpdateJob_def Let_def plain_services_def sample_services_def sample_db_def sample_statuses_def
      GetJobStatusId_def GetByKey_def assoc_bimap_def word_sle_eq GetJobById_def getJobByField_def)

theorem timeout_settles_witness:
  "\<exists>st \<in> GetJobStatusId sample_db ` {''completed'', ''failed'', ''completed_conditionally''}.
     last_status (effective (plain_services ''provision_domain_renew'')
       (snd (RyTimeoutHandler (plain_services ''provision_domain_renew'') sample_db ''c'' sample_timeout []))) ''j1''
     = Some st"
  using timeout_settles [OF timeout_plain GetJobById_plain] by (simp add: sample_db_def)

text \<open>
  C9. However the database and the registry answer, and however the run ends, the timeout handler
  writes no provision row with more than four allowed attempts, writes jobs at most twice, and only
  adds calls.
\<close>

theorem timeout_bounded:
  "\<exists>d. snd (RyTimeoutHandler S db cid message h) = d @ h \<and> list_all retry_event d \<and>
     length (filter is_job_write d) \<le> 2"
proof -
  have "adds retry_event (\<lambda>_. False) 0 (RyTimeoutHandler S db cid message)"
    unfolding RyTimeoutHandler_def
    by (intro adds_rules timeout.reconcile_bounded) simp_all
  moreover have "adds (\<lambda>_. True) is_job_write 2 (RyTimeoutHandler S db cid message)"
    unfolding RyTimeoutHandler_def
    by (intro adds_rules adds_mono [OF timeout.reconcile_writes]) simp_all
  ultimately show ?thesis unfolding adds_def by (metis append_same_eq)
qed

text \<open>
  One timeout of a renewal: while the row has at most three allowed attempts it is given one
  more, so the chain is tried again; after that the row is left alone and the job keeps the
  registry interface's message. The job fails either way, also if the row cannot be written.
\<close>

theorem renew_retry:
  assumes "calm S" "statuses_known db" "job_Info job = Some info" "vj_ReferenceID info = Some refId"
  defines "q \<equiv> Query (db_gorm db) (FindProvisionDomainRenew refId)"
  assumes "sv_pdrn S h q = (Some row, None)" "pdrn_AllowedAttempts row = Some n"
  defines "w \<equiv> Exec (db_gorm db) (UpdatesProvisionDomainRenew (row\<lparr>pdrn_AllowedAttempts := Some (n + 1)\<rparr>))"
  shows "wp (renewDomain S db m job) (\<lambda>r h'. (\<exists>job'. r = Ret (job', None)) \<and>
     (if sint n \<le> 3 then closes db job ''failed'' (job_ResultMessage job) (w # q # h) h'
      else closes db job ''failed'' (Some (er_Message m)) (q # h) h')) h"
proof -
  have set: "wp (SetJobStatus S db j JobStatus_Failed None) (\<lambda>r h'. (\<exists>job'. r = Ret (job', None)) \<and>
      closes db job ''failed'' (job_ResultMessage j) g h') g" if "job_ID j = job_ID job" "job_Info j = Some info" for j g
    using set_status_calm [OF assms(1), of db JobStatus_Failed j g] assms(2) that
    by (auto simp: SetJobStatus_def wp_def statuses_known_def)
  have exceeded: "job_Info (exceeded m job) = job_Info job" "job_ResultMessage (exceeded m job) = Some (er_Message m)"
    by (simp_all add: exceeded_def SetJobErrorFromRegistryErrorResponse_def Let_def)
  show ?thesis
    using assms(1,3-7) set [of job "w # q # h"] set [of "exceeded m job" "q # h"] exceeded
    by (simp add: renewDomain_def getJobReferenceID_def GetProvisionDomainRenew_def find_row_def q_def w_def
        UpdateProvisionDomainRenew_def word_sle_eq wp Let_def split: option.split)
qed

theorem renew_retry_witness:
  "\<exists>w q. wp (renewDomain (plain_services ''t'') sample_db \<lparr>er_Code = 3, er_Message = ''timeout''\<rparr> (plain_job ''t''))
     (\<lambda>r h'. (\<exists>job'. r = Ret (job', None)) \<and>
        closes sample_db (plain_job ''t'') ''failed'' None [w, q] h') []"
  using renew_retry [OF plain_calm sample_statuses_known, of "plain_job ''t''" "sample_info ''t'' (JObj [])"
      "''r1''" "''t''" "[]" "zero_ProvisionDomainRenew\<lparr>pdrn_AllowedAttempts := Some 1\<rparr>" 1
      "\<lparr>er_Code = 3, er_Message = ''timeout''\<rparr>"]
  by (auto simp: plain_services_def sample_services_def)

text \<open>
  The timeout handler does not look at the job's status: it tries to fail a job of a type it cannot
  reconcile whatever status it has read. Where no call fails the job is failed; that a job which is
  already final keeps its status is left to the database, whose trigger
  \<^verbatim>\<open>job_prevent_if_final\<close> refuses the write.
\<close>

theorem timeout_ignores_status:
  assumes "calm S" "statuses_known db" "GetJobById S db cid True h = (Ret (job, None), h1)"
    "job_Info job = Some info" "vj_JobTypeName info = Some ''validate_domain_available''"
  shows "wp (RyTimeoutHandler S db cid (ErrorResponseMsg m)) (\<lambda>r h'. r = Ret None \<and>
     closes db job ''failed'' (Some ''Failed to process job'') h1 h') h"
proof -
  let ?job = "job\<lparr>job_ResultMessage := Some ''Failed to process job''\<rparr>"
  have "RyTimeoutHandler S db cid (ErrorResponseMsg m) h = finish_job S db ?job JobStatus_Failed None h1"
    using assms(4,5)
    by (simp add: RyTimeoutHandler_def as_ErrorResponse_def bnd_run [of "GetJobById S db cid True", OF assms(3)]
        JobReconcilerRouter_def getJobResultMsg_def)
  moreover have "wp (finish_job S db ?job JobStatus_Failed None) (\<lambda>r h'. r = Ret None \<and>
      closes db job ''failed'' (Some ''Failed to process job'') h1 h') h1"
    using assms closes_same_ID [of ?job job] by (intro wp_finish_job) auto
  ultimately show ?thesis by (simp add: wp_def)
qed

theorem timeout_ignores_status_witness:
  "wp (RyTimeoutHandler (plain_services ''validate_domain_available'') sample_db ''c''
         (ErrorResponseMsg \<lparr>er_Code = 3, er_Message = ''timeout''\<rparr>))
     (\<lambda>r h'. r = Ret None \<and> closes sample_db (plain_job ''validate_domain_available'') ''failed''
        (Some ''Failed to process job'') [Query Pool (FindJob ''id'' ''c'' True)] h') []"
  by (rule timeout_ignores_status [OF plain_calm sample_statuses_known GetJobById_plain,
        where info = "sample_info ''validate_domain_available'' (JObj [])"]) simp_all

end
