(* ===== verification/Error_Response.thy ===== *)
theory Error_Response
  imports DU_Common
begin

text \<open>
  \<^verbatim>\<open>pkg/handlers/error_response_handler.go\<close>: the reaction of every updater to an error response of the
  registry interface. The job fails, whatever its status; a host availability check also fails its
  order item plan. There is no transaction.
\<close>

definition ErrorResponseHandler ::
  "services \<Rightarrow> database \<Rightarrow> string \<Rightarrow> message \<Rightarrow> (hist, gerr option) go" where
  "ErrorResponseHandler S db correlationId message =
     bnd (as_ErrorResponse message) (\<lambda>response.
     bnd (GetJobById S db correlationId True) (\<lambda>(job, err).
     if err \<noteq> None then ret err
     else
       bnd (deref (job_Info job)) (\<lambda>info.
       bnd (deref (vj_JobTypeName info)) (\<lambda>jobType.
       if jobType = ''validate_host_available'' then
         bnd (deref (vj_ReferenceID info)) (\<lambda>refId.
         bnd (UpdateOrderItemPlan S db (zero_OrderItemPlan
                \<lparr>oip_ID := refId,
                 oip_ValidationStatusID := GetOrderItemPlanValidationStatusId db OrderItemPlanValidationStatus_Failed,
                 oip_ResultMessage := Some (er_Message response)\<rparr>)) (\<lambda>err.
         case err of
           Some e \<Rightarrow> fail_with S db job (err_text e) None
         | None \<Rightarrow> fail_with S db job ''Failed to validate host availability'' None))
       else fail_with S db job LogMessages_HandleMessageFailed None))))"

lemma ErrorResponseHandler_ends:
  assumes "ErrorResponseHandler S db cid message h = (Ret None, h')"
    "GetJobById S db cid True h = (Ret (job, None), h1)"
  shows "settled S db job h'"
proof -
  obtain m where m: "message = ErrorResponseMsg m"
    using assms(1)
    by (auto simp: ErrorResponseHandler_def as_ErrorResponse_def go_panic_def bnd_def split: message.splits)
  let ?rest = "bnd (deref (job_Info job)) (\<lambda>info. bnd (deref (vj_JobTypeName info)) (\<lambda>jobType.
       if jobType = ''validate_host_available'' then
         bnd (deref (vj_ReferenceID info)) (\<lambda>refId.
         bnd (UpdateOrderItemPlan S db (zero_OrderItemPlan
                \<lparr>oip_ID := refId,
                 oip_ValidationStatusID := GetOrderItemPlanValidationStatusId db OrderItemPlanValidationStatus_Failed,
                 oip_ResultMessage := Some (er_Message m)\<rparr>)) (\<lambda>err.
         case err of
           Some e \<Rightarrow> fail_with S db job (err_text e) None
         | None \<Rightarrow> fail_with S db job ''Failed to validate host availability'' None))
       else fail_with S db job LogMessages_HandleMessageFailed None))"
  have run: "?rest h1 = (Ret None, h')"
    using assms(1) m by (simp add: ErrorResponseHandler_def as_ErrorResponse_def bnd_run [of "GetJobById S db cid True", OF assms(2)])
  have "ends (\<lambda>err h. err = None \<longrightarrow> settled S db job h) ?rest"
    by (intro ends_rules) simp_all
  from endsD [OF this run] show ?thesis by simp
qed

text \<open>
  An error response fails the job it is for, whatever the job's status. For a host availability
  check the order item plan is failed first, with the interface's message; if that write fails the
  job carries its error instead of the usual message.
\<close>

theorem error_response_outcome:
  fixes m :: ErrorResponse
  assumes "calm S" "statuses_known db" "GetJobById S db cid True h = (Ret (job, None), h1)"
    "job_Info job = Some info" "vj_JobTypeName info = Some ty" "vj_ReferenceID info = Some refId"
  defines "w \<equiv> Exec (db_gorm db) (UpdatesOrderItemPlan (zero_OrderItemPlan
       \<lparr>oip_ID := refId, oip_ValidationStatusID := GetOrderItemPlanValidationStatusId db ''failed'',
        oip_ResultMessage := Some (er_Message m)\<rparr>))"
  shows "wp (ErrorResponseHandler S db cid (ErrorResponseMsg m)) (\<lambda>r h'. r = Ret None \<and>
     (if ty = ''validate_host_available''
      then closes db job ''failed''
             (Some (case sv_err S h1 w of None \<Rightarrow> ''Failed to validate host availability'' | Some x \<Rightarrow> err_text x))
             (w # h1) h'
      else closes db job ''failed'' (Some ''Failed to handle message'') h1 h')) h"
proof -
  have "wp (ErrorResponseHandler S db cid (ErrorResponseMsg m)) Q h =
    wp (if ty = ''validate_host_available'' then
         bnd (UpdateOrderItemPlan S db (zero_OrderItemPlan
                \<lparr>oip_ID := refId,
                 oip_ValidationStatusID := GetOrderItemPlanValidationStatusId db OrderItemPlanValidationStatus_Failed,
                 oip_ResultMessage := Some (er_Message m)\<rparr>)) (\<lambda>err.
         case err of
           Some e \<Rightarrow> fail_with S db job (err_text e) None
         | None \<Rightarrow> fail_with S db job ''Failed to validate host availability'' None)
       else fail_with S db job LogMessages_HandleMessageFailed None) Q h1" for Q
    unfolding wp_def
    using assms(4-6)
    by (simp add: ErrorResponseHandler_def as_ErrorResponse_def bnd_run [of "GetJobById S db cid True", OF assms(3)])
  then show ?thesis
    using assms(1,2,4)
    by (auto simp: UpdateOrderItemPlan_def w_def wp Let_def split: option.split intro!: closing)
qed

theorem error_response_outcome_witness:
  "wp (ErrorResponseHandler (plain_services ''t'') sample_db ''c''
         (ErrorResponseMsg \<lparr>er_Code = 1, er_Message = ''bad''\<rparr>))
     (\<lambda>r h'. r = Ret None \<and> closes sample_db (plain_job ''t'') ''failed'' (Some ''Failed to handle message'')
        [Query Pool (FindJob ''id'' ''c'' True)] h') []"
proof -
  have "GetJobById (plain_services ''t'') sample_db ''c'' True [] =
      (Ret (plain_job ''t'', None), [Query Pool (FindJob ''id'' ''c'' True)])"
    by (simp add: GetJobById_def getJobByField_def perform_def bnd_def ret_def sample_db_def)
  from error_response_outcome [OF plain_calm sample_statuses_known this, of "sample_info ''t'' (JObj [])" "''t''" "''r1''"]
  show ?thesis by simp
qed

end
