(* ===== verification/DU_Routers.thy ===== *)
theory DU_Routers
  imports DU_Info DU_Check DU_Timeout Error_Response
begin

text \<open>
  The domain updater's routers: one message type serves several job types, so the body is chosen
  by the name of the fetched job's type (\<^verbatim>\<open>ry_domain_info_router.go\<close>, \<^verbatim>\<open>ry_domain_check_handler.go\<close>,
  \<^verbatim>\<open>ry_domain_transfer_handler_router.go\<close>, \<^verbatim>\<open>ry_domain_update_router.go\<close>). Each choice is a body in
  the sense of \<open>job_body\<close>.
\<close>

section \<open>Transfer answers\<close>

definition RyDomainTransferRequestRouter ::
  "services \<Rightarrow> message \<Rightarrow> database \<Rightarrow> Job \<Rightarrow> (hist, gerr option) go" where
  "RyDomainTransferRequestRouter S message tx job =
     bnd (deref (job_Info job)) (\<lambda>info.
     bnd (deref (vj_JobTypeName info)) (\<lambda>jobType.
     if jobType = ''provision_domain_transfer_in_request''
     then RyDomainTransferInRequestHandler S message tx job
     else if jobType = ''provision_domain_transfer_away'' \<or>
             jobType = ''provision_domain_transfer_in_cancel_request''
     then RyDomainTransferActionHandler S message tx job
     else ret (Some (ErrNew (''no handlers for type: '' @ jobType)))))"

definition RyDomainTransferRouter ::
  "services \<Rightarrow> database \<Rightarrow> string \<Rightarrow> message \<Rightarrow> (hist, gerr option) go" where
  "RyDomainTransferRouter S db correlationId message =
     process_job S db correlationId (RyDomainTransferRequestRouter S message)"

section \<open>Update answers\<close>

definition RyDomainUpdateRequestRouter ::
  "services \<Rightarrow> message \<Rightarrow> database \<Rightarrow> Job \<Rightarrow> (hist, gerr option) go" where
  "RyDomainUpdateRequestRouter S message tx job =
     bnd (deref (job_Info job)) (\<lambda>info.
     bnd (deref (vj_JobTypeName info)) (\<lambda>jobType.
     if jobType = ''provision_domain_redeem'' \<or> jobType = ''provision_domain_redeem_report''
     then RyDomainRedeemHandler S message tx job
     else if jobType = ''provision_domain_update''
     then RyDomainUpdateHandler S message tx job
     else ret (Some (ErrNew (''no handlers for type: '' @ jobType)))))"

definition RyDomainUpdateRouter ::
  "services \<Rightarrow> database \<Rightarrow> string \<Rightarrow> message \<Rightarrow> (hist, gerr option) go" where
  "RyDomainUpdateRouter S db correlationId message =
     process_job S db correlationId (RyDomainUpdateRequestRouter S message)"

section \<open>Info answers\<close>

definition RyDomainInfoRequestRouter ::
  "services \<Rightarrow> message \<Rightarrow> database \<Rightarrow> Job \<Rightarrow> (hist, gerr option) go" where
  "RyDomainInfoRequestRouter S message tx job =
     bnd (deref (job_Info job)) (\<lambda>info.
     bnd (deref (vj_JobTypeName info)) (\<lambda>jobType.
     if jobType = ''provision_domain_transfer_in''
     then RyDomainTransferInHandler S message tx job
     else if jobType = ''validate_domain_transferable''
     then RyValidateDomainTransferableHandler S message tx job
     else if jobType = ''provision_domain_expiry_date_check'' \<or> jobType = ''setup_domain_renew''
     then RyDomainExpiryDateCheckHandler S message tx job
     else if jobType = ''setup_domain_delete''
     then RyDomainHostsCheckHandler S message tx job
     else ret (Some (ErrNew (''no handlers for type: '' @ jobType)))))"

definition RyDomainInfoRouter ::
  "services \<Rightarrow> database \<Rightarrow> string \<Rightarrow> message \<Rightarrow> (hist, gerr option) go" where
  "RyDomainInfoRouter S db correlationId message =
     process_job S db correlationId (RyDomainInfoRequestRouter S message)"

section \<open>Check answers\<close>

text \<open>The verb \<^verbatim>\<open>%q\<close>, on the characters a job type name is made of.\<close>

definition go_quote :: "string \<Rightarrow> string" where
  "go_quote s = [CHR 0x22] @ s @ [CHR 0x22]"

definition RyDomainCheckRequestRouter ::
  "services \<Rightarrow> DomainCheckResponse \<Rightarrow> database \<Rightarrow> Job \<Rightarrow> (hist, gerr option) go" where
  "RyDomainCheckRequestRouter S response tx job =
     bnd (deref (job_Info job)) (\<lambda>info.
     bnd (deref (vj_JobTypeName info)) (\<lambda>jobType.
     if jobType = ''validate_domain_claims''
     then RyValidateDomainClaimsHandler S response tx job
     else if jobType = ''validate_domain_available'' \<or> jobType = ''validate_domain_premium''
     then RyValidateDomainCheckHandler S response tx job
     else ret (Some (ErrNew (''no domain check response handler for job '' @ go_quote jobType)))))"

definition check_body :: "services \<Rightarrow> message \<Rightarrow> database \<Rightarrow> Job \<Rightarrow> (hist, gerr option) go" where
  "check_body S message tx job =
     bnd (as_DomainCheckResponse message) (\<lambda>response. RyDomainCheckRequestRouter S response tx job)"

definition RyDomainCheckHandler ::
  "services \<Rightarrow> database \<Rightarrow> string \<Rightarrow> message \<Rightarrow> (hist, gerr option) go" where
  "RyDomainCheckHandler S db correlationId message =
     bnd (as_DomainCheckResponse message) (\<lambda>_.
     process_job S db correlationId (check_body S message))"

section \<open>Error responses\<close>

text \<open>
  A timeout is reconciled, any other error fails the job. The code of a timeout is a constant of the
  message package, an argument here.
\<close>

definition RyErrorResponseRouter ::
  "i32 \<Rightarrow> services \<Rightarrow> database \<Rightarrow> string \<Rightarrow> message \<Rightarrow> (hist, gerr option) go" where
  "RyErrorResponseRouter TIMEOUT S db correlationId message =
     bnd (as_ErrorResponse message) (\<lambda>msg.
     if er_Code msg = TIMEOUT
     then RyTimeoutHandler S db correlationId message
     else ErrorResponseHandler S db correlationId message)"

section \<open>The routers keep the contract\<close>

interpretation transfer: job_body RyDomainTransferRequestRouter
  by unfold_locales (unfold RyDomainTransferRequestRouter_def One_nat_def, intro adds_rules)

interpretation update: settling_body RyDomainUpdateRequestRouter
  by unfold_locales
     (unfold RyDomainUpdateRequestRouter_def One_nat_def, intro adds_rules, intro ends_rules, simp)

interpretation info: settling_body RyDomainInfoRequestRouter
  by unfold_locales
     (unfold RyDomainInfoRequestRouter_def One_nat_def, intro adds_rules, intro ends_rules, simp)

interpretation check: settling_body check_body
  by unfold_locales
     (unfold check_body_def RyDomainCheckRequestRouter_def One_nat_def, intro adds_rules,
      intro ends_rules, simp)

end
