(* ===== verification/DU_Service.thy ===== *)
theory DU_Service
  imports DU_Routers
begin

text \<open>
  The domain updater as a whole: which handler the message bus calls for which message
  (\<^verbatim>\<open>RegisterHandlers\<close> in \<^verbatim>\<open>domain_updater/handlers/types.go\<close>), and what holds for every answer of the
  registry, whichever handler takes it.
\<close>

definition RegisterHandlers ::
  "i32 \<Rightarrow> services \<Rightarrow> database \<Rightarrow> message \<Rightarrow> (string \<Rightarrow> message \<Rightarrow> (hist, gerr option) go) option" where
  "RegisterHandlers TIMEOUT S db message =
     (case message of
        DomainCreateResponseMsg _ \<Rightarrow> Some (RyDomainProvisionHandler S db)
      | DomainRenewResponseMsg _ \<Rightarrow> Some (RyDomainRenewHandler S db)
      | DomainUpdateResponseMsg _ \<Rightarrow> Some (RyDomainUpdateRouter S db)
      | DomainDeleteResponseMsg _ \<Rightarrow> Some (RyDomainDeleteHandler S db)
      | DomainCheckResponseMsg _ \<Rightarrow> Some (RyDomainCheckHandler S db)
      | DomainTransferResponseMsg _ \<Rightarrow> Some (RyDomainTransferRouter S db)
      | DomainInfoResponseMsg _ \<Rightarrow> Some (RyDomainInfoRouter S db)
      | ErrorResponseMsg _ \<Rightarrow> Some (RyErrorResponseRouter TIMEOUT S db)
      | _ \<Rightarrow> None)"

section \<open>One body for all answers\<close>

fun is_error_response :: "message \<Rightarrow> bool" where
  "is_error_response (ErrorResponseMsg r) = True"
| "is_error_response m = False"

definition answer_body :: "services \<Rightarrow> message \<Rightarrow> database \<Rightarrow> Job \<Rightarrow> (hist, gerr option) go" where
  "answer_body S m tx job =
     (case m of
        DomainCreateResponseMsg _ \<Rightarrow> provision_body S m tx job
      | DomainRenewResponseMsg _ \<Rightarrow> renew_body S m tx job
      | DomainUpdateResponseMsg _ \<Rightarrow> RyDomainUpdateRequestRouter S m tx job
      | DomainDeleteResponseMsg _ \<Rightarrow> delete_body S m tx job
      | DomainCheckResponseMsg _ \<Rightarrow> check_body S m tx job
      | DomainTransferResponseMsg _ \<Rightarrow> RyDomainTransferRequestRouter S m tx job
      | DomainInfoResponseMsg _ \<Rightarrow> RyDomainInfoRequestRouter S m tx job
      | _ \<Rightarrow> go_panic ''interface conversion'')"

text \<open>
  The one answer that leaves its job in processing: to a transfer-in request, a success that does not
  say the command is pending (code 1001).
\<close>

definition leaves_open :: "message \<Rightarrow> Job \<Rightarrow> bool" where
  "leaves_open m job =
     (case (m, job_Info job) of
        (DomainTransferResponseMsg response, Some info) \<Rightarrow>
          vj_JobTypeName info = Some ''provision_domain_transfer_in_request'' \<and>
          (case dtx_RegistryResponse response of
             None \<Rightarrow> False | Some rr \<Rightarrow> rr_IsSuccess rr \<and> rr_EppCode rr \<noteq> 1001)
      | _ \<Rightarrow> False)"

text \<open>The settling part of it: all other answers.\<close>

definition settling_answer_body :: "services \<Rightarrow> message \<Rightarrow> database \<Rightarrow> Job \<Rightarrow> (hist, gerr option) go" where
  "settling_answer_body S m tx job =
     (if leaves_open m job then go_panic ''interface conversion'' else answer_body S m tx job)"

lemmas bodies_add =
  provision.body_adds [unfolded One_nat_def] renew.body_adds [unfolded One_nat_def]
  delete.body_adds [unfolded One_nat_def] update.body_adds [unfolded One_nat_def]
  transfer.body_adds [unfolded One_nat_def] info.body_adds [unfolded One_nat_def]
  check.body_adds [unfolded One_nat_def]

lemmas bodies_settle =
  provision.body_settles renew.body_settles delete.body_settles update.body_settles
  info.body_settles check.body_settles

interpretation answer: job_body answer_body
  by unfold_locales
     (auto simp: answer_body_def intro: adds_rules bodies_add split: message.split)

lemma transfer_settles:
  "ends (\<lambda>err h. err = None \<longrightarrow> settled S tx job h)
     (if leaves_open (DomainTransferResponseMsg response) job then go_panic ''interface conversion''
      else RyDomainTransferRequestRouter S (DomainTransferResponseMsg response) tx job)"
proof (cases "leaves_open (DomainTransferResponseMsg response) job")
  case False
  show ?thesis
  proof (cases "job_Info job")
    case (Some info)
    have action: "ends (\<lambda>err h. err = None \<longrightarrow> settled S tx job h)
        (RyDomainTransferActionHandler S (DomainTransferResponseMsg response) tx job)"
      unfolding RyDomainTransferActionHandler_def by (intro ends_rules) simp_all
    have request: "ends (\<lambda>err h. err = None \<longrightarrow> settled S tx job h)
        (RyDomainTransferInRequestHandler S (DomainTransferResponseMsg response) tx job)"
      if "vj_JobTypeName info = Some ''provision_domain_transfer_in_request''"
    proof (cases "dtx_RegistryResponse response")
      case (Some rr)
      then have code: "rr_EppCode rr = EppCode_Pending" if "rr_IsSuccess rr"
        using False that \<open>vj_JobTypeName info = _\<close> \<open>job_Info job = Some info\<close> by (auto simp: leaves_open_def)
      show ?thesis
      proof (cases "rr_IsSuccess rr")
        case True
        show ?thesis
          by (simp add: RyDomainTransferInRequestHandler_def as_DomainTransferResponse_def GetIsSuccess_def Some True
              deref_Some bnd_ret code [OF True] Let_def cong: option.case_cong, intro ends_rules) simp_all
      next
        case False
        show ?thesis
          by (simp add: RyDomainTransferInRequestHandler_def as_DomainTransferResponse_def GetIsSuccess_def Some False
              Let_def cong: option.case_cong, intro ends_rules) simp_all
      qed
    next
      case None
      show ?thesis
        by (simp add: RyDomainTransferInRequestHandler_def as_DomainTransferResponse_def GetIsSuccess_def None
            Let_def cong: option.case_cong, intro ends_rules) simp_all
    qed
    show ?thesis
    proof (cases "vj_JobTypeName info")
      case None
      with Some show ?thesis
        by (simp add: False RyDomainTransferRequestRouter_def ends_def bnd_def deref_def ret_def go_panic_def)
    next
      case ty: (Some ty)
      with Some request show ?thesis
        by (simp add: False RyDomainTransferRequestRouter_def deref_Some bnd_ret ends_rules action)
    qed
  qed (simp add: RyDomainTransferRequestRouter_def ends_rules)
qed (simp add: ends_rules)

interpretation settling_answer: settling_body settling_answer_body
proof unfold_locales
  fix S m tx job
  show "adds (body_event tx job) is_job_write 1 (settling_answer_body S m tx job)"
    if "job_StatusID job = GetJobStatusId tx JobStatus_Processing"
    using answer.body_adds [OF that] by (simp add: settling_answer_body_def adds_rules)
  show "ends (\<lambda>err h. err = None \<longrightarrow> settled S tx job h) (settling_answer_body S m tx job)"
  proof (cases "\<exists>response. m = DomainTransferResponseMsg response")
    case True
    then obtain response where m: "m = DomainTransferResponseMsg response" by blast
    show ?thesis
      unfolding m settling_answer_body_def answer_body_def message.case by (rule transfer_settles)
  next
    case False
    then show ?thesis
      by (auto simp: settling_answer_body_def answer_body_def leaves_open_def
          intro: ends_rules bodies_settle split: message.split)
  qed
qed

lemma answer_body_simps [simp]:
  "answer_body S (DomainCreateResponseMsg r1) = provision_body S (DomainCreateResponseMsg r1)"
  "answer_body S (DomainRenewResponseMsg r2) = renew_body S (DomainRenewResponseMsg r2)"
  "answer_body S (DomainUpdateResponseMsg r3) = RyDomainUpdateRequestRouter S (DomainUpdateResponseMsg r3)"
  "answer_body S (DomainDeleteResponseMsg r4) = delete_body S (DomainDeleteResponseMsg r4)"
  "answer_body S (DomainCheckResponseMsg r5) = check_body S (DomainCheckResponseMsg r5)"
  "answer_body S (DomainTransferResponseMsg r6) = RyDomainTransferRequestRouter S (DomainTransferResponseMsg r6)"
  "answer_body S (DomainInfoResponseMsg r7) = RyDomainInfoRequestRouter S (DomainInfoResponseMsg r7)"
  by (simp_all add: answer_body_def fun_eq_iff)

lemma registered_answer:
  assumes "RegisterHandlers TIMEOUT S db m = Some H" "\<not> is_error_response m"
  shows "H cid m = process_job S db cid (answer_body S m)"
  using assms
  by (cases m)
     (auto simp: RegisterHandlers_def RyDomainProvisionHandler_def RyDomainRenewHandler_def
        RyDomainUpdateRouter_def RyDomainDeleteHandler_def RyDomainCheckHandler_def RyDomainTransferRouter_def
        RyDomainInfoRouter_def as_defs)

lemma registered_settling:
  assumes "RegisterHandlers TIMEOUT S db m = Some H" "\<not> is_error_response m"
    "fetched S db cid h = (Ret (job, None), h1)" "\<not> leaves_open m job"
  shows "H cid m h = process_job S db cid (settling_answer_body S m) h"
proof -
  have "settling_answer_body S m tx job = answer_body S m tx job" for tx
    using assms(4) by (simp add: settling_answer_body_def)
  from with_job_cong [where body = "settling_answer_body S m" and body' = "answer_body S m", OF assms(3) this]
  show ?thesis
    using registered_answer [OF assms(1,2)] by simp
qed

end
