(* ===== verification/DW_Create.thy ===== *)
theory DW_Create
  imports Request_Protocol
begin

text \<open>
  The domain worker's create and renew requests (\<^verbatim>\<open>domain/handlers/domain_provision_handler.go\<close>,
  \<^verbatim>\<open>domain/handlers/domain_renew_handler.go\<close>) and the helpers of \<^verbatim>\<open>domain/handlers/types.go\<close>: the job's
  data becomes a message of the registry interface, with the extensions the data asks for.
\<close>

section \<open>Helpers of the service\<close>

definition getBoolAttribute ::
  "services \<Rightarrow> database \<Rightarrow> string \<Rightarrow> string \<Rightarrow> (hist, gerr + bool) go" where
  "getBoolAttribute S tx attributeName accTldId =
     bnd (GetTLDSetting S tx accTldId attributeName) (\<lambda>(tldSetting, err).
     case err of
       Some e \<Rightarrow> ret (Inl e)
     | None \<Rightarrow>
         (case tldSetting of
            None \<Rightarrow> ret (Inr False)
          | Some setting \<Rightarrow> ret (ParseBool (vat_Value setting))))"

definition DW_getDomainInfo ::
  "services \<Rightarrow> string \<Rightarrow> string \<Rightarrow> (hist, gerr + DomainInfoResponse) go" where
  "DW_getDomainInfo S domainName accName =
     bnd (bus_Call S (GetQueryQueue accName) (DomainInfoRequestMsg domainName None)) (\<lambda>r.
     case r of
       Inl e \<Rightarrow> ret (Inl e)
     | Inr response \<Rightarrow>
         (case response of
            DomainInfoResponseMsg m \<Rightarrow> ret (Inr m)
          | _ \<Rightarrow> ret (Inl (ErrNew (''unexpected message type received for domain info response: ''
                              @ sv_type_name S response)))))"

definition LocksToEppStatus :: "string \<Rightarrow> string option" where
  "LocksToEppStatus = map_of
     [(''update'', ''clientUpdateProhibited''), (''delete'', ''clientDeleteProhibited''),
      (''transfer'', ''clientTransferProhibited''), (''renew'', ''clientRenewProhibited''),
      (''hold'', ''clientHold'')]"

abbreviation domain_headers :: "string \<Rightarrow> (string \<times> string) list" where
  "domain_headers \<equiv> request_headers ''WorkerJobDomainProvisionUpdate''"

section \<open>Extensions\<close>

definition setFeeExtension :: "services \<Rightarrow> extensions \<Rightarrow> OrderPrice option \<Rightarrow> gerr + extensions" where
  "setFeeExtension S exts data =
     (case data of
        None \<Rightarrow> Inr exts
      | Some p \<Rightarrow>
          (case sv_pack S (FeeTransformRequestExt [ToMoneyMsg (sv_f64 S) p]) of
             Inl e \<Rightarrow> Inl e
           | Inr anyFee \<Rightarrow> Inr (AList.update ''fee'' (Some anyFee) exts)))"

definition launch_type :: "string \<Rightarrow> LaunchCreateType" where
  "launch_type t =
     (if t = ''APPLICATION'' then LCRT_APPLICATION
      else if t = ''REGISTRATION'' then LCRT_REGISTRATION
      else LAUNCH_CREATE_TYPE_UNKNOWN)"

definition launch_notice :: "ClaimsNotice \<Rightarrow> LaunchNotice" where
  "launch_notice n =
     \<lparr>ln_NoticeId = cn_NoticeId n, ln_ValidatorId = cn_ValidatorId n,
      ln_NotAfter = timestamp_New (cn_NotAfter n), ln_AcceptedDate = timestamp_New (cn_AcceptedDate n)\<rparr>"

definition setLaunchExtension :: "services \<Rightarrow> extensions \<Rightarrow> DomainLaunchData option \<Rightarrow> gerr + extensions" where
  "setLaunchExtension S exts data =
     (case data of
        None \<Rightarrow> Inr exts
      | Some d \<Rightarrow>
          (case dl_Claims d of
             None \<Rightarrow> Inr exts
           | Some claims \<Rightarrow>
               (case sv_pack S (LaunchCreateRequestExt (map_option launch_type (dcl_Type claims))
                                  (map launch_notice (go_slice (dcl_Notice claims)))) of
                  Inl e \<Rightarrow> Inl e
                | Inr anyLaunch \<Rightarrow> Inr (AList.update ''launch'' (Some anyLaunch) exts))))"

text \<open>\<^verbatim>\<open>uint32(x)\<close> of an \<^verbatim>\<open>int\<close> keeps the low 32 bits.\<close>

definition ds_record :: "DSData \<Rightarrow> u32 \<times> u32 \<times> u32 \<times> string" where
  "ds_record d = (word_of_int (ds_KeyTag d), word_of_int (ds_Algorithm d), word_of_int (ds_DigestType d), ds_Digest d)"

definition key_record :: "KeyData \<Rightarrow> u32 \<times> u32 \<times> u32 \<times> string" where
  "key_record k = (word_of_int (kd_Flags k), word_of_int (kd_Protocol k), word_of_int (kd_Algorithm k), kd_PublicKey k)"

definition setSecDNSExtension :: "services \<Rightarrow> extensions \<Rightarrow> SecDNSData option \<Rightarrow> gerr + extensions" where
  "setSecDNSExtension S exts data =
     (case data of
        None \<Rightarrow> Inr exts
      | Some d \<Rightarrow>
          (let records = (case sd_DsData d of
                 Some ds \<Rightarrow> DsSet (map ds_record (go_slice ds))
               | None \<Rightarrow> (case sd_KeyData d of
                     Some ks \<Rightarrow> KeySet (map key_record (go_slice ks))
                   | None \<Rightarrow> NoSecdns))
           in case sv_pack S (SecdnsCreateRequestExt records (map_option word_of_int (sd_MaxSigLife d))) of
                Inl e \<Rightarrow> Inl e
              | Inr anySecDNS \<Rightarrow> Inr (AList.update ''secdns'' (Some anySecDNS) exts)))"

definition setIdnExtension :: "services \<Rightarrow> extensions \<Rightarrow> IdnData option \<Rightarrow> gerr + extensions" where
  "setIdnExtension S exts data =
     (case data of
        None \<Rightarrow> Inr exts
      | Some d \<Rightarrow>
          (case sv_pack S (IdnCreateRequestExt (idn_IdnUname d) (idn_IdnLang d)) of
             Inl e \<Rightarrow> Inl e
           | Inr anyIdn \<Rightarrow> Inr (AList.update ''idn'' (Some anyIdn) exts)))"

section \<open>The create request\<close>

definition NewDomainCreateRequestBuilder :: "DomainData \<Rightarrow> DomainCreateRequest" where
  "NewDomainCreateRequestBuilder data =
     \<lparr>dcq_Name = dd_Name data, dcq_Period = dd_RegistrationPeriod data, dcq_PeriodUnit = PeriodUnit_YEAR,
      dcq_Registrant = [], dcq_Contacts = [], dcq_Nameservers = [], dcq_Nsattributes = [],
      dcq_Pw = dd_Pw data, dcq_Extensions = []\<rparr>"

definition contact_type :: "string \<Rightarrow> DomainContactType" where
  "contact_type t =
     (if t = ''admin'' then ADMIN else if t = ''billing'' then BILLING else if t = ''tech'' then TECH
      else CONTACT_TYPE_UNSPECIFIED)"

text \<open>The last registrant in the list wins.\<close>

fun create_contacts :: "DomainContact list \<Rightarrow> string \<Rightarrow> DomainContactMsg list \<Rightarrow> string \<times> DomainContactMsg list" where
  "create_contacts [] registrant contacts = (registrant, contacts)"
| "create_contacts (c # cs) registrant contacts =
     (if dc_Type c = ''registrant'' then create_contacts cs (dc_Handle c) contacts
      else create_contacts cs registrant
             (contacts @ [\<lparr>dcm_Type = contact_type (dc_Type c), dcm_Id = dc_Handle c\<rparr>]))"

definition SetDomainCreateContacts :: "DomainContact list option \<Rightarrow> DomainCreateRequest \<Rightarrow> DomainCreateRequest" where
  "SetDomainCreateContacts domainContacts b =
     (let (registrant, contacts) = create_contacts (go_slice domainContacts) [] []
      in b\<lparr>dcq_Registrant := registrant, dcq_Contacts := contacts\<rparr>)"

definition host_attribute :: "Nameserver \<Rightarrow> DomainHostAttribute" where
  "host_attribute n = \<lparr>ha_Name = ns_Name n, ha_Addresses = go_slice (ns_IpAddresses n)\<rparr>"

definition SetDomainCreateNameservers ::
  "Nameserver list option \<Rightarrow> bool \<Rightarrow> DomainCreateRequest \<Rightarrow> DomainCreateRequest" where
  "SetDomainCreateNameservers domainNameservers hostObjectSupported b =
     (if hostObjectSupported
      then b\<lparr>dcq_Nameservers := dcq_Nameservers b @ map ns_Name (go_slice domainNameservers)\<rparr>
      else b\<lparr>dcq_Nsattributes := dcq_Nsattributes b @ map host_attribute (go_slice domainNameservers)\<rparr>)"

text \<open>The extensions in the order of the list \<^verbatim>\<open>fee\<close>, \<^verbatim>\<open>launch\<close>, \<^verbatim>\<open>secdns\<close>, \<^verbatim>\<open>idn\<close>; the first error ends it.\<close>

definition create_extension :: "services \<Rightarrow> DomainData \<Rightarrow> string \<Rightarrow> extensions \<Rightarrow> gerr + extensions" where
  "create_extension S data ext exts =
     (if ext = ''fee'' then setFeeExtension S exts (dd_Price data)
      else if ext = ''launch'' then setLaunchExtension S exts (dd_LaunchData data)
      else if ext = ''secdns'' then setSecDNSExtension S exts (dd_SecDNS data)
      else if ext = ''idn'' then setIdnExtension S exts (dd_IdnData data)
      else Inl (ErrNew (''unknown extension: '' @ ext)))"

fun create_extensions :: "services \<Rightarrow> DomainData \<Rightarrow> string list \<Rightarrow> extensions \<Rightarrow> gerr + extensions" where
  "create_extensions S data [] exts = Inr exts"
| "create_extensions S data (x # xs) exts =
     (case create_extension S data x exts of
        Inl e \<Rightarrow> Inl e
      | Inr exts' \<Rightarrow> create_extensions S data xs exts')"

definition SetDomainCreateExtensions :: "services \<Rightarrow> DomainData \<Rightarrow> DomainCreateRequest \<Rightarrow> gerr + DomainCreateRequest" where
  "SetDomainCreateExtensions S data b =
     (case create_extensions S data [''fee'', ''launch'', ''secdns'', ''idn''] [] of
        Inl e \<Rightarrow> Inl e
      | Inr exts \<Rightarrow> Inr (if length exts > 0 then b\<lparr>dcq_Extensions := exts\<rparr> else b))"

definition DomainProvision_body :: "services \<Rightarrow> message \<Rightarrow> database \<Rightarrow> Job \<Rightarrow> (hist, gerr option) go" where
  "DomainProvision_body S message tx job =
     bnd (as_Notification message) (\<lambda>(jobId, _).
     bnd (deref (job_Info job)) (\<lambda>info.
     case unmarshal (dec_DomainData (sv_f64 S)) zero_DomainData (vj_Data info) of
       None \<Rightarrow> fail_decode S tx job ''DomainData'' (vj_Data info)
     | Some data \<Rightarrow>
         bnd (getBoolAttribute S tx ''tld.order.host_object_supported''
                (atld_AccreditationTldId (dd_AccreditationTld data))) (\<lambda>r.
         case r of
           Inl e \<Rightarrow> ret (Some e)
         | Inr hostObjectSupported \<Rightarrow>
             (case SetDomainCreateExtensions S data
                     (SetDomainCreateNameservers (dd_Nameservers data) hostObjectSupported
                       (SetDomainCreateContacts (dd_Contacts data) (NewDomainCreateRequestBuilder data))) of
                Inl e \<Rightarrow> ret (Some e)
              | Inr msg \<Rightarrow>
                  send_and_mark S tx job (GetTransformQueue (acc_AccreditationName (dd_Accreditation data)))
                    (DomainCreateRequestMsg msg) (domain_headers jobId)))))"

definition DomainProvisionHandler :: "services \<Rightarrow> database \<Rightarrow> message \<Rightarrow> (hist, gerr option) go" where
  "DomainProvisionHandler S db message =
     bnd (as_Notification message) (\<lambda>(jobId, _). submit_job S db jobId (DomainProvision_body S message))"

section \<open>The renew request\<close>

text \<open>
  The period comes from the provisioning row; zero years means there is nothing to renew. The log
  line of that case reads the registry's expiry date through its pointer.
\<close>

definition DomainRenew_body :: "services \<Rightarrow> message \<Rightarrow> database \<Rightarrow> Job \<Rightarrow> (hist, gerr option) go" where
  "DomainRenew_body S message tx job =
     bnd (as_Notification message) (\<lambda>(jobId, _).
     bnd (deref (job_Info job)) (\<lambda>info.
     bnd (deref (vj_ReferenceID info)) (\<lambda>refId.
     bnd (GetProvisionDomainRenew S tx refId) (\<lambda>(provisionData, err).
     case err of
       Some e \<Rightarrow> ret (Some e)
     | None \<Rightarrow>
         bnd (deref provisionData) (\<lambda>provisionData.
         bnd (deref (pdrn_Period provisionData)) (\<lambda>period.
         if period = 0 then
           bnd (deref (pdrn_RyExpiryDate provisionData)) (\<lambda>_.
           finish_job S tx job JobStatus_Completed None)
         else
           (case unmarshal (dec_DomainRenewData (sv_f64 S)) zero_DomainRenewData (vj_Data info) of
              None \<Rightarrow> fail_decode S tx job ''DomainRenewData'' (vj_Data info)
            | Some data \<Rightarrow>
                (case setFeeExtension S [] (drn_Price data) of
                   Inl e \<Rightarrow> ret (Some e)
                 | Inr exts \<Rightarrow>
                     send_and_mark S tx job (GetTransformQueue (acc_AccreditationName (drn_Accreditation data)))
                       (DomainRenewRequestMsg
                         \<lparr>drq_Name = drn_Name data, drq_Period = period, drq_PeriodUnit = PeriodUnit_YEAR,
                          drq_CurrentExpiryDate = timestamp_New (pdrn_CurrentExpiryDate provisionData),
                          drq_Extensions = exts\<rparr>)
                       (domain_headers jobId)))))))))"

definition DomainRenewHandler :: "services \<Rightarrow> database \<Rightarrow> message \<Rightarrow> (hist, gerr option) go" where
  "DomainRenewHandler S db message =
     bnd (as_Notification message) (\<lambda>(jobId, _). submit_job S db jobId (DomainRenew_body S message))"

section \<open>The bodies keep the contract\<close>

lemma adds_getBoolAttribute [adds_rules]:
  "P (Query (db_gorm tx) (FindTLDSetting i name)) \<Longrightarrow> \<not> W (Query (db_gorm tx) (FindTLDSetting i name)) \<Longrightarrow>
   adds P W k (getBoolAttribute S tx name i)"
  unfolding getBoolAttribute_def row_ops by (intro adds_rules) simp_all

lemma adds_DW_getDomainInfo [adds_rules]:
  "P (BusCall (GetQueryQueue acc) (DomainInfoRequestMsg name None)) \<Longrightarrow>
   \<not> W (BusCall (GetQueryQueue acc) (DomainInfoRequestMsg name None)) \<Longrightarrow>
   adds P W k (DW_getDomainInfo S name acc)"
  by (auto simp: DW_getDomainInfo_def intro!: adds_rules split: message.split)

lemma adds_DomainProvision_body [adds_rules]:
  "adds (request_event tx job) is_job_write (Suc 0) (DomainProvision_body S m tx job)"
  "adds (request_event tx job) is_send (Suc 0) (DomainProvision_body S m tx job)"
  unfolding DomainProvision_body_def by (intro adds_rules; simp)+

lemma ends_DomainProvision_body [ends_rules]:
  "ends (\<lambda>err h. err = None \<longrightarrow> dispatched S tx job (notified m) h) (DomainProvision_body S m tx job)"
  unfolding DomainProvision_body_def by (rule ends_as_Notification) (auto intro!: ends_rules)

lemma adds_DomainRenew_body [adds_rules]:
  "adds (request_event tx job) is_job_write (Suc 0) (DomainRenew_body S m tx job)"
  "adds (request_event tx job) is_send (Suc 0) (DomainRenew_body S m tx job)"
  unfolding DomainRenew_body_def row_ops by (intro adds_rules; simp)+

lemma ends_DomainRenew_body [ends_rules]:
  "ends (\<lambda>err h. err = None \<longrightarrow> dispatched S tx job (notified m) h) (DomainRenew_body S m tx job)"
  unfolding DomainRenew_body_def by (rule ends_as_Notification) (auto intro!: ends_rules)

end
