(* ===== verification/DW_Requests.thy ===== *)
theory DW_Requests
  imports DW_Create
begin

text \<open>
  The domain worker's other requests: info (\<^verbatim>\<open>domain_info_handler.go\<close>), delete
  (\<^verbatim>\<open>domain_delete_handler.go\<close>), redeem and its report (\<^verbatim>\<open>domain_redeem_handler.go\<close>,
  \<^verbatim>\<open>domain_redeem_report_handler.go\<close>), transfers (\<^verbatim>\<open>domain_transfer_in_request_handler.go\<close>,
  \<^verbatim>\<open>domain_transfer_action_handler.go\<close>) and the two checks (\<^verbatim>\<open>validate_domain_check.go\<close>,
  \<^verbatim>\<open>validate_domain_claims_check.go\<close>).
\<close>

section \<open>Info\<close>

definition DomainInfo_body :: "services \<Rightarrow> message \<Rightarrow> database \<Rightarrow> Job \<Rightarrow> (hist, gerr option) go" where
  "DomainInfo_body S message tx job =
     bnd (as_Notification message) (\<lambda>(jobId, _).
     bnd (deref (job_Info job)) (\<lambda>info.
     case unmarshal dec_DomainInfoData zero_DomainInfoData (vj_Data info) of
       None \<Rightarrow> fail_decode S tx job ''DomainInfoData'' (vj_Data info)
     | Some data \<Rightarrow>
         send_and_mark S tx job (GetQueryQueue (acc_AccreditationName (di_Accreditation data)))
           (DomainInfoRequestMsg (di_Name data) (di_Pw data)) (domain_headers jobId)))"

definition DomainInfoHandler :: "services \<Rightarrow> database \<Rightarrow> message \<Rightarrow> (hist, gerr option) go" where
  "DomainInfoHandler S db message =
     bnd (as_Notification message) (\<lambda>(jobId, _). submit_job S db jobId (DomainInfo_body S message))"

section \<open>Delete\<close>

definition DomainDelete_body :: "services \<Rightarrow> message \<Rightarrow> database \<Rightarrow> Job \<Rightarrow> (hist, gerr option) go" where
  "DomainDelete_body S message tx job =
     bnd (as_Notification message) (\<lambda>(jobId, _).
     bnd (deref (job_Info job)) (\<lambda>info.
     case unmarshal dec_DomainDeleteData zero_DomainDeleteData (vj_Data info) of
       None \<Rightarrow> fail_decode S tx job ''DomainDeleteData'' (vj_Data info)
     | Some data \<Rightarrow>
         if ddl_InRedemptionGracePeriod data \<or>
            map_of (go_slice (ddl_Metadata data)) ''domain_not_found'' = Some (JBool True)
         then finish_job S tx job JobStatus_Completed None
         else send_and_mark S tx job (GetTransformQueue (acc_AccreditationName (ddl_Accreditation data)))
                (DomainDeleteRequestMsg (ddl_Name data)) (domain_headers jobId)))"

definition DomainDeleteHandler :: "services \<Rightarrow> database \<Rightarrow> message \<Rightarrow> (hist, gerr option) go" where
  "DomainDeleteHandler S db message =
     bnd (as_Notification message) (\<lambda>(jobId, _). submit_job S db jobId (DomainDelete_body S message))"

section \<open>Redeem\<close>

definition toDomainRedeemRequest :: "services \<Rightarrow> DomainRedeemData \<Rightarrow> gerr + DomainUpdateRequest" where
  "toDomainRedeemRequest S data =
     (case sv_pack S (RgpUpdateRequestExt ''request'' None) of
        Inl e \<Rightarrow> Inl e
      | Inr rgpExtension \<Rightarrow>
          (case setFeeExtension S [(''rgp'', Some rgpExtension)] (drd_Price data) of
             Inl e \<Rightarrow> Inl e
           | Inr exts \<Rightarrow>
               Inr \<lparr>dur_Name = drd_Name data, dur_Add = None, dur_Rem = None, dur_Chg = None,
                    dur_Extensions = exts\<rparr>))"

definition DomainRedeem_body :: "services \<Rightarrow> message \<Rightarrow> database \<Rightarrow> Job \<Rightarrow> (hist, gerr option) go" where
  "DomainRedeem_body S message tx job =
     bnd (as_Notification message) (\<lambda>(jobId, _).
     bnd (deref (job_Info job)) (\<lambda>info.
     case unmarshal (dec_DomainRedeemData (sv_f64 S)) zero_DomainRedeemData (vj_Data info) of
       None \<Rightarrow> fail_decode S tx job ''DomainRedeemData'' (vj_Data info)
     | Some data \<Rightarrow>
         bnd (GetProvisionDomainRedeem S tx (drd_ProvisionDomainRedeemId data)) (\<lambda>(pdr, err).
         case err of
           Some e \<Rightarrow> fail_with S tx job (err_text e) None
         | None \<Rightarrow>
             bnd (deref pdr) (\<lambda>pdr.
             if pdrd_InRestorePendingStatus pdr = Some True
             then finish_job S tx job JobStatus_Completed None
             else
               (case toDomainRedeemRequest S data of
                  Inl e \<Rightarrow> fail_with S tx job (err_text e) None
                | Inr msg \<Rightarrow>
                    send_and_mark S tx job (GetTransformQueue (acc_AccreditationName (drd_Accreditation data)))
                      (DomainUpdateRequestMsg msg) (domain_headers jobId))))))"

definition DomainRedeemHandler :: "services \<Rightarrow> database \<Rightarrow> message \<Rightarrow> (hist, gerr option) go" where
  "DomainRedeemHandler S db message =
     bnd (as_Notification message) (\<lambda>(jobId, _). submit_job S db jobId (DomainRedeem_body S message))"

section \<open>The redeem report\<close>

text \<open>
  \<^verbatim>\<open>addField\<close> passes its variadic values to \<^verbatim>\<open>fmt.Sprintf\<close> as one slice, so the first \<^verbatim>\<open>%s\<close> prints the
  whole list in brackets, its elements separated by spaces, and a second \<^verbatim>\<open>%s\<close> finds no argument.
\<close>

definition bracketed :: "string list \<Rightarrow> string" where
  "bracketed vs = ''['' @ concat (tl (concat (map (\<lambda>v. ['' '', v]) vs))) @ '']''"

definition missing_arg :: string where
  "missing_arg = ''%!s(MISSING)''"

fun addField :: "string list \<Rightarrow> string list \<Rightarrow> string" where
  "addField [] values = []"
| "addField [lit] values = lit"
| "addField (lit # lits) values =
     lit @ (if values = [] then missing_arg else bracketed values) @ addField lits []"

text \<open>
  A format is given by its literal parts; a \<^verbatim>\<open>%s\<close> stands between two of them. \<open>addField\<close> prints the
  bracketed list for the first and \<^verbatim>\<open>%!s(MISSING)\<close> for the others.
\<close>

abbreviation newline :: string where "newline \<equiv> [CHR 10]"

definition formatDomainRedeemData :: "services \<Rightarrow> DomainRedeemData \<Rightarrow> string" where
  "formatDomainRedeemData S item =
     addField [''name:'', newline] [drd_Name item] @
     addField [''status s=\"'', ''\"'' @ newline] [drd_Status item] @
     concat (map (\<lambda>contact.
        if dc_Type contact = ''registrant''
        then addField [[], '':'', newline] [dc_Type contact, dc_Handle contact]
        else addField [''contact type '', '':'', newline] [dc_Type contact, dc_Handle contact])
       (go_slice (drd_Contacts item))) @
     concat (map (\<lambda>nameserver. addField [''ns:'', newline] [ns_Name nameserver]) (go_slice (drd_Nameservers item))) @
     addField [''crDate:'', newline] [sv_time_string S (drd_CreateDate item)] @
     addField [''exDate:'', newline] [sv_time_string S (drd_ExpiryDate item)]"

definition RedeemRestoreReason :: string where
  "RedeemRestoreReason = ''Registrant error.''"

definition RedeemStatement1 :: string where
  "RedeemStatement1 = ''This registrar has not restored the'' @ newline @ ''Registered Name'' @ newline @
     ''in order to assume the rights to use'' @ newline @ ''or sell the Registered Name for itself or for any'' @
     newline @ ''third party.''"

definition RedeemStatement2 :: string where
  "RedeemStatement2 = ''The information in this report is'' @ newline @
     ''true to best of this registrar'' @ [CHR 39] @ ''s knowledge, and this'' @ newline @
     ''registrar acknowledges that intentionally supplying'' @ newline @
     ''false information in this report shall constitute an'' @ newline @
     ''incurable material breach of the'' @ newline @ ''Registry-Registrar Agreement.''"

definition toDomainRedeemReport :: "services \<Rightarrow> DomainRedeemData \<Rightarrow> gerr + DomainUpdateRequest" where
  "toDomainRedeemReport S data =
     (let domainData = formatDomainRedeemData S data in
      case sv_pack S (RgpUpdateRequestExt ''report'' (Some
             \<lparr>rgp_PreData = domainData, rgp_PostData = domainData,
              rgp_DelTime = timestamp_New (drd_DeleteDate data), rgp_ResTime = timestamp_New (drd_RestoreDate data),
              rgp_ResReason = RedeemRestoreReason, rgp_Statement1 = RedeemStatement1,
              rgp_Statement2 = RedeemStatement2\<rparr>)) of
        Inl e \<Rightarrow> Inl e
      | Inr anyExtension \<Rightarrow>
          (case setFeeExtension S [(''rgp'', Some anyExtension)]
                  (if drd_RestoreReportIncludesFeeExt data then drd_Price data else None) of
             Inl e \<Rightarrow> Inl e
           | Inr exts \<Rightarrow>
               Inr \<lparr>dur_Name = drd_Name data, dur_Add = None, dur_Rem = None, dur_Chg = None,
                    dur_Extensions = exts\<rparr>))"

definition DomainRedeemReport_body :: "services \<Rightarrow> message \<Rightarrow> database \<Rightarrow> Job \<Rightarrow> (hist, gerr option) go" where
  "DomainRedeemReport_body S message tx job =
     bnd (as_Notification message) (\<lambda>(jobId, _).
     bnd (deref (job_Info job)) (\<lambda>info.
     case unmarshal (dec_DomainRedeemData (sv_f64 S)) zero_DomainRedeemData (vj_Data info) of
       None \<Rightarrow> fail_decode S tx job ''DomainRedeemData'' (vj_Data info)
     | Some data \<Rightarrow>
         (case toDomainRedeemReport S data of
            Inl e \<Rightarrow> fail_with S tx job (err_text e) None
          | Inr msg \<Rightarrow>
              send_and_mark S tx job (GetTransformQueue (acc_AccreditationName (drd_Accreditation data)))
                (DomainUpdateRequestMsg msg) (domain_headers jobId))))"

definition DomainRedeemReportHandler :: "services \<Rightarrow> database \<Rightarrow> message \<Rightarrow> (hist, gerr option) go" where
  "DomainRedeemReportHandler S db message =
     bnd (as_Notification message) (\<lambda>(jobId, _). submit_job S db jobId (DomainRedeemReport_body S message))"

section \<open>Transfers\<close>

definition DomainTransferInRequest_body :: "services \<Rightarrow> message \<Rightarrow> database \<Rightarrow> Job \<Rightarrow> (hist, gerr option) go" where
  "DomainTransferInRequest_body S message tx job =
     bnd (as_Notification message) (\<lambda>(jobId, _).
     bnd (deref (job_Info job)) (\<lambda>info.
     case unmarshal (dec_DomainTransferInRequestData (sv_f64 S)) zero_DomainTransferInRequestData (vj_Data info) of
       None \<Rightarrow> fail_decode S tx job ''DomainTransferInRequestData'' (vj_Data info)
     | Some data \<Rightarrow>
         (case setFeeExtension S [] (dtr_Price data) of
            Inl e \<Rightarrow> ret (Some e)
          | Inr exts \<Rightarrow>
              send_and_mark S tx job (GetTransformQueue (acc_AccreditationName (dtr_Accreditation data)))
                (DomainTransferRequestMsg
                  \<lparr>dtq_Name = dtr_Name data, dtq_Pw = dtr_Pw data, dtq_Period = dtr_TransferPeriod data,
                   dtq_PeriodUnit = PeriodUnit_YEAR, dtq_Extensions = exts\<rparr>)
                (domain_headers jobId))))"

definition DomainTransferInRequestHandler :: "services \<Rightarrow> database \<Rightarrow> message \<Rightarrow> (hist, gerr option) go" where
  "DomainTransferInRequestHandler S db message =
     bnd (as_Notification message) (\<lambda>(jobId, _). submit_job S db jobId (DomainTransferInRequest_body S message))"

text \<open>A transfer status that is not an action of the client is logged; the job stays as it is.\<close>

definition transfer_action_request :: "DomainTransferActionData \<Rightarrow> message option" where
  "transfer_action_request data =
     (if dta_TransferStatus data = TransferStatus_ClientApproved
      then Some (DomainTransferApproveRequestMsg (dta_Name data) (dta_Pw data))
      else if dta_TransferStatus data = TransferStatus_ClientRejected
      then Some (DomainTransferRejectRequestMsg (dta_Name data) (dta_Pw data))
      else if dta_TransferStatus data = TransferStatus_ClientCancelled
      then Some (DomainTransferCancelRequestMsg (dta_Name data) (dta_Pw data))
      else None)"

text \<open>A job whose data names a transfer status that is none of the client's three actions.\<close>

definition unknown_transfer :: "Job \<Rightarrow> bool" where
  "unknown_transfer job =
     (case job_Info job of
        None \<Rightarrow> False
      | Some info \<Rightarrow>
          (case unmarshal dec_DomainTransferActionData zero_DomainTransferActionData (vj_Data info) of
             None \<Rightarrow> False
           | Some data \<Rightarrow> dta_TransferStatus data \<notin> {''clientApproved'', ''clientRejected'', ''clientCancelled''}))"

definition DomainTransferAction_body :: "services \<Rightarrow> message \<Rightarrow> database \<Rightarrow> Job \<Rightarrow> (hist, gerr option) go" where
  "DomainTransferAction_body S message tx job =
     bnd (as_Notification message) (\<lambda>(jobId, _).
     bnd (deref (job_Info job)) (\<lambda>info.
     case unmarshal dec_DomainTransferActionData zero_DomainTransferActionData (vj_Data info) of
       None \<Rightarrow> fail_decode S tx job ''DomainTransferActionData'' (vj_Data info)
     | Some data \<Rightarrow>
         (case transfer_action_request data of
            None \<Rightarrow> ret None
          | Some msg \<Rightarrow>
              send_and_mark S tx job (GetTransformQueue (acc_AccreditationName (dta_Accreditation data)))
                msg (domain_headers jobId))))"

definition DomainTransferActionHandler :: "services \<Rightarrow> database \<Rightarrow> message \<Rightarrow> (hist, gerr option) go" where
  "DomainTransferActionHandler S db message =
     bnd (as_Notification message) (\<lambda>(jobId, _). submit_job S db jobId (DomainTransferAction_body S message))"

section \<open>Checks\<close>

definition check_operation :: "services \<Rightarrow> string \<Rightarrow> BaseOperation" where
  "check_operation S orderType =
     (if orderType = DomainOrderType_TransferIn then TRANSFER
      else if orderType = DomainOrderType_Renew then RENEWAL
      else if orderType = DomainOrderType_Redeem then RESTORE
      else if orderType = DomainOrderType_Create then REGISTRATION
      else sv_operation0 S)"

definition addFeeExtension :: "services \<Rightarrow> DomainCheckValidationData \<Rightarrow> gerr + extensions" where
  "addFeeExtension S data =
     (case sv_pack S (FeeCheckRequestExt
             \<lparr>fcq_Names = [dchk_Name data], fcq_Operation = check_operation S (dchk_OrderType data),
              fcq_Period = dchk_Period data,
              fcq_PeriodUnit = map_option (\<lambda>_. PeriodUnit_YEAR) (dchk_Period data),
              fcq_Currency = map_option op_Currency (dchk_Price data)\<rparr>) of
        Inl e \<Rightarrow> Inl e
      | Inr feeExtension \<Rightarrow> Inr [(''fee'', Some feeExtension)])"

definition ValidateDomainCheck_body :: "services \<Rightarrow> message \<Rightarrow> database \<Rightarrow> Job \<Rightarrow> (hist, gerr option) go" where
  "ValidateDomainCheck_body S message tx job =
     bnd (as_Notification message) (\<lambda>(jobId, _).
     bnd (deref (job_Info job)) (\<lambda>info.
     case unmarshal (dec_DomainCheckValidationData (sv_f64 S)) zero_DomainCheckValidationData (vj_Data info) of
       None \<Rightarrow> fail_decode S tx job ''DomainCheckValidationData'' (vj_Data info)
     | Some data \<Rightarrow>
         (case (if dchk_Price data \<noteq> None then addFeeExtension S data else Inr []) of
            Inl e \<Rightarrow> fail_with S tx job (err_text e) None
          | Inr exts \<Rightarrow>
              send_and_mark S tx job (GetQueryQueue (acc_AccreditationName (dchk_Accreditation data)))
                (DomainCheckRequestMsg [dchk_Name data] exts) (domain_headers jobId))))"

definition ValidateDomainCheckHandler :: "services \<Rightarrow> database \<Rightarrow> message \<Rightarrow> (hist, gerr option) go" where
  "ValidateDomainCheckHandler S db message =
     bnd (as_Notification message) (\<lambda>(jobId, _). submit_job S db jobId (ValidateDomainCheck_body S message))"

definition ValidateDomainClaimsCheck_body :: "services \<Rightarrow> message \<Rightarrow> database \<Rightarrow> Job \<Rightarrow> (hist, gerr option) go" where
  "ValidateDomainClaimsCheck_body S message tx job =
     bnd (as_Notification message) (\<lambda>(jobId, _).
     bnd (deref (job_Info job)) (\<lambda>info.
     case unmarshal dec_DomainClaimsValidationData zero_DomainClaimsValidationData (vj_Data info) of
       None \<Rightarrow> fail_decode S tx job ''DomainClaimsValidationData'' (vj_Data info)
     | Some data \<Rightarrow>
         (case sv_pack S LaunchCheckClaimsExt of
            Inl e \<Rightarrow> ret (Some e)
          | Inr launchExtension \<Rightarrow>
              send_and_mark S tx job (GetQueryQueue (acc_AccreditationName (dcv_Accreditation data)))
                (DomainCheckRequestMsg [dcv_Name data] [(''launch'', Some launchExtension)])
                (domain_headers jobId))))"

definition ValidateDomainClaimsCheckHandler :: "services \<Rightarrow> database \<Rightarrow> message \<Rightarrow> (hist, gerr option) go" where
  "ValidateDomainClaimsCheckHandler S db message =
     bnd (as_Notification message) (\<lambda>(jobId, _). submit_job S db jobId (ValidateDomainClaimsCheck_body S message))"

section \<open>The bodies keep the contract\<close>

lemma adds_request_bodies [adds_rules]:
  "adds (request_event tx job) is_job_write (Suc 0) (DomainInfo_body S m tx job)"
  "adds (request_event tx job) is_send (Suc 0) (DomainInfo_body S m tx job)"
  "adds (request_event tx job) is_job_write (Suc 0) (DomainDelete_body S m tx job)"
  "adds (request_event tx job) is_send (Suc 0) (DomainDelete_body S m tx job)"
  "adds (request_event tx job) is_job_write (Suc 0) (DomainRedeem_body S m tx job)"
  "adds (request_event tx job) is_send (Suc 0) (DomainRedeem_body S m tx job)"
  "adds (request_event tx job) is_job_write (Suc 0) (DomainRedeemReport_body S m tx job)"
  "adds (request_event tx job) is_send (Suc 0) (DomainRedeemReport_body S m tx job)"
  "adds (request_event tx job) is_job_write (Suc 0) (DomainTransferInRequest_body S m tx job)"
  "adds (request_event tx job) is_send (Suc 0) (DomainTransferInRequest_body S m tx job)"
  "adds (request_event tx job) is_job_write (Suc 0) (DomainTransferAction_body S m tx job)"
  "adds (request_event tx job) is_send (Suc 0) (DomainTransferAction_body S m tx job)"
  "adds (request_event tx job) is_job_write (Suc 0) (ValidateDomainCheck_body S m tx job)"
  "adds (request_event tx job) is_send (Suc 0) (ValidateDomainCheck_body S m tx job)"
  "adds (request_event tx job) is_job_write (Suc 0) (ValidateDomainClaimsCheck_body S m tx job)"
  "adds (request_event tx job) is_send (Suc 0) (ValidateDomainClaimsCheck_body S m tx job)"
  unfolding DomainInfo_body_def DomainDelete_body_def DomainRedeem_body_def DomainRedeemReport_body_def
    DomainTransferInRequest_body_def DomainTransferAction_body_def ValidateDomainCheck_body_def
    ValidateDomainClaimsCheck_body_def row_ops
  by (intro adds_rules; simp)+

lemma ends_transfer_action:
  assumes "\<not> unknown_transfer job"
  shows "ends (\<lambda>err h. err = (None :: gerr option) \<longrightarrow> dispatched S tx job (notified m) h) (DomainTransferAction_body S m tx job)"
proof -
  have known: "transfer_action_request data \<noteq> None"
    if "job_Info job = Some info"
      "unmarshal dec_DomainTransferActionData zero_DomainTransferActionData (vj_Data info) = Some data" for info data
    using assms that by (auto simp: unknown_transfer_def transfer_action_request_def)
  show ?thesis
    unfolding DomainTransferAction_body_def
    by (rule ends_as_Notification) (cases "job_Info job"; auto dest: known intro!: ends_rules split: option.split)
qed

lemma ends_request_bodies [ends_rules]:
  fixes m
  defines "Q \<equiv> \<lambda>S tx job. \<lambda>err h. err = (None :: gerr option) \<longrightarrow> dispatched S tx job (notified m) h"
  shows "ends (Q S tx job) (DomainInfo_body S m tx job)"
    "ends (Q S tx job) (DomainDelete_body S m tx job)"
    "ends (Q S tx job) (DomainRedeem_body S m tx job)"
    "ends (Q S tx job) (DomainRedeemReport_body S m tx job)"
    "ends (Q S tx job) (DomainTransferInRequest_body S m tx job)"
    "ends (Q S tx job) (ValidateDomainCheck_body S m tx job)"
    "ends (Q S tx job) (ValidateDomainClaimsCheck_body S m tx job)"
  unfolding DomainInfo_body_def DomainDelete_body_def DomainRedeem_body_def DomainRedeemReport_body_def
    DomainTransferInRequest_body_def ValidateDomainCheck_body_def ValidateDomainClaimsCheck_body_def Q_def
  by (rule ends_as_Notification, (auto intro!: ends_rules)[1])+

end
