(* ===== verification/DW_Update.thy ===== *)
theory DW_Update
  imports DW_Create
begin

text \<open>
  The domain worker's update request (\<^verbatim>\<open>domain/handlers/domain_update_handler.go\<close>). The job says what
  the domain should become; the registry only accepts what to add, what to remove and what to
  change. The worker compares the job's data with the database row and, where it needs to, with the
  registry's own answer, which it asks for at most once and then keeps.

  The steps of \<^verbatim>\<open>toDomainUpdateRequest\<close> are definitions of their own: contacts, password and registrant,
  nameservers, locks, extensions. \<open>update_state\<close> is what the Go function keeps in local variables.
\<close>

section \<open>Local state\<close>

record update_state =
  us_Request :: DomainUpdateRequest
  us_Registrant :: "string option"
  us_DomainInfo :: "DomainInfoResponse option"

definition empty_block :: DomainAddRemBlock where
  "empty_block = \<lparr>arb_Contacts = [], arb_Nameservers = [], arb_Nsattributes = [], arb_Status = []\<rparr>"

text \<open>A block is allocated when it is first needed.\<close>

definition block :: "DomainAddRemBlock option \<Rightarrow> DomainAddRemBlock" where
  "block b = (case b of None \<Rightarrow> empty_block | Some b \<Rightarrow> b)"

definition chg_block :: "DomainChgBlock option \<Rightarrow> DomainChgBlock" where
  "chg_block c = (case c of None \<Rightarrow> \<lparr>chg_Registrant = None, chg_Pw = None\<rparr> | Some c \<Rightarrow> c)"

section \<open>The registry's view of the domain\<close>

definition findHandleInDomainInfo :: "DomainInfoResponse option \<Rightarrow> string \<Rightarrow> string" where
  "findHandleInDomainInfo domainInfo contactType =
     (case domainInfo of
        None \<Rightarrow> []
      | Some info \<Rightarrow>
          (case find (\<lambda>c. dcm_Type c = contact_type contactType) (din_Contacts info) of
             None \<Rightarrow> []
           | Some c \<Rightarrow> dcm_Id c))"

definition getDomainInfoIfNeeded ::
  "services \<Rightarrow> DomainInfoResponse option \<Rightarrow> string \<Rightarrow> string \<Rightarrow> (hist, gerr + DomainInfoResponse) go" where
  "getDomainInfoIfNeeded S domainInfo domainName accreditationName =
     (case domainInfo of
        Some info \<Rightarrow> ret (Inr info)
      | None \<Rightarrow> DW_getDomainInfo S domainName accreditationName)"

abbreviation info_for :: "services \<Rightarrow> DomainInfoResponse option \<Rightarrow> DomainUpdateData \<Rightarrow> (hist, gerr + DomainInfoResponse) go" where
  "info_for S domainInfo data \<equiv>
     getDomainInfoIfNeeded S domainInfo (dud_Name data) (acc_AccreditationName (dud_Accreditation data))"

section \<open>Contacts\<close>

text \<open>The messages for the entries of a contact map, in the order they are visited, and the registrant.\<close>

fun contact_entries :: "(string \<times> string) list \<Rightarrow> string option \<Rightarrow> DomainContactMsg list \<Rightarrow> string option \<times> DomainContactMsg list" where
  "contact_entries [] registrant cs = (registrant, cs)"
| "contact_entries ((t, h) # es) registrant cs =
     (if t = ''registrant'' then contact_entries es (Some h) cs
      else contact_entries es registrant (cs @ [\<lparr>dcm_Type = contact_type t, dcm_Id = h\<rparr>]))"

definition processContacts ::
  "services \<Rightarrow> (string \<times> string) list \<Rightarrow> DomainAddRemBlock option
     \<Rightarrow> (hist, string option \<times> DomainAddRemBlock) go" where
  "processContacts S contacts b =
     bnd (observe (\<lambda>h. range_map S h contacts)) (\<lambda>es.
     let (registrant, cs) = contact_entries es None []
     in ret (registrant, (block b)\<lparr>arb_Contacts := arb_Contacts (block b) @ cs\<rparr>))"

text \<open>The contacts a type-to-handle map replaces, with handles missing in the database asked of the registry.\<close>

fun removed_contacts ::
  "services \<Rightarrow> database \<Rightarrow> DomainUpdateData \<Rightarrow> (string \<times> string) list \<Rightarrow> DomainContactRow list
     \<Rightarrow> DomainInfoResponse option \<Rightarrow> (string \<times> string) list
     \<Rightarrow> (hist, gerr + DomainInfoResponse option \<times> (string \<times> string) list) go" where
  "removed_contacts S tx data contactSet [] domainInfo removed = ret (Inr (domainInfo, removed))"
| "removed_contacts S tx data contactSet (c # cs) domainInfo removed =
     (let contactType = GetDomainContactTypeName tx (dcw_DomainContactTypeID c) in
      if map_of contactSet contactType = None
      then removed_contacts S tx data contactSet cs domainInfo removed
      else if dcw_Handle c \<noteq> []
      then removed_contacts S tx data contactSet cs domainInfo (AList.update contactType (dcw_Handle c) removed)
      else
        bnd (info_for S domainInfo data) (\<lambda>r.
        case r of
          Inl e \<Rightarrow> ret (Inl e)
        | Inr info \<Rightarrow>
            (let handle = findHandleInDomainInfo (Some info) contactType in
             removed_contacts S tx data contactSet cs (Some info)
               (if handle \<noteq> [] then AList.update contactType handle removed else removed))))"

definition contact_set :: "DomainContact list \<Rightarrow> (string \<times> string) list" where
  "contact_set cs = fold (\<lambda>c m. AList.update (dc_Type c) (dc_Handle c) m) cs []"

definition replace_contacts ::
  "services \<Rightarrow> database \<Rightarrow> DomainUpdateData \<Rightarrow> Domain option \<Rightarrow> DomainContact list \<Rightarrow> update_state
     \<Rightarrow> (hist, gerr + update_state) go" where
  "replace_contacts S tx data domain all us =
     (let contactSet = contact_set all; req = us_Request us in
      bnd (processContacts S contactSet (dur_Add req)) (\<lambda>(registrant, add).
      bnd (deref domain) (\<lambda>domain.
      bnd (removed_contacts S tx data contactSet (go_slice (dom_DomainContacts domain)) (us_DomainInfo us) []) (\<lambda>r.
      case r of
        Inl e \<Rightarrow> ret (Inl e)
      | Inr (domainInfo, removed) \<Rightarrow>
          bnd (processContacts S removed (dur_Rem req)) (\<lambda>(_, rem).
          ret (Inr \<lparr>us_Request = req\<lparr>dur_Add := Some add, dur_Rem := Some rem\<rparr>,
                    us_Registrant = registrant, us_DomainInfo = domainInfo\<rparr>))))))"

fun add_contacts :: "DomainContact list \<Rightarrow> DomainAddRemBlock option \<Rightarrow> string option \<Rightarrow> DomainAddRemBlock option \<times> string option" where
  "add_contacts [] b registrant = (b, registrant)"
| "add_contacts (c # cs) b registrant =
     (if dc_Type c = ''registrant'' then add_contacts cs (Some (block b)) (Some (dc_Handle c))
      else add_contacts cs
             (Some ((block b)\<lparr>arb_Contacts := arb_Contacts (block b) @
                      [\<lparr>dcm_Type = contact_type (dc_Type c), dcm_Id = dc_Handle c\<rparr>]\<rparr>))
             registrant)"

fun rem_contacts ::
  "services \<Rightarrow> DomainUpdateData \<Rightarrow> DomainContact list \<Rightarrow> DomainInfoResponse option \<Rightarrow> DomainAddRemBlock option
     \<Rightarrow> (hist, gerr + DomainInfoResponse option \<times> DomainAddRemBlock option) go" where
  "rem_contacts S data [] domainInfo b = ret (Inr (domainInfo, b))"
| "rem_contacts S data (c # cs) domainInfo b =
     (let b = block b;
          add_handle = (\<lambda>handle. if handle \<noteq> []
             then b\<lparr>arb_Contacts := arb_Contacts b @ [\<lparr>dcm_Type = contact_type (dc_Type c), dcm_Id = handle\<rparr>]\<rparr>
             else b) in
      if dc_Type c = ''registrant'' then rem_contacts S data cs domainInfo (Some b)
      else if dc_Handle c \<noteq> [] then rem_contacts S data cs domainInfo (Some (add_handle (dc_Handle c)))
      else
        bnd (info_for S domainInfo data) (\<lambda>r.
        case r of
          Inl e \<Rightarrow> ret (Inl e)
        | Inr info \<Rightarrow>
            rem_contacts S data cs (Some info)
              (Some (add_handle (findHandleInDomainInfo (Some info) (dc_Type c))))))"

definition update_contacts ::
  "services \<Rightarrow> database \<Rightarrow> DomainUpdateData \<Rightarrow> Domain option \<Rightarrow> update_state \<Rightarrow> (hist, gerr + update_state) go" where
  "update_contacts S tx data domain us =
     (case dud_Contacts data of
        None \<Rightarrow> ret (Inr us)
      | Some contacts \<Rightarrow>
          if length (go_slice (duc_All contacts)) > 0
          then replace_contacts S tx data domain (go_slice (duc_All contacts)) us
          else
            (let req = us_Request us;
                 (add, registrant) = add_contacts (go_slice (duc_Add contacts)) (dur_Add req) (us_Registrant us)
             in bnd (rem_contacts S data (go_slice (duc_Rem contacts)) (us_DomainInfo us) (dur_Rem req)) (\<lambda>r.
                case r of
                  Inl e \<Rightarrow> ret (Inl e)
                | Inr (domainInfo, rem) \<Rightarrow>
                    ret (Inr \<lparr>us_Request = req\<lparr>dur_Add := add, dur_Rem := rem\<rparr>,
                              us_Registrant = registrant, us_DomainInfo = domainInfo\<rparr>))))"

section \<open>Password and registrant\<close>

definition update_chg :: "DomainUpdateData \<Rightarrow> update_state \<Rightarrow> update_state" where
  "update_chg data us =
     (let req = us_Request us;
          req = (if dud_Pw data \<noteq> None
                 then req\<lparr>dur_Chg := Some ((chg_block (dur_Chg req))\<lparr>chg_Pw := dud_Pw data\<rparr>)\<rparr> else req);
          req = (if us_Registrant us \<noteq> None
                 then req\<lparr>dur_Chg := Some ((chg_block (dur_Chg req))\<lparr>chg_Registrant := us_Registrant us\<rparr>)\<rparr> else req)
      in us\<lparr>us_Request := req\<rparr>)"

section \<open>Nameservers\<close>

fun populateNSAddRemBlock :: "bool \<Rightarrow> Nameserver option list \<Rightarrow> DomainAddRemBlock \<Rightarrow> DomainAddRemBlock" where
  "populateNSAddRemBlock hostObjectSupported [] b = b"
| "populateNSAddRemBlock hostObjectSupported (None # nss) b = populateNSAddRemBlock hostObjectSupported nss b"
| "populateNSAddRemBlock hostObjectSupported (Some ns # nss) b =
     populateNSAddRemBlock hostObjectSupported nss
       (if hostObjectSupported
        then b\<lparr>arb_Nameservers := arb_Nameservers b @ [ns_Name ns]\<rparr>
        else b\<lparr>arb_Nsattributes := arb_Nsattributes b @ [host_attribute ns]\<rparr>)"

text \<open>The filter reads the name through the pointer: a null entry panics.\<close>

fun filter_nameservers :: "(string \<Rightarrow> bool) \<Rightarrow> Nameserver option list \<Rightarrow> (hist, Nameserver option list) go" where
  "filter_nameservers keep [] = ret []"
| "filter_nameservers keep (ns # nss) =
     bnd (deref ns) (\<lambda>n.
     bnd (filter_nameservers keep nss) (\<lambda>rest.
     ret (if keep (ns_Name n) then Some n # rest else rest)))"

definition add_nameservers ::
  "services \<Rightarrow> DomainUpdateData \<Rightarrow> bool \<Rightarrow> update_state \<Rightarrow> (hist, gerr + update_state) go" where
  "add_nameservers S data hostObjectSupported us =
     (let add = go_slice (dun_Add (dud_Nameservers data)); req = us_Request us in
      if length add > 0 then
        bnd (info_for S (us_DomainInfo us) data) (\<lambda>r.
        case r of
          Inl e \<Rightarrow> ret (Inl e)
        | Inr info \<Rightarrow>
            bnd (filter_nameservers (\<lambda>n. n \<notin> set (din_Nameservers info)) add) (\<lambda>addNameservers.
            ret (Inr (us\<lparr>us_DomainInfo := Some info,
                         us_Request := req\<lparr>dur_Add := Some
                           (populateNSAddRemBlock hostObjectSupported addNameservers (block (dur_Add req)))\<rparr>\<rparr>))))
      else ret (Inr us))"

definition rem_nameservers ::
  "services \<Rightarrow> DomainUpdateData \<Rightarrow> bool \<Rightarrow> update_state \<Rightarrow> (hist, gerr + update_state) go" where
  "rem_nameservers S data hostObjectSupported us =
     (let rem = go_slice (dun_Rem (dud_Nameservers data)); req = us_Request us in
      if length rem > 0 then
        bnd (info_for S (us_DomainInfo us) data) (\<lambda>r.
        case r of
          Inl e \<Rightarrow> ret (Inl e)
        | Inr info \<Rightarrow>
            bnd (filter_nameservers (\<lambda>n. n \<in> set (din_Nameservers info)) rem) (\<lambda>remNameservers.
            ret (Inr (us\<lparr>us_DomainInfo := Some info,
                         us_Request := req\<lparr>dur_Rem := Some
                           (populateNSAddRemBlock hostObjectSupported remNameservers (block (dur_Rem req)))\<rparr>\<rparr>))))
      else ret (Inr us))"

section \<open>Locks\<close>

definition add_status :: "string \<Rightarrow> DomainAddRemBlock option \<Rightarrow> DomainAddRemBlock option" where
  "add_status s b = Some ((block b)\<lparr>arb_Status := arb_Status (block b) @ [s]\<rparr>)"

fun process_lock :: "string list \<Rightarrow> (string \<times> bool) list \<Rightarrow> DomainUpdateRequest \<Rightarrow> DomainUpdateRequest" where
  "process_lock statuses [] req = req"
| "process_lock statuses ((lockName, lockValue) # locks) req =
     process_lock statuses locks
       (case LocksToEppStatus lockName of
          None \<Rightarrow> req
        | Some eppStatus \<Rightarrow>
            if lockValue then
              (if eppStatus \<notin> set statuses then req\<lparr>dur_Add := add_status eppStatus (dur_Add req)\<rparr> else req)
            else
              (if eppStatus \<in> set statuses then req\<lparr>dur_Rem := add_status eppStatus (dur_Rem req)\<rparr> else req))"

definition processLocks ::
  "services \<Rightarrow> DomainUpdateData \<Rightarrow> DomainInfoResponse \<Rightarrow> DomainUpdateRequest \<Rightarrow> (hist, DomainUpdateRequest) go" where
  "processLocks S data domainInfo req =
     (case dud_Locks data of
        None \<Rightarrow> ret req
      | Some locks \<Rightarrow>
          bnd (observe (\<lambda>h. range_map S h locks)) (\<lambda>locks. ret (process_lock (din_Statuses domainInfo) locks req)))"

definition update_locks :: "services \<Rightarrow> DomainUpdateData \<Rightarrow> update_state \<Rightarrow> (hist, gerr + update_state) go" where
  "update_locks S data us =
     (if dud_Locks data \<noteq> None then
        bnd (info_for S (us_DomainInfo us) data) (\<lambda>r.
        case r of
          Inl e \<Rightarrow> ret (Inl e)
        | Inr info \<Rightarrow>
            bnd (processLocks S data info (us_Request us)) (\<lambda>req.
            ret (Inr (us\<lparr>us_DomainInfo := Some info, us_Request := req\<rparr>))))
      else ret (Inr us))"

section \<open>Extensions\<close>

text \<open>Key data overrides DS data; an added block without either is still sent.\<close>

definition secdns_add :: "SecDNSUpdateAddData option \<Rightarrow> secdns_data option" where
  "secdns_add a =
     (case a of
        None \<Rightarrow> None
      | Some a \<Rightarrow>
          (case sua_KeyData a of
             Some ks \<Rightarrow> Some (KeySet (map key_record (go_slice ks)))
           | None \<Rightarrow>
               (case sua_DSData a of
                  Some ds \<Rightarrow> Some (DsSet (map ds_record (go_slice ds)))
                | None \<Rightarrow> Some NoSecdns)))"

definition secdns_rem :: "SecDNSUpdateRemData option \<Rightarrow> secdns_data option" where
  "secdns_rem r =
     (case r of
        None \<Rightarrow> None
      | Some r \<Rightarrow>
          (case sur_KeyData r of
             Some ks \<Rightarrow> Some (KeySet (map key_record (go_slice ks)))
           | None \<Rightarrow>
               (case sur_DSData r of
                  Some ds \<Rightarrow> Some (DsSet (map ds_record (go_slice ds)))
                | None \<Rightarrow> None)))"

definition DW_processExtensions :: "services \<Rightarrow> DomainUpdateData \<Rightarrow> DomainUpdateRequest \<Rightarrow> gerr + DomainUpdateRequest" where
  "DW_processExtensions S data req =
     (case dud_SecDNSData data of
        None \<Rightarrow> Inr req
      | Some secDNS \<Rightarrow>
          (let add = secdns_add (su_AddData secDNS); rem = secdns_rem (su_RemData secDNS);
               chg = map_option word_of_int (su_MaxSigLife secDNS)
           in if add \<noteq> None \<or> rem \<noteq> None \<or> chg \<noteq> None then
                (case sv_pack S (SecdnsUpdateRequestExt add rem chg) of
                   Inl e \<Rightarrow> Inl e
                 | Inr anySecDNS \<Rightarrow>
                     Inr (req\<lparr>dur_Extensions := AList.update ''secdns'' (Some anySecDNS) (dur_Extensions req)\<rparr>))
              else Inr req))"

section \<open>The request\<close>

text \<open>Sequencing of steps that may fail.\<close>

definition step :: "(hist, gerr + 'a) go \<Rightarrow> ('a \<Rightarrow> (hist, gerr + 'b) go) \<Rightarrow> (hist, gerr + 'b) go" where
  "step m f = bnd m (\<lambda>r. case r of Inl e \<Rightarrow> ret (Inl e) | Inr a \<Rightarrow> f a)"

definition no_changes :: "DomainUpdateRequest \<Rightarrow> bool" where
  "no_changes req \<longleftrightarrow> dur_Add req = None \<and> dur_Rem req = None \<and> dur_Chg req = None \<and> length (dur_Extensions req) = 0"

definition toDomainUpdateRequest ::
  "services \<Rightarrow> database \<Rightarrow> DomainUpdateData \<Rightarrow> bool \<Rightarrow> (hist, gerr + DomainUpdateRequest option) go" where
  "toDomainUpdateRequest S tx data hostObjectSupported =
     bnd (GetDomain S tx (zero_Domain\<lparr>dom_Name := dud_Name data\<rparr>)) (\<lambda>(domain, err).
     case err of
       Some e \<Rightarrow> ret (Inl e)
     | None \<Rightarrow>
         step (update_contacts S tx data domain
                 \<lparr>us_Request = \<lparr>dur_Name = dud_Name data, dur_Add = None, dur_Rem = None, dur_Chg = None,
                                dur_Extensions = []\<rparr>,
                  us_Registrant = None, us_DomainInfo = None\<rparr>) (\<lambda>us.
         step (add_nameservers S data hostObjectSupported (update_chg data us)) (\<lambda>us.
         step (rem_nameservers S data hostObjectSupported us) (\<lambda>us.
         step (update_locks S data us) (\<lambda>us.
         case DW_processExtensions S data (us_Request us) of
           Inl e \<Rightarrow> ret (Inl e)
         | Inr req \<Rightarrow> ret (Inr (if no_changes req then None else Some req)))))))"

definition DomainUpdate_body :: "services \<Rightarrow> message \<Rightarrow> database \<Rightarrow> Job \<Rightarrow> (hist, gerr option) go" where
  "DomainUpdate_body S message tx job =
     bnd (as_Notification message) (\<lambda>(jobId, _).
     bnd (deref (job_Info job)) (\<lambda>info.
     case unmarshal dec_DomainUpdateData zero_DomainUpdateData (vj_Data info) of
       None \<Rightarrow> fail_decode S tx job ''DomainUpdateData'' (vj_Data info)
     | Some data \<Rightarrow>
         bnd (getBoolAttribute S tx ''tld.order.host_object_supported''
                (atld_AccreditationTldId (dud_AccreditationTld data))) (\<lambda>r.
         case r of
           Inl e \<Rightarrow> ret (Some e)
         | Inr hostObjectSupported \<Rightarrow>
             bnd (toDomainUpdateRequest S tx data hostObjectSupported) (\<lambda>r.
             case r of
               Inl e \<Rightarrow> fail_with S tx job (err_text e) None
             | Inr msg \<Rightarrow>
                 (case msg of
                    None \<Rightarrow>
                      finish_job S tx (job\<lparr>job_ResultMessage := Some ''No changes detected for domain update''\<rparr>)
                        JobStatus_Completed None
                  | Some msg \<Rightarrow>
                      send_and_mark S tx job (GetTransformQueue (acc_AccreditationName (dud_Accreditation data)))
                        (DomainUpdateRequestMsg msg) (domain_headers jobId))))))"

definition DomainUpdateHandler :: "services \<Rightarrow> database \<Rightarrow> message \<Rightarrow> (hist, gerr option) go" where
  "DomainUpdateHandler S db message =
     bnd (as_Notification message) (\<lambda>(jobId, _). submit_job S db jobId (DomainUpdate_body S message))"

section \<open>The body keeps the contract\<close>

lemma adds_step [adds_rules]:
  "adds P W 0 m \<Longrightarrow> (\<And>x. adds P W k (f x)) \<Longrightarrow> adds P W k (step m f)"
  unfolding step_def by (intro adds_rules) simp_all

text \<open>The steps only ask the registry.\<close>

definition only_calls :: "(hist, 'a) go \<Rightarrow> bool" where
  "only_calls m \<longleftrightarrow> adds (\<lambda>e. \<exists>q msg. e = BusCall q msg) (\<lambda>_. False) 0 m"

lemma adds_only_calls:
  assumes "only_calls m" "\<And>q msg. P (BusCall q msg)" "\<And>q msg. \<not> W (BusCall q msg)"
  shows "adds P W k m"
  unfolding adds_def
proof
  fix h
  obtain d where d: "snd (m h) = d @ h" "list_all (\<lambda>e. \<exists>q msg. e = BusCall q msg) d"
    using assms(1) unfolding only_calls_def by (rule addsE)
  moreover have "list_all P d" "filter W d = []"
    using d(2) assms(2,3) by (induction d) auto
  ultimately show "\<exists>d. snd (m h) = d @ h \<and> list_all P d \<and> length (filter W d) \<le> k" by auto
qed

lemma calls_info: "only_calls (getDomainInfoIfNeeded S i name acc)"
  unfolding only_calls_def getDomainInfoIfNeeded_def by (intro adds_rules) simp_all

lemmas calls_rules = adds_only_calls [OF calls_info]

lemma calls_processContacts: "only_calls (processContacts S cs b)"
  unfolding only_calls_def processContacts_def Let_def by (intro adds_rules)

lemma calls_removed_contacts: "only_calls (removed_contacts S tx data cset cs i removed)"
  unfolding only_calls_def
  by (induction cs arbitrary: i removed) (auto simp: Let_def intro!: adds_rules calls_rules)

lemma calls_rem_contacts: "only_calls (rem_contacts S data cs i b)"
  unfolding only_calls_def
  by (induction cs arbitrary: i b) (auto simp: Let_def intro!: adds_rules calls_rules)

lemma calls_filter: "only_calls (filter_nameservers keep nss)"
  unfolding only_calls_def by (induction nss) (auto intro!: adds_rules)

lemmas calls_parts = calls_rules adds_only_calls [OF calls_processContacts]
  adds_only_calls [OF calls_removed_contacts] adds_only_calls [OF calls_rem_contacts]
  adds_only_calls [OF calls_filter]

lemma calls_update_contacts: "only_calls (update_contacts S tx data domain us)"
  unfolding only_calls_def update_contacts_def replace_contacts_def Let_def
  by (intro adds_rules calls_parts) simp_all

lemma calls_nameservers:
  "only_calls (add_nameservers S data hos us)" "only_calls (rem_nameservers S data hos us)"
  unfolding only_calls_def add_nameservers_def rem_nameservers_def Let_def
  by (intro adds_rules calls_parts; simp)+

lemma calls_update_locks: "only_calls (update_locks S data us)"
  unfolding only_calls_def update_locks_def processLocks_def
  by (intro adds_rules calls_parts) simp_all

lemma adds_toDomainUpdateRequest:
  assumes "\<And>q. P (Query (db_gorm tx) q) \<and> \<not> W (Query (db_gorm tx) q)"
    "\<And>q msg. P (BusCall q msg) \<and> \<not> W (BusCall q msg)"
  shows "adds P W k (toDomainUpdateRequest S tx data hos)"
  unfolding toDomainUpdateRequest_def row_ops
  by (intro adds_rules adds_only_calls [OF calls_update_contacts] adds_only_calls [OF calls_update_locks]
      adds_only_calls [OF calls_nameservers(1)] adds_only_calls [OF calls_nameservers(2)])
     (use assms in simp_all)

lemma adds_DomainUpdate_body [adds_rules]:
  "adds (request_event tx job) is_job_write (Suc 0) (DomainUpdate_body S m tx job)"
  "adds (request_event tx job) is_send (Suc 0) (DomainUpdate_body S m tx job)"
  unfolding DomainUpdate_body_def by (intro adds_rules adds_toDomainUpdateRequest; simp)+

lemma ends_DomainUpdate_body [ends_rules]:
  "ends (\<lambda>err h. err = None \<longrightarrow> dispatched S tx job (notified m) h) (DomainUpdate_body S m tx job)"
  unfolding DomainUpdate_body_def by (rule ends_as_Notification) (auto intro!: ends_rules)

end
