(* ===== verification/Host_Contact_Data.thy ===== *)
theory Host_Contact_Data
  imports Job_Data
begin

text \<open>
  The payloads of the contact and host jobs (\<^verbatim>\<open>pkg/types/contact.go\<close>, \<^verbatim>\<open>pkg/types/host.go\<close>), in the form
  of theory \<open>Job_Data\<close>: a record per struct, its zero value, its JSON fields and its decoder.
\<close>

record Postal =
  po_City :: "string option"
  po_State :: "string option"
  po_Address1 :: "string option"
  po_Address2 :: "string option"
  po_Address3 :: "string option"
  po_OrgName :: "string option"
  po_FirstName :: "string option"
  po_LastName :: "string option"
  po_PostalCode :: "string option"
  po_IsInternational :: "bool option"

definition zero_Postal :: Postal where
  "zero_Postal =
     \<lparr>po_City = None,
      po_State = None,
      po_Address1 = None,
      po_Address2 = None,
      po_Address3 = None,
      po_OrgName = None,
      po_FirstName = None,
      po_LastName = None,
      po_PostalCode = None,
      po_IsInternational = None\<rparr>"

definition Postal_fields :: "Postal fieldspec list" where
  "Postal_fields =
     [(''city'', fld po_City po_City_update (dec_ptr [] dec_string)),
      (''state'', fld po_State po_State_update (dec_ptr [] dec_string)),
      (''address1'', fld po_Address1 po_Address1_update (dec_ptr [] dec_string)),
      (''address2'', fld po_Address2 po_Address2_update (dec_ptr [] dec_string)),
      (''address3'', fld po_Address3 po_Address3_update (dec_ptr [] dec_string)),
      (''org_name'', fld po_OrgName po_OrgName_update (dec_ptr [] dec_string)),
      (''first_name'', fld po_FirstName po_FirstName_update (dec_ptr [] dec_string)),
      (''last_name'', fld po_LastName po_LastName_update (dec_ptr [] dec_string)),
      (''postal_code'', fld po_PostalCode po_PostalCode_update (dec_ptr [] dec_string)),
      (''is_international'', fld po_IsInternational po_IsInternational_update (dec_ptr False dec_bool))]"

definition dec_Postal :: "Postal decoder" where
  "dec_Postal = dec_struct Postal_fields"

record Contact =
  co_Id :: string
  co_Fax :: "string option"
  co_FaxExt :: "string option"
  co_Tags :: "(string list option) option"
  co_Email :: "string option"
  co_Phone :: "string option"
  co_PhoneExt :: "string option"
  co_Title :: "string option"
  co_Country :: "string option"
  co_OrgReg :: "string option"
  co_SalesTax :: "string option"
  co_OrgDuns :: "string option"
  co_Language :: "string option"
  co_ContactType :: string
  co_Documentation :: "string option"
  co_ContactPostals :: "Postal list option"
  co_TenantCustomerId :: string
  co_CustomerContactRef :: string

definition zero_Contact :: Contact where
  "zero_Contact =
     \<lparr>co_Id = [],
      co_Fax = None,
      co_FaxExt = None,
      co_Tags = None,
      co_Email = None,
      co_Phone = None,
      co_PhoneExt = None,
      co_Title = None,
      co_Country = None,
      co_OrgReg = None,
      co_SalesTax = None,
      co_OrgDuns = None,
      co_Language = None,
      co_ContactType = [],
      co_Documentation = None,
      co_ContactPostals = None,
      co_TenantCustomerId = [],
      co_CustomerContactRef = []\<rparr>"

definition Contact_fields :: "Contact fieldspec list" where
  "Contact_fields =
     [(''contact_id'', fld co_Id co_Id_update dec_string),
      (''fax'', fld co_Fax co_Fax_update (dec_ptr [] dec_string)),
      (''fax_ext'', fld co_FaxExt co_FaxExt_update (dec_ptr [] dec_string)),
      (''tags'', fld co_Tags co_Tags_update (dec_ptr None (dec_slice [] dec_string))),
      (''email'', fld co_Email co_Email_update (dec_ptr [] dec_string)),
      (''phone'', fld co_Phone co_Phone_update (dec_ptr [] dec_string)),
      (''phone_ext'', fld co_PhoneExt co_PhoneExt_update (dec_ptr [] dec_string)),
      (''title'', fld co_Title co_Title_update (dec_ptr [] dec_string)),
      (''country'', fld co_Country co_Country_update (dec_ptr [] dec_string)),
      (''org_reg'', fld co_OrgReg co_OrgReg_update (dec_ptr [] dec_string)),
      (''sales_tax'', fld co_SalesTax co_SalesTax_update (dec_ptr [] dec_string)),
      (''org_duns'', fld co_OrgDuns co_OrgDuns_update (dec_ptr [] dec_string)),
      (''language'', fld co_Language co_Language_update (dec_ptr [] dec_string)),
      (''contact_type'', fld co_ContactType co_ContactType_update dec_string),
      (''documentation'', fld co_Documentation co_Documentation_update (dec_ptr [] dec_string)),
      (''contact_postals'', fld co_ContactPostals co_ContactPostals_update (dec_slice zero_Postal dec_Postal)),
      (''tenant_customer_id'', fld co_TenantCustomerId co_TenantCustomerId_update dec_string),
      (''customer_contact_ref'', fld co_CustomerContactRef co_CustomerContactRef_update dec_string)]"

definition dec_Contact :: "Contact decoder" where
  "dec_Contact = dec_struct Contact_fields"

record ContactData =
  cd_Contact :: Contact
  cd_Pw :: string
  cd_Accreditation :: Accreditation
  cd_ProvisionContactId :: string
  cd_TenantCustomerId :: string

definition zero_ContactData :: ContactData where
  "zero_ContactData =
     \<lparr>cd_Contact = zero_Contact,
      cd_Pw = [],
      cd_Accreditation = zero_Accreditation,
      cd_ProvisionContactId = [],
      cd_TenantCustomerId = []\<rparr>"

definition ContactData_fields :: "ContactData fieldspec list" where
  "ContactData_fields =
     [(''contact'', fld cd_Contact cd_Contact_update dec_Contact),
      (''pw'', fld cd_Pw cd_Pw_update dec_string),
      (''accreditation'', fld cd_Accreditation cd_Accreditation_update dec_Accreditation),
      (''provision_contact_id'', fld cd_ProvisionContactId cd_ProvisionContactId_update dec_string),
      (''tenant_customer_id'', fld cd_TenantCustomerId cd_TenantCustomerId_update dec_string)]"

definition dec_ContactData :: "ContactData decoder" where
  "dec_ContactData = dec_struct ContactData_fields"

record ContactUpdateData =
  cud_Handle :: string
  cud_Contact :: Contact
  cud_Accreditation :: Accreditation
  cud_ProvisionDomainContactUpdateId :: string
  cud_TenantCustomerId :: string

definition zero_ContactUpdateData :: ContactUpdateData where
  "zero_ContactUpdateData =
     \<lparr>cud_Handle = [],
      cud_Contact = zero_Contact,
      cud_Accreditation = zero_Accreditation,
      cud_ProvisionDomainContactUpdateId = [],
      cud_TenantCustomerId = []\<rparr>"

definition ContactUpdateData_fields :: "ContactUpdateData fieldspec list" where
  "ContactUpdateData_fields =
     [(''handle'', fld cud_Handle cud_Handle_update dec_string),
      (''contact'', fld cud_Contact cud_Contact_update dec_Contact),
      (''accreditation'', fld cud_Accreditation cud_Accreditation_update dec_Accreditation),
      (''provision_domain_contact_update_id'', fld cud_ProvisionDomainContactUpdateId cud_ProvisionDomainContactUpdateId_update dec_string),
      (''tenant_customer_id'', fld cud_TenantCustomerId cud_TenantCustomerId_update dec_string)]"

definition dec_ContactUpdateData :: "ContactUpdateData decoder" where
  "dec_ContactUpdateData = dec_struct ContactUpdateData_fields"

record ContactDeleteData =
  cdd_Accreditation :: Accreditation
  cdd_Handle :: string

definition zero_ContactDeleteData :: ContactDeleteData where
  "zero_ContactDeleteData =
     \<lparr>cdd_Accreditation = zero_Accreditation,
      cdd_Handle = []\<rparr>"

definition ContactDeleteData_fields :: "ContactDeleteData fieldspec list" where
  "ContactDeleteData_fields =
     [(''accreditation'', fld cdd_Accreditation cdd_Accreditation_update dec_Accreditation),
      (''handle'', fld cdd_Handle cdd_Handle_update dec_string)]"

definition dec_ContactDeleteData :: "ContactDeleteData decoder" where
  "dec_ContactDeleteData = dec_struct ContactDeleteData_fields"

record HostData =
  hd_HostId :: string
  hd_HostName :: string
  hd_HostAddrs :: "string list option"
  hd_Accreditation :: Accreditation
  hd_HostAccreditationTld :: AccreditationTld
  hd_HostIpRequiredNonAuth :: bool
  hd_ProvisionHostId :: string
  hd_TenantCustomerId :: string

definition zero_HostData :: HostData where
  "zero_HostData =
     \<lparr>hd_HostId = [],
      hd_HostName = [],
      hd_HostAddrs = None,
      hd_Accreditation = zero_Accreditation,
      hd_HostAccreditationTld = zero_AccreditationTld,
      hd_HostIpRequiredNonAuth = False,
      hd_ProvisionHostId = [],
      hd_TenantCustomerId = []\<rparr>"

definition HostData_fields :: "HostData fieldspec list" where
  "HostData_fields =
     [(''host_id'', fld hd_HostId hd_HostId_update dec_string),
      (''host_name'', fld hd_HostName hd_HostName_update dec_string),
      (''host_addrs'', fld hd_HostAddrs hd_HostAddrs_update (dec_slice [] dec_string)),
      (''accreditation'', fld hd_Accreditation hd_Accreditation_update dec_Accreditation),
      (''host_accreditation_tld'', fld hd_HostAccreditationTld hd_HostAccreditationTld_update dec_AccreditationTld),
      (''host_ip_required_non_auth'', fld hd_HostIpRequiredNonAuth hd_HostIpRequiredNonAuth_update dec_bool),
      (''provision_host_id'', fld hd_ProvisionHostId hd_ProvisionHostId_update dec_string),
      (''tenant_customer_id'', fld hd_TenantCustomerId hd_TenantCustomerId_update dec_string)]"

definition dec_HostData :: "HostData decoder" where
  "dec_HostData = dec_struct HostData_fields"

record HostUpdateData =
  hud_HostId :: string
  hud_HostName :: string
  hud_HostNewAddrs :: "string list option"
  hud_HostOldAddrs :: "string list option"
  hud_Accreditation :: Accreditation
  hud_ProvisionHostUpdateId :: string
  hud_TenantCustomerId :: string

definition zero_HostUpdateData :: HostUpdateData where
  "zero_HostUpdateData =
     \<lparr>hud_HostId = [],
      hud_HostName = [],
      hud_HostNewAddrs = None,
      hud_HostOldAddrs = None,
      hud_Accreditation = zero_Accreditation,
      hud_ProvisionHostUpdateId = [],
      hud_TenantCustomerId = []\<rparr>"

definition HostUpdateData_fields :: "HostUpdateData fieldspec list" where
  "HostUpdateData_fields =
     [(''host_id'', fld hud_HostId hud_HostId_update dec_string),
      (''host_name'', fld hud_HostName hud_HostName_update dec_string),
      (''host_new_addrs'', fld hud_HostNewAddrs hud_HostNewAddrs_update (dec_slice [] dec_string)),
      (''host_old_addrs'', fld hud_HostOldAddrs hud_HostOldAddrs_update (dec_slice [] dec_string)),
      (''accreditation'', fld hud_Accreditation hud_Accreditation_update dec_Accreditation),
      (''provision_host_update_id'', fld hud_ProvisionHostUpdateId hud_ProvisionHostUpdateId_update dec_string),
      (''tenant_customer_id'', fld hud_TenantCustomerId hud_TenantCustomerId_update dec_string)]"

definition dec_HostUpdateData :: "HostUpdateData decoder" where
  "dec_HostUpdateData = dec_struct HostUpdateData_fields"

record HostValidationData =
  hvd_HostName :: string
  hvd_OrderItemPlanId :: string
  hvd_Accreditation :: Accreditation
  hvd_TenantCustomerId :: string

definition zero_HostValidationData :: HostValidationData where
  "zero_HostValidationData =
     \<lparr>hvd_HostName = [],
      hvd_OrderItemPlanId = [],
      hvd_Accreditation = zero_Accreditation,
      hvd_TenantCustomerId = []\<rparr>"

definition HostValidationData_fields :: "HostValidationData fieldspec list" where
  "HostValidationData_fields =
     [(''host_name'', fld hvd_HostName hvd_HostName_update dec_string),
      (''order_item_plan_id'', fld hvd_OrderItemPlanId hvd_OrderItemPlanId_update dec_string),
      (''accreditation'', fld hvd_Accreditation hvd_Accreditation_update dec_Accreditation),
      (''tenant_customer_id'', fld hvd_TenantCustomerId hvd_TenantCustomerId_update dec_string)]"

definition dec_HostValidationData :: "HostValidationData decoder" where
  "dec_HostValidationData = dec_struct HostValidationData_fields"

record HostDeleteData =
  hdd_HostId :: string
  hdd_HostName :: string
  hdd_HostDeleteRenameAllowed :: bool
  hdd_HostDeleteRenameDomain :: string
  hdd_Accreditation :: Accreditation
  hdd_ProvisionHostDeleteId :: "string option"
  hdd_ProvisionDomainDeleteId :: "string option"
  hdd_TenantCustomerId :: string

definition zero_HostDeleteData :: HostDeleteData where
  "zero_HostDeleteData =
     \<lparr>hdd_HostId = [],
      hdd_HostName = [],
      hdd_HostDeleteRenameAllowed = False,
      hdd_HostDeleteRenameDomain = [],
      hdd_Accreditation = zero_Accreditation,
      hdd_ProvisionHostDeleteId = None,
      hdd_ProvisionDomainDeleteId = None,
      hdd_TenantCustomerId = []\<rparr>"

definition HostDeleteData_fields :: "HostDeleteData fieldspec list" where
  "HostDeleteData_fields =
     [(''host_id'', fld hdd_HostId hdd_HostId_update dec_string),
      (''host_name'', fld hdd_HostName hdd_HostName_update dec_string),
      (''host_delete_rename_allowed'', fld hdd_HostDeleteRenameAllowed hdd_HostDeleteRenameAllowed_update dec_bool),
      (''host_delete_rename_domain'', fld hdd_HostDeleteRenameDomain hdd_HostDeleteRenameDomain_update dec_string),
      (''accreditation'', fld hdd_Accreditation hdd_Accreditation_update dec_Accreditation),
      (''provision_host_delete_id'', fld hdd_ProvisionHostDeleteId hdd_ProvisionHostDeleteId_update (dec_ptr [] dec_string)),
      (''provision_domain_delete_id'', fld hdd_ProvisionDomainDeleteId hdd_ProvisionDomainDeleteId_update (dec_ptr [] dec_string)),
      (''tenant_customer_id'', fld hdd_TenantCustomerId hdd_TenantCustomerId_update dec_string)]"

definition dec_HostDeleteData :: "HostDeleteData decoder" where
  "dec_HostDeleteData = dec_struct HostDeleteData_fields"

end
