(* ===== verification/Host_Worker.thy ===== *)
theory Host_Worker
  imports Request_Protocol Host_Contact_Data Go_Strings
begin

text \<open>
  The host worker (\<^verbatim>\<open>host/handlers\<close>): create, update, delete and availability requests for nameserver
  hosts. A create request for a host outside the accreditation's own top-level domains does not use
  the addresses of the order; they are looked up when the registry insists on them. An update request
  carries the difference between the wanted addresses and the ones the registry has.
\<close>

section \<open>IP addresses\<close>

text \<open>\<^verbatim>\<open>net.IP\<close> is a byte slice; \<open>To4\<close> recognises IPv4 in both of its forms.\<close>

definition To4 :: "nat list \<Rightarrow> nat list option" where
  "To4 ip =
     (if length ip = 4 then Some ip
      else if length ip = 16 \<and> take 10 ip = replicate 10 0 \<and> ip ! 10 = 255 \<and> ip ! 11 = 255 then Some (drop 12 ip)
      else None)"

fun join_by :: "string \<Rightarrow> string list \<Rightarrow> string" where
  "join_by sep [] = []"
| "join_by sep [s] = s"
| "join_by sep (s # ss) = s @ sep @ join_by sep ss"

fun ip_groups :: "nat list \<Rightarrow> nat list" where
  "ip_groups (a # b # bs) = (256 * a + b) # ip_groups bs"
| "ip_groups bs = []"

text \<open>The first of the longest runs of at least two zero groups is written \<^verbatim>\<open>::\<close>.\<close>

fun zero_run :: "nat list \<Rightarrow> nat" where
  "zero_run (0 # gs) = Suc (zero_run gs)"
| "zero_run gs = 0"

fun best_run :: "nat \<Rightarrow> nat list \<Rightarrow> nat \<times> nat \<Rightarrow> nat \<times> nat" where
  "best_run i [] best = best"
| "best_run i (g # gs) best =
     best_run (Suc i) gs
       (let l = zero_run (g # gs) in if l \<ge> 2 \<and> l > snd best then (i, l) else best)"

definition ip_String :: "nat list \<Rightarrow> string" where
  "ip_String ip =
     (if ip = [] then ''<nil>''
      else case To4 ip of
        Some ip4 \<Rightarrow> join_by ''.'' (map (to_base 10) ip4)
      | None \<Rightarrow>
          if length ip \<noteq> 16 then ''?'' @ concat (map (\<lambda>b. (if b < 16 then ''0'' else []) @ to_base 16 b) ip)
          else
            (let gs = ip_groups ip; hex = map (to_base 16); (s, l) = best_run 0 gs (0, 0) in
             if l = 0 then join_by '':'' (hex gs)
             else join_by '':'' (hex (take s gs)) @ ''::'' @ join_by '':'' (hex (drop (s + l) gs))))"

section \<open>Requests\<close>

abbreviation host_headers :: "string \<Rightarrow> (string \<times> string) list" where
  "host_headers \<equiv> request_headers ''WorkerJobHostProvisionUpdate''"

definition getHostInfo :: "services \<Rightarrow> string \<Rightarrow> string \<Rightarrow> (hist, gerr + string list) go" where
  "getHostInfo S hostName accName =
     bnd (bus_Call S (GetQueryQueue accName) (HostInfoRequestMsg hostName)) (\<lambda>r.
     case r of
       Inl e \<Rightarrow> ret (Inl e)
     | Inr response \<Rightarrow>
         (case response of
            HostInfoResponseMsg addresses \<Rightarrow> ret (Inr addresses)
          | _ \<Rightarrow> ret (Inl (ErrNew (''unexpected message type received for host info response: ''
                              @ sv_type_name S response)))))"

text \<open>The setting is read through the service's own handle, outside the transaction.\<close>

definition setHostIpAddresses :: "services \<Rightarrow> database \<Rightarrow> HostData \<Rightarrow> (hist, string list) go" where
  "setHostIpAddresses S db data =
     (if atld_AccreditationId (hd_HostAccreditationTld data) = acc_AccreditationId (hd_Accreditation data)
      then ret (go_slice (hd_HostAddrs data))
      else if \<not> hd_HostIpRequiredNonAuth data then ret []
      else
        bnd (perform (LookupIP (hd_HostName data)) (sv_lookup S)) (\<lambda>r.
        case r of
          Inl e \<Rightarrow> ret []
        | Inr ips \<Rightarrow>
            bnd (GetTLDSetting S (db\<lparr>db_gorm := Pool\<rparr>)
                   (atld_AccreditationTldId (hd_HostAccreditationTld data)) ''tld.dns.ipv6_support'') (\<lambda>(tldSetting, err).
            if err \<noteq> None then ret []
            else
              bnd (deref tldSetting) (\<lambda>setting.
              case ParseBool (vat_Value setting) of
                Inl e \<Rightarrow> ret []
              | Inr isIpv6Supported \<Rightarrow>
                  ret (map ip_String (filter (\<lambda>ip. isIpv6Supported \<or> To4 ip \<noteq> None) ips))))))"

definition HostProvision_body :: "services \<Rightarrow> message \<Rightarrow> database \<Rightarrow> Job \<Rightarrow> (hist, gerr option) go" where
  "HostProvision_body S message tx job =
     bnd (as_Notification message) (\<lambda>(jobId, _).
     bnd (deref (job_Info job)) (\<lambda>info.
     case unmarshal dec_HostData zero_HostData (vj_Data info) of
       None \<Rightarrow> fail_decode S tx job ''HostData'' (vj_Data info)
     | Some data \<Rightarrow>
         bnd (setHostIpAddresses S tx data) (\<lambda>ipList.
         send_and_mark S tx job (GetTransformQueue (acc_AccreditationName (hd_Accreditation data)))
           (HostCreateRequestMsg (hd_HostName data) ipList) (host_headers jobId))))"

definition HostProvisionHandler :: "services \<Rightarrow> database \<Rightarrow> message \<Rightarrow> (hist, gerr option) go" where
  "HostProvisionHandler S db message =
     bnd (as_Notification message) (\<lambda>(jobId, _). submit_job S db jobId (HostProvision_body S message))"

definition nonempty :: "string list \<Rightarrow> string list option" where
  "nonempty xs = (if length xs > 0 then Some xs else None)"

definition toHostUpdateRequest :: "services \<Rightarrow> HostUpdateData \<Rightarrow> (hist, gerr + HostUpdateRequest) go" where
  "toHostUpdateRequest S data =
     bnd (getHostInfo S (hud_HostName data) (acc_AccreditationName (hud_Accreditation data))) (\<lambda>r.
     case r of
       Inl e \<Rightarrow> ret (Inl e)
     | Inr currentAddresses \<Rightarrow>
         (let newAddresses = go_slice (hud_HostNewAddrs data);
              addressesToAdd = filter (\<lambda>addr. addr \<notin> set currentAddresses) newAddresses;
              addressesToRemove = filter (\<lambda>addr. addr \<notin> set newAddresses) currentAddresses
          in ret (Inr \<lparr>huq_Name = hud_HostName data, huq_Add = nonempty addressesToAdd,
                       huq_Rem = nonempty addressesToRemove, huq_NewName = []\<rparr>)))"

definition HostUpdate_body :: "services \<Rightarrow> message \<Rightarrow> database \<Rightarrow> Job \<Rightarrow> (hist, gerr option) go" where
  "HostUpdate_body S message tx job =
     bnd (as_Notification message) (\<lambda>(jobId, _).
     bnd (deref (job_Info job)) (\<lambda>info.
     case unmarshal dec_HostUpdateData zero_HostUpdateData (vj_Data info) of
       None \<Rightarrow> fail_decode S tx job ''HostUpdateData'' (vj_Data info)
     | Some data \<Rightarrow>
         bnd (toHostUpdateRequest S data) (\<lambda>r.
         case r of
           Inl e \<Rightarrow> ret (Some e)
         | Inr msg \<Rightarrow>
             send_and_mark S tx job (GetTransformQueue (acc_AccreditationName (hud_Accreditation data)))
               (HostUpdateRequestMsg msg) (host_headers jobId))))"

definition HostUpdateHandler :: "services \<Rightarrow> database \<Rightarrow> message \<Rightarrow> (hist, gerr option) go" where
  "HostUpdateHandler S db message =
     bnd (as_Notification message) (\<lambda>(jobId, _). submit_job S db jobId (HostUpdate_body S message))"

definition toHostDeleteRequest :: "HostDeleteData \<Rightarrow> message" where
  "toHostDeleteRequest data = HostDeleteRequestMsg (hdd_HostName data)"

definition HostDelete_body :: "services \<Rightarrow> message \<Rightarrow> database \<Rightarrow> Job \<Rightarrow> (hist, gerr option) go" where
  "HostDelete_body S message tx job =
     bnd (as_Notification message) (\<lambda>(jobId, _).
     bnd (deref (job_Info job)) (\<lambda>info.
     case unmarshal dec_HostDeleteData zero_HostDeleteData (vj_Data info) of
       None \<Rightarrow> fail_decode S tx job ''HostDeleteData'' (vj_Data info)
     | Some data \<Rightarrow>
         send_and_mark S tx job (GetTransformQueue (acc_AccreditationName (hdd_Accreditation data)))
           (toHostDeleteRequest data) (host_headers jobId)))"

definition HostDeleteHandler :: "services \<Rightarrow> database \<Rightarrow> message \<Rightarrow> (hist, gerr option) go" where
  "HostDeleteHandler S db message =
     bnd (as_Notification message) (\<lambda>(jobId, _). submit_job S db jobId (HostDelete_body S message))"

definition ValidateHostAvailable_body :: "services \<Rightarrow> message \<Rightarrow> database \<Rightarrow> Job \<Rightarrow> (hist, gerr option) go" where
  "ValidateHostAvailable_body S message tx job =
     bnd (as_Notification message) (\<lambda>(jobId, _).
     bnd (deref (job_Info job)) (\<lambda>info.
     case unmarshal dec_HostValidationData zero_HostValidationData (vj_Data info) of
       None \<Rightarrow> fail_decode S tx job ''HostValidationData'' (vj_Data info)
     | Some data \<Rightarrow>
         send_and_mark S tx job (GetQueryQueue (acc_AccreditationName (hvd_Accreditation data)))
           (HostCheckRequestMsg [hvd_HostName data]) (host_headers jobId)))"

definition ValidateHostAvailableHandler :: "services \<Rightarrow> database \<Rightarrow> message \<Rightarrow> (hist, gerr option) go" where
  "ValidateHostAvailableHandler S db message =
     bnd (as_Notification message) (\<lambda>(jobId, _). submit_job S db jobId (ValidateHostAvailable_body S message))"

definition HostHandlerRouter :: "services \<Rightarrow> database \<Rightarrow> message \<Rightarrow> (hist, gerr option) go" where
  "HostHandlerRouter S db m =
     bnd (as_Notification m) (\<lambda>(_, ty).
     if ty = ''provision_host_create'' then HostProvisionHandler S db m
     else if ty = ''provision_host_update'' then HostUpdateHandler S db m
     else if ty \<in> {''provision_host_delete'', ''provision_domain_delete_host''} then HostDeleteHandler S db m
     else if ty = ''validate_host_available'' then ValidateHostAvailableHandler S db m
     else ret (Some (ErrNew (''no handlers for type: '' @ ty))))"

section \<open>The bodies keep the contract\<close>

lemma adds_getHostInfo [adds_rules]:
  "P (BusCall (GetQueryQueue acc) (HostInfoRequestMsg name)) \<Longrightarrow>
   \<not> W (BusCall (GetQueryQueue acc) (HostInfoRequestMsg name)) \<Longrightarrow> adds P W k (getHostInfo S name acc)"
  by (auto simp: getHostInfo_def intro!: adds_rules split: message.split)

lemma adds_toHostUpdateRequest [adds_rules]:
  "(\<And>q msg. P (BusCall q msg)) \<Longrightarrow> (\<And>q msg. \<not> W (BusCall q msg)) \<Longrightarrow> adds P W k (toHostUpdateRequest S data)"
  unfolding toHostUpdateRequest_def Let_def by (intro adds_rules) simp_all

lemma adds_setHostIpAddresses [adds_rules]:
  "adds (job_event outs tx job) is_job_write 0 (setHostIpAddresses S tx data)"
  "adds (job_event outs tx job) is_send 0 (setHostIpAddresses S tx data)"
  unfolding setHostIpAddresses_def row_ops by (intro adds_rules; simp)+

lemma adds_host_bodies [adds_rules]:
  "adds (request_event tx job) is_job_write (Suc 0) (HostProvision_body S m tx job)"
  "adds (request_event tx job) is_send (Suc 0) (HostProvision_body S m tx job)"
  "adds (request_event tx job) is_job_write (Suc 0) (HostUpdate_body S m tx job)"
  "adds (request_event tx job) is_send (Suc 0) (HostUpdate_body S m tx job)"
  "adds (request_event tx job) is_job_write (Suc 0) (HostDelete_body S m tx job)"
  "adds (request_event tx job) is_send (Suc 0) (HostDelete_body S m tx job)"
  "adds (request_event tx job) is_job_write (Suc 0) (ValidateHostAvailable_body S m tx job)"
  "adds (request_event tx job) is_send (Suc 0) (ValidateHostAvailable_body S m tx job)"
  unfolding HostProvision_body_def HostUpdate_body_def HostDelete_body_def ValidateHostAvailable_body_def
  by (intro adds_rules; simp)+

lemma ends_host_bodies [ends_rules]:
  fixes m
  defines "Q \<equiv> \<lambda>S tx job. \<lambda>err h. err = (None :: gerr option) \<longrightarrow> dispatched S tx job (notified m) h"
  shows "ends (Q S tx job) (HostProvision_body S m tx job)"
    "ends (Q S tx job) (HostUpdate_body S m tx job)"
    "ends (Q S tx job) (HostDelete_body S m tx job)"
    "ends (Q S tx job) (ValidateHostAvailable_body S m tx job)"
  unfolding HostProvision_body_def HostUpdate_body_def HostDelete_body_def ValidateHostAvailable_body_def Q_def
  by (rule ends_as_Notification, (auto intro!: ends_rules)[1])+

section \<open>Properties\<close>

text \<open>
  C11. The update request of a host is the exact difference: applied to the addresses the registry has,
  it leaves the host with the wanted addresses and no others. Nothing is added that is there already,
  nothing removed that is not there, and there are no empty blocks.
\<close>

theorem host_update_diff:
  assumes "toHostUpdateRequest S data h = (Ret (Inr req), h')"
    "sv_reply S h (BusCall (GetQueryQueue (acc_AccreditationName (hud_Accreditation data)))
        (HostInfoRequestMsg (hud_HostName data))) = Inr (HostInfoResponseMsg current)"
  shows "set current - set (go_slice (huq_Rem req)) \<union> set (go_slice (huq_Add req)) = set (go_slice (hud_HostNewAddrs data)) \<and>
     set (go_slice (huq_Add req)) \<inter> set current = {} \<and> set (go_slice (huq_Rem req)) \<subseteq> set current \<and>
     huq_Add req \<noteq> Some [] \<and> huq_Rem req \<noteq> Some [] \<and> huq_Name req = hud_HostName data"
proof -
  have ne: "go_slice (nonempty xs) = xs" "nonempty xs \<noteq> Some []" for xs
    by (simp_all add: nonempty_def go_slice_def)
  have "req = \<lparr>huq_Name = hud_HostName data,
       huq_Add = nonempty (filter (\<lambda>a. a \<notin> set current) (go_slice (hud_HostNewAddrs data))),
       huq_Rem = nonempty (filter (\<lambda>a. a \<notin> set (go_slice (hud_HostNewAddrs data))) current), huq_NewName = []\<rparr>"
    using assms
    by (simp add: toHostUpdateRequest_def getHostInfo_def bus_Call_def perform_def bnd_def ret_def Let_def)
  then show ?thesis by (auto simp: ne)
qed

definition host_services :: services where
  "host_services = sample_services (plain_job ''t'') (\<lambda>e. None) (Inr (HostInfoResponseMsg [''10.0.0.1'']))"

theorem host_update_diff_witness:
  "\<exists>req h'. toHostUpdateRequest host_services (zero_HostUpdateData\<lparr>hud_HostNewAddrs := Some [''10.0.0.2'']\<rparr>) []
       = (Ret (Inr req), h') \<and>
     set [''10.0.0.1''] - set (go_slice (huq_Rem req)) \<union> set (go_slice (huq_Add req)) = {''10.0.0.2''}"
proof -
  let ?data = "zero_HostUpdateData\<lparr>hud_HostNewAddrs := Some [''10.0.0.2'']\<rparr>"
  have "case fst (toHostUpdateRequest host_services ?data []) of Ret (Inr req) \<Rightarrow> True | _ \<Rightarrow> False"
    by code_simp
  then obtain req h' where run: "toHostUpdateRequest host_services ?data [] = (Ret (Inr req), h')"
    by (cases "toHostUpdateRequest host_services ?data []") (auto split: outcome.splits sum.splits)
  have "sv_reply host_services h e = Inr (HostInfoResponseMsg [''10.0.0.1''])" for h e
    by (simp add: host_services_def sample_services_def)
  from host_update_diff [OF run this] run show ?thesis by (auto simp: go_slice_def [of "Some _"])
qed

end
