(* ===== verification/Contact_Worker.thy ===== *)
theory Contact_Worker
  imports Request_Protocol Host_Contact_Data
begin

text \<open>
  The contact worker (\<^verbatim>\<open>contact/handlers\<close>): create, update and delete requests for registry contacts. Only
  the first postal address of a contact is used. The handle of a new contact is made from the last
  twelve characters of the job id and stored with the provisioning row after the request is sent.
\<close>

abbreviation contact_headers :: "string \<Rightarrow> (string \<times> string) list" where
  "contact_headers \<equiv> request_headers ''WorkerJobContactProvisionUpdate''"

text \<open>\<^verbatim>\<open>xs[0]\<close> and \<^verbatim>\<open>s[len(s)-n:]\<close>.\<close>

definition first_elem :: "'a list option \<Rightarrow> (hist, 'a) go" where
  "first_elem xs = (case go_slice xs of [] \<Rightarrow> go_panic ''index out of range'' | x # _ \<Rightarrow> ret x)"

definition last_chars :: "nat \<Rightarrow> string \<Rightarrow> (hist, string) go" where
  "last_chars n s =
     (if length s < n then go_panic ''slice bounds out of range'' else ret (drop (length s - n) s))"

text \<open>\<^verbatim>\<open>SafeDeref\<close> at strings: the zero value for a nil pointer.\<close>

definition SafeDeref :: "string option \<Rightarrow> string" where
  "SafeDeref p = (case p of None \<Rightarrow> [] | Some v \<Rightarrow> v)"

definition contact_name :: "Postal \<Rightarrow> string option" where
  "contact_name p =
     (if po_FirstName p \<noteq> None \<or> po_LastName p \<noteq> None
      then Some (SafeDeref (po_FirstName p) @ '' '' @ SafeDeref (po_LastName p)) else None)"

definition postal_info :: "Contact \<Rightarrow> Postal \<Rightarrow> ContactPostalInfo" where
  "postal_info c p =
     \<lparr>cpi_Name = contact_name p, cpi_Org = po_OrgName p,
      cpi_Address = \<lparr>cpa_Street1 = po_Address1 p, cpa_Street2 = po_Address2 p, cpa_Street3 = po_Address3 p,
                     cpa_City = po_City p, cpa_Sp = po_State p, cpa_Pc = po_PostalCode p, cpa_Cc = co_Country c\<rparr>\<rparr>"

section \<open>Create\<close>

text \<open>Send the request, store the handle, mark the job.\<close>

definition send_contact ::
  "services \<Rightarrow> database \<Rightarrow> Job \<Rightarrow> VJob \<Rightarrow> string \<Rightarrow> ContactCreateRequest \<Rightarrow> string \<Rightarrow> (hist, gerr option) go" where
  "send_contact S tx job info queue msg jobId =
     bnd (bus_Send S queue (ContactCreateRequestMsg msg) (contact_headers jobId)) (\<lambda>err.
     case err of
       Some e \<Rightarrow> ret (Some e)
     | None \<Rightarrow>
         bnd (deref (vj_ReferenceID info)) (\<lambda>refId.
         bnd (SetProvisionContactHandle S tx refId (ccq_Id msg)) (\<lambda>err.
         case err of
           Some e \<Rightarrow> ret (Some e)
         | None \<Rightarrow> finish_job S tx job JobStatus_Processing None)))"

definition ContactProvision_body :: "services \<Rightarrow> message \<Rightarrow> database \<Rightarrow> Job \<Rightarrow> (hist, gerr option) go" where
  "ContactProvision_body S message tx job =
     bnd (as_Notification message) (\<lambda>(jobId, _).
     bnd (deref (job_Info job)) (\<lambda>info.
     case unmarshal dec_ContactData zero_ContactData (vj_Data info) of
       None \<Rightarrow> fail_decode S tx job ''ContactData'' (vj_Data info)
     | Some data \<Rightarrow>
         (let contact = cd_Contact data in
          bnd (first_elem (co_ContactPostals contact)) (\<lambda>postal.
          bnd (last_chars 12 jobId) (\<lambda>suffix.
          let contactId = ''tdp-'' @ suffix; info' = postal_info contact postal in
          bnd (deref (po_IsInternational postal)) (\<lambda>isInternational.
          let msg = \<lparr>ccq_Id = contactId, ccq_Email = co_Email contact, ccq_Voice = co_Phone contact,
                     ccq_VoiceExt = co_PhoneExt contact, ccq_Fax = co_Fax contact, ccq_FaxExt = co_FaxExt contact,
                     ccq_Pw = cd_Pw data,
                     ccq_PostalInfoInt = (if isInternational then Some info' else None),
                     ccq_PostalInfoLoc = (if isInternational then None else Some info')\<rparr> in
          send_contact S tx job info (GetTransformQueue (acc_AccreditationName (cd_Accreditation data))) msg jobId))))))"

definition ContactProvisionHandler :: "services \<Rightarrow> database \<Rightarrow> message \<Rightarrow> (hist, gerr option) go" where
  "ContactProvisionHandler S db message =
     bnd (as_Notification message) (\<lambda>(jobId, _). submit_job S db jobId (ContactProvision_body S message))"

section \<open>Update\<close>

definition toContactUpdateRequest :: "ContactUpdateData \<Rightarrow> (hist, message) go" where
  "toContactUpdateRequest data =
     (let contact = cud_Contact data;
          chg = \<lparr>ccb_Email = co_Email contact, ccb_Voice = co_Phone contact, ccb_VoiceExt = co_PhoneExt contact,
                 ccb_Fax = co_Fax contact, ccb_FaxExt = co_FaxExt contact,
                 ccb_PostalInfoInt = None, ccb_PostalInfoLoc = None\<rparr>
      in if co_ContactPostals contact = None then ret (ContactUpdateRequestMsg (cud_Handle data) chg)
         else
           bnd (first_elem (co_ContactPostals contact)) (\<lambda>postal.
           bnd (deref (po_IsInternational postal)) (\<lambda>isInternational.
           ret (ContactUpdateRequestMsg (cud_Handle data)
             (if isInternational then chg\<lparr>ccb_PostalInfoInt := Some (postal_info contact postal)\<rparr>
              else chg\<lparr>ccb_PostalInfoLoc := Some (postal_info contact postal)\<rparr>)))))"

definition ContactUpdate_body :: "services \<Rightarrow> message \<Rightarrow> database \<Rightarrow> Job \<Rightarrow> (hist, gerr option) go" where
  "ContactUpdate_body S message tx job =
     bnd (as_Notification message) (\<lambda>(jobId, _).
     bnd (deref (job_Info job)) (\<lambda>info.
     case unmarshal dec_ContactUpdateData zero_ContactUpdateData (vj_Data info) of
       None \<Rightarrow> fail_decode S tx job ''ContactUpdateData'' (vj_Data info)
     | Some data \<Rightarrow>
         bnd (toContactUpdateRequest data) (\<lambda>msg.
         send_and_mark S tx job (GetTransformQueue (acc_AccreditationName (cud_Accreditation data)))
           msg (contact_headers jobId))))"

definition ContactUpdateHandler :: "services \<Rightarrow> database \<Rightarrow> message \<Rightarrow> (hist, gerr option) go" where
  "ContactUpdateHandler S db message =
     bnd (as_Notification message) (\<lambda>(jobId, _). submit_job S db jobId (ContactUpdate_body S message))"

section \<open>Delete\<close>

definition ContactDelete_body :: "services \<Rightarrow> message \<Rightarrow> database \<Rightarrow> Job \<Rightarrow> (hist, gerr option) go" where
  "ContactDelete_body S message tx job =
     bnd (as_Notification message) (\<lambda>(jobId, _).
     bnd (deref (job_Info job)) (\<lambda>info.
     case unmarshal dec_ContactDeleteData zero_ContactDeleteData (vj_Data info) of
       None \<Rightarrow> fail_decode S tx job ''ContactDeleteData'' (vj_Data info)
     | Some data \<Rightarrow>
         send_and_mark S tx job (GetTransformQueue (acc_AccreditationName (cdd_Accreditation data)))
           (ContactDeleteRequestMsg (cdd_Handle data)) (contact_headers jobId)))"

definition ContactDeleteHandler :: "services \<Rightarrow> database \<Rightarrow> message \<Rightarrow> (hist, gerr option) go" where
  "ContactDeleteHandler S db message =
     bnd (as_Notification message) (\<lambda>(jobId, _). submit_job S db jobId (ContactDelete_body S message))"

definition ContactHandlerRouter :: "services \<Rightarrow> database \<Rightarrow> message \<Rightarrow> (hist, gerr option) go" where
  "ContactHandlerRouter S db m =
     bnd (as_Notification m) (\<lambda>(_, ty).
     if ty = ''provision_contact_create'' then ContactProvisionHandler S db m
     else if ty = ''provision_domain_contact_update'' then ContactUpdateHandler S db m
     else if ty = ''provision_contact_delete'' then ContactDeleteHandler S db m
     else ret (Some (ErrNew (''no handlers for type: '' @ ty))))"

section \<open>The bodies keep the contract\<close>

lemma adds_first_elem [adds_rules]: "adds P W k (first_elem xs)" "adds P W k (last_chars n s)"
  by (auto simp: first_elem_def last_chars_def intro!: adds_rules split: list.split)

lemma adds_toContactUpdateRequest [adds_rules]: "adds P W k (toContactUpdateRequest data)"
  unfolding toContactUpdateRequest_def Let_def by (intro adds_rules)

lemma adds_send_contact [adds_rules]:
  "adds (request_event tx job) is_job_write (Suc 0) (send_contact S tx job info q msg i)"
  "adds (request_event tx job) is_send (Suc 0) (send_contact S tx job info q msg i)"
proof -
  show "adds (request_event tx job) is_job_write (Suc 0) (send_contact S tx job info q msg i)"
    unfolding send_contact_def row_ops by (intro adds_rules adds_bus_Send) simp_all
  have send: "adds (request_event tx job) is_send (Suc 0) (bus_Send S q msg hs)" for q msg hs
    unfolding bus_Send_def by (rule adds_perform_counted) simp
  show "adds (request_event tx job) is_send (Suc 0) (send_contact S tx job info q msg i)"
    unfolding send_contact_def row_ops
    by (rule adds_bnd_last [OF send]) (intro adds_rules adds_finish_sends; simp)
qed

lemma sent_handle:
  assumes "bus_Send S q msg hs h = (Ret None, h1)" "map_of hs ''correlation_id'' = Some i"
    "SetProvisionContactHandle S tx refId c h1 = (Ret None, h2)"
  shows "sent S i h2"
  using assms
  by (auto simp: bus_Send_def SetProvisionContactHandle_def exec_or_die_def perform_def bnd_def ret_def go_exit_def
      split: if_splits)

lemma ends_send_contact [ends_rules]:
  "ends (\<lambda>err h. err = None \<longrightarrow> dispatched S tx job i h) (send_contact S tx job info q msg i)"
  unfolding ends_def send_contact_def bnd_Ret_iff
proof (intro allI impI, elim exE conjE)
  fix s err s' a h1
  assume *: "bus_Send S q (ContactCreateRequestMsg msg) (contact_headers i) s = (Ret a, h1)" "err = None"
    "(case a of Some e \<Rightarrow> ret (Some e)
      | None \<Rightarrow> bnd (deref (vj_ReferenceID info)) (\<lambda>refId.
         bnd (SetProvisionContactHandle S tx refId (ccq_Id msg)) (\<lambda>err.
         case err of Some e \<Rightarrow> ret (Some e)
         | None \<Rightarrow> finish_job S tx job JobStatus_Processing None))) h1 = (Ret err, s')"
  then have a: "a = None" by (auto simp: ret_def split: option.splits)
  with * obtain refId h2 where h2: "SetProvisionContactHandle S tx refId (ccq_Id msg) h1 = (Ret None, h2)"
    "finish_job S tx job JobStatus_Processing None h2 = (Ret None, s')"
    by (cases "vj_ReferenceID info") (auto simp: bnd_Ret_iff ret_def go_panic_def split: option.splits)
  have "sent S i h2" using sent_handle * a h2(1) by auto
  then show "dispatched S tx job i s'" using finish_dispatched h2(2) by blast
qed

lemma adds_ContactProvision_body [adds_rules]:
  "adds (request_event tx job) is_job_write (Suc 0) (ContactProvision_body S m tx job)"
  "adds (request_event tx job) is_send (Suc 0) (ContactProvision_body S m tx job)"
  unfolding ContactProvision_body_def Let_def by (intro adds_rules; simp)+

lemma ends_ContactProvision_body [ends_rules]:
  "ends (\<lambda>err h. err = None \<longrightarrow> dispatched S tx job (notified m) h) (ContactProvision_body S m tx job)"
  unfolding ContactProvision_body_def Let_def
  by (rule ends_as_Notification) (auto intro!: ends_rules)

lemma adds_contact_bodies [adds_rules]:
  "adds (request_event tx job) is_job_write (Suc 0) (ContactUpdate_body S m tx job)"
  "adds (request_event tx job) is_send (Suc 0) (ContactUpdate_body S m tx job)"
  "adds (request_event tx job) is_job_write (Suc 0) (ContactDelete_body S m tx job)"
  "adds (request_event tx job) is_send (Suc 0) (ContactDelete_body S m tx job)"
  unfolding ContactUpdate_body_def ContactDelete_body_def by (intro adds_rules; simp)+

lemma ends_contact_bodies [ends_rules]:
  fixes m
  defines "Q \<equiv> \<lambda>S tx job. \<lambda>err h. err = (None :: gerr option) \<longrightarrow> dispatched S tx job (notified m) h"
  shows "ends (Q S tx job) (ContactUpdate_body S m tx job)"
    "ends (Q S tx job) (ContactDelete_body S m tx job)"
  unfolding ContactUpdate_body_def ContactDelete_body_def Q_def
  by (rule ends_as_Notification, (auto intro!: ends_rules)[1])+

end
