(* ===== verification/DW_Service.thy ===== *)
theory DW_Service
  imports DW_Requests DW_Update Host_Worker Contact_Worker
begin

text \<open>
  The request workers as a whole: the domain worker's router
  (\<^verbatim>\<open>domain/handlers/domain_handler_router.go\<close>), one body for the announcements of all three workers, and
  what holds for every announcement.
\<close>

section \<open>Routers\<close>

definition HandlerRouter :: "services \<Rightarrow> database \<Rightarrow> message \<Rightarrow> (hist, gerr option) go" where
  "HandlerRouter S db m =
     bnd (as_Notification m) (\<lambda>(_, ty).
     if ty = ''provision_domain_create'' then DomainProvisionHandler S db m
     else if ty = ''provision_domain_renew'' then DomainRenewHandler S db m
     else if ty = ''provision_domain_redeem'' then DomainRedeemHandler S db m
     else if ty = ''provision_domain_redeem_report'' then DomainRedeemReportHandler S db m
     else if ty = ''provision_domain_delete'' then DomainDeleteHandler S db m
     else if ty = ''provision_domain_update'' then DomainUpdateHandler S db m
     else if ty \<in> {''validate_domain_available'', ''validate_domain_premium''} then ValidateDomainCheckHandler S db m
     else if ty = ''validate_domain_claims'' then ValidateDomainClaimsCheckHandler S db m
     else if ty = ''provision_domain_transfer_in_request'' then DomainTransferInRequestHandler S db m
     else if ty \<in> {''provision_domain_transfer_away'', ''provision_domain_transfer_in_cancel_request''}
     then DomainTransferActionHandler S db m
     else if ty \<in> {''provision_domain_transfer_in'', ''validate_domain_transferable'',
                   ''provision_domain_expiry_date_check'', ''setup_domain_renew'', ''setup_domain_delete''}
     then DomainInfoHandler S db m
     else ret (Some (ErrNew (''no handlers for type: '' @ ty))))"

text \<open>Each worker registers its router for announcements and nothing else.\<close>

datatype worker = DomainWorker | HostWorker | ContactWorker

fun worker_router :: "worker \<Rightarrow> services \<Rightarrow> database \<Rightarrow> message \<Rightarrow> (hist, gerr option) go" where
  "worker_router DomainWorker = HandlerRouter"
| "worker_router HostWorker = HostHandlerRouter"
| "worker_router ContactWorker = ContactHandlerRouter"

section \<open>One body for all announcements\<close>

definition transfer_actions :: "string set" where
  "transfer_actions = {''provision_domain_transfer_away'', ''provision_domain_transfer_in_cancel_request''}"

definition domain_request :: "string \<Rightarrow> (services \<Rightarrow> message \<Rightarrow> database \<Rightarrow> Job \<Rightarrow> (hist, gerr option) go) option" where
  "domain_request ty =
     (if ty = ''provision_domain_create'' then Some DomainProvision_body
      else if ty = ''provision_domain_renew'' then Some DomainRenew_body
      else if ty = ''provision_domain_redeem'' then Some DomainRedeem_body
      else if ty = ''provision_domain_redeem_report'' then Some DomainRedeemReport_body
      else if ty = ''provision_domain_delete'' then Some DomainDelete_body
      else if ty = ''provision_domain_update'' then Some DomainUpdate_body
      else if ty \<in> {''validate_domain_available'', ''validate_domain_premium''} then Some ValidateDomainCheck_body
      else if ty = ''validate_domain_claims'' then Some ValidateDomainClaimsCheck_body
      else if ty = ''provision_domain_transfer_in_request'' then Some DomainTransferInRequest_body
      else if ty \<in> transfer_actions then Some DomainTransferAction_body
      else if ty \<in> {''provision_domain_transfer_in'', ''validate_domain_transferable'',
                    ''provision_domain_expiry_date_check'', ''setup_domain_renew'', ''setup_domain_delete''}
      then Some DomainInfo_body
      else None)"

definition host_request :: "string \<Rightarrow> (services \<Rightarrow> message \<Rightarrow> database \<Rightarrow> Job \<Rightarrow> (hist, gerr option) go) option" where
  "host_request ty =
     (if ty = ''provision_host_create'' then Some HostProvision_body
      else if ty = ''provision_host_update'' then Some HostUpdate_body
      else if ty \<in> {''provision_host_delete'', ''provision_domain_delete_host''} then Some HostDelete_body
      else if ty = ''validate_host_available'' then Some ValidateHostAvailable_body
      else None)"

definition contact_request :: "string \<Rightarrow> (services \<Rightarrow> message \<Rightarrow> database \<Rightarrow> Job \<Rightarrow> (hist, gerr option) go) option" where
  "contact_request ty =
     (if ty = ''provision_contact_create'' then Some ContactProvision_body
      else if ty = ''provision_domain_contact_update'' then Some ContactUpdate_body
      else if ty = ''provision_contact_delete'' then Some ContactDelete_body
      else None)"

fun request_for :: "worker \<Rightarrow> string \<Rightarrow> (services \<Rightarrow> message \<Rightarrow> database \<Rightarrow> Job \<Rightarrow> (hist, gerr option) go) option" where
  "request_for DomainWorker = domain_request"
| "request_for HostWorker = host_request"
| "request_for ContactWorker = contact_request"

definition request_of ::
  "worker \<Rightarrow> string \<Rightarrow> services \<Rightarrow> message \<Rightarrow> database \<Rightarrow> Job \<Rightarrow> (hist, gerr option) go" where
  "request_of w ty =
     (case request_for w ty of None \<Rightarrow> (\<lambda>_ _ _ _. go_panic ''no handler'') | Some body \<Rightarrow> body)"

text \<open>The announcements that move their job: all but a transfer action whose transfer status is unknown.\<close>

definition dispatching_of ::
  "worker \<Rightarrow> string \<Rightarrow> services \<Rightarrow> message \<Rightarrow> database \<Rightarrow> Job \<Rightarrow> (hist, gerr option) go" where
  "dispatching_of w ty S m tx job =
     (if w = DomainWorker \<and> ty \<in> transfer_actions \<and> unknown_transfer job then go_panic ''no handler''
      else request_of w ty S m tx job)"

lemmas request_defs = domain_request_def host_request_def contact_request_def

lemma request_of_adds:
  "adds (request_event tx job) is_job_write (Suc 0) (request_of w ty S m tx job)"
  "adds (request_event tx job) is_send (Suc 0) (request_of w ty S m tx job)"
proof -
  have "adds (request_event tx job) is_job_write (Suc 0) (b S m tx job) \<and>
        adds (request_event tx job) is_send (Suc 0) (b S m tx job)" if "request_for w ty = Some b" for b
    using that by (cases w) (auto simp: request_defs adds_rules split: if_splits)
  then show "adds (request_event tx job) is_job_write (Suc 0) (request_of w ty S m tx job)"
    "adds (request_event tx job) is_send (Suc 0) (request_of w ty S m tx job)"
    by (simp_all add: request_of_def adds_rules split: option.split)
qed

lemma dispatching_of_ends:
  "ends (\<lambda>err h. err = None \<longrightarrow> dispatched S tx job (notified m) h) (dispatching_of w ty S m tx job)"
proof -
  have "ends (\<lambda>err h. err = None \<longrightarrow> dispatched S tx job (notified m) h) (b S m tx job)"
    if "request_for w ty = Some b" "\<not> (w = DomainWorker \<and> ty \<in> transfer_actions \<and> unknown_transfer job)" for b
    using that by (cases w) (auto simp: request_defs ends_rules ends_transfer_action split: if_splits)
  then show ?thesis
    by (auto simp: dispatching_of_def request_of_def ends_rules split: option.split)
qed

interpretation request: request_body "request_of w ty" for w ty
  by unfold_locales (simp_all add: request_of_adds)

interpretation dispatching: dispatching_body "dispatching_of w ty" for w ty
proof unfold_locales
  fix S tx job m
  show "ends (\<lambda>err h. err = None \<longrightarrow> dispatched S tx job (notified m) h) (dispatching_of w ty S m tx job)"
    by (rule dispatching_of_ends)
qed (simp_all add: dispatching_of_def request_of_adds adds_rules)

lemma worker_router_known:
  assumes "request_for w ty \<noteq> None"
  shows "worker_router w S db (JobNotificationMsg i ty st ri rt) =
     submit_job S db i (request_of w ty S (JobNotificationMsg i ty st ri rt))"
  using assms
  by (cases w)
     (auto simp: request_of_def request_defs transfer_actions_def HandlerRouter_def HostHandlerRouter_def
        ContactHandlerRouter_def as_Notification_def DomainProvisionHandler_def DomainRenewHandler_def
        DomainRedeemHandler_def DomainRedeemReportHandler_def DomainDeleteHandler_def DomainUpdateHandler_def
        ValidateDomainCheckHandler_def ValidateDomainClaimsCheckHandler_def DomainTransferInRequestHandler_def
        DomainTransferActionHandler_def DomainInfoHandler_def HostProvisionHandler_def HostUpdateHandler_def
        HostDeleteHandler_def ValidateHostAvailableHandler_def ContactProvisionHandler_def
        ContactUpdateHandler_def ContactDeleteHandler_def split: if_splits)

lemma worker_router_unknown:
  assumes "request_for w ty = None"
  shows "worker_router w S db (JobNotificationMsg i ty st ri rt) = ret (Some (ErrNew (''no handlers for type: '' @ ty)))"
  using assms
  by (cases w)
     (auto simp: request_defs transfer_actions_def HandlerRouter_def HostHandlerRouter_def
        ContactHandlerRouter_def as_Notification_def split: if_splits)

lemma worker_router_other:
  assumes "\<And>i ty st ri rt. m \<noteq> JobNotificationMsg i ty st ri rt"
  shows "worker_router w S db m = go_panic ''interface conversion''"
proof -
  have "as_Notification m = go_panic ''interface conversion''"
    using assms by (simp add: as_Notification_def split: message.split)
  then show ?thesis
    by (cases w) (simp_all add: HandlerRouter_def HostHandlerRouter_def ContactHandlerRouter_def)
qed

end
