(* ===== verification/Contact_Updater.thy ===== *)
theory Contact_Updater
  imports Error_Response Host_Contact_Data
begin

text \<open>
  The contact updater (\<^verbatim>\<open>contact_updater/handlers\<close>): the registry's answers to contact requests. Each
  handler completes the job on success and fails it with the registry's message otherwise.
\<close>

definition as_ContactCreateResponse :: "message \<Rightarrow> (hist, RegistryResponse option) go" where
  "as_ContactCreateResponse m =
     (case m of ContactCreateResponseMsg r \<Rightarrow> ret r | _ \<Rightarrow> go_panic ''interface conversion'')"

definition as_ContactUpdateResponse :: "message \<Rightarrow> (hist, RegistryResponse option) go" where
  "as_ContactUpdateResponse m =
     (case m of ContactUpdateResponseMsg r \<Rightarrow> ret r | _ \<Rightarrow> go_panic ''interface conversion'')"

definition as_ContactDeleteResponse :: "message \<Rightarrow> (hist, RegistryResponse option) go" where
  "as_ContactDeleteResponse m =
     (case m of ContactDeleteResponseMsg r \<Rightarrow> ret r | _ \<Rightarrow> go_panic ''interface conversion'')"

lemmas as_contact_defs =
  as_ContactCreateResponse_def as_ContactUpdateResponse_def as_ContactDeleteResponse_def

lemma adds_as_contact [adds_rules]:
  "adds P W k (as_ContactCreateResponse m)" "adds P W k (as_ContactUpdateResponse m)"
  "adds P W k (as_ContactDeleteResponse m)"
  by (simp_all add: as_contact_defs adds_rules split: message.split)

text \<open>The common ending.\<close>

definition complete_or_fail ::
  "services \<Rightarrow> database \<Rightarrow> Job \<Rightarrow> RegistryResponse option \<Rightarrow> JobResultData \<Rightarrow> (hist, gerr option) go" where
  "complete_or_fail S tx job registryResponse jrd =
     (if GetIsSuccess registryResponse then finish_job S tx job JobStatus_Completed (Some jrd)
      else fail_registry S tx job registryResponse jrd)"

definition contact_provision_body :: "services \<Rightarrow> message \<Rightarrow> database \<Rightarrow> Job \<Rightarrow> (hist, gerr option) go" where
  "contact_provision_body S message tx job =
     bnd (as_ContactCreateResponse message) (\<lambda>registryResponse.
     bnd (deref (job_Info job)) (\<lambda>info.
     case unmarshal dec_ContactData zero_ContactData (vj_Data info) of
       None \<Rightarrow> fail_decode S tx job ''ContactData'' (vj_Data info)
     | Some data \<Rightarrow> complete_or_fail S tx job registryResponse (result_data message)))"

definition RyContactProvisionHandler ::
  "services \<Rightarrow> database \<Rightarrow> string \<Rightarrow> message \<Rightarrow> (hist, gerr option) go" where
  "RyContactProvisionHandler S db correlationId message =
     bnd (as_ContactCreateResponse message) (\<lambda>_.
     process_job S db correlationId (contact_provision_body S message))"

definition contact_update_body :: "services \<Rightarrow> message \<Rightarrow> database \<Rightarrow> Job \<Rightarrow> (hist, gerr option) go" where
  "contact_update_body S message tx job =
     bnd (as_ContactUpdateResponse message) (\<lambda>registryResponse.
     bnd (deref (job_Info job)) (\<lambda>info.
     case unmarshal dec_ContactUpdateData zero_ContactUpdateData (vj_Data info) of
       None \<Rightarrow> fail_decode S tx job ''ContactUpdateData'' (vj_Data info)
     | Some data \<Rightarrow> complete_or_fail S tx job registryResponse (result_data message)))"

definition RyContactUpdateHandler ::
  "services \<Rightarrow> database \<Rightarrow> string \<Rightarrow> message \<Rightarrow> (hist, gerr option) go" where
  "RyContactUpdateHandler S db correlationId message =
     bnd (as_ContactUpdateResponse message) (\<lambda>_.
     process_job S db correlationId (contact_update_body S message))"

definition contact_delete_body :: "services \<Rightarrow> message \<Rightarrow> database \<Rightarrow> Job \<Rightarrow> (hist, gerr option) go" where
  "contact_delete_body S message tx job =
     bnd (as_ContactDeleteResponse message) (\<lambda>registryResponse.
     bnd (deref (job_Info job)) (\<lambda>info.
     case unmarshal dec_ContactDeleteData zero_ContactDeleteData (vj_Data info) of
       None \<Rightarrow> fail_decode S tx job ''ContactDeleteData'' (vj_Data info)
     | Some data \<Rightarrow> complete_or_fail S tx job registryResponse (result_data message)))"

definition RyContactDeleteHandler ::
  "services \<Rightarrow> database \<Rightarrow> string \<Rightarrow> message \<Rightarrow> (hist, gerr option) go" where
  "RyContactDeleteHandler S db correlationId message =
     bnd (as_ContactDeleteResponse message) (\<lambda>_.
     process_job S db correlationId (contact_delete_body S message))"

definition CU_RegisterHandlers ::
  "services \<Rightarrow> database \<Rightarrow> message \<Rightarrow> (string \<Rightarrow> message \<Rightarrow> (hist, gerr option) go) option" where
  "CU_RegisterHandlers S db message =
     (case message of
        ContactCreateResponseMsg _ \<Rightarrow> Some (RyContactProvisionHandler S db)
      | ContactDeleteResponseMsg _ \<Rightarrow> Some (RyContactDeleteHandler S db)
      | ContactUpdateResponseMsg _ \<Rightarrow> Some (RyContactUpdateHandler S db)
      | ErrorResponseMsg _ \<Rightarrow> Some (ErrorResponseHandler S db)
      | _ \<Rightarrow> None)"

section \<open>The bodies keep the contract\<close>

lemma adds_complete_or_fail [adds_rules]:
  "JobStatus_Completed \<in> outs \<Longrightarrow> JobStatus_Failed \<in> outs \<Longrightarrow>
   adds (job_event outs tx job) W (Suc 0) (complete_or_fail S tx job rr jrd)"
  unfolding complete_or_fail_def by (intro adds_rules) simp_all

lemma ends_complete_or_fail [ends_rules]:
  "ends (\<lambda>err h. err = None \<longrightarrow> settled S tx job h) (complete_or_fail S tx job rr jrd)"
  unfolding complete_or_fail_def by (intro ends_rules) simp_all

definition contact_answer_body :: "services \<Rightarrow> message \<Rightarrow> database \<Rightarrow> Job \<Rightarrow> (hist, gerr option) go" where
  "contact_answer_body S m tx job =
     (case m of
        ContactCreateResponseMsg _ \<Rightarrow> contact_provision_body S m tx job
      | ContactUpdateResponseMsg _ \<Rightarrow> contact_update_body S m tx job
      | ContactDeleteResponseMsg _ \<Rightarrow> contact_delete_body S m tx job
      | _ \<Rightarrow> go_panic ''interface conversion'')"

lemma adds_contact_answer:
  "adds (body_event tx job) is_job_write (Suc 0) (contact_provision_body S m tx job)"
  "adds (body_event tx job) is_job_write (Suc 0) (contact_update_body S m tx job)"
  "adds (body_event tx job) is_job_write (Suc 0) (contact_delete_body S m tx job)"
  unfolding contact_provision_body_def contact_update_body_def contact_delete_body_def
  by (intro adds_rules; simp)+

lemma ends_contact_answer:
  "ends (\<lambda>err h. err = None \<longrightarrow> settled S tx job h) (contact_provision_body S m tx job)"
  "ends (\<lambda>err h. err = None \<longrightarrow> settled S tx job h) (contact_update_body S m tx job)"
  "ends (\<lambda>err h. err = None \<longrightarrow> settled S tx job h) (contact_delete_body S m tx job)"
  unfolding contact_provision_body_def contact_update_body_def contact_delete_body_def
  by (intro ends_rules; simp)+

interpretation contact_answer: settling_body contact_answer_body
  by unfold_locales
     (auto simp: contact_answer_body_def intro: adds_rules ends_rules adds_contact_answer ends_contact_answer
        split: message.split)

lemma registered_contact_answer:
  assumes "CU_RegisterHandlers S db m = Some H" "\<And>r. m \<noteq> ErrorResponseMsg r"
  shows "H cid m = process_job S db cid (contact_answer_body S m)"
proof -
  have "contact_answer_body S m = contact_provision_body S m" if "m = ContactCreateResponseMsg r" for r
    using that by (simp add: contact_answer_body_def fun_eq_iff)
  moreover have "contact_answer_body S m = contact_update_body S m" if "m = ContactUpdateResponseMsg r" for r
    using that by (simp add: contact_answer_body_def fun_eq_iff)
  moreover have "contact_answer_body S m = contact_delete_body S m" if "m = ContactDeleteResponseMsg r" for r
    using that by (simp add: contact_answer_body_def fun_eq_iff)
  ultimately show ?thesis
    using assms
    by (cases m) (auto simp: CU_RegisterHandlers_def RyContactProvisionHandler_def RyContactUpdateHandler_def
        RyContactDeleteHandler_def as_contact_defs)
qed

end
