(* ===== verification/Host_Updater.thy ===== *)
theory Host_Updater
  imports Contact_Updater DU_Routers Request_Protocol
begin

text \<open>
  The host updater (\<^verbatim>\<open>host_updater/handlers\<close>): the registry's answers to host requests. A host the registry
  refuses to delete may be renamed instead: the handler sends the rename request itself, under the
  id of the same job, and leaves the job in processing for the answer to the rename.
\<close>

definition as_HostCreateResponse :: "message \<Rightarrow> (hist, RegistryResponse option) go" where
  "as_HostCreateResponse m =
     (case m of HostCreateResponseMsg r \<Rightarrow> ret r | _ \<Rightarrow> go_panic ''interface conversion'')"

definition as_HostUpdateResponse :: "message \<Rightarrow> (hist, RegistryResponse option) go" where
  "as_HostUpdateResponse m =
     (case m of HostUpdateResponseMsg r \<Rightarrow> ret r | _ \<Rightarrow> go_panic ''interface conversion'')"

definition as_HostDeleteResponse :: "message \<Rightarrow> (hist, RegistryResponse option) go" where
  "as_HostDeleteResponse m =
     (case m of HostDeleteResponseMsg r \<Rightarrow> ret r | _ \<Rightarrow> go_panic ''interface conversion'')"

definition as_HostCheckResponse :: "message \<Rightarrow> (hist, HostCheckResponse) go" where
  "as_HostCheckResponse m =
     (case m of HostCheckResponseMsg r \<Rightarrow> ret r | _ \<Rightarrow> go_panic ''interface conversion'')"

lemmas as_host_defs =
  as_HostCreateResponse_def as_HostUpdateResponse_def as_HostDeleteResponse_def as_HostCheckResponse_def

lemma adds_as_host [adds_rules]:
  "adds P W k (as_HostCreateResponse m)" "adds P W k (as_HostUpdateResponse m)"
  "adds P W k (as_HostDeleteResponse m)" "adds P W k (as_HostCheckResponse m)"
  by (simp_all add: as_host_defs adds_rules split: message.split)

section \<open>Create and update\<close>

definition host_provision_body :: "services \<Rightarrow> message \<Rightarrow> database \<Rightarrow> Job \<Rightarrow> (hist, gerr option) go" where
  "host_provision_body S message tx job =
     bnd (as_HostCreateResponse message) (\<lambda>registryResponse.
     bnd (deref (job_Info job)) (\<lambda>info.
     case unmarshal dec_HostData zero_HostData (vj_Data info) of
       None \<Rightarrow> fail_decode S tx job ''HostData'' (vj_Data info)
     | Some data \<Rightarrow>
         (let jrd = result_data message in
          if GetIsSuccess registryResponse then finish_job S tx job JobStatus_Completed (Some jrd)
          else if GetEppCode registryResponse = EppCode_Exists
          then finish_job S tx job JobStatus_Completed (Some jrd)
          else fail_registry S tx job registryResponse jrd)))"

definition RyHostProvisionHandler ::
  "services \<Rightarrow> database \<Rightarrow> string \<Rightarrow> message \<Rightarrow> (hist, gerr option) go" where
  "RyHostProvisionHandler S db correlationId message =
     bnd (as_HostCreateResponse message) (\<lambda>_.
     process_job S db correlationId (host_provision_body S message))"

definition host_update_body :: "services \<Rightarrow> message \<Rightarrow> database \<Rightarrow> Job \<Rightarrow> (hist, gerr option) go" where
  "host_update_body S message tx job =
     bnd (as_HostUpdateResponse message) (\<lambda>registryResponse.
     bnd (deref (job_Info job)) (\<lambda>info.
     case unmarshal dec_HostUpdateData zero_HostUpdateData (vj_Data info) of
       None \<Rightarrow> fail_decode S tx job ''HostUpdateData'' (vj_Data info)
     | Some data \<Rightarrow> complete_or_fail S tx job registryResponse (result_data message)))"

definition RyHostUpdateHandler ::
  "services \<Rightarrow> database \<Rightarrow> string \<Rightarrow> message \<Rightarrow> (hist, gerr option) go" where
  "RyHostUpdateHandler S db correlationId message =
     bnd (as_HostUpdateResponse message) (\<lambda>_.
     process_job S db correlationId (host_update_body S message))"

section \<open>Delete\<close>

definition RyRenameHost :: "services \<Rightarrow> database \<Rightarrow> HostDeleteData \<Rightarrow> Job \<Rightarrow> (hist, gerr option) go" where
  "RyRenameHost S tx data job =
     (if hdd_HostDeleteRenameDomain data = []
      then ret (Some (ErrNew ''cannot rename host, delete rename domain name is empty''))
      else
        bnd (bus_Send S (GetTransformQueue (acc_AccreditationName (hdd_Accreditation data)))
               (HostUpdateRequestMsg \<lparr>huq_Name = hdd_HostName data, huq_Add = None, huq_Rem = None,
                  huq_NewName = hdd_HostName data @ ''.'' @ hdd_HostDeleteRenameDomain data\<rparr>)
               (request_headers ''WorkerJobHostProvisionUpdate'' (job_ID job))) (\<lambda>err.
        case err of
          Some e \<Rightarrow> ret (Some e)
        | None \<Rightarrow> UpdateJob S tx job))"

definition rename_or_fail ::
  "services \<Rightarrow> database \<Rightarrow> HostDeleteData \<Rightarrow> Job \<Rightarrow> JobResultData \<Rightarrow> (hist, gerr option) go" where
  "rename_or_fail S tx data job jrd =
     bnd (RyRenameHost S tx data job) (\<lambda>err.
     if err \<noteq> None then fail_with S tx job ''Failed to delete and rename host in registry'' (Some jrd)
     else ret None)"

definition host_delete_body :: "services \<Rightarrow> message \<Rightarrow> database \<Rightarrow> Job \<Rightarrow> (hist, gerr option) go" where
  "host_delete_body S message tx job =
     bnd (as_HostDeleteResponse message) (\<lambda>registryResponse.
     bnd (deref (job_Info job)) (\<lambda>info.
     case unmarshal dec_HostDeleteData zero_HostDeleteData (vj_Data info) of
       None \<Rightarrow> fail_decode S tx job ''HostDeleteData'' (vj_Data info)
     | Some data \<Rightarrow>
         (let jrd = result_data message in
          if GetIsSuccess registryResponse then finish_job S tx job JobStatus_Completed (Some jrd)
          else
            bnd (deref registryResponse) (\<lambda>rr.
            if rr_EppCode rr = EppCode_ObjectDoesNotExist
            then finish_job S tx job JobStatus_Completed (Some jrd)
            else if hdd_HostDeleteRenameAllowed data then rename_or_fail S tx data job jrd
            else fail_registry S tx job registryResponse jrd))))"

definition RyHostDeleteHandler ::
  "services \<Rightarrow> database \<Rightarrow> string \<Rightarrow> message \<Rightarrow> (hist, gerr option) go" where
  "RyHostDeleteHandler S db correlationId message =
     bnd (as_HostDeleteResponse message) (\<lambda>_.
     process_job S db correlationId (host_delete_body S message))"

section \<open>Availability\<close>

text \<open>The plan row and the job's end for each kind of check answer.\<close>

definition host_check_plan ::
  "services \<Rightarrow> database \<Rightarrow> HostCheckResponse \<Rightarrow> HostValidationData \<Rightarrow> Job \<Rightarrow> JobResultData
     \<Rightarrow> (hist, OrderItemPlan \<times> Job \<times> JobResultData \<times> string) go" where
  "host_check_plan S tx response data job jrd =
     (let registryResponse = hck_RegistryResponse response;
          oip = zero_OrderItemPlan
            \<lparr>oip_ID := hvd_OrderItemPlanId data,
             oip_ValidationStatusID := GetOrderItemPlanValidationStatusId tx OrderItemPlanValidationStatus_Completed\<rparr>;
          failed = oip\<lparr>oip_ValidationStatusID :=
             GetOrderItemPlanValidationStatusId tx OrderItemPlanValidationStatus_Failed\<rparr>
      in if \<not> GetIsSuccess registryResponse then
           bnd (SetJobErrorFromRegistryResponse S registryResponse job jrd) (\<lambda>(job, jrd).
           ret (failed, job, jrd, JobStatus_Failed))
         else case hck_Hosts response of
           [isAvailable] \<Rightarrow>
             ret (if isAvailable then oip
                  else oip\<lparr>oip_StatusID := GetOrderItemPlanStatusId tx OrderItemPlanStatus_Completed\<rparr>,
                  job, jrd, JobStatus_Completed)
         | _ \<Rightarrow> ret (failed, job\<lparr>job_ResultMessage := Some ''host validation failed''\<rparr>, jrd, JobStatus_Failed))"

definition apply_host_plan ::
  "services \<Rightarrow> database \<Rightarrow> OrderItemPlan \<times> Job \<times> JobResultData \<times> string \<Rightarrow> (hist, gerr option) go" where
  "apply_host_plan S tx = (\<lambda>(oip, job, jrd, jobStatus).
     bnd (UpdateOrderItemPlan S tx oip) (\<lambda>err.
     case err of
       Some e \<Rightarrow> fail_with S tx job (err_text e) None
     | None \<Rightarrow> finish_job S tx job jobStatus (Some jrd)))"

definition RyValidateHostAvailableHandler ::
  "services \<Rightarrow> HostCheckResponse \<Rightarrow> database \<Rightarrow> Job \<Rightarrow> (hist, gerr option) go" where
  "RyValidateHostAvailableHandler S response tx job =
     bnd (deref (job_Info job)) (\<lambda>info.
     case unmarshal dec_HostValidationData zero_HostValidationData (vj_Data info) of
       None \<Rightarrow> fail_decode S tx job ''HostValidationData'' (vj_Data info)
     | Some data \<Rightarrow>
         bnd (host_check_plan S tx response data job (result_data (HostCheckResponseMsg response)))
           (apply_host_plan S tx))"

definition RyHostCheckRequestRouter ::
  "services \<Rightarrow> HostCheckResponse \<Rightarrow> database \<Rightarrow> Job \<Rightarrow> (hist, gerr option) go" where
  "RyHostCheckRequestRouter S response tx job =
     bnd (deref (job_Info job)) (\<lambda>info.
     bnd (deref (vj_JobTypeName info)) (\<lambda>jobType.
     if jobType = ''validate_host_available'' then RyValidateHostAvailableHandler S response tx job
     else ret (Some (ErrNew (''no host check response handler for job '' @ go_quote jobType)))))"

definition host_check_body :: "services \<Rightarrow> message \<Rightarrow> database \<Rightarrow> Job \<Rightarrow> (hist, gerr option) go" where
  "host_check_body S message tx job =
     bnd (as_HostCheckResponse message) (\<lambda>response. RyHostCheckRequestRouter S response tx job)"

definition RyHostCheckHandler ::
  "services \<Rightarrow> database \<Rightarrow> string \<Rightarrow> message \<Rightarrow> (hist, gerr option) go" where
  "RyHostCheckHandler S db correlationId message =
     bnd (as_HostCheckResponse message) (\<lambda>_.
     process_job S db correlationId (host_check_body S message))"

definition HU_RegisterHandlers ::
  "services \<Rightarrow> database \<Rightarrow> message \<Rightarrow> (string \<Rightarrow> message \<Rightarrow> (hist, gerr option) go) option" where
  "HU_RegisterHandlers S db message =
     (case message of
        HostCreateResponseMsg _ \<Rightarrow> Some (RyHostProvisionHandler S db)
      | HostUpdateResponseMsg _ \<Rightarrow> Some (RyHostUpdateHandler S db)
      | HostCheckResponseMsg _ \<Rightarrow> Some (RyHostCheckHandler S db)
      | HostDeleteResponseMsg _ \<Rightarrow> Some (RyHostDeleteHandler S db)
      | ErrorResponseMsg _ \<Rightarrow> Some (ErrorResponseHandler S db)
      | _ \<Rightarrow> None)"

section \<open>The bodies keep the contract\<close>

lemma host_check_plan_cases:
  "ends (\<lambda>x _. case x of (oip, job', jrd', st) \<Rightarrow> job_ID job' = job_ID job \<and> st \<in> final_statuses)
     (host_check_plan S tx response data job jrd)"
  unfolding host_check_plan_def Let_def
  by (auto simp: bnd_SetJobError intro!: ends_rules split: list.split option.split)

lemma adds_host_check_plan [adds_rules]: "adds P W k (host_check_plan S tx response data job jrd)"
  unfolding host_check_plan_def Let_def
  by (auto simp: bnd_SetJobError intro!: adds_rules split: list.split option.split)

lemma apply_host_plan_rules:
  assumes "case x of (oip, job', jrd', st) \<Rightarrow> job_ID job' = job_ID job \<and> st \<in> final_statuses"
  shows "adds (body_event tx job) is_job_write (Suc 0) (apply_host_plan S tx x)"
    "ends (\<lambda>err h. err = None \<longrightarrow> settled S tx job h) (apply_host_plan S tx x)"
proof -
  obtain oip job' jrd st where x: "x = (oip, job', jrd, st)" "job_ID job' = job_ID job" "st \<in> final_statuses"
    using assms by (auto split: prod.splits)
  then have "st \<noteq> []" by (auto simp: final_statuses_def)
  then show "adds (body_event tx job) is_job_write (Suc 0) (apply_host_plan S tx x)"
    unfolding apply_host_plan_def x(1) prod.case row_ops using x(2,3) by (intro adds_rules) simp_all
  show "ends (\<lambda>err h. err = None \<longrightarrow> settled S tx job h) (apply_host_plan S tx x)"
    unfolding apply_host_plan_def x(1) prod.case using x(2,3) by (intro ends_rules) simp_all
qed

lemma adds_RyValidateHostAvailableHandler [adds_rules]:
  "adds (body_event tx job) is_job_write (Suc 0) (RyValidateHostAvailableHandler S response tx job)"
proof -
  have "adds (body_event tx job) is_job_write (0 + Suc 0)
      (bnd (host_check_plan S tx response data job jrd) (apply_host_plan S tx))" for data jrd
    by (rule adds_bnd_ends [OF adds_host_check_plan _ apply_host_plan_rules(1)])
       (use host_check_plan_cases [of job S tx response data jrd] in \<open>simp_all add: ends_def\<close>)
  then show ?thesis
    unfolding RyValidateHostAvailableHandler_def
    by (intro adds_bnd [OF adds_deref] adds_case_option adds_fail_decode) simp_all
qed

lemma ends_RyValidateHostAvailableHandler [ends_rules]:
  "ends (\<lambda>err h. err = None \<longrightarrow> settled S tx job h) (RyValidateHostAvailableHandler S response tx job)"
proof -
  have "ends (\<lambda>err h. err = None \<longrightarrow> settled S tx job h)
      (bnd (host_check_plan S tx response data job jrd) (apply_host_plan S tx))" for data jrd
    by (rule ends_bnd_with [OF host_check_plan_cases apply_host_plan_rules(2)])
  then show ?thesis
    unfolding RyValidateHostAvailableHandler_def
    by (intro ends_bnd [of _ _ "deref _"] ends_case_option ends_fail_decode) simp_all
qed

text \<open>The answers that settle their job.\<close>

definition host_answer_body :: "services \<Rightarrow> message \<Rightarrow> database \<Rightarrow> Job \<Rightarrow> (hist, gerr option) go" where
  "host_answer_body S m tx job =
     (case m of
        HostCreateResponseMsg _ \<Rightarrow> host_provision_body S m tx job
      | HostUpdateResponseMsg _ \<Rightarrow> host_update_body S m tx job
      | HostCheckResponseMsg _ \<Rightarrow> host_check_body S m tx job
      | _ \<Rightarrow> go_panic ''interface conversion'')"

lemma adds_host_answer:
  "adds (body_event tx job) is_job_write (Suc 0) (host_provision_body S m tx job)"
  "adds (body_event tx job) is_job_write (Suc 0) (host_update_body S m tx job)"
  "adds (body_event tx job) is_job_write (Suc 0) (host_check_body S m tx job)"
  unfolding host_provision_body_def host_update_body_def host_check_body_def RyHostCheckRequestRouter_def
  by (intro adds_rules; simp)+

lemma ends_host_answer:
  "ends (\<lambda>err h. err = None \<longrightarrow> settled S tx job h) (host_provision_body S m tx job)"
  "ends (\<lambda>err h. err = None \<longrightarrow> settled S tx job h) (host_update_body S m tx job)"
  "ends (\<lambda>err h. err = None \<longrightarrow> settled S tx job h) (host_check_body S m tx job)"
  unfolding host_provision_body_def host_update_body_def host_check_body_def RyHostCheckRequestRouter_def
  by (intro ends_rules; simp)+

interpretation host_answer: settling_body host_answer_body
  by unfold_locales
     (auto simp: host_answer_body_def intro: adds_rules ends_rules adds_host_answer ends_host_answer
        split: message.split)

text \<open>The answer to a delete may write the job twice and may leave it in processing.\<close>

lemma adds_RyRenameHost:
  assumes "job_StatusID job = GetJobStatusId tx JobStatus_Processing" "JobStatus_Processing \<in> outs"
  shows "adds (job_event outs tx job) is_job_write (Suc 0) (RyRenameHost S tx data job)"
  unfolding RyRenameHost_def using assms
  by (intro adds_rules adds_bus_Send adds_UpdateJob) (auto intro: imageI)

lemma adds_host_delete_body:
  assumes "job_StatusID job = GetJobStatusId tx JobStatus_Processing"
  shows "adds (job_event (insert JobStatus_Processing final_statuses) tx job) is_job_write 2 (host_delete_body S m tx job)"
proof -
  have one: "adds P is_job_write (Suc 0) x \<Longrightarrow> adds P is_job_write 2 x" for P and x :: "(hist, gerr option) go"
    by (rule adds_mono [where W = is_job_write and k = "Suc 0"]) auto
  have "adds (job_event (insert JobStatus_Processing final_statuses) tx job) is_job_write (Suc 0 + Suc 0)
      (rename_or_fail S tx data job jrd)" for data jrd
    unfolding rename_or_fail_def by (intro adds_bnd_sum adds_RyRenameHost assms adds_rules) simp_all
  then have rename: "adds (job_event (insert JobStatus_Processing final_statuses) tx job) is_job_write 2
      (rename_or_fail S tx data job jrd)" for data jrd
    by (simp add: numeral_2_eq_2)
  show ?thesis
    unfolding host_delete_body_def Let_def
    apply (intro adds_bnd adds_as_host adds_deref adds_case_option adds_if rename)
       apply (rule one, intro adds_rules; simp)+
    done
qed

interpretation host_delete: status_body JobStatus_Processing "insert JobStatus_Processing final_statuses" 2 host_delete_body
  by unfold_locales (rule adds_host_delete_body)

lemma registered_host_answer:
  assumes "HU_RegisterHandlers S db m = Some H" "\<And>r. m \<noteq> ErrorResponseMsg r"
  shows "H cid m = process_job S db cid
    ((case m of HostDeleteResponseMsg r \<Rightarrow> host_delete_body | _ \<Rightarrow> host_answer_body) S m)"
proof -
  have "host_answer_body S m = host_provision_body S m" if "m = HostCreateResponseMsg r" for r
    using that by (simp add: host_answer_body_def fun_eq_iff)
  moreover have "host_answer_body S m = host_update_body S m" if "m = HostUpdateResponseMsg r" for r
    using that by (simp add: host_answer_body_def fun_eq_iff)
  moreover have "host_answer_body S m = host_check_body S m" if "m = HostCheckResponseMsg r" for r
    using that by (simp add: host_answer_body_def fun_eq_iff)
  ultimately show ?thesis
    using assms
    by (cases m) (auto simp: HU_RegisterHandlers_def RyHostProvisionHandler_def RyHostUpdateHandler_def
        RyHostDeleteHandler_def RyHostCheckHandler_def as_host_defs)
qed

section \<open>Properties\<close>

text \<open>
  C26. The answer to a host delete. Success, or a host the registry does not know, completes the job.
  Otherwise, if the order allows it, the host is renamed out of the way: a rename request for
  name.domain goes out under the id of the same job, which stays in processing for its answer; without
  a rename domain, or when the bus refuses the message, the job fails. If renaming is not allowed the
  job fails with the registry's message. An answer without a registry response panics.
\<close>

theorem host_delete_outcome:
  fixes S tx h data job
  defines "rename \<equiv> BusSend (GetTransformQueue (acc_AccreditationName (hdd_Accreditation data)))
     (HostUpdateRequestMsg \<lparr>huq_Name = hdd_HostName data, huq_Add = None, huq_Rem = None,
        huq_NewName = hdd_HostName data @ ''.'' @ hdd_HostDeleteRenameDomain data\<rparr>)
     [(''reply_to'', ''WorkerJobHostProvisionUpdate''), (''correlation_id'', job_ID job)]"
  assumes "calm S" "statuses_known tx" "job_Info job = Some info"
    "unmarshal dec_HostDeleteData zero_HostDeleteData (vj_Data info) = Some data"
  shows "wp (host_delete_body S (HostDeleteResponseMsg rr) tx job) (\<lambda>r h'.
     if GetIsSuccess rr \<or> GetEppCode rr = 2303
     then r = Ret None \<and> closes tx job ''completed'' (job_ResultMessage job) h h'
     else if rr = None then r = Panicked ''nil pointer dereference'' \<and> h' = h
     else if \<not> hdd_HostDeleteRenameAllowed data
     then r = Ret None \<and> closes tx job ''failed'' (GetMessageFromRegistryResponse S rr) h h'
     else if hdd_HostDeleteRenameDomain data = []
     then r = Ret None \<and> closes tx job ''failed'' (Some ''Failed to delete and rename host in registry'') h h'
     else if sv_err S h rename \<noteq> None
     then r = Ret None \<and> closes tx job ''failed'' (Some ''Failed to delete and rename host in registry'') (rename # h) h'
     else r = Ret None \<and> h' = Exec (db_gorm tx) (UpdatesJob job) # rename # h) h"
proof -
  have upd: "sv_err S x (Exec s (UpdatesJob j)) = None" for x s j using assms(2) by (simp add: calm_def)
  have renamed: "wp (rename_or_fail S tx data job jrd) (\<lambda>r h'.
      if hdd_HostDeleteRenameDomain data = []
      then r = Ret None \<and> closes tx job ''failed'' (Some ''Failed to delete and rename host in registry'') h h'
      else if sv_err S h rename \<noteq> None
      then r = Ret None \<and> closes tx job ''failed'' (Some ''Failed to delete and rename host in registry'') (rename # h) h'
      else r = Ret None \<and> h' = Exec (db_gorm tx) (UpdatesJob job) # rename # h) h" for jrd
    by (auto simp: wp rename_or_fail_def RyRenameHost_def bus_Send_def UpdateJob_def upd Let_def rename_def
          request_headers_def assms(2-4) intro!: closing split: option.split)
  show ?thesis
    unfolding host_delete_body_def as_HostDeleteResponse_def message.case bnd_ret assms(4) deref_Some assms(5)
      option.case Let_def
    by (cases rr)
       (auto simp: wp GetIsSuccess_def GetEppCode_def assms(2-4)
          intro!: closing wp_mono [OF renamed])
qed

theorem host_delete_outcome_witness:
  "wp (host_delete_body (plain_services ''t'') (HostDeleteResponseMsg (Some (sample_rr False 2303))) sample_db (plain_job ''t''))
     (\<lambda>r h'. r = Ret None \<and> closes sample_db (plain_job ''t'') ''completed'' None [] h') []"
  using host_delete_outcome [OF plain_calm sample_statuses_known, where job = "plain_job ''t''" and
      info = "sample_info ''t'' (JObj [])" and data = zero_HostDeleteData and rr = "Some (sample_rr False 2303)" and
      h = "[]", of "''t''"]
  by (simp add: dec_HostDeleteData_def unmarshal_empty GetEppCode_def)

end
