(* ===== verification/Job_Machine.thy ===== *)
theory Job_Machine
  imports DU_Service DW_Service Host_Updater Contact_Updater
begin

text \<open>
  The life of a job. The specification is a machine over the names of the job statuses; the workers
  and the updaters implement it together, over any number of deliveries in any order: announcements
  to the domain, host and contact workers, answers to the domain, host and contact updaters. Error
  responses, and the timeouts among them, are handled without looking at the job's status; they take
  a step of their own, and it is the trigger of the schema that keeps a final job as it is.
\<close>

section \<open>Specification\<close>

inductive job_step :: "string \<Rightarrow> string \<Rightarrow> bool" where
  start: "job_step JobStatus_Submitted JobStatus_Processing"
| skip: "st \<in> {JobStatus_Completed, JobStatus_Failed} \<Longrightarrow> job_step JobStatus_Submitted st"
| finish: "st \<in> final_statuses \<Longrightarrow> job_step JobStatus_Processing st"

inductive_cases job_step_from: "job_step x y"

definition job_statuses :: "string set" where
  "job_statuses = {JobStatus_Created, JobStatus_Submitted, JobStatus_Processing} \<union> final_statuses"

text \<open>An error response ends a job that has no final status yet, whatever its status.\<close>

inductive abort_step :: "string \<Rightarrow> string \<Rightarrow> bool" where
  abort: "x \<in> job_statuses - final_statuses \<Longrightarrow> y \<in> final_statuses \<Longrightarrow> abort_step x y"

definition job_or_abort :: "string \<Rightarrow> string \<Rightarrow> bool" where
  "job_or_abort x y \<longleftrightarrow> job_step x y \<or> abort_step x y"

text \<open>The lookup table gives different statuses different ids.\<close>

definition ids_distinct :: "database \<Rightarrow> bool" where
  "ids_distinct db \<longleftrightarrow> inj_on (GetJobStatusId db) job_statuses"

lemma job_step_statuses: "job_step x y \<Longrightarrow> x \<in> job_statuses \<and> y \<in> job_statuses"
  by (auto simp: job_statuses_def final_statuses_def elim!: job_step.cases)

lemma final_terminal: "x \<in> final_statuses \<Longrightarrow> \<not> job_step x y"
  by (auto simp: final_statuses_def elim!: job_step.cases)

lemma final_stays: "job_step\<^sup>*\<^sup>* x y \<Longrightarrow> x \<in> final_statuses \<Longrightarrow> y = x"
  by (induction rule: converse_rtranclp_induct) (auto simp: final_terminal)

section \<open>Implementation\<close>

inductive delivery :: "services \<Rightarrow> database \<Rightarrow> hist \<Rightarrow> hist \<Rightarrow> bool" for S db where
  announcement: "worker_router w S db m h = (r, h') \<Longrightarrow> delivery S db h h'"
| domain_answer: "RegisterHandlers TIMEOUT S db m = Some H \<Longrightarrow> \<not> is_error_response m \<Longrightarrow>
    H cid m h = (r, h') \<Longrightarrow> delivery S db h h'"
| host_answer: "HU_RegisterHandlers S db m = Some H \<Longrightarrow> \<not> is_error_response m \<Longrightarrow>
    H cid m h = (r, h') \<Longrightarrow> delivery S db h h'"
| contact_answer: "CU_RegisterHandlers S db m = Some H \<Longrightarrow> \<not> is_error_response m \<Longrightarrow>
    H cid m h = (r, h') \<Longrightarrow> delivery S db h h'"

inductive error_delivery :: "services \<Rightarrow> database \<Rightarrow> hist \<Rightarrow> hist \<Rightarrow> bool" for S db where
  domain_error: "RegisterHandlers TIMEOUT S db m = Some H \<Longrightarrow> is_error_response m \<Longrightarrow>
    H cid m h = (r, h') \<Longrightarrow> error_delivery S db h h'"
| host_error: "HU_RegisterHandlers S db m = Some H \<Longrightarrow> is_error_response m \<Longrightarrow>
    H cid m h = (r, h') \<Longrightarrow> error_delivery S db h h'"
| contact_error: "CU_RegisterHandlers S db m = Some H \<Longrightarrow> is_error_response m \<Longrightarrow>
    H cid m h = (r, h') \<Longrightarrow> error_delivery S db h h'"

definition any_delivery :: "services \<Rightarrow> database \<Rightarrow> hist \<Rightarrow> hist \<Rightarrow> bool" where
  "any_delivery S db h h' \<longleftrightarrow> delivery S db h h' \<or> error_delivery S db h h'"

text \<open>
  The trigger \<^verbatim>\<open>job_prevent_if_final\<close> of the schema (\<^verbatim>\<open>jobmanager/stored-procedures.ddl\<close>): a session's update of
  a job whose status, as that session sees it, is final is refused. (Jobs with retries left, which the
  trigger \<^verbatim>\<open>job_finish\<close> sets back to submitted when they fail, are outside \<open>reads_committed\<close>; by default a
  job has none.)
\<close>

fun session_statements :: "services \<Rightarrow> session \<Rightarrow> hist \<Rightarrow> stmt list" where
  "session_statements S Pool h = effective S h"
| "session_statements S (Tx n) h = pending S n h @ effective S h"

definition final_locked :: "services \<Rightarrow> database \<Rightarrow> bool" where
  "final_locked S db \<longleftrightarrow>
     (\<forall>s h j. (\<exists>st \<in> GetJobStatusId db ` final_statuses. last_status (session_statements S s h) (job_ID j) = Some st) \<longrightarrow>
        sv_err S h (Exec s (UpdatesJob j)) \<noteq> None)"

text \<open>What one delivery can do to the status id of a job.\<close>

definition status_move :: "database \<Rightarrow> string \<Rightarrow> string \<Rightarrow> bool" where
  "status_move db a b \<longleftrightarrow> a = b \<or>
     (\<exists>x y. a = GetJobStatusId db x \<and> b = GetJobStatusId db y \<and> job_step x y)"

lemma status_moveI:
  assumes "last_status (effective S h') i = Some a \<or>
     a = GetJobStatusId db st \<and> (\<exists>new \<in> outs. last_status (effective S h') i = Some (GetJobStatusId db new))"
    "\<And>new. new \<in> outs \<Longrightarrow> new = st \<or> job_step st new"
  shows "\<exists>b. last_status (effective S h') i = Some b \<and> status_move db a b"
  using assms unfolding status_move_def by fastforce

lemma processing_moves: "new \<in> insert JobStatus_Processing final_statuses \<Longrightarrow>
   new = JobStatus_Processing \<or> job_step JobStatus_Processing new"
  by (auto intro: finish)

lemma submitted_moves: "new \<in> request_statuses \<Longrightarrow> job_step JobStatus_Submitted new"
  by (auto simp: request_statuses_def intro: start skip)

lemma announcement_moves:
  assumes "worker_router w S db m h = (r, h')" "reads_committed S" "last_status (effective S h) i = Some a"
  shows "\<exists>b. last_status (effective S h') i = Some b \<and> status_move db a b"
proof (cases "\<exists>j ty st ri rt. m = JobNotificationMsg j ty st ri rt \<and> request_for w ty \<noteq> None")
  case True
  then obtain j ty st ri rt where m: "m = JobNotificationMsg j ty st ri rt" "request_for w ty \<noteq> None" by blast
  have run: "submit_job S db j (request_of w ty S m) h = (r, h')"
    using assms(1) worker_router_known [OF m(2)] m(1) by simp
  show ?thesis
    by (rule status_moveI [OF request.handler_step [OF run assms(2,3)]]) (use submitted_moves in blast)
next
  case False
  have "h' = h"
  proof (cases "\<exists>j ty st ri rt. m = JobNotificationMsg j ty st ri rt")
    case True
    then show ?thesis using False assms(1) worker_router_unknown by (auto simp: ret_def)
  next
    case False
    then show ?thesis using assms(1) worker_router_other [of m w S db] by (auto simp: go_panic_def)
  qed
  then show ?thesis using assms(3) by (auto simp: status_move_def)
qed

lemma delivery_moves:
  assumes "delivery S db h h'" "reads_committed S" "last_status (effective S h) i = Some a"
  shows "\<exists>b. last_status (effective S h') i = Some b \<and> status_move db a b"
  using assms(1)
proof cases
  case (announcement w m r)
  then show ?thesis using announcement_moves assms(2,3) by blast
next
  case (domain_answer TIMEOUT m H cid r)
  have run: "process_job S db cid (answer_body S m) h = (r, h')"
    using registered_answer [OF domain_answer(1,2)] domain_answer(3) by metis
  show ?thesis
    by (rule status_moveI [OF answer.handler_step [OF run assms(2,3)]]) (use processing_moves in blast)
next
  case (host_answer m H cid r)
  have run: "process_job S db cid
    ((case m of HostDeleteResponseMsg r \<Rightarrow> host_delete_body | _ \<Rightarrow> host_answer_body) S m) h = (r, h')"
    using registered_host_answer [OF host_answer(1)] host_answer(2,3) by (metis is_error_response.simps(1))
  show ?thesis
  proof (cases "\<exists>x. m = HostDeleteResponseMsg x")
    case True
    then have "process_job S db cid (host_delete_body S m) h = (r, h')" using run by auto
    from status_moveI [OF host_delete.handler_step [OF this assms(2,3)]] show ?thesis
      using processing_moves by blast
  next
    case False
    then have "process_job S db cid (host_answer_body S m) h = (r, h')" using run by (cases m) auto
    from status_moveI [OF host_answer.handler_step [OF this assms(2,3)]] show ?thesis
      using processing_moves by blast
  qed
next
  case (contact_answer m H cid r)
  have run: "process_job S db cid (contact_answer_body S m) h = (r, h')"
    using registered_contact_answer [OF contact_answer(1)] contact_answer(2,3) by (metis is_error_response.simps(1))
  show ?thesis
    by (rule status_moveI [OF contact_answer.handler_step [OF run assms(2,3)]]) (use processing_moves in blast)
qed

lemma ids_step:
  assumes "ids_distinct db" "x \<in> job_statuses" "status_move db (GetJobStatusId db x) b"
  shows "\<exists>y \<in> job_statuses. b = GetJobStatusId db y \<and> job_step\<^sup>*\<^sup>* x y"
proof -
  consider "b = GetJobStatusId db x" | x' y where "GetJobStatusId db x = GetJobStatusId db x'"
      "b = GetJobStatusId db y" "job_step x' y"
    using assms(3) unfolding status_move_def by auto
  then show ?thesis
  proof cases
    case 2
    then have "x = x'" using assms(1,2) job_step_statuses unfolding ids_distinct_def inj_on_def by metis
    then show ?thesis using 2 job_step_statuses by (intro bexI [of _ y]) auto
  qed (use assms(2) in auto)
qed

lemma deliveries_machine:
  assumes "reads_committed S" "ids_distinct db" "(delivery S db)\<^sup>*\<^sup>* h h'"
    "x \<in> job_statuses" "last_status (effective S h) i = Some (GetJobStatusId db x)"
  shows "\<exists>y \<in> job_statuses. last_status (effective S h') i = Some (GetJobStatusId db y) \<and> job_step\<^sup>*\<^sup>* x y"
  using assms(3)
proof (induction rule: rtranclp_induct)
  case base
  then show ?case using assms(4,5) by blast
next
  case (step h1 h2)
  then obtain y where y: "y \<in> job_statuses" "last_status (effective S h1) i = Some (GetJobStatusId db y)"
    "job_step\<^sup>*\<^sup>* x y" by blast
  obtain b where b: "last_status (effective S h2) i = Some b" "status_move db (GetJobStatusId db y) b"
    using delivery_moves [OF step(2) assms(1) y(2)] by blast
  obtain z where "z \<in> job_statuses" "b = GetJobStatusId db z" "job_step\<^sup>*\<^sup>* y z"
    using ids_step [OF assms(2) y(1) b(2)] by blast
  then show ?case using b(1) y(3) by (intro bexI [of _ z]) auto
qed

section \<open>Error responses\<close>

text \<open>An error response is handled on the pool: questions, and writes that give a job a final status.\<close>

fun pool_event :: "database \<Rightarrow> event \<Rightarrow> bool" where
  "pool_event db (Exec s (UpdatesJob j)) = (s = db_gorm db \<and> job_StatusID j \<in> GetJobStatusId db ` final_statuses)"
| "pool_event db (Exec s q) = (s = db_gorm db)"
| "pool_event db (BeginTx n) = False"
| "pool_event db (CommitTx s) = False"
| "pool_event db (RollbackTx s) = False"
| "pool_event db e = True"

lemma body_pool_event: "body_event db job e \<Longrightarrow> pool_event db e"
proof (cases e)
  case (Exec s q)
  then show "body_event db job e \<Longrightarrow> pool_event db e" by (cases q) auto
qed auto

lemma pool_body: "adds (body_event db job) is_job_write k m \<Longrightarrow> adds (pool_event db) (\<lambda>_. False) 0 m"
  unfolding adds_def using body_pool_event
  by (metis (mono_tags, lifting) filter_False le_zero_eq list.size(3) list_all_iff)

lemma pool_error_handlers:
  "adds (pool_event db) (\<lambda>_. False) 0 (ErrorResponseHandler S db cid m)"
  "adds (pool_event db) (\<lambda>_. False) 0 (RyTimeoutHandler S db cid m)"
proof -
  have fail: "adds (pool_event db) (\<lambda>_. False) 0 (fail_with S db job msg jrd)" for job msg jrd
    by (rule pool_body [where job = job and k = "Suc 0"]) (auto intro: adds_rules simp: final_statuses_def)
  have plan: "adds (pool_event db) (\<lambda>_. False) 0 (UpdateOrderItemPlan S db row)" for row
    unfolding row_ops by (intro adds_rules) simp_all
  show "adds (pool_event db) (\<lambda>_. False) 0 (ErrorResponseHandler S db cid m)"
    unfolding ErrorResponseHandler_def
    by (auto intro!: adds_rules fail plan split: option.split prod.split)
  show "adds (pool_event db) (\<lambda>_. False) 0 (RyTimeoutHandler S db cid m)"
    unfolding RyTimeoutHandler_def
    by (auto intro!: adds_rules pool_body [OF timeout.reconcile_writes] split: prod.split)
qed

lemma error_delivery_events:
  assumes "error_delivery S db h h'"
  obtains d where "h' = d @ h" "list_all (pool_event db) d"
proof -
  have run: thesis if "adds (pool_event db) (\<lambda>_. False) 0 f" "f h = (r, h')" for r and f :: "(hist, gerr option) go"
    using addsE [OF that(1), of h] that(2) \<open>\<And>d. h' = d @ h \<Longrightarrow> list_all (pool_event db) d \<Longrightarrow> thesis\<close> by (metis snd_conv)
  from assms show thesis
  proof cases
    case (domain_error TIMEOUT m H cid r)
    then obtain x where "m = ErrorResponseMsg x" by (cases m) auto
    then have "H = RyErrorResponseRouter TIMEOUT S db" using domain_error(1) by (simp add: RegisterHandlers_def)
    moreover have "adds (pool_event db) (\<lambda>_. False) 0 (RyErrorResponseRouter TIMEOUT S db cid m)"
      unfolding RyErrorResponseRouter_def by (intro adds_rules pool_error_handlers)
    ultimately show thesis using run domain_error(3) by blast
  next
    case (host_error m H cid r)
    then obtain x where "m = ErrorResponseMsg x" by (cases m) auto
    then have "H = ErrorResponseHandler S db" using host_error(1) by (simp add: HU_RegisterHandlers_def)
    then show thesis using run [OF pool_error_handlers(1)] host_error(3) by blast
  next
    case (contact_error m H cid r)
    then obtain x where "m = ErrorResponseMsg x" by (cases m) auto
    then have "H = ErrorResponseHandler S db" using contact_error(1) by (simp add: CU_RegisterHandlers_def)
    then show thesis using run [OF pool_error_handlers(1)] contact_error(3) by blast
  qed
qed

text \<open>On the pool every write takes effect at once, so the trigger lets at most the first one through.\<close>

lemma pool_events_machine:
  assumes "final_locked S db" "db_gorm db = Pool" "list_all (pool_event db) d" "x \<in> job_statuses"
    "last_status (effective S h) i = Some (GetJobStatusId db x)"
  shows "\<exists>y. last_status (effective S (d @ h)) i = Some (GetJobStatusId db y) \<and> (y = x \<or> abort_step x y)"
  using assms(3)
proof (induction d)
  case (Cons e d)
  then obtain y where y: "last_status (effective S (d @ h)) i = Some (GetJobStatusId db y)" "y = x \<or> abort_step x y"
    by auto
  have same: ?case if "effective S (e # d @ h) = effective S (d @ h) \<or> (\<exists>q. effective S (e # d @ h) = q # effective S (d @ h) \<and>
      last_status (q # effective S (d @ h)) i = last_status (effective S (d @ h)) i)"
    using that y by auto
  show ?case
  proof (cases "\<exists>j. e = Exec Pool (UpdatesJob j) \<and> job_ID j = i \<and> sv_err S (d @ h) e = None \<and> job_StatusID j \<noteq> []")
    case True
    then obtain j where j: "e = Exec Pool (UpdatesJob j)" "job_ID j = i" "sv_err S (d @ h) e = None" by blast
    have "y \<notin> final_statuses"
      using assms(1) j y(1) unfolding final_locked_def by (metis image_eqI session_statements.simps(1))
    then have "y = x" "x \<notin> final_statuses" using y(2) by (auto elim: abort_step.cases)
    moreover obtain z where "z \<in> final_statuses" "job_StatusID j = GetJobStatusId db z"
      using Cons.prems j(1) by auto
    ultimately show ?thesis
      using True j assms(4) by (intro exI [of _ z]) (auto intro: abort)
  next
    case False
    then show ?thesis
    proof (cases e)
      case (Exec s q)
      then have "s = Pool" using Cons.prems assms(2) by (cases q) auto
      then show ?thesis using Exec False by (intro same) (cases q; auto)
    qed (use Cons.prems same in auto)
  qed
qed (use assms(5) in auto)

lemma any_deliveries_machine:
  assumes "reads_committed S" "ids_distinct db" "final_locked S db" "db_gorm db = Pool" "(any_delivery S db)\<^sup>*\<^sup>* h h'"
    "x \<in> job_statuses" "last_status (effective S h) i = Some (GetJobStatusId db x)"
  shows "\<exists>y \<in> job_statuses. last_status (effective S h') i = Some (GetJobStatusId db y) \<and> job_or_abort\<^sup>*\<^sup>* x y"
  using assms(5)
proof (induction rule: rtranclp_induct)
  case base
  then show ?case using assms(6,7) by blast
next
  case (step h1 h2)
  then obtain y where y: "y \<in> job_statuses" "last_status (effective S h1) i = Some (GetJobStatusId db y)"
    "job_or_abort\<^sup>*\<^sup>* x y" by blast
  have steps: "job_step\<^sup>*\<^sup>* a b \<Longrightarrow> job_or_abort\<^sup>*\<^sup>* a b" for a b
    by (erule rtranclp_mono [THEN predicate2D, rotated]) (auto simp: job_or_abort_def)
  from step(2) consider "delivery S db h1 h2" | "error_delivery S db h1 h2" by (auto simp: any_delivery_def)
  then show ?case
  proof cases
    case 1
    from deliveries_machine [OF assms(1,2) r_into_rtranclp y(1,2), of h2] 1 obtain z where
      "z \<in> job_statuses" "last_status (effective S h2) i = Some (GetJobStatusId db z)" "job_step\<^sup>*\<^sup>* y z" by blast
    then show ?thesis using y(3) steps by (meson rtranclp_trans)
  next
    case 2
    obtain d where "h2 = d @ h1" "list_all (pool_event db) d" using error_delivery_events [OF 2] .
    from pool_events_machine [OF assms(3,4) this(2) y(1,2)] this(1) obtain z where
      z: "last_status (effective S h2) i = Some (GetJobStatusId db z)" "z = y \<or> abort_step y z" by auto
    then have "z \<in> job_statuses" using y(1) by (auto simp: job_statuses_def elim: abort_step.cases)
    moreover have "job_or_abort\<^sup>*\<^sup>* x z" using z(2) y(3) by (auto simp: job_or_abort_def intro: rtranclp.rtrancl_into_rtrancl)
    ultimately show ?thesis using z(1) by blast
  qed
qed

lemma final_stays_any: "job_or_abort\<^sup>*\<^sup>* x y \<Longrightarrow> x \<in> final_statuses \<Longrightarrow> y = x"
  by (induction rule: converse_rtranclp_induct)
     (auto simp: job_or_abort_def final_terminal elim: abort_step.cases)

section \<open>Properties\<close>

text \<open>
  C14. The workers and the updaters together implement the job machine. Whatever announcements and
  answers are delivered, in whatever order, however often, and however the handlers end, the status of
  a job moves only along the machine's steps. Error responses and timeouts, delivered in between, may
  end a job that is not final yet, whatever its status. A job that has reached a final status keeps it:
  announcements and answers leave it alone, and what an error response would write is refused by the
  schema's trigger.
\<close>

theorem deliveries_refine_job_machine:
  assumes "reads_committed S" "ids_distinct db" "x \<in> job_statuses"
    "last_status (effective S h) i = Some (GetJobStatusId db x)"
  shows "((delivery S db)\<^sup>*\<^sup>* h h' \<longrightarrow>
       (\<exists>y. last_status (effective S h') i = Some (GetJobStatusId db y) \<and> job_step\<^sup>*\<^sup>* x y \<and>
          (x \<in> final_statuses \<longrightarrow> y = x))) \<and>
     (final_locked S db \<and> db_gorm db = Pool \<and> (any_delivery S db)\<^sup>*\<^sup>* h h' \<longrightarrow>
       (\<exists>y. last_status (effective S h') i = Some (GetJobStatusId db y) \<and> job_or_abort\<^sup>*\<^sup>* x y \<and>
          (x \<in> final_statuses \<longrightarrow> y = x)))"
  using deliveries_machine [OF assms(1,2) _ assms(3,4)] any_deliveries_machine [OF assms(1,2) _ _ _ assms(3,4)]
    final_stays final_stays_any by meson

text \<open>A database that forgets nothing, reporting the errors it is told to report.\<close>

definition store_with :: "(event \<Rightarrow> gerr option) \<Rightarrow> Job \<Rightarrow> services" where
  "store_with err job =
     (let S = sample_services job err (Inl (ErrNew ''no reply''))
      in S\<lparr>sv_job := (\<lambda>h e. (job\<lparr>job_StatusID := (case last_status (effective S h) (job_ID job) of
                                  None \<Rightarrow> job_StatusID job | Some st \<Rightarrow> st)\<rparr>, None))\<rparr>)"

lemma store_with_reads_committed: "reads_committed (store_with err job)"
proof -
  have "effective (store_with err job) h = effective (sample_services job err (Inl (ErrNew ''no reply''))) h" for h
    by (rule effective_cong) (simp add: store_with_def Let_def)
  then show ?thesis
    unfolding reads_committed_def by (auto simp: store_with_def Let_def)
qed

abbreviation submitted_job :: Job where
  "submitted_job \<equiv> (plain_job ''provision_contact_delete'')\<lparr>job_StatusID := ''s2''\<rparr>"

abbreviation contact_deleted :: message where
  "contact_deleted \<equiv> JobNotificationMsg ''j1'' ''provision_contact_delete'' [] [] []"

abbreviation quiet_store :: services where
  "quiet_store \<equiv> store_with (\<lambda>e. None) submitted_job"

lemma sample_ids_distinct: "ids_distinct sample_db"
  by (simp add: ids_distinct_def inj_on_def job_statuses_def final_statuses_def sample_db_def GetJobStatusId_def
      sample_statuses_def GetByKey_def assoc_bimap_def)

text \<open>
  A database with the trigger: it refuses to update a job once one of its updates carried a final status.
\<close>

definition final_written :: "hist \<Rightarrow> Job \<Rightarrow> bool" where
  "final_written h j \<longleftrightarrow> list_ex (\<lambda>e. case e of
     Exec s (UpdatesJob j') \<Rightarrow> job_ID j' = job_ID j \<and> job_StatusID j' \<in> GetJobStatusId sample_db ` final_statuses
   | _ \<Rightarrow> False) h"

definition trigger_store :: "Job \<Rightarrow> services" where
  "trigger_store job =
     (let S = (sample_services job (\<lambda>e. None) (Inl (ErrNew ''no reply'')))\<lparr>sv_err := (\<lambda>h e. case e of
                Exec s (UpdatesJob j) \<Rightarrow> if final_written h j then Some (ErrNew ''cannot modify job'') else None
              | _ \<Rightarrow> None)\<rparr>
      in S\<lparr>sv_job := (\<lambda>h e. (job\<lparr>job_StatusID := (case last_status (effective S h) (job_ID job) of
                                  None \<Rightarrow> job_StatusID job | Some st \<Rightarrow> st)\<rparr>, None))\<rparr>)"

lemma trigger_store_reads_committed: "reads_committed (trigger_store job)"
proof -
  have "effective (trigger_store job) h = effective ((sample_services job (\<lambda>e. None) (Inl (ErrNew ''no reply'')))
      \<lparr>sv_err := sv_err (trigger_store job)\<rparr>) h" for h
    by (rule effective_cong) simp
  then show ?thesis
    unfolding reads_committed_def by (auto simp: trigger_store_def Let_def)
qed

lemma statements_events:
  "q \<in> set (pending S n h) \<Longrightarrow> \<exists>s. Exec s q \<in> set h"
  "q \<in> set (effective S h) \<Longrightarrow> \<exists>s. Exec s q \<in> set h"
proof (induction h arbitrary: n)
  case (Cons e h)
  { case 1 then show ?case using Cons.IH(1) by (cases "(S, n, e # h)" rule: pending.cases) (fastforce split: if_splits)+ }
  { case 2 then show ?case using Cons.IH by (cases "(S, e # h)" rule: effective.cases) (fastforce split: if_splits)+ }
qed simp_all

lemma trigger_store_locked: "final_locked (trigger_store job) sample_db"
  unfolding final_locked_def
proof (intro allI impI, elim bexE)
  fix s h st and j :: Job
  assume *: "st \<in> GetJobStatusId sample_db ` final_statuses"
    "last_status (session_statements (trigger_store job) s h) (job_ID j) = Some st"
  from last_status_from [OF *(2)] obtain j' where j': "UpdatesJob j' \<in> set (session_statements (trigger_store job) s h)"
    "job_ID j' = job_ID j" "job_StatusID j' = st" by blast
  then obtain s' where "Exec s' (UpdatesJob j') \<in> set h"
    using statements_events by (cases s) fastforce+
  then have "final_written h j" using j'(2,3) *(1) by (force simp: final_written_def list_ex_iff)
  then show "sv_err (trigger_store job) h (Exec s (UpdatesJob j)) \<noteq> None"
    by (simp add: trigger_store_def Let_def)
qed

abbreviation completed_job :: Job where
  "completed_job \<equiv> (plain_job ''provision_contact_delete'')\<lparr>job_StatusID := GetJobStatusId sample_db ''completed''\<rparr>"

abbreviation sample_error :: message where
  "sample_error \<equiv> ErrorResponseMsg \<lparr>er_Code = 1, er_Message = ''late''\<rparr>"

theorem deliveries_refine_job_machine_witness:
  "(\<exists>y. last_status (effective quiet_store
        (snd (worker_router ContactWorker quiet_store sample_db contact_deleted [Exec Pool (UpdatesJob submitted_job)]))) ''j1''
      = Some (GetJobStatusId sample_db y) \<and> job_step\<^sup>*\<^sup>* ''submitted'' y) \<and>
   last_status (effective (trigger_store completed_job)
       (snd (ErrorResponseHandler (trigger_store completed_job) sample_db ''c'' sample_error [Exec Pool (UpdatesJob completed_job)]))) ''j1''
     = Some (GetJobStatusId sample_db ''completed'')"
proof
  let ?h = "[Exec Pool (UpdatesJob submitted_job)]"
  let ?run = "worker_router ContactWorker quiet_store sample_db contact_deleted ?h"
  have "delivery quiet_store sample_db ?h (snd ?run)"
    by (rule delivery.announcement [where r = "fst ?run" and w = ContactWorker and m = contact_deleted]) simp
  moreover have "''submitted'' \<in> job_statuses" by (simp add: job_statuses_def)
  moreover have "last_status (effective quiet_store ?h) ''j1'' = Some (GetJobStatusId sample_db ''submitted'')"
    by code_simp
  ultimately show "\<exists>y. last_status (effective quiet_store (snd ?run)) ''j1'' = Some (GetJobStatusId sample_db y) \<and>
      job_step\<^sup>*\<^sup>* ''submitted'' y"
    using deliveries_refine_job_machine [OF store_with_reads_committed sample_ids_distinct, where h = ?h and h' = "snd ?run"] by blast
next
  let ?S = "trigger_store completed_job" and ?h = "[Exec Pool (UpdatesJob completed_job)]"
  let ?run = "ErrorResponseHandler ?S sample_db ''c'' sample_error ?h"
  have "error_delivery ?S sample_db ?h (snd ?run)"
    by (rule error_delivery.contact_error [where r = "fst ?run" and m = sample_error and cid = "''c''"])
       (simp_all add: CU_RegisterHandlers_def)
  then have "(any_delivery ?S sample_db)\<^sup>*\<^sup>* ?h (snd ?run)" by (auto simp: any_delivery_def)
  moreover have "''completed'' \<in> job_statuses" "''completed'' \<in> final_statuses"
    by (simp_all add: job_statuses_def final_statuses_def)
  moreover have "last_status (effective ?S ?h) ''j1'' = Some (GetJobStatusId sample_db ''completed'')" by code_simp
  moreover have "db_gorm sample_db = Pool" by (simp add: sample_db_def)
  ultimately show "last_status (effective ?S (snd ?run)) ''j1'' = Some (GetJobStatusId sample_db ''completed'')"
    using deliveries_refine_job_machine [OF trigger_store_reads_committed sample_ids_distinct, where h = ?h and h' = "snd ?run"]
      trigger_store_locked by blast
qed

text \<open>
  C15. What an announcement does. At most one message goes to the bus, and none if the job found is not
  submitted. If the worker reports success for a submitted job, the job has moved: to processing, and
  then exactly one request was sent, carrying the announced id as its correlation id, or to completed
  or failed. The one exception is a transfer action whose data names a transfer status that is none of
  the client's three actions; it leaves the job as it is.
\<close>

theorem announcement_dispatch:
  assumes "worker_router w S db (JobNotificationMsg i ty st ri rt) h = (r, h')"
  shows "\<exists>d. h' = d @ h \<and> length (sends d) \<le> 1 \<and>
     (\<forall>job h1. fetched S db i h = (Ret (job, None), h1) \<longrightarrow>
        (job_StatusID job \<noteq> GetJobStatusId db ''submitted'' \<longrightarrow> sends d = []) \<and>
        (job_StatusID job = GetJobStatusId db ''submitted'' \<and> r = Ret None \<and>
         \<not> (w = DomainWorker \<and> ty \<in> transfer_actions \<and> unknown_transfer job) \<longrightarrow>
           last_status (effective S h') (job_ID job) = Some (GetJobStatusId db ''processing'') \<and>
             (\<exists>q msg hs. sends d = [(q, msg, hs)] \<and> map_of hs ''correlation_id'' = Some i) \<or>
           (\<exists>st \<in> {''completed'', ''failed''}.
             last_status (effective S h') (job_ID job) = Some (GetJobStatusId db st))))"
proof (cases "request_for w ty = None")
  case True
  then show ?thesis using assms worker_router_unknown by (auto simp: ret_def)
next
  case False
  let ?m = "JobNotificationMsg i ty st ri rt"
  have run: "submit_job S db i (request_of w ty S ?m) h = (r, h')"
    using assms worker_router_known [OF False] by simp
  obtain d where d: "h' = d @ h" "length (sends d) \<le> 1" using request.handler_sends [OF run] by blast
  have idle: "sends d = []" if "fetched S db i h = (Ret (job, None), h1)"
    "job_StatusID job \<noteq> GetJobStatusId db JobStatus_Submitted" for job h1
    using request.handler_idle_silent [OF run that] d(1) by simp
  have moved: "last_status (effective S h') (job_ID job) = Some (GetJobStatusId db ''processing'') \<and>
             (\<exists>q msg hs. sends d = [(q, msg, hs)] \<and> map_of hs ''correlation_id'' = Some i) \<or>
           (\<exists>st \<in> {''completed'', ''failed''}.
             last_status (effective S h') (job_ID job) = Some (GetJobStatusId db st))"
    if *: "fetched S db i h = (Ret (job, None), h1)" "job_StatusID job = GetJobStatusId db JobStatus_Submitted"
      "r = Ret None" "\<not> (w = DomainWorker \<and> ty \<in> transfer_actions \<and> unknown_transfer job)" for job h1
  proof -
    have "dispatching_of w ty S ?m tx job = request_of w ty S ?m tx job" for tx
      using *(4) by (simp only: dispatching_of_def if_False)
    from with_job_cong [where body = "dispatching_of w ty S ?m" and body' = "request_of w ty S ?m", OF *(1) this]
    have "submit_job S db i (dispatching_of w ty S ?m) h = (Ret None, h')"
      using run *(3) by simp
    from dispatching.handler_dispatches [OF this *(1,2)] show ?thesis
      using d by (auto simp: length_Suc_conv le_Suc_eq)
  qed
  show ?thesis using d idle moved by (intro exI [of _ d]) blast
qed

theorem announcement_dispatch_witness:
  defines "h' \<equiv> snd (worker_router ContactWorker quiet_store sample_db contact_deleted [])"
  shows "\<exists>q msg hs. sends h' = [(q, msg, hs)] \<and> map_of hs ''correlation_id'' = Some ''j1'' \<and>
     last_status (effective quiet_store h') ''j1'' = Some (GetJobStatusId sample_db ''processing'')"
proof -
  let ?run = "worker_router ContactWorker quiet_store sample_db contact_deleted []"
  have "fst ?run = Ret None" and moved: "last_status (effective quiet_store h') ''j1'' = Some ''s3''"
    unfolding h'_def by code_simp+
  then have run: "?run = (Ret None, h')" unfolding h'_def by (metis prod.collapse)
  have job: "fetched quiet_store sample_db ''j1'' [] =
      (Ret (submitted_job, None), [Query (Tx 0) (FindJob ''id'' ''j1'' True), BeginTx 0])" by code_simp
  have ids: "GetJobStatusId sample_db ''submitted'' = ''s2''" "GetJobStatusId sample_db ''processing'' = ''s3''"
    "''s3'' \<notin> GetJobStatusId sample_db ` {''completed'', ''failed''}" by code_simp+
  from announcement_dispatch [OF run(1)] obtain d where "h' = d"
    "last_status (effective quiet_store h') ''j1'' = Some ''s3'' \<and>
       (\<exists>q msg hs. sends d = [(q, msg, hs)] \<and> map_of hs ''correlation_id'' = Some ''j1'') \<or>
     (\<exists>st \<in> {''completed'', ''failed''}. last_status (effective quiet_store h') ''j1'' = Some (GetJobStatusId sample_db st))"
    using job ids(1,2) by fastforce
  then show ?thesis using moved ids(2,3) by auto
qed

abbreviation flaky_store :: services where
  "flaky_store \<equiv> store_with (\<lambda>e. if e = CommitTx (Tx 0) then Some (ErrNew ''commit'') else None) submitted_job"

text \<open>
  Requests go out at least once, not exactly once. The request is put on the bus before the
  transaction commits. When the commit is refused, the worker reports an error, the job is still
  submitted, and the next announcement sends the same request again: two commands for one job.
\<close>

theorem announcement_duplicates:
  "reads_committed flaky_store \<and>
   (let (r1, h1) = worker_router ContactWorker flaky_store sample_db contact_deleted [];
        (r2, h2) = worker_router ContactWorker flaky_store sample_db contact_deleted h1
    in r1 = Ret (Some (ErrNew ''commit'')) \<and> effective flaky_store h1 = [] \<and> r2 = Ret None \<and>
       (\<exists>request. sends h2 = [request, request]) \<and>
       last_status (effective flaky_store h2) ''j1'' = Some (GetJobStatusId sample_db ''processing''))"
proof
  let ?run = "worker_router ContactWorker flaky_store sample_db contact_deleted"
  have "let (r1, h1) = ?run []; (r2, h2) = ?run h1
    in r1 = Ret (Some (ErrNew ''commit'')) \<and> effective flaky_store h1 = [] \<and> r2 = Ret None \<and>
       sends h2 = replicate 2 (hd (sends h1)) \<and>
       last_status (effective flaky_store h2) ''j1'' = Some (GetJobStatusId sample_db ''processing'')"
    by code_simp
  then show "let (r1, h1) = ?run []; (r2, h2) = ?run h1
    in r1 = Ret (Some (ErrNew ''commit'')) \<and> effective flaky_store h1 = [] \<and> r2 = Ret None \<and>
       (\<exists>request. sends h2 = [request, request]) \<and>
       last_status (effective flaky_store h2) ''j1'' = Some (GetJobStatusId sample_db ''processing'')"
    unfolding Let_def case_prod_beta numeral_2_eq_2 replicate.simps by blast
qed (rule store_with_reads_committed)

end
