(* ===== verification/Hosting_Spec.thy ===== *)
theory Hosting_Spec
  imports Hosting_Worker Job_Machine
begin

text \<open>
  What the hosting worker promises: its bodies keep the contract of \<open>final_body\<close> (a delivery marks the
  job and then closes it), orders are placed for known clients only, the decision tables of the
  certificate and DNS jobs, and what happens to an order whose transaction fails.
\<close>

section \<open>The bodies keep the contract\<close>

abbreviation "hosting_statuses \<equiv> insert JobStatus_Processing final_statuses"

lemma SetJobStatus_same_job:
  "ends (\<lambda>r h. job_ID (fst r) = job_ID job) (SetJobStatus S db job status jrd)"
  unfolding SetJobStatus_def set_status_def UpdateJob_def Let_def
  by (auto intro!: ends_rules split: prod.split)

lemma ends_mark_processing:
  assumes "\<And>job'. job_ID job' = job_ID job \<Longrightarrow> ends Q (rest job')" "\<And>e s. Q (Some e) s"
  shows "ends Q (mark_processing S tx job rest)"
  unfolding mark_processing_def
  by (rule ends_bnd_with [OF SetJobStatus_same_job]) (auto intro!: ends_rules assms)

lemma adds_mark_processing:
  assumes "\<And>job'. job_ID job' = job_ID job \<Longrightarrow> adds (job_event hosting_statuses tx job) is_job_write (Suc 0) (rest job')"
  shows "adds (job_event hosting_statuses tx job) is_job_write 2 (mark_processing S tx job rest)"
proof -
  have "adds (job_event hosting_statuses tx job) is_job_write (Suc 0 + Suc 0) (mark_processing S tx job rest)"
    unfolding mark_processing_def
    by (rule adds_bnd_ends [OF _ SetJobStatus_same_job]) (auto intro!: adds_rules assms)
  then show ?thesis by (simp add: numeral_2_eq_2)
qed

lemma adds_two_case_option:
  assumes "adds P W (Suc 0) m" "\<And>a. adds P W 2 (f a)"
  shows "adds P W 2 (case x of None \<Rightarrow> m | Some a \<Rightarrow> f a)"
  using assms by (auto intro: adds_mono [of P W "Suc 0" m P W 2] split: option.split)

lemma adds_UpdateProvisionHostingCreate [adds_rules]:
  "P (Exec (db_gorm tx) (UpdatesProvisionHostingCreate c u)) \<Longrightarrow> \<not> W (Exec (db_gorm tx) (UpdatesProvisionHostingCreate c u)) \<Longrightarrow>
   adds P W k (UpdateProvisionHostingCreate S tx u c)"
  unfolding UpdateProvisionHostingCreate_def by (intro adds_rules)

lemma adds_hosting_clients [adds_rules]:
  assumes "\<And>req. P (HttpCall req)" "\<And>req. \<not> W (HttpCall req)"
  shows "adds P W k (createHosting S data)" "adds P W k (request_update S udata)"
  using assms unfolding createHosting_def getOrCreateClient_def getOrCreateReseller_def request_update_def
  by (intro adds_rules; simp)+

lemma adds_hosting_bodies:
  "adds (job_event hosting_statuses tx job) is_job_write 2 (HostingProvision_body S m tx job)"
  "adds (job_event hosting_statuses tx job) is_job_write 2 (HostingUpdate_body S m tx job)"
  "adds (job_event hosting_statuses tx job) is_job_write 2 (HostingDelete_body S m tx job)"
  "adds (job_event hosting_statuses tx job) is_job_write 2 (DNSCheck_body d S m tx job)"
  unfolding HostingProvision_body_def HostingUpdate_body_def HostingDelete_body_def DNSCheck_body_def
    SetProvisionHostingUpdateDetails_def SetProvisionHostingDeleteDetails_def Let_def
  by (intro adds_bnd adds_deref adds_two_case_option adds_mark_processing; intro adds_rules; simp)+

lemma ends_unless_tolerated:
  assumes "ends Q m" "\<And>e s. Q (Some e) s"
  shows "ends Q (if (case err of None \<Rightarrow> False | Some e \<Rightarrow> \<not> errors_is e x) then ret err else m)"
  using assms by (auto simp: ends_rules split: option.splits)

lemma ends_hosting_bodies:
  fixes m
  defines "Q \<equiv> \<lambda>S tx job. \<lambda>err h. err = (None :: gerr option) \<longrightarrow> settled S tx job h"
  shows "ends (Q S tx job) (HostingProvision_body S m tx job)"
    "ends (Q S tx job) (HostingUpdate_body S m tx job)"
    "ends (Q S tx job) (HostingDelete_body S m tx job)"
    "ends (Q S tx job) (DNSCheck_body d S m tx job)"
  unfolding HostingProvision_body_def HostingUpdate_body_def HostingDelete_body_def DNSCheck_body_def Q_def
    fail_decode_def fail_with_def Let_def
  by (intro ends_unless_tolerated ends_bnd ends_case_option ends_case_prod ends_mark_processing;
      auto intro!: ends_rules)+

interpretation hosting_create: final_body JobStatus_Submitted hosting_statuses 2 HostingProvision_body
  by unfold_locales (rule adds_hosting_bodies ends_hosting_bodies)+

interpretation hosting_update: final_body JobStatus_Submitted hosting_statuses 2 HostingUpdate_body
  by unfold_locales (rule adds_hosting_bodies ends_hosting_bodies)+

interpretation hosting_delete: final_body JobStatus_Submitted hosting_statuses 2 HostingDelete_body
  by unfold_locales (rule adds_hosting_bodies ends_hosting_bodies)+

interpretation dns_check: final_body JobStatus_Submitted hosting_statuses 2 "DNSCheck_body acmeDomain" for acmeDomain
  by unfold_locales (rule adds_hosting_bodies ends_hosting_bodies)+

text \<open>Where the router sends an announcement.\<close>

lemma hosting_routes:
  fixes db jobId st ri rt
  defines "note \<equiv> \<lambda>ty. JobNotificationMsg jobId ty st ri rt"
  shows "HostingHandlerRouter a S db (JobNotificationMsg jobId ''provision_hosting_create'' st ri rt) =
      submit_job S db jobId (HostingProvision_body S (note ''provision_hosting_create''))"
    "HostingHandlerRouter a S db (JobNotificationMsg jobId ''provision_hosting_update'' st ri rt) =
      submit_job S db jobId (HostingUpdate_body S (note ''provision_hosting_update''))"
    "HostingHandlerRouter a S db (JobNotificationMsg jobId ''provision_hosting_delete'' st ri rt) =
      submit_job S db jobId (HostingDelete_body S (note ''provision_hosting_delete''))"
    "HostingHandlerRouter a S db (JobNotificationMsg jobId ''provision_hosting_dns_check'' st ri rt) =
      submit_job S db jobId (DNSCheck_body a S (note ''provision_hosting_dns_check''))"
  by (simp_all add: note_def HostingHandlerRouter_def as_Notification_def HostingProvisionHandler_def
      HostingUpdateHandler_def HostingDeleteHandler_def DNSCheckHandler_def)

section \<open>Marking a job\<close>

definition marked_job :: "database \<Rightarrow> Job \<Rightarrow> VJob \<Rightarrow> Job" where
  "marked_job tx job info =
     job\<lparr>job_StatusID := GetJobStatusId tx JobStatus_Processing,
         job_Info := Some (info\<lparr>vj_JobStatusName := Some JobStatus_Processing\<rparr>)\<rparr>"

lemma marked_job_simps [simp]:
  "job_ID (marked_job tx job info) = job_ID job" "job_ResultMessage (marked_job tx job info) = job_ResultMessage job"
  "job_Info (marked_job tx job info) = Some (info\<lparr>vj_JobStatusName := Some JobStatus_Processing\<rparr>)"
  by (simp_all add: marked_job_def)

lemma mark_processing_run:
  assumes "calm S" "statuses_known tx" "job_Info job = Some info"
  shows "mark_processing S tx job rest h =
     rest (marked_job tx job info) (Exec (db_gorm tx) (UpdatesJob (marked_job tx job info)) # h)"
  using assms
  by (simp add: mark_processing_def SetJobStatus_def set_status_def UpdateJob_def exec_or_die_def perform_def
      bnd_def ret_def calm_def statuses_known_def marked_job_def Let_def)

lemma wp_mark_processing:
  assumes "calm S" "statuses_known tx" "job_Info job = Some info"
  shows "wp (mark_processing S tx job rest) Q h =
     wp (rest (marked_job tx job info)) Q (Exec (db_gorm tx) (UpdatesJob (marked_job tx job info)) # h)"
  by (simp add: wp_iff mark_processing_run [OF assms])

lemma closes_marked [simp]: "closes tx (marked_job tx job info) st msg h h' = closes tx job st msg h h'"
  by (rule closes_same_ID) simp

section \<open>Properties\<close>


text \<open>
  A DNS check marks its job, asks once for the CNAME records of the challenge name, and completes the
  job exactly if one of them is the expected target, compared byte by byte; otherwise the job fails,
  with the resolver's message when the question failed.
\<close>

theorem dns_check_outcome:
  fixes S tx job info data h
  defines "ask \<equiv> ResolveCNAME (''_acme-challenge.'' @ dnc_DomainName data)"
    and "h0 \<equiv> Exec (db_gorm tx) (UpdatesJob (marked_job tx job info)) # h"
  assumes "calm S" "statuses_known tx" "job_Info job = Some info"
    "unmarshal dec_DNSCheckData zero_DNSCheckData (vj_Data info) = Some data"
  shows "wp (DNSCheck_body acmeDomain S m tx job) (\<lambda>r h'. r = Ret None \<and>
     (case sv_cname S h0 ask of
        Inl e \<Rightarrow> closes tx job ''failed'' (Some (err_text e)) (ask # h0) h'
      | Inr records \<Rightarrow>
          if dnc_DomainName data @ ''.'' @ acmeDomain @ ''.'' \<in> set records
          then closes tx job ''completed'' (job_ResultMessage job) (ask # h0) h'
          else \<exists>msg. closes tx job ''failed'' (Some msg) (ask # h0) h')) h"
proof -
  have data: "unmarshal dec_DNSCheckData zero_DNSCheckData
      (vj_Data (info\<lparr>vj_JobStatusName := Some JobStatus_Processing\<rparr>)) = Some data"
    using assms(6) by simp
  show ?thesis
    unfolding DNSCheck_body_def wp_mark_processing [OF assms(3-5)] marked_job_simps deref_Some bnd_ret data option.case
    unfolding wp_bnd wp_perform ask_def [symmetric] h0_def [symmetric]
    using assms(3,4) by (cases "sv_cname S h0 ask") (auto intro!: closing)
qed

text \<open>The error a call of the certificate backend ends with, given what the client and the clock report.\<close>

definition certificate_error :: "bool \<Rightarrow> http_request \<Rightarrow> http_response \<Rightarrow> gerr option" where
  "certificate_error timedOut req r =
     (if IsSuccess r then None
      else if go_contains (hr_Error r) ''domain already processed'' then Some ErrorCertificateExists
      else if timedOut then Some ErrorClientTimeout
      else Some (response_error req r))"

lemma certificate_errors [simp]:
  "ErrorCertificateExists \<noteq> ErrorClientTimeout" "ErrorClientTimeout \<noteq> ErrorCertificateExists"
  "errors_is ErrorCertificateExists e \<longleftrightarrow> e = ErrorCertificateExists"
  "errors_is ErrorClientTimeout e \<longleftrightarrow> e = ErrorClientTimeout"
  "response_error req r \<noteq> ErrorCertificateExists" "response_error req r \<noteq> ErrorClientTimeout"
  "ErrorCertificateExists \<noteq> response_error req r" "ErrorClientTimeout \<noteq> response_error req r"
  "errors_is (response_error req r) e \<longleftrightarrow> e = response_error req r"
  by (auto simp: ErrorCertificateExists_def ErrorClientTimeout_def response_error_def) (cases req; simp)+

lemma wp_createCertificate:
  fixes S data h
  defines "e \<equiv> HttpCall (PostNewcert \<lparr>cctr_Domain = hocd_DomainName data, cctr_RequestId = hocd_RequestId data\<rparr>)"
  assumes "fst (sv_http S h e) = Some r"
  shows "wp (createCertificate S data) Q h =
     Q (Ret (certificate_error (sv_ctx_done S (e # h))
          (PostNewcert \<lparr>cctr_Domain = hocd_DomainName data, cctr_RequestId = hocd_RequestId data\<rparr>) r)) (e # h)"
  using assms(2) unfolding e_def [symmetric]
  by (cases "sv_http S h e")
     (auto simp: createCertificate_def CreateCertificate_def http_def processCertificateResponse_def wp
        certificate_error_def errorSelector_def e_def)

text \<open>
  The specification of a certificate job: the status and message it is closed with and the calls made
  before that, or the error it is put off with. \<open>stored_row\<close> is the row that keeps a fetched certificate.
\<close>

definition call_error :: "bool \<Rightarrow> http_request \<Rightarrow> http_response option \<times> gerr option \<Rightarrow> gerr option" where
  "call_error timedOut req answer =
     (if snd answer = None then certificate_error timedOut req (the (fst answer))
      else if timedOut then errorSelector (snd answer) else snd answer)"

definition stored_row ::
  "database \<Rightarrow> GetCertificateResponse \<Rightarrow> gotime \<times> gotime \<Rightarrow> ProvisionHostingCertificateCreate
     \<Rightarrow> ProvisionHostingCertificateCreate" where
  "stored_row tx cert validity row =
     row\<lparr>phcc_Body := Some (gcr_Cert cert), phcc_Chain := Some (gcr_Chain cert),
         phcc_PrivateKey := Some (gcr_Privkey cert), phcc_NotBefore := Some (fst validity),
         phcc_NotAfter := Some (snd validity), phcc_StatusID := GetProvisionStatusId tx ProvisionStatus_Completed\<rparr>"

definition existing_spec ::
  "services \<Rightarrow> database \<Rightarrow> string option \<Rightarrow> HostingCertificateData \<Rightarrow> hist \<Rightarrow> string \<times> string option \<times> hist" where
  "existing_spec S tx msg data h =
     (let req = GetGetcert (hocd_DomainName data);
          h1 = HttpCall req # h;
          lookup = Query (db_gorm tx) (FirstProvisionHostingCertificate
                     (zero_ProvisionHostingCertificateCreate\<lparr>phcc_HostingID := hocd_RequestId data\<rparr>));
          cert = sv_cert_result S h (HttpCall req)
      in case call_error (sv_ctx_done S h1) req (sv_http S h (HttpCall req)) of
           Some e \<Rightarrow> (''failed'', Some (err_text e), h1)
         | None \<Rightarrow>
             (case ParseSingleCertificates S (gcr_Cert cert) of
                Inl _ \<Rightarrow> (''failed'', msg, h1)
              | Inr validity \<Rightarrow>
                  (case sv_phcc S h1 lookup of
                     (_, Some e) \<Rightarrow>
                       (''failed'', Some (err_text (if errors_is e ErrRecordNotFound then ErrNotFound else e)), lookup # h1)
                   | (row, None) \<Rightarrow>
                       (''completed'', msg, Exec (db_gorm tx)
                          (UpdatesProvisionHostingCertificate (stored_row tx cert validity (the row))) # lookup # h1))))"

definition certificate_spec ::
  "services \<Rightarrow> database \<Rightarrow> string option \<Rightarrow> HostingCertificateData \<Rightarrow> hist \<Rightarrow> gerr + string \<times> string option \<times> hist" where
  "certificate_spec S tx msg data h =
     (let req = PostNewcert \<lparr>cctr_Domain = hocd_DomainName data, cctr_RequestId = hocd_RequestId data\<rparr>;
          h1 = HttpCall req # h
      in case certificate_error (sv_ctx_done S h1) req (the (fst (sv_http S h (HttpCall req)))) of
           None \<Rightarrow> Inr (''completed_conditionally'', msg, h1)
         | Some e \<Rightarrow> if e = ErrorCertificateExists then Inr (existing_spec S tx msg data h1)
                     else if e = ErrorClientTimeout then Inl e
                     else Inr (''failed'', Some (err_text e), h1))"

text \<open>A response is there unless the client reports an error, a row unless the database does.\<close>

definition answers_given :: "services \<Rightarrow> bool" where
  "answers_given S \<longleftrightarrow>
     (\<forall>h r. fst (sv_http S h (HttpCall (PostNewcert r))) \<noteq> None) \<and>
     (\<forall>h e. snd (sv_http S h e) = None \<longrightarrow> fst (sv_http S h e) \<noteq> None) \<and>
     (\<forall>h e. snd (sv_phcc S h e) = None \<longrightarrow> fst (sv_phcc S h e) \<noteq> None)"

lemma wp_getCertificate:
  assumes "answers_given S"
  shows "wp (getCertificate S dn) Q h =
     (let req = GetGetcert dn; e = HttpCall req
      in Q (Ret (if snd (sv_http S h e) = None \<and> IsSuccess (the (fst (sv_http S h e)))
                 then Some (sv_cert_result S h e) else None,
                 call_error (sv_ctx_done S (e # h)) req (sv_http S h e))) (e # h))"
proof (cases "sv_http S h (HttpCall (GetGetcert dn))")
  case (Pair resp err)
  then have "err = None \<Longrightarrow> resp \<noteq> None" using assms by (metis answers_given_def fst_conv snd_conv)
  with Pair show ?thesis
    by (cases err) (auto simp: getCertificate_def GetCertificate_def http_def processCertificateResponse_def wp Let_def
        call_error_def certificate_error_def errorSelector_def)
qed

lemma wp_use_existing:
  assumes "calm S" "statuses_known tx" "job_Info job = Some info" "answers_given S"
  shows "wp (use_existing_certificate S tx job data ErrorCertificateExists) (\<lambda>result h'.
     result = Ret None \<and>
     (case existing_spec S tx (job_ResultMessage job) data h of (st, msg, h1) \<Rightarrow> closes tx job st msg h1 h')) h"
proof -
  let ?e = "HttpCall (GetGetcert (hocd_DomainName data))"
  let ?lookup = "Query (db_gorm tx) (FirstProvisionHostingCertificate
      (zero_ProvisionHostingCertificateCreate\<lparr>phcc_HostingID := hocd_RequestId data\<rparr>))"
  have conn: "\<not> sv_connect_error S e" for e using assms(1) by (simp add: calm_def)
  have got: "IsSuccess (the (fst (sv_http S h ?e)))" "snd (sv_http S h ?e) = None"
    if "call_error (sv_ctx_done S (?e # h)) (GetGetcert (hocd_DomainName data)) (sv_http S h ?e) = None"
    using that by (auto simp: call_error_def certificate_error_def errorSelector_def split: if_splits option.splits)
  have row: "\<exists>r. fst (sv_phcc S h1 q) = Some r" if "snd (sv_phcc S h1 q) = None" for h1 q
    using that assms(4) by (auto simp: answers_given_def)
  show ?thesis
    unfolding use_existing_certificate_def wp_bnd wp_getCertificate [OF assms(4)] existing_spec_def Let_def
      GetCertificateValidDates_def GetProvisionHostingCertififcate_def first_row_def
      UpdateProvisionHostingCertificate_def
    using assms(1-3) got row [of "?e # h" ?lookup] conn
    by (auto simp: wp stored_row_def Let_def split: option.splits sum.splits prod.splits intro!: closing)
qed

text \<open>
  C36. A certificate job. If the backend accepts the request the job waits for its notice; a timeout
  rolls the transaction back, so that the job is tried again; any other error fails the job. A
  certificate that exists already is fetched: if its validity can be read and the provision row is
  found, it is stored and the job completes, even when the row cannot be written; otherwise the job
  fails, also when fetching merely took too long, where the code means to try again.
\<close>

theorem certificate_outcome:
  fixes S tx job info h
  defines "h0 \<equiv> Exec (db_gorm tx) (UpdatesJob (marked_job tx job info)) # h"
  assumes "calm S" "statuses_known tx" "job_Info job = Some info" "answers_given S"
    "unmarshal dec_HostingCertificateData zero_HostingCertificateData (vj_Data info) = Some data"
  shows "wp (HostingCertificateProvision_body S m tx job) (\<lambda>result h'.
     case certificate_spec S tx (job_ResultMessage job) data h0 of
       Inl e \<Rightarrow> result = Ret (Some e) \<and> (\<exists>h1. h' = RollbackTx (db_gorm tx) # h1)
     | Inr (st, msg, h1) \<Rightarrow> result = Ret None \<and> closes tx job st msg h1 h') h"
proof -
  let ?req = "PostNewcert \<lparr>cctr_Domain = hocd_DomainName data, cctr_RequestId = hocd_RequestId data\<rparr>"
  have "fst (sv_http S h0 (HttpCall ?req)) \<noteq> None" using assms(5) by (simp add: answers_given_def del: not_None_eq)
  then obtain r where r: "fst (sv_http S h0 (HttpCall ?req)) = Some r" by blast
  let ?err = "certificate_error (sv_ctx_done S (HttpCall ?req # h0)) ?req r"
  have plain: "errors_is e x \<longleftrightarrow> e = x" if "?err = Some e" for e x
    using that by (auto simp: certificate_error_def split: if_splits)
  show ?thesis
    unfolding HostingCertificateProvision_body_def assms(4) deref_Some bnd_ret assms(6) option.case
      wp_mark_processing [OF assms(2-4)] h0_def [symmetric] wp_bnd wp_createCertificate [OF r]
      certificate_spec_def Let_def r option.sel
    using assms(2,3) plain
    by (cases ?err)
       (auto simp: wp Rollback_def intro!: closing wp_mono [OF wp_use_existing] assms)
qed

section \<open>Orders\<close>

text \<open>The orders placed at the backend, newest first.\<close>

fun placed :: "hist \<Rightarrow> CreateOrderRequest list" where
  "placed [] = []"
| "placed (HttpCall (PostOrders r) # h) = r # placed h"
| "placed (e # h) = placed h"

text \<open>
  The client an order may name: the one the job knows, or the first one the backend finds for the
  job's customer and email, or the one it has just created for them.
\<close>

definition backend_client :: "services \<Rightarrow> HostingData \<Rightarrow> hist \<Rightarrow> string \<Rightarrow> bool" where
  "backend_client S data h i \<longleftrightarrow>
     (let find_client = HttpCall (GetClients (hcl_Email (hod_Client data)) (hod_CustomerName data));
          create = HttpCall (PostClients (createClientRequest data))
      in (\<exists>d h0 c cs. h = d @ find_client # h0 \<and> sv_client_results S h0 find_client = c # cs \<and> i = clr_Id c) \<or>
         (\<exists>d h0. h = d @ create # h0 \<and> i = clr_Id (sv_client_result S h0 create)))"

definition known_client :: "services \<Rightarrow> HostingData \<Rightarrow> hist \<Rightarrow> string \<Rightarrow> bool" where
  "known_client S data h i \<longleftrightarrow>
     (case hcl_ExternalClientId (hod_Client data) of Some j \<Rightarrow> i = j | None \<Rightarrow> backend_client S data h i)"

lemma placed_append [simp]: "placed (d @ h) = placed d @ placed h"
  by (induction d rule: placed.induct) auto

lemma hosting_call_run:
  "wp (hosting_call S req body) (\<lambda>r h'. h' = HttpCall req # h \<and>
     (\<forall>x. r = Ret (Some x, None) \<longrightarrow> x = body h (HttpCall req))) h"
  by (auto simp: hosting_call_def http_def processHostingResponse_def wp deref_def
      split: option.splits prod.splits)

lemma lookup_first_run:
  "wp (lookup_first S req body) (\<lambda>r h'. h' = HttpCall req # h \<and>
     (\<forall>x. r = Ret (Some x, None) \<longrightarrow> (\<exists>xs. body h (HttpCall req) = x # xs))) h"
  by (auto simp: lookup_first_def http_def processHostingResponse_def wp deref_def
      split: option.splits prod.splits list.splits)

lemma reseller_run: "wp (getOrCreateReseller S data) (\<lambda>r h'. placed h' = placed h) h"
  unfolding getOrCreateReseller_def GetResellerByName_def CreateReseller_def
  by (auto simp: wp intro!: wp_mono [OF lookup_first_run] wp_mono [OF hosting_call_run] split: outcome.split)

lemma backend_client_intros:
  "sv_client_results S h (HttpCall (GetClients (hcl_Email (hod_Client data)) (hod_CustomerName data))) = c # cs \<Longrightarrow>
     backend_client S data (HttpCall (GetClients (hcl_Email (hod_Client data)) (hod_CustomerName data)) # h) (clr_Id c)"
  "backend_client S data (HttpCall (PostClients (createClientRequest data)) # h)
     (clr_Id (sv_client_result S h (HttpCall (PostClients (createClientRequest data)))))"
  unfolding backend_client_def Let_def by (rule disjI1, force) (rule disjI2, force)

lemma backend_client_step: "backend_client S data h i \<Longrightarrow> backend_client S data (e # h) i"
  unfolding backend_client_def Let_def by (metis append_Cons)

lemma client_run:
  "wp (getOrCreateClient S data) (\<lambda>r h'. placed h' = placed h \<and>
     (\<forall>c. r = Ret (Some c, None) \<longrightarrow> backend_client S data h' (clr_Id c))) h"
  unfolding getOrCreateClient_def GetClientByEmail_def CreateClient_def
  by (auto simp: wp backend_client_intros split: outcome.split
      intro!: wp_mono [OF lookup_first_run] wp_mono [OF hosting_call_run] wp_mono [OF reseller_run])

text \<open>
  C35. A create job places at most one order, and only for a client the backend knows: the client named
  by the job, or else the one found for the customer's email, or else the one created just before.
  The order carries the job's product, region and domain.
\<close>

theorem order_names_known_client:
  assumes "createHosting S data h = (r, h')"
  shows "placed h' = placed h \<or>
     (\<exists>order. placed h' = order # placed h \<and> known_client S data h' (cor_ClientId order) \<and>
        cor_ProductId order = hod_ProductId data \<and> cor_AwsRegionId order = hod_RegionId data \<and>
        domd_Name (cor_Domain order) = hod_DomainName data)"
proof -
  have "wp (createHosting S data) (\<lambda>r h'. placed h' = placed h \<or>
     (\<exists>order. placed h' = order # placed h \<and> known_client S data h' (cor_ClientId order) \<and>
        cor_ProductId order = hod_ProductId data \<and> cor_AwsRegionId order = hod_RegionId data \<and>
        domd_Name (cor_Domain order) = hod_DomainName data)) h"
    unfolding createHosting_def CreateHosting_def createOrderRequest_def
    by (cases "hcl_ExternalClientId (hod_Client data)")
       (auto simp: wp known_client_def deref_def backend_client_step split: outcome.split option.split
          intro!: wp_mono [OF client_run] wp_mono [OF hosting_call_run])
  then show ?thesis using assms by (simp add: wp_def)
qed

section \<open>Witnesses\<close>

abbreviation hosting_json :: json where
  "hosting_json \<equiv> JObj [(''domain_name'', JStr ''a.com''), (''product_id'', JStr ''p1''),
     (''client'', JObj [(''external_client_id'', JStr ''c7'')])]"

abbreviation hosting_job :: "string \<Rightarrow> json \<Rightarrow> Job" where
  "hosting_job ty data \<equiv> (sample_job ty data)\<lparr>job_StatusID := ''s2''\<rparr>"

abbreviation ready_hosting :: services where
  "ready_hosting \<equiv> plain_services ''t''\<lparr>sv_job := \<lambda>h e. (hosting_job ''t'' hosting_json, None)\<rparr>"

abbreviation announced :: "string \<Rightarrow> message" where
  "announced ty \<equiv> JobNotificationMsg ''j1'' ty [] [] []"


theorem dns_check_outcome_witness:
  "wp (DNSCheck_body ''acme'' (plain_services ''t''\<lparr>sv_cname := \<lambda>h e. Inr [''..acme.'', ''.acme.'']\<rparr>) (announced ''t'')
         sample_db (plain_job ''t'')) (\<lambda>r h'. r = Ret None \<and>
     (\<exists>h1. closes sample_db (plain_job ''t'') ''completed'' None h1 h')) []"
  using dns_check_outcome [of "plain_services ''t''\<lparr>sv_cname := \<lambda>h e. Inr [''..acme.'', ''.acme.'']\<rparr>" sample_db
      "plain_job ''t''" "sample_info ''t'' (JObj [])" zero_DNSCheckData "''acme''" "announced ''t''" "[]"]
    plain_calm [of "''t''"] sample_statuses_known
  by (auto simp: dec_DNSCheckData_def unmarshal_empty zero_DNSCheckData_def calm_def elim!: wp_mono)

theorem order_names_known_client_witness:
  "\<exists>order. placed (snd (createHosting (plain_services ''t'') zero_HostingData [])) = [order] \<and>
     known_client (plain_services ''t'') zero_HostingData (snd (createHosting (plain_services ''t'') zero_HostingData []))
       (cor_ClientId order)"
proof -
  let ?run = "createHosting (plain_services ''t'') zero_HostingData []"
  have "length (placed (snd ?run)) = 1" by code_simp
  then show ?thesis
    using order_names_known_client [of "plain_services ''t''" zero_HostingData "[]" "fst ?run" "snd ?run"] by auto
qed

abbreviation slow_fetch :: services where
  "slow_fetch \<equiv> plain_services ''t''\<lparr>sv_http := \<lambda>h e. case e of
       HttpCall (PostNewcert r) \<Rightarrow> (Some \<lparr>hr_StatusCode = 409, hr_Error = ''domain already processed''\<rparr>, None)
     | _ \<Rightarrow> (None, Some (ErrExt ''deadline exceeded'')), sv_ctx_done := \<lambda>h. True\<rparr>"

theorem certificate_outcome_witness:
  "wp (HostingCertificateProvision_body slow_fetch (announced ''t'') sample_db (plain_job ''t'')) (\<lambda>result h'.
     result = Ret None \<and> (\<exists>h1. closes sample_db (plain_job ''t'') ''failed''
        (Some ''client timed out waiting for response'') h1 h')) []"
proof -
  have "answers_given slow_fetch"
    by (auto simp: answers_given_def plain_services_def sample_services_def split: event.split http_request.split)
  moreover have "calm slow_fetch" using plain_calm [of "''t''"] by (simp add: calm_def)
  moreover have "certificate_spec slow_fetch sample_db None zero_HostingCertificateData h =
      Inr (''failed'', Some ''client timed out waiting for response'',
        [HttpCall (GetGetcert []), HttpCall (PostNewcert \<lparr>cctr_Domain = [], cctr_RequestId = []\<rparr>)] @ h)" for h
    by (simp add: certificate_spec_def existing_spec_def call_error_def certificate_error_def errorSelector_def
        zero_HostingCertificateData_def IsSuccess_def ErrorClientTimeout_def ErrorCertificateExists_def Let_def)
  ultimately show ?thesis
    using certificate_outcome [of slow_fetch sample_db "plain_job ''t''" "sample_info ''t'' (JObj [])"
        zero_HostingCertificateData "announced ''t''" "[]"] sample_statuses_known
    by (auto simp: dec_HostingCertificateData_def unmarshal_empty elim!: wp_mono)
qed

abbreviation flaky_hosting :: services where
  "flaky_hosting \<equiv> store_with (\<lambda>e. if e = CommitTx (Tx 0) then Some (ErrNew ''commit'') else None)
     (hosting_job ''provision_hosting_create'' hosting_json)"

text \<open>
  An order is placed at the backend inside the transaction that records it. When the commit is
  refused, the order stands, but the job is still submitted and nothing of the order is recorded: the
  next announcement places the same order again, and only that one is recorded.
\<close>

theorem hosting_order_twice:
  "reads_committed flaky_hosting \<and>
   (let run = HostingHandlerRouter ''acme'' flaky_hosting sample_db (announced ''provision_hosting_create'');
        (r1, h1) = run []; (r2, h2) = run h1
    in r1 = Ret (Some (ErrNew ''commit'')) \<and> effective flaky_hosting h1 = [] \<and> r2 = Ret None \<and>
       (\<exists>order. placed h2 = [order, order]) \<and>
       last_status (effective flaky_hosting h2) ''j1'' = Some (GetJobStatusId sample_db ''completed_conditionally''))"
proof
  let ?run = "HostingHandlerRouter ''acme'' flaky_hosting sample_db (announced ''provision_hosting_create'')"
  have "let (r1, h1) = ?run []; (r2, h2) = ?run h1
    in r1 = Ret (Some (ErrNew ''commit'')) \<and> effective flaky_hosting h1 = [] \<and> r2 = Ret None \<and>
       placed h2 = replicate 2 (hd (placed h1)) \<and>
       last_status (effective flaky_hosting h2) ''j1'' = Some (GetJobStatusId sample_db ''completed_conditionally'')"
    by code_simp
  then show "let run = ?run; (r1, h1) = run []; (r2, h2) = run h1
    in r1 = Ret (Some (ErrNew ''commit'')) \<and> effective flaky_hosting h1 = [] \<and> r2 = Ret None \<and>
       (\<exists>order. placed h2 = [order, order]) \<and>
       last_status (effective flaky_hosting h2) ''j1'' = Some (GetJobStatusId sample_db ''completed_conditionally'')"
    unfolding Let_def case_prod_beta numeral_2_eq_2 replicate.simps by blast
qed (rule store_with_reads_committed)

end
