(* ===== verification/Go_Text.thy ===== *)
theory Go_Text
  imports Go_Json Go_Strings
begin

text \<open>
  Text the workers take apart themselves: \<^verbatim>\<open>strings.SplitN\<close> with a one-character separator,
  \<^verbatim>\<open>strconv.Atoi\<close>, and the scanner of \<^verbatim>\<open>encoding/json\<close>, which turns text into the values of theory
  \<open>Go_Json\<close>. Text is a list of bytes. The scanner follows RFC 8259 as \<^verbatim>\<open>encoding/json\<close> does, except
  that it takes bytes above 127 as they are (Go replaces bytes that are not UTF-8) and has no limit
  on nesting (Go's is 10000).
\<close>

section \<open>Splitting and numbers\<close>

fun SplitN :: "char \<Rightarrow> nat \<Rightarrow> string \<Rightarrow> string list" where
  "SplitN sep 0 s = []"
| "SplitN sep (Suc 0) s = [s]"
| "SplitN sep (Suc (Suc n)) s =
     (if sep \<in> set s
      then takeWhile (\<lambda>c. c \<noteq> sep) s # SplitN sep (Suc n) (tl (dropWhile (\<lambda>c. c \<noteq> sep) s))
      else [s])"

definition is_digit :: "char \<Rightarrow> bool" where
  "is_digit c \<longleftrightarrow> 48 \<le> (of_char c :: nat) \<and> (of_char c :: nat) \<le> 57"

fun digits_value :: "string \<Rightarrow> int \<Rightarrow> int option" where
  "digits_value [] acc = Some acc"
| "digits_value (c # s) acc =
     (if is_digit c then digits_value s (acc * 10 + (int (of_char c) - 48)) else None)"

text \<open>\<^verbatim>\<open>strconv.Atoi\<close>: an optional sign, then decimal digits, in the range of a 64-bit integer.\<close>

definition Atoi :: "string \<Rightarrow> gerr + int" where
  "Atoi s =
     (let (neg, ds) = (case s of
                         [] \<Rightarrow> (False, [])
                       | c # r \<Rightarrow> if c = CHR ''-'' then (True, r) else if c = CHR ''+'' then (False, r) else (False, s));
          failure = (\<lambda>why. Inl (ErrNew (''strconv.Atoi: parsing '' @ quote_string s @ why)))
      in if ds = [] then failure '': invalid syntax''
         else (case digits_value ds 0 of
                 None \<Rightarrow> failure '': invalid syntax''
               | Some n \<Rightarrow>
                   (let v = (if neg then - n else n)
                    in if - (2 ^ 63) \<le> v \<and> v < 2 ^ 63 then Inr v else failure '': value out of range'')))"

section \<open>Scanning JSON\<close>

definition is_ws :: "char \<Rightarrow> bool" where
  "is_ws c \<longleftrightarrow> c \<in> {CHR '' '', CHR 0x09, CHR 0x0A, CHR 0x0D}"

definition skip_ws :: "string \<Rightarrow> string" where
  "skip_ws s = dropWhile is_ws s"

definition hex_value :: "char \<Rightarrow> nat option" where
  "hex_value c =
     (let n = of_char c :: nat in
      if 48 \<le> n \<and> n \<le> 57 then Some (n - 48)
      else if 97 \<le> n \<and> n \<le> 102 then Some (n - 87)
      else if 65 \<le> n \<and> n \<le> 70 then Some (n - 55)
      else None)"

fun hex4 :: "string \<Rightarrow> nat option" where
  "hex4 (a # b # c # d # s) =
     (case (hex_value a, hex_value b, hex_value c, hex_value d) of
        (Some a, Some b, Some c, Some d) \<Rightarrow> Some (((a * 16 + b) * 16 + c) * 16 + d)
      | _ \<Rightarrow> None)"
| "hex4 _ = None"

definition utf8 :: "nat \<Rightarrow> string" where
  "utf8 n =
     (if n < 0x80 then [char_of n]
      else if n < 0x800 then [char_of (0xC0 + n div 64), char_of (0x80 + n mod 64)]
      else if n < 0x10000
      then [char_of (0xE0 + n div 4096), char_of (0x80 + n div 64 mod 64), char_of (0x80 + n mod 64)]
      else [char_of (0xF0 + n div 262144), char_of (0x80 + n div 4096 mod 64),
            char_of (0x80 + n div 64 mod 64), char_of (0x80 + n mod 64)])"

text \<open>
  The value of the escape after a backslash and how many characters it takes: a pair of surrogates
  is one character, a lone one is replaced by U+FFFD.
\<close>

definition escape :: "string \<Rightarrow> (string \<times> nat) option" where
  "escape s =
     (case s of
        [] \<Rightarrow> None
      | c # r \<Rightarrow>
          if c \<in> {CHR 0x22, CHR 0x5C, CHR ''/''} then Some ([c], 1)
          else if c = CHR ''b'' then Some ([CHR 0x08], 1)
          else if c = CHR ''f'' then Some ([CHR 0x0C], 1)
          else if c = CHR ''n'' then Some ([CHR 0x0A], 1)
          else if c = CHR ''r'' then Some ([CHR 0x0D], 1)
          else if c = CHR ''t'' then Some ([CHR 0x09], 1)
          else if c = CHR ''u'' then
            (case hex4 r of
               None \<Rightarrow> None
             | Some n \<Rightarrow>
                 if n < 0xD800 \<or> 0xE000 \<le> n then Some (utf8 n, 5)
                 else (case (take 2 (drop 4 r) = [CHR 0x5C, CHR ''u''], hex4 (drop 6 r)) of
                         (True, Some m) \<Rightarrow>
                           if n < 0xDC00 \<and> 0xDC00 \<le> m \<and> m < 0xE000
                           then Some (utf8 (0x10000 + (n - 0xD800) * 1024 + (m - 0xDC00)), 11)
                           else Some (utf8 0xFFFD, 5)
                       | _ \<Rightarrow> Some (utf8 0xFFFD, 5)))
          else None)"

text \<open>The rest of a string after its opening quote; \<open>skip\<close> characters belong to an escape already read.\<close>

fun scan_string :: "nat \<Rightarrow> string \<Rightarrow> (string \<times> string) option" where
  "scan_string skip [] = None"
| "scan_string (Suc skip) (c # s) = scan_string skip s"
| "scan_string 0 (c # s) =
     (if c = CHR 0x22 then Some ([], s)
      else if (of_char c :: nat) < 32 then None
      else if c = CHR 0x5C then
        (case escape s of
           None \<Rightarrow> None
         | Some (v, n) \<Rightarrow> map_option (\<lambda>(t, r). (v @ t, r)) (scan_string n s))
      else map_option (\<lambda>(t, r). (c # t, r)) (scan_string 0 s))"

text \<open>The longest number at the front: integer part, fraction, exponent.\<close>

definition scan_int :: "string \<Rightarrow> (string \<times> string) option" where
  "scan_int s =
     (let (sign, r) = (case s of [] \<Rightarrow> ([], []) | c # r \<Rightarrow> if c = CHR ''-'' then ([c], r) else ([], s));
          ds = takeWhile is_digit r
      in if ds = [] \<or> (hd ds = CHR ''0'' \<and> 1 < length ds) then None
         else Some (sign @ ds, dropWhile is_digit r))"

definition scan_digits :: "string \<Rightarrow> (string \<times> string) option" where
  "scan_digits s = (if takeWhile is_digit s = [] then None else Some (takeWhile is_digit s, dropWhile is_digit s))"

definition scan_number :: "string \<Rightarrow> (json \<times> string) option" where
  "scan_number s =
     (case scan_int s of
        None \<Rightarrow> None
      | Some (i, r) \<Rightarrow>
          (case (if r \<noteq> [] \<and> hd r = CHR ''.''
                 then map_option (\<lambda>(d, r'). (hd r # d, r')) (scan_digits (tl r)) else Some ([], r)) of
             None \<Rightarrow> None
           | Some (f, r) \<Rightarrow>
               (case (if r \<noteq> [] \<and> hd r \<in> {CHR ''e'', CHR ''E''}
                      then let (sg, q) = (if tl r \<noteq> [] \<and> hd (tl r) \<in> {CHR ''+'', CHR ''-''}
                                         then ([hd r, hd (tl r)], tl (tl r)) else ([hd r], tl r))
                           in map_option (\<lambda>(d, r'). (sg @ d, r')) (scan_digits q)
                      else Some ([], r)) of
                  None \<Rightarrow> None
                | Some (e, r) \<Rightarrow>
                    if f = [] \<and> e = []
                    then map_option (\<lambda>n. (JInt (if hd i = CHR ''-'' then - n else n), r))
                           (digits_value (if hd i = CHR ''-'' then tl i else i) 0)
                    else Some (JNum (i @ f @ e), r))))"

definition literal :: "string \<Rightarrow> json \<Rightarrow> string \<Rightarrow> (json \<times> string) option" where
  "literal w v s = (if take (length w) s = w then Some (v, drop (length w) s) else None)"

text \<open>Values, elements of an array and members of an object; every call takes one unit of fuel.\<close>

fun scan_value :: "nat \<Rightarrow> string \<Rightarrow> (json \<times> string) option"
  and scan_elems :: "nat \<Rightarrow> string \<Rightarrow> (json list \<times> string) option"
  and scan_members :: "nat \<Rightarrow> string \<Rightarrow> ((string \<times> json) list \<times> string) option"
where
  "scan_value 0 s = None"
| "scan_value (Suc n) s =
     (case skip_ws s of
        [] \<Rightarrow> None
      | c # r \<Rightarrow>
          if c = CHR 0x22 then map_option (\<lambda>(t, r). (JStr t, r)) (scan_string 0 r)
          else if c = CHR ''['' then
            (let r' = skip_ws r in
             if r' \<noteq> [] \<and> hd r' = CHR '']'' then Some (JArr [], tl r')
             else map_option (\<lambda>(js, r). (JArr js, r)) (scan_elems n r))
          else if c = CHR ''{'' then
            (let r' = skip_ws r in
             if r' \<noteq> [] \<and> hd r' = CHR ''}'' then Some (JObj [], tl r')
             else map_option (\<lambda>(ms, r). (JObj ms, r)) (scan_members n r))
          else if c = CHR ''n'' then literal ''null'' JNull (c # r)
          else if c = CHR ''t'' then literal ''true'' (JBool True) (c # r)
          else if c = CHR ''f'' then literal ''false'' (JBool False) (c # r)
          else scan_number (c # r))"
| "scan_elems 0 s = None"
| "scan_elems (Suc n) s =
     (case scan_value n s of
        None \<Rightarrow> None
      | Some (j, r) \<Rightarrow>
          (case skip_ws r of
             [] \<Rightarrow> None
           | c # r \<Rightarrow>
               if c = CHR '','' then map_option (\<lambda>(js, r). (j # js, r)) (scan_elems n r)
               else if c = CHR '']'' then Some ([j], r) else None))"
| "scan_members 0 s = None"
| "scan_members (Suc n) s =
     (case skip_ws s of
        [] \<Rightarrow> None
      | c # r \<Rightarrow>
          if c \<noteq> CHR 0x22 then None
          else (case scan_string 0 r of
                  None \<Rightarrow> None
                | Some (k, r) \<Rightarrow>
                    (case skip_ws r of
                       [] \<Rightarrow> None
                     | c # r \<Rightarrow>
                         if c \<noteq> CHR '':'' then None
                         else (case scan_value n r of
                                 None \<Rightarrow> None
                               | Some (j, r) \<Rightarrow>
                                   (case skip_ws r of
                                      [] \<Rightarrow> None
                                    | c # r \<Rightarrow>
                                        if c = CHR '','' then map_option (\<lambda>(ms, r). ((k, j) # ms, r)) (scan_members n r)
                                        else if c = CHR ''}'' then Some ([(k, j)], r) else None)))))"

text \<open>The bytes handed to \<^verbatim>\<open>json.Unmarshal\<close>: one value with nothing but white space around it.\<close>

definition scan :: "string \<Rightarrow> raw" where
  "scan s =
     (case scan_value (2 * length s + 1) s of
        None \<Rightarrow> RawBad
      | Some (j, r) \<Rightarrow> if skip_ws r = [] then Raw j else RawBad)"

section \<open>Facts\<close>

lemma SplitN_sep:
  assumes "sep \<notin> set a"
  shows "SplitN sep (Suc (Suc n)) (a @ sep # b) = a # SplitN sep (Suc n) b"
proof -
  have "takeWhile (\<lambda>c. c \<noteq> sep) (a @ sep # b) = a" "dropWhile (\<lambda>c. c \<noteq> sep) (a @ sep # b) = sep # b"
    using assms by (induction a) auto
  then show ?thesis by simp
qed

lemma digits_value_append:
  "digits_value (s @ t) acc = (case digits_value s acc of None \<Rightarrow> None | Some a \<Rightarrow> digits_value t a)"
  by (induction s acc rule: digits_value.induct) auto

lemma digit_char: "d < 10 \<Longrightarrow> is_digit (char_of (48 + d :: nat)) \<and> of_char (char_of (48 + d)) = 48 + d"
  by (simp add: is_digit_def)

lemma digits_value_nat_text: "digits_value (nat_text n) acc = Some (acc * 10 ^ length (nat_text n) + int n)"
proof (induction n arbitrary: acc rule: nat_text.induct)
  case (1 n)
  show ?case
  proof (cases "n < 10")
    case True
    then show ?thesis using digit_char [of n] by (simp add: nat_text.simps [of n])
  next
    case False
    let ?q = "n div 10" and ?m = "n mod 10"
    have m: "is_digit (char_of (48 + ?m))" "of_char (char_of (48 + ?m)) = 48 + ?m"
      using digit_char [of ?m] by simp_all
    have n: "int n = int ?q * 10 + int ?m" by (metis div_mult_mod_eq of_nat_add of_nat_mult of_nat_numeral)
    have "digits_value (nat_text n) acc = digits_value [char_of (48 + ?m)] (acc * 10 ^ length (nat_text ?q) + int ?q)"
      using False by (simp only: nat_text.simps [of n] digits_value_append 1 [OF False] if_False option.case)
    also have "\<dots> = Some (acc * 10 ^ (length (nat_text ?q) + 1) + int n)"
      by (simp add: m n distrib_right)
    also have "length (nat_text ?q) + 1 = length (nat_text n)"
      using False by (simp add: nat_text.simps [of n])
    finally show ?thesis .
  qed
qed

lemma nat_text_not_Nil: "nat_text n \<noteq> []"
  by (simp add: nat_text.simps [of n])

lemma nat_text_digits: "c \<in> set (nat_text n) \<Longrightarrow> is_digit c"
proof (induction n rule: nat_text.induct)
  case (1 n)
  then show ?case
    using digit_char [of n] digit_char [of "n mod 10"] by (cases "n < 10") (auto simp: nat_text.simps [of n])
qed

lemma is_digit_sep: "is_digit c \<Longrightarrow> c \<noteq> CHR '':'' \<and> c \<noteq> CHR ''-'' \<and> c \<noteq> CHR ''+''"
  by (auto simp: is_digit_def)

text \<open>A printed number is read back.\<close>

lemma Atoi_nat_text:
  assumes "n < 2 ^ 63"
  shows "Atoi (nat_text n) = Inr (int n)"
proof -
  obtain c r where c: "nat_text n = c # r" using nat_text_not_Nil by (meson neq_Nil_conv)
  have "int n < 2 ^ 63" using assms by (metis of_nat_less_iff of_nat_numeral of_nat_power)
  then show ?thesis
    using is_digit_sep [OF nat_text_digits [of c n]] digits_value_nat_text [of n 0] c
    by (simp add: Atoi_def Let_def)
qed

end
