(* ===== verification/Sqs_Consumer.thy ===== *)
theory Sqs_Consumer
  imports Go_Text Services "HOL-Library.Multiset"
begin

text \<open>
  \<^verbatim>\<open>pkg/sqs\<close>: the options of the SQS client and the consumer. The consumer is a set of goroutines: one
  loop (\<^verbatim>\<open>Consume\<close>) puts the messages it receives into a channel; \<^verbatim>\<open>NumReceivers\<close> receivers take from
  that channel and from a second one, in which they put the messages they have decoded, and call the
  registered handler. A global map remembers the receipt handle of a message until it is
  acknowledged, which deletes the message from the queue. The goroutines are a step relation: a
  channel operation, a map operation or a call of a handler is one step. The context the consumer was
  made with may be cancelled at any time, by the environment; \<^verbatim>\<open>main\<close> passes one that never is.
\<close>

section \<open>Options\<close>

definition DefaultNumReceivers :: int where
  "DefaultNumReceivers = 25"

definition BufferSize :: nat where
  "BufferSize = 100"

record AWSRole =
  role_Arn :: string
  role_SessionName :: string

definition zero_AWSRole :: AWSRole where
  "zero_AWSRole = \<lparr>role_Arn = [], role_SessionName = []\<rparr>"

definition dec_AWSRole :: "AWSRole decoder" where
  "dec_AWSRole = dec_struct
     [(''arn'', fld role_Arn role_Arn_update dec_string),
      (''session_name'', fld role_SessionName role_SessionName_update dec_string)]"

record SqsOptions =
  so_QueueName :: string
  so_QueueAccountId :: string
  so_SSOProfileName :: string
  so_EnableDebugMode :: bool
  so_AccessKeyId :: string
  so_SecretAccessKey :: string
  so_SessionToken :: string
  so_Region :: string
  so_Roles :: "AWSRole list option"
  so_NumReceivers :: int

text \<open>The builder: the options and the errors collected so far.\<close>

type_synonym SqsOptionsBuilder = "SqsOptions \<times> gerr list"

definition NewOptionsBuilder :: SqsOptionsBuilder where
  "NewOptionsBuilder =
     (\<lparr>so_QueueName = [], so_QueueAccountId = [], so_SSOProfileName = [], so_EnableDebugMode = False,
       so_AccessKeyId = [], so_SecretAccessKey = [], so_SessionToken = [], so_Region = [],
       so_Roles = None, so_NumReceivers = 0\<rparr>, [])"

fun Sqs_WithQueueName :: "string \<Rightarrow> SqsOptionsBuilder \<Rightarrow> SqsOptionsBuilder" where
  "Sqs_WithQueueName v (opts, errs) =
     (opts\<lparr>so_QueueName := v\<rparr>, errs @ (if v = [] then [ErrNew ''queueName must be provided''] else []))"

fun WithQueueAccountId :: "string \<Rightarrow> SqsOptionsBuilder \<Rightarrow> SqsOptionsBuilder" where
  "WithQueueAccountId v (opts, errs) = (opts\<lparr>so_QueueAccountId := v\<rparr>, errs)"

fun WithSSOProfileName :: "string \<Rightarrow> SqsOptionsBuilder \<Rightarrow> SqsOptionsBuilder" where
  "WithSSOProfileName v (opts, errs) = (opts\<lparr>so_SSOProfileName := v\<rparr>, errs)"

fun WithAccessKeyId :: "string \<Rightarrow> SqsOptionsBuilder \<Rightarrow> SqsOptionsBuilder" where
  "WithAccessKeyId v (opts, errs) = (opts\<lparr>so_AccessKeyId := v\<rparr>, errs)"

fun WithSecretAccessKey :: "string \<Rightarrow> SqsOptionsBuilder \<Rightarrow> SqsOptionsBuilder" where
  "WithSecretAccessKey v (opts, errs) = (opts\<lparr>so_SecretAccessKey := v\<rparr>, errs)"

fun WithSessionToken :: "string \<Rightarrow> SqsOptionsBuilder \<Rightarrow> SqsOptionsBuilder" where
  "WithSessionToken v (opts, errs) = (opts\<lparr>so_SessionToken := v\<rparr>, errs)"

fun WithRegion :: "string \<Rightarrow> SqsOptionsBuilder \<Rightarrow> SqsOptionsBuilder" where
  "WithRegion v (opts, errs) = (opts\<lparr>so_Region := v\<rparr>, errs)"

text \<open>A failed decoding may leave roles behind, but \<^verbatim>\<open>Build\<close> then refuses the options.\<close>

fun WithRoles :: "services \<Rightarrow> string \<Rightarrow> SqsOptionsBuilder \<Rightarrow> SqsOptionsBuilder" where
  "WithRoles S roles (opts, errs) =
     (if roles = [] then (opts, errs)
      else (case unmarshal (dec_slice zero_AWSRole dec_AWSRole) (so_Roles opts) (scan roles) of
              None \<Rightarrow> (opts, errs @ [ErrNew (''error parsing AWS roles: '' @ sv_json_text S ''[]AWSRole'' (scan roles))])
            | Some rs \<Rightarrow> (opts\<lparr>so_Roles := rs\<rparr>, errs)))"

fun WithDebugModeEnabled :: "bool \<Rightarrow> SqsOptionsBuilder \<Rightarrow> SqsOptionsBuilder" where
  "WithDebugModeEnabled v (opts, errs) = (opts\<lparr>so_EnableDebugMode := v\<rparr>, errs)"

fun WithNumReceivers :: "int \<Rightarrow> SqsOptionsBuilder \<Rightarrow> SqsOptionsBuilder" where
  "WithNumReceivers num (opts, errs) =
     (opts\<lparr>so_NumReceivers := num\<rparr>,
      errs @ (if num \<le> 0 then [ErrNew ''num must be positive non-zero value''] else []))"

fun join_lines :: "string list \<Rightarrow> string" where
  "join_lines [] = []"
| "join_lines [x] = x"
| "join_lines (x # xs) = x @ [CHR 0x0A] @ join_lines xs"

fun Sqs_Build :: "SqsOptionsBuilder \<Rightarrow> gerr + SqsOptions" where
  "Sqs_Build (opts, errs) =
     (if errs \<noteq> []
      then Inl (ErrNew (''validation errors:'' @ [CHR 0x0A] @ join_lines (map err_text errs)))
      else Inr (if so_NumReceivers opts = 0 then opts\<lparr>so_NumReceivers := DefaultNumReceivers\<rparr> else opts))"

text \<open>The credentials \<^verbatim>\<open>LoadConfiguration\<close> picks: a profile, else static keys, else the default chain.\<close>

datatype aws_credentials =
    SharedProfile string
  | StaticCredentials string string "string option"
  | DefaultChain

definition credentials_for :: "SqsOptions \<Rightarrow> aws_credentials" where
  "credentials_for opts =
     (if so_SSOProfileName opts \<noteq> [] then SharedProfile (so_SSOProfileName opts)
      else if so_AccessKeyId opts \<noteq> [] \<and> so_SecretAccessKey opts \<noteq> []
      then StaticCredentials (so_AccessKeyId opts) (so_SecretAccessKey opts)
             (if so_SessionToken opts \<noteq> [] then Some (so_SessionToken opts) else None)
      else DefaultChain)"

section \<open>Messages\<close>

text \<open>A message of the queue (its \<^verbatim>\<open>body\<close> attribute may be missing), and the wire message made of it.\<close>

record sqs_message =
  sm_MessageId :: string
  sm_ReceiptHandle :: string
  sm_body :: "string option"

record TcWire =
  tw_Id :: string
  tw_MessageType :: string
  tw_Payload :: OrderDetailsResponse

text \<open>
  Decoding protobuf and packing the wire message is code outside the repository: \<open>cx_order\<close> reads the
  bytes, \<open>cx_wire\<close> gives the type name of a packed message or an error, \<open>cx_unwire\<close> unpacks it.
  \<open>cx_handlers\<close> are the registered message types.
\<close>

record consumer_ctx =
  cx_order :: "string \<Rightarrow> gerr + OrderDetailsResponse"
  cx_wire :: "OrderDetailsResponse \<Rightarrow> gerr + string"
  cx_unwire :: "TcWire \<Rightarrow> gerr + OrderDetailsResponse"
  cx_handlers :: "string list"

definition Sqs_Register :: "string \<Rightarrow> consumer_ctx \<Rightarrow> consumer_ctx" where
  "Sqs_Register msgType C = C\<lparr>cx_handlers := List.insert msgType (cx_handlers C)\<rparr>"

definition decode :: "consumer_ctx \<Rightarrow> sqs_message \<Rightarrow> TcWire option" where
  "decode C m =
     (case sm_body m of
        None \<Rightarrow> None
      | Some payload \<Rightarrow>
          (case cx_order C payload of
             Inl e \<Rightarrow> None
           | Inr msg \<Rightarrow>
               (case cx_wire C msg of
                  Inl e \<Rightarrow> None
                | Inr ty \<Rightarrow> Some \<lparr>tw_Id = sm_MessageId m, tw_MessageType = ty, tw_Payload = msg\<rparr>)))"

text \<open>What \<^verbatim>\<open>handle\<close> calls its handler with, if it gets that far.\<close>

definition handler_argument :: "consumer_ctx \<Rightarrow> TcWire \<Rightarrow> OrderDetailsResponse option" where
  "handler_argument C w =
     (if tw_MessageType w \<notin> set (cx_handlers C) then None
      else (case cx_unwire C w of Inl e \<Rightarrow> None | Inr msg \<Rightarrow> Some msg))"

section \<open>Goroutines\<close>

text \<open>
  A receiver waits in its \<^verbatim>\<open>select\<close>, waits to put a decoded message into the channel, is in a call of a
  handler, is deleting an acknowledged message, or has returned. \<open>k_main\<close> is what the loop has received
  and not yet put into the channel; \<open>k_returned\<close>: the loop has returned; \<open>k_cancelled\<close>: the context is
  done; \<open>k_dead\<close>: the process has died. The log, newest first, records what the goroutines did.
\<close>

datatype receiver = Idle | Forwarding TcWire | Handling TcWire | Deleting string string | Stopped

datatype consumer_event =
    Polled "sqs_message list"
  | Received string string
  | Ignored TcWire
  | Called TcWire OrderDetailsResponse
  | Succeeded string
  | Failed string
  | Deleted string string

record consumer =
  k_main :: "sqs_message list"
  k_sqs :: "sqs_message list"
  k_wire :: "TcWire list"
  k_ack :: "string \<rightharpoonup> string"
  k_receivers :: "receiver list"
  k_cancelled :: bool
  k_returned :: bool
  k_dead :: bool
  k_log :: "consumer_event list"

definition consumer_start :: "nat \<Rightarrow> consumer" where
  "consumer_start n =
     \<lparr>k_main = [], k_sqs = [], k_wire = [], k_ack = Map.empty, k_receivers = replicate n Idle,
      k_cancelled = False, k_returned = False, k_dead = False, k_log = []\<rparr>"

text \<open>
  After each receive the loop looks at the context and returns if it is done; otherwise an error or an
  empty answer makes it receive again (\<open>receive\<close> with no message). A \<^verbatim>\<open>select\<close> with several cases ready
  takes any of them, so a receiver may go on for a while after the context is done (\<open>stop\<close>). The
  deferred function that is to recover from a panic of a handler dereferences the error of the
  decoding, which is nil there: it panics itself and the process dies.
\<close>

inductive consumer_step :: "consumer_ctx \<Rightarrow> consumer \<Rightarrow> consumer \<Rightarrow> bool" for C where
  receive: "\<lbrakk>\<not> k_dead k; \<not> k_returned k; k_main k = []; \<not> k_cancelled k; length ms \<le> 10\<rbrakk> \<Longrightarrow>
     consumer_step C k (k\<lparr>k_main := ms, k_log := Polled ms # k_log k\<rparr>)"
| returns: "\<lbrakk>\<not> k_dead k; \<not> k_returned k; k_main k = []; k_cancelled k\<rbrakk> \<Longrightarrow>
     consumer_step C k (k\<lparr>k_returned := True\<rparr>)"
| push: "\<lbrakk>\<not> k_dead k; k_main k = m # ms; length (k_sqs k) < BufferSize\<rbrakk> \<Longrightarrow>
     consumer_step C k (k\<lparr>k_main := ms, k_sqs := k_sqs k @ [m]\<rparr>)"
| stop: "\<lbrakk>\<not> k_dead k; i < length (k_receivers k); k_receivers k ! i = Idle; k_cancelled k\<rbrakk> \<Longrightarrow>
     consumer_step C k (k\<lparr>k_receivers := (k_receivers k)[i := Stopped]\<rparr>)"
| undecodable: "\<lbrakk>\<not> k_dead k; i < length (k_receivers k); k_receivers k ! i = Idle; k_sqs k = m # q; decode C m = None\<rbrakk> \<Longrightarrow>
     consumer_step C k (k\<lparr>k_sqs := q\<rparr>)"
| decoded: "\<lbrakk>\<not> k_dead k; i < length (k_receivers k); k_receivers k ! i = Idle; k_sqs k = m # q; decode C m = Some w\<rbrakk> \<Longrightarrow>
     consumer_step C k (k\<lparr>k_sqs := q, k_ack := (k_ack k)(tw_Id w \<mapsto> sm_ReceiptHandle m),
       k_receivers := (k_receivers k)[i := Forwarding w],
       k_log := Received (tw_Id w) (sm_ReceiptHandle m) # k_log k\<rparr>)"
| forward: "\<lbrakk>\<not> k_dead k; i < length (k_receivers k); k_receivers k ! i = Forwarding w; length (k_wire k) < BufferSize\<rbrakk> \<Longrightarrow>
     consumer_step C k (k\<lparr>k_wire := k_wire k @ [w], k_receivers := (k_receivers k)[i := Idle]\<rparr>)"
| ignored: "\<lbrakk>\<not> k_dead k; i < length (k_receivers k); k_receivers k ! i = Idle; k_wire k = w # q;
     handler_argument C w = None\<rbrakk> \<Longrightarrow> consumer_step C k (k\<lparr>k_wire := q, k_log := Ignored w # k_log k\<rparr>)"
| call: "\<lbrakk>\<not> k_dead k; i < length (k_receivers k); k_receivers k ! i = Idle; k_wire k = w # q;
     handler_argument C w = Some msg\<rbrakk> \<Longrightarrow>
     consumer_step C k (k\<lparr>k_wire := q, k_receivers := (k_receivers k)[i := Handling w], k_log := Called w msg # k_log k\<rparr>)"
| fail: "\<lbrakk>\<not> k_dead k; i < length (k_receivers k); k_receivers k ! i = Handling w\<rbrakk> \<Longrightarrow>
     consumer_step C k (k\<lparr>k_receivers := (k_receivers k)[i := Idle], k_log := Failed (tw_Id w) # k_log k\<rparr>)"
| panic: "\<lbrakk>\<not> k_dead k; i < length (k_receivers k); k_receivers k ! i = Handling w\<rbrakk> \<Longrightarrow>
     consumer_step C k (k\<lparr>k_dead := True\<rparr>)"
| acknowledge: "\<lbrakk>\<not> k_dead k; i < length (k_receivers k); k_receivers k ! i = Handling w; k_ack k (tw_Id w) = Some handle\<rbrakk> \<Longrightarrow>
     consumer_step C k (k\<lparr>k_receivers := (k_receivers k)[i := Deleting (tw_Id w) handle],
       k_log := Succeeded (tw_Id w) # k_log k\<rparr>)"
| unknown: "\<lbrakk>\<not> k_dead k; i < length (k_receivers k); k_receivers k ! i = Handling w; k_ack k (tw_Id w) = None\<rbrakk> \<Longrightarrow>
     consumer_step C k (k\<lparr>k_receivers := (k_receivers k)[i := Idle], k_log := Succeeded (tw_Id w) # k_log k\<rparr>)"
| delete: "\<lbrakk>\<not> k_dead k; i < length (k_receivers k); k_receivers k ! i = Deleting mid handle\<rbrakk> \<Longrightarrow>
     consumer_step C k (k\<lparr>k_receivers := (k_receivers k)[i := Idle], k_ack := (k_ack k)(mid := None),
       k_log := Deleted mid handle # k_log k\<rparr>)"

inductive_cases consumer_stepE: "consumer_step C k k'"

inductive consumer_reachable :: "consumer_ctx \<Rightarrow> nat \<Rightarrow> consumer \<Rightarrow> bool" for C n where
  start: "consumer_reachable C n (consumer_start n)"
| step: "consumer_reachable C n k \<Longrightarrow> consumer_step C k k' \<Longrightarrow> consumer_reachable C n k'"
| cancelled: "consumer_reachable C n k \<Longrightarrow> consumer_reachable C n (k\<lparr>k_cancelled := True\<rparr>)"

section \<open>Invariants\<close>

text \<open>
  Where a message can be: what the log says was polled, called and ignored, and what the receivers
  hold. \<open>decodable\<close> are the wire messages of those of some messages that decode.
\<close>

fun polled :: "consumer_event list \<Rightarrow> sqs_message list" where
  "polled [] = []"
| "polled (Polled ms # es) = polled es @ ms"
| "polled (e # es) = polled es"

definition decodable :: "consumer_ctx \<Rightarrow> sqs_message list \<Rightarrow> TcWire multiset" where
  "decodable C ms = mset (List.map_filter (decode C) ms)"

definition called :: "consumer_event list \<Rightarrow> TcWire multiset" where
  "called es = mset (List.map_filter (\<lambda>e. case e of Called w msg \<Rightarrow> Some w | _ \<Rightarrow> None) es)"

definition ignored :: "consumer_event list \<Rightarrow> TcWire multiset" where
  "ignored es = mset (List.map_filter (\<lambda>e. case e of Ignored w \<Rightarrow> Some w | _ \<Rightarrow> None) es)"

definition forwarding :: "receiver list \<Rightarrow> TcWire multiset" where
  "forwarding rs = mset (List.map_filter (\<lambda>r. case r of Forwarding w \<Rightarrow> Some w | _ \<Rightarrow> None) rs)"

text \<open>The calls by the id of their message: those made, those over, those going on.\<close>

definition outcomes :: "consumer_event list \<Rightarrow> string multiset" where
  "outcomes es =
     mset (List.map_filter (\<lambda>e. case e of Succeeded i \<Rightarrow> Some i | Failed i \<Rightarrow> Some i | _ \<Rightarrow> None) es)"

definition handling :: "receiver list \<Rightarrow> string multiset" where
  "handling rs = mset (List.map_filter (\<lambda>r. case r of Handling w \<Rightarrow> Some (tw_Id w) | _ \<Rightarrow> None) rs)"

lemma decodable_simps [simp]:
  "decodable C [] = {#}"
  "decodable C (m # ms) = (case decode C m of None \<Rightarrow> {#} | Some w \<Rightarrow> {#w#}) + decodable C ms"
  "decodable C (ms @ ms') = decodable C ms + decodable C ms'"
  by (auto simp: decodable_def List.map_filter_def split: option.split)

lemmas log_counts = called_def ignored_def outcomes_def List.map_filter_def

lemma in_called: "w \<in># called es \<longleftrightarrow> (\<exists>msg. Called w msg \<in> set es)"
  and in_ignored: "w \<in># ignored es \<longleftrightarrow> Ignored w \<in> set es"
proof (induction es)
  case (Cons e es)
  { case 1 then show ?case using Cons by (cases e) (auto simp: log_counts) }
  { case 2 then show ?case using Cons by (cases e) (auto simp: log_counts) }
qed (simp_all add: log_counts)

text \<open>A receiver that changes from \<open>r\<close> to \<open>r'\<close> gives up what it held and takes what it holds now.\<close>

lemma map_filter_update:
  assumes "i < length rs"
  shows "mset (List.map_filter f (rs[i := r])) + (case f (rs ! i) of None \<Rightarrow> {#} | Some w \<Rightarrow> {#w#}) =
     mset (List.map_filter f rs) + (case f r of None \<Rightarrow> {#} | Some w \<Rightarrow> {#w#})"
  using assms
proof (induction rs arbitrary: i)
  case (Cons x xs)
  then show ?case
    by (cases i) (fastforce simp: List.map_filter_def split: option.splits)+
qed simp

lemma receiver_update:
  assumes "i < length rs" "rs ! i = r"
  shows "forwarding (rs[i := r']) + forwarding [r] = forwarding rs + forwarding [r']"
    and "handling (rs[i := r']) + handling [r] = handling rs + handling [r']"
proof -
  have one: "mset (List.map_filter f [x]) = (case f x of None \<Rightarrow> {#} | Some w \<Rightarrow> {#w#})" for f and x :: receiver
    by (auto simp: List.map_filter_def split: option.split)
  show "forwarding (rs[i := r']) + forwarding [r] = forwarding rs + forwarding [r']"
    and "handling (rs[i := r']) + handling [r] = handling rs + handling [r']"
    using map_filter_update [OF assms(1)] by (simp_all only: forwarding_def handling_def one assms(2))
qed

lemma receiver_counts [simp]:
  "forwarding [Idle] = {#}" "forwarding [Forwarding w] = {#w#}" "forwarding [Handling w] = {#}"
  "forwarding [Deleting i h] = {#}" "forwarding [Stopped] = {#}"
  "handling [Idle] = {#}" "handling [Forwarding w] = {#}" "handling [Handling w] = {#tw_Id w#}"
  "handling [Deleting i h] = {#}" "handling [Stopped] = {#}"
  by (simp_all add: forwarding_def handling_def List.map_filter_def)

text \<open>
  The flow of the messages: what has been polled and decodes waits before the decoding, in a receiver
  or in the second channel, or it has been handed to its handler, or ignored; a call that has been made
  is over or going on.
\<close>

definition conserved :: "consumer_ctx \<Rightarrow> consumer \<Rightarrow> bool" where
  "conserved C k \<longleftrightarrow>
     decodable C (polled (k_log k)) =
       decodable C (k_main k @ k_sqs k) + forwarding (k_receivers k) + mset (k_wire k) +
         called (k_log k) + ignored (k_log k) \<and>
     image_mset tw_Id (called (k_log k)) = outcomes (k_log k) + handling (k_receivers k) \<and>
     (\<forall>w msg. Called w msg \<in> set (k_log k) \<longrightarrow> handler_argument C w = Some msg) \<and>
     (\<forall>w. Ignored w \<in> set (k_log k) \<longrightarrow> handler_argument C w = None)"

lemma conserved_step: "consumer_step C k k' \<Longrightarrow> conserved C k \<Longrightarrow> conserved C k'"
proof (induction rule: consumer_step.induct)
  case (stop k i)
  from receiver_update [OF stop(2,3), of Stopped] stop show ?case
    by (simp add: conserved_def)
next
  case (decoded k i m q w)
  from receiver_update [OF decoded(2,3), of "Forwarding w"] decoded show ?case
    by (simp add: conserved_def log_counts)
next
  case (forward k i w)
  from receiver_update [OF forward(2,3), of Idle] forward show ?case
    by (simp add: conserved_def)
next
  case (call k i w q msg)
  from receiver_update [OF call(2,3), of "Handling w"] call show ?case
    by (auto simp add: conserved_def log_counts)
next
  case (fail k i w)
  from receiver_update [OF fail(2,3), of Idle] fail show ?case
    by (auto simp add: conserved_def log_counts)
next
  case (acknowledge k i w handle)
  from receiver_update [OF acknowledge(2,3), of "Deleting (tw_Id w) handle"] acknowledge show ?case
    by (auto simp add: conserved_def log_counts)
next
  case (unknown k i w)
  from receiver_update [OF unknown(2,3), of Idle] unknown show ?case
    by (auto simp add: conserved_def log_counts)
next
  case (delete k i mid handle)
  from receiver_update [OF delete(2,3), of Idle] delete show ?case
    by (auto simp add: conserved_def log_counts)
qed (auto simp: conserved_def log_counts)

text \<open>Handles come from received messages, and a deletion follows a successful call.\<close>

definition acked_ok :: "consumer \<Rightarrow> bool" where
  "acked_ok k \<longleftrightarrow>
     (\<forall>i h. k_ack k i = Some h \<longrightarrow> Received i h \<in> set (k_log k)) \<and>
     (\<forall>i h. Deleting i h \<in> set (k_receivers k) \<longrightarrow> Received i h \<in> set (k_log k) \<and> Succeeded i \<in> set (k_log k)) \<and>
     (\<forall>pre i h post. k_log k = pre @ Deleted i h # post \<longrightarrow>
        Received i h \<in> set post \<and> Succeeded i \<in> set post)"

lemma Deleted_Cons:
  "(\<forall>pre i h post. e # es = pre @ Deleted i h # post \<longrightarrow> P i h post) \<longleftrightarrow>
   (\<forall>i h. e = Deleted i h \<longrightarrow> P i h es) \<and> (\<forall>pre i h post. es = pre @ Deleted i h # post \<longrightarrow> P i h post)"
  by (auto simp: Cons_eq_append_conv)

lemma set_receivers_update:
  "Deleting i h \<in> set (rs[j := r]) \<Longrightarrow> Deleting i h = r \<or> Deleting i h \<in> set rs"
  using set_update_subset_insert [of rs j r] by auto

lemma acked_ok_step: "consumer_step C k k' \<Longrightarrow> acked_ok k \<Longrightarrow> acked_ok k'"
proof (induction rule: consumer_step.induct)
  case (delete k i mid handle)
  then have "Deleting mid handle \<in> set (k_receivers k)" by (metis nth_mem)
  with delete show ?case
    by (auto simp: acked_ok_def Deleted_Cons dest!: set_receivers_update split: if_splits)
next
  case (acknowledge k i w handle)
  then show ?case
    by (auto simp: acked_ok_def Deleted_Cons dest!: set_receivers_update)
qed (auto simp: acked_ok_def Deleted_Cons dest!: set_receivers_update split: if_splits)

lemma reachable_invariants: "consumer_reachable C n k \<Longrightarrow> conserved C k \<and> acked_ok k"
proof (induction rule: consumer_reachable.induct)
  case start
  have "forwarding (replicate n Idle) = {#}" "handling (replicate n Idle) = {#}"
    by (simp_all add: forwarding_def handling_def List.map_filter_def)
  then show ?case by (auto simp: consumer_start_def conserved_def acked_ok_def log_counts)
next
  case (step k k')
  then show ?case using conserved_step acked_ok_step by blast
next
  case (cancelled k)
  then show ?case by (simp add: conserved_def acked_ok_def)
qed

section \<open>A deadlock\<close>

text \<open>A live state with nothing on its way to the channels, \<open>a\<close> messages decoded, \<open>j\<close> receivers waiting to forward.\<close>

definition jam :: "TcWire \<Rightarrow> nat \<Rightarrow> nat \<Rightarrow> nat \<Rightarrow> nat \<Rightarrow> consumer \<Rightarrow> bool" where
  "jam w n a j b k \<longleftrightarrow>
     \<not> k_dead k \<and> \<not> k_returned k \<and> \<not> k_cancelled k \<and> k_main k = [] \<and> length (k_sqs k) = b \<and> length (k_wire k) = a \<and>
     k_receivers k = replicate j (Forwarding w) @ replicate (n - j) Idle"

abbreviation pushed :: "sqs_message \<Rightarrow> consumer \<Rightarrow> consumer" where
  "pushed m k \<equiv> k\<lparr>k_sqs := k_sqs k @ [m], k_log := Polled [m] # k_log k\<rparr>"

lemma push_one:
  assumes "consumer_reachable C n k" "jam w n a j b k" "b < BufferSize"
  shows "consumer_reachable C n (pushed m k)"
proof -
  have "consumer_reachable C n (k\<lparr>k_main := [m], k_log := Polled [m] # k_log k\<rparr>)"
    using assms by (intro consumer_reachable.step [OF assms(1)] consumer_step.receive) (simp_all add: jam_def)
  from consumer_reachable.step [OF this consumer_step.push [of _ m "[]"]] assms
  show ?thesis by (cases k) (simp add: jam_def)
qed

lemma jam_receiver:
  assumes "decode C m = Some w" "consumer_reachable C n k" "jam w n a j 0 k" "j < n"
  shows "\<exists>k'. consumer_reachable C n k' \<and> jam w n a (Suc j) 0 k'"
proof -
  let ?k = "pushed m k"
  have r: "consumer_reachable C n ?k"
    using push_one [OF assms(2,3)] by (simp add: BufferSize_def)
  have idle: "j < length (k_receivers ?k)" "k_receivers ?k ! j = Idle" "k_sqs ?k = m # []" "\<not> k_dead ?k"
    using assms(3,4) by (simp_all add: jam_def nth_append)
  have rs: "(replicate j (Forwarding w) @ replicate (n - j) Idle)[j := Forwarding w] =
      replicate (Suc j) (Forwarding w) @ replicate (n - Suc j) Idle"
    using assms(4) by (simp add: list_update_append replicate_append_same Suc_diff_Suc [symmetric])
  show ?thesis
    by (intro exI conjI, rule consumer_reachable.step [OF r consumer_step.decoded [OF idle(4,1,2,3) assms(1)]])
       (use assms(3) rs in \<open>simp add: jam_def\<close>)
qed

lemma jam_wire:
  assumes "decode C m = Some w" "0 < n" "a \<le> BufferSize"
  shows "\<exists>k. consumer_reachable C n k \<and> jam w n a 0 0 k"
  using assms(3)
proof (induction a)
  case 0
  show ?case
    by (rule exI, rule conjI, rule consumer_reachable.start) (simp add: jam_def consumer_start_def)
next
  case (Suc a)
  then obtain k0 where "consumer_reachable C n k0" "jam w n a 0 0 k0" by auto
  with jam_receiver [OF assms(1)] assms(2)
  obtain k where k: "consumer_reachable C n k" "jam w n a (Suc 0) 0 k" by blast
  have s: "\<not> k_dead k" "0 < length (k_receivers k)" "k_receivers k ! 0 = Forwarding w"
      "length (k_wire k) < BufferSize"
    using k(2) Suc.prems by (auto simp: jam_def)
  have rs: "(replicate (Suc 0) (Forwarding w) @ replicate (n - Suc 0) Idle)[0 := Idle] = replicate n Idle"
    using assms(2) by (cases n) simp_all
  show ?case
    by (intro exI conjI, rule consumer_reachable.step [OF k(1) consumer_step.forward [OF s]])
       (use k(2) rs in \<open>simp add: jam_def\<close>)
qed

lemma jam_receivers:
  assumes "decode C m = Some w" "0 < n" "j \<le> n"
  shows "\<exists>k. consumer_reachable C n k \<and> jam w n BufferSize j 0 k"
  using assms(3)
proof (induction j)
  case 0
  show ?case using jam_wire [OF assms(1,2)] by simp
next
  case (Suc j)
  then show ?case using jam_receiver [OF assms(1)] by (meson Suc_leD Suc_le_lessD)
qed

lemma jam_all:
  assumes "decode C m = Some w" "0 < n" "b \<le> BufferSize"
  shows "\<exists>k. consumer_reachable C n k \<and> jam w n BufferSize n b k"
  using assms(3)
proof (induction b)
  case 0
  show ?case using jam_receivers [OF assms(1,2)] by simp
next
  case (Suc b)
  then obtain k where k: "consumer_reachable C n k" "jam w n BufferSize n b k" by auto
  then have r: "consumer_reachable C n (pushed m k)"
    using Suc.prems by (intro push_one [OF k]) simp
  show ?case by (intro exI conjI, rule r) (use k(2) in \<open>simp add: jam_def\<close>)
qed

section \<open>Properties\<close>


text \<open>
  C30. A message is deleted from the queue only after a call of its handler has succeeded, and only with
  a receipt handle it was received with: in every reachable state, before each deletion in the log
  stand the receipt of that handle for that message and a successful call for the message.
\<close>

theorem deleted_after_success:
  assumes "consumer_reachable C n k" "k_log k = newer @ Deleted mid handle # older"
  shows "Succeeded mid \<in> set older \<and> Received mid handle \<in> set older"
  using reachable_invariants [OF assms(1)] assms(2) by (auto simp: acked_ok_def)

text \<open>
  C31. The consumer can deadlock for good. A receiver puts the message it has decoded into the channel
  only receivers empty; when all of them wait to do so and both channels are full, no goroutine can
  move, not even when the context is done, and no more messages are handled. Whatever the number of receivers, a burst of messages of
  any decodable kind leads there.
\<close>

theorem consumer_deadlock:
  assumes "decode C m = Some w" "0 < n"
  shows "\<exists>k. consumer_reachable C n k \<and> \<not> k_dead k \<and> \<not> k_cancelled k \<and>
     (\<forall>k'. \<not> consumer_step C k k' \<and> \<not> consumer_step C (k\<lparr>k_cancelled := True\<rparr>) k')"
proof -
  obtain k where k: "consumer_reachable C n k" "jam w n BufferSize n BufferSize k"
    using jam_all [OF assms] by blast
  let ?k = "k\<lparr>k_main := [m], k_log := Polled [m] # k_log k\<rparr>"
  have "consumer_reachable C n ?k"
    using k by (intro consumer_reachable.step [OF k(1)] consumer_step.receive) (simp_all add: jam_def)
  moreover have "\<not> consumer_step C (?k\<lparr>k_cancelled := c\<rparr>) k'" for c k'
    using k(2) by (auto simp: jam_def elim!: consumer_stepE)
  moreover from this [of "k_cancelled k"] have "\<not> consumer_step C ?k k'" for k' by simp
  moreover have "\<not> k_dead ?k" "\<not> k_cancelled ?k" using k(2) by (simp_all add: jam_def)
  ultimately show ?thesis by blast
qed

definition sample_consumer :: consumer_ctx where
  "sample_consumer = \<lparr>cx_order = (\<lambda>b. Inr \<lparr>odr_Id = b, odr_Status = ''Completed'', odr_StatusDetails = [],
       odr_IsActive = True, odr_IsDeleted = False\<rparr>),
     cx_wire = (\<lambda>m. Inr ''order''), cx_unwire = (\<lambda>w. Inr (tw_Payload w)), cx_handlers = [''order'']\<rparr>"

definition sample_sqs_message :: sqs_message where
  "sample_sqs_message = \<lparr>sm_MessageId = ''m1'', sm_ReceiptHandle = ''r1'', sm_body = Some ''o1''\<rparr>"

theorem consumer_deadlock_witness:
  "\<exists>k. consumer_reachable sample_consumer 25 k \<and> \<not> k_dead k \<and> \<not> k_cancelled k \<and>
     (\<forall>k'. \<not> consumer_step sample_consumer k k' \<and> \<not> consumer_step sample_consumer (k\<lparr>k_cancelled := True\<rparr>) k')"
  using consumer_deadlock [of sample_consumer sample_sqs_message _ 25]
  by (simp add: decode_def sample_consumer_def sample_sqs_message_def)

text \<open>A message on its way through one receiver.\<close>

abbreviation sample_order :: OrderDetailsResponse where
  "sample_order \<equiv> \<lparr>odr_Id = ''o1'', odr_Status = ''Completed'', odr_StatusDetails = [],
     odr_IsActive = True, odr_IsDeleted = False\<rparr>"

abbreviation sample_wire :: TcWire where
  "sample_wire \<equiv> \<lparr>tw_Id = ''m1'', tw_MessageType = ''order'', tw_Payload = sample_order\<rparr>"

definition on_the_way ::
  "sqs_message list \<Rightarrow> sqs_message list \<Rightarrow> TcWire list \<Rightarrow> receiver \<Rightarrow> bool \<Rightarrow> consumer_event list \<Rightarrow> consumer" where
  "on_the_way main sqs wire r acked es =
     \<lparr>k_main = main, k_sqs = sqs, k_wire = wire, k_ack = (if acked then [''m1'' \<mapsto> ''r1''] else Map.empty),
      k_receivers = [r], k_cancelled = False, k_returned = False, k_dead = False, k_log = es\<rparr>"

lemma sample_run:
  defines "log \<equiv> [Succeeded ''m1'', Called sample_wire sample_order, Received ''m1'' ''r1'', Polled [sample_sqs_message]]"
  shows "consumer_reachable sample_consumer 1 (on_the_way [] [] [] Idle False (Deleted ''m1'' ''r1'' # log))"
proof -
  let ?C = sample_consumer and ?m = sample_sqs_message and ?w = sample_wire
  note step = consumer_reachable.step
  note defs = on_the_way_def sample_consumer_def sample_sqs_message_def decode_def handler_argument_def
    BufferSize_def consumer_start_def log_def
  have d: "decode ?C ?m = Some ?w" "handler_argument ?C ?w = Some sample_order" by (simp_all add: defs)
  have 0: "consumer_reachable ?C 1 (on_the_way [] [] [] Idle False [])"
    using consumer_reachable.start [of ?C 1] by (simp add: defs)
  have 1: "consumer_reachable ?C 1 (on_the_way [?m] [] [] Idle False [Polled [?m]])"
    using step [OF 0 consumer_step.receive [of _ "[?m]"]] by (simp add: on_the_way_def)
  have 2: "consumer_reachable ?C 1 (on_the_way [] [?m] [] Idle False [Polled [?m]])"
    using step [OF 1 consumer_step.push [of _ ?m "[]"]] by (simp add: on_the_way_def BufferSize_def)
  have 3: "consumer_reachable ?C 1 (on_the_way [] [] [] (Forwarding ?w) True [Received ''m1'' ''r1'', Polled [?m]])"
    using step [OF 2 consumer_step.decoded [of _ 0 ?m "[]", OF _ _ _ _ d(1)]]
    by (simp add: on_the_way_def sample_sqs_message_def)
  have 4: "consumer_reachable ?C 1 (on_the_way [] [] [?w] Idle True [Received ''m1'' ''r1'', Polled [?m]])"
    using step [OF 3 consumer_step.forward [of _ 0 ?w]] by (simp add: on_the_way_def BufferSize_def)
  have 5: "consumer_reachable ?C 1 (on_the_way [] [] [] (Handling ?w) True (tl log))"
    using step [OF 4 consumer_step.call [of _ 0 ?w "[]", OF _ _ _ _ d(2)]] by (simp add: on_the_way_def log_def)
  have 6: "consumer_reachable ?C 1 (on_the_way [] [] [] (Deleting ''m1'' ''r1'') True log)"
    using step [OF 5 consumer_step.acknowledge [of _ 0 ?w "''r1''"]] by (simp add: on_the_way_def log_def)
  show ?thesis
    using step [OF 6 consumer_step.delete [of _ 0 "''m1''" "''r1''"]] by (simp add: on_the_way_def)
qed

theorem deleted_after_success_witness:
  "Succeeded ''m1'' \<in> set [Succeeded ''m1'', Called sample_wire sample_order, Received ''m1'' ''r1'', Polled [sample_sqs_message]] \<and>
   Received ''m1'' ''r1'' \<in> set [Succeeded ''m1'', Called sample_wire sample_order, Received ''m1'' ''r1'', Polled [sample_sqs_message]]"
  by (rule deleted_after_success [OF sample_run, of "[]"]) (simp add: on_the_way_def)


end
