(* ===== verification/Hosting_Updater.thy ===== *)
theory Hosting_Updater
  imports Hosting_Spec Sqs_Consumer
begin

text \<open>
  \<^verbatim>\<open>hosting_updater/handlers\<close>: the notices of the hosting backend, received through \<open>Sqs_Consumer\<close>,
  settle the orders the hosting worker has placed. Also the meaning of gorm's struct conditions and
  updates on the table both work on, and the life of an order across the two services.
\<close>

section \<open>The handler\<close>

text \<open>\<^verbatim>\<open>orderStatusToProvisionHostingCreateStatus\<close>; other statuses are not in the map.\<close>

definition order_provision_status :: "string \<Rightarrow> string" where
  "order_provision_status status =
     (if status = ''Failed'' then ''failed'' else if status = ''Completed'' then ''completed'' else [])"

definition notice_status :: "database \<Rightarrow> OrderDetailsResponse \<Rightarrow> string option" where
  "notice_status db od =
     (let i = GetHostingStatusId db (odr_Status od) in if i \<noteq> [] then Some i else None)"

definition notice_update :: "database \<Rightarrow> OrderDetailsResponse \<Rightarrow> ProvisionHostingCreate" where
  "notice_update db od = zero_ProvisionHostingCreate
     \<lparr>phc_IsActive := odr_IsActive od, phc_IsDeleted := odr_IsDeleted od,
      phc_HostingStatusID := notice_status db od,
      phc_StatusID := GetProvisionStatusId db (order_provision_status (odr_Status od))\<rparr>"

definition notice_where :: "database \<Rightarrow> OrderDetailsResponse \<Rightarrow> ProvisionHostingCreate" where
  "notice_where db od = zero_ProvisionHostingCreate
     \<lparr>phc_ExternalOrderID := Some (odr_Id od),
      phc_StatusID := GetProvisionStatusId db ProvisionStatus_PendingAction\<rparr>"

definition HostingOrderDetailsResponseHandler ::
  "services \<Rightarrow> database \<Rightarrow> OrderDetailsResponse \<Rightarrow> (hist, gerr option) go" where
  "HostingOrderDetailsResponseHandler S db orderDetails =
     bnd (UpdateProvisionHostingCreate S db (notice_update db orderDetails)
            (WhereRow (notice_where db orderDetails))) (\<lambda>err.
     if (case err of None \<Rightarrow> False | Some e \<Rightarrow> errors_is e ErrNotFound) then
       bnd (GetHosting S db (zero_Hosting\<lparr>hos_ExternalOrderID := Some (odr_Id orderDetails)\<rparr>)) (\<lambda>(hosting, err).
       if err \<noteq> None then ret None
       else
         bnd (deref hosting) (\<lambda>hosting.
         let hosting = hosting\<lparr>hos_HostingStatusID := notice_status db orderDetails,
                               hos_IsActive := odr_IsActive orderDetails,
                               hos_IsDeleted := odr_IsDeleted orderDetails,
                               hos_StatusReason := Some (odr_StatusDetails orderDetails)\<rparr>
         in bnd (UpdateHosting S db hosting) (\<lambda>_. ret None)))
     else ret err)"

text \<open>The consumer the handler is registered with; the fields of \<open>sqs_config\<close> are the ones read of the configuration.\<close>

record sqs_config =
  cfg_Debug :: bool
  cfg_AWSSqsQueueName :: string
  cfg_AWSSqsQueueAccountId :: string
  cfg_AWSSSOProfileName :: string
  cfg_AWSAccessKeyId :: string
  cfg_AWSSecretAccessKey :: string
  cfg_AWSSessionToken :: string
  cfg_AWSRegion :: string
  cfg_AWSRoles :: string

definition SetupSQSConsumer :: "services \<Rightarrow> sqs_config \<Rightarrow> gerr + SqsOptions" where
  "SetupSQSConsumer S config =
     Sqs_Build (WithRoles S (cfg_AWSRoles config) (WithRegion (cfg_AWSRegion config)
       (WithSessionToken (cfg_AWSSessionToken config) (WithSecretAccessKey (cfg_AWSSecretAccessKey config)
       (WithAccessKeyId (cfg_AWSAccessKeyId config) (WithSSOProfileName (cfg_AWSSSOProfileName config)
       (WithQueueAccountId (cfg_AWSSqsQueueAccountId config) (Sqs_WithQueueName (cfg_AWSSqsQueueName config)
       (WithDebugModeEnabled (cfg_Debug config) NewOptionsBuilder)))))))))"

section \<open>Struct conditions and updates\<close>

text \<open>
  The documented meaning of gorm's \<^verbatim>\<open>Where\<close> and \<^verbatim>\<open>Updates\<close> with a struct: only its non-zero fields
  count. In particular an update never writes \<^verbatim>\<open>false\<close>.
\<close>

definition nonzero :: "'a \<Rightarrow> 'a \<Rightarrow> 'a \<Rightarrow> 'a" where
  "nonzero z new old = (if new = z then old else new)"

definition phc_matches :: "ProvisionHostingCreate \<Rightarrow> ProvisionHostingCreate \<Rightarrow> bool" where
  "phc_matches w row \<longleftrightarrow>
     (phc_CreatedDate w \<noteq> None \<longrightarrow> phc_CreatedDate row = phc_CreatedDate w) \<and>
     (phc_UpdatedDate w \<noteq> None \<longrightarrow> phc_UpdatedDate row = phc_UpdatedDate w) \<and>
     (phc_CreatedBy w \<noteq> None \<longrightarrow> phc_CreatedBy row = phc_CreatedBy w) \<and>
     (phc_UpdatedBy w \<noteq> None \<longrightarrow> phc_UpdatedBy row = phc_UpdatedBy w) \<and>
     (phc_ID w \<noteq> [] \<longrightarrow> phc_ID row = phc_ID w) \<and>
     (phc_TenantCustomerID w \<noteq> [] \<longrightarrow> phc_TenantCustomerID row = phc_TenantCustomerID w) \<and>
     (phc_ProvisionedDate w \<noteq> None \<longrightarrow> phc_ProvisionedDate row = phc_ProvisionedDate w) \<and>
     (phc_StatusID w \<noteq> [] \<longrightarrow> phc_StatusID row = phc_StatusID w) \<and>
     (phc_Roid w \<noteq> None \<longrightarrow> phc_Roid row = phc_Roid w) \<and>
     (phc_JobID w \<noteq> None \<longrightarrow> phc_JobID row = phc_JobID w) \<and>
     (phc_OrderItemPlanIds w \<noteq> None \<longrightarrow> phc_OrderItemPlanIds row = phc_OrderItemPlanIds w) \<and>
     (phc_OrderMetadata w \<noteq> None \<longrightarrow> phc_OrderMetadata row = phc_OrderMetadata w) \<and>
     (phc_ResultMessage w \<noteq> None \<longrightarrow> phc_ResultMessage row = phc_ResultMessage w) \<and>
     (phc_ResultData w \<noteq> None \<longrightarrow> phc_ResultData row = phc_ResultData w) \<and>
     (phc_HostingID w \<noteq> [] \<longrightarrow> phc_HostingID row = phc_HostingID w) \<and>
     (phc_DomainName w \<noteq> [] \<longrightarrow> phc_DomainName row = phc_DomainName w) \<and>
     (phc_RegionID w \<noteq> [] \<longrightarrow> phc_RegionID row = phc_RegionID w) \<and>
     (phc_ClientID w \<noteq> [] \<longrightarrow> phc_ClientID row = phc_ClientID w) \<and>
     (phc_ClientUsername w \<noteq> None \<longrightarrow> phc_ClientUsername row = phc_ClientUsername w) \<and>
     (phc_ProductID w \<noteq> [] \<longrightarrow> phc_ProductID row = phc_ProductID w) \<and>
     (phc_CertificateID w \<noteq> None \<longrightarrow> phc_CertificateID row = phc_CertificateID w) \<and>
     (phc_ExternalOrderID w \<noteq> None \<longrightarrow> phc_ExternalOrderID row = phc_ExternalOrderID w) \<and>
     (phc_ExternalClientID w \<noteq> None \<longrightarrow> phc_ExternalClientID row = phc_ExternalClientID w) \<and>
     (phc_HostingStatusID w \<noteq> None \<longrightarrow> phc_HostingStatusID row = phc_HostingStatusID w) \<and>
     (phc_IsActive w \<longrightarrow> phc_IsActive row) \<and>
     (phc_IsDeleted w \<longrightarrow> phc_IsDeleted row)"

definition phc_updated :: "ProvisionHostingCreate \<Rightarrow> ProvisionHostingCreate \<Rightarrow> ProvisionHostingCreate" where
  "phc_updated u row =
     row\<lparr>phc_CreatedDate := nonzero None (phc_CreatedDate u) (phc_CreatedDate row),
         phc_UpdatedDate := nonzero None (phc_UpdatedDate u) (phc_UpdatedDate row),
         phc_CreatedBy := nonzero None (phc_CreatedBy u) (phc_CreatedBy row),
         phc_UpdatedBy := nonzero None (phc_UpdatedBy u) (phc_UpdatedBy row),
         phc_ID := nonzero [] (phc_ID u) (phc_ID row),
         phc_TenantCustomerID := nonzero [] (phc_TenantCustomerID u) (phc_TenantCustomerID row),
         phc_ProvisionedDate := nonzero None (phc_ProvisionedDate u) (phc_ProvisionedDate row),
         phc_StatusID := nonzero [] (phc_StatusID u) (phc_StatusID row),
         phc_Roid := nonzero None (phc_Roid u) (phc_Roid row),
         phc_JobID := nonzero None (phc_JobID u) (phc_JobID row),
         phc_OrderItemPlanIds := nonzero None (phc_OrderItemPlanIds u) (phc_OrderItemPlanIds row),
         phc_OrderMetadata := nonzero None (phc_OrderMetadata u) (phc_OrderMetadata row),
         phc_ResultMessage := nonzero None (phc_ResultMessage u) (phc_ResultMessage row),
         phc_ResultData := nonzero None (phc_ResultData u) (phc_ResultData row),
         phc_HostingID := nonzero [] (phc_HostingID u) (phc_HostingID row),
         phc_DomainName := nonzero [] (phc_DomainName u) (phc_DomainName row),
         phc_RegionID := nonzero [] (phc_RegionID u) (phc_RegionID row),
         phc_ClientID := nonzero [] (phc_ClientID u) (phc_ClientID row),
         phc_ClientUsername := nonzero None (phc_ClientUsername u) (phc_ClientUsername row),
         phc_ProductID := nonzero [] (phc_ProductID u) (phc_ProductID row),
         phc_CertificateID := nonzero None (phc_CertificateID u) (phc_CertificateID row),
         phc_ExternalOrderID := nonzero None (phc_ExternalOrderID u) (phc_ExternalOrderID row),
         phc_ExternalClientID := nonzero None (phc_ExternalClientID u) (phc_ExternalClientID row),
         phc_HostingStatusID := nonzero None (phc_HostingStatusID u) (phc_HostingStatusID row),
         phc_IsActive := nonzero False (phc_IsActive u) (phc_IsActive row),
         phc_IsDeleted := nonzero False (phc_IsDeleted u) (phc_IsDeleted row)\<rparr>"

fun selects :: "hosting_where \<Rightarrow> ProvisionHostingCreate \<Rightarrow> bool" where
  "selects (WhereId i) row = (i = Some (phc_ID row))"
| "selects (WhereRow w) row = phc_matches w row"

text \<open>
  What the schema's triggers make of a row whose update writes \<open>new\<close> over \<open>old\<close>: every update of an
  audited table stamps the row with the time and the database user; when the status changes to a final
  one, \<^verbatim>\<open>provision_finish\<close> sets the date of a success and \<^verbatim>\<open>provision_cleanup\<close> deletes the row of a failure
  (\<open>None\<close>). The final statuses of a provision are \<^verbatim>\<open>completed\<close> and \<^verbatim>\<open>failed\<close>.
\<close>

definition after_update ::
  "database \<Rightarrow> gotime \<Rightarrow> string \<Rightarrow> ProvisionHostingCreate \<Rightarrow> ProvisionHostingCreate \<Rightarrow> ProvisionHostingCreate option" where
  "after_update db now user old new =
     (let row = new\<lparr>phc_UpdatedDate := Some now, phc_UpdatedBy := Some user\<rparr>
      in if phc_StatusID row = phc_StatusID old then Some row
         else if phc_StatusID row = GetProvisionStatusId db ''completed'' then Some (row\<lparr>phc_ProvisionedDate := Some now\<rparr>)
         else if phc_StatusID row = GetProvisionStatusId db ''failed'' then None
         else Some row)"

text \<open>
  The rows of the table after the statements that took effect; \<open>clk\<close> is the database's clock at the
  last of some statements, \<open>user\<close> its user. The trigger that copies a final job's status onto its provision
  row is left out: for the jobs below it writes the status that the worker has written itself.
\<close>

fun phc_stmt ::
  "database \<Rightarrow> gotime \<Rightarrow> string \<Rightarrow> stmt \<Rightarrow> ProvisionHostingCreate list \<Rightarrow> ProvisionHostingCreate list" where
  "phc_stmt db now user (UpdatesProvisionHostingCreate c u) rows =
     List.map_filter (\<lambda>row. if selects c row then after_update db now user row (phc_updated u row) else Some row) rows"
| "phc_stmt db now user q rows = rows"

fun phc_after ::
  "database \<Rightarrow> (stmt list \<Rightarrow> gotime) \<Rightarrow> string \<Rightarrow> ProvisionHostingCreate list \<Rightarrow> stmt list \<Rightarrow> ProvisionHostingCreate list" where
  "phc_after db clk user rows [] = rows"
| "phc_after db clk user rows (q # qs) = phc_stmt db (clk (q # qs)) user q (phc_after db clk user rows qs)"

definition phc_rows ::
  "database \<Rightarrow> (stmt list \<Rightarrow> gotime) \<Rightarrow> string \<Rightarrow> services \<Rightarrow> ProvisionHostingCreate list \<Rightarrow> hist \<Rightarrow> ProvisionHostingCreate list" where
  "phc_rows db clk user S rows h = phc_after db clk user rows (effective S h)"

text \<open>The database reports how many rows an update through the pool has found.\<close>

definition counts_rows ::
  "database \<Rightarrow> (stmt list \<Rightarrow> gotime) \<Rightarrow> string \<Rightarrow> services \<Rightarrow> ProvisionHostingCreate list \<Rightarrow> bool" where
  "counts_rows db clk user S rows \<longleftrightarrow>
     (\<forall>h c u. sv_rows_affected S h (Exec Pool (UpdatesProvisionHostingCreate c u)) =
        length (filter (selects c) (phc_rows db clk user S rows h)))"

text \<open>A row waits for the notice of an order.\<close>

definition awaits :: "database \<Rightarrow> string \<Rightarrow> ProvisionHostingCreate \<Rightarrow> bool" where
  "awaits db orderId row \<longleftrightarrow>
     phc_ExternalOrderID row = Some orderId \<and>
     phc_StatusID row = GetProvisionStatusId db ''pending_action''"

text \<open>
  What a notice makes of a row that waits for it: \<^verbatim>\<open>Completed\<close> completes it, \<^verbatim>\<open>Failed\<close> deletes it, any other
  status leaves it waiting; the hosting status, if it is a known one, and the two flags are taken over,
  but a flag is never cleared.
\<close>

definition noticed ::
  "database \<Rightarrow> gotime \<Rightarrow> string \<Rightarrow> OrderDetailsResponse \<Rightarrow> ProvisionHostingCreate \<Rightarrow> ProvisionHostingCreate option" where
  "noticed db now user od row =
     (let row' = row
        \<lparr>phc_HostingStatusID :=
           (if GetHostingStatusId db (odr_Status od) = [] then phc_HostingStatusID row
            else Some (GetHostingStatusId db (odr_Status od))),
         phc_IsActive := (phc_IsActive row \<or> odr_IsActive od),
         phc_IsDeleted := (phc_IsDeleted row \<or> odr_IsDeleted od),
         phc_UpdatedDate := Some now, phc_UpdatedBy := Some user\<rparr>
      in if odr_Status od = ''Failed'' then None
         else if odr_Status od = ''Completed''
         then Some (row'\<lparr>phc_StatusID := GetProvisionStatusId db ''completed'', phc_ProvisionedDate := Some now\<rparr>)
         else Some row')"

abbreviation after_notice ::
  "database \<Rightarrow> gotime \<Rightarrow> string \<Rightarrow> OrderDetailsResponse \<Rightarrow> ProvisionHostingCreate list \<Rightarrow> ProvisionHostingCreate list" where
  "after_notice db now user od \<equiv>
     List.map_filter (\<lambda>row. if awaits db (odr_Id od) row then noticed db now user od row else Some row)"

text \<open>The lookup table tells the three statuses apart and does not know the empty name.\<close>

definition provision_statuses_ok :: "database \<Rightarrow> bool" where
  "provision_statuses_ok db \<longleftrightarrow>
     distinct [GetProvisionStatusId db ''pending_action'', GetProvisionStatusId db ''completed'',
               GetProvisionStatusId db ''failed'', []] \<and>
     GetProvisionStatusId db [] = []"

lemma notice_where_matches:
  assumes "provision_statuses_ok db"
  shows "phc_matches (notice_where db od) row \<longleftrightarrow> awaits db (odr_Id od) row"
  using assms
  by (auto simp: phc_matches_def notice_where_def awaits_def zero_ProvisionHostingCreate_def provision_statuses_ok_def)

lemma notice_selects:
  "provision_statuses_ok db \<Longrightarrow> selects (WhereRow (notice_where db od)) = awaits db (odr_Id od)"
  by (rule ext) (simp add: notice_where_matches)

lemma notice_update_updates:
  assumes "provision_statuses_ok db" "awaits db (odr_Id od) row"
  shows "after_update db now user row (phc_updated (notice_update db od) row) = noticed db now user od row"
  using assms
  by (cases row)
     (auto simp: after_update_def phc_updated_def nonzero_def notice_update_def noticed_def order_provision_status_def
        notice_status_def Let_def awaits_def zero_ProvisionHostingCreate_def provision_statuses_ok_def)

lemma phc_rows_exec:
  "sv_err S h (Exec Pool q) = None \<Longrightarrow>
   phc_rows db clk user S rows (Exec Pool q # h) = phc_stmt db (clk (q # effective S h)) user q (phc_rows db clk user S rows h)"
  by (simp add: phc_rows_def)

lemma phc_rows_query: "phc_rows db clk user S rows (Query s q # h) = phc_rows db clk user S rows h"
  by (simp add: phc_rows_def)

lemma after_notice_none:
  "\<forall>row \<in> set rs. \<not> awaits db (odr_Id od) row \<Longrightarrow> after_notice db now user od rs = rs"
  by (induction rs) (simp_all add: List.map_filter_def)

lemma in_map_filter: "y \<in> set (List.map_filter f xs) \<longleftrightarrow> (\<exists>x \<in> set xs. f x = Some y)"
  by (force simp: List.map_filter_def)

section \<open>Properties\<close>

text \<open>What the handler makes of the hosting it falls back to.\<close>

definition noticed_hosting :: "database \<Rightarrow> OrderDetailsResponse \<Rightarrow> Hosting \<Rightarrow> Hosting" where
  "noticed_hosting db od hosting = hosting
     \<lparr>hos_HostingStatusID :=
        (if GetHostingStatusId db (odr_Status od) = [] then None else Some (GetHostingStatusId db (odr_Status od))),
      hos_IsActive := odr_IsActive od, hos_IsDeleted := odr_IsDeleted od,
      hos_StatusReason := Some (odr_StatusDetails od)\<rparr>"

lemma notice_run:
  fixes db od S h
  defines "stmt \<equiv> UpdatesProvisionHostingCreate (WhereRow (notice_where db od)) (notice_update db od)"
    and "ask \<equiv> Query Pool (FirstHosting (zero_Hosting\<lparr>hos_ExternalOrderID := Some (odr_Id od)\<rparr>))"
  assumes "provision_statuses_ok db" "counts_rows db clk user S rows" "db_gorm db = Pool"
    "sv_err S h (Exec Pool stmt) = None" "\<forall>e. \<not> sv_connect_error S e"
    "\<forall>h e. snd (sv_hosting S h e) = None \<longrightarrow> fst (sv_hosting S h e) \<noteq> None"
  shows "wp (HostingOrderDetailsResponseHandler S db od) (\<lambda>r h'. r = Ret None \<and>
     (if \<exists>row \<in> set (phc_rows db clk user S rows h). awaits db (odr_Id od) row
      then h' = Exec Pool stmt # h \<and> phc_rows db clk user S rows h' =
             after_notice db (clk (stmt # effective S h)) user od (phc_rows db clk user S rows h)
      else phc_rows db clk user S rows h' = phc_rows db clk user S rows h \<and>
        h' = (case sv_hosting S (Exec Pool stmt # h) ask of
                (Some hosting, None) \<Rightarrow>
                  if hos_ID hosting = [] then ask # Exec Pool stmt # h
                  else Exec Pool (UpdatesHosting (noticed_hosting db od hosting)) # ask # Exec Pool stmt # h
              | _ \<Rightarrow> ask # Exec Pool stmt # h))) h"
proof -
  let ?upd = "Exec Pool stmt" and ?rows = "phc_rows db clk user S rows"
  have affected: "sv_rows_affected S h ?upd = length (filter (awaits db (odr_Id od)) (?rows h))"
    using assms(4) notice_selects [OF assms(3)] by (simp add: stmt_def counts_rows_def)
  have after: "?rows (?upd # h) = after_notice db (clk (stmt # effective S h)) user od (?rows h)"
    using notice_update_updates [OF assms(3)] assms(6)
    by (simp add: phc_rows_exec) (simp add: stmt_def notice_where_matches [OF assms(3)] cong: if_cong)
  have status: "notice_status db od =
      (if GetHostingStatusId db (odr_Status od) = [] then None else Some (GetHostingStatusId db (odr_Status od)))"
    by (simp add: notice_status_def)
  have hosting_row: "\<exists>x. fst (sv_hosting S h1 e) = Some x" if "snd (sv_hosting S h1 e) = None" for h1 e
    using that assms(8) by auto
  have hosting_write: "?rows (Exec Pool (UpdatesHosting x) # h1) = ?rows h1" for x h1
    by (simp add: phc_rows_def)
  have asked: "?rows (ask # h1) = ?rows h1" for h1
    by (simp add: ask_def phc_rows_query)
  show ?thesis
    using assms(5-7) affected after hosting_row [of "?upd # h" ask] after_notice_none [of "?rows h" db od]
    unfolding HostingOrderDetailsResponseHandler_def UpdateProvisionHostingCreate_def GetHosting_def UpdateHosting_def
    by (auto simp: wp stmt_def [symmetric] ask_def [symmetric] filter_empty_conv noticed_hosting_def asked status
        hosting_write Let_def split: option.splits prod.splits)
qed

text \<open>
  C37. A notice of the hosting backend settles exactly the provision rows that wait for its order: a
  completed order completes them, a failed one makes the database delete them, and after any other
  status they still wait. When no row waits, the hosting of the order, if there is one, gets the notice's
  status, flags and details instead. Either way the handler reports success, so the consumer deletes
  the message.
\<close>

theorem order_notice_outcome:
  fixes db od S h
  defines "stmt \<equiv> UpdatesProvisionHostingCreate (WhereRow (notice_where db od)) (notice_update db od)"
    and "ask \<equiv> Query Pool (FirstHosting (zero_Hosting\<lparr>hos_ExternalOrderID := Some (odr_Id od)\<rparr>))"
  assumes "provision_statuses_ok db" "counts_rows db clk user S rows" "db_gorm db = Pool"
    "sv_err S h (Exec Pool stmt) = None" "\<forall>e. \<not> sv_connect_error S e"
    "\<forall>h e. snd (sv_hosting S h e) = None \<longrightarrow> fst (sv_hosting S h e) \<noteq> None"
  shows "wp (HostingOrderDetailsResponseHandler S db od) (\<lambda>r h'. r = Ret None \<and>
     (if \<exists>row \<in> set (phc_rows db clk user S rows h). awaits db (odr_Id od) row
      then h' = Exec Pool stmt # h \<and> phc_rows db clk user S rows h' =
             after_notice db (clk (stmt # effective S h)) user od (phc_rows db clk user S rows h)
      else phc_rows db clk user S rows h' = phc_rows db clk user S rows h \<and>
        h' = (case sv_hosting S (Exec Pool stmt # h) ask of
                (Some hosting, None) \<Rightarrow>
                  if hos_ID hosting = [] then ask # Exec Pool stmt # h
                  else Exec Pool (UpdatesHosting (noticed_hosting db od hosting)) # ask # Exec Pool stmt # h
              | _ \<Rightarrow> ask # Exec Pool stmt # h))) h"
  using assms(3-8) unfolding stmt_def ask_def by (rule notice_run)

section \<open>The life of an order\<close>

text \<open>A delivery whose body succeeds is committed.\<close>

lemma with_job_Ret:
  assumes "fetched S db cid h = (Ret (job, None), h1)" "job_StatusID job = GetJobStatusId db st"
    "job_Info job = Some info" "vj_JobTypeName info = Some ty"
    "body (db\<lparr>db_gorm := Tx (fresh_tx h)\<rparr>) job h1 = (Ret None, h2)" "sv_err S h2 (CommitTx (Tx (fresh_tx h))) = None"
  shows "with_job st S db cid body h = (Ret None, CommitTx (Tx (fresh_tx h)) # h2)"
  using assms
  by (simp add: with_job_def WithTransaction_run Let_def if_status_def fetched_def bnd_def GetJobStatusId_def ret_def)

fun is_http :: "event \<Rightarrow> bool" where
  "is_http (HttpCall r) = True"
| "is_http e = False"

lemma quiet_events:
  "list_all (\<lambda>e. is_http e \<or> is_query e) d \<Longrightarrow> pending S n (d @ h) = pending S n h"
  "list_all (\<lambda>e. is_http e \<or> is_query e) d \<Longrightarrow> effective S (d @ h) = effective S h"
proof (induction d)
  case (Cons e d)
  {
    case 1
    then show ?case using Cons by (cases e) auto
  next
    case 2
    then show ?case using Cons by (cases e) auto
  }
qed simp_all

lemma createHosting_calls:
  assumes "createHosting S data h = (r, h')"
  obtains d where "h' = d @ h" "list_all (\<lambda>e. is_http e \<or> is_query e) d"
proof -
  have "adds (\<lambda>e. is_http e \<or> is_query e) (\<lambda>_. False) 0 (createHosting S data)"
    by (rule adds_hosting_clients) simp_all
  then show thesis using that assms by (metis addsE snd_conv)
qed

text \<open>What a create job leaves in the database when its order was accepted.\<close>

lemma placed_effective:
  fixes S db h
  defines "n \<equiv> fresh_tx h"
  defines "tx \<equiv> db\<lparr>db_gorm := Tx n\<rparr>"
  assumes "calm S" "\<forall>h e. sv_err S h e = None" "statuses_known db" "fetched S db jobId h = (Ret (job, None), h1)"
    "job_StatusID job = GetJobStatusId db JobStatus_Submitted" "job_Info job = Some info" "vj_JobTypeName info = Some ty"
    "unmarshal dec_HostingData zero_HostingData (vj_Data info) = Some data"
    "createHosting S data (Exec (Tx n) (UpdatesJob (marked_job tx job info)) # h1) = (Ret (data', Some response, None), h2)"
  obtains h3 j j' where "submit_job S db jobId (HostingProvision_body S m) h = (Ret None, h3)"
    "effective S h3 = UpdatesJob j #
       UpdatesProvisionHostingCreate (WhereId (vj_ReferenceID info)) (placed_update db data' response) #
       UpdatesJob j' # effective S h"
proof -
  have known: "statuses_known tx" "placed_update tx data' response = placed_update db data' response"
    using assms(5) by (simp_all add: tx_def statuses_known_def GetJobStatusId_def placed_update_def
        GetHostingStatusId_def GetProvisionStatusId_def)
  have no_err: "sv_err S x e = None" for x e using assms(4) by simp
  let ?upd = "UpdatesProvisionHostingCreate (WhereId (vj_ReferenceID info)) (placed_update db data' response)"
  obtain j where j: "finish_job S tx (marked_job tx job info) JobStatus_CompletedConditionally None (Exec (Tx n) ?upd # h2)
      = (Ret None, Exec (Tx n) (UpdatesJob j) # Exec (Tx n) ?upd # h2)"
    using set_status_calm [of S tx JobStatus_CompletedConditionally "marked_job tx job info" "Exec (Tx n) ?upd # h2"]
      assms(3) known(1)
    by (auto simp: finish_job_def SetJobStatus_def bnd_def ret_def statuses_known_def final_statuses_def tx_def)
  have "HostingProvision_body S m tx job h1 = (Ret None, Exec (Tx n) (UpdatesJob j) # Exec (Tx n) ?upd # h2)"
    unfolding HostingProvision_body_def assms(8) deref_Some bnd_ret assms(10) option.case
      mark_processing_run [OF assms(3) known(1) assms(8)]
    using assms(11) j known(2)
    by (simp add: bnd_def tx_def UpdateProvisionHostingCreate_def perform_def ret_def no_err deref_def Let_def)
  from with_job_Ret [where body = "HostingProvision_body S m", OF assms(6-9) this [unfolded tx_def n_def] no_err] have
    run: "submit_job S db jobId (HostingProvision_body S m) h =
      (Ret None, CommitTx (Tx n) # Exec (Tx n) (UpdatesJob j) # Exec (Tx n) ?upd # h2)" by (simp add: n_def)
  obtain d where d: "h2 = d @ Exec (Tx n) (UpdatesJob (marked_job tx job info)) # h1" "list_all (\<lambda>e. is_http e \<or> is_query e) d"
    using createHosting_calls assms(11) by blast
  obtain q where q: "h1 = q @ BeginTx n # h" "list_all is_query q"
    using fetched_only_queries [of S db jobId h] assms(6) by (metis n_def snd_conv)
  have q': "list_all (\<lambda>e. is_http e \<or> is_query e) q" using q(2) by (auto simp: list_all_iff)
  have "effective S (CommitTx (Tx n) # Exec (Tx n) (UpdatesJob j) # Exec (Tx n) ?upd # h2) =
      UpdatesJob j # ?upd # UpdatesJob (marked_job tx job info) # effective S h"
    using d q(1) q' by (simp add: no_err quiet_events)
  then show thesis using that run by blast
qed

text \<open>The accepted order leaves the job's row waiting, under its own id, and no other row with that id.\<close>

lemma placed_row:
  assumes "provision_statuses_ok db"
  shows "\<exists>row'. after_update db now user row (phc_updated (placed_update db data' response) row) = Some row' \<and>
     phc_ID row' = phc_ID row \<and> awaits db (orr_Id response) row'"
  using assms
  by (auto simp: after_update_def awaits_def phc_updated_def nonzero_def placed_update_def Let_def
      zero_ProvisionHostingCreate_def provision_statuses_ok_def)

lemma map_filter_ids:
  assumes "\<And>x y. x \<in> set xs \<Longrightarrow> f x = Some y \<Longrightarrow> g y = g x" "distinct (map g xs)"
  shows "distinct (map g (List.map_filter f xs))"
  using assms
proof (induction xs)
  case (Cons x xs)
  have "g ` set (List.map_filter f xs) \<subseteq> g ` set xs"
    using Cons.prems(1) by (force simp: in_map_filter image_iff)
  moreover have "g a = g x" if "f x = Some a" for a using Cons.prems(1) that by simp
  moreover have "List.map_filter f (x # xs) =
      (case f x of None \<Rightarrow> List.map_filter f xs | Some a \<Rightarrow> a # List.map_filter f xs)"
    by (simp add: List.map_filter_def split: option.split)
  moreover have "distinct (map g (List.map_filter f xs))" using Cons by simp
  ultimately show ?case using Cons.prems(2) by (auto split: option.split)
qed (simp add: List.map_filter_def)

lemma placed_rows:
  assumes "provision_statuses_ok db" "distinct (map phc_ID rows)"
  shows "distinct (map phc_ID (phc_stmt db now user
     (UpdatesProvisionHostingCreate (WhereId (Some i)) (placed_update db data' response)) rows))"
proof -
  have "phc_ID y = phc_ID x"
    if "after_update db now user x (phc_updated (placed_update db data' response) x) = Some y" for x y
    using placed_row [OF assms(1), of now user x data' response] that by auto
  then show ?thesis
    using assms(2) by (auto intro!: map_filter_ids split: if_splits)
qed

text \<open>
  C38. The life of an order across the worker and the updater. When the worker's delivery of a create job
  has its order accepted, the provision row the job refers to waits for that order; when the notice
  of the order comes in later, the updater settles that very row: it ends completed, or still waiting
  when the notice says neither \<^verbatim>\<open>Completed\<close> nor \<^verbatim>\<open>Failed\<close>, or, for a failed order, it is gone, deleted by the
  database.
\<close>

theorem order_lifecycle:
  fixes S db h
  defines "tx \<equiv> db\<lparr>db_gorm := Tx (fresh_tx h)\<rparr>"
  assumes "calm S" "\<forall>h e. sv_err S h e = None" "statuses_known db" "provision_statuses_ok db" "counts_rows db clk user S rows"
    "db_gorm db = Pool" "\<forall>h e. snd (sv_hosting S h e) = None \<longrightarrow> fst (sv_hosting S h e) \<noteq> None"
    "fetched S db jobId h = (Ret (job, None), h1)" "job_StatusID job = GetJobStatusId db JobStatus_Submitted"
    "job_Info job = Some info" "vj_JobTypeName info = Some ty" "vj_ReferenceID info = Some (phc_ID row)"
    "unmarshal dec_HostingData zero_HostingData (vj_Data info) = Some data"
    "createHosting S data (Exec (Tx (fresh_tx h)) (UpdatesJob (marked_job tx job info)) # h1)
       = (Ret (data', Some response, None), h2)"
    "row \<in> set (phc_rows db clk user S rows h)" "distinct (map phc_ID (phc_rows db clk user S rows h))"
    "odr_Id od = orr_Id response"
  shows "\<exists>h3 h4 row' now. HostingHandlerRouter acmeDomain S db
       (JobNotificationMsg jobId ''provision_hosting_create'' st ri rt) h = (Ret None, h3) \<and>
     row' \<in> set (phc_rows db clk user S rows h3) \<and> phc_ID row' = phc_ID row \<and> awaits db (orr_Id response) row' \<and>
     HostingOrderDetailsResponseHandler S db od h3 = (Ret None, h4) \<and>
     (case noticed db now user od row' of
        None \<Rightarrow> odr_Status od = ''Failed'' \<and> phc_ID row \<notin> phc_ID ` set (phc_rows db clk user S rows h4)
      | Some final_row \<Rightarrow> odr_Status od \<noteq> ''Failed'' \<and> final_row \<in> set (phc_rows db clk user S rows h4) \<and>
          phc_ID final_row = phc_ID row \<and>
          phc_StatusID final_row = GetProvisionStatusId db
            (if odr_Status od = ''Completed'' then ''completed'' else ''pending_action''))"
proof -
  let ?m = "JobNotificationMsg jobId ''provision_hosting_create'' st ri rt"
  let ?rows = "phc_rows db clk user S rows"
  obtain h3 j j' where run: "submit_job S db jobId (HostingProvision_body S ?m) h = (Ret None, h3)"
    and eff: "effective S h3 = UpdatesJob j #
       UpdatesProvisionHostingCreate (WhereId (vj_ReferenceID info)) (placed_update db data' response) #
       UpdatesJob j' # effective S h"
    using placed_effective [OF assms(2-4,9-12,14) assms(15) [unfolded tx_def], of ?m] by metis
  obtain t where h3: "?rows h3 = phc_stmt db t user
      (UpdatesProvisionHostingCreate (WhereId (Some (phc_ID row))) (placed_update db data' response)) (?rows h)"
    using assms(13) by (simp add: phc_rows_def eff)
  obtain row' where row': "row' \<in> set (?rows h3)" "phc_ID row' = phc_ID row" "awaits db (orr_Id response) row'"
    using placed_row [OF assms(5), of t user row data' response] assms(16) by (force simp: h3 in_map_filter)
  have ids: "distinct (map phc_ID (?rows h3))"
    unfolding h3 using assms(5,17) by (rule placed_rows)
  obtain r h4 where h4: "HostingOrderDetailsResponseHandler S db od h3 = (r, h4)" by force
  have conn: "\<forall>e. \<not> sv_connect_error S e" using assms(2) by (simp add: calm_def)
  have "\<exists>x \<in> set (?rows h3). awaits db (odr_Id od) x" using row' assms(18) by auto
  then obtain now where r: "r = Ret None" and rows4: "?rows h4 = after_notice db now user od (?rows h3)"
    using notice_run [OF assms(5-7) _ conn assms(8), of h3 od] h4 assms(3) by (auto simp: wp_def)
  have gone: "phc_ID row \<notin> phc_ID ` set (?rows h4)" if "noticed db now user od row' = None"
  proof
    assume "phc_ID row \<in> phc_ID ` set (?rows h4)"
    then obtain x y where x: "x \<in> set (?rows h3)" "phc_ID y = phc_ID row"
        "(if awaits db (odr_Id od) x then noticed db now user od x else Some x) = Some y"
      by (auto simp: rows4 in_map_filter)
    moreover from this(3) have "phc_ID y = phc_ID x"
      by (auto simp: noticed_def Let_def split: if_splits)
    ultimately have "x = row'" using ids row'(1,2) by (metis distinct_map inj_onD)
    then show False using x(3) that row'(3) assms(18) by simp
  qed
  have final_row: "final_row \<in> set (?rows h4)" if "noticed db now user od row' = Some final_row" for final_row
    unfolding rows4 in_map_filter using row'(1,3) assms(18) that by (intro bexI [of _ row']) simp_all
  have "case noticed db now user od row' of
        None \<Rightarrow> odr_Status od = ''Failed'' \<and> phc_ID row \<notin> phc_ID ` set (?rows h4)
      | Some final_row \<Rightarrow> odr_Status od \<noteq> ''Failed'' \<and> final_row \<in> set (?rows h4) \<and> phc_ID final_row = phc_ID row \<and>
          phc_StatusID final_row = GetProvisionStatusId db
            (if odr_Status od = ''Completed'' then ''completed'' else ''pending_action'')"
    using gone final_row row'(2,3)
    by (auto simp: noticed_def Let_def awaits_def split: option.split if_splits)
  then show ?thesis
    using run row' h4 r by (intro exI [of _ h3] exI [of _ h4] exI [of _ row'] exI [of _ now]) (simp add: hosting_routes)
qed

section \<open>Witnesses\<close>

definition order_db :: database where
  "order_db = sample_db\<lparr>db_provisionStatusEnum := \<lparr>et_data = assoc_bimap
     [(''pending_action'', ''v1''), (''completed'', ''v2''), (''failed'', ''v3'')]\<rparr>\<rparr>"

definition order_row :: ProvisionHostingCreate where
  "order_row = zero_ProvisionHostingCreate\<lparr>phc_ID := ''r1'', phc_ExternalOrderID := Some ''ho1'', phc_StatusID := ''v1''\<rparr>"

text \<open>Services that count the rows of a table; the clock of the samples stands still.\<close>

definition still :: "stmt list \<Rightarrow> gotime" where
  "still qs = zero_time"

definition counting :: "services \<Rightarrow> ProvisionHostingCreate list \<Rightarrow> services" where
  "counting S rows = S\<lparr>sv_rows_affected := \<lambda>h e. case e of
       Exec Pool (UpdatesProvisionHostingCreate c u) \<Rightarrow>
         length (filter (selects c) (phc_rows order_db still ''tdp'' S rows h)) | _ \<Rightarrow> 1\<rparr>"

lemma counting_counts: "counts_rows order_db still ''tdp'' (counting S rows) rows"
proof -
  have "effective (counting S rows) h = effective S h" for h
    by (rule effective_cong) (simp add: counting_def)
  then show ?thesis by (simp add: counts_rows_def counting_def phc_rows_def)
qed

abbreviation order_notice :: OrderDetailsResponse where
  "order_notice \<equiv> \<lparr>odr_Id = ''ho1'', odr_Status = ''Completed'', odr_StatusDetails = [], odr_IsActive = True, odr_IsDeleted = False\<rparr>"

lemma order_db_ok: "provision_statuses_ok order_db" "db_gorm order_db = Pool" "statuses_known order_db"
  using sample_statuses_known
  by (simp_all add: provision_statuses_ok_def order_db_def sample_db_def GetProvisionStatusId_def GetByKey_def
      assoc_bimap_def statuses_known_def GetJobStatusId_def)

theorem order_notice_outcome_witness:
  defines "S \<equiv> counting (plain_services ''t'') [order_row]"
  shows "(\<exists>h'. HostingOrderDetailsResponseHandler S order_db order_notice [] = (Ret None, h') \<and>
       map phc_StatusID (phc_rows order_db still ''tdp'' S [order_row] h') = [''v2'']) \<and>
     (\<exists>h'. HostingOrderDetailsResponseHandler S order_db (order_notice\<lparr>odr_Status := ''Failed''\<rparr>) [] = (Ret None, h') \<and>
       phc_rows order_db still ''tdp'' S [order_row] h' = [])"
proof -
  have row: "awaits order_db ''ho1'' order_row" "phc_rows order_db still ''tdp'' S [order_row] [] = [order_row]"
    by (simp_all add: awaits_def order_row_def order_db_def GetProvisionStatusId_def GetByKey_def assoc_bimap_def
        zero_ProvisionHostingCreate_def phc_rows_def)
  have run: "\<exists>h' now. HostingOrderDetailsResponseHandler S order_db od [] = (Ret None, h') \<and>
      phc_rows order_db still ''tdp'' S [order_row] h' = after_notice order_db now ''tdp'' od [order_row]"
    if "odr_Id od = ''ho1''" for od
  proof -
    have S: "\<And>h e. sv_err S h e = None" "\<forall>e. \<not> sv_connect_error S e"
      "\<forall>h e. snd (sv_hosting S h e) = None \<longrightarrow> fst (sv_hosting S h e) \<noteq> None"
      by (simp_all add: S_def counting_def plain_services_def sample_services_def)
    have "\<exists>x \<in> set (phc_rows order_db still ''tdp'' S [order_row] []). awaits order_db (odr_Id od) x"
      using row that by (simp add: S_def)
    then show ?thesis
      using order_notice_outcome [OF order_db_ok(1) counting_counts [of "plain_services ''t''" "[order_row]",
          folded S_def] order_db_ok(2) S, of od "[]"] row(2)
      by (cases "HostingOrderDetailsResponseHandler S order_db od []")
         (auto simp: wp_def still_def simp del: List.map_filter_simps)
  qed
  show ?thesis
    using run [of order_notice] run [of "order_notice\<lparr>odr_Status := ''Failed''\<rparr>"] row(1)
    by (auto simp: List.map_filter_def noticed_def Let_def order_db_def GetProvisionStatusId_def GetByKey_def assoc_bimap_def)
qed

abbreviation open_row :: ProvisionHostingCreate where
  "open_row \<equiv> zero_ProvisionHostingCreate\<lparr>phc_ID := ''r1''\<rparr>"

abbreviation order_services :: services where
  "order_services \<equiv> counting (ready_hosting) [open_row]"

theorem order_lifecycle_witness:
  "\<exists>h3 h4 final_row. HostingHandlerRouter ''acme'' order_services order_db (announced ''provision_hosting_create'') [] = (Ret None, h3) \<and>
     HostingOrderDetailsResponseHandler order_services order_db order_notice h3 = (Ret None, h4) \<and>
     final_row \<in> set (phc_rows order_db still ''tdp'' order_services [open_row] h4) \<and> phc_ID final_row = ''r1'' \<and>
     phc_StatusID final_row = ''v2''"
proof -
  let ?job = "hosting_job ''t'' hosting_json" and ?tx = "order_db\<lparr>db_gorm := Tx 0\<rparr>"
  let ?h1 = "[Query (Tx 0) (FindJob ''id'' ''j1'' True), BeginTx 0]"
  have fetch: "fetched order_services order_db ''j1'' [] = (Ret (?job, None), ?h1)" by code_simp
  have "map_option (\<lambda>d. hcl_ExternalClientId (hod_Client d))
      (unmarshal dec_HostingData zero_HostingData (vj_Data (sample_info ''t'' hosting_json))) = Some (Some ''c7'')" by code_simp
  then obtain data where data: "unmarshal dec_HostingData zero_HostingData (vj_Data (sample_info ''t'' hosting_json)) = Some data"
      "hcl_ExternalClientId (hod_Client data) = Some ''c7''" by blast
  have "\<exists>data' response h2. createHosting order_services data h = (Ret (data', Some response, None), h2) \<and> orr_Id response = ''ho1''" for h
    using data(2)
    by (simp add: createHosting_def createOrderRequest_def CreateHosting_def hosting_call_def http_def
        processHostingResponse_def perform_def bnd_def ret_def deref_def counting_def plain_services_def
        sample_services_def IsSuccess_def zero_OrderResponse_def)
  then obtain data' response h2 where
    "createHosting order_services data (Exec (Tx (fresh_tx [])) (UpdatesJob (marked_job (order_db\<lparr>db_gorm := Tx (fresh_tx [])\<rparr>)
       ?job (sample_info ''t'' hosting_json))) # ?h1) = (Ret (data', Some response, None), h2)" "orr_Id response = ''ho1''"
    by metis
  moreover have "calm order_services" using plain_calm [of "''t''"] by (simp add: calm_def counting_def)
  moreover have "\<forall>h e. sv_err order_services h e = None"
    "\<forall>h e. snd (sv_hosting order_services h e) = None \<longrightarrow> fst (sv_hosting order_services h e) \<noteq> None"
    by (simp_all add: counting_def plain_services_def sample_services_def)
  moreover have "''s2'' = GetJobStatusId order_db JobStatus_Submitted" by code_simp
  moreover have "open_row \<in> set (phc_rows order_db still ''tdp'' order_services [open_row] [])"
    "distinct (map phc_ID (phc_rows order_db still ''tdp'' order_services [open_row] []))" by (simp_all add: phc_rows_def)
  moreover have "GetProvisionStatusId order_db ''completed'' = ''v2''" by code_simp
  ultimately show ?thesis
    using order_lifecycle [of order_services order_db still "''tdp''" "[open_row]" "''j1''" "[]" ?job ?h1 "sample_info ''t'' hosting_json" "''t''"
        open_row data data' response h2 order_notice "''acme''" "[]" "[]" "[]"]
      order_db_ok counting_counts [of ready_hosting "[open_row]"] fetch data(1)
    by (fastforce simp: zero_ProvisionHostingCreate_def split: option.splits)
qed

end
