(* ===== verification/Certificate_Updater.thy ===== *)
theory Certificate_Updater
  imports Request_Protocol
begin

text \<open>
  \<^verbatim>\<open>certificate_updater/handlers\<close>: the notices of the certificate backend. An issued certificate
  completes the provision row that asked for it; a renewed one becomes an order that updates the
  hosting. The message types are the constructors \<open>CertificateIssuedMsg\<close> and \<open>CertificateRenewedMsg\<close>.
\<close>

section \<open>Issued certificates\<close>

text \<open>The row is looked up by the hosting the request was made for, or by domain when the notice names no request.\<close>

definition provision_key :: "database \<Rightarrow> CertificateNotification \<Rightarrow> ProvisionHostingCertificateCreate" where
  "provision_key tx response =
     (if cnt_RequestId response \<noteq> [] then
        zero_ProvisionHostingCertificateCreate
          \<lparr>phcc_HostingID := cnt_RequestId response, phcc_StatusID := GetProvisionStatusId tx ProvisionStatus_PendingAction\<rparr>
      else
        zero_ProvisionHostingCertificateCreate
          \<lparr>phcc_DomainName := cnt_Domain response, phcc_StatusID := GetProvisionStatusId tx ProvisionStatus_PendingAction\<rparr>)"

definition issued_row ::
  "database \<Rightarrow> CertificateMsg \<Rightarrow> ProvisionHostingCertificateCreate \<Rightarrow> ProvisionHostingCertificateCreate" where
  "issued_row tx cert row =
     row\<lparr>phcc_Body := Some (cmg_Cert cert), phcc_Chain := Some (cmg_Chain cert),
         phcc_PrivateKey := Some (cmg_PrivateKey cert),
         phcc_NotBefore := TimestampToTime (cmg_NotBefore cert),
         phcc_NotAfter := TimestampToTime (cmg_NotAfter cert),
         phcc_StatusID := GetProvisionStatusId tx ProvisionStatus_Completed\<rparr>"

definition refused_row ::
  "database \<Rightarrow> CertificateNotification \<Rightarrow> ProvisionHostingCertificateCreate \<Rightarrow> ProvisionHostingCertificateCreate" where
  "refused_row tx response row =
     row\<lparr>phcc_ResultMessage := Some (cnt_Message response), phcc_StatusID := GetProvisionStatusId tx ''failed''\<rparr>"

definition issue_certificate ::
  "services \<Rightarrow> CertificateNotification \<Rightarrow> database \<Rightarrow> (hist, gerr option) go" where
  "issue_certificate S response tx =
     bnd (GetProvisionHostingCertififcate S tx (provision_key tx response)) (\<lambda>(provisionRecord, err).
     case err of
       Some e \<Rightarrow> ret (Some e)
     | None \<Rightarrow>
         bnd (if cnt_Status response = CERT_STATUS_ERROR then
                bnd (deref provisionRecord) (\<lambda>row. ret (refused_row tx response row))
              else
                bnd (deref (cnt_Certificate response)) (\<lambda>cert.
                bnd (deref provisionRecord) (\<lambda>row. ret (issued_row tx cert row)))) (\<lambda>row.
         UpdateProvisionHostingCertificate S tx row))"

definition CertificateCreateResponseHandler :: "services \<Rightarrow> database \<Rightarrow> message \<Rightarrow> (hist, gerr option) go" where
  "CertificateCreateResponseHandler S db m =
     (case m of
        CertificateIssuedMsg response \<Rightarrow> WithTransaction S db (issue_certificate S response)
      | _ \<Rightarrow> go_panic ''interface conversion'')"

section \<open>Renewed certificates\<close>

definition find_hosting ::
  "services \<Rightarrow> database \<Rightarrow> CertificateNotification \<Rightarrow> (hist, Hosting option \<times> gerr option) go" where
  "find_hosting S tx response =
     bnd (GetHosting S tx (zero_Hosting\<lparr>hos_ID := cnt_RequestId response\<rparr>)) (\<lambda>(hosting, err).
     if err \<noteq> None then
       GetHosting S tx (zero_Hosting\<lparr>hos_DomainName := cnt_Domain response, hos_IsActive := True, hos_IsDeleted := False\<rparr>)
     else ret (hosting, None))"

text \<open>The order that puts the renewed certificate on the hosting; a missing date is dereferenced.\<close>

definition renewal_order :: "database \<Rightarrow> Hosting \<Rightarrow> CertificateMsg \<Rightarrow> (hist, Order) go" where
  "renewal_order tx hosting cert =
     bnd (deref (TimestampToTime (cmg_NotBefore cert))) (\<lambda>notBefore.
     bnd (deref (TimestampToTime (cmg_NotAfter cert))) (\<lambda>notAfter.
     ret (zero_Order
       \<lparr>ord_TenantCustomerID := hos_TenantCustomerID hosting,
        ord_TypeID := GetOrderTypeId tx ''update'' ''hosting'',
        ord_OrderItemUpdateHosting := zero_OrderItemUpdateHosting
          \<lparr>ouh_HostingID := hos_ID hosting,
           ouh_Certificate := Some (zero_OrderItemUpdateHostingCertificate
             \<lparr>ouhc_Body := cmg_Cert cert, ouhc_Chain := Some (cmg_Chain cert),
              ouhc_PrivateKey := cmg_PrivateKey cert, ouhc_NotBefore := notBefore, ouhc_NotAfter := notAfter\<rparr>)\<rparr>\<rparr>)))"

definition renew_certificate ::
  "services \<Rightarrow> CertificateNotification \<Rightarrow> database \<Rightarrow> (hist, gerr option) go" where
  "renew_certificate S response tx =
     bnd (find_hosting S tx response) (\<lambda>(hosting, err).
     case err of
       Some e \<Rightarrow> ret (Some e)
     | None \<Rightarrow>
         bnd (deref hosting) (\<lambda>hosting.
         if cnt_Status response = CERT_STATUS_ERROR then
           UpdateHosting S tx (hosting\<lparr>hos_HostingStatusID := Some (GetHostingStatusId tx ''Failed Certificate Renewal'')\<rparr>)
         else
           bnd (deref (cnt_Certificate response)) (\<lambda>cert.
           bnd (renewal_order tx hosting cert) (\<lambda>order.
           bnd (CreateOrder S tx order) (\<lambda>(order, err).
           case err of
             Some e \<Rightarrow> ret (Some e)
           | None \<Rightarrow> OrderNextStatus S tx (ord_ID order) True)))))"

definition CertificateRenewResponseHandler :: "services \<Rightarrow> database \<Rightarrow> message \<Rightarrow> (hist, gerr option) go" where
  "CertificateRenewResponseHandler S db m =
     (case m of
        CertificateRenewedMsg response \<Rightarrow> WithTransaction S db (renew_certificate S response)
      | _ \<Rightarrow> go_panic ''interface conversion'')"

text \<open>Which handler the bus calls for a message.\<close>

definition CertU_RegisterHandlers ::
  "services \<Rightarrow> database \<Rightarrow> message \<Rightarrow> (message \<Rightarrow> (hist, gerr option) go) option" where
  "CertU_RegisterHandlers S db m =
     (case m of
        CertificateIssuedMsg r \<Rightarrow> Some (CertificateCreateResponseHandler S db)
      | CertificateRenewedMsg r \<Rightarrow> Some (CertificateRenewResponseHandler S db)
      | _ \<Rightarrow> None)"

section \<open>Looking up a provision row\<close>

text \<open>
  The documented meaning of gorm's \<^verbatim>\<open>First\<close> with a struct condition on a table: the first row, in the order
  of the primary key, that agrees with the condition's non-zero fields. A condition without any
  matches every row.
\<close>

definition phcc_matches :: "ProvisionHostingCertificateCreate \<Rightarrow> ProvisionHostingCertificateCreate \<Rightarrow> bool" where
  "phcc_matches w row \<longleftrightarrow>
     (phcc_CreatedDate w \<noteq> None \<longrightarrow> phcc_CreatedDate row = phcc_CreatedDate w) \<and>
     (phcc_UpdatedDate w \<noteq> None \<longrightarrow> phcc_UpdatedDate row = phcc_UpdatedDate w) \<and>
     (phcc_CreatedBy w \<noteq> None \<longrightarrow> phcc_CreatedBy row = phcc_CreatedBy w) \<and>
     (phcc_UpdatedBy w \<noteq> None \<longrightarrow> phcc_UpdatedBy row = phcc_UpdatedBy w) \<and>
     (phcc_ID w \<noteq> [] \<longrightarrow> phcc_ID row = phcc_ID w) \<and>
     (phcc_TenantCustomerID w \<noteq> [] \<longrightarrow> phcc_TenantCustomerID row = phcc_TenantCustomerID w) \<and>
     (phcc_ProvisionedDate w \<noteq> None \<longrightarrow> phcc_ProvisionedDate row = phcc_ProvisionedDate w) \<and>
     (phcc_StatusID w \<noteq> [] \<longrightarrow> phcc_StatusID row = phcc_StatusID w) \<and>
     (phcc_Roid w \<noteq> None \<longrightarrow> phcc_Roid row = phcc_Roid w) \<and>
     (phcc_JobID w \<noteq> None \<longrightarrow> phcc_JobID row = phcc_JobID w) \<and>
     (phcc_OrderItemPlanIds w \<noteq> None \<longrightarrow> phcc_OrderItemPlanIds row = phcc_OrderItemPlanIds w) \<and>
     (phcc_OrderMetadata w \<noteq> None \<longrightarrow> phcc_OrderMetadata row = phcc_OrderMetadata w) \<and>
     (phcc_ResultMessage w \<noteq> None \<longrightarrow> phcc_ResultMessage row = phcc_ResultMessage w) \<and>
     (phcc_ResultData w \<noteq> None \<longrightarrow> phcc_ResultData row = phcc_ResultData w) \<and>
     (phcc_HostingID w \<noteq> [] \<longrightarrow> phcc_HostingID row = phcc_HostingID w) \<and>
     (phcc_CertificateID w \<noteq> None \<longrightarrow> phcc_CertificateID row = phcc_CertificateID w) \<and>
     (phcc_DomainName w \<noteq> [] \<longrightarrow> phcc_DomainName row = phcc_DomainName w) \<and>
     (phcc_Body w \<noteq> None \<longrightarrow> phcc_Body row = phcc_Body w) \<and>
     (phcc_Chain w \<noteq> None \<longrightarrow> phcc_Chain row = phcc_Chain w) \<and>
     (phcc_PrivateKey w \<noteq> None \<longrightarrow> phcc_PrivateKey row = phcc_PrivateKey w) \<and>
     (phcc_NotBefore w \<noteq> None \<longrightarrow> phcc_NotBefore row = phcc_NotBefore w) \<and>
     (phcc_NotAfter w \<noteq> None \<longrightarrow> phcc_NotAfter row = phcc_NotAfter w)"

definition first_certificate_row :: "services \<Rightarrow> ProvisionHostingCertificateCreate list \<Rightarrow> bool" where
  "first_certificate_row S rows \<longleftrightarrow>
     (\<forall>h s w. sv_phcc S h (Query s (FirstProvisionHostingCertificate w)) =
        (case filter (phcc_matches w) rows of
           [] \<Rightarrow> (None, Some ErrRecordNotFound) | row # _ \<Rightarrow> (Some row, None)))"

text \<open>
  The rows a notice of an issued certificate is about: those that wait, for the hosting the notice names
  as its request, else for its domain.
\<close>

definition waits_for_certificate :: "database \<Rightarrow> CertificateNotification \<Rightarrow> ProvisionHostingCertificateCreate \<Rightarrow> bool" where
  "waits_for_certificate db response row \<longleftrightarrow>
     phcc_StatusID row = GetProvisionStatusId db ''pending_action'' \<and>
     (if cnt_RequestId response \<noteq> [] then phcc_HostingID row = cnt_RequestId response
      else cnt_Domain response = [] \<or> phcc_DomainName row = cnt_Domain response)"

lemma provision_key_matches:
  assumes "GetProvisionStatusId db ''pending_action'' \<noteq> []"
  shows "phcc_matches (provision_key (db\<lparr>db_gorm := s\<rparr>) response) = waits_for_certificate db response"
  using assms
  by (auto simp: phcc_matches_def provision_key_def zero_ProvisionHostingCertificateCreate_def
      waits_for_certificate_def GetProvisionStatusId_def fun_eq_iff)

lemma find_certificate_row:
  assumes "first_certificate_row S rows" "GetProvisionStatusId db ''pending_action'' \<noteq> []"
  shows "GetProvisionHostingCertififcate S (db\<lparr>db_gorm := s\<rparr>) (provision_key (db\<lparr>db_gorm := s\<rparr>) response) h =
     (Ret (case filter (waits_for_certificate db response) rows of
             [] \<Rightarrow> (None, Some ErrNotFound) | row # _ \<Rightarrow> (Some row, None)),
      Query s (FirstProvisionHostingCertificate (provision_key (db\<lparr>db_gorm := s\<rparr>) response)) # h)"
  using assms(1) provision_key_matches [OF assms(2)]
  by (simp add: GetProvisionHostingCertififcate_def first_row_def perform_def bnd_def ret_def
      first_certificate_row_def split: list.split)

section \<open>Looking up a hosting\<close>

text \<open>
  The documented meaning of gorm's \<^verbatim>\<open>First\<close> with a struct condition on a table: the first row that agrees
  with the condition's non-zero fields. A condition without any matches every row.
\<close>

definition hosting_matches :: "Hosting \<Rightarrow> Hosting \<Rightarrow> bool" where
  "hosting_matches w row \<longleftrightarrow>
     (hos_CreatedDate w \<noteq> None \<longrightarrow> hos_CreatedDate row = hos_CreatedDate w) \<and>
     (hos_UpdatedDate w \<noteq> None \<longrightarrow> hos_UpdatedDate row = hos_UpdatedDate w) \<and>
     (hos_CreatedBy w \<noteq> None \<longrightarrow> hos_CreatedBy row = hos_CreatedBy w) \<and>
     (hos_UpdatedBy w \<noteq> None \<longrightarrow> hos_UpdatedBy row = hos_UpdatedBy w) \<and>
     (hos_ID w \<noteq> [] \<longrightarrow> hos_ID row = hos_ID w) \<and>
     (hos_DomainName w \<noteq> [] \<longrightarrow> hos_DomainName row = hos_DomainName w) \<and>
     (hos_ProductID w \<noteq> [] \<longrightarrow> hos_ProductID row = hos_ProductID w) \<and>
     (hos_RegionID w \<noteq> [] \<longrightarrow> hos_RegionID row = hos_RegionID w) \<and>
     (hos_ClientID w \<noteq> [] \<longrightarrow> hos_ClientID row = hos_ClientID w) \<and>
     (hos_TenantCustomerID w \<noteq> [] \<longrightarrow> hos_TenantCustomerID row = hos_TenantCustomerID w) \<and>
     (hos_CertificateID w \<noteq> None \<longrightarrow> hos_CertificateID row = hos_CertificateID w) \<and>
     (hos_HostingStatusID w \<noteq> None \<longrightarrow> hos_HostingStatusID row = hos_HostingStatusID w) \<and>
     (hos_Descr w \<noteq> None \<longrightarrow> hos_Descr row = hos_Descr w) \<and>
     (hos_IsActive w \<longrightarrow> hos_IsActive row) \<and>
     (hos_IsDeleted w \<longrightarrow> hos_IsDeleted row) \<and>
     (hos_ExternalOrderID w \<noteq> None \<longrightarrow> hos_ExternalOrderID row = hos_ExternalOrderID w) \<and>
     (hos_Tags w \<noteq> None \<longrightarrow> hos_Tags row = hos_Tags w) \<and>
     (hos_Metadata w \<noteq> None \<longrightarrow> hos_Metadata row = hos_Metadata w) \<and>
     (hos_StatusReason w \<noteq> None \<longrightarrow> hos_StatusReason row = hos_StatusReason w)"

definition first_matching :: "services \<Rightarrow> Hosting list \<Rightarrow> bool" where
  "first_matching S rows \<longleftrightarrow>
     (\<forall>h s w. sv_hosting S h (Query s (FirstHosting w)) =
        (case filter (hosting_matches w) rows of
           [] \<Rightarrow> (None, Some ErrRecordNotFound) | row # _ \<Rightarrow> (Some row, None)))"

text \<open>The hosting a renewal ends up at.\<close>

definition renewal_target :: "Hosting list \<Rightarrow> CertificateNotification \<Rightarrow> Hosting option" where
  "renewal_target rows response =
     (case filter (\<lambda>row. cnt_RequestId response = [] \<or> hos_ID row = cnt_RequestId response) rows of
        row # _ \<Rightarrow> Some row
      | [] \<Rightarrow>
          (case filter (\<lambda>row. hos_IsActive row \<and> (cnt_Domain response = [] \<or> hos_DomainName row = cnt_Domain response)) rows of
             row # _ \<Rightarrow> Some row | [] \<Rightarrow> None))"

lemma hosting_keys:
  "hosting_matches (zero_Hosting\<lparr>hos_ID := i\<rparr>) = (\<lambda>row. i = [] \<or> hos_ID row = i)"
  "hosting_matches (zero_Hosting\<lparr>hos_DomainName := d, hos_IsActive := True, hos_IsDeleted := False\<rparr>) =
     (\<lambda>row. hos_IsActive row \<and> (d = [] \<or> hos_DomainName row = d))"
  by (auto simp: hosting_matches_def zero_Hosting_def fun_eq_iff)

lemma GetHosting_run:
  assumes "first_matching S rows" "\<forall>row \<in> set rows. hos_ID row \<noteq> []" "\<forall>e. \<not> sv_connect_error S e"
  shows "GetHosting S tx w h =
     (Ret (case filter (hosting_matches w) rows of [] \<Rightarrow> (None, Some ErrRecordNotFound) | row # _ \<Rightarrow> (Some row, None)),
      Query (db_gorm tx) (FirstHosting w) # h)"
proof (cases "filter (hosting_matches w) rows")
  case (Cons row rest)
  then have "row \<in> set rows" by (metis filter_is_subset list.set_intros(1) subset_iff)
  with Cons assms show ?thesis
    by (simp add: GetHosting_def perform_def bnd_def ret_def first_matching_def deref_def)
qed (use assms in \<open>simp add: GetHosting_def perform_def bnd_def ret_def first_matching_def\<close>)

lemma find_hosting_run:
  assumes "first_matching S rows" "\<forall>row \<in> set rows. hos_ID row \<noteq> []" "\<forall>e. \<not> sv_connect_error S e"
    "db_gorm tx = Tx n"
  shows "\<exists>d. find_hosting S tx response h =
      (Ret (renewal_target rows response,
            if renewal_target rows response = None then Some ErrRecordNotFound else None), d @ h) \<and>
     list_all is_query d \<and> list_all (inside n) d"
  by (auto simp: find_hosting_def bnd_def ret_def GetHosting_run [OF assms(1-3)] hosting_keys renewal_target_def
      assms(4) split: list.splits)

lemma pending_queries: "list_all is_query d \<Longrightarrow> pending S n (d @ BeginTx n # h) = []"
  by (induction d) (auto elim!: is_query.elims)

section \<open>Properties\<close>

text \<open>
  C39. A notice of an issued certificate is about the first provision row that is pending an action and was
  made for its request, or for its domain when it names no request. It completes that row with the
  certificate, its chain, its private key and its validity, or fails it with the backend's message;
  nothing else is written. Without such a row the notice is an error, and without a certificate in it
  the handler panics; either way nothing is written.
\<close>

theorem certificate_issued_outcome:
  assumes "\<forall>h e. sv_err S h e = None" "first_certificate_row S rows" "\<forall>e. \<not> sv_connect_error S e"
    "GetProvisionStatusId db ''pending_action'' \<noteq> []"
    "CertificateCreateResponseHandler S db (CertificateIssuedMsg response) h = (r, h')"
  shows "case filter (waits_for_certificate db response) rows of
      [] \<Rightarrow> r = Ret (Some ErrNotFound) \<and> effective S h' = effective S h
    | row # _ \<Rightarrow>
        if cnt_Status response = CERT_STATUS_ERROR then r = Ret None \<and>
          effective S h' = UpdatesProvisionHostingCertificate (row
            \<lparr>phcc_ResultMessage := Some (cnt_Message response),
             phcc_StatusID := GetProvisionStatusId db ''failed''\<rparr>) # effective S h
        else (case cnt_Certificate response of
            None \<Rightarrow> r = Panicked ''nil pointer dereference'' \<and> effective S h' = effective S h
          | Some cert \<Rightarrow> r = Ret None \<and>
              effective S h' = UpdatesProvisionHostingCertificate (row
                \<lparr>phcc_Body := Some (cmg_Cert cert), phcc_Chain := Some (cmg_Chain cert),
                 phcc_PrivateKey := Some (cmg_PrivateKey cert),
                 phcc_NotBefore := TimestampToTime (cmg_NotBefore cert),
                 phcc_NotAfter := TimestampToTime (cmg_NotAfter cert),
                 phcc_StatusID := GetProvisionStatusId db ''completed''\<rparr>) # effective S h)"
  (is "?P r h'")
proof -
  have "wp (WithTransaction S db (issue_certificate S response)) ?P h"
    using assms(1,3)
    unfolding wp_iff WithTransaction_run issue_certificate_def UpdateProvisionHostingCertificate_def exec_or_die_def
    by (auto simp: find_certificate_row [OF assms(2,4)] perform_def bnd_def ret_def deref_def go_panic_def
        issued_row_def refused_row_def GetProvisionStatusId_def Let_def split: option.splits list.splits)
  then show ?thesis using assms(5) by (simp add: CertificateCreateResponseHandler_def wp_def)
qed

text \<open>
  C40. A renewed certificate becomes exactly one order that updates a hosting: the hosting named by the
  request if there is one, else the first active hosting of the domain. The order carries the
  certificate with its chain, key and validity, and that order is moved on, under the id the database
  gave it; a failed renewal marks the hosting. A notice that names no request matches the first
  hosting of the table, whosever it is: the certificate of one customer's domain is then ordered for
  another customer's hosting.
\<close>

theorem certificate_renewal_outcome:
  assumes "\<forall>h e. sv_err S h e = None" "\<forall>e. \<not> sv_connect_error S e" "first_matching S rows"
    "\<forall>row \<in> set rows. hos_ID row \<noteq> []"
    "cnt_Certificate response = Some cert" "cmg_NotBefore cert = Some nb" "cmg_NotAfter cert = Some na"
    "CertificateRenewResponseHandler S db (CertificateRenewedMsg response) h = (r, h')"
  shows "case renewal_target rows response of
      None \<Rightarrow> r = Ret (Some ErrRecordNotFound) \<and> effective S h' = effective S h
    | Some hosting \<Rightarrow> r = Ret None \<and>
        (if cnt_Status response = CERT_STATUS_ERROR then
           effective S h' = UpdatesHosting (hosting\<lparr>hos_HostingStatusID :=
              Some (GetHostingStatusId db ''Failed Certificate Renewal'')\<rparr>) # effective S h
         else \<exists>order update ordered d before.
           h' = d @ Exec (Tx (fresh_tx h)) (CreateOrderRow order) # before \<and>
           effective S h' =
             OrderNextStatusStmt (sv_order_id S before (Exec (Tx (fresh_tx h)) (CreateOrderRow order))) True #
             CreateOrderRow order # effective S h \<and>
           ord_TypeID order = GetOrderTypeId db ''update'' ''hosting'' \<and>
           ord_TenantCustomerID order = hos_TenantCustomerID hosting \<and>
           ord_OrderItemUpdateHosting order = update \<and>
           ouh_HostingID update = hos_ID hosting \<and> ouh_Certificate update = Some ordered \<and>
           ouhc_Body ordered = cmg_Cert cert \<and> ouhc_Chain ordered = Some (cmg_Chain cert) \<and>
           ouhc_PrivateKey ordered = cmg_PrivateKey cert \<and>
           Some (ouhc_NotBefore ordered) = TimestampToTime (Some nb) \<and>
           Some (ouhc_NotAfter ordered) = TimestampToTime (Some na))"
  (is "?P r h'")
proof -
  let ?n = "fresh_tx h"
  let ?tx = "db\<lparr>db_gorm := Tx ?n\<rparr>"
  obtain d where d: "find_hosting S ?tx response (BeginTx ?n # h) =
      (Ret (renewal_target rows response,
            if renewal_target rows response = None then Some ErrRecordNotFound else None), d @ BeginTx ?n # h)"
    "list_all is_query d" "list_all (inside ?n) d"
    using find_hosting_run [OF assms(3,4,2), of ?tx ?n response "BeginTx ?n # h"] by auto
  have last: "\<exists>d. c # s # e # b = d @ e # b" for c s e :: event and b
    by (rule exI [of _ "[c, s]"]) simp
  have "wp (WithTransaction S db (renew_certificate S response)) ?P h"
    using d assms(1,2,5-7)
    unfolding wp_iff WithTransaction_run renew_certificate_def
    by (auto simp: renewal_order_def CreateOrder_def OrderNextStatus_def UpdateHosting_def exec_or_die_def
        perform_def bnd_def ret_def deref_def Let_def TimestampToTime_def pending_queries effective_inside
        GetHostingStatusId_def GetOrderTypeId_def intro!: exI last split: option.splits)
  then show ?thesis using assms(8) by (simp add: CertificateRenewResponseHandler_def wp_def)
qed

section \<open>Witnesses\<close>

abbreviation sample_certificate :: CertificateMsg where
  "sample_certificate \<equiv> \<lparr>cmg_Cert = ''cert'', cmg_Chain = ''chain'', cmg_PrivateKey = ''key'',
     cmg_NotBefore = Some \<lparr>ts_seconds = 0, ts_nanos = 0\<rparr>, cmg_NotAfter = Some \<lparr>ts_seconds = 9, ts_nanos = 0\<rparr>\<rparr>"

abbreviation sample_notice :: CertificateNotification where
  "sample_notice \<equiv> \<lparr>cnt_RequestId = [], cnt_Domain = ''b.com'', cnt_Status = CERT_STATUS_OTHER, cnt_Message = [],
     cnt_Certificate = Some sample_certificate\<rparr>"

text \<open>A table with a row of the domain that no longer waits, one of another domain, and one that waits.\<close>

definition certificate_row :: "string \<Rightarrow> string \<Rightarrow> string \<Rightarrow> ProvisionHostingCertificateCreate" where
  "certificate_row i domain st =
     zero_ProvisionHostingCertificateCreate\<lparr>phcc_ID := i, phcc_DomainName := domain, phcc_StatusID := st\<rparr>"

abbreviation certificate_rows :: "ProvisionHostingCertificateCreate list" where
  "certificate_rows \<equiv> [certificate_row ''pc1'' ''b.com'' ''v2'', certificate_row ''pc2'' ''a.com'' ''v1'',
     certificate_row ''pc3'' ''b.com'' ''v1'']"

definition certificate_table :: services where
  "certificate_table = (plain_services ''t'')\<lparr>sv_phcc := \<lambda>h e. case e of
     Query s (FirstProvisionHostingCertificate w) \<Rightarrow>
       (case filter (phcc_matches w) certificate_rows of
          [] \<Rightarrow> (None, Some ErrRecordNotFound) | row # _ \<Rightarrow> (Some row, None))
   | _ \<Rightarrow> (None, None)\<rparr>"

definition certificate_db :: database where
  "certificate_db = sample_db\<lparr>db_provisionStatusEnum := \<lparr>et_data = assoc_bimap
     [(''pending_action'', ''v1''), (''completed'', ''v2''), (''failed'', ''v3'')]\<rparr>\<rparr>"

theorem certificate_issued_outcome_witness:
  "let (r, h') = CertificateCreateResponseHandler certificate_table certificate_db (CertificateIssuedMsg sample_notice) []
   in r = Ret None \<and> effective certificate_table h' = [UpdatesProvisionHostingCertificate
        ((certificate_row ''pc3'' ''b.com'' ''v2'')\<lparr>phcc_Body := Some ''cert'', phcc_Chain := Some ''chain'',
           phcc_PrivateKey := Some ''key'', phcc_NotBefore := TimestampToTime (Some \<lparr>ts_seconds = 0, ts_nanos = 0\<rparr>),
           phcc_NotAfter := TimestampToTime (Some \<lparr>ts_seconds = 9, ts_nanos = 0\<rparr>)\<rparr>)]"
proof -
  let ?run = "CertificateCreateResponseHandler certificate_table certificate_db (CertificateIssuedMsg sample_notice) []"
  have ids: "GetProvisionStatusId certificate_db ''pending_action'' = ''v1''"
    "GetProvisionStatusId certificate_db ''completed'' = ''v2''"
    by (simp_all add: certificate_db_def GetProvisionStatusId_def GetByKey_def assoc_bimap_def)
  have "first_certificate_row certificate_table certificate_rows"
    by (simp add: first_certificate_row_def certificate_table_def)
  moreover have "\<forall>h e. sv_err certificate_table h e = None" "\<forall>e. \<not> sv_connect_error certificate_table e"
    by (simp_all add: certificate_table_def)
  moreover have "filter (waits_for_certificate certificate_db sample_notice) certificate_rows =
      [certificate_row ''pc3'' ''b.com'' ''v1'']"
    by (simp add: waits_for_certificate_def certificate_row_def ids)
  ultimately show ?thesis
    using certificate_issued_outcome [of certificate_table certificate_rows certificate_db sample_notice "[]" "fst ?run" "snd ?run"] ids
    by (simp add: case_prod_beta certificate_row_def)
qed

abbreviation hosting_rows :: "Hosting list" where
  "hosting_rows \<equiv>
     [zero_Hosting\<lparr>hos_ID := ''h1'', hos_DomainName := ''a.com'', hos_TenantCustomerID := ''c1'', hos_IsActive := True\<rparr>,
      zero_Hosting\<lparr>hos_ID := ''h2'', hos_DomainName := ''b.com'', hos_TenantCustomerID := ''c2'', hos_IsActive := True\<rparr>]"

definition hosting_table :: services where
  "hosting_table = (plain_services ''t'')\<lparr>sv_hosting := \<lambda>h e. case e of
     Query s (FirstHosting w) \<Rightarrow>
       (case filter (hosting_matches w) hosting_rows of
          [] \<Rightarrow> (None, Some ErrRecordNotFound) | row # _ \<Rightarrow> (Some row, None))
   | _ \<Rightarrow> (None, None)\<rparr>"

text \<open>The renewal for b.com is ordered for the hosting of a.com, which belongs to another customer.\<close>

theorem certificate_renewal_outcome_witness:
  "let h' = snd (CertificateRenewResponseHandler hosting_table sample_db (CertificateRenewedMsg sample_notice) [])
   in \<exists>order. effective hosting_table h' = [OrderNextStatusStmt ''o2'' True, CreateOrderRow order] \<and>
        ouh_HostingID (ord_OrderItemUpdateHosting order) = ''h1'' \<and> ord_TenantCustomerID order = ''c1''"
proof -
  let ?run = "CertificateRenewResponseHandler hosting_table sample_db (CertificateRenewedMsg sample_notice) []"
  have "first_matching hosting_table hosting_rows" by (simp add: first_matching_def hosting_table_def)
  moreover have "\<forall>h e. sv_err hosting_table h e = None" "\<forall>e. \<not> sv_connect_error hosting_table e"
    by (simp_all add: hosting_table_def)
  moreover have "sv_order_id hosting_table = (\<lambda>h e. ''o2'')"
    by (simp add: hosting_table_def plain_services_def sample_services_def)
  moreover have "\<forall>row \<in> set hosting_rows. hos_ID row \<noteq> []" by simp
  moreover have "renewal_target hosting_rows sample_notice = Some (hd hosting_rows)"
    by (simp add: renewal_target_def)
  ultimately show ?thesis
    using certificate_renewal_outcome [of hosting_table hosting_rows sample_notice sample_certificate
        "\<lparr>ts_seconds = 0, ts_nanos = 0\<rparr>" "\<lparr>ts_seconds = 9, ts_nanos = 0\<rparr>" sample_db "[]" "fst ?run" "snd ?run"]
    by auto
qed

end
