(* ===== verification/DW_Update_Spec.thy ===== *)
theory DW_Update_Spec
  imports DW_Update "HOL-Library.Multiset"
begin

text \<open>
  What an update request does at the registry. The specification applies the request to the state the
  registry reported: a nameserver or status of the add block is there afterwards, one of the remove
  block is not, everything else is as before.
\<close>

section \<open>Specification\<close>

text \<open>A \<^verbatim>\<open>range\<close> over a map visits every key once.\<close>

definition range_ok :: "services \<Rightarrow> bool" where
  "range_ok S \<longleftrightarrow> (\<forall>h ks. mset (sv_range S h ks) = mset ks)"

definition block_names :: "DomainAddRemBlock \<Rightarrow> string set" where
  "block_names b = set (arb_Nameservers b) \<union> ha_Name ` set (arb_Nsattributes b)"

text \<open>The state after a request; without a request nothing changes.\<close>

definition new_nameservers :: "DomainUpdateRequest option \<Rightarrow> DomainInfoResponse \<Rightarrow> string set" where
  "new_nameservers r info =
     (case r of
        None \<Rightarrow> set (din_Nameservers info)
      | Some req \<Rightarrow> set (din_Nameservers info) \<union> block_names (block (dur_Add req)) - block_names (block (dur_Rem req)))"

definition new_statuses :: "DomainUpdateRequest option \<Rightarrow> DomainInfoResponse \<Rightarrow> string set" where
  "new_statuses r info =
     (case r of
        None \<Rightarrow> set (din_Statuses info)
      | Some req \<Rightarrow> set (din_Statuses info) \<union> set (arb_Status (block (dur_Add req)))
                      - set (arb_Status (block (dur_Rem req))))"

text \<open>What the job asks for.\<close>

definition wanted_names :: "Nameserver option list option \<Rightarrow> string set" where
  "wanted_names nss = {ns_Name n |n. Some n \<in> set (go_slice nss)}"

definition wanted_locks :: "DomainUpdateData \<Rightarrow> bool \<Rightarrow> string set" where
  "wanted_locks data v =
     {s. \<exists>name. map_of (go_slice (dud_Locks data)) name = Some v \<and> LocksToEppStatus name = Some s}"

section \<open>What each step leaves alone\<close>

text \<open>The four sets a request is judged by.\<close>

definition parts :: "DomainUpdateRequest \<Rightarrow> string set \<times> string set \<times> string set \<times> string set" where
  "parts req =
     (block_names (block (dur_Add req)), block_names (block (dur_Rem req)),
      set (arb_Status (block (dur_Add req))), set (arb_Status (block (dur_Rem req))))"

definition asked :: "DomainInfoResponse \<Rightarrow> DomainInfoResponse option \<Rightarrow> bool" where
  "asked info i \<longleftrightarrow> i = None \<or> i = Some info"

lemma block_simps [simp]: "block (Some b) = b" "block None = empty_block"
  by (simp_all add: block_def)

lemma range_map_set:
  assumes "range_ok S"
  shows "set (range_map S h m) = {(k, v). map_of m k = Some v}"
proof -
  have "set (sv_range S h (map fst m)) = set (map fst m)"
    using assms unfolding range_ok_def by (metis set_mset_mset)
  moreover have "set (List.map_filter f xs) = {y. \<exists>x \<in> set xs. f x = Some y}"
    for f :: "string \<Rightarrow> (string \<times> 'a) option" and xs
    by (induction xs) (auto simp: List.map_filter_simps split: option.split)
  ultimately show ?thesis
    by (auto simp: range_map_def) (metis fst_conv image_iff map_of_SomeD)
qed

text \<open>A registry that always gives the same answer is known after the first question.\<close>

lemma info_for_same:
  assumes "\<And>h e. sv_reply S h e = Inr (DomainInfoResponseMsg info)" "asked info i"
  shows "ends (\<lambda>r _. r = Inr info) (getDomainInfoIfNeeded S i name acc)"
  using assms
  by (auto simp: ends_wp getDomainInfoIfNeeded_def DW_getDomainInfo_def bus_Call_def asked_def wp split: option.split)

lemma bnd_info:
  assumes "\<And>h e. sv_reply S h e = Inr (DomainInfoResponseMsg info)" "asked info i" "ends Q (f (Inr info))"
  shows "ends Q (bnd (getDomainInfoIfNeeded S i name acc) f)"
  using info_for_same [OF assms(1,2)] assms(3) unfolding ends_def bnd_Ret_iff by metis

lemma removed_contacts_asked:
  assumes "\<And>h e. sv_reply S h e = Inr (DomainInfoResponseMsg info)" "asked info i"
  shows "ends (\<lambda>r _. \<forall>i' removed'. r = Inr (i', removed') \<longrightarrow> asked info i')
           (removed_contacts S tx data cset cs i removed)"
  using assms(2)
proof (induction cs arbitrary: i removed)
  case Nil
  then show ?case by (auto intro!: ends_rules)
next
  case (Cons c cs)
  have "asked info (Some info)" by (simp add: asked_def)
  then show ?case
    using Cons by (auto simp: Let_def intro!: ends_if bnd_info [OF assms(1)])
qed

lemma rem_contacts_asked:
  assumes "\<And>h e. sv_reply S h e = Inr (DomainInfoResponseMsg info)" "asked info i"
  shows "ends (\<lambda>r _. \<forall>i' b'. r = Inr (i', b') \<longrightarrow> asked info i' \<and>
             block_names (block b') = block_names (block b) \<and> arb_Status (block b') = arb_Status (block b))
           (rem_contacts S data cs i b)"
  using assms(2)
proof (induction cs arbitrary: i b)
  case Nil
  then show ?case by (auto intro!: ends_rules)
next
  case (Cons c cs)
  have "asked info (Some info)" by (simp add: asked_def)
  moreover have "block_names (block b\<lparr>arb_Contacts := x\<rparr>) = block_names (block b)" for x
    by (simp add: block_names_def)
  ultimately show ?case
    using Cons.IH [of _ "Some (block b)"] Cons.IH [of _ "Some (block b\<lparr>arb_Contacts := _\<rparr>)"] Cons.prems
    by (auto simp: Let_def intro!: ends_if bnd_info [OF assms(1)])
qed

lemma add_contacts_parts:
  "add_contacts cs b registrant = (b', registrant') \<Longrightarrow>
     block_names (block b') = block_names (block b) \<and> arb_Status (block b') = arb_Status (block b)"
  by (induction cs b registrant rule: add_contacts.induct) (auto simp: block_names_def split: if_splits)

lemma processContacts_parts:
  "ends (\<lambda>(registrant, b') _. block_names b' = block_names (block b) \<and> arb_Status b' = arb_Status (block b))
     (processContacts S cs b)"
  by (auto simp: ends_wp processContacts_def wp Let_def block_names_def split: prod.split)

lemma update_contacts_parts:
  assumes R: "\<And>h e. sv_reply S h e = Inr (DomainInfoResponseMsg info)" and i: "asked info (us_DomainInfo us)"
  shows "ends (\<lambda>r _. \<forall>us'. r = Inr us' \<longrightarrow> parts (us_Request us') = parts (us_Request us) \<and>
                asked info (us_DomainInfo us')) (update_contacts S tx data domain us)"
proof -
  let ?Q = "\<lambda>r _. \<forall>us'. r = Inr us' \<longrightarrow> parts (us_Request us') = parts (us_Request us) \<and>
                asked info (us_DomainInfo us')"
  have fin: "ends ?Q (ret (Inr \<lparr>us_Request = (us_Request us)\<lparr>dur_Add := b, dur_Rem := b'\<rparr>, us_Registrant = rg, us_DomainInfo = i'\<rparr>))"
    if "block_names (block b) = block_names (block (dur_Add (us_Request us)))"
      "arb_Status (block b) = arb_Status (block (dur_Add (us_Request us)))"
      "block_names (block b') = block_names (block (dur_Rem (us_Request us)))"
      "arb_Status (block b') = arb_Status (block (dur_Rem (us_Request us)))" "asked info i'" for b b' rg i'
    using that by (intro ends_ret) (simp add: parts_def)
  have "ends ?Q (replace_contacts S tx data domain all us)" for all
    unfolding replace_contacts_def Let_def
    apply (rule ends_bnd_with [OF processContacts_parts], clarsimp)
    apply (rule ends_bnd)
    apply (rule ends_bnd_with [OF removed_contacts_asked [OF R i]])
    apply (rule ends_case_sum_eq)
     apply (rule ends_ret, simp)
    apply (clarsimp, rule ends_bnd_with [OF processContacts_parts], clarsimp)
    apply (rule fin)
        apply simp_all
    done
  moreover have "ends ?Q (bnd (rem_contacts S data cs (us_DomainInfo us) (dur_Rem (us_Request us))) (\<lambda>r. case r of
                  Inl e \<Rightarrow> ret (Inl e)
                | Inr (domainInfo, rem) \<Rightarrow>
                    ret (Inr \<lparr>us_Request = (us_Request us)\<lparr>dur_Add := b, dur_Rem := rem\<rparr>,
                              us_Registrant = rg, us_DomainInfo = domainInfo\<rparr>)))"
    if "add_contacts ad (dur_Add (us_Request us)) (us_Registrant us) = (b, rg)" for cs ad b rg
    apply (rule ends_bnd_with [OF rem_contacts_asked [OF R i]])
    apply (rule ends_case_sum_eq)
     apply (rule ends_ret, simp)
    apply (clarsimp, rule fin)
        apply (use add_contacts_parts [OF that] in simp_all)
    done
  moreover have "ends ?Q (ret (Inr us))" using i by (intro ends_ret) simp
  ultimately show ?thesis
    unfolding update_contacts_def by (auto simp: Let_def split: option.split prod.split)
qed

section \<open>What the steps add\<close>

abbreviation names :: "Nameserver option list \<Rightarrow> string set" where
  "names nss \<equiv> {ns_Name n |n. Some n \<in> set nss}"

lemma names_Cons: "names (Some n # nss) = insert (ns_Name n) (names nss)"
  by auto

lemma filter_nameservers_names:
  "ends (\<lambda>r _. names r = {x \<in> names nss. keep x}) (filter_nameservers keep nss)"
proof (induction nss)
  case (Cons ns nss)
  show ?case
  proof (cases ns)
    case (Some n)
    then show ?thesis
      by simp (rule ends_bnd_with [OF Cons], rule ends_ret, auto simp: names_Cons simp del: list.set)
  qed (simp add: ends_rules)
qed (simp add: ends_rules)

lemma populate_parts:
  "block_names (populateNSAddRemBlock hos nss b) = block_names b \<union> names nss \<and>
   arb_Status (populateNSAddRemBlock hos nss b) = arb_Status b"
  by (induction hos nss b rule: populateNSAddRemBlock.induct)
     (auto simp: block_names_def host_attribute_def)

lemma add_nameservers_parts:
  assumes R: "\<And>h e. sv_reply S h e = Inr (DomainInfoResponseMsg info)" and i: "asked info (us_DomainInfo us)"
    and p: "parts (us_Request us) = (a, r, sa, sr)"
  shows "ends (\<lambda>x _. \<forall>us'. x = Inr us' \<longrightarrow> asked info (us_DomainInfo us') \<and>
      parts (us_Request us') =
        (a \<union> (wanted_names (dun_Add (dud_Nameservers data)) - set (din_Nameservers info)), r, sa, sr))
     (add_nameservers S data hos us)"
proof (cases "go_slice (dun_Add (dud_Nameservers data)) = []")
  case True
  then show ?thesis using i p by (auto simp: add_nameservers_def wanted_names_def intro!: ends_ret)
next
  case False
  then show ?thesis
    using p
    by (auto simp: add_nameservers_def Let_def parts_def populate_parts wanted_names_def asked_def
        intro!: bnd_info [OF R i] ends_bnd_with [OF filter_nameservers_names] ends_ret)
qed

lemma rem_nameservers_parts:
  assumes R: "\<And>h e. sv_reply S h e = Inr (DomainInfoResponseMsg info)" and i: "asked info (us_DomainInfo us)"
    and p: "parts (us_Request us) = (a, r, sa, sr)"
  shows "ends (\<lambda>x _. \<forall>us'. x = Inr us' \<longrightarrow> asked info (us_DomainInfo us') \<and>
      parts (us_Request us') =
        (a, r \<union> (wanted_names (dun_Rem (dud_Nameservers data)) \<inter> set (din_Nameservers info)), sa, sr))
     (rem_nameservers S data hos us)"
proof (cases "go_slice (dun_Rem (dud_Nameservers data)) = []")
  case True
  then show ?thesis using i p by (auto simp: rem_nameservers_def wanted_names_def intro!: ends_ret)
next
  case False
  then show ?thesis
    using p
    by (auto simp: rem_nameservers_def Let_def parts_def populate_parts wanted_names_def asked_def
        intro!: bnd_info [OF R i] ends_bnd_with [OF filter_nameservers_names] ends_ret)
qed

lemma process_lock_parts:
  "parts req = (a, r, sa, sr) \<Longrightarrow>
   parts (process_lock statuses locks req) =
     (a, r, sa \<union> {s. \<exists>n. (n, True) \<in> set locks \<and> LocksToEppStatus n = Some s \<and> s \<notin> set statuses},
      sr \<union> {s. \<exists>n. (n, False) \<in> set locks \<and> LocksToEppStatus n = Some s \<and> s \<in> set statuses})"
proof (induction statuses locks req arbitrary: sa sr rule: process_lock.induct)
  case (2 statuses name v locks req)
  let ?req = "case LocksToEppStatus name of None \<Rightarrow> req
        | Some s \<Rightarrow> if v then (if s \<notin> set statuses then req\<lparr>dur_Add := add_status s (dur_Add req)\<rparr> else req)
            else (if s \<in> set statuses then req\<lparr>dur_Rem := add_status s (dur_Rem req)\<rparr> else req)"
  have req: "parts ?req =
     (a, r, sa \<union> {s. v \<and> LocksToEppStatus name = Some s \<and> s \<notin> set statuses},
      sr \<union> {s. \<not> v \<and> LocksToEppStatus name = Some s \<and> s \<in> set statuses})"
    using "2.prems" by (auto simp: parts_def add_status_def block_names_def split: option.split)
  show ?case unfolding process_lock.simps "2.IH" [OF req] by (cases v) auto
qed simp

lemma update_locks_parts:
  assumes R: "\<And>h e. sv_reply S h e = Inr (DomainInfoResponseMsg info)" and i: "asked info (us_DomainInfo us)"
    and p: "parts (us_Request us) = (a, r, sa, sr)" and ok: "range_ok S"
  shows "ends (\<lambda>x _. \<forall>us'. x = Inr us' \<longrightarrow>
      parts (us_Request us') =
        (a, r, sa \<union> (wanted_locks data True - set (din_Statuses info)),
         sr \<union> (wanted_locks data False \<inter> set (din_Statuses info)))) (update_locks S data us)"
proof (cases "dud_Locks data")
  case None
  then show ?thesis using p by (auto simp: update_locks_def wanted_locks_def go_slice_def intro!: ends_ret)
next
  case (Some locks)
  have "wanted_locks data True - set (din_Statuses info) =
      {s. \<exists>n. (n, True) \<in> set (range_map S h locks) \<and> LocksToEppStatus n = Some s \<and> s \<notin> set (din_Statuses info)}"
    "wanted_locks data False \<inter> set (din_Statuses info) =
      {s. \<exists>n. (n, False) \<in> set (range_map S h locks) \<and> LocksToEppStatus n = Some s \<and> s \<in> set (din_Statuses info)}" for h
    using Some by (auto simp: range_map_set [OF ok] wanted_locks_def go_slice_def)
  then have "ends (\<lambda>req _. parts req =
        (a, r, sa \<union> (wanted_locks data True - set (din_Statuses info)),
         sr \<union> (wanted_locks data False \<inter> set (din_Statuses info)))) (processLocks S data info (us_Request us))"
    using Some process_lock_parts [OF p]
    by (auto simp: processLocks_def ends_wp wp)
  then show ?thesis
    using Some by (auto simp: update_locks_def intro!: bnd_info [OF R i] ends_bnd_with ends_ret)
qed

lemma LocksToEppStatus_inj: "LocksToEppStatus a = Some s \<Longrightarrow> LocksToEppStatus b = Some s \<Longrightarrow> a = b"
  by (auto simp: LocksToEppStatus_def split: if_splits)

lemma wanted_locks_disjoint: "wanted_locks data True \<inter> wanted_locks data False = {}"
  by (auto simp: wanted_locks_def dest: LocksToEppStatus_inj)

lemma ends_step_with:
  assumes "ends Q m" "\<And>x s. Q (Inr x) s \<Longrightarrow> ends Q' (f x)" "\<And>e s. Q' (Inl e) s"
  shows "ends Q' (step m f)"
  unfolding step_def by (rule ends_bnd_with [OF assms(1)]) (auto intro!: ends_case_sum_eq ends_ret assms(2,3))

lemma processExtensions_parts: "DW_processExtensions S data req = Inr req' \<Longrightarrow> parts req' = parts req"
  by (auto simp: DW_processExtensions_def Let_def parts_def split: option.splits if_splits sum.splits)

lemma toDomainUpdateRequest_parts:
  assumes R: "\<And>h e. sv_reply S h e = Inr (DomainInfoResponseMsg info)" and ok: "range_ok S"
  shows "ends (\<lambda>x _. \<forall>r. x = Inr r \<longrightarrow> (\<exists>req. (r = None \<and> no_changes req \<or> r = Some req) \<and>
      parts req =
        (wanted_names (dun_Add (dud_Nameservers data)) - set (din_Nameservers info),
         wanted_names (dun_Rem (dud_Nameservers data)) \<inter> set (din_Nameservers info),
         wanted_locks data True - set (din_Statuses info), wanted_locks data False \<inter> set (din_Statuses info))))
     (toDomainUpdateRequest S tx data hos)" (is "ends ?Q _")
proof -
  have chg: "parts (us_Request (update_chg data us)) = parts (us_Request us)"
    "us_DomainInfo (update_chg data us) = us_DomainInfo us" for us
    by (simp_all add: update_chg_def Let_def parts_def)
  let ?req = "\<lparr>dur_Name = dud_Name data, dur_Add = None, dur_Rem = None, dur_Chg = None, dur_Extensions = []\<rparr>"
  let ?us = "\<lparr>us_Request = ?req, us_Registrant = None, us_DomainInfo = None\<rparr>"
  have us: "asked info (us_DomainInfo ?us)" "parts ?req = ({}, {}, {}, {})"
    by (simp_all add: asked_def parts_def block_names_def empty_block_def)
  show ?thesis
    unfolding toDomainUpdateRequest_def
    apply (rule ends_bnd, clarsimp, rule ends_case_option [rotated], rule ends_ret, simp)
    apply (rule ends_step_with [OF update_contacts_parts [OF R us(1)]], simp add: us(2))
     apply (rule ends_step_with [OF add_nameservers_parts [OF R]], simp add: chg, simp add: chg)
      apply (rule ends_step_with [OF rem_nameservers_parts [OF R]], simp, simp)
       apply (rule ends_step_with [OF update_locks_parts [OF R _ _ ok]], simp, simp)
        apply (rule ends_case_sum_eq, rule ends_ret, simp, rule ends_ret)
        apply (drule processExtensions_parts)
        apply auto
    done
qed

section \<open>Properties\<close>

text \<open>
  C24. An update request brings about what the job asks for. Applied to the state the registry
  reported, it leaves the domain with the nameservers it had and the ones to add, without the ones to
  remove, and with exactly the wanted locks: a lock asked for is set, a lock asked away is gone, every
  other status and nameserver is as before. When no request is made, that state is already there.
\<close>

theorem update_request_effect:
  assumes "toDomainUpdateRequest S tx data hostObjectSupported h = (Ret (Inr r), h')"
    "\<And>h e. sv_reply S h e = Inr (DomainInfoResponseMsg info)" "range_ok S"
    "wanted_names (dun_Add (dud_Nameservers data)) \<inter> wanted_names (dun_Rem (dud_Nameservers data)) = {}"
  shows "new_nameservers r info =
       set (din_Nameservers info) \<union> wanted_names (dun_Add (dud_Nameservers data))
         - wanted_names (dun_Rem (dud_Nameservers data)) \<and>
     new_statuses r info = set (din_Statuses info) \<union> wanted_locks data True - wanted_locks data False"
proof -
  obtain req where req: "r = None \<and> no_changes req \<or> r = Some req" "parts req =
        (wanted_names (dun_Add (dud_Nameservers data)) - set (din_Nameservers info),
         wanted_names (dun_Rem (dud_Nameservers data)) \<inter> set (din_Nameservers info),
         wanted_locks data True - set (din_Statuses info), wanted_locks data False \<inter> set (din_Statuses info))"
    using endsD [OF toDomainUpdateRequest_parts [OF assms(2,3)] assms(1)] by blast
  have "r = None \<Longrightarrow> parts req = ({}, {}, {}, {})"
    using req(1) by (auto simp: no_changes_def parts_def block_names_def empty_block_def)
  then show ?thesis
    using req assms(4) wanted_locks_disjoint [of data]
    by (auto simp: parts_def new_nameservers_def new_statuses_def split: option.split)
qed

definition update_info :: DomainInfoResponse where
  "update_info = \<lparr>din_Clid = [], din_CreatedDate = None, din_ExpiryDate = None, din_TransferredDate = None,
     din_Statuses = [''clientHold''], din_Hosts = None, din_Contacts = [], din_Nameservers = [''ns1''],
     din_Extensions = [], din_RegistryResponse = None\<rparr>"

definition update_services :: services where
  "update_services = sample_services (plain_job ''t'') (\<lambda>e. None) (Inr (DomainInfoResponseMsg update_info))"

abbreviation sample_ns :: "string \<Rightarrow> Nameserver option" where
  "sample_ns n \<equiv> Some \<lparr>ns_Name = n, ns_IpAddresses = None\<rparr>"

definition update_sample :: DomainUpdateData where
  "update_sample = zero_DomainUpdateData
     \<lparr>dud_Nameservers := \<lparr>dun_Add = Some [sample_ns ''ns2''], dun_Rem = Some [sample_ns ''ns1'']\<rparr>,
      dud_Locks := Some [(''transfer'', True), (''hold'', False)]\<rparr>"

lemma update_services_simps:
  "sv_reply update_services h e = Inr (DomainInfoResponseMsg update_info)" "range_ok update_services"
  "sv_domain update_services h e = (Some zero_Domain, None)"
  by (simp_all add: update_services_def sample_services_def range_ok_def)

theorem update_request_effect_witness:
  "\<exists>r h'. toDomainUpdateRequest update_services sample_db update_sample True [] = (Ret (Inr r), h') \<and>
     new_nameservers r update_info = {''ns2''} \<and> new_statuses r update_info = {''clientTransferProhibited''}"
proof -
  have "case fst (toDomainUpdateRequest update_services sample_db update_sample True []) of
      Ret (Inr r) \<Rightarrow> True | _ \<Rightarrow> False"
    by code_simp
  then obtain r h' where run: "toDomainUpdateRequest update_services sample_db update_sample True [] = (Ret (Inr r), h')"
    by (cases "toDomainUpdateRequest update_services sample_db update_sample True []")
       (auto split: outcome.splits sum.splits)
  have names: "wanted_names (dun_Add (dud_Nameservers update_sample)) = {''ns2''}"
      "wanted_names (dun_Rem (dud_Nameservers update_sample)) = {''ns1''}"
    by (auto simp: wanted_names_def update_sample_def go_slice_def)
  have set_locks: "map_of [(''transfer'', True), (''hold'', False)] n = Some v \<longleftrightarrow>
      n = ''transfer'' \<and> v \<or> n = ''hold'' \<and> \<not> v" for n v
    by simp
  have epp: "LocksToEppStatus ''transfer'' = Some ''clientTransferProhibited''"
    "LocksToEppStatus ''hold'' = Some ''clientHold''"
    by code_simp+
  have locks: "wanted_locks update_sample True = {''clientTransferProhibited''}"
      "wanted_locks update_sample False = {''clientHold''}"
    unfolding wanted_locks_def update_sample_def go_slice_def by (auto simp: set_locks epp simp del: map_of.simps)
  from update_request_effect [OF run update_services_simps(1,2)] run show ?thesis
    by (intro exI conjI) (auto simp: names locks update_info_def)
qed

text \<open>
  A comment promises that no request is made when there is nothing to change. Asking for
  nameservers the domain already has makes one all the same: its add block is allocated before the
  filtered list turns out to be empty, so an update with an empty add block goes to the registry.
\<close>

theorem update_empty_request:
  assumes "dud_Contacts data = None" "dud_Pw data = None" "dud_Locks data = None" "dud_SecDNSData data = None"
    "go_slice (dun_Rem (dud_Nameservers data)) = []" "go_slice (dun_Add (dud_Nameservers data)) = map Some nss"
    "nss \<noteq> []" "ns_Name ` set nss \<subseteq> set (din_Nameservers info)"
    "\<And>h e. sv_reply S h e = Inr (DomainInfoResponseMsg info)" "\<And>h e. sv_domain S h e = (d, None)"
  shows "fst (toDomainUpdateRequest S tx data hostObjectSupported h) =
     Ret (Inr (Some \<lparr>dur_Name = dud_Name data, dur_Add = Some empty_block, dur_Rem = None, dur_Chg = None,
                     dur_Extensions = []\<rparr>))"
proof -
  have "filter_nameservers (\<lambda>n. n \<notin> set (din_Nameservers info)) (map Some nss) = ret []"
    using assms(8) by (induction nss) auto
  then show ?thesis
    using assms
    by (simp add: toDomainUpdateRequest_def GetDomain_def first_row_def perform_def bnd_def ret_def step_def
        update_contacts_def update_chg_def add_nameservers_def rem_nameservers_def update_locks_def
        getDomainInfoIfNeeded_def DW_getDomainInfo_def bus_Call_def DW_processExtensions_def no_changes_def Let_def)
qed

theorem update_empty_request_witness:
  "fst (toDomainUpdateRequest update_services sample_db
      (zero_DomainUpdateData\<lparr>dud_Nameservers := \<lparr>dun_Add = Some [sample_ns ''ns1''], dun_Rem = None\<rparr>\<rparr>) True []) =
     Ret (Inr (Some \<lparr>dur_Name = [], dur_Add = Some empty_block, dur_Rem = None, dur_Chg = None, dur_Extensions = []\<rparr>))"
  using update_empty_request
    [of "zero_DomainUpdateData\<lparr>dud_Nameservers := \<lparr>dun_Add = Some [sample_ns ''ns1''], dun_Rem = None\<rparr>\<rparr>"
      "[\<lparr>ns_Name = ''ns1'', ns_IpAddresses = None\<rparr>]" update_info update_services "Some zero_Domain" sample_db True "[]"]
  by (simp add: zero_DomainUpdateData_def go_slice_def update_info_def update_services_simps)

end
