(* ===== verification/Crons.thy ===== *)
theory Crons
  imports DU_Common Request_Protocol Go_Strings
begin

text \<open>
  The scheduled jobs of \<^verbatim>\<open>crons/handlers\<close> that work on the database: purging deleted domains
  (\<^verbatim>\<open>domain_purge_handler.go\<close>), following up pending transfers in (\<^verbatim>\<open>transfer_in_handler.go\<close>) and
  transfers away (\<^verbatim>\<open>transfer_away_handler.go\<close>), and the router (\<^verbatim>\<open>service.go\<close>). They run outside any
  transaction. Each walks over a batch of rows and logs the errors of single rows.
\<close>

section \<open>Asking the registry\<close>

definition CR_getDomainInfo ::
  "services \<Rightarrow> string \<Rightarrow> AccreditationRow \<Rightarrow> (hist, gerr + DomainInfoResponse) go" where
  "CR_getDomainInfo S domainName acc =
     bnd (bus_Call S (GetTransformQueue (ac_Name acc)) (DomainInfoRequestMsg domainName None)) (\<lambda>r.
     ret (case r of
            Inl e \<Rightarrow> Inl e
          | Inr (DomainInfoResponseMsg m) \<Rightarrow> Inr m
          | Inr m \<Rightarrow> Inl (ErrNew (''unexpected message type received for domain info response: '' @ sv_type_name S m))))"

section \<open>Purging deleted domains\<close>

definition DefaultPurgeableDomainsBatchSize :: int where
  "DefaultPurgeableDomainsBatchSize = 100"

definition deleteDomain :: "services \<Rightarrow> database \<Rightarrow> string \<Rightarrow> (hist, gerr option) go" where
  "deleteDomain S db domainId = DeleteDomainWithReason S db domainId ''deleted''"

definition object_missing :: "RegistryResponse option \<Rightarrow> bool" where
  "object_missing response =
     (GetEppCode response = EppCode_ObjectDoesNotExist \<or>
      go_contains (ToLower (GetEppMessage response)) ''object does not exist'' \<or>
      go_contains (ToLower (GetEppMessage response)) ''object not found'')"

definition processDomainPurge :: "services \<Rightarrow> database \<Rightarrow> VDomain \<Rightarrow> (hist, gerr option) go" where
  "processDomainPurge S db domain =
     bnd (deref (vd_Name domain)) (\<lambda>domainName.
     bnd (GetDomainAccreditation S db domainName) (\<lambda>(found, err).
     case err of
       Some e \<Rightarrow> ret (Some (ErrWrap ''error getting accreditation by id'' e))
     | None \<Rightarrow>
         bnd (deref found) (\<lambda>(_, acc).
         bnd (CR_getDomainInfo S domainName acc) (\<lambda>r.
         case r of
           Inl e \<Rightarrow> ret (Some (ErrWrap (''error getting domain info for domain['' @ domainName @ '']'') e))
         | Inr domainInfoResp \<Rightarrow>
             (let response = din_RegistryResponse domainInfoResp in
              if GetEppCode response \<noteq> EppCode_Success then
                (if object_missing response
                 then bnd (deref (vd_ID domain)) (deleteDomain S db)
                 else ret (Some (ErrNew (''error getting domain info from registry for domain['' @ domainName @
                                         '']: '' @ GetEppMessage response))))
              else if ac_RegistrarID acc \<noteq> din_Clid domainInfoResp
              then bnd (deref (vd_ID domain)) (deleteDomain S db)
              else ret None)))))"

fun purge_loop :: "services \<Rightarrow> database \<Rightarrow> VDomain list \<Rightarrow> (hist, gerr option) go" where
  "purge_loop S db [] = ret None"
| "purge_loop S db (d # ds) =
     bnd (deref (vd_Name d)) (\<lambda>_.
     bnd (deref (vd_ID d)) (\<lambda>_.
     bnd (processDomainPurge S db d) (\<lambda>_. purge_loop S db ds)))"

definition ProcessDomainsPurge :: "services \<Rightarrow> database \<Rightarrow> (hist, gerr option) go" where
  "ProcessDomainsPurge S db =
     bnd (GetPurgeableDomains S db DefaultPurgeableDomainsBatchSize) (\<lambda>(domains, err).
     case err of
       Some e \<Rightarrow> ret (Some (ErrWrap ''failed to get purgeable domains'' e))
     | None \<Rightarrow> if domains = [] then ret None else purge_loop S db domains)"

section \<open>Pending transfers in\<close>

definition DefaultPendingTransferInBatchSize :: int where
  "DefaultPendingTransferInBatchSize = 100"

definition updateTransferRequest ::
  "services \<Rightarrow> database \<Rightarrow> ProvisionDomainTransferInRequest \<Rightarrow> string \<Rightarrow> string \<Rightarrow> (hist, gerr option) go" where
  "updateTransferRequest S db tn status transferStatus =
     bnd (UpdateProvisionDomainTransferInRequest S db
            (tn\<lparr>pdtr_StatusID := GetProvisionStatusId db status,
                pdtr_TransferStatusID := GetTransferStatusId db transferStatus\<rparr>)) (\<lambda>err.
     ret (case err of None \<Rightarrow> None | Some e \<Rightarrow> Some (ErrWrap ''error setting transfer in request status'' e)))"

text \<open>Whoever holds the domain now decides: approved if it is us, rejected otherwise.\<close>

definition owner_status :: "AccreditationRow \<Rightarrow> DomainInfoResponse \<Rightarrow> string" where
  "owner_status acc info =
     (if ac_RegistrarID acc = din_Clid info then TransferStatus_ClientApproved else TransferStatus_ClientRejected)"

definition processPendingTransferIn ::
  "services \<Rightarrow> database \<Rightarrow> ProvisionDomainTransferInRequest \<Rightarrow> DomainTransferResponse \<Rightarrow> AccreditationRow
     \<Rightarrow> (hist, gerr option) go" where
  "processPendingTransferIn S db tn msg acc =
     bnd (CR_getDomainInfo S (dtx_Name msg) acc) (\<lambda>r.
     case r of
       Inl e \<Rightarrow> ret (Some e)
     | Inr info \<Rightarrow>
         if GetEppCode (din_RegistryResponse info) \<noteq> EppCode_Success
         then ret (Some (ErrNew (''error getting domain info from registry for domain['' @ dtx_Name msg @ '']: '' @
                                 GetEppMessage (din_RegistryResponse info))))
         else updateTransferRequest S db tn ProvisionStatus_Completed (owner_status acc info))"

definition processTransferInWithStatus ::
  "services \<Rightarrow> database \<Rightarrow> ProvisionDomainTransferInRequest \<Rightarrow> DomainTransferResponse \<Rightarrow> AccreditationRow
     \<Rightarrow> (hist, gerr option) go" where
  "processTransferInWithStatus S db tn msg acc =
     (if ac_RegistrarID acc \<noteq> dtx_RequestedBy msg then
        bnd (CR_getDomainInfo S (dtx_Name msg) acc) (\<lambda>r.
        case r of
          Inl e \<Rightarrow> ret (Some e)
        | Inr info \<Rightarrow>
            if GetEppCode (din_RegistryResponse info) \<noteq> EppCode_Success
            then ret (Some (ErrNew (''error getting domain info from registry for ownership check ['' @
                                    dtx_Name msg @ '']: '' @ GetEppMessage (din_RegistryResponse info))))
            else updateTransferRequest S db tn ProvisionStatus_Completed (owner_status acc info))
      else updateTransferRequest S db tn ProvisionStatus_Completed (dtx_Status msg))"

definition processSuccessfulTransferInResponse ::
  "services \<Rightarrow> database \<Rightarrow> ProvisionDomainTransferInRequest \<Rightarrow> DomainTransferResponse \<Rightarrow> AccreditationRow
     \<Rightarrow> (hist, gerr option) go" where
  "processSuccessfulTransferInResponse S db tn msg acc =
     (if dtx_Status msg = TransferStatus_Pending then
        (if ac_RegistrarID acc \<noteq> dtx_RequestedBy msg then processPendingTransferIn S db tn msg acc
         else ret None)
      else if GetTransferStatusId db (dtx_Status msg) = []
      then ret (Some (ErrNew (''unexpected transfer status: '' @ dtx_Status msg)))
      else processTransferInWithStatus S db tn msg acc)"

definition processNotPendingTransferInResponse ::
  "services \<Rightarrow> database \<Rightarrow> ProvisionDomainTransferInRequest \<Rightarrow> DomainTransferResponse \<Rightarrow> AccreditationRow
     \<Rightarrow> (hist, gerr option) go" where
  "processNotPendingTransferInResponse = processPendingTransferIn"

definition handleTransferInResponse ::
  "services \<Rightarrow> database \<Rightarrow> ProvisionDomainTransferInRequest \<Rightarrow> DomainTransferResponse \<Rightarrow> AccreditationRow
     \<Rightarrow> (hist, gerr option) go" where
  "handleTransferInResponse S db tn msg acc =
     (let code = GetEppCode (dtx_RegistryResponse msg) in
      if code = EppCode_Success then processSuccessfulTransferInResponse S db tn msg acc
      else if code = EppCode_NotPendingTransfer then processNotPendingTransferInResponse S db tn msg acc
      else ret (Some (ErrNew (''unexpected registry response EPP code: '' @ show_i32 code))))"

definition processPendingTransfer ::
  "services \<Rightarrow> database \<Rightarrow> ProvisionDomainTransferInRequest \<Rightarrow> (hist, gerr option) go" where
  "processPendingTransfer S db tn =
     bnd (GetAccreditationById S db (pdtr_AccreditationID tn)) (\<lambda>(found, err).
     case err of
       Some e \<Rightarrow> ret (Some (ErrWrap ''error getting accreditation by id'' e))
     | None \<Rightarrow>
         bnd (deref found) (\<lambda>acc.
         bnd (bus_Call S (GetTransformQueue (ac_Name acc))
                (DomainTransferQueryRequestMsg (pdtr_DomainName tn) (pdtr_Pw tn))) (\<lambda>r.
         case r of
           Inl e \<Rightarrow> ret (Some e)
         | Inr (DomainTransferResponseMsg m) \<Rightarrow> handleTransferInResponse S db tn m acc
         | Inr m \<Rightarrow> ret (Some (ErrNew (''unexpected message type received for domain transfer in query response: ''
                                       @ sv_type_name S m))))))"

fun transfer_in_loop ::
  "services \<Rightarrow> database \<Rightarrow> ProvisionDomainTransferInRequest list \<Rightarrow> (hist, gerr option) go" where
  "transfer_in_loop S db [] = ret None"
| "transfer_in_loop S db (tn # tns) =
     bnd (processPendingTransfer S db tn) (\<lambda>_. transfer_in_loop S db tns)"

definition ProcessPendingTransferInRequestMessage :: "services \<Rightarrow> database \<Rightarrow> (hist, gerr option) go" where
  "ProcessPendingTransferInRequestMessage S db =
     bnd (GetExpiredPendingProvisionDomainTransferInRequests S db DefaultPendingTransferInBatchSize)
       (\<lambda>(pendingTransferIns, err).
     case err of
       Some e \<Rightarrow> ret (Some (ErrWrap ''error getting pending transfer in requests'' e))
     | None \<Rightarrow> if pendingTransferIns = [] then ret None else transfer_in_loop S db pendingTransferIns)"

section \<open>Pending transfers away\<close>

definition DefaultTransferAwayOrdersBatchSize :: int where
  "DefaultTransferAwayOrdersBatchSize = 100"

definition CR_updateTransferStatus :: "services \<Rightarrow> database \<Rightarrow> string \<Rightarrow> string \<Rightarrow> (hist, gerr option) go" where
  "CR_updateTransferStatus S db orderItemID status =
     UpdateTransferAwayDomain S db
       (zero_OrderItemTransferAwayDomain\<lparr>ota_ID := Some orderItemID, ota_TransferStatusID := GetTransferStatusId db status\<rparr>)"

definition mark_transfer ::
  "string \<Rightarrow> services \<Rightarrow> database \<Rightarrow> VOrderTransferAwayDomain \<Rightarrow> (hist, gerr option) go" where
  "mark_transfer status S db order =
     bnd (CR_updateTransferStatus S db (vota_OrderItemID order) status) (\<lambda>err.
     case err of
       Some e \<Rightarrow> ret (Some (ErrWrap (''failed to update transfer status for order['' @ vota_OrderID order @ '']'') e))
     | None \<Rightarrow> OrderNextStatus S db (vota_OrderID order) True)"

definition markTransferServerApproved ::
  "services \<Rightarrow> database \<Rightarrow> VOrderTransferAwayDomain \<Rightarrow> (hist, gerr option) go" where
  "markTransferServerApproved = mark_transfer TransferStatus_ServerApproved"

definition markTransferClientApproved ::
  "services \<Rightarrow> database \<Rightarrow> VOrderTransferAwayDomain \<Rightarrow> (hist, gerr option) go" where
  "markTransferClientApproved = mark_transfer TransferStatus_ClientApproved"

definition CR_handlePendingTransfer ::
  "services \<Rightarrow> database \<Rightarrow> VOrderTransferAwayDomain \<Rightarrow> (hist, gerr option) go" where
  "CR_handlePendingTransfer S db order =
     bnd (GetTLDSetting S db (vota_AccreditationTldID order) ''tld.lifecycle.transfer_server_auto_approve_supported'')
       (\<lambda>(tldSettings, err).
     case err of
       Some e \<Rightarrow> ret (Some (ErrWrap ''failed to get TLD setting'' e))
     | None \<Rightarrow>
         bnd (deref tldSettings) (\<lambda>setting.
         case ParseBool (vat_Value setting) of
           Inl e \<Rightarrow> ret (Some (ErrWrap ''failed to parse auto-transfer approval setting'' e))
         | Inr True \<Rightarrow> ret None
         | Inr False \<Rightarrow> markTransferClientApproved S db order))"

definition processTransferAwayOrder ::
  "services \<Rightarrow> database \<Rightarrow> VOrderTransferAwayDomain \<Rightarrow> (hist, gerr option) go" where
  "processTransferAwayOrder S db order =
     bnd (GetAccreditationById S db (vota_AccreditationID order)) (\<lambda>(found, err).
     case err of
       Some e \<Rightarrow> ret (Some (ErrWrap ''error getting accreditation by id'' e))
     | None \<Rightarrow>
         bnd (deref found) (\<lambda>acc.
         bnd (CR_getDomainInfo S (vota_DomainName order) acc) (\<lambda>r.
         case r of
           Inl e \<Rightarrow> ret (Some (ErrWrap (''error getting domain info for domain['' @ vota_DomainName order @ '']'') e))
         | Inr info \<Rightarrow>
             if GetEppCode (din_RegistryResponse info) \<noteq> EppCode_Success
             then ret (Some (ErrNew (''error getting domain info from registry for domain['' @ vota_DomainName order @
                                     '']: '' @ GetEppMessage (din_RegistryResponse info))))
             else if ac_RegistrarID acc \<noteq> din_Clid info then markTransferServerApproved S db order
             else CR_handlePendingTransfer S db order)))"

fun transfer_away_loop :: "services \<Rightarrow> database \<Rightarrow> VOrderTransferAwayDomain list \<Rightarrow> (hist, gerr option) go" where
  "transfer_away_loop S db [] = ret None"
| "transfer_away_loop S db (order # orders) =
     bnd (processTransferAwayOrder S db order) (\<lambda>_. transfer_away_loop S db orders)"

definition ProcessTransferAwayOrders :: "services \<Rightarrow> database \<Rightarrow> (hist, gerr option) go" where
  "ProcessTransferAwayOrders S db =
     bnd (GetActionableTransferAwayOrders S db DefaultTransferAwayOrdersBatchSize) (\<lambda>(orders, err).
     case err of
       Some e \<Rightarrow> ret (Some (ErrWrap ''failed to get actionable transfer away orders'' e))
     | None \<Rightarrow> if orders = [] then ret None else transfer_away_loop S db orders)"

section \<open>The router\<close>

text \<open>The fourth job drains the event table; it is the argument \<open>enqueue\<close> here.\<close>

definition CronRouter :: "services \<Rightarrow> database \<Rightarrow> (hist, gerr option) go \<Rightarrow> string \<Rightarrow> (hist, gerr option) go" where
  "CronRouter S db enqueue cronType =
     (let wrap = (\<lambda>text m. bnd m (\<lambda>err. ret (case err of None \<Rightarrow> None | Some e \<Rightarrow> Some (ErrWrap text e)))) in
      if cronType = ''transfer-in-cron''
      then wrap ''error processing pending transfer in request message'' (ProcessPendingTransferInRequestMessage S db)
      else if cronType = ''transfer-away-cron''
      then wrap ''error processing created transfer away orders'' (ProcessTransferAwayOrders S db)
      else if cronType = ''domain-purge-cron''
      then wrap ''error processing domain purge'' (ProcessDomainsPurge S db)
      else if cronType = ''event-enqueue-cron'' then enqueue
      else ret (Some (ErrNew (''unknown service type: '' @ cronType))))"

end
