(* ===== verification/Crons_Spec.thy ===== *)
theory Crons_Spec
  imports Crons Sample
begin

text \<open>
  What the scheduled jobs promise: a purge deletes only what the registry no longer holds for us and
  goes through the whole batch, and a pending transfer in is settled by the holder of the domain.
\<close>

section \<open>Reading a history\<close>

text \<open>The domains deleted, each with the history before its deletion, and the domains looked up.\<close>

fun deletions :: "hist \<Rightarrow> (string \<times> hist) list" where
  "deletions [] = []"
| "deletions (Exec s (DeleteDomainStmt i reason) # h) = (i, h) # deletions h"
| "deletions (e # h) = deletions h"

fun inquired :: "hist \<Rightarrow> string list" where
  "inquired [] = []"
| "inquired (Query s (ScanDomainAccreditation name) # h) = inquired h @ [name]"
| "inquired (e # h) = inquired h"

text \<open>
  The registry has just been asked about a domain of the batch, under the accreditation just read,
  and has answered that the domain does not exist or that it belongs to another registrar.
\<close>

definition gone :: "AccreditationRow \<Rightarrow> DomainInfoResponse \<Rightarrow> bool" where
  "gone acc info =
     (if GetEppCode (din_RegistryResponse info) = EppCode_Success then ac_RegistrarID acc \<noteq> din_Clid info
      else object_missing (din_RegistryResponse info))"

definition confirmed_gone :: "services \<Rightarrow> VDomain list \<Rightarrow> string \<Rightarrow> hist \<Rightarrow> bool" where
  "confirmed_gone S batch i h \<longleftrightarrow>
     (\<exists>d \<in> set batch. \<exists>name s acc dom info h0. vd_ID d = Some i \<and> vd_Name d = Some name \<and>
        (let ask = Query s (ScanDomainAccreditation name);
             call = BusCall (GetTransformQueue (ac_Name acc)) (DomainInfoRequestMsg name None)
         in h = call # ask # h0 \<and> sv_dacc S h0 ask = (Some (dom, acc), None) \<and>
            sv_reply S (ask # h0) call = Inr (DomainInfoResponseMsg info) \<and> gone acc info))"

definition purge_batch :: "services \<Rightarrow> database \<Rightarrow> hist \<Rightarrow> VDomain list \<times> gerr option" where
  "purge_batch S db h =
     sv_vds S h (Query (db_gorm db)
       (ScanPurgeableDomains (GetRgpStatusId db ''redemption_grace_period'') (sv_now S h 0)
          DefaultPurgeableDomainsBatchSize))"

section \<open>The purge of one domain\<close>

text \<open>What a question to the registry and a read of the accreditation return.\<close>

definition info_answer :: "services \<Rightarrow> string \<Rightarrow> AccreditationRow \<Rightarrow> hist \<Rightarrow> gerr + DomainInfoResponse" where
  "info_answer S domainName acc h =
     (case sv_reply S h (BusCall (GetTransformQueue (ac_Name acc)) (DomainInfoRequestMsg domainName None)) of
        Inl e \<Rightarrow> Inl (ErrWrap ''error sending message'' e)
      | Inr (DomainInfoResponseMsg m) \<Rightarrow> Inr m
      | Inr (ErrorResponseMsg er) \<Rightarrow> Inl (ErrNew (''error response from message bus: '' @ er_Message er))
      | Inr m \<Rightarrow> Inl (ErrNew (''unexpected message type received for domain info response: '' @ sv_type_name S m)))"

lemma info_answer_Inr: "info_answer S domainName acc h = Inr info \<longleftrightarrow>
   sv_reply S h (BusCall (GetTransformQueue (ac_Name acc)) (DomainInfoRequestMsg domainName None)) =
     Inr (DomainInfoResponseMsg info)"
  by (auto simp: info_answer_def split: sum.split message.split)

lemma wp_CR_getDomainInfo [wp]:
  "wp (CR_getDomainInfo S domainName acc) Q h =
     Q (Ret (info_answer S domainName acc h))
       (BusCall (GetTransformQueue (ac_Name acc)) (DomainInfoRequestMsg domainName None) # h)"
proof (cases "sv_reply S h (BusCall (GetTransformQueue (ac_Name acc)) (DomainInfoRequestMsg domainName None))")
  case (Inr m)
  then show ?thesis
    by (cases m) (simp_all add: CR_getDomainInfo_def bus_Call_def wp info_answer_def)
qed (simp add: CR_getDomainInfo_def bus_Call_def wp info_answer_def)

definition accreditation_answer ::
  "services \<Rightarrow> hist \<Rightarrow> event \<Rightarrow> (Domain \<times> AccreditationRow) option \<times> gerr option" where
  "accreditation_answer S h e =
     (case sv_dacc S h e of
        (row, Some e) \<Rightarrow> (None, Some e)
      | (None, None) \<Rightarrow> (None, Some ErrNotFound)
      | (Some r, None) \<Rightarrow> (Some r, None))"

lemma wp_GetDomainAccreditation [wp]:
  "wp (GetDomainAccreditation S db domainName) Q h =
     (let e = Query (db_gorm db) (ScanDomainAccreditation domainName)
      in Q (Ret (accreditation_answer S h e)) (e # h))"
  by (auto simp: GetDomainAccreditation_def accreditation_answer_def wp Let_def split: prod.split option.split)

lemma accreditation_answer_cases:
  obtains (err) e where "accreditation_answer S h q = (None, Some e)"
    | (row) dom acc where "accreditation_answer S h q = (Some (dom, acc), None)" "sv_dacc S h q = (Some (dom, acc), None)"
proof (cases "sv_dacc S h q")
  case (Pair row e)
  then show thesis
    by (cases row; cases e) (auto simp: accreditation_answer_def intro: that)
qed

lemma wp_delete [wp]:
  "wp (deleteDomain S db i) Q h =
     (let e = Exec (db_gorm db) (DeleteDomainStmt i ''deleted''); err = sv_err S h e in
      if (\<exists>x. err = Some x \<and> sv_connect_error S x) then Q Exited (e # h) else Q (Ret err) (e # h))"
  by (auto simp: deleteDomain_def DeleteDomainWithReason_def exec_or_die_def wp Let_def split: option.split)

definition sound_deletions :: "services \<Rightarrow> VDomain list \<Rightarrow> hist \<Rightarrow> hist \<Rightarrow> bool" where
  "sound_deletions S batch h h' \<longleftrightarrow>
     set (deletions h') \<subseteq> set (deletions h) \<union> {(i, b). confirmed_gone S batch i b}"

lemma sound_deletions_refl [simp]: "sound_deletions S batch h h"
  by (simp add: sound_deletions_def)

lemma sound_deletions_step [simp]:
  "sound_deletions S batch h (Query s q # h') = sound_deletions S batch h h'"
  "sound_deletions S batch h (BusCall q' m # h') = sound_deletions S batch h h'"
  "sound_deletions S batch h h' \<Longrightarrow> confirmed_gone S batch i h' \<Longrightarrow>
     sound_deletions S batch h (Exec s (DeleteDomainStmt i r) # h')"
  by (auto simp: sound_deletions_def)

lemma sound_deletions_trans:
  "sound_deletions S batch h h' \<Longrightarrow> sound_deletions S batch h' h'' \<Longrightarrow> sound_deletions S batch h h''"
  by (auto simp: sound_deletions_def)

lemma processDomainPurge_sound:
  assumes "d \<in> set batch"
  shows "wp (processDomainPurge S db d) (\<lambda>_. sound_deletions S batch h) h"
proof (cases "vd_Name d")
  case None
  then show ?thesis by (simp add: processDomainPurge_def wp)
next
  case (Some name)
  let ?ask = "Query (db_gorm db) (ScanDomainAccreditation name)"
  show ?thesis
  proof (cases rule: accreditation_answer_cases [of S h ?ask])
    case (err e)
    then show ?thesis using Some by (simp add: processDomainPurge_def wp Let_def)
  next
    case (row dom acc)
    let ?call = "BusCall (GetTransformQueue (ac_Name acc)) (DomainInfoRequestMsg name None)"
    have "confirmed_gone S batch i (?call # ?ask # h)"
      if "vd_ID d = Some i" "info_answer S name acc (?ask # h) = Inr info" "gone acc info" for i info
      using that assms Some row(2) unfolding confirmed_gone_def Let_def info_answer_Inr by blast
    then show ?thesis
      using Some row(1)
      by (cases "vd_ID d") (auto simp: processDomainPurge_def wp Let_def gone_def split: sum.split)
  qed
qed

lemma purge_loop_sound:
  "set ds \<subseteq> set batch \<Longrightarrow> sound_deletions S batch h0 h \<Longrightarrow> wp (purge_loop S db ds) (\<lambda>_. sound_deletions S batch h0) h"
proof (induction ds arbitrary: h)
  case (Cons d ds)
  have step: "wp (processDomainPurge S db d) (\<lambda>_. sound_deletions S batch h0) h"
    using Cons.prems by (auto intro: wp_mono [OF processDomainPurge_sound] sound_deletions_trans)
  show ?case
    using Cons.IH Cons.prems(1)
    by (cases "vd_Name d"; cases "vd_ID d")
       (auto simp: wp Cons.prems(2) intro!: wp_mono [OF step] split: outcome.split)
qed (simp add: wp)

text \<open>A purge never stops in the middle when the rows are complete and the connection holds.\<close>

lemma inquired_step [simp]:
  "inquired (BusCall q m # h) = inquired h" "inquired (Exec s q' # h) = inquired h"
  by simp_all

lemma processDomainPurge_inquires:
  assumes "vd_Name d = Some name" "vd_ID d = Some i" "\<And>e. \<not> sv_connect_error S e"
  shows "wp (processDomainPurge S db d)
     (\<lambda>r h'. (\<exists>err. r = Ret err) \<and> inquired h' = inquired h @ [name]) h"
proof (cases rule: accreditation_answer_cases [of S h "Query (db_gorm db) (ScanDomainAccreditation name)"])
  case (err e)
  then show ?thesis using assms by (simp add: processDomainPurge_def wp Let_def)
next
  case (row dom acc)
  then show ?thesis
    using assms by (auto simp: processDomainPurge_def wp Let_def split: sum.split)
qed

lemma purge_loop_inquires:
  assumes "\<forall>d \<in> set ds. vd_Name d \<noteq> None \<and> vd_ID d \<noteq> None" "\<And>e. \<not> sv_connect_error S e"
  shows "wp (purge_loop S db ds) (\<lambda>r h'. r = Ret None \<and> inquired h' = inquired h @ map (the \<circ> vd_Name) ds) h"
  using assms(1)
proof (induction ds arbitrary: h)
  case (Cons d ds)
  then obtain name i where d: "vd_Name d = Some name" "vd_ID d = Some i" by auto
  have rest: "wp (purge_loop S db ds) (\<lambda>r h'. r = Ret None \<and> inquired h' = inquired h1 @ map (the \<circ> vd_Name) ds) h1" for h1
    using Cons.IH Cons.prems by (auto simp: comp_def)
  show ?case
    by (auto simp: d wp intro!: wp_mono [OF processDomainPurge_inquires [OF d assms(2)]] wp_mono [OF rest])
qed (simp add: wp)

lemma wp_GetPurgeableDomains [wp]:
  "wp (GetPurgeableDomains S db n) Q h =
     (let e = Query (db_gorm db) (ScanPurgeableDomains (GetRgpStatusId db ''redemption_grace_period'') (sv_now S h 0) n)
      in Q (Ret (sv_vds S h e)) (e # h))"
  by (simp add: GetPurgeableDomains_def wp Let_def)

section \<open>Properties of the purge\<close>

text \<open>
  C10. The purge deletes a domain only when the registry, asked about that very domain just before,
  answered that it does not exist or that it belongs to another registrar, and only domains of the
  batch selected at the start. This holds on every run, whatever the database and the bus answer.
\<close>

theorem purge_deletes_confirmed:
  "set (deletions (snd (ProcessDomainsPurge S db h))) \<subseteq>
     set (deletions h) \<union> {(i, b). confirmed_gone S (fst (purge_batch S db h)) i b}"
proof -
  have "wp (ProcessDomainsPurge S db) (\<lambda>_. sound_deletions S (fst (purge_batch S db h)) h) h"
    by (auto simp: ProcessDomainsPurge_def wp Let_def purge_batch_def intro!: purge_loop_sound
        split: prod.split option.split)
  then show ?thesis by (simp add: wp_iff sound_deletions_def)
qed

text \<open>
  A domain that cannot be purged does not stop the others: with complete rows and an unbroken
  database connection the job returns without error and has asked about every domain of the batch,
  once and in order, whatever goes wrong for a single one.
\<close>

theorem purge_covers_batch:
  assumes "purge_batch S db h = (batch, None)" "\<forall>d \<in> set batch. vd_Name d \<noteq> None \<and> vd_ID d \<noteq> None"
    "\<And>e. \<not> sv_connect_error S e"
  shows "wp (ProcessDomainsPurge S db)
     (\<lambda>r h'. r = Ret None \<and> inquired h' = inquired h @ map (the \<circ> vd_Name) batch) h"
  using assms(1) unfolding purge_batch_def
  by (auto simp: ProcessDomainsPurge_def wp Let_def intro!: wp_mono [OF purge_loop_inquires [OF assms(2,3)]])

definition cron_services :: "VDomain list \<Rightarrow> (gerr + message) \<Rightarrow> services" where
  "cron_services ds reply = (sample_services (plain_job ''t'') (\<lambda>e. None) reply)\<lparr>sv_vds := (\<lambda>h e. (ds, None))\<rparr>"

abbreviation sample_domain :: "string \<Rightarrow> VDomain" where
  "sample_domain n \<equiv> zero_VDomain\<lparr>vd_Name := Some n, vd_ID := Some (n @ ''-id'')\<rparr>"

theorem purge_covers_batch_witness:
  "wp (ProcessDomainsPurge (cron_services [sample_domain ''a'', sample_domain ''b''] (Inl (ErrNew ''down''))) sample_db)
     (\<lambda>r h'. r = Ret None \<and> inquired h' = [''a'', ''b'']) []"
  using purge_covers_batch [of "cron_services [sample_domain ''a'', sample_domain ''b''] (Inl (ErrNew ''down''))"
      sample_db "[]" "[sample_domain ''a'', sample_domain ''b'']"]
  by (simp add: purge_batch_def cron_services_def sample_services_def)

section \<open>Pending transfers in\<close>

text \<open>
  The transfer status a pending transfer in ends with, from the registry's answer to the transfer
  query and, where it is asked for, the domain info; \<open>None\<close> leaves it pending. The holder of the domain
  decides unless the registry reports a final status of a transfer that we requested.
\<close>

definition settles_as ::
  "database \<Rightarrow> AccreditationRow \<Rightarrow> DomainTransferResponse \<Rightarrow> gerr + DomainInfoResponse \<Rightarrow> string option" where
  "settles_as db acc m answer =
     (let code = GetEppCode (dtx_RegistryResponse m);
          ours = (ac_RegistrarID acc = dtx_RequestedBy m);
          holder = (case answer of
                      Inl e \<Rightarrow> None
                    | Inr info \<Rightarrow> if GetEppCode (din_RegistryResponse info) = EppCode_Success
                                  then Some (owner_status acc info) else None)
      in if code = EppCode_NotPendingTransfer then holder
         else if code \<noteq> EppCode_Success then None
         else if dtx_Status m = TransferStatus_Pending then (if ours then None else holder)
         else if GetTransferStatusId db (dtx_Status m) = [] then None
         else if ours then Some (dtx_Status m) else holder)"

text \<open>
  C13. One pending transfer in whose accreditation is found and whose transfer query is answered: the
  job writes the row exactly when the specification gives a status, with that status and completed, as its
  only and last write; otherwise it writes nothing.
\<close>

theorem transfer_in_settles:
  fixes S db tn h acc m
  defines "ask \<equiv> Query (db_gorm db) (FirstAccreditation ''id'' (pdtr_AccreditationID tn))"
  defines "call \<equiv> BusCall (GetTransformQueue (ac_Name acc)) (DomainTransferQueryRequestMsg (pdtr_DomainName tn) (pdtr_Pw tn))"
  assumes "sv_acc S h ask = (Some acc, None)" "sv_reply S (ask # h) call = Inr (DomainTransferResponseMsg m)"
    "\<And>e. \<not> sv_connect_error S e"
  shows "wp (processPendingTransfer S db tn)
     (\<lambda>r h'. case settles_as db acc m (info_answer S (dtx_Name m) acc (call # ask # h)) of
         None \<Rightarrow> filter is_write h' = filter is_write h
       | Some st \<Rightarrow> \<exists>h1. filter is_write h1 = filter is_write h \<and>
           h' = Exec (db_gorm db) (UpdatesProvisionDomainTransferInRequest
                  (tn\<lparr>pdtr_StatusID := GetProvisionStatusId db ''completed'',
                      pdtr_TransferStatusID := GetTransferStatusId db st\<rparr>)) # h1) h"
proof -
  have update: "wp (updateTransferRequest S db tn st ts) Q h' =
      (let e = Exec (db_gorm db) (UpdatesProvisionDomainTransferInRequest
             (tn\<lparr>pdtr_StatusID := GetProvisionStatusId db st, pdtr_TransferStatusID := GetTransferStatusId db ts\<rparr>))
       in Q (Ret (map_option (ErrWrap ''error setting transfer in request status'') (sv_err S h' e))) (e # h'))"
    for st ts Q h'
    using assms(5)
    by (auto simp: updateTransferRequest_def UpdateProvisionDomainTransferInRequest_def exec_or_die_def wp Let_def
        split: option.split)
  have run: "wp (processPendingTransfer S db tn) Q h = wp (handleTransferInResponse S db tn m acc) Q (call # ask # h)" for Q
    using assms(3,4)
    by (simp add: processPendingTransfer_def GetAccreditationById_def first_row_def bus_Call_def wp ask_def call_def)
  have calls: "filter is_write (call # ask # h) = filter is_write h"
    by (simp add: call_def ask_def)
  show ?thesis
    unfolding run
    by (auto simp: handleTransferInResponse_def processSuccessfulTransferInResponse_def
        processNotPendingTransferInResponse_def processPendingTransferIn_def processTransferInWithStatus_def
        wp update settles_as_def Let_def calls [simplified] split: sum.split option.split)
qed

definition transfer_answer :: "string \<Rightarrow> DomainTransferResponse" where
  "transfer_answer st =
     \<lparr>dtx_Name = ''a.b'', dtx_Status = st, dtx_RequestedBy = ''us'', dtx_RequestedDate = None, dtx_ActionBy = [],
      dtx_ActionDate = None, dtx_ExpiryDate = None, dtx_RegistryResponse = Some (sample_rr True 1000)\<rparr>"

abbreviation transfer_services :: services where
  "transfer_services \<equiv> cron_services [] (Inr (DomainTransferResponseMsg (transfer_answer ''completed'')))"

theorem transfer_in_settles_witness:
  "wp (processPendingTransfer transfer_services sample_db zero_ProvisionDomainTransferInRequest)
     (\<lambda>r h'. \<exists>h1. h' = Exec Pool (UpdatesProvisionDomainTransferInRequest
        (zero_ProvisionDomainTransferInRequest\<lparr>pdtr_StatusID := ''s4'', pdtr_TransferStatusID := ''s4''\<rparr>)) # h1) []"
proof -
  have "sv_acc transfer_services h e = (Some (zero_AccreditationRow\<lparr>ac_RegistrarID := ''us''\<rparr>), None)"
    "sv_reply transfer_services h e = Inr (DomainTransferResponseMsg (transfer_answer ''completed''))"
    "\<not> sv_connect_error transfer_services x" for h e x
    by (simp_all add: cron_services_def sample_services_def)
  moreover have "settles_as sample_db (zero_AccreditationRow\<lparr>ac_RegistrarID := ''us''\<rparr>) (transfer_answer ''completed'') answer
      = Some ''completed''" for answer
    by (simp add: settles_as_def transfer_answer_def Let_def GetEppCode_def sample_db_def sample_statuses_def
        GetTransferStatusId_def GetByKey_def assoc_bimap_def)
  moreover have "GetProvisionStatusId sample_db ''completed'' = ''s4''" "GetTransferStatusId sample_db ''completed'' = ''s4''"
    "db_gorm sample_db = Pool"
    by (simp_all add: sample_db_def sample_statuses_def GetTransferStatusId_def GetProvisionStatusId_def GetByKey_def
        assoc_bimap_def)
  ultimately show ?thesis
    using transfer_in_settles [of transfer_services "[]" sample_db zero_ProvisionDomainTransferInRequest
        "zero_AccreditationRow\<lparr>ac_RegistrarID := ''us''\<rparr>" "transfer_answer ''completed''"]
    by (auto intro: wp_mono)
qed

end
