(* ===== verification/Poll_Worker.thy ===== *)
theory Poll_Worker
  imports Crons
begin

text \<open>
  The poll worker, \<^verbatim>\<open>poll_worker/handlers\<close>: storing the poll messages the registry interface delivers
  (\<^verbatim>\<open>ry_poll_message_handler.go\<close>) and processing the stored ones: the router
  (\<^verbatim>\<open>poll_message_handler_router.go\<close>), pending actions and transfers in both directions. The two
  sentinel errors of \<^verbatim>\<open>types.go\<close> are package variables; here they are error values of their text.
\<close>

section \<open>Names in poll messages\<close>

definition label_char :: "char \<Rightarrow> bool" where
  "label_char c = (let n = of_char c :: nat in (97 \<le> n \<and> n \<le> 122) \<or> (48 \<le> n \<and> n \<le> 57) \<or> n = 45)"

definition space_char :: "char \<Rightarrow> bool" where
  "space_char c = ((of_char c :: nat) \<in> {9, 10, 12, 13, 32})"

definition drop_quote :: "string \<Rightarrow> string" where
  "drop_quote s = (case s of c # t \<Rightarrow> if c = CHR 0x27 then t else s | [] \<Rightarrow> [])"

text \<open>
  The regular expression of \<^verbatim>\<open>ExtractDomainName\<close>, after its first group: an optional quote, at least two
  non-empty labels joined by dots, an optional quote, then the end or a space. A label can only be
  followed by a dot, a quote, a space or the end, so the labels and dots matched are the longest run
  of such characters.
\<close>

definition match_name :: "string \<Rightarrow> string option" where
  "match_name s =
     (let s = drop_quote s;
          name = takeWhile (\<lambda>c. label_char c \<or> c = CHR ''.'') s;
          rest = drop_quote (dropWhile (\<lambda>c. label_char c \<or> c = CHR ''.'') s);
          labels = split_dot [] name
      in if 2 \<le> length labels \<and> [] \<notin> set labels \<and> (rest = [] \<or> space_char (hd rest)) then Some name else None)"

text \<open>The leftmost match: at the start of the text or after a space.\<close>

fun match_after_space :: "string \<Rightarrow> string option" where
  "match_after_space [] = None"
| "match_after_space (c # s) =
     (case (if space_char c then match_name s else None) of Some d \<Rightarrow> Some d | None \<Rightarrow> match_after_space s)"

definition ExtractDomainName :: "string \<Rightarrow> string" where
  "ExtractDomainName s =
     (case match_name s of Some d \<Rightarrow> d | None \<Rightarrow> (case match_after_space s of Some d \<Rightarrow> d | None \<Rightarrow> []))"

definition GetTrnData :: "PollMessage \<Rightarrow> EppPollTrnData option" where
  "GetTrnData m = (case wpm_Data m of Some (TrnData d) \<Rightarrow> Some d | _ \<Rightarrow> None)"

definition GetRenData :: "PollMessage \<Rightarrow> EppPollRenData option" where
  "GetRenData m = (case wpm_Data m of Some (RenData d) \<Rightarrow> Some d | _ \<Rightarrow> None)"

definition GetPanData :: "PollMessage \<Rightarrow> EppPollPanData option" where
  "GetPanData m = (case wpm_Data m of Some (PanData d) \<Rightarrow> Some d | _ \<Rightarrow> None)"

definition GetDomainName :: "PollMessage \<Rightarrow> string" where
  "GetDomainName request =
     (case (GetRenData request, GetPanData request) of
        (Some r, p) \<Rightarrow> if ren_Name r \<noteq> [] then ren_Name r else ExtractDomainName (wpm_Msg request)
      | (None, Some p) \<Rightarrow> if pan_Name p \<noteq> [] then pan_Name p else ExtractDomainName (wpm_Msg request)
      | (None, None) \<Rightarrow> ExtractDomainName (wpm_Msg request))"

section \<open>Errors and the accreditation cache\<close>

definition ErrTempRyFailure :: gerr where "ErrTempRyFailure = ErrNew ''temporary ry failure''"
definition ErrDeferMessage :: gerr where "ErrDeferMessage = ErrNew ''defers poll message processing''"

text \<open>The cache returns what it holds for the key, or else calls the function.\<close>

definition WithCache ::
  "services \<Rightarrow> string \<Rightarrow> (hist, AccreditationRow option \<times> gerr option) go
     \<Rightarrow> (hist, AccreditationRow option \<times> gerr option) go" where
  "WithCache S key f =
     bnd (observe (\<lambda>h. sv_acc_cache S h key)) (\<lambda>cached.
     case cached of Some acc \<Rightarrow> ret (Some acc, None) | None \<Rightarrow> f)"

section \<open>Pending actions\<close>

definition PA_Matches :: "PollMessage \<Rightarrow> bool" where
  "PA_Matches msg =
     (wpm_Type msg = ''pending_action'' \<or>
      list_ex (go_contains (wpm_Msg msg)) [''Restore Completed'', ''Restore Rejected''])"

definition GetPendingActionTargetStatus :: "PollMessage \<Rightarrow> string" where
  "GetPendingActionTargetStatus request =
     (if wpm_Type request = ''unspec'' \<and> go_contains (wpm_Msg request) ''Completed'' then ''completed''
      else if (case GetPanData request of Some p \<Rightarrow> pan_PaResult p = 1 | None \<Rightarrow> False) then ''completed''
      else ''failed'')"

definition PA_Handle :: "services \<Rightarrow> database \<Rightarrow> PollMessage \<Rightarrow> (hist, gerr option) go" where
  "PA_Handle S db request =
     (let domainName = GetDomainName request in
      if domainName = [] then ret (Some (ErrNew ''no domain name found in received poll message''))
      else
        let vpd = zero_VProvisionDomain\<lparr>vpd_AccreditationName := Some (wpm_Accreditation request),
                    vpd_DomainName := Some domainName,
                    vpd_StatusID := Some (GetProvisionStatusId db ''pending_action'')\<rparr>;
            vpd = (case GetPanData request of
                     Some p \<Rightarrow> if pan_PaCltrid p \<noteq> [] then vpd\<lparr>vpd_RyCltrid := Some (pan_PaCltrid p)\<rparr> else vpd
                   | None \<Rightarrow> vpd)
        in bnd (GetVProvisionDomain S db vpd) (\<lambda>(pd, err).
           case err of
             Some e \<Rightarrow> if errors_is e ErrNotFound then ret None else ret (Some e)
           | None \<Rightarrow>
               bnd (deref pd) (\<lambda>pd.
               bnd (deref (vpd_ID pd)) (\<lambda>i.
               SetProvisionDomainStatus S db i (GetPendingActionTargetStatus request)))))"

section \<open>Transfers in\<close>

abbreviation str_value :: "string option \<Rightarrow> string" where
  "str_value s \<equiv> (case s of Some x \<Rightarrow> x | None \<Rightarrow> [])"

definition handlerTransferInRequest ::
  "services \<Rightarrow> database \<Rightarrow> EppPollTrnData \<Rightarrow> AccreditationRow \<Rightarrow> (hist, gerr option) go" where
  "handlerTransferInRequest S db request acc =
     (let name = str_value (trn_Name request); requestStatus = str_value (trn_Status request);
          finish = (\<lambda>transferData.
            let transferStatusId = GetTransferStatusId db requestStatus in
            if transferStatusId = [] then ret (Some (ErrNew (''invalid transfer status '' @ requestStatus)))
            else bnd (deref transferData) (\<lambda>tn.
                 UpdateProvisionDomainTransferInRequest S db
                   (zero_ProvisionDomainTransferInRequest
                      \<lparr>pdtr_ID := pdtr_ID tn,
                       pdtr_StatusID := GetProvisionStatusId db ProvisionStatus_Completed,
                       pdtr_TransferStatusID := transferStatusId\<rparr>)))
      in bnd (GetProvisionDomainTransferInRequest S db
                (zero_ProvisionDomainTransferInRequest
                   \<lparr>pdtr_DomainName := name,
                    pdtr_StatusID := GetProvisionStatusId db ProvisionStatus_PendingAction\<rparr>)) (\<lambda>(transferData, err).
         case err of
           Some e \<Rightarrow> if errors_is e ErrNotFound then ret None else ret (Some e)
         | None \<Rightarrow>
             if requestStatus = TransferStatus_Pending then ret None
             else if requestStatus = TransferStatus_ServerApproved then
               bnd (GetDomainAccreditation S db name) (\<lambda>(domain, dbErr).
               case (dbErr, domain) of
                 (None, Some (_, holder)) \<Rightarrow>
                   if ac_ID holder \<noteq> ac_ID acc
                   then ret (Some (ErrNote ErrDeferMessage
                          (''domain '' @ name @ '' still exists. Deferring `serverApproved` transfer-in handling.'' @
                           '' Waiting for transfer-away completion to delete this domain'')))
                   else ret (Some (ErrNew (''domain ['' @ name @ ''] is allready transferred'')))
               | _ \<Rightarrow> finish transferData)
             else finish transferData))"

section \<open>Transfers away\<close>

definition createOrderItemTransferAwayDomain ::
  "services \<Rightarrow> database \<Rightarrow> EppPollTrnData \<Rightarrow> AccreditationRow \<Rightarrow> (hist, string option \<times> gerr option) go" where
  "createOrderItemTransferAwayDomain S db request acc =
     (let name = str_value (trn_Name request) in
      bnd (GetDomainAccreditation S db name) (\<lambda>(found, err).
      case err of
        Some e \<Rightarrow> ret (None, Some (ErrWrap (''error getting domain['' @ name @ '']'') e))
      | None \<Rightarrow>
          bnd (deref found) (\<lambda>(domain, holder).
          if ac_ID holder \<noteq> ac_ID acc \<or> str_value (trn_ActionBy request) \<noteq> ac_RegistrarID holder
          then ret (None, Some (ErrNew (''domain['' @ name @ ''] is not owned by the registrar['' @ ac_Name acc @ '']'')))
          else
            bnd (TransferAwayDomainOrder S db (zero_Order
                   \<lparr>ord_TypeID := GetOrderTypeId db ''transfer_away'' ''domain'',
                    ord_TenantCustomerID := dom_TenantCustomerID domain,
                    ord_OrderItemTransferAwayDomain := zero_OrderItemTransferAwayDomain
                      \<lparr>ota_Name := name,
                       ota_TransferStatusID := GetTransferStatusId db (str_value (trn_Status request)),
                       ota_RequestedBy := str_value (trn_RequestedBy request),
                       ota_RequestedDate := AsTime (trn_RequestedDate request),
                       ota_ActionBy := str_value (trn_ActionBy request),
                       ota_ActionDate := AsTime (trn_ActionDate request),
                       ota_ExpiryDate := AsTime (trn_ExpiryDate request)\<rparr>\<rparr>)) (\<lambda>(order, err).
            case err of
              Some e \<Rightarrow> if errors_is e ErrNotFound then ret (None, None)
                         else ret (None, Some (ErrWrap ''error creating transfer away domain order'' e))
            | None \<Rightarrow> ret (Some (ord_ID order), None)))))"

definition PW_handlePendingTransfer ::
  "services \<Rightarrow> database \<Rightarrow> EppPollTrnData \<Rightarrow> AccreditationRow \<Rightarrow> (hist, gerr option) go" where
  "PW_handlePendingTransfer S db request acc =
     bnd (createOrderItemTransferAwayDomain S db request acc) (\<lambda>(_, err).
     ret (case err of
            None \<Rightarrow> None
          | Some e \<Rightarrow> Some (ErrWrap (''error handling pending transfer away order domain ['' @
                                     str_value (trn_Name request) @ '']'') e)))"

definition next_status :: "services \<Rightarrow> database \<Rightarrow> string \<Rightarrow> bool \<Rightarrow> (hist, gerr option) go" where
  "next_status S db orderId isSuccess =
     bnd (OrderNextStatus S db orderId isSuccess) (\<lambda>err.
     ret (case err of None \<Rightarrow> None | Some e \<Rightarrow> Some (ErrWrap ''failed to update order status'' e)))"

definition away_error :: "string \<Rightarrow> string \<Rightarrow> string \<Rightarrow> gerr \<Rightarrow> gerr" where
  "away_error doing name status e =
     ErrWrap (''error '' @ doing @ '' transfer away order for domain['' @ name @ ''] with '' @ status @ '' status'') e"

definition handleServerApprovedTransfer ::
  "services \<Rightarrow> database \<Rightarrow> EppPollTrnData \<Rightarrow> AccreditationRow \<Rightarrow> (hist, gerr option) go" where
  "handleServerApprovedTransfer S db request acc =
     (let name = str_value (trn_Name request) in
      bnd (GetTransferAwayOrder S db OrderStatusEnum_Created name (ac_TenantID acc)) (\<lambda>(order, err).
      case err of
        Some e \<Rightarrow>
          if \<not> errors_is e ErrNotFound then ret (Some (away_error ''getting'' name ''ServerApproved'' e))
          else bnd (createOrderItemTransferAwayDomain S db request acc) (\<lambda>(orderID, err).
               case err of
                 Some e \<Rightarrow> ret (Some (away_error ''creating'' name ''ServerApproved'' e))
               | None \<Rightarrow> bnd (deref orderID) (\<lambda>i. next_status S db i True))
      | None \<Rightarrow>
          bnd (deref order) (\<lambda>order.
          bnd (UpdateTransferAwayDomain S db (zero_OrderItemTransferAwayDomain
                 \<lparr>ota_ID := ota_ID order,
                  ota_TransferStatusID := GetTransferStatusId db TransferStatus_ServerApproved\<rparr>)) (\<lambda>err.
          case err of
            Some e \<Rightarrow> ret (Some (away_error ''updating'' name ''ServerApproved'' e))
          | None \<Rightarrow> next_status S db (ota_OrderID order) True))))"

definition cancelledTransfer ::
  "services \<Rightarrow> database \<Rightarrow> EppPollTrnData \<Rightarrow> AccreditationRow \<Rightarrow> (hist, gerr option) go" where
  "cancelledTransfer S db request acc =
     (let name = str_value (trn_Name request) in
      bnd (GetTransferAwayOrder S db OrderStatusEnum_Created name (ac_TenantID acc)) (\<lambda>(order, err).
      case err of
        Some e \<Rightarrow>
          if errors_is e ErrNotFound
          then ret (Some (ErrNote ErrDeferMessage (''transfer away order for domain '' @ name @
                 '' does not exist. Deferring clientCancelled transfer-away handling'')))
          else ret (Some (away_error ''getting'' name ''ClientCancelled'' e))
      | None \<Rightarrow>
          bnd (deref order) (\<lambda>order.
          bnd (UpdateTransferAwayDomain S db (zero_OrderItemTransferAwayDomain
                 \<lparr>ota_ID := ota_ID order,
                  ota_TransferStatusID := GetTransferStatusId db (str_value (trn_Status request))\<rparr>)) (\<lambda>err.
          case err of
            Some e \<Rightarrow> ret (Some (away_error ''updating'' name ''ClientCancelled'' e))
          | None \<Rightarrow> next_status S db (ota_OrderID order) False))))"

definition handlerTransferAwayRequest ::
  "services \<Rightarrow> database \<Rightarrow> EppPollTrnData \<Rightarrow> AccreditationRow \<Rightarrow> (hist, gerr option) go" where
  "handlerTransferAwayRequest S db request acc =
     (let requestStatus = str_value (trn_Status request) in
      if requestStatus = TransferStatus_Pending then PW_handlePendingTransfer S db request acc
      else if requestStatus = TransferStatus_ServerApproved then handleServerApprovedTransfer S db request acc
      else if requestStatus = TransferStatus_ClientCancelled \<or> requestStatus = TransferStatus_ServerCancelled
      then cancelledTransfer S db request acc
      else ret None)"

definition TR_Matches :: "PollMessage \<Rightarrow> bool" where
  "TR_Matches msg = (wpm_Type msg = ''transfer'')"

definition TR_Handle :: "services \<Rightarrow> database \<Rightarrow> PollMessage \<Rightarrow> (hist, gerr option) go" where
  "TR_Handle S db request =
     (case GetTrnData request of
        None \<Rightarrow> ret (Some (ErrNew (''missing transfer data in poll message with ID: '' @ wpm_Id request)))
      | Some data \<Rightarrow>
          bnd (WithCache S (wpm_Accreditation request) (GetAccreditationByName S db (wpm_Accreditation request)))
            (\<lambda>(found, err).
          case err of
            Some e \<Rightarrow> ret (Some e)
          | None \<Rightarrow>
              (case trn_RequestedBy data of
                 None \<Rightarrow> ret (Some (ErrNew (''missing transfer request details for poll message ID: '' @ wpm_Id request)))
               | Some requestedBy \<Rightarrow>
                   bnd (deref found) (\<lambda>acc.
                   let (kind, handle) =
                     (if requestedBy = ac_RegistrarID acc then (''transfer_in'', handlerTransferInRequest S db data acc)
                      else (''transfer_away'', handlerTransferAwayRequest S db data acc))
                   in bnd handle (\<lambda>err.
                      ret (case err of
                             None \<Rightarrow> None
                           | Some e \<Rightarrow> Some (ErrWrap (''error handling '' @ kind @
                               '' request for poll message ID: '' @ wpm_Id request) e)))))))"

section \<open>The router\<close>

datatype PollHandler = PendingActionHandler | TransferHandler

definition pollHandlers :: "PollHandler list" where
  "pollHandlers = [PendingActionHandler, TransferHandler]"

fun Matches :: "PollHandler \<Rightarrow> PollMessage \<Rightarrow> bool" where
  "Matches PendingActionHandler = PA_Matches"
| "Matches TransferHandler = TR_Matches"

fun Handle :: "PollHandler \<Rightarrow> services \<Rightarrow> database \<Rightarrow> PollMessage \<Rightarrow> (hist, gerr option) go" where
  "Handle PendingActionHandler = PA_Handle"
| "Handle TransferHandler = TR_Handle"

text \<open>The loop over the handlers: \<open>None\<close> when the message is deferred, else the last error and \<^verbatim>\<open>isHandled\<close>.\<close>

fun run_handlers ::
  "services \<Rightarrow> database \<Rightarrow> PollMessage \<Rightarrow> PollHandler list \<Rightarrow> gerr option \<times> bool
     \<Rightarrow> (hist, (gerr option \<times> bool) option) go" where
  "run_handlers S db request [] st = ret (Some st)"
| "run_handlers S db request (handler # handlers) st =
     (if Matches handler request then
        bnd (Handle handler S db request) (\<lambda>err.
        if (case err of Some e \<Rightarrow> errors_is e ErrDeferMessage | None \<Rightarrow> False) then ret None
        else run_handlers S db request handlers (err, True))
      else run_handlers S db request handlers st)"

definition close_message :: "services \<Rightarrow> database \<Rightarrow> PollMessage \<Rightarrow> gerr option \<Rightarrow> (hist, gerr option) go" where
  "close_message S db request err =
     (case err of
        Some e \<Rightarrow>
          if errors_is e ErrTempRyFailure then ret None
          else bnd (UpdatePollMessageStatus S db (wpm_Id request) PollMessageStatus_Failed) (\<lambda>dbErr.
               ret (case dbErr of Some d \<Rightarrow> Some d | None \<Rightarrow> Some e))
      | None \<Rightarrow> UpdatePollMessageStatus S db (wpm_Id request) PollMessageStatus_Processed)"

definition PollMessageHandler :: "services \<Rightarrow> database \<Rightarrow> message \<Rightarrow> (hist, gerr option) go" where
  "PollMessageHandler S db m =
     (case m of
        PollMessageMsg request \<Rightarrow>
          bnd (run_handlers S db request pollHandlers (None, False)) (\<lambda>r.
          case r of
            None \<Rightarrow> ret None
          | Some (err, isHandled) \<Rightarrow>
              close_message S db request
                (if isHandled then err
                 else Some (ErrNew (''unknown poll message \"'' @ wpm_Id request @ ''\" type: '' @ wpm_Type request))))
      | _ \<Rightarrow> go_panic ''interface conversion'')"

section \<open>Storing poll messages\<close>

definition poll_type :: "poll_data option \<Rightarrow> string" where
  "poll_type d =
     (case d of
        Some (TrnData _) \<Rightarrow> ''transfer''
      | Some (RenData _) \<Rightarrow> ''renewal''
      | Some (PanData _) \<Rightarrow> ''pending_action''
      | Some (DomainInfoPoll _) \<Rightarrow> ''domain_info''
      | Some (ContactInfoPoll _) \<Rightarrow> ''contact_info''
      | Some (HostInfoPoll _) \<Rightarrow> ''host_info''
      | None \<Rightarrow> ''unspec'')"

definition ToPollMessage :: "services \<Rightarrow> database \<Rightarrow> EppPollMessage \<Rightarrow> string \<Rightarrow> (hist, PollMessageRow) go" where
  "ToPollMessage S db message accreditation =
     bnd (observe (\<lambda>h. sv_now S h 0)) (\<lambda>now.
     ret (zero_PollMessageRow
       \<lparr>pm_Accreditation := accreditation,
        pm_EppMessageID := epm_Id message,
        pm_Msg := epm_Msg message,
        pm_Lang := (if str_value (epm_Lang message) = [] then None else epm_Lang message),
        pm_QueueDate := TimestampToTime (epm_QueueDate message),
        pm_CreatedDate := TimestampToTime (Some (timestamp_New now)),
        pm_TypeID := GetPollMessageTypeId db (poll_type (epm_Data message)),
        pm_Data := Some (case epm_Data message of
                           None \<Rightarrow> RawBad
                         | Some d \<Rightarrow> (case sv_poll_json S d of Inl e \<Rightarrow> RawBad | Inr j \<Rightarrow> Raw j))\<rparr>))"

text \<open>\<open>accreditation\<close> is the header of that name; \<open>None\<close> when there is none that is a string.\<close>

definition RyPollMessageHandler :: "services \<Rightarrow> database \<Rightarrow> string option \<Rightarrow> message \<Rightarrow> (hist, gerr option) go" where
  "RyPollMessageHandler S db accreditation m =
     (case accreditation of
        None \<Rightarrow> go_panic ''interface conversion''
      | Some [] \<Rightarrow> perform (ErrorReply ''accreditation is missing'') (sv_err S)
      | Some accreditation \<Rightarrow>
          (case m of
             EppPollMessageMsg request \<Rightarrow>
               bnd (ToPollMessage S db request accreditation) (\<lambda>pollMessage.
               bnd (CreatePollMessage S db pollMessage) (\<lambda>err.
               bnd (if (case err of Some e \<Rightarrow> errors_is e ErrPollMessageInsert | None \<Rightarrow> False)
                    then perform (Ack True) (sv_err S) else ret None) (\<lambda>_.
               bnd (perform (Reply SuccessResponseMsg) (sv_err S)) (\<lambda>_.
               ret None))))
           | _ \<Rightarrow> go_panic ''interface conversion''))"

end
