(* ===== verification/Poll_Spec.thy ===== *)
theory Poll_Spec
  imports Poll_Worker Sample
begin

text \<open>
  What processing a stored poll message promises: it is settled, or it is put off with the database
  untouched.
\<close>

section \<open>Well-behaved surroundings\<close>

text \<open>
  The driver reports no error together with no row never happens for \<^verbatim>\<open>First\<close>; its errors are not the
  sentinels of the worker's packages, which only the worker's own code uses; and the connection holds.
\<close>

abbreviation clean :: "gerr \<Rightarrow> bool" where
  "clean e \<equiv> \<not> errors_is e ErrTempRyFailure \<and> \<not> errors_is e ErrDeferMessage"

definition reads_well :: "('r option \<times> gerr option) \<Rightarrow> bool" where
  "reads_well = (\<lambda>(row, err). case err of None \<Rightarrow> row \<noteq> None | Some e \<Rightarrow> clean e)"

definition well_behaved :: "services \<Rightarrow> bool" where
  "well_behaved S \<longleftrightarrow>
     (\<forall>e. \<not> sv_connect_error S e) \<and>
     (\<forall>h q e. sv_err S h q = Some e \<longrightarrow> clean e \<and> \<not> errors_is e ErrNotFound) \<and>
     (\<forall>h q. reads_well (sv_acc S h q) \<and> reads_well (sv_pdtr S h q) \<and> reads_well (sv_ota S h q) \<and>
        reads_well (sv_vpd S h q)) \<and>
     (\<forall>h q row. sv_vpd S h q = (Some row, None) \<longrightarrow> vpd_ID row \<noteq> None) \<and>
     (\<forall>h q row e. sv_dacc S h q = (row, Some e) \<longrightarrow> clean e)"

lemma sentinels [simp]:
  "ErrNotFound \<noteq> ErrTempRyFailure" "ErrNotFound \<noteq> ErrDeferMessage"
  "ErrWrap s e \<noteq> ErrTempRyFailure" "ErrWrap s e \<noteq> ErrDeferMessage"
  "ErrNote e s \<noteq> ErrTempRyFailure" "ErrNote e s \<noteq> ErrDeferMessage" "ErrDeferMessage \<noteq> ErrTempRyFailure" "ErrTempRyFailure \<noteq> ErrDeferMessage"
  "away_error doing name st e \<noteq> ErrTempRyFailure" "away_error doing name st e \<noteq> ErrDeferMessage"
  "ErrNew t = ErrTempRyFailure \<longleftrightarrow> t = ''temporary ry failure''"
  "ErrNew t = ErrDeferMessage \<longleftrightarrow> t = ''defers poll message processing''"
  "errors_is ErrDeferMessage e' \<longleftrightarrow> e' = ErrDeferMessage"
  "errors_is (away_error doing name st e) e' = (away_error doing name st e = e' \<or> errors_is e e')"
  by (auto simp: ErrTempRyFailure_def ErrDeferMessage_def away_error_def)

section \<open>What a handler leaves behind\<close>

definition handled :: "hist \<Rightarrow> gerr option outcome \<Rightarrow> hist \<Rightarrow> bool" where
  "handled h r h' \<longleftrightarrow> (\<exists>err. r = Ret err \<and>
     (\<forall>e. err = Some e \<longrightarrow> \<not> errors_is e ErrTempRyFailure \<and>
        (errors_is e ErrDeferMessage \<longrightarrow> filter is_write h' = filter is_write h)))"

lemma handled_None [simp]: "handled h (Ret None) h'"
  by (simp add: handled_def)

lemma handled_read: "\<not> is_write q \<Longrightarrow> handled (q # h) r h' = handled h r h'"
  by (simp add: handled_def)

lemma handled_clean: "clean e \<Longrightarrow> handled h (Ret (Some e)) h'"
  by (simp add: handled_def)

lemma connected [simp]: "well_behaved S \<Longrightarrow> sv_connect_error S e = False"
  by (simp add: well_behaved_def)

lemma wp_exec [simp]:
  "well_behaved S \<Longrightarrow>
     wp (exec_or_die S db q) Q h = Q (Ret (sv_err S h (Exec (db_gorm db) q))) (Exec (db_gorm db) q # h)"
  by (auto simp: exec_or_die_def wp Let_def split: option.split)

lemma err_clean:
  assumes "well_behaved S" "sv_err S h q = Some e"
  shows "clean e" "\<not> errors_is e ErrNotFound"
  using assms by (auto simp: well_behaved_def)

lemma wp_first:
  assumes "\<And>h e. reads_well (answer h e)"
    "\<And>row. answer h (Query (db_gorm db) q) = (Some row, None) \<Longrightarrow> Q (Ret (Some row, None)) (Query (db_gorm db) q # h)"
    "\<And>row e. clean e \<Longrightarrow> Q (Ret (row, Some e)) (Query (db_gorm db) q # h)"
  shows "wp (first_row db q answer) Q h"
proof (cases "answer h (Query (db_gorm db) q)")
  case (Pair row err)
  then show ?thesis
    using assms(1) [of h "Query (db_gorm db) q"] assms(2,3)
    by (cases err; cases row) (auto simp: first_row_def wp reads_well_def)
qed

lemma well_reads:
  assumes "well_behaved S"
  shows "reads_well (sv_acc S h q)" "reads_well (sv_pdtr S h q)" "reads_well (sv_ota S h q)" "reads_well (sv_vpd S h q)"
  using assms by (simp_all add: well_behaved_def)

lemma next_status_handled:
  assumes "well_behaved S"
  shows "wp (next_status S db i ok) (\<lambda>r h'. handled h r h') h1"
  using err_clean [OF assms]
  by (auto simp: next_status_def OrderNextStatus_def wp intro!: handled_clean split: option.split)

lemma create_order:
  assumes "well_behaved S"
  shows "wp (createOrderItemTransferAwayDomain S db request acc)
     (\<lambda>r h'. \<exists>i err. r = Ret (i, err) \<and> (err = None \<longrightarrow> i \<noteq> None) \<and> (\<forall>e. err = Some e \<longrightarrow> clean e)) h"
proof -
  let ?q = "Query (db_gorm db) (ScanDomainAccreditation (str_value (trn_Name request)))"
  have acc: "clean e" if "sv_dacc S h ?q = (row, Some e)" for row e
    using assms that unfolding well_behaved_def by blast
  show ?thesis
    using err_clean [OF assms]
    by (cases "sv_dacc S h ?q")
       (auto simp: createOrderItemTransferAwayDomain_def GetDomainAccreditation_def TransferAwayDomainOrder_def wp Let_def
         split: option.split dest: acc)
qed

lemma transfer_in_handled:
  assumes "well_behaved S"
  shows "wp (handlerTransferInRequest S db request acc) (\<lambda>r h'. handled h r h') h"
proof -
  have finish: "wp (UpdateProvisionDomainTransferInRequest S db row) (\<lambda>r h'. handled h r h') h1" for row h1
    using assms err_clean [OF assms] by (cases "sv_err S h1 (Exec (db_gorm db) (UpdatesProvisionDomainTransferInRequest row))")
      (auto simp: UpdateProvisionDomainTransferInRequest_def intro: handled_clean)
  show ?thesis
    unfolding handlerTransferInRequest_def Let_def GetProvisionDomainTransferInRequest_def wp
    by (rule wp_first)
       (auto simp: well_reads assms GetDomainAccreditation_def wp finish handled_def split: option.split prod.split)
qed

lemma transfer_away_handled:
  assumes "well_behaved S"
  shows "wp (handlerTransferAwayRequest S db request acc) (\<lambda>r h'. handled h r h') h"
proof -
  have pending: "wp (PW_handlePendingTransfer S db request acc) (\<lambda>r h'. handled h r h') h"
    unfolding PW_handlePendingTransfer_def wp
    by (rule wp_mono [OF create_order [OF assms]]) (auto simp: wp intro!: handled_clean split: option.split)
  have update: "wp (bnd (UpdateTransferAwayDomain S db row) f) (\<lambda>r h'. handled h r h') h1"
    if "\<And>h'. wp (f None) (\<lambda>r h'. handled h r h') h'" "\<And>e h'. clean e \<Longrightarrow> wp (f (Some e)) (\<lambda>r h'. handled h r h') h'"
    for row f h1
    using assms err_clean [OF assms] that
    by (cases "sv_err S h1 (Exec (db_gorm db) (UpdatesTransferAwayDomain row))")
       (auto simp: UpdateTransferAwayDomain_def wp)
  have next_status: "wp (next_status S db i ok) (\<lambda>r h'. handled h r h') h1" for i ok h1
    using wp_mono [OF next_status_handled [OF assms]] by blast
  have created: "wp (bnd (createOrderItemTransferAwayDomain S db request acc) f) (\<lambda>r h'. handled h r h') h1"
    if "\<And>i h'. wp (f (Some i, None)) (\<lambda>r h'. handled h r h') h'"
      "\<And>i e h'. clean e \<Longrightarrow> wp (f (i, Some e)) (\<lambda>r h'. handled h r h') h'" for f h1
    unfolding wp_bnd
  proof (rule wp_mono [OF create_order [OF assms]], elim exE conjE)
    fix r h' err and i :: "string option"
    assume r: "r = Ret (i, err)" "err = None \<longrightarrow> i \<noteq> None" "\<forall>e. err = Some e \<longrightarrow> clean e"
    then show "case r of Ret a \<Rightarrow> wp (f a) (\<lambda>r h'. handled h r h') h' | Panicked p \<Rightarrow> handled h (Panicked p) h'
        | Exited \<Rightarrow> handled h Exited h'"
      by (cases err; cases i) (simp_all add: that)
  qed
  have approved: "wp (handleServerApprovedTransfer S db request acc) (\<lambda>r h'. handled h r h') h"
    unfolding handleServerApprovedTransfer_def Let_def GetTransferAwayOrder_def
  proof (subst wp_bnd, rule wp_first, goal_cases)
    case (2 row)
    then show ?case by (simp add: wp_ret) (rule update; simp add: next_status wp_ret handled_clean)
  next
    case (3 row e)
    then show ?case
      by (cases "errors_is e ErrNotFound")
         (simp_all add: wp_ret handled_clean, (rule created; simp add: next_status wp_ret handled_clean))
  qed (simp add: well_reads assms)
  have cancelled: "wp (cancelledTransfer S db request acc) (\<lambda>r h'. handled h r h') h"
    unfolding cancelledTransfer_def Let_def GetTransferAwayOrder_def
  proof (subst wp_bnd, rule wp_first, goal_cases)
    case (2 row)
    then show ?case by (simp add: wp_ret) (rule update; simp add: next_status wp_ret handled_clean)
  next
    case (3 row e)
    then show ?case
      by (cases "errors_is e ErrNotFound") (simp_all add: wp_ret handled_clean, simp add: handled_def)
  qed (simp add: well_reads assms)
  show ?thesis
    by (simp add: handlerTransferAwayRequest_def Let_def pending approved cancelled wp_ret)
qed

lemma handled_wrap: "handled h (Ret err) h' \<Longrightarrow> handled h (Ret (map_option (ErrWrap s) err)) h'"
  by (auto simp: handled_def)

lemma transfer_handled:
  assumes "well_behaved S"
  shows "wp (TR_Handle S db request) (\<lambda>r h'. handled h r h') h"
proof (cases "GetTrnData request")
  case (Some data)
  have wrap: "wp (bnd m (\<lambda>err. ret (case err of None \<Rightarrow> None | Some e \<Rightarrow> Some (ErrWrap s e)))) (\<lambda>r h'. handled h2 r h') h1"
    if m: "wp m (\<lambda>r h'. handled h2 r h') h1" for m s h1 h2
    unfolding wp_bnd
    by (rule wp_mono [OF m]) (auto simp: handled_def wp_ret split: outcome.split option.split)
  define f where "f = (\<lambda>(found, err).
    case err of
      Some e \<Rightarrow> ret (Some e)
    | None \<Rightarrow>
        (case trn_RequestedBy data of
           None \<Rightarrow> ret (Some (ErrNew (''missing transfer request details for poll message ID: '' @ wpm_Id request)))
         | Some requestedBy \<Rightarrow>
             bnd (deref found) (\<lambda>acc.
             let (kind, handle) =
               (if requestedBy = ac_RegistrarID acc then (''transfer_in'', handlerTransferInRequest S db data acc)
                else (''transfer_away'', handlerTransferAwayRequest S db data acc))
             in bnd handle (\<lambda>err.
                ret (case err of
                       None \<Rightarrow> None
                     | Some e \<Rightarrow> Some (ErrWrap (''error handling '' @ kind @
                         '' request for poll message ID: '' @ wpm_Id request) e))))))"
  have run: "TR_Handle S db request =
      bnd (WithCache S (wpm_Accreditation request) (GetAccreditationByName S db (wpm_Accreditation request))) f"
    by (simp add: TR_Handle_def Some f_def)
  have found: "wp (f (Some acc, None)) (\<lambda>r h'. handled h1 r h') h1" for acc h1
    by (auto simp: f_def wp_ret handled_clean Let_def split: option.split
        intro!: wrap transfer_in_handled transfer_away_handled assms)
  have failed: "clean e \<Longrightarrow> wp (f (acc, Some e)) (\<lambda>r h'. handled h r h') h1" for acc e h1
    by (simp add: f_def wp_ret handled_clean)
  show ?thesis
  proof (cases "sv_acc_cache S h (wpm_Accreditation request)")
    case None
    have "wp (bnd (GetAccreditationByName S db (wpm_Accreditation request)) f) (\<lambda>r h'. handled h r h') h"
      unfolding GetAccreditationByName_def wp_bnd
    proof (rule wp_first, goal_cases)
      case (2 row)
      then show ?case
        using found [of row "Query (db_gorm db) (FirstAccreditation ''name'' (wpm_Accreditation request)) # h"]
        by (simp add: handled_read)
    qed (simp_all add: well_reads assms failed)
    then show ?thesis
      unfolding run using None by (simp add: WithCache_def bnd_assoc wp_bnd [of "observe g" for g] wp_observe)
  next
    case (Some acc)
    then show ?thesis
      unfolding run using found by (simp add: WithCache_def bnd_assoc wp_bnd [of "observe g" for g] wp_observe)
  qed
qed (simp add: TR_Handle_def wp_ret handled_clean)

lemma pending_action_handled:
  assumes "well_behaved S"
  shows "wp (PA_Handle S db request) (\<lambda>r h'. handled h r h') h"
proof -
  have set: "wp (SetProvisionDomainStatus S db i st) (\<lambda>r h'. handled h r h') h1" for i st h1
    using assms err_clean [OF assms]
    by (cases "sv_err S h1 (Exec (db_gorm db) (UpdateProvisionDomainStatusStmt i (GetProvisionStatusId db st)))")
       (auto simp: SetProvisionDomainStatus_def Let_def wp_ret intro: handled_clean)
  have "wp (bnd (GetVProvisionDomain S db vpd) f) (\<lambda>r h'. handled h r h') h"
    if "\<And>row i h'. vpd_ID row = Some i \<Longrightarrow> wp (f (Some row, None)) (\<lambda>r h'. handled h r h') h'"
      "\<And>row e h'. clean e \<Longrightarrow> wp (f (row, Some e)) (\<lambda>r h'. handled h r h') h'" for vpd f
    unfolding GetVProvisionDomain_def wp_bnd
  proof (rule wp_first, goal_cases)
    case (2 row)
    then obtain i where "vpd_ID row = Some i" using assms unfolding well_behaved_def by blast
    then show ?case using that(1) by simp
  qed (simp_all add: well_reads assms that)
  note row = this
  show ?thesis
  proof (cases "GetDomainName request = []")
    case False
    show ?thesis
      unfolding PA_Handle_def Let_def if_not_P [OF False]
      by (rule row) (auto simp: set wp_ret handled_clean)
  qed (simp add: PA_Handle_def wp_ret handled_clean)
qed

text \<open>The router over the handlers that match.\<close>

lemma run_handlers_single:
  assumes "well_behaved S" "\<not> (PA_Matches request \<and> TR_Matches request)"
  shows "wp (run_handlers S db request pollHandlers (None, False)) (\<lambda>r h'.
     r = Ret None \<and> filter is_write h' = filter is_write h \<or>
     (\<exists>err handled. r = Ret (Some (err, handled)) \<and> (\<forall>e. err = Some e \<longrightarrow> clean e))) h"
proof -
  have one: "wp (bnd m (\<lambda>err. if (case err of Some e \<Rightarrow> errors_is e ErrDeferMessage | None \<Rightarrow> False) then ret None
          else ret (Some (err, True)))) (\<lambda>r h'.
       r = Ret None \<and> filter is_write h' = filter is_write h \<or>
       (\<exists>err handled. r = Ret (Some (err, handled)) \<and> (\<forall>e. err = Some e \<longrightarrow> clean e))) h"
    if m: "wp m (\<lambda>r h'. handled h r h') h" for m
    unfolding wp_bnd by (rule wp_mono [OF m]) (auto simp: handled_def wp_ret split: option.split)
  show ?thesis
    using assms(2) one [OF pending_action_handled [OF assms(1), of db request]]
      one [OF transfer_handled [OF assms(1), of db request]]
    by (cases "PA_Matches request"; cases "TR_Matches request") (auto simp: pollHandlers_def wp_ret cong: if_cong intro: exI [of _ False])
qed

section \<open>Properties\<close>

text \<open>
  C12. A poll message is settled or untouched. Unless two handlers match it at once, processing a message
  either ends by writing its status, processed or, together with an error, failed; or it defers the
  message, and then it reports success and has written nothing, so that the message can be delivered
  again.
\<close>

theorem poll_message_settled_or_untouched:
  assumes "well_behaved S" "\<not> (PA_Matches request \<and> TR_Matches request)"
    "GetPollMessageStatusId db ''processed'' \<noteq> []" "GetPollMessageStatusId db ''failed'' \<noteq> []"
  shows "wp (PollMessageHandler S db (PollMessageMsg request)) (\<lambda>r h'.
     r = Ret None \<and> filter is_write h' = filter is_write h \<or>
     (\<exists>h1 st. h' = Exec (db_gorm db) (UpdatePollMessageStatusStmt (wpm_Id request) (GetPollMessageStatusId db st)) # h1 \<and>
        (st = ''processed'' \<or> st = ''failed'' \<and> (\<exists>e. r = Ret (Some e))))) h"
proof -
  let ?settled = "\<lambda>r h'. \<exists>h1 st. h' = Exec (db_gorm db) (UpdatePollMessageStatusStmt (wpm_Id request) (GetPollMessageStatusId db st)) # h1 \<and>
        (st = ''processed'' \<or> st = ''failed'' \<and> (\<exists>e. r = Ret (Some e)))"
  have "wp (close_message S db request err) ?settled h1" if "\<forall>e. err = Some e \<longrightarrow> clean e" for err h1
    using that assms(1,3,4)
    by (cases err) (auto simp: close_message_def UpdatePollMessageStatus_def wp_ret wp_bnd Let_def split: option.split)
  then have close: "wp (close_message S db request err)
      (\<lambda>r h'. r = Ret None \<and> filter is_write h' = filter is_write h \<or> ?settled r h') h1"
    if "\<forall>e. err = Some e \<longrightarrow> clean e" for err h1
    using that by (blast intro: wp_mono)
  show ?thesis
    unfolding PollMessageHandler_def message.case wp_bnd
    by (rule wp_mono [OF run_handlers_single [OF assms(1,2)]]) (auto simp: wp_ret intro!: close)
qed

definition poll_services :: services where
  "poll_services = sample_services (plain_job ''t'') (\<lambda>e. None) (Inl (ErrNew ''no reply''))"

definition sample_poll :: "string \<Rightarrow> PollMessage" where
  "sample_poll st =
     \<lparr>wpm_Id = ''m1'', wpm_Msg = ''Transfer'', wpm_Type = ''transfer'', wpm_Status = ''submitted'', wpm_Accreditation = ''acc'',
      wpm_CreatedDate = None,
      wpm_Data = Some (TrnData \<lparr>trn_Name = Some ''a.b'', trn_Status = Some st, trn_RequestedBy = Some ''them'',
        trn_RequestedDate = None, trn_ActionBy = Some ''us'', trn_ActionDate = None, trn_ExpiryDate = None\<rparr>)\<rparr>"

lemma poll_services_well: "well_behaved poll_services"
  by (simp add: well_behaved_def poll_services_def sample_services_def reads_well_def ErrTempRyFailure_def
      ErrDeferMessage_def)

theorem poll_message_settled_or_untouched_witness:
  "wp (PollMessageHandler poll_services sample_db (PollMessageMsg (sample_poll ''pending''))) (\<lambda>r h'.
     r = Ret None \<and> filter is_write h' = filter is_write [] \<or>
     (\<exists>h1 st. h' = Exec Pool (UpdatePollMessageStatusStmt ''m1'' (GetPollMessageStatusId sample_db st)) # h1 \<and>
        (st = ''processed'' \<or> st = ''failed'' \<and> (\<exists>e. r = Ret (Some e))))) []"
proof -
  have "GetPollMessageStatusId sample_db ''processed'' \<noteq> []" "GetPollMessageStatusId sample_db ''failed'' \<noteq> []"
    "\<not> PA_Matches (sample_poll ''pending'')" "wpm_Id (sample_poll ''pending'') = ''m1''" "db_gorm sample_db = Pool"
    by code_simp+
  then show ?thesis
    using poll_message_settled_or_untouched [OF poll_services_well, of "sample_poll ''pending''" sample_db "[]"] by simp
qed

end
