(* ===== verification/Pg_Listener.thy ===== *)
theory Pg_Listener
  imports Go_Text Services
begin

text \<open>
  \<^verbatim>\<open>pkg/pgevents\<close>: the listener on PostgreSQL's notification channels. The database cuts a message
  into numbered fragments (\<open>notify_event\<close>, from the repository's SQL); the listener glues them
  together, decodes the envelope and hands it to the handler of the channel. A connection delivers
  a sequence of notifications until it fails; the listener then connects again, for ever.
\<close>

section \<open>The sender: notify_event\<close>

text \<open>
  \<^verbatim>\<open>LENGTH\<close> and \<^verbatim>\<open>SUBSTRING\<close> count characters; the model's text has one byte per character (ASCII). A
  fragment longer than 7999 bytes would be refused by \<^verbatim>\<open>pg_notify\<close>.
\<close>

definition chunk_size :: nat where
  "chunk_size = 8000 - 10"

definition fragment_total :: "string \<Rightarrow> nat" where
  "fragment_total envelope = (length envelope + chunk_size - 1) div chunk_size"

definition fragment :: "string \<Rightarrow> nat \<Rightarrow> string" where
  "fragment envelope part =
     nat_text part @ '':'' @ nat_text (fragment_total envelope) @ '':'' @
     take chunk_size (drop (chunk_size * (part - 1)) envelope)"

definition notify_event :: "string \<Rightarrow> string list" where
  "notify_event envelope = map (fragment envelope) [1..<fragment_total envelope + 1]"

section \<open>Reassembly\<close>

record notificationData =
  nd_receivedParts :: int
  nd_totalParts :: int
  nd_fullPayload :: string

definition nd_reset :: notificationData where
  "nd_reset = \<lparr>nd_receivedParts = 0, nd_totalParts = 0, nd_fullPayload = []\<rparr>"

text \<open>
  What one notification leads to: it is dropped, it is waited for more, a payload is complete, or the
  process dies of an index out of range (a payload with fewer than two colons).
\<close>

datatype received = Dropped | Waiting | Complete string | IndexOutOfRange

definition receive :: "notificationData \<Rightarrow> string \<Rightarrow> received \<times> notificationData" where
  "receive data payload =
     (let parts = SplitN CHR '':'' 3 payload in
      case Atoi (parts ! 0) of
        Inl e \<Rightarrow> (Dropped, nd_reset)
      | Inr receivedParts \<Rightarrow>
          (let data = data\<lparr>nd_receivedParts := receivedParts\<rparr> in
           if length parts < 2 then (IndexOutOfRange, data)
           else (case Atoi (parts ! 1) of
                   Inl e \<Rightarrow> (Dropped, nd_reset)
                 | Inr totalParts \<Rightarrow>
                     (let data = data\<lparr>nd_totalParts := totalParts\<rparr> in
                      if nd_receivedParts data \<le> nd_totalParts data then
                        if length parts < 3 then (IndexOutOfRange, data)
                        else
                          (let data = data\<lparr>nd_fullPayload := nd_fullPayload data @ parts ! 2\<rparr> in
                           if nd_receivedParts data < nd_totalParts data then (Waiting, data)
                           else (Complete (nd_fullPayload data), nd_reset))
                      else (Complete (nd_fullPayload data), nd_reset)))))"

section \<open>Handlers\<close>

text \<open>
  A handler takes the decoded notification by pointer; the text \<^verbatim>\<open>null\<close> decodes to a nil pointer.
  \<open>None\<close> is the nil map a listener starts with; the list is in the order a \<^verbatim>\<open>range\<close> visits it.
\<close>

type_synonym pg_handler = "PgNotification option \<Rightarrow> (hist, gerr option) go"
type_synonym pg_handlers = "(string \<times> pg_handler) list"

definition RegisterHandler :: "string \<Rightarrow> pg_handler \<Rightarrow> pg_handlers option \<Rightarrow> pg_handlers option" where
  "RegisterHandler channel handler handlers =
     Some (AList.update channel handler (case handlers of None \<Rightarrow> [] | Some hs \<Rightarrow> hs))"

definition handleNotification ::
  "services \<Rightarrow> pg_handlers \<Rightarrow> string \<Rightarrow> string \<Rightarrow> (hist, gerr option) go" where
  "handleNotification S handlers channel payload =
     (case unmarshal (dec_ptr zero_PgNotification dec_PgNotification) (Some zero_PgNotification) (scan payload) of
        None \<Rightarrow> ret (Some (ErrWrap (''json.Unmarshal '' @ payload @ '' error'')
                            (ErrJSON (sv_json_text S ''Notification'' (scan payload)))))
      | Some meta \<Rightarrow>
          (case map_of handlers channel of
             None \<Rightarrow> ret (Some (ErrNew (''missing handler: '' @ channel)))
           | Some handler \<Rightarrow>
               bnd (handler meta) (\<lambda>err.
               ret (map_option (ErrWrap (''handle '' @ channel @ '' notification'')) err))))"

section \<open>Listening\<close>

text \<open>
  The loop over what \<^verbatim>\<open>WaitForNotification\<close> delivers, until it fails. An error of a handler is logged.
\<close>

fun listen ::
  "services \<Rightarrow> pg_handlers \<Rightarrow> notificationData \<Rightarrow> (string \<times> string) list \<Rightarrow> gerr \<Rightarrow> (hist, gerr option) go" where
  "listen S handlers data [] err = ret (Some (ErrWrap ''waiting for notification'' err))"
| "listen S handlers data ((channel, payload) # ns) err =
     (case receive data payload of
        (IndexOutOfRange, data') \<Rightarrow> go_panic ''index out of range''
      | (Complete full, data') \<Rightarrow>
          bnd (handleNotification S handlers channel full) (\<lambda>_. listen S handlers data' ns err)
      | (_, data') \<Rightarrow> listen S handlers data' ns err)"

text \<open>One connection: refused, or made, with the answers to \<^verbatim>\<open>listen\<close> and what it delivers.\<close>

datatype connection =
    Refused gerr
  | Connected "string \<Rightarrow> gerr option" "(string \<times> string) list" gerr

definition connect_listen :: "services \<Rightarrow> pg_handlers \<Rightarrow> connection \<Rightarrow> (hist, gerr option) go" where
  "connect_listen S handlers c =
     (case c of
        Refused e \<Rightarrow> ret (Some (ErrWrap ''connect'' e))
      | Connected listen_answer ns err \<Rightarrow>
          (case find (\<lambda>channel. listen_answer channel \<noteq> None) (map fst handlers) of
             Some channel \<Rightarrow>
               ret (Some (ErrWrap (''listen '' @ quote_string channel) (the (listen_answer channel))))
           | None \<Rightarrow> listen S handlers nd_reset ns err))"

text \<open>
  A run over a list of connections, each with what \<^verbatim>\<open>ctx.Err()\<close> is after it: \<open>None\<close> is a listener that
  is still trying.
\<close>

fun reconnect ::
  "services \<Rightarrow> pg_handlers \<Rightarrow> (connection \<times> gerr option) list \<Rightarrow> (hist, gerr option option) go" where
  "reconnect S handlers [] = ret None"
| "reconnect S handlers ((c, ctx_err) # cs) =
     bnd (connect_listen S handlers c) (\<lambda>_.
     case ctx_err of
       Some e \<Rightarrow> ret (Some (Some e))
     | None \<Rightarrow> reconnect S handlers cs)"

text \<open>\<open>can_connect\<close> says that the field \<^verbatim>\<open>Connect\<close> is set.\<close>

definition StartListening ::
  "services \<Rightarrow> bool \<Rightarrow> pg_handlers option \<Rightarrow> (connection \<times> gerr option) list \<Rightarrow> (hist, gerr option option) go" where
  "StartListening S can_connect handlers cs =
     (if \<not> can_connect then ret (Some (Some (ErrNew ''listen: Connect is nil'')))
      else (case handlers of
              None \<Rightarrow> ret (Some (Some (ErrNew ''listen: No handlers'')))
            | Some hs \<Rightarrow> reconnect S hs cs))"

section \<open>Lemmas\<close>

lemma first_sep_unique:
  assumes "x \<notin> set a" "x \<notin> set a'" "a @ x # b = a' @ x # b'"
  shows "a = a' \<and> b = b'"
  using assms
proof (induction a arbitrary: a')
  case Nil
  then show ?case by (cases a') auto
next
  case (Cons c a)
  then show ?case by (cases a') auto
qed

lemma not_colon: "CHR '':'' \<notin> set (nat_text n)"
  using is_digit_sep nat_text_digits by blast

lemma split_numbered:
  "SplitN CHR '':'' 3 (nat_text a @ '':'' @ nat_text b @ '':'' @ s) = [nat_text a, nat_text b, s]"
  using SplitN_sep [OF not_colon [of a], of 1 "nat_text b @ '':'' @ s"] SplitN_sep [OF not_colon [of b], of 0 s]
  by (simp add: numeral_3_eq_3 del: SplitN.simps(3))

lemma receive_numbered:
  assumes "a < 2 ^ 63" "b < 2 ^ 63" "a \<le> b"
  shows "receive data (nat_text a @ '':'' @ nat_text b @ '':'' @ s) =
    (if a < b
     then (Waiting, \<lparr>nd_receivedParts = int a, nd_totalParts = int b, nd_fullPayload = nd_fullPayload data @ s\<rparr>)
     else (Complete (nd_fullPayload data @ s), nd_reset))"
  using assms unfolding receive_def split_numbered by (simp add: Atoi_nat_text Let_def)

lemma fragment_total_bounds:
  assumes "envelope \<noteq> []"
  shows "0 < fragment_total envelope" "fragment_total envelope \<le> length envelope"
    "length envelope \<le> chunk_size * fragment_total envelope"
    "chunk_size * (fragment_total envelope - 1) < length envelope"
  using assms by (cases envelope; simp add: fragment_total_def chunk_size_def; linarith)+

text \<open>The listener after the first \<open>k\<close> fragments of a message, none of them the last.\<close>

lemma listen_prefix:
  assumes "length envelope < 2 ^ 63" "k < fragment_total envelope" "envelope \<noteq> []"
  shows "\<exists>data. nd_fullPayload data = take (chunk_size * k) envelope \<and>
     listen S handlers nd_reset
       (map (\<lambda>p. (channel, fragment envelope p)) [1..<k + 1] @ ns) err = listen S handlers data ns err"
  using assms(2)
proof (induction k arbitrary: ns)
  case 0
  show ?case by (rule exI [of _ nd_reset]) (simp add: nd_reset_def)
next
  case (Suc k)
  let ?t = "fragment_total envelope"
  obtain data where data: "nd_fullPayload data = take (chunk_size * k) envelope"
    "listen S handlers nd_reset (map (\<lambda>p. (channel, fragment envelope p)) [1..<k + 1] @
        (channel, fragment envelope (Suc k)) # ns) err =
     listen S handlers data ((channel, fragment envelope (Suc k)) # ns) err"
    using Suc.IH [of "(channel, fragment envelope (Suc k)) # ns"] Suc.prems by auto
  have "?t < 2 ^ 63" using fragment_total_bounds(2) [OF assms(3)] assms(1) by linarith
  moreover have "take (chunk_size * Suc k) envelope =
      take (chunk_size * k) envelope @ take chunk_size (drop (chunk_size * k) envelope)"
    using take_add [of "chunk_size * k" chunk_size envelope] by (simp add: add.commute)
  ultimately have r: "receive data (fragment envelope (Suc k)) =
      (Waiting, \<lparr>nd_receivedParts = int (Suc k), nd_totalParts = int ?t,
                 nd_fullPayload = take (chunk_size * Suc k) envelope\<rparr>)"
    using Suc.prems receive_numbered [of "Suc k" ?t data] data(1)
    by (simp add: fragment_def)
  have "map (\<lambda>p. (channel, fragment envelope p)) [1..<Suc k + 1] @ ns =
      map (\<lambda>p. (channel, fragment envelope p)) [1..<k + 1] @ (channel, fragment envelope (Suc k)) # ns"
    by simp
  then show ?case
    using data(2) r by (intro exI [of _ "snd (receive data (fragment envelope (Suc k)))"]) simp
qed

lemma listen_notify_event:
  assumes "length envelope < 2 ^ 63" "envelope \<noteq> []"
  shows "listen S handlers nd_reset (map (Pair channel) (notify_event envelope) @ ns) err =
     bnd (handleNotification S handlers channel envelope) (\<lambda>_. listen S handlers nd_reset ns err)"
proof -
  let ?t = "fragment_total envelope"
  obtain k where k: "?t = Suc k" using fragment_total_bounds(1) [OF assms(2)] gr0_implies_Suc by blast
  then obtain data where data: "nd_fullPayload data = take (chunk_size * k) envelope"
    "listen S handlers nd_reset (map (\<lambda>p. (channel, fragment envelope p)) [1..<k + 1] @
        (channel, fragment envelope ?t) # ns) err =
     listen S handlers data ((channel, fragment envelope ?t) # ns) err"
    using listen_prefix [OF assms(1) _ assms(2), of k] by (metis lessI)
  have t: "?t < 2 ^ 63" using fragment_total_bounds(2) [OF assms(2)] assms(1) by linarith
  have "drop (chunk_size * k) envelope = take chunk_size (drop (chunk_size * k) envelope)"
    using fragment_total_bounds(3) [OF assms(2)] k by simp
  then have "take (chunk_size * k) envelope @ take chunk_size (drop (chunk_size * k) envelope) = envelope"
    by (metis append_take_drop_id)
  then have "receive data (fragment envelope ?t) = (Complete envelope, nd_reset)"
    using receive_numbered [OF t t le_refl, of data] data(1) k by (simp add: fragment_def)
  moreover have "map (Pair channel) (notify_event envelope) @ ns =
      map (\<lambda>p. (channel, fragment envelope p)) [1..<k + 1] @ (channel, fragment envelope ?t) # ns"
    using k by (simp add: notify_event_def)
  ultimately show ?thesis using data(2) by simp
qed

text \<open>What is left of a listener that only loses its connection: the messages, in order, one at a time.\<close>

fun handle_all :: "services \<Rightarrow> pg_handlers \<Rightarrow> (string \<times> string) list \<Rightarrow> (hist, unit) go" where
  "handle_all S handlers [] = ret ()"
| "handle_all S handlers ((channel, envelope) # ms) =
     bnd (handleNotification S handlers channel envelope) (\<lambda>_. handle_all S handlers ms)"

lemma listener_messages:
  assumes "\<forall>(channel, envelope) \<in> set ms. envelope \<noteq> [] \<and> length envelope < 2 ^ 63"
  shows "listen S handlers nd_reset
       (concat (map (\<lambda>(channel, envelope). map (Pair channel) (notify_event envelope)) ms)) err =
     bnd (handle_all S handlers ms) (\<lambda>_. ret (Some (ErrWrap ''waiting for notification'' err)))"
  using assms
proof (induction ms)
  case (Cons m ms)
  obtain channel envelope where m: "m = (channel, envelope)" by force
  with Cons show ?case by (simp add: listen_notify_event bnd_assoc)
qed simp

section \<open>Properties\<close>

text \<open>
  C27. Messages the database cuts into fragments reach the handlers whole, once each and in order: a
  connection that delivers the fragments of a sequence of messages, one message after the other,
  behaves as the sequence of handler calls on the messages, whatever the handlers do.
\<close>

theorem listener_reassembles:
  assumes "\<forall>(channel, envelope) \<in> set ms. envelope \<noteq> [] \<and> length envelope < 2 ^ 63"
  shows "listen S handlers nd_reset
       (concat (map (\<lambda>(channel, envelope). map (Pair channel) (notify_event envelope)) ms)) err =
     bnd (handle_all S handlers ms) (\<lambda>_. ret (Some (ErrWrap ''waiting for notification'' err)))"
  by (rule listener_messages) (rule assms)

text \<open>
  Exactly when a notification kills the listener's process: its first field is a number and it has
  no colon, or it has a single colon between two numbers of which the first is not greater. Anyone
  who may notify on the channel can do this.
\<close>

theorem listener_dies_iff:
  "fst (receive data payload) = IndexOutOfRange \<longleftrightarrow>
     (\<exists>a. Atoi payload = Inr a \<and> CHR '':'' \<notin> set payload) \<or>
     (\<exists>p q a b. payload = p @ '':'' @ q \<and> CHR '':'' \<notin> set p \<and> CHR '':'' \<notin> set q \<and>
        Atoi p = Inr a \<and> Atoi q = Inr b \<and> a \<le> b)"
proof (cases "CHR '':'' \<in> set payload")
  case False
  then show ?thesis
    by (auto simp: receive_def numeral_3_eq_3 Let_def split: sum.split)
next
  case True
  obtain p r where p: "payload = p @ '':'' @ r" "CHR '':'' \<notin> set p"
    using split_list_first [OF True] by auto
  have split: "(\<exists>p' q. payload = p' @ '':'' @ q \<and> CHR '':'' \<notin> set p' \<and> CHR '':'' \<notin> set q \<and> Q p' q) \<longleftrightarrow>
      CHR '':'' \<notin> set r \<and> Q p r" for Q
    using p first_sep_unique [OF p(2)] by auto
  have one: "SplitN CHR '':'' 3 payload = p # SplitN CHR '':'' 2 r"
    using SplitN_sep [OF p(2), of 1 r] p(1) by (simp add: numeral_3_eq_3 numeral_2_eq_2 del: SplitN.simps(3))
  show ?thesis
  proof (cases "CHR '':'' \<in> set r")
    case False
    then have "SplitN CHR '':'' 2 r = [r]" by (simp add: numeral_2_eq_2)
    with one True False split [of "\<lambda>p q. \<exists>a b. Atoi p = Inr a \<and> Atoi q = Inr b \<and> a \<le> b"] show ?thesis
      by (auto simp: receive_def Let_def split: sum.split)
  next
    case colon: True
    then obtain q s where q: "r = q @ '':'' @ s" "CHR '':'' \<notin> set q"
      using split_list_first [OF colon] by auto
    have "SplitN CHR '':'' 2 r = [q, s]"
      using SplitN_sep [OF q(2), of 0 s] q(1) by (simp add: numeral_2_eq_2 del: SplitN.simps(3))
    with one True colon split [of "\<lambda>p q. \<exists>a b. Atoi p = Inr a \<and> Atoi q = Inr b \<and> a \<le> b"] show ?thesis
      by (auto simp: receive_def Let_def split: sum.split)
  qed
qed

end
