(* ===== verification/Job_Scheduler.thy ===== *)
theory Job_Scheduler
  imports Pg_Listener Database Request_Protocol Sample
begin

text \<open>
  \<^verbatim>\<open>job_scheduler\<close>: turns the database's announcements of jobs into messages for the workers. The
  announcement arrives through the listener of \<open>Pg_Listener\<close>; its payload names the job and the queue
  of the worker. \<open>trace\<close> stands for the headers the tracing library makes of the announcement's
  metadata.
\<close>

definition JobEventNotifyHandler ::
  "services \<Rightarrow> (Metadata \<Rightarrow> (string \<times> string) list) \<Rightarrow> JobEvent \<Rightarrow> (hist, gerr option) go" where
  "JobEventNotifyHandler S trace event =
     bus_Send S (je_RoutingKey event)
       (JobNotificationMsg (je_JobId event) (je_Type event) (je_Status event) (je_ReferenceId event)
          (je_ReferenceTable event))
       (trace (je_Metadata event))"

text \<open>The text of an unknown type serves as a format string; it is meant to have no verbs.\<close>

definition HandleNotification ::
  "services \<Rightarrow> (Metadata \<Rightarrow> (string \<times> string) list) \<Rightarrow> pg_handler" where
  "HandleNotification S trace notification =
     bnd (deref notification) (\<lambda>n.
     if pgn_Type n = ''job_event_notify'' then
       (case unmarshal dec_JobEvent zero_JobEvent (scan (pgn_Payload n)) of
          None \<Rightarrow> ret (Some (ErrNew (''failed to unmarshal JSON: '' @
                                     sv_json_text S ''JobEvent'' (scan (pgn_Payload n)))))
        | Some event \<Rightarrow> JobEventNotifyHandler S trace event)
     else ret (Some (ErrNew (''Unknown event type: '' @ pgn_Type n))))"

text \<open>A failing query ends the process; the rows are only logged.\<close>

definition CheckStaleJobs :: "services \<Rightarrow> database \<Rightarrow> (hist, gerr option) go" where
  "CheckStaleJobs S db =
     bnd (GetStaleJobs S db) (\<lambda>(staleJobs, err).
     if err \<noteq> None then go_exit else ret None)"

text \<open>The handlers the scheduler starts its listener with.\<close>

definition scheduler_handlers :: "services \<Rightarrow> (Metadata \<Rightarrow> (string \<times> string) list) \<Rightarrow> pg_handlers option" where
  "scheduler_handlers S trace = RegisterHandler ''job_event'' (HandleNotification S trace) None"

section \<open>Announcements\<close>

text \<open>
  What the database sends for a job (the trigger on the table and the query for stale jobs build the
  same object): the event in an envelope, both as JSON text, in whatever order and spacing.
\<close>

definition announces :: "string \<Rightarrow> JobEvent \<Rightarrow> bool" where
  "announces envelope event \<longleftrightarrow>
     (\<exists>payload i. unmarshal (dec_ptr zero_PgNotification dec_PgNotification) (Some zero_PgNotification) (scan envelope) =
        Some (Some \<lparr>pgn_ID = i, pgn_Type = ''job_event_notify'', pgn_Payload = payload\<rparr>) \<and>
      unmarshal dec_JobEvent zero_JobEvent (scan payload) = Some event)"

fun forward_all ::
  "services \<Rightarrow> (Metadata \<Rightarrow> (string \<times> string) list) \<Rightarrow> JobEvent list \<Rightarrow> (hist, unit) go" where
  "forward_all S trace [] = ret ()"
| "forward_all S trace (event # es) =
     bnd (JobEventNotifyHandler S trace event) (\<lambda>_. forward_all S trace es)"

lemma announced_handled:
  assumes "announces envelope event"
  shows "handleNotification S [(''job_event'', HandleNotification S trace)] ''job_event'' envelope =
     bnd (JobEventNotifyHandler S trace event)
       (\<lambda>err. ret (map_option (ErrWrap ''handle job_event notification'') err))"
  using assms by (auto simp: announces_def handleNotification_def HandleNotification_def)

lemma announced_all:
  assumes "list_all2 announces envelopes events"
  shows "handle_all S [(''job_event'', HandleNotification S trace)] (map (Pair ''job_event'') envelopes) =
     forward_all S trace events"
  using assms by (induction rule: list_all2_induct) (simp_all add: announced_handled bnd_assoc)

lemma announces_not_Nil: "announces envelope event \<Longrightarrow> envelope \<noteq> []"
  by (auto simp: announces_def unmarshal_def scan_def skip_ws_def)

lemma forward_all_run:
  "forward_all S trace events h =
     (Ret (), rev (map (\<lambda>e. BusSend (je_RoutingKey e)
        (JobNotificationMsg (je_JobId e) (je_Type e) (je_Status e) (je_ReferenceId e) (je_ReferenceTable e))
        (trace (je_Metadata e))) events) @ h)"
  by (induction events arbitrary: h)
     (simp_all add: ret_def JobEventNotifyHandler_def bus_Send_def perform_def bnd_def)

section \<open>Properties\<close>

text \<open>
  C28. From the database to the workers' queues: when the database announces jobs on the channel
  \<^verbatim>\<open>job_event\<close>, each announcement cut into fragments, the scheduler's listener puts exactly one
  notification per job on the bus, in order, in the queue the announcement names, even when the bus
  refuses some of them (a refusal is logged and the job is left to the stale-job check).
\<close>

theorem announcements_forwarded:
  assumes "list_all2 announces envelopes events" "\<forall>e \<in> set envelopes. length e < 2 ^ 63"
  shows "reconnect S (the (scheduler_handlers S trace))
       [(Connected (\<lambda>_. None) (concat (map (\<lambda>e. map (Pair ''job_event'') (notify_event e)) envelopes)) err, Some stop)] h =
     (Ret (Some (Some stop)),
      rev (map (\<lambda>e. BusSend (je_RoutingKey e)
        (JobNotificationMsg (je_JobId e) (je_Type e) (je_Status e) (je_ReferenceId e) (je_ReferenceTable e))
        (trace (je_Metadata e))) events) @ h)"
proof -
  let ?H = "[(''job_event'', HandleNotification S trace)]"
  have "\<forall>e \<in> set envelopes. e \<noteq> []"
    using assms(1) announces_not_Nil by (auto simp: list_all2_conv_all_nth set_conv_nth)
  then have ms: "\<forall>(channel, e) \<in> set (map (Pair ''job_event'') envelopes). e \<noteq> [] \<and> length e < 2 ^ 63"
    using assms(2) by auto
  have frags: "concat (map (\<lambda>e. map (Pair ''job_event'') (notify_event e)) envelopes) =
      concat (map (\<lambda>(channel, e). map (Pair channel) (notify_event e)) (map (Pair ''job_event'') envelopes))"
    by (simp add: comp_def)
  have "listen S ?H nd_reset (concat (map (\<lambda>e. map (Pair ''job_event'') (notify_event e)) envelopes)) err =
      bnd (forward_all S trace events) (\<lambda>_. ret (Some (ErrWrap ''waiting for notification'' err)))"
    unfolding frags listener_messages [OF ms] announced_all [OF assms(1)] by (rule refl)
  moreover have "the (scheduler_handlers S trace) = ?H"
    by (simp add: scheduler_handlers_def RegisterHandler_def)
  ultimately have "reconnect S (the (scheduler_handlers S trace))
      [(Connected (\<lambda>_. None) (concat (map (\<lambda>e. map (Pair ''job_event'') (notify_event e)) envelopes)) err, Some stop)] =
      bnd (forward_all S trace events) (\<lambda>_. ret (Some (Some stop)))"
    by (simp add: connect_listen_def bnd_assoc)
  then show ?thesis by (simp add: bnd_def forward_all_run ret_def)
qed

definition sample_envelope :: string where
  "sample_envelope = json_print (JObj [(''id'', JStr ''u''), (''type'', JStr ''job_event_notify''),
     (''payload'', JStr (json_print (JObj [(''job_id'', JStr ''j1''), (''type'', JStr ''provision_host_create''),
        (''status'', JStr ''submitted''), (''routing_key'', JStr ''WorkerJobHostProvision''),
        (''reference_id'', JNull), (''metadata'', JObj [])])))])"

definition sample_event :: JobEvent where
  "sample_event = zero_JobEvent\<lparr>je_JobId := ''j1'', je_Type := ''provision_host_create'',
     je_Status := ''submitted'', je_RoutingKey := ''WorkerJobHostProvision''\<rparr>"

lemma sample_announces: "announces sample_envelope sample_event"
  unfolding announces_def
  by (rule exI, rule exI, rule conjI, code_simp, code_simp)

lemma sample_length: "length sample_envelope < 2 ^ 63"
proof -
  have "list_all (\<lambda>_. True) (drop 300 sample_envelope) \<and> drop 300 sample_envelope = []" by code_simp
  then show ?thesis by (simp add: drop_eq_Nil)
qed

theorem announcements_forwarded_witness:
  "reconnect (plain_services ''t'') (the (scheduler_handlers (plain_services ''t'') (\<lambda>_. [])))
     [(Connected (\<lambda>_. None) (map (Pair ''job_event'') (notify_event sample_envelope)) ErrNotFound, Some ErrNotFound)] [] =
   (Ret (Some (Some ErrNotFound)),
    [BusSend ''WorkerJobHostProvision''
       (JobNotificationMsg ''j1'' ''provision_host_create'' ''submitted'' [] []) []])"
  using announcements_forwarded [of "[sample_envelope]" "[sample_event]" "plain_services ''t''" "\<lambda>_. []"
      ErrNotFound ErrNotFound "[]"] sample_announces sample_length
  by (simp add: sample_event_def zero_JobEvent_def)

theorem listener_reassembles_witness:
  "listen (plain_services ''t'') [] nd_reset (map (Pair ''c'') (notify_event ''{}'')) ErrNotFound =
     bnd (handle_all (plain_services ''t'') [] [(''c'', ''{}'')])
       (\<lambda>_. ret (Some (ErrWrap ''waiting for notification'' ErrNotFound)))"
  using listener_reassembles [of "[(''c'', ''{}'')]" "plain_services ''t''" "[]" ErrNotFound] by simp

end
