(* ===== verification/Enqueuer.thy ===== *)
theory Enqueuer
  imports Pkg_Types
begin

text \<open>
  The database enqueuer of \<^verbatim>\<open>pkg/enqueuer\<close>: the configuration and its builder (\<^verbatim>\<open>config.go\<close>), the
  row selection, publication and marking, and the loop that repeats them until no row is left
  (\<^verbatim>\<open>enqueuer.go\<close>). The row type, its \<^verbatim>\<open>GetID\<close> and the handler that turns a row into a message are
  parameters of the generic Go type and of its methods; the database and the bus answer through
  a record of functions of the history. The loop has no bound of its own: it is a
  \<^theory_text>\<open>partial_function (option)\<close>, whose \<open>None\<close> says that the call never returns.
\<close>

section \<open>Configuration\<close>

definition DefaultBatchSize :: int where
  "DefaultBatchSize = 100"

text \<open>\<open>'v\<close> is Go's \<^verbatim>\<open>interface{}\<close>; a nil \<^verbatim>\<open>UpdateFieldValueMap\<close> is \<open>None\<close>; a model is named by its table.\<close>

record 'v DbEnqueuerConfig =
  cfg_QueryExpression :: string
  cfg_QueryValues :: "'v list"
  cfg_UpdateFieldValueMap :: "(string \<times> 'v) list option"
  cfg_UpdateModel :: string
  cfg_Queue :: string
  cfg_BatchSize :: int
  cfg_OrderByExpression :: string
  cfg_OrderByDirection :: int

definition NewDbEnqueuerConfigBuilder :: "string \<Rightarrow> 'v DbEnqueuerConfig" where
  "NewDbEnqueuerConfigBuilder table =
     \<lparr>cfg_QueryExpression = [], cfg_QueryValues = [], cfg_UpdateFieldValueMap = None,
      cfg_UpdateModel = table, cfg_Queue = [], cfg_BatchSize = DefaultBatchSize,
      cfg_OrderByExpression = [], cfg_OrderByDirection = 0\<rparr>"

definition WithQueryExpression :: "string \<Rightarrow> 'v DbEnqueuerConfig \<Rightarrow> 'v DbEnqueuerConfig" where
  "WithQueryExpression expression b = b\<lparr>cfg_QueryExpression := expression\<rparr>"

definition WithUpdateModel :: "string \<Rightarrow> 'v DbEnqueuerConfig \<Rightarrow> 'v DbEnqueuerConfig" where
  "WithUpdateModel model b = b\<lparr>cfg_UpdateModel := model\<rparr>"

definition WithQueryValues :: "'v list \<Rightarrow> 'v DbEnqueuerConfig \<Rightarrow> 'v DbEnqueuerConfig" where
  "WithQueryValues vs b = b\<lparr>cfg_QueryValues := vs\<rparr>"

definition WithUpdateFieldValueMap ::
  "(string \<times> 'v) list option \<Rightarrow> 'v DbEnqueuerConfig \<Rightarrow> 'v DbEnqueuerConfig" where
  "WithUpdateFieldValueMap vs b = b\<lparr>cfg_UpdateFieldValueMap := vs\<rparr>"

definition WithQueue :: "string \<Rightarrow> 'v DbEnqueuerConfig \<Rightarrow> 'v DbEnqueuerConfig" where
  "WithQueue queue b = b\<lparr>cfg_Queue := queue\<rparr>"

definition WithBatchSize :: "int \<Rightarrow> 'v DbEnqueuerConfig \<Rightarrow> 'v DbEnqueuerConfig" where
  "WithBatchSize n b = b\<lparr>cfg_BatchSize := n\<rparr>"

definition WithOrderByExpression :: "string \<Rightarrow> 'v DbEnqueuerConfig \<Rightarrow> 'v DbEnqueuerConfig" where
  "WithOrderByExpression e b = b\<lparr>cfg_OrderByExpression := e\<rparr>"

definition WithOrderByDirection :: "int \<Rightarrow> 'v DbEnqueuerConfig \<Rightarrow> 'v DbEnqueuerConfig" where
  "WithOrderByDirection d b = b\<lparr>cfg_OrderByDirection := d\<rparr>"

definition Build :: "'v DbEnqueuerConfig \<Rightarrow> gerr + 'v DbEnqueuerConfig" where
  "Build b =
     (if cfg_Queue b = [] then Inl (ErrNew ''Queue is required'')
      else if cfg_BatchSize b < DefaultBatchSize
      then Inl (ErrNew ''BatchSize must be greater than or equal to 100'')
      else Inr b)"

lemma Build_Inr: "Build b = Inr cfg \<longleftrightarrow> cfg = b \<and> cfg_Queue b \<noteq> [] \<and> 100 \<le> cfg_BatchSize b"
  by (auto simp: Build_def DefaultBatchSize_def)

definition OrderByDirection_String :: "int \<Rightarrow> string" where
  "OrderByDirection_String d = (if d = 0 then ''ASC'' else if d = 1 then ''DESC'' else ''ASC'')"

lemmas builder_defs = NewDbEnqueuerConfigBuilder_def WithQueryExpression_def WithUpdateModel_def
  WithQueryValues_def WithUpdateFieldValueMap_def WithQueue_def WithBatchSize_def
  WithOrderByExpression_def WithOrderByDirection_def

section \<open>The outside world\<close>

datatype ('v, 'm) enq_event =
    SelectRows int string "'v list" "string option"
  | UpdateRows string "string list" "(string \<times> 'v) list"
  | Publish string 'm
  | AskDone

type_synonym ('v, 'm) enq_hist = "('v, 'm) enq_event list"

text \<open>Each answer is a function of the history that has the request at its head.\<close>

record ('r, 'v, 'm) enq_world =
  ew_done :: "('v, 'm) enq_hist \<Rightarrow> gerr option"
  ew_rows :: "('v, 'm) enq_hist \<Rightarrow> gerr + 'r list"
  ew_update :: "('v, 'm) enq_hist \<Rightarrow> gerr option"
  ew_send :: "('v, 'm) enq_hist \<Rightarrow> gerr option"

section \<open>Operations\<close>

definition select_rows :: "'v DbEnqueuerConfig \<Rightarrow> ('v, 'm) enq_event" where
  "select_rows cfg =
     SelectRows (cfg_BatchSize cfg) (cfg_QueryExpression cfg) (cfg_QueryValues cfg)
       (if cfg_OrderByExpression cfg = [] then None
        else Some (cfg_OrderByExpression cfg @ '' '' @
                   OrderByDirection_String (cfg_OrderByDirection cfg)))"

definition getRows ::
  "('r, 'v, 'm) enq_world \<Rightarrow> 'v DbEnqueuerConfig \<Rightarrow> ('v, 'm) enq_hist \<Rightarrow>
   (gerr + 'r list) \<times> ('v, 'm) enq_hist" where
  "getRows W cfg h = (let h' = select_rows cfg # h in (ew_rows W h', h'))"

definition updateRows ::
  "('r, 'v, 'm) enq_world \<Rightarrow> 'v DbEnqueuerConfig \<Rightarrow> string list \<Rightarrow> ('v, 'm) enq_hist \<Rightarrow>
   gerr option \<times> ('v, 'm) enq_hist" where
  "updateRows W cfg Ids h =
     (let h' = UpdateRows (cfg_UpdateModel cfg) Ids
                 (case cfg_UpdateFieldValueMap cfg of None \<Rightarrow> [] | Some m \<Rightarrow> m) # h
      in (ew_update W h', h'))"

definition publishRow ::
  "('r, 'v, 'm) enq_world \<Rightarrow> 'v DbEnqueuerConfig \<Rightarrow> 'm \<Rightarrow> ('v, 'm) enq_hist \<Rightarrow>
   gerr option \<times> ('v, 'm) enq_hist" where
  "publishRow W cfg msg h = (let h' = Publish (cfg_Queue cfg) msg # h in (ew_send W h', h'))"

text \<open>
  The loop of \<^verbatim>\<open>processRows\<close>: its result is the error it returns with and the ids collected so far,
  which the deferred function reads.
\<close>

fun publish_rows ::
  "('r, 'v, 'm) enq_world \<Rightarrow> ('r \<Rightarrow> string) \<Rightarrow> 'v DbEnqueuerConfig \<Rightarrow> ('r \<Rightarrow> gerr + 'm) \<Rightarrow>
   string list \<Rightarrow> 'r list \<Rightarrow> ('v, 'm) enq_hist \<Rightarrow> (gerr option \<times> string list) \<times> ('v, 'm) enq_hist"
where
  "publish_rows W GetID cfg handler ids [] h = ((None, ids), h)"
| "publish_rows W GetID cfg handler ids (row # rows) h =
     (case handler row of
        Inl e \<Rightarrow> ((Some e, ids), h)
      | Inr msg \<Rightarrow>
          (case publishRow W cfg msg h of
             (Some e, h') \<Rightarrow> ((Some e, ids), h')
           | (None, h') \<Rightarrow>
               publish_rows W GetID cfg handler
                 (if cfg_UpdateFieldValueMap cfg \<noteq> None then ids @ [GetID row] else ids) rows h'))"

text \<open>
  With an update map, the deferred function assigns the result of the update to the named result
  \<^verbatim>\<open>err\<close>, whatever the loop returned.
\<close>

definition processRows ::
  "('r, 'v, 'm) enq_world \<Rightarrow> ('r \<Rightarrow> string) \<Rightarrow> 'v DbEnqueuerConfig \<Rightarrow> ('r \<Rightarrow> gerr + 'm) \<Rightarrow>
   'r list \<Rightarrow> ('v, 'm) enq_hist \<Rightarrow> gerr option \<times> ('v, 'm) enq_hist" where
  "processRows W GetID cfg handler rows h =
     (case publish_rows W GetID cfg handler [] rows h of
        ((err, ids), h') \<Rightarrow>
          if cfg_UpdateFieldValueMap cfg \<noteq> None then updateRows W cfg ids h' else (err, h'))"

partial_function (option) enqueue_loop ::
  "('r, 'v, 'm) enq_world \<Rightarrow> ('r \<Rightarrow> string) \<Rightarrow> 'v DbEnqueuerConfig \<Rightarrow> ('r \<Rightarrow> gerr + 'm) \<Rightarrow>
   ('v, 'm) enq_hist \<Rightarrow> (gerr option \<times> ('v, 'm) enq_hist) option" where
  "enqueue_loop W GetID cfg handler h =
     (case ew_done W (AskDone # h) of
        Some e \<Rightarrow> Some (Some e, AskDone # h)
      | None \<Rightarrow>
          (case getRows W cfg (AskDone # h) of
             (Inl e, h1) \<Rightarrow> Some (Some e, h1)
           | (Inr rows, h1) \<Rightarrow>
               if rows = [] then Some (None, h1)
               else (case processRows W GetID cfg handler rows h1 of
                       (Some e, h2) \<Rightarrow> Some (Some e, h2)
                     | (None, h2) \<Rightarrow> enqueue_loop W GetID cfg handler h2)))"

definition EnqueuerDbMessages ::
  "('r, 'v, 'm) enq_world \<Rightarrow> ('r \<Rightarrow> string) \<Rightarrow> 'v DbEnqueuerConfig option \<Rightarrow> ('r \<Rightarrow> gerr + 'm) \<Rightarrow>
   ('v, 'm) enq_hist \<Rightarrow> (gerr option \<times> ('v, 'm) enq_hist) option" where
  "EnqueuerDbMessages W GetID Config handler h =
     (case Config of
        None \<Rightarrow> Some (Some (ErrNew ''configs must be provid''), h)
      | Some cfg \<Rightarrow> enqueue_loop W GetID cfg handler h)"

section \<open>A table as the row source\<close>

text \<open>
  What a run did, oldest first, and the documented behaviour of a table the enqueuer drains: a
  selection returns, in a fixed order and up to its limit, the rows of the table that no update
  has marked, and an update marks the rows whose ids it lists. The table has to answer so only
  after the enqueuer's own updates, those of its configuration (\<open>own_updates\<close>).
\<close>

fun published :: "('v, 'm) enq_hist \<Rightarrow> (string \<times> 'm) list" where
  "published [] = []"
| "published (Publish q m # h) = published h @ [(q, m)]"
| "published (e # h) = published h"

fun marked :: "('v, 'm) enq_hist \<Rightarrow> string list" where
  "marked [] = []"
| "marked (UpdateRows t ids m # h) = marked h @ ids"
| "marked (e # h) = marked h"

fun selections :: "('v, 'm) enq_hist \<Rightarrow> nat" where
  "selections [] = 0"
| "selections (SelectRows n q vs ord # h) = Suc (selections h)"
| "selections (e # h) = selections h"

definition unmarked :: "('r \<Rightarrow> string) \<Rightarrow> 'r list \<Rightarrow> ('v, 'm) enq_hist \<Rightarrow> 'r list" where
  "unmarked GetID tbl h = filter (\<lambda>r. GetID r \<notin> set (marked h)) tbl"

definition own_updates :: "'v DbEnqueuerConfig \<Rightarrow> ('v, 'm) enq_hist \<Rightarrow> bool" where
  "own_updates cfg h \<longleftrightarrow>
     (\<forall>t ids m. UpdateRows t ids m \<in> set h \<longrightarrow>
        t = cfg_UpdateModel cfg \<and> cfg_UpdateFieldValueMap cfg = Some m)"

definition drains ::
  "('r, 'v, 'm) enq_world \<Rightarrow> ('r \<Rightarrow> string) \<Rightarrow> 'v DbEnqueuerConfig \<Rightarrow> 'r list \<Rightarrow> bool" where
  "drains W GetID cfg tbl \<longleftrightarrow>
     (\<forall>h. ew_done W h = None \<and> ew_update W h = None \<and>
          (own_updates cfg h \<longrightarrow>
             ew_rows W (select_rows cfg # h) =
               Inr (take (nat (cfg_BatchSize cfg)) (unmarked GetID tbl h))))"

text \<open>A concrete such world, with a bus that accepts everything.\<close>

fun select_limit :: "('v, 'm) enq_hist \<Rightarrow> int" where
  "select_limit (SelectRows n q vs ord # h) = n"
| "select_limit h = 0"

definition table_world :: "('r \<Rightarrow> string) \<Rightarrow> 'r list \<Rightarrow> ('r, 'v, 'm) enq_world" where
  "table_world GetID tbl =
     \<lparr>ew_done = \<lambda>h. None,
      ew_rows = \<lambda>h. Inr (take (nat (select_limit h)) (unmarked GetID tbl (tl h))),
      ew_update = \<lambda>h. None, ew_send = \<lambda>h. None\<rparr>"

lemma drains_table_world: "drains (table_world GetID tbl) GetID cfg tbl"
  by (simp add: drains_def table_world_def select_rows_def)

section \<open>Lemmas\<close>

lemma own_updates_simps [simp]:
  "own_updates cfg []"
  "own_updates cfg (select_rows cfg # h) = own_updates cfg h"
  "own_updates cfg (AskDone # h) = own_updates cfg h"
  "own_updates cfg (Publish q y # h) = own_updates cfg h"
  "own_updates cfg (UpdateRows t ids m # h) \<longleftrightarrow>
     t = cfg_UpdateModel cfg \<and> cfg_UpdateFieldValueMap cfg = Some m \<and> own_updates cfg h"
  "own_updates cfg (rev (map (\<lambda>r. Publish q (msg r)) rows) @ h) = own_updates cfg h"
  by (auto simp: own_updates_def select_rows_def)

lemma select_rows_neutral [simp]:
  "published (select_rows cfg # h) = published h" "marked (select_rows cfg # h) = marked h"
  "selections (select_rows cfg # h) = Suc (selections h)"
  by (simp_all add: select_rows_def)

lemma unmarked_neutral [simp]:
  "unmarked GetID tbl (select_rows cfg # h) = unmarked GetID tbl h"
  "unmarked GetID tbl (AskDone # h) = unmarked GetID tbl h"
  "unmarked GetID tbl (Publish q m # h) = unmarked GetID tbl h"
  by (simp_all add: unmarked_def)

text \<open>The ids the loop collects are those of rows the handler converted, and it marks nothing.\<close>

lemma publish_rows_ids:
  assumes "publish_rows W GetID cfg handler ids rows h = ((err, ids'), h')"
  shows "set ids' \<subseteq> set ids \<union> GetID ` {r \<in> set rows. \<exists>m. handler r = Inr m}"
    and "marked h' = marked h" and "own_updates cfg h' = own_updates cfg h"
  using assms
  by (induction rows arbitrary: ids h)
     (fastforce simp: publishRow_def Let_def split: sum.splits option.splits if_splits)+

text \<open>With an update map the update decides the result; the loop's error is lost.\<close>

lemma processRows_update:
  assumes "cfg_UpdateFieldValueMap cfg = Some m"
  obtains ids h' where
    "processRows W GetID cfg handler rows h =
       (ew_update W (UpdateRows (cfg_UpdateModel cfg) ids m # h'),
        UpdateRows (cfg_UpdateModel cfg) ids m # h')"
    "set ids \<subseteq> GetID ` {r \<in> set rows. \<exists>m. handler r = Inr m}" "marked h' = marked h"
    "own_updates cfg h' = own_updates cfg h"
proof -
  obtain err ids h' where p: "publish_rows W GetID cfg handler [] rows h = ((err, ids), h')"
    by (metis surj_pair)
  show thesis
    using publish_rows_ids [OF p] assms
    by (intro that [of ids h']) (auto simp: processRows_def p updateRows_def Let_def)
qed

text \<open>A batch that the handler and the bus accept is published whole and in order.\<close>

lemma publish_rows_accepted:
  assumes "\<And>h. ew_send W h = None" "\<forall>r\<in>set rows. handler r = Inr (msg r)"
    "cfg_UpdateFieldValueMap cfg \<noteq> None"
  shows "publish_rows W GetID cfg handler ids rows h =
     ((None, ids @ map GetID rows), rev (map (\<lambda>r. Publish (cfg_Queue cfg) (msg r)) rows) @ h)"
  using assms(2)
  by (induction rows arbitrary: ids h) (simp_all add: publishRow_def Let_def assms)

lemma marked_publishes [simp]:
  "marked (rev (map (\<lambda>r. Publish q (msg r)) rows) @ h) = marked h"
  "selections (rev (map (\<lambda>r. Publish q (msg r)) rows) @ h) = selections h"
  "published (rev (map (\<lambda>r. Publish q (msg r)) rows) @ h) = published h @ map (\<lambda>r. (q, msg r)) rows"
  by (induction rows arbitrary: h) simp_all

lemma filter_after_take:
  assumes "distinct (map f u)"
  shows "filter (\<lambda>r. f r \<notin> set (map f (take n u))) u = drop n u"
proof -
  let ?P = "\<lambda>r. f r \<notin> set (map f (take n u))"
  have "set (map f (take n u)) \<inter> set (map f (drop n u)) = {}"
    using assms by (metis append_take_drop_id distinct_append map_append)
  then have "filter ?P (drop n u) = drop n u"
    by (intro filter_True) (auto simp: disjoint_iff)
  moreover have "filter ?P (take n u) = []" by (simp add: filter_empty_conv)
  ultimately show ?thesis
    using filter_append [of ?P "take n u" "drop n u"] by simp
qed

lemma unmarked_after_batch:
  assumes "distinct (map GetID tbl)"
  shows "filter (\<lambda>r. GetID r \<notin> set (marked h) \<union> set (map GetID (take n (unmarked GetID tbl h)))) tbl
       = drop n (unmarked GetID tbl h)"
proof -
  have "distinct (map GetID (unmarked GetID tbl h))"
    using assms by (simp add: unmarked_def distinct_map_filter)
  from filter_after_take [OF this, of n] show ?thesis
    by (simp add: unmarked_def conj_commute)
qed

lemma rounds_step:
  assumes "0 < n" "u \<noteq> []"
  shows "Suc ((length (drop n u) + n - 1) div n) = (length u + n - 1) div n"
proof -
  obtain l where l: "length u = Suc l" using assms(2) by (cases u) auto
  have "(length u + n - 1) div n = Suc (l div n)"
    using l assms(1) by (simp add: div_add_self2)
  moreover have "(length (drop n u) + n - 1) div n = l div n"
    using l assms(1) by (cases "l < n") auto
  ultimately show ?thesis by simp
qed

lemma enqueue_loop_drains:
  assumes world: "drains W GetID cfg tbl" "\<And>h. ew_send W h = None"
    and handler: "\<forall>r\<in>set tbl. handler r = Inr (msg r)"
    and cfg: "cfg_UpdateFieldValueMap cfg \<noteq> None" "0 < cfg_BatchSize cfg"
    and ids: "distinct (map GetID tbl)" and own: "own_updates cfg h"
  shows "\<exists>h'. enqueue_loop W GetID cfg handler h = Some (None, h') \<and>
     published h' = published h @ map (\<lambda>r. (cfg_Queue cfg, msg r)) (unmarked GetID tbl h) \<and>
     selections h' = selections h + (length (unmarked GetID tbl h) + nat (cfg_BatchSize cfg) - 1)
                       div nat (cfg_BatchSize cfg) + 1"
  using own
proof (induction "length (unmarked GetID tbl h)" arbitrary: h rule: less_induct)
  case less
  let ?n = "nat (cfg_BatchSize cfg)" and ?u = "unmarked GetID tbl h"
  have dn: "ew_done W h = None" and upd: "ew_update W h = None"
    and rows: "own_updates cfg h \<Longrightarrow>
      ew_rows W (select_rows cfg # h) = Inr (take ?n (unmarked GetID tbl h))" for h
    using world(1) by (simp_all add: drains_def)
  have n: "0 < ?n" using cfg(2) by simp
  show ?case
  proof (cases "?u = []")
    case True
    then show ?thesis
      using n by (simp add: enqueue_loop.simps [of _ _ _ _ h] dn getRows_def Let_def rows less.prems)
  next
    case False
    let ?b = "take ?n ?u"
    have ok: "\<forall>r\<in>set ?b. handler r = Inr (msg r)"
      using handler by (auto simp: unmarked_def dest!: in_set_takeD)
    obtain m where m: "cfg_UpdateFieldValueMap cfg = Some m" using cfg(1) by blast
    let ?h2 = "UpdateRows (cfg_UpdateModel cfg) (map GetID ?b) m #
       rev (map (\<lambda>r. Publish (cfg_Queue cfg) (msg r)) ?b) @ select_rows cfg # AskDone # h"
    have step: "enqueue_loop W GetID cfg handler h = enqueue_loop W GetID cfg handler ?h2"
      using False n
      by (simp add: enqueue_loop.simps [of _ _ _ _ h] dn getRows_def Let_def rows less.prems processRows_def
          publish_rows_accepted [OF world(2) ok cfg(1)] updateRows_def upd m)
    have u2: "unmarked GetID tbl ?h2 = drop ?n ?u"
      using unmarked_after_batch [OF ids, of h ?n] by (simp add: unmarked_def [of _ _ ?h2])
    then have "length (unmarked GetID tbl ?h2) < length ?u"
      using False n by simp
    from less.hyps [OF this] m less.prems obtain h' where h':
      "enqueue_loop W GetID cfg handler ?h2 = Some (None, h')"
      "published h' = published ?h2 @ map (\<lambda>r. (cfg_Queue cfg, msg r)) (drop ?n ?u)"
      "selections h' = selections ?h2 + (length (drop ?n ?u) + ?n - 1) div ?n + 1"
      unfolding u2 by auto
    have "published h' = published h @ map (\<lambda>r. (cfg_Queue cfg, msg r)) ?u"
      using h'(2) by (simp flip: map_append)
    moreover have "selections h' = selections h + (length ?u + ?n - 1) div ?n + 1"
      using h'(3) rounds_step [OF n False] by simp
    ultimately show ?thesis using step h'(1) by auto
  qed
qed


text \<open>A row the handler refuses stays unmarked, so every selection returns something.\<close>

lemma refused_stays:
  assumes map: "cfg_UpdateFieldValueMap cfg = Some m" and ids: "inj_on GetID (set tbl)"
    and rows: "set rows \<subseteq> set tbl"
    and p: "handler p = Inl e" "p \<in> set (unmarked GetID tbl h)"
    and run: "processRows W GetID cfg handler rows h = (r, h')"
  shows "p \<in> set (unmarked GetID tbl h')" and "own_updates cfg h' = own_updates cfg h"
proof -
  have p': "p \<in> set tbl" "GetID p \<notin> set (marked h)" using p(2) by (simp_all add: unmarked_def)
  obtain us k where us: "h' = UpdateRows (cfg_UpdateModel cfg) us m # k"
    "set us \<subseteq> GetID ` {r \<in> set rows. \<exists>m. handler r = Inr m}" "marked k = marked h"
    "own_updates cfg k = own_updates cfg h"
    by (rule processRows_update [OF map, of W GetID handler rows h]) (simp add: run)
  have "GetID p \<notin> set us"
    using us(2) rows ids p(1) p'(1) by (fastforce dest: inj_onD)
  then show "p \<in> set (unmarked GetID tbl h')" "own_updates cfg h' = own_updates cfg h"
    using us(1,3,4) p' map by (simp_all add: unmarked_def)
qed

lemma refused_row_diverges:
  assumes build: "Build b = Inr cfg" and map: "cfg_UpdateFieldValueMap cfg \<noteq> None"
    and world: "drains W GetID cfg tbl" and ids: "distinct (map GetID tbl)"
    and row: "p \<in> set tbl" "handler p = Inl e"
  shows "EnqueuerDbMessages W GetID (Some cfg) handler [] = None"
proof -
  obtain m where m: "cfg_UpdateFieldValueMap cfg = Some m" using map by blast
  have n: "0 < nat (cfg_BatchSize cfg)" using build by (auto simp: Build_Inr)
  let ?P = "\<lambda>W' G cfg' hd h y. W' = W \<longrightarrow> G = GetID \<longrightarrow> cfg' = cfg \<longrightarrow> hd = handler \<longrightarrow>
    own_updates cfg h \<longrightarrow> p \<notin> set (unmarked GetID tbl h)"
  have "p \<notin> set (unmarked GetID tbl h)"
    if ret: "enqueue_loop W GetID cfg handler h = Some y" and own: "own_updates cfg h" for h y
  proof -
    have "?P W GetID cfg handler h y"
    proof (rule enqueue_loop.raw_induct [where P = ?P, OF _ ret], intro impI notI)
      fix f W' G cfg' hd h y
      assume IH: "\<And>W' G cfg' hd h y. f W' G cfg' hd h = Some y \<Longrightarrow> ?P W' G cfg' hd h y"
        and eq: "(case ew_done W' (AskDone # h) of
            Some e \<Rightarrow> Some (Some e, AskDone # h)
          | None \<Rightarrow> (case getRows W' cfg' (AskDone # h) of
               (Inl e, h1) \<Rightarrow> Some (Some e, h1)
             | (Inr rows, h1) \<Rightarrow> if rows = [] then Some (None, h1)
                 else (case processRows W' G cfg' hd rows h1 of
                         (Some e, h2) \<Rightarrow> Some (Some e, h2)
                       | (None, h2) \<Rightarrow> f W' G cfg' hd h2))) = Some y"
        and same: "W' = W" "G = GetID" "cfg' = cfg" "hd = handler"
        and own: "own_updates cfg h" and p: "p \<in> set (unmarked GetID tbl h)"
      let ?h1 = "select_rows cfg # AskDone # h"
      let ?b = "take (nat (cfg_BatchSize cfg)) (unmarked GetID tbl h)"
      obtain h2 where h2: "processRows W GetID cfg handler ?b ?h1 = (None, h2)"
        by (rule processRows_update [OF m, of W GetID handler ?b ?h1])
           (use world in \<open>simp add: drains_def\<close>)
      have "unmarked GetID tbl h \<noteq> []" using p by auto
      then have "f W GetID cfg handler h2 = Some y"
        using eq n h2 world own by (simp add: same getRows_def Let_def drains_def)
      moreover have "p \<in> set (unmarked GetID tbl h2)"
        using h2 p ids row(2)
        by (intro refused_stays(1) [OF m _ _ _ _ h2])
           (auto simp: distinct_map unmarked_def dest: in_set_takeD)
      moreover have "own_updates cfg h2"
        using h2 p ids row(2) own
        by (subst refused_stays(2) [OF m _ _ _ _ h2, of tbl p])
           (auto simp: distinct_map unmarked_def dest: in_set_takeD)
      ultimately show False using IH by blast
    qed
    then show ?thesis using own by simp
  qed
  moreover have "p \<in> set (unmarked GetID tbl [])" using row by (simp add: unmarked_def)
  ultimately have "enqueue_loop W GetID cfg handler [] = None"
    by (metis option.exhaust own_updates_simps(1))
  then show ?thesis by (simp add: EnqueuerDbMessages_def)
qed

section \<open>Properties\<close>

text \<open>
  C25. On a table whose rows an update marks, with a handler that converts every row and a bus that
  accepts every message, a built configuration makes the enqueuer return without error, having
  published each row exactly once and in the table's order, after one selection per started
  batch and a last, empty one.
\<close>

theorem enqueuer_drains:
  assumes "Build b = Inr cfg" "cfg_UpdateFieldValueMap cfg \<noteq> None"
    and "drains W GetID cfg tbl" "\<And>h. ew_send W h = None"
    and "\<forall>r\<in>set tbl. handler r = Inr (msg r)" "distinct (map GetID tbl)"
  shows "\<exists>h'. EnqueuerDbMessages W GetID (Some cfg) handler [] = Some (None, h') \<and>
     published h' = map (\<lambda>r. (cfg_Queue cfg, msg r)) tbl \<and>
     selections h' = (length tbl + nat (cfg_BatchSize cfg) - 1) div nat (cfg_BatchSize cfg) + 1"
proof -
  have "0 < cfg_BatchSize cfg" using assms(1) by (auto simp: Build_Inr)
  from enqueue_loop_drains [OF assms(3,4,5,2) this assms(6) own_updates_simps(1)] show ?thesis
    by (simp add: EnqueuerDbMessages_def unmarked_def)
qed

definition sample_builder :: "bool DbEnqueuerConfig" where
  "sample_builder =
     WithQueue ''poll'' (WithUpdateFieldValueMap (Some [(''is_processed'', True)])
       (NewDbEnqueuerConfigBuilder ''poll_message''))"

lemma sample_builds: "Build sample_builder = Inr sample_builder"
  by (simp add: Build_def sample_builder_def builder_defs DefaultBatchSize_def)

theorem enqueuer_drains_witness:
  "\<exists>h'. EnqueuerDbMessages (table_world id [''1'', ''2'']) id (Some sample_builder)
          (\<lambda>r. Inr (r @ ''!'')) [] = Some (None, h') \<and>
     published h' = [(''poll'', ''1!''), (''poll'', ''2!'')] \<and> selections h' = 2"
  using enqueuer_drains [OF sample_builds _ drains_table_world,
      where tbl = "[''1'', ''2'']" and GetID = id and handler = "\<lambda>r. Inr (r @ ''!'')"
        and msg = "\<lambda>r. r @ ''!''"]
  by (simp add: table_world_def sample_builder_def builder_defs DefaultBatchSize_def numeral_2_eq_2)

text \<open>
  One row that the handler refuses stops the enqueuer from ever returning when an update map is
  configured: the deferred update overwrites the error, the row is not marked, and the next
  selection returns it again, whatever the bus answers.
\<close>

theorem enqueuer_refused_row_diverges:
  assumes build: "Build b = Inr cfg" and map: "cfg_UpdateFieldValueMap cfg \<noteq> None"
    and world: "drains W GetID cfg tbl" and ids: "distinct (map GetID tbl)"
    and row: "p \<in> set tbl" "handler p = Inl e"
  shows "EnqueuerDbMessages W GetID (Some cfg) handler [] = None"
  using assms by (rule refused_row_diverges [where handler = handler and p = p])

theorem enqueuer_refused_row_diverges_witness:
  "EnqueuerDbMessages (table_world id [''1'', ''2'']) id (Some sample_builder)
     (\<lambda>r. if r = ''2'' then Inl (ErrNew ''unknown message type: '') else Inr r) [] = None"
  by (rule enqueuer_refused_row_diverges [OF sample_builds _ drains_table_world, where p = "''2''"])
     (simp_all add: sample_builder_def builder_defs)

end
