(* ===== verification/Sql_Where.thy ===== *)
theory Sql_Where
  imports Main
begin

text \<open>
  The part of SQL that the programs write as text: the where clause of a selection, built of
  comparisons of a column with a placeholder, \<^verbatim>\<open>AND\<close>, \<^verbatim>\<open>OR\<close> and parentheses. The text is read with its
  values, which take the places of the placeholders from left to right, and is evaluated on a row
  in SQL's three-valued logic (\<open>None\<close> is NULL). A law about a table that is stated with it depends
  on the text and the values that the program really sends.
\<close>

section \<open>Conditions\<close>

datatype 'v sql_cond =
    SqlCompare string string 'v
  | SqlAnd "'v sql_cond" "'v sql_cond"
  | SqlOr "'v sql_cond" "'v sql_cond"

fun kleene_and :: "bool option \<Rightarrow> bool option \<Rightarrow> bool option" where
  "kleene_and (Some False) b = Some False"
| "kleene_and (Some True) b = b"
| "kleene_and None b = (if b = Some False then Some False else None)"

fun kleene_or :: "bool option \<Rightarrow> bool option \<Rightarrow> bool option" where
  "kleene_or (Some True) b = Some True"
| "kleene_or (Some False) b = b"
| "kleene_or None b = (if b = Some True then Some True else None)"

text \<open>
  \<open>row c\<close> is the value of the column in the row, \<open>None\<close> for NULL; \<open>cmp op v w\<close> is the comparison of two
  values of one type.
\<close>

fun sql_eval :: "(string \<Rightarrow> 'v option) \<Rightarrow> (string \<Rightarrow> 'v \<Rightarrow> 'v \<Rightarrow> bool) \<Rightarrow> 'v sql_cond \<Rightarrow> bool option" where
  "sql_eval row cmp (SqlCompare c p w) = map_option (\<lambda>v. cmp p v w) (row c)"
| "sql_eval row cmp (SqlAnd a b) = kleene_and (sql_eval row cmp a) (sql_eval row cmp b)"
| "sql_eval row cmp (SqlOr a b) = kleene_or (sql_eval row cmp a) (sql_eval row cmp b)"

text \<open>A comparison is well typed when its column, its operator and its value fit (\<open>ok\<close>).\<close>

fun sql_typed :: "(string \<Rightarrow> string \<Rightarrow> 'v \<Rightarrow> bool) \<Rightarrow> 'v sql_cond \<Rightarrow> bool" where
  "sql_typed ok (SqlCompare c p w) = ok c p w"
| "sql_typed ok (SqlAnd a b) = (sql_typed ok a \<and> sql_typed ok b)"
| "sql_typed ok (SqlOr a b) = (sql_typed ok a \<and> sql_typed ok b)"

section \<open>Reading a where clause\<close>

text \<open>Words are separated by blanks; a parenthesis is a word of its own. \<open>acc\<close> is the word so far, reversed.\<close>

definition flush_word :: "string \<Rightarrow> string list" where
  "flush_word acc = (if acc = [] then [] else [rev acc])"

fun sql_words :: "string \<Rightarrow> string \<Rightarrow> string list" where
  "sql_words acc [] = flush_word acc"
| "sql_words acc (c # cs) =
     (if c = CHR '' '' then flush_word acc @ sql_words [] cs
      else if c = CHR ''('' \<or> c = CHR '')'' then flush_word acc @ [c] # sql_words [] cs
      else sql_words (c # acc) cs)"

text \<open>Recursive descent; \<^verbatim>\<open>AND\<close> binds stronger than \<^verbatim>\<open>OR\<close>. The first argument is fuel.\<close>

fun sql_or :: "nat \<Rightarrow> string list \<Rightarrow> 'v list \<Rightarrow> ('v sql_cond \<times> string list \<times> 'v list) option"
  and sql_and :: "nat \<Rightarrow> string list \<Rightarrow> 'v list \<Rightarrow> ('v sql_cond \<times> string list \<times> 'v list) option"
  and sql_atom :: "nat \<Rightarrow> string list \<Rightarrow> 'v list \<Rightarrow> ('v sql_cond \<times> string list \<times> 'v list) option"
where
  "sql_or 0 ws vs = None"
| "sql_or (Suc n) ws vs =
     (case sql_and n ws vs of
        None \<Rightarrow> None
      | Some (a, ws', vs') \<Rightarrow>
          if ws' \<noteq> [] \<and> hd ws' = ''OR''
          then map_option (\<lambda>(b, ws'', vs''). (SqlOr a b, ws'', vs'')) (sql_or n (tl ws') vs')
          else Some (a, ws', vs'))"
| "sql_and 0 ws vs = None"
| "sql_and (Suc n) ws vs =
     (case sql_atom n ws vs of
        None \<Rightarrow> None
      | Some (a, ws', vs') \<Rightarrow>
          if ws' \<noteq> [] \<and> hd ws' = ''AND''
          then map_option (\<lambda>(b, ws'', vs''). (SqlAnd a b, ws'', vs'')) (sql_and n (tl ws') vs')
          else Some (a, ws', vs'))"
| "sql_atom 0 ws vs = None"
| "sql_atom (Suc n) ws vs =
     (if ws \<noteq> [] \<and> hd ws = ''(''
      then (case sql_or n (tl ws) vs of
              None \<Rightarrow> None
            | Some (a, ws', vs') \<Rightarrow>
                if ws' \<noteq> [] \<and> hd ws' = '')'' then Some (a, tl ws', vs') else None)
      else (case (ws, vs) of
              (c # p # q # ws', v # vs') \<Rightarrow>
                if q = ''?'' then Some (SqlCompare c p v, ws', vs') else None
            | _ \<Rightarrow> None))"

text \<open>The whole text and all the values have to be used up; four units of fuel for a word are enough.\<close>

definition sql_where :: "string \<Rightarrow> 'v list \<Rightarrow> 'v sql_cond option" where
  "sql_where e vs =
     (let ws = sql_words [] e
      in case sql_or (4 * length ws) ws vs of
           Some (c, [], []) \<Rightarrow> Some c
         | _ \<Rightarrow> None)"

lemmas sql_where_simps = sql_where_def flush_word_def Let_def

lemma sql_where_examples:
  "sql_where ''a = ? AND b <> ? OR c <= ?'' [1, 2, 3 :: int] =
     Some (SqlOr (SqlAnd (SqlCompare ''a'' ''='' 1) (SqlCompare ''b'' ''<>'' 2)) (SqlCompare ''c'' ''<='' 3))"
  "sql_where ''a = ? AND (b <> ?'' [1, 2 :: int] = None"
  "sql_where ''a = ?'' [1, 2 :: int] = None"
  by (simp_all add: sql_where_simps numeral_eq_Suc)

end
