(* ===== verification/Poll_Enqueuer.thy ===== *)
theory Poll_Enqueuer
  imports Enqueuer Sql_Where Poll_Worker Sample "HOL-Library.Product_Lexorder"
begin

text \<open>
  The two programs built on the enqueuer of \<^verbatim>\<open>pkg/enqueuer\<close>: \<^verbatim>\<open>poll_enqueuer\<close>, which publishes the stored
  poll messages that are pending or were submitted too long ago, and the event cron of \<^verbatim>\<open>crons\<close>, which
  publishes the unprocessed events as notifications. \<open>from_json\<close> is \<^verbatim>\<open>protojson.Unmarshal\<close> into the
  message of a poll message type.
\<close>

section \<open>Values of a query\<close>

datatype enq_value = QString string | QTime gotime | QBool bool

text \<open>\<^verbatim>\<open>time.Now().Add(-10 * time.Minute)\<close>.\<close>

definition minutes_before :: "int \<Rightarrow> gotime \<Rightarrow> gotime" where
  "minutes_before n t = t\<lparr>t_sec := t_sec t - 60 * n\<rparr>"

definition ToTimestampMsg :: "gotime option \<Rightarrow> timestamp option" where
  "ToTimestampMsg t = map_option timestamp_New t"

section \<open>Poll messages\<close>

type_synonym poll_decoder = "string \<Rightarrow> raw \<Rightarrow> gerr + poll_data"

definition poll_data_types :: "string list" where
  "poll_data_types = [''transfer'', ''renewal'', ''pending_action'', ''domain_info'', ''contact_info'', ''host_info'']"

definition DBPollMessageHandler :: "database \<Rightarrow> poll_decoder \<Rightarrow> PollMessageRow \<Rightarrow> gerr + message" where
  "DBPollMessageHandler db from_json row =
     (let msgType = GetPollMessageTypeName db (pm_TypeID row);
          msgData = (case pm_Data row of None \<Rightarrow> RawBad | Some d \<Rightarrow> d);
          pollMsg = (\<lambda>data. PollMessageMsg
            \<lparr>wpm_Id = pm_ID row, wpm_Msg = str_value (pm_Msg row), wpm_Type = msgType,
             wpm_Status = GetPollMessageStatusName db (pm_StatusID row),
             wpm_Accreditation = pm_Accreditation row,
             wpm_CreatedDate = ToTimestampMsg (pm_CreatedDate row), wpm_Data = data\<rparr>)
      in if msgType \<in> set poll_data_types then
           (case from_json msgType msgData of Inl e \<Rightarrow> Inl e | Inr data \<Rightarrow> Inr (pollMsg (Some data)))
         else if msgType = ''unspec'' then Inr (pollMsg None)
         else Inl (ErrNew (''unknown message type: '' @ msgType)))"

text \<open>The two readings of the clock are the arguments \<open>now1\<close> and \<open>now2\<close>.\<close>

definition GetEnqueuer ::
  "database \<Rightarrow> string \<Rightarrow> gotime \<Rightarrow> gotime \<Rightarrow> gerr + enq_value DbEnqueuerConfig" where
  "GetEnqueuer db queue now1 now2 =
     (let pendingStatusID = GetPollMessageStatusId db PollMessageStatus_Pending;
          submittedStatusID = GetPollMessageStatusId db PollMessageStatus_Submitted
      in Build (WithQueue queue
           (WithOrderByExpression ''created_date''
             (WithUpdateFieldValueMap
                (Some [(''last_submitted_date'', QTime now2), (''status_id'', QString submittedStatusID)])
                (WithQueryValues
                   [QString pendingStatusID, QString submittedStatusID, QTime (minutes_before 10 now1)]
                   (WithQueryExpression ''status_id = ? OR (status_id = ? AND last_submitted_date <= ?)''
                      (NewDbEnqueuerConfigBuilder ''poll_message'')))))))"

section \<open>Events\<close>

record DomainTransferEvent =
  dte_Name :: "string option"
  dte_Status :: "string option"
  dte_ActionBy :: "string option"
  dte_ActionDate :: "gotime option"
  dte_RequestedBy :: "string option"
  dte_RequestedDate :: "gotime option"
  dte_ExpiryDate :: "gotime option"

definition zero_DomainTransferEvent :: DomainTransferEvent where
  "zero_DomainTransferEvent =
     \<lparr>dte_Name = None, dte_Status = None, dte_ActionBy = None, dte_ActionDate = None, dte_RequestedBy = None,
      dte_RequestedDate = None, dte_ExpiryDate = None\<rparr>"

definition dec_DomainTransferEvent :: "DomainTransferEvent decoder" where
  "dec_DomainTransferEvent = dec_struct
     [(''name'', fld dte_Name dte_Name_update (dec_ptr [] dec_string)),
      (''status'', fld dte_Status dte_Status_update (dec_ptr [] dec_string)),
      (''actionBy'', fld dte_ActionBy dte_ActionBy_update (dec_ptr [] dec_string)),
      (''actionDate'', fld dte_ActionDate dte_ActionDate_update (dec_ptr zero_time dec_time)),
      (''requestedBy'', fld dte_RequestedBy dte_RequestedBy_update (dec_ptr [] dec_string)),
      (''requestedDate'', fld dte_RequestedDate dte_RequestedDate_update (dec_ptr zero_time dec_time)),
      (''expiryDate'', fld dte_ExpiryDate dte_ExpiryDate_update (dec_ptr zero_time dec_time))]"

text \<open>\<^verbatim>\<open>types.ParseJSON\<close>.\<close>

definition ParseJSON :: "services \<Rightarrow> string \<Rightarrow> 'a decoder \<Rightarrow> 'a \<Rightarrow> raw \<Rightarrow> gerr + 'a" where
  "ParseJSON S ty d z data =
     (case unmarshal d z data of None \<Rightarrow> Inl (ErrJSON (sv_json_text S ty data)) | Some x \<Rightarrow> Inr x)"

text \<open>The error of packing the notification is dropped; its data is then nil.\<close>

definition handleDomainTransferEvent :: "services \<Rightarrow> VEventUnprocessed \<Rightarrow> gerr + NotificationMessage" where
  "handleDomainTransferEvent S event =
     (case ParseJSON S ''DomainTransferEvent'' dec_DomainTransferEvent zero_DomainTransferEvent (veu_Payload event) of
        Inl e \<Rightarrow> Inl e
      | Inr payload \<Rightarrow>
          Inr \<lparr>nmg_Type = ''domain.transfer'',
               nmg_Data = (case sv_pack S (TransferNotificationExt
                   \<lparr>tnf_Name = dte_Name payload, tnf_Status = dte_Status payload,
                    tnf_RequestedBy = dte_RequestedBy payload,
                    tnf_RequestedDate = ToTimestampMsg (dte_RequestedDate payload),
                    tnf_ActionBy = dte_ActionBy payload, tnf_ActionDate = ToTimestampMsg (dte_ActionDate payload),
                    tnf_ExpiryDate = ToTimestampMsg (dte_ExpiryDate payload)\<rparr>) of
                  Inl e \<Rightarrow> None | Inr a \<Rightarrow> Some a),
               nmg_TenantId = veu_TenantID event, nmg_TenantCustomerId = None\<rparr>)"

text \<open>An event of another type is logged; its message is nil (\<open>None\<close>) and is published all the same.\<close>

definition EventEnqueueHandler :: "services \<Rightarrow> VEventUnprocessed \<Rightarrow> gerr + message option" where
  "EventEnqueueHandler S event =
     (if veu_EventTypeName event = ''domain_transfer'' then
        (case handleDomainTransferEvent S event of
           Inl e \<Rightarrow> Inl e | Inr m \<Rightarrow> Inr (Some (NotificationMessageMsg m)))
      else Inr None)"

definition GetEventEnqueue :: "string \<Rightarrow> gerr + enq_value DbEnqueuerConfig" where
  "GetEventEnqueue queue =
     Build (WithUpdateModel ''event''
       (WithBatchSize 100
         (WithOrderByExpression ''created_at''
           (WithQueue queue
             (WithUpdateFieldValueMap (Some [(''is_processed'', QBool True)])
               (NewDbEnqueuerConfigBuilder ''v_event_unprocessed''))))))"

text \<open>The branch of \<^verbatim>\<open>CronRouter\<close>: without a queue nothing is done; an error of the run is fatal.\<close>

definition event_enqueue_cron ::
  "services \<Rightarrow> (VEventUnprocessed, enq_value, message option) enq_world \<Rightarrow> string \<Rightarrow>
   (enq_value, message option) enq_hist \<Rightarrow>
   (gerr option outcome \<times> (enq_value, message option) enq_hist) option" where
  "event_enqueue_cron S W queue h =
     (if queue = [] then Some (Ret None, h)
      else (case GetEventEnqueue queue of
              Inl e \<Rightarrow> Some (Ret (Some e), h)
            | Inr cfg \<Rightarrow>
                map_option (\<lambda>(err, h'). (if err \<noteq> None then Exited else Ret None, h'))
                  (EnqueuerDbMessages W veu_ID (Some cfg) (EventEnqueueHandler S) h)))"

section \<open>The table of poll messages\<close>

text \<open>
  What PostgreSQL makes of a selection from the table \<^verbatim>\<open>poll_message\<close> and of an update of it, whatever
  the text, the values and the field map are. The law of the table below is stated with it, over all
  selections; only in the proofs does it meet the configuration of \<open>GetEnqueuer\<close>.
\<close>

definition poll_text_columns :: "string list" where
  "poll_text_columns = [''id'', ''accreditation'', ''epp_message_id'', ''msg'', ''lang'', ''type_id'', ''status_id'']"

definition poll_time_columns :: "string list" where
  "poll_time_columns = [''queue_date'', ''created_date'', ''last_submitted_date'']"

definition poll_column :: "PollMessageRow \<Rightarrow> string \<Rightarrow> enq_value option" where
  "poll_column r c =
     (if c = ''id'' then Some (QString (pm_ID r))
      else if c = ''accreditation'' then Some (QString (pm_Accreditation r))
      else if c = ''epp_message_id'' then Some (QString (pm_EppMessageID r))
      else if c = ''msg'' then map_option QString (pm_Msg r)
      else if c = ''lang'' then map_option QString (pm_Lang r)
      else if c = ''type_id'' then Some (QString (pm_TypeID r))
      else if c = ''status_id'' then Some (QString (pm_StatusID r))
      else if c = ''queue_date'' then map_option QTime (pm_QueueDate r)
      else if c = ''created_date'' then map_option QTime (pm_CreatedDate r)
      else if c = ''last_submitted_date'' then map_option QTime (pm_LastSubmittedDate r)
      else None)"

fun enq_compare :: "string \<Rightarrow> enq_value \<Rightarrow> enq_value \<Rightarrow> bool" where
  "enq_compare p (QTime t) (QTime u) =
     (if p = ''<'' then time_After u t else if p = ''<='' then \<not> time_After t u
      else if p = ''>'' then time_After t u else \<not> time_After u t)"
| "enq_compare p v w = (if p = ''='' then v = w else v \<noteq> w)"

fun poll_typed :: "string \<Rightarrow> string \<Rightarrow> enq_value \<Rightarrow> bool" where
  "poll_typed c p (QString s) \<longleftrightarrow> c \<in> set poll_text_columns \<and> p \<in> {''='', ''<>''}"
| "poll_typed c p (QTime t) \<longleftrightarrow> c \<in> set poll_time_columns \<and> p \<in> {''<'', ''<='', ''>'', ''>=''}"
| "poll_typed c p (QBool b) \<longleftrightarrow> False"

text \<open>The order of a date column: by instant, NULL last.\<close>

definition time_key :: "gotime option \<Rightarrow> int \<times> int \<times> int" where
  "time_key d = (case d of None \<Rightarrow> (1, 0, 0) | Some t \<Rightarrow> (0, t_sec t, t_nsec t))"

definition poll_order :: "string option \<Rightarrow> (PollMessageRow \<Rightarrow> int \<times> int \<times> int) option" where
  "poll_order ord =
     (if ord = Some ''created_date ASC'' then Some (\<lambda>r. time_key (pm_CreatedDate r))
      else if ord = Some ''queue_date ASC'' then Some (\<lambda>r. time_key (pm_QueueDate r))
      else if ord = Some ''last_submitted_date ASC'' then Some (\<lambda>r. time_key (pm_LastSubmittedDate r))
      else None)"

text \<open>\<open>None\<close>: a selection that this reading does not cover; the law says nothing of it.\<close>

fun poll_select :: "(enq_value, message) enq_event \<Rightarrow> (PollMessageRow list \<Rightarrow> PollMessageRow list) option" where
  "poll_select (SelectRows n e vs ord) =
     (case (sql_where e vs, poll_order ord) of
        (Some c, Some key) \<Rightarrow>
          if sql_typed poll_typed c
          then Some (\<lambda>rows. take (nat n)
                 (filter (\<lambda>r. sql_eval (poll_column r) enq_compare c = Some True) (sort_key key rows)))
          else None
      | _ \<Rightarrow> None)"
| "poll_select e = None"

definition poll_assign :: "string \<times> enq_value \<Rightarrow> (PollMessageRow \<Rightarrow> PollMessageRow) option" where
  "poll_assign fv =
     (case fv of
        (f, QString s) \<Rightarrow>
          if f = ''accreditation'' then Some (pm_Accreditation_update (\<lambda>_. s))
          else if f = ''type_id'' then Some (pm_TypeID_update (\<lambda>_. s))
          else if f = ''status_id'' then Some (pm_StatusID_update (\<lambda>_. s)) else None
      | (f, QTime t) \<Rightarrow>
          if f = ''queue_date'' then Some (pm_QueueDate_update (\<lambda>_. Some t))
          else if f = ''created_date'' then Some (pm_CreatedDate_update (\<lambda>_. Some t))
          else if f = ''last_submitted_date'' then Some (pm_LastSubmittedDate_update (\<lambda>_. Some t)) else None
      | (f, QBool b) \<Rightarrow> None)"

text \<open>The rows after the updates of a history.\<close>

fun poll_rows :: "PollMessageRow list \<Rightarrow> (enq_value, message) enq_hist \<Rightarrow> PollMessageRow list option" where
  "poll_rows tbl [] = Some tbl"
| "poll_rows tbl (UpdateRows t ids m # h) =
     (case (poll_rows tbl h, those (map poll_assign m)) of
        (Some rows, Some fs) \<Rightarrow>
          if t = ''poll_message''
          then Some (map (\<lambda>r. if pm_ID r \<in> set ids then fold (\<lambda>f. f) fs r else r) rows) else None
      | _ \<Rightarrow> None)"
| "poll_rows tbl (e # h) = poll_rows tbl h"

text \<open>
  The law of the table, for every history and every selection: nothing fails, and a selection returns
  what its text, its values, its order and its limit make of the rows that the updates so far have left
  (rows of one date in the order of \<open>tbl\<close>).
\<close>

definition poll_table ::
  "(PollMessageRow, enq_value, message) enq_world \<Rightarrow> PollMessageRow list \<Rightarrow> bool" where
  "poll_table W tbl \<longleftrightarrow>
     (\<forall>h. ew_done W h = None \<and> ew_update W h = None \<and> ew_send W h = None) \<and>
     (\<forall>e h sel rows. poll_select e = Some sel \<longrightarrow> poll_rows tbl h = Some rows \<longrightarrow>
        ew_rows W (e # h) = Inr (sel rows))"

text \<open>
  What the poll enqueuer is for: the rows that are pending, and those submitted ten minutes (600
  seconds) ago or earlier, in the order of their creation.
\<close>

definition due :: "database \<Rightarrow> gotime \<Rightarrow> PollMessageRow \<Rightarrow> bool" where
  "due db now1 r \<longleftrightarrow>
     pm_StatusID r = GetPollMessageStatusId db ''pending'' \<or>
     pm_StatusID r = GetPollMessageStatusId db ''submitted'' \<and>
       (\<exists>t. pm_LastSubmittedDate r = Some t \<and> \<not> time_After t (now1\<lparr>t_sec := t_sec now1 - 600\<rparr>))"

definition in_creation_order :: "PollMessageRow list \<Rightarrow> PollMessageRow list" where
  "in_creation_order = sort_key (\<lambda>r. time_key (pm_CreatedDate r))"

lemma GetEnqueuer_Inr:
  assumes "GetEnqueuer db queue now1 now2 = Inr cfg"
  shows "cfg_Queue cfg = queue" "cfg_BatchSize cfg = 100" "cfg_UpdateFieldValueMap cfg \<noteq> None"
    "cfg_UpdateModel cfg = ''poll_message''"
    "cfg_UpdateFieldValueMap cfg = Some [(''last_submitted_date'', QTime now2),
       (''status_id'', QString (GetPollMessageStatusId db ''submitted''))]"
  using assms by (auto simp: GetEnqueuer_def Build_Inr Let_def builder_defs DefaultBatchSize_def)

text \<open>The text and the values of the configuration select the due rows.\<close>

lemma enq_compare_eq [simp]: "enq_compare ''='' (QString a) w \<longleftrightarrow> QString a = w"
  by simp

lemma kleene_due:
  "kleene_or (Some a) (kleene_and (Some b) (map_option f d)) = Some True \<longleftrightarrow>
     a \<or> b \<and> (\<exists>t. d = Some t \<and> f t)"
  by (cases a; cases b; cases d) auto

lemma poll_select_due:
  assumes "GetEnqueuer db queue now1 now2 = Inr cfg"
  shows "poll_select (select_rows cfg) =
     Some (\<lambda>rows. take 100 (filter (due db now1) (in_creation_order rows)))"
proof -
  let ?p = "QString (GetPollMessageStatusId db ''pending'')" and ?s = "QString (GetPollMessageStatusId db ''submitted'')"
  let ?t = "QTime (minutes_before 10 now1)"
  let ?c = "SqlOr (SqlCompare ''status_id'' ''='' ?p)
    (SqlAnd (SqlCompare ''status_id'' ''='' ?s) (SqlCompare ''last_submitted_date'' ''<='' ?t))"
  have cfg: "cfg_QueryExpression cfg = ''status_id = ? OR (status_id = ? AND last_submitted_date <= ?)''"
    "cfg_QueryValues cfg = [?p, ?s, ?t]" "cfg_OrderByExpression cfg = ''created_date''"
    "cfg_OrderByDirection cfg = 0"
    using assms by (auto simp: GetEnqueuer_def Build_Inr Let_def builder_defs)
  have c: "sql_where ''status_id = ? OR (status_id = ? AND last_submitted_date <= ?)'' [?p, ?s, ?t] = Some ?c"
    by (simp add: sql_where_simps numeral_eq_Suc)
  have typed: "sql_typed poll_typed ?c"
    by (simp add: poll_text_columns_def poll_time_columns_def)
  have eval: "sql_eval (poll_column r) enq_compare ?c = Some True \<longleftrightarrow> due db now1 r" for r
  proof -
    have "map_option (\<lambda>v. enq_compare ''<='' v ?t) (poll_column r ''last_submitted_date'') =
        map_option (\<lambda>t. \<not> time_After t (minutes_before 10 now1)) (pm_LastSubmittedDate r)"
      by (cases "pm_LastSubmittedDate r") (simp_all add: poll_column_def)
    then show ?thesis
      by (simp add: poll_column_def kleene_due due_def minutes_before_def)
  qed
  show ?thesis
    using GetEnqueuer_Inr(2) [OF assms]
    by (simp add: select_rows_def cfg c typed eval poll_order_def OrderByDirection_String_def in_creation_order_def
        del: sql_eval.simps sql_typed.simps)
qed

text \<open>The update of the configuration leaves a row submitted at \<open>now2\<close>.\<close>

definition submitted_row :: "database \<Rightarrow> gotime \<Rightarrow> PollMessageRow \<Rightarrow> PollMessageRow" where
  "submitted_row db now2 r =
     r\<lparr>pm_StatusID := GetPollMessageStatusId db ''submitted'', pm_LastSubmittedDate := Some now2\<rparr>"

lemma poll_rows_own:
  assumes "GetEnqueuer db queue now1 now2 = Inr cfg" "own_updates cfg h"
  shows "poll_rows tbl h =
     Some (map (\<lambda>r. if pm_ID r \<in> set (marked h) then submitted_row db now2 r else r) tbl)"
  using assms(2)
proof (induction h)
  case (Cons e h)
  show ?case
  proof (cases e)
    case (UpdateRows t ids m)
    then have "t = ''poll_message''" and h: "own_updates cfg h"
      and m: "m = [(''last_submitted_date'', QTime now2), (''status_id'', QString (GetPollMessageStatusId db ''submitted''))]"
      using Cons.prems GetEnqueuer_Inr(4,5) [OF assms(1)] by auto
    then show ?thesis
      using UpdateRows Cons.IH [OF h]
      by (auto simp: m poll_assign_def submitted_row_def)
  qed (use Cons in \<open>simp_all add: own_updates_def\<close>)
qed simp

lemma insort_key_map: "insort_key f (g x) (map g xs) = map g (insort_key (\<lambda>x. f (g x)) x xs)"
  by (induction xs) simp_all

lemma sort_key_map: "sort_key f (map g xs) = map g (sort_key (\<lambda>x. f (g x)) xs)"
  by (induction xs) (simp_all add: insort_key_map)

text \<open>What the update writes is not due, so the query sees exactly the due rows not yet marked.\<close>

lemma poll_table_drains:
  assumes cfg: "GetEnqueuer db queue now1 now2 = Inr cfg" and table: "poll_table W tbl"
    and clock: "\<not> time_After now1 now2"
    and ids: "GetPollMessageStatusId db ''pending'' \<noteq> GetPollMessageStatusId db ''submitted''"
  shows "drains W pm_ID cfg (filter (due db now1) (in_creation_order tbl))"
proof -
  have "filter (due db now1) (in_creation_order
      (map (\<lambda>r. if pm_ID r \<in> set (marked h) then submitted_row db now2 r else r) tbl)) =
      unmarked pm_ID (filter (due db now1) (in_creation_order tbl)) h"
    (is "filter _ (_ (map ?g tbl)) = _") for h :: "(enq_value, message) enq_hist"
  proof -
    have "\<not> due db now1 (submitted_row db now2 r)" for r
      using clock ids by (auto simp: due_def submitted_row_def time_After_def)
    then have "filter (due db now1 \<circ> ?g) rows = unmarked pm_ID (filter (due db now1) rows) h" for rows
      by (auto simp: unmarked_def intro!: filter_cong split: if_splits)
    moreover have "map ?g (unmarked pm_ID rows h) = unmarked pm_ID rows h" for rows
      by (rule map_idI) (simp add: unmarked_def)
    moreover have "(\<lambda>r. time_key (pm_CreatedDate (?g r))) = (\<lambda>r. time_key (pm_CreatedDate r))"
      by (auto simp: submitted_row_def)
    ultimately show ?thesis
      by (simp add: in_creation_order_def sort_key_map filter_map)
  qed
  then show ?thesis
    using table poll_select_due [OF cfg] poll_rows_own [OF cfg, of _ tbl] GetEnqueuer_Inr(2) [OF cfg]
    by (simp add: drains_def poll_table_def)
qed

lemma due_table:
  assumes "distinct (map pm_ID tbl)"
  shows "distinct (map pm_ID (filter (due db now1) (in_creation_order tbl)))"
  using assms by (auto simp: in_creation_order_def distinct_map intro: distinct_filter inj_on_subset)

lemma set_in_creation_order [simp]: "set (in_creation_order tbl) = set tbl"
  by (simp add: in_creation_order_def)

section \<open>Properties\<close>


text \<open>
  One due row whose type is not known, or whose data does not decode, keeps the poll enqueuer from
  ever returning: the error is lost, the row stays due, and the query returns it again.
\<close>

theorem poll_enqueuer_stuck:
  assumes "GetEnqueuer db queue now1 now2 = Inr cfg" "poll_table W tbl" "\<not> time_After now1 now2"
    and "GetPollMessageStatusId db ''pending'' \<noteq> GetPollMessageStatusId db ''submitted''"
    and "distinct (map pm_ID tbl)" "p \<in> set tbl" "due db now1 p" "DBPollMessageHandler db from_json p = Inl e"
  shows "EnqueuerDbMessages W pm_ID (Some cfg) (DBPollMessageHandler db from_json) [] = None"
proof -
  obtain b where b: "Build b = Inr cfg" using assms(1) by (auto simp: GetEnqueuer_def Let_def)
  have p: "p \<in> set (filter (due db now1) (in_creation_order tbl))" using assms(6,7) by simp
  from b GetEnqueuer_Inr(3) [OF assms(1)] poll_table_drains [OF assms(1-4)] due_table [OF assms(5)] p assms(8)
  show ?thesis
    by (rule refused_row_diverges [where handler = "DBPollMessageHandler db from_json" and p = p])
qed

text \<open>
  C33. A poll message keeps its content on its way from the registry interface through the database to
  the workers: what the poll worker stores of it, the poll enqueuer turns back into a message of the
  same type with the same data. The hypotheses are the lookup of the type's id and the documented
  inverse of \<^verbatim>\<open>protojson.Marshal\<close>.
\<close>

theorem poll_message_roundtrip:
  assumes "GetPollMessageTypeName db (GetPollMessageTypeId db (poll_type (epm_Data m))) = poll_type (epm_Data m)"
    and "\<And>d. epm_Data m = Some d \<Longrightarrow> sv_poll_json S d = Inr j \<and> from_json (poll_type (Some d)) (Raw j) = Inr d"
    and "ToPollMessage S db m acc h = (Ret row, h')"
  shows "h' = h \<and>
     DBPollMessageHandler db from_json (row\<lparr>pm_ID := i, pm_StatusID := st\<rparr>) =
       Inr (PollMessageMsg \<lparr>wpm_Id = i, wpm_Msg = str_value (epm_Msg m), wpm_Type = poll_type (epm_Data m),
         wpm_Status = GetPollMessageStatusName db st, wpm_Accreditation = acc,
         wpm_CreatedDate = Some (timestamp_New (sv_now S h 0)), wpm_Data = epm_Data m\<rparr>)"
proof -
  have row: "h' = h" "pm_TypeID row = GetPollMessageTypeId db (poll_type (epm_Data m))"
    "pm_Data row = Some (case epm_Data m of None \<Rightarrow> RawBad
                         | Some d \<Rightarrow> (case sv_poll_json S d of Inl e \<Rightarrow> RawBad | Inr j \<Rightarrow> Raw j))"
    "pm_Msg row = epm_Msg m" "pm_Accreditation row = acc"
    "pm_CreatedDate row = TimestampToTime (Some (timestamp_New (sv_now S h 0)))"
    using assms(3) by (auto simp: ToPollMessage_def observe_def bnd_def ret_def)
  have date: "ToTimestampMsg (pm_CreatedDate row) = Some (timestamp_New (sv_now S h 0))"
    unfolding row(6) by (simp add: ToTimestampMsg_def TimestampToTime_def AsTime_def timestamp_New_def)
  show ?thesis
  proof (cases "epm_Data m")
    case None
    then show ?thesis
      using row date assms(1) by (simp add: DBPollMessageHandler_def Let_def poll_type_def poll_data_types_def)
  next
    case (Some d)
    have "poll_type (Some d) \<in> set poll_data_types"
      by (cases d) (simp_all add: poll_type_def poll_data_types_def)
    then show ?thesis
      using row date assms(1) assms(2) [OF Some] Some by (simp add: DBPollMessageHandler_def Let_def)
  qed
qed

section \<open>Witnesses\<close>

text \<open>A table that answers as documented, and a bus that accepts everything.\<close>

definition poll_world :: "PollMessageRow list \<Rightarrow> (PollMessageRow, enq_value, message) enq_world" where
  "poll_world tbl =
     \<lparr>ew_done = \<lambda>h. None,
      ew_rows = \<lambda>h. case h of
          [] \<Rightarrow> Inr []
        | e # h' \<Rightarrow> (case (poll_select e, poll_rows tbl h') of
                      (Some sel, Some rows) \<Rightarrow> Inr (sel rows) | _ \<Rightarrow> Inl (ErrNew ''syntax error'')),
      ew_update = \<lambda>h. None, ew_send = \<lambda>h. None\<rparr>"

lemma poll_world_table: "poll_table (poll_world tbl) tbl"
  by (simp add: poll_table_def poll_world_def)

definition sample_poll_row :: "string \<Rightarrow> string \<Rightarrow> string \<Rightarrow> int \<Rightarrow> PollMessageRow" where
  "sample_poll_row i ty st created =
     zero_PollMessageRow\<lparr>pm_ID := i, pm_TypeID := ty, pm_StatusID := st,
       pm_CreatedDate := Some (zero_time\<lparr>t_sec := created\<rparr>),
       pm_LastSubmittedDate := Some (zero_time\<lparr>t_sec := t_sec zero_time - 1200\<rparr>)\<rparr>"

lemmas sample_enum_defs = sample_db_def sample_statuses_def
  assoc_bimap_def GetPollMessageTypeName_def GetPollMessageTypeId_def GetPollMessageStatusName_def
  GetPollMessageStatusId_def GetByKey_def GetByValue_def

lemmas sample_poll_defs = sample_enum_defs sample_poll_row_def DBPollMessageHandler_def zero_PollMessageRow_def
  Let_def poll_data_types_def

lemma sample_poll_setup:
  "GetPollMessageStatusId sample_db ''pending'' \<noteq> GetPollMessageStatusId sample_db ''submitted''"
  "\<not> time_After zero_time zero_time"
  "GetEnqueuer sample_db ''q'' zero_time zero_time = Inr (projr (GetEnqueuer sample_db ''q'' zero_time zero_time))"
  "due sample_db zero_time (sample_poll_row i ty st c) = (st \<in> {''p1'', ''p2''})"
  by (simp_all add: sample_poll_defs time_After_def zero_time_def GetEnqueuer_def Build_def
      builder_defs DefaultBatchSize_def due_def)


theorem poll_enqueuer_stuck_witness:
  "EnqueuerDbMessages (poll_world [sample_poll_row ''1'' ''zz'' ''p1'' 0]) pm_ID
     (Some (projr (GetEnqueuer sample_db ''q'' zero_time zero_time)))
     (DBPollMessageHandler sample_db (\<lambda>ty b. Inl ErrNotFound)) [] = None"
  by (rule poll_enqueuer_stuck [OF sample_poll_setup(3) poll_world_table sample_poll_setup(2,1),
        where p = "sample_poll_row ''1'' ''zz'' ''p1'' 0"])
     (simp_all add: sample_poll_setup, simp_all add: sample_poll_defs)

theorem poll_message_roundtrip_witness:
  defines "m \<equiv> \<lparr>epm_Id = ''e1'', epm_Msg = Some ''hi'', epm_Lang = None, epm_QueueDate = None,
     epm_Data = Some (PanData \<lparr>pan_Name = ''a.com'', pan_PaResult = 1, pan_PaCltrid = ''x''\<rparr>)\<rparr>"
  defines "from_json \<equiv> \<lambda>ty b. Inr (PanData \<lparr>pan_Name = ''a.com'', pan_PaResult = 1, pan_PaCltrid = ''x''\<rparr>)"
  defines "S \<equiv> plain_services ''t''"
  shows "\<exists>row. ToPollMessage S sample_db m ''acc'' [] = (Ret row, []) \<and>
     projr (DBPollMessageHandler sample_db from_json (row\<lparr>pm_ID := ''1'', pm_StatusID := ''p1''\<rparr>)) =
       PollMessageMsg \<lparr>wpm_Id = ''1'', wpm_Msg = ''hi'', wpm_Type = ''pending_action'', wpm_Status = ''pending'',
         wpm_Accreditation = ''acc'', wpm_CreatedDate = Some (timestamp_New zero_time), wpm_Data = epm_Data m\<rparr>"
proof -
  obtain row where row: "ToPollMessage S sample_db m ''acc'' [] = (Ret row, [])"
    by (simp add: ToPollMessage_def observe_def bnd_def ret_def)
  have "GetPollMessageTypeName sample_db (GetPollMessageTypeId sample_db (poll_type (epm_Data m))) = poll_type (epm_Data m)"
    by (simp add: m_def poll_type_def sample_enum_defs)
  from poll_message_roundtrip [OF this _ row, where j = "JObj []" and from_json = from_json and i = "''1''" and st = "''p1''"]
    row show ?thesis
    by (simp add: m_def from_json_def S_def plain_services_def sample_services_def poll_type_def sample_enum_defs)
qed

end
