(* ===== verification/Notification_Worker.thy ===== *)
theory Notification_Worker
  imports Poll_Enqueuer
begin

text \<open>
  \<^verbatim>\<open>notification_worker\<close> with the part of \<^verbatim>\<open>pkg/repository\<close> it uses: the lookup table of notification
  types, the generic insert, and the handler that stores a notification. The notifications come from
  the event cron, through the bus.
\<close>

section \<open>pkg/repository\<close>

text \<open>\<open>mk\<close> is the constructor of the two-way map package.\<close>

fun lookup_data :: "NotificationType list \<Rightarrow> (string \<times> string) list \<Rightarrow> (string \<times> string) list" where
  "lookup_data [] data = data"
| "lookup_data (item # items) data = lookup_data items (AList.update (ntt_Name item) (ntt_ID item) data)"

definition NewLookupTable ::
  "((string \<times> string) list \<Rightarrow> bimap) \<Rightarrow> NotificationType list \<times> gerr option \<Rightarrow> gerr + bimap" where
  "NewLookupTable mk found =
     (case found of (items, Some err) \<Rightarrow> Inl err | (items, None) \<Rightarrow> Inr (mk (lookup_data items [])))"

definition GetNameById :: "bimap \<Rightarrow> string \<Rightarrow> string" where
  "GetNameById e i = (case bm_GetInverse e i of None \<Rightarrow> [] | Some name \<Rightarrow> name)"

definition GetIdByName :: "bimap \<Rightarrow> string \<Rightarrow> string" where
  "GetIdByName e name = (case bm_Get e name of None \<Rightarrow> [] | Some i \<Rightarrow> i)"

definition Repository_Create :: "services \<Rightarrow> session \<Rightarrow> NotificationRow \<Rightarrow> (hist, gerr option) go" where
  "Repository_Create S db item = perform (Exec db (CreateNotificationStmt item)) (sv_err S)"

text \<open>
  The clauses a filter adds to a query: order, limit, offset, and the row to match. A direction other
  than \<^verbatim>\<open>DESC\<close> is ascending.
\<close>

datatype 'm clause = OrderClause string | LimitClause int | OffsetClause int | WhereClause 'm

record 'm Filter =
  flt_Model :: 'm
  flt_OrderBy :: string
  flt_OrderDirection :: string
  flt_Limit :: int
  flt_Offset :: int

definition Filter_apply :: "'m Filter \<Rightarrow> 'm clause list" where
  "Filter_apply f =
     (if flt_OrderBy f \<noteq> []
      then [OrderClause (flt_OrderBy f @ (if flt_OrderDirection f = ''DESC'' then '' DESC'' else '' ASC''))] else []) @
     (if flt_Limit f > 0 then [LimitClause (flt_Limit f)] else []) @
     (if flt_Offset f > 0 then [OffsetClause (flt_Offset f)] else []) @
     [WhereClause (flt_Model f)]"

section \<open>The handler\<close>

text \<open>A notification of an unknown type is logged and reported as handled.\<close>

definition NotificationHandler ::
  "services \<Rightarrow> session \<Rightarrow> bimap \<Rightarrow> message \<Rightarrow> (hist, gerr option) go" where
  "NotificationHandler S db notificationTypeLT m =
     (case m of
        NotificationMessageMsg request \<Rightarrow>
          (let notificationTypeID = GetIdByName notificationTypeLT (nmg_Type request) in
           if notificationTypeID = [] then ret None
           else (case sv_unpack S (nmg_Data request) of
                   Inl e \<Rightarrow> ret (Some e)
                 | Inr notificationMsg \<Rightarrow>
                     (case sv_ext_json S notificationMsg of
                        Inl e \<Rightarrow> ret (Some e)
                      | Inr payload \<Rightarrow>
                          (let notification = zero_NotificationRow
                             \<lparr>ntf_TypeID := notificationTypeID, ntf_TenantID := nmg_TenantId request,
                              ntf_Payload := Some (Raw payload),
                              ntf_TenantCustomerID :=
                                (if str_value (nmg_TenantCustomerId request) \<noteq> []
                                 then nmg_TenantCustomerId request else None)\<rparr>
                           in Repository_Create S db notification))))
      | _ \<Rightarrow> go_panic ''interface conversion'')"

section \<open>Properties\<close>

text \<open>
  A domain transfer event that decodes ends as one row of the notification table: published by the
  cron and handled by the worker, it is stored under the type \<^verbatim>\<open>domain.transfer\<close>, for the event's
  tenant and no customer, with the JSON of a notification that has the fields of the event. The
  hypotheses are the documented inverse of \<^verbatim>\<open>anypb.New\<close> and that the type is in the lookup table.
\<close>

theorem transfer_event_stored:
  assumes "veu_EventTypeName event = ''domain_transfer''"
    and "unmarshal dec_DomainTransferEvent zero_DomainTransferEvent (veu_Payload event) = Some p"
    and "sv_pack S (TransferNotificationExt t) = Inr a" "sv_unpack S (Some a) = Inr (TransferNotificationExt t)"
    and "sv_ext_json S (TransferNotificationExt t) = Inr j"
    and "t = \<lparr>tnf_Name = dte_Name p, tnf_Status = dte_Status p, tnf_RequestedBy = dte_RequestedBy p,
              tnf_RequestedDate = map_option timestamp_New (dte_RequestedDate p), tnf_ActionBy = dte_ActionBy p,
              tnf_ActionDate = map_option timestamp_New (dte_ActionDate p),
              tnf_ExpiryDate = map_option timestamp_New (dte_ExpiryDate p)\<rparr>"
    and "GetIdByName lt ''domain.transfer'' = tid" "tid \<noteq> []"
  shows "\<exists>m. EventEnqueueHandler S event = Inr (Some m) \<and>
     NotificationHandler S db lt m h =
       (let w = Exec db (CreateNotificationStmt (zero_NotificationRow
                  \<lparr>ntf_TypeID := tid, ntf_TenantID := veu_TenantID event, ntf_Payload := Some (Raw j)\<rparr>))
        in (Ret (sv_err S h w), w # h))"
  using assms(3-5,7,8) unfolding assms(6)
  by (simp add: EventEnqueueHandler_def assms(1,2) handleDomainTransferEvent_def ParseJSON_def ToTimestampMsg_def
      NotificationHandler_def Repository_Create_def perform_def Let_def zero_NotificationRow_def)

definition sample_transfer_event :: VEventUnprocessed where
  "sample_transfer_event = zero_VEventUnprocessed
     \<lparr>veu_ID := ''e1'', veu_TenantID := ''t1'', veu_EventTypeName := ''domain_transfer'',
      veu_Payload := Raw (JObj [(''name'', JStr ''a.com''), (''status'', JStr ''pending'')])\<rparr>"

definition sample_transfer :: TransferNotification where
  "sample_transfer =
     \<lparr>tnf_Name = Some ''a.com'', tnf_Status = Some ''pending'', tnf_RequestedBy = None, tnf_RequestedDate = None,
      tnf_ActionBy = None, tnf_ActionDate = None, tnf_ExpiryDate = None\<rparr>"

definition notify_services :: services where
  "notify_services = plain_services ''t''\<lparr>sv_unpack := \<lambda>a. Inr (TransferNotificationExt sample_transfer)\<rparr>"

lemma notify_services_simps:
  "sv_pack notify_services m = Inr (Any [] [])" "sv_err notify_services h e = None"
  "sv_unpack notify_services x = Inr (TransferNotificationExt sample_transfer)"
  "sv_ext_json notify_services m = Inr (JObj [])"
  by (simp_all add: notify_services_def plain_services_def sample_services_def)

lemma sample_transfer_decodes:
  "unmarshal dec_DomainTransferEvent zero_DomainTransferEvent (veu_Payload sample_transfer_event) =
     Some (zero_DomainTransferEvent\<lparr>dte_Name := Some ''a.com'', dte_Status := Some ''pending''\<rparr>)"
  by code_simp

theorem transfer_event_stored_witness:
  "\<exists>m w. EventEnqueueHandler notify_services sample_transfer_event = Inr (Some m) \<and>
     NotificationHandler notify_services Pool (assoc_bimap [(''domain.transfer'', ''n1'')]) m [] = (Ret None, [w])"
  using transfer_event_stored [of sample_transfer_event _ notify_services sample_transfer "Any [] []" "JObj []"
      "assoc_bimap [(''domain.transfer'', ''n1'')]" "''n1''" Pool "[]", OF _ sample_transfer_decodes]
  by (simp add: notify_services_simps sample_transfer_event_def sample_transfer_def zero_VEventUnprocessed_def
      zero_DomainTransferEvent_def GetIdByName_def assoc_bimap_def Let_def del: split_paired_Ex) blast

text \<open>
  An event of any other type is published as a nil message and marked as processed; a notification
  whose type is not in the table is dropped without an error.
\<close>

theorem unsupported_event_nil:
  "veu_EventTypeName event \<noteq> ''domain_transfer'' \<Longrightarrow> EventEnqueueHandler S event = Inr None"
  by (simp add: EventEnqueueHandler_def)

end
