(* ===== verification/Notification_Data.thy ===== *)
theory Notification_Data
  imports Go_Text Services
begin

text \<open>
  Shared ground of the notification services under \<^verbatim>\<open>sm/tdp-notifications\<close>: the notification message
  they pass on (\<^verbatim>\<open>datamanager.Notification\<close> of the message package, as far as the code reads it), the
  rows of the view \<^verbatim>\<open>v_notification\<close>, and the calls the services make. As elsewhere in the
  development a history of calls is the state, and how the outside answers is a record of functions.
\<close>

section \<open>Messages\<close>

datatype DeliveryStatus =
  Delivery_RECEIVED | Delivery_PUBLISHING | Delivery_PUBLISHED | Delivery_FAILED | Delivery_UNSUPPORTED

record EmailAddress =
  ead_Email :: string
  ead_Name :: string

record EmailEnvelope =
  env_Subject :: string
  env_FromAddress :: "EmailAddress option"
  env_ReplytoAddress :: "EmailAddress option"
  env_ToAddress :: "EmailAddress list"
  env_CcAddress :: "EmailAddress list"
  env_BccAddress :: "EmailAddress list"

definition zero_EmailEnvelope :: EmailEnvelope where
  "zero_EmailEnvelope = \<lparr>env_Subject = [], env_FromAddress = None, env_ReplytoAddress = None,
     env_ToAddress = [], env_CcAddress = [], env_BccAddress = []\<rparr>"

record EmailNotification =
  emn_Envelope :: "EmailEnvelope option"
  emn_Template :: string

record Notification =
  ntn_Id :: string
  ntn_Type :: string
  ntn_TenantId :: string
  ntn_TenantCustomerId :: "string option"
  ntn_SubscriptionId :: string
  ntn_WebhookUrl :: "string option"
  ntn_SigningSecret :: "string option"
  ntn_CreatedDate :: "timestamp option"
  ntn_Status :: DeliveryStatus
  ntn_StatusReason :: string
  ntn_Data :: "any option"
  ntn_EmailNotification :: "EmailNotification option"

section \<open>Rows of v\_notification\<close>

text \<open>The enqueuer reads the view into pointers, the notification manager into values.\<close>

record QueuedNotification =
  qn_ID :: "string option"
  qn_NotificationID :: "string option"
  qn_Type :: "string option"
  qn_Payload :: "string option"
  qn_CreatedDate :: "gotime option"
  qn_TenantID :: "string option"
  qn_TenantCustomerID :: "string option"
  qn_Status :: "string option"
  qn_Retries :: "i32 option"
  qn_ChannelType :: "string option"
  qn_SubscriptionID :: "string option"
  qn_WebhookURL :: "string option"
  qn_SigningSecret :: "string option"
  qn_EmailSubject :: "string option"
  qn_EmailTemplate :: "string option"
  qn_StatusID :: "string option"

record VNotification =
  vn_ID :: string
  vn_NotificationID :: string
  vn_Type :: string
  vn_Payload :: string
  vn_CreatedDate :: gotime
  vn_TenantID :: string
  vn_TenantCustomerID :: string
  vn_Status :: string
  vn_Retries :: i32
  vn_StatusReason :: string
  vn_ChannelType :: string
  vn_SubscriptionID :: string
  vn_WebhookURL :: string
  vn_SigningSecret :: string
  vn_StatusID :: string
  vn_EmailSubject :: string
  vn_EmailTemplate :: string

definition zero_VNotification :: VNotification where
  "zero_VNotification = \<lparr>vn_ID = [], vn_NotificationID = [], vn_Type = [], vn_Payload = [],
     vn_CreatedDate = zero_time, vn_TenantID = [], vn_TenantCustomerID = [], vn_Status = [], vn_Retries = 0,
     vn_StatusReason = [], vn_ChannelType = [], vn_SubscriptionID = [], vn_WebhookURL = [], vn_SigningSecret = [],
     vn_StatusID = [], vn_EmailSubject = [], vn_EmailTemplate = []\<rparr>"

section \<open>Calls\<close>

text \<open>
  Header values of a message; a webhook request with the headers the code sets; a mail, by its
  sender, its receivers and its text; and the update of a notification through the view.
\<close>

datatype header_value = HString string | HInt i64

record webhook_request =
  wr_Url :: string
  wr_Payload :: string
  wr_Signature :: string
  wr_CreatedAt :: string
  wr_EventId :: string
  wr_IdempotencyKey :: string

datatype n_event =
    NSend string Notification "(string \<times> header_value) list"
  | NPost webhook_request
  | NMail string "string list" string
  | NUpdate VNotification

type_synonym n_hist = "n_event list"

text \<open>
  What an error of the HTTP client is, for \<^verbatim>\<open>errors.As\<close> and \<^verbatim>\<open>errors.Is\<close>; \<open>PostRefused\<close> is an error of
  building the request.
\<close>

datatype net_error = NetTimeout | NetClosed | ECONNRESET | ECONNREFUSED | EHOSTUNREACH | ENETUNREACH | ETIMEDOUT

datatype post_answer = PostRefused gerr | PostError gerr "net_error list" | PostStatus int

text \<open>
  \<open>nw_unpack\<close> is \<^verbatim>\<open>UnmarshalTo\<close> a \<^verbatim>\<open>structpb.Struct\<close> followed by \<^verbatim>\<open>AsMap\<close>; \<open>nw_newstruct\<close> is the error of
  \<^verbatim>\<open>structpb.NewStruct\<close> and \<open>nw_pack\<close> \<^verbatim>\<open>anypb.New\<close> of the struct it makes; \<open>nw_json_error\<close> is the text of a JSON error; \<open>nw_hmac\<close> and \<open>nw_sha256\<close> give the bytes of \<^verbatim>\<open>crypto/hmac\<close> with SHA-256 (key first)
  and \<^verbatim>\<open>crypto/sha256\<close>; \<open>nw_render\<close> is \<^verbatim>\<open>html/template\<close> and \<open>nw_mime\<close> \<^verbatim>\<open>mime.BEncoding\<close> (\<open>True\<close>) and
  \<^verbatim>\<open>mime.QEncoding\<close>; \<open>nw_envelope\<close> is what \<^verbatim>\<open>protojson.Unmarshal\<close> leaves in an empty envelope. An update
  answers with the number of rows and, of an error, whether it is a \<^verbatim>\<open>pgconn.ConnectError\<close>.
  \<open>nw_status0\<close> is the delivery status with number 0.
\<close>

record n_world =
  nw_send :: "n_hist \<Rightarrow> n_event \<Rightarrow> gerr option"
  nw_post :: "n_hist \<Rightarrow> n_event \<Rightarrow> post_answer"
  nw_mail :: "n_hist \<Rightarrow> n_event \<Rightarrow> gerr option"
  nw_update :: "n_hist \<Rightarrow> n_event \<Rightarrow> int \<times> (gerr \<times> bool) option"
  nw_now :: "n_hist \<Rightarrow> gotime"
  nw_done :: "n_hist \<Rightarrow> gerr option"
  nw_unpack :: "any \<Rightarrow> gerr + (string \<times> json) list"
  nw_newstruct :: "(string \<times> json) list \<Rightarrow> gerr option"
  nw_pack :: "(string \<times> json) list \<Rightarrow> gerr + any"
  nw_json_error :: "string \<Rightarrow> string"
  nw_hmac :: "string \<Rightarrow> string \<Rightarrow> string"
  nw_sha256 :: "string \<Rightarrow> string"
  nw_render :: "string \<Rightarrow> (string \<times> json) list \<Rightarrow> gerr + string"
  nw_mime :: "bool \<Rightarrow> string \<Rightarrow> string"
  nw_envelope :: "json \<Rightarrow> EmailEnvelope"
  nw_status0 :: DeliveryStatus

text \<open>A call: the answer may depend on all earlier ones. \<open>look\<close> asks without leaving a trace.\<close>

definition call :: "'e \<Rightarrow> ('e list \<Rightarrow> 'e \<Rightarrow> 'a) \<Rightarrow> ('e list, 'a) go" where
  "call e answer = (\<lambda>h. (Ret (answer h e), e # h))"

definition look :: "('e list \<Rightarrow> 'a) \<Rightarrow> ('e list, 'a) go" where
  "look f = (\<lambda>h. (Ret (f h), h))"

lemma wp_call [wp]: "wp (call e f) Q h = Q (Ret (f h e)) (e # h)"
  by (simp add: wp_def call_def)

lemma wp_look [wp]: "wp (look f) Q h = Q (Ret (f h)) h"
  by (simp add: wp_def look_def)

lemma ret_run: "ret a h = (Ret a, h)"
  by (simp add: ret_def)

lemma panic_run: "go_panic p h = (Panicked p, h)"
  by (simp add: go_panic_def)

lemma bnd_call: "bnd (call e f) g h = g (f h e) (e # h)"
  by (simp add: bnd_def call_def)

lemma bnd_look: "bnd (look f) g h = g (f h) h"
  by (simp add: bnd_def look_def)

section \<open>Text\<close>

text \<open>\<^verbatim>\<open>hex.EncodeToString\<close>.\<close>

definition hex_text :: "string \<Rightarrow> string" where
  "hex_text bs = concat (map (\<lambda>c. let n = of_char c :: nat in [hex_digit (n div 16), hex_digit (n mod 16)]) bs)"

text \<open>
  \<^verbatim>\<open>time.Format\<close> with the layouts RFC 3339 and RFC 822; the times formatted are in UTC.
\<close>

definition pad :: "nat \<Rightarrow> int \<Rightarrow> string" where
  "pad w n = (let t = nat_text (nat \<bar>n\<bar>) in (if n < 0 then ''-'' else []) @ replicate (w - length t) CHR ''0'' @ t)"

definition clock :: "gotime \<Rightarrow> int \<times> int \<times> int" where
  "clock t = (let s = (t_sec t + t_off t) mod 86400 in (s div 3600, s div 60 mod 60, s mod 60))"

definition month_name :: "int \<Rightarrow> string" where
  "month_name m = [''Jan'', ''Feb'', ''Mar'', ''Apr'', ''May'', ''Jun'', ''Jul'', ''Aug'', ''Sep'', ''Oct'', ''Nov'', ''Dec''] ! nat (m - 1)"

definition UTC :: "gotime \<Rightarrow> gotime" where
  "UTC t = t\<lparr>t_off := 0\<rparr>"

definition format_RFC3339 :: "gotime \<Rightarrow> string" where
  "format_RFC3339 t =
     (case (time_civil t, clock t) of ((y, m, d), (hh, mi, s)) \<Rightarrow>
        pad 4 y @ ''-'' @ pad 2 m @ ''-'' @ pad 2 d @ ''T'' @ pad 2 hh @ '':'' @ pad 2 mi @ '':'' @ pad 2 s @ ''Z'')"

definition format_RFC822 :: "gotime \<Rightarrow> string" where
  "format_RFC822 t =
     (case (time_civil t, clock t) of ((y, m, d), (hh, mi, s)) \<Rightarrow>
        pad 2 d @ '' '' @ month_name m @ '' '' @ pad 2 (y mod 100) @ '' '' @ pad 2 hh @ '':'' @ pad 2 mi @ '' UTC'')"

end
