(* ===== verification/Email_Sender.thy ===== *)
theory Email_Sender
  imports Notification_Data
begin

text \<open>
  \<^verbatim>\<open>sm/tdp-notifications/email-sender-service\<close>: an email notification is rendered, sent by SMTP with a few
  tries, and its final status published. The retry package is a parameter \<open>R\<close> of the client (\<open>R n f\<close> is
  \<^verbatim>\<open>retry.Do\<close> of \<open>f\<close> with \<open>n\<close> attempts); what it documents is the predicate \<open>retry_law\<close>.
\<close>

section \<open>net/mail\<close>

text \<open>
  \<^verbatim>\<open>mail.Address\<close> and its \<^verbatim>\<open>String\<close> method; the encoded words of a name outside ASCII are a parameter.
\<close>

record mail_address =
  mad_Name :: string
  mad_Address :: string

definition isMultibyte :: "char \<Rightarrow> bool" where
  "isMultibyte c \<longleftrightarrow> 128 \<le> (of_char c :: nat)"

definition isVchar :: "char \<Rightarrow> bool" where
  "isVchar c \<longleftrightarrow> (let n = of_char c :: nat in 33 \<le> n \<and> n \<le> 126) \<or> isMultibyte c"

definition isWSP :: "char \<Rightarrow> bool" where
  "isWSP c \<longleftrightarrow> c = CHR '' '' \<or> c = CHR 0x09"

definition isAtext :: "char \<Rightarrow> bool" where
  "isAtext c \<longleftrightarrow> isVchar c \<and> c \<notin> set ''.()<>[]:;@,'' \<and> c \<noteq> CHR 0x5C \<and> c \<noteq> CHR 0x22"

definition mail_quote :: "string \<Rightarrow> string" where
  "mail_quote s =
     [CHR 0x22] @
     concat (map (\<lambda>c. if (isVchar c \<and> c \<noteq> CHR 0x5C \<and> c \<noteq> CHR 0x22) \<or> isWSP c then [c]
                      else if isVchar c then [CHR 0x5C, c] else []) s) @ [CHR 0x22]"

text \<open>A dot is fine between two characters that are not dots.\<close>

definition local_plain :: "string \<Rightarrow> bool" where
  "local_plain l \<longleftrightarrow>
     (\<forall>i \<in> set [0..<length l]. isAtext (l ! i) \<or>
        (l ! i = CHR ''.'' \<and> i > 0 \<and> l ! (i - 1) \<noteq> CHR ''.'' \<and> i < length l - 1 \<and> l ! (i + 1) \<noteq> CHR ''.''))"

definition last_at :: "string \<Rightarrow> (string \<times> string) option" where
  "last_at a =
     (if CHR ''@'' \<in> set a
      then Some (rev (tl (dropWhile (\<lambda>c. c \<noteq> CHR ''@'') (rev a))), rev (takeWhile (\<lambda>c. c \<noteq> CHR ''@'') (rev a)))
      else None)"

definition Address_String :: "n_world \<Rightarrow> mail_address \<Rightarrow> string" where
  "Address_String W a =
     (let (l, domain) = (case last_at (mad_Address a) of None \<Rightarrow> (mad_Address a, []) | Some p \<Rightarrow> p);
          s = ''<'' @ (if local_plain l then l else mail_quote l) @ ''@'' @ domain @ ''>'';
          name = mad_Name a
      in if name = [] then s
         else if \<forall>c \<in> set name. (isVchar c \<or> isWSP c) \<and> \<not> isMultibyte c then mail_quote name @ '' '' @ s
         else if \<exists>c \<in> set name. c \<in> set ''#$%&'' \<or> c \<in> set ''(),.:;<>@[]^`{|}~'' \<or> c = CHR 0x22 \<or> c = CHR 0x27
         then nw_mime W True name @ '' '' @ s
         else nw_mime W False name @ '' '' @ s)"

section \<open>Messages\<close>

record mail_message =
  mmg_Subject :: string
  mmg_Body :: string

definition MessageFromProto :: "string \<Rightarrow> string \<Rightarrow> mail_message" where
  "MessageFromProto subject body = \<lparr>mmg_Subject = subject, mmg_Body = body\<rparr>"

definition AddressFromProto :: "EmailAddress option \<Rightarrow> mail_address" where
  "AddressFromProto a =
     (case a of None \<Rightarrow> \<lparr>mad_Name = [], mad_Address = []\<rparr> | Some a \<Rightarrow> \<lparr>mad_Name = ead_Name a, mad_Address = ead_Email a\<rparr>)"

definition AddressesFromProto :: "EmailAddress list \<Rightarrow> mail_address list" where
  "AddressesFromProto as = map (\<lambda>a. AddressFromProto (Some a)) as"

definition ToEmails :: "mail_address list \<Rightarrow> string list" where
  "ToEmails as = map mad_Address as"

fun join_comma :: "string list \<Rightarrow> string" where
  "join_comma [] = []"
| "join_comma [x] = x"
| "join_comma (x # y # xs) = x @ '', '' @ join_comma (y # xs)"

definition Addresses_String :: "n_world \<Rightarrow> mail_address list \<Rightarrow> string" where
  "Addresses_String W as = join_comma (map (Address_String W) as)"

definition CRLF :: string where
  "CRLF = [CHR 0x0D, CHR 0x0A]"

definition optional_addr :: "n_world \<Rightarrow> string \<Rightarrow> mail_address list \<Rightarrow> string" where
  "optional_addr W key as =
     (let s = Addresses_String W as in if length s > 0 then key @ s @ CRLF else [])"

definition BuildRFC822 ::
  "n_world \<Rightarrow> gotime \<Rightarrow> mail_message \<Rightarrow> mail_address \<Rightarrow> mail_address
     \<Rightarrow> mail_address list \<Rightarrow> mail_address list \<Rightarrow> mail_address list \<Rightarrow> string" where
  "BuildRFC822 W now m frm replyTo to cc bcc =
     ''Date: '' @ format_RFC822 (UTC now) @ CRLF @
     ''From: '' @ Address_String W frm @ CRLF @
     ''Subject: '' @ mmg_Subject m @ CRLF @
     ''MIME-version: 1.0;'' @ CRLF @
     ''Content-Type: text/html; charset='' @ quote_string ''UTF-8'' @ '';'' @ CRLF @
     optional_addr W ''Reply-To: '' [replyTo] @
     optional_addr W ''To: '' to @
     optional_addr W ''cc: '' cc @
     optional_addr W ''Bcc: '' bcc @
     CRLF @ mmg_Body m"

section \<open>The SMTP client\<close>

text \<open>The number of attempts is fixed, whatever is configured.\<close>

definition Smtp_SendEmail ::
  "(nat \<Rightarrow> (n_hist, gerr option) go \<Rightarrow> (n_hist, gerr option) go) \<Rightarrow> n_world \<Rightarrow> mail_message
     \<Rightarrow> mail_address \<Rightarrow> mail_address \<Rightarrow> mail_address list \<Rightarrow> mail_address list \<Rightarrow> mail_address list
     \<Rightarrow> (n_hist, gerr option) go" where
  "Smtp_SendEmail R W msg frm replyTo to cc bcc =
     R 3 (bnd (look (nw_now W)) (\<lambda>now.
          call (NMail (mad_Address frm) (ToEmails to @ ToEmails cc @ ToEmails bcc)
                  (BuildRFC822 W now msg frm replyTo to cc bcc)) (nw_mail W)))"

section \<open>The service\<close>

definition publishFinalStatus ::
  "n_world \<Rightarrow> string \<Rightarrow> DeliveryStatus \<Rightarrow> string \<Rightarrow> Notification option \<Rightarrow> (string \<times> header_value) list
     \<Rightarrow> (n_hist, gerr option) go" where
  "publishFinalStatus W statusQ status reason notification headers =
     bnd (deref notification) (\<lambda>n.
     bnd (call (NSend statusQ (n\<lparr>ntn_Status := status, ntn_StatusReason := reason\<rparr>) headers) (nw_send W)) (\<lambda>err.
     ret (map_option (ErrWrap (''failed to send message to queue '' @ statusQ)) err)))"

definition decodeAnyToMap :: "n_world \<Rightarrow> any option \<Rightarrow> gerr + (string \<times> json) list" where
  "decodeAnyToMap W data =
     (case data of
        None \<Rightarrow> Inr []
      | Some a \<Rightarrow> (case nw_unpack W a of
                     Inl e \<Rightarrow> Inl (ErrWrap ''failed to unmarshal Any to Struct'' e)
                   | Inr m \<Rightarrow> Inr m))"

definition SendEmail ::
  "(nat \<Rightarrow> (n_hist, gerr option) go \<Rightarrow> (n_hist, gerr option) go) \<Rightarrow> n_world \<Rightarrow> string \<Rightarrow> Notification option
     \<Rightarrow> (string \<times> header_value) list \<Rightarrow> (n_hist, gerr option) go" where
  "SendEmail R W statusQ notification msgHeaders =
     (let failed = \<lambda>reason. publishFinalStatus W statusQ Delivery_FAILED reason notification msgHeaders in
      case notification of
        None \<Rightarrow> failed ''notification is nil''
      | Some n \<Rightarrow>
          (case ntn_EmailNotification n of
             None \<Rightarrow> failed ''email notification is empty''
           | Some email \<Rightarrow>
               let envelope = (case emn_Envelope email of None \<Rightarrow> zero_EmailEnvelope | Some e \<Rightarrow> e) in
               (case decodeAnyToMap W (ntn_Data n) of
                  Inl e \<Rightarrow> failed (''error decoding template variables data: '' @ err_text e)
                | Inr templateVariables \<Rightarrow>
                    (case nw_render W (emn_Template email) templateVariables of
                       Inl e \<Rightarrow> failed (''error rendering template: '' @ err_text e)
                     | Inr body \<Rightarrow>
                         bnd (Smtp_SendEmail R W (MessageFromProto (env_Subject envelope) body)
                                (AddressFromProto (env_FromAddress envelope)) (AddressFromProto (env_ReplytoAddress envelope))
                                (AddressesFromProto (env_ToAddress envelope)) (AddressesFromProto (env_CcAddress envelope))
                                (AddressesFromProto (env_BccAddress envelope))) (\<lambda>err.
                         case err of
                           Some e \<Rightarrow> failed (err_text (ErrWrap ''error sending email'' e))
                         | None \<Rightarrow> publishFinalStatus W statusQ Delivery_PUBLISHED ''SUCCESS'' notification msgHeaders)))))"

text \<open>A message that is not a notification is refused.\<close>

definition EmailSenderHandler ::
  "(nat \<Rightarrow> (n_hist, gerr option) go \<Rightarrow> (n_hist, gerr option) go) \<Rightarrow> n_world \<Rightarrow> string \<Rightarrow> Notification option
     \<Rightarrow> (string \<times> header_value) list \<Rightarrow> (n_hist, gerr option) go" where
  "EmailSenderHandler R W statusQ msg headers =
     (case msg of
        None \<Rightarrow> ret (Some (ErrNew ''invalid proto message''))
      | Some notification \<Rightarrow> SendEmail R W statusQ (Some notification) headers)"

section \<open>Specification\<close>

inductive failed_calls :: "(n_hist, gerr option) go \<Rightarrow> n_hist \<Rightarrow> nat \<Rightarrow> n_hist \<Rightarrow> bool" for f h where
  none: "failed_calls f h 0 h"
| another: "failed_calls f h k h1 \<Longrightarrow> f h1 = (Ret (Some e), h2) \<Longrightarrow> failed_calls f h (Suc k) h2"

text \<open>
  What the package documents of \<^verbatim>\<open>retry.Do\<close> with \<open>n\<close> attempts: it calls the function until it succeeds, at
  most \<open>n\<close> times, and reports an error if it never did (or was cancelled before).
\<close>

definition retry_law :: "(nat \<Rightarrow> (n_hist, gerr option) go \<Rightarrow> (n_hist, gerr option) go) \<Rightarrow> bool" where
  "retry_law R \<longleftrightarrow>
     (\<forall>n f h. (\<forall>h. \<exists>r h'. f h = (Ret r, h')) \<longrightarrow>
        (\<exists>k h1. failed_calls f h k h1 \<and>
           ((k < n \<and> (\<exists>h2. f h1 = (Ret None, h2) \<and> R n f h = (Ret None, h2))) \<or>
            (k \<le> n \<and> (\<exists>e. R n f h = (Ret (Some e), h1))))))"

text \<open>The mail a notification asks for, at history \<open>h\<close>, with the rendered body.\<close>

definition mail_of :: "n_world \<Rightarrow> EmailNotification \<Rightarrow> string \<Rightarrow> n_hist \<Rightarrow> n_event" where
  "mail_of W email body h =
     (let envelope = (case emn_Envelope email of None \<Rightarrow> zero_EmailEnvelope | Some e \<Rightarrow> e);
          to = AddressesFromProto (env_ToAddress envelope); cc = AddressesFromProto (env_CcAddress envelope);
          bcc = AddressesFromProto (env_BccAddress envelope); frm = AddressFromProto (env_FromAddress envelope)
      in NMail (mad_Address frm) (ToEmails (to @ cc @ bcc))
           (BuildRFC822 W (nw_now W h) (MessageFromProto (env_Subject envelope) body) frm
              (AddressFromProto (env_ReplytoAddress envelope)) to cc bcc))"

text \<open>\<open>k\<close> tries to send the mail have failed.\<close>

inductive refused_mails :: "n_world \<Rightarrow> EmailNotification \<Rightarrow> string \<Rightarrow> n_hist \<Rightarrow> nat \<Rightarrow> n_hist \<Rightarrow> bool"
  for W email body h where
  none: "refused_mails W email body h 0 h"
| another: "refused_mails W email body h k h1 \<Longrightarrow> nw_mail W h1 (mail_of W email body h1) \<noteq> None \<Longrightarrow>
    refused_mails W email body h (Suc k) (mail_of W email body h1 # h1)"

text \<open>The text to send, or why there is none.\<close>

definition rendered :: "n_world \<Rightarrow> Notification \<Rightarrow> EmailNotification \<Rightarrow> gerr + string" where
  "rendered W n email =
     (case decodeAnyToMap W (ntn_Data n) of Inl e \<Rightarrow> Inl e | Inr vars \<Rightarrow> nw_render W (emn_Template email) vars)"

end
