(* ===== verification/Email_Spec.thy ===== *)
theory Email_Spec
  imports Email_Sender
begin

text \<open>
  What the email sender promises: one final status per notification, published exactly if a mail was
  accepted, after at most three tries; and what its mails disclose.
\<close>

section \<open>Sending\<close>

lemma smtp_function:
  fixes W email body
  defines "envelope \<equiv> (case emn_Envelope email of None \<Rightarrow> zero_EmailEnvelope | Some e \<Rightarrow> e)"
  shows "Smtp_SendEmail R W (MessageFromProto (env_Subject envelope) body)
      (AddressFromProto (env_FromAddress envelope)) (AddressFromProto (env_ReplytoAddress envelope))
      (AddressesFromProto (env_ToAddress envelope)) (AddressesFromProto (env_CcAddress envelope))
      (AddressesFromProto (env_BccAddress envelope)) =
    R 3 (\<lambda>h. (Ret (nw_mail W h (mail_of W email body h)), mail_of W email body h # h))"
  unfolding Smtp_SendEmail_def envelope_def
  by (rule arg_cong [of _ _ "R 3"], rule ext)
     (simp add: bnd_look call_def mail_of_def Let_def ToEmails_def)

lemma failed_mails:
  "failed_calls (\<lambda>h. (Ret (nw_mail W h (mail_of W email body h)), mail_of W email body h # h)) h k h1 \<Longrightarrow>
     refused_mails W email body h k h1"
  by (induction rule: failed_calls.induct) (auto intro: refused_mails.intros)

lemma smtp_run:
  assumes "retry_law R"
  obtains k h1 where "refused_mails W email body h k h1"
    "(k < 3 \<and> nw_mail W h1 (mail_of W email body h1) = None \<and>
      R 3 (\<lambda>h. (Ret (nw_mail W h (mail_of W email body h)), mail_of W email body h # h)) h =
        (Ret None, mail_of W email body h1 # h1)) \<or>
     (k \<le> 3 \<and> (\<exists>e. R 3 (\<lambda>h. (Ret (nw_mail W h (mail_of W email body h)), mail_of W email body h # h)) h = (Ret (Some e), h1)))"
proof -
  let ?f = "\<lambda>h. (Ret (nw_mail W h (mail_of W email body h)), mail_of W email body h # h)"
  obtain k h1 where calls: "failed_calls ?f h k h1"
    and answer: "(k < 3 \<and> (\<exists>h2. ?f h1 = (Ret None, h2) \<and> R 3 ?f h = (Ret None, h2))) \<or> (k \<le> 3 \<and> (\<exists>e. R 3 ?f h = (Ret (Some e), h1)))"
    using assms [unfolded retry_law_def, rule_format, of ?f h 3] by auto
  show ?thesis
    by (rule that [OF failed_mails [OF calls]]) (use answer in auto)
qed

text \<open>What a delivery of an email notification does.\<close>

definition email_done ::
  "n_world \<Rightarrow> string \<Rightarrow> (string \<times> header_value) list \<Rightarrow> Notification \<Rightarrow> EmailNotification \<Rightarrow> n_hist \<Rightarrow> n_hist \<Rightarrow> bool" where
  "email_done W q headers n email h h' \<longleftrightarrow>
     (let status = \<lambda>st reason. NSend q (n\<lparr>ntn_Status := st, ntn_StatusReason := reason\<rparr>) headers in
      case rendered W n email of
        Inl e \<Rightarrow> \<exists>reason. h' = status Delivery_FAILED reason # h
      | Inr body \<Rightarrow>
          (\<exists>k h1. refused_mails W email body h k h1 \<and>
             ((k < 3 \<and> nw_mail W h1 (mail_of W email body h1) = None \<and>
               h' = status Delivery_PUBLISHED ''SUCCESS'' # mail_of W email body h1 # h1) \<or>
              (k \<le> 3 \<and> (\<exists>reason. h' = status Delivery_FAILED reason # h1)))))"

lemma email_run:
  assumes "retry_law R" "\<forall>h e. nw_send W h e = None" "ntn_EmailNotification n = Some email"
  shows "\<exists>h'. EmailSenderHandler R W q (Some n) headers h = (Ret None, h') \<and> email_done W q headers n email h h'"
proof (cases "rendered W n email")
  case (Inl e)
  then show ?thesis
    using assms(2,3)
    by (auto simp: rendered_def EmailSenderHandler_def SendEmail_def publishFinalStatus_def bnd_call ret_run email_done_def
        Let_def split: sum.splits)
next
  case (Inr body)
  obtain vars where vars: "decodeAnyToMap W (ntn_Data n) = Inr vars" "nw_render W (emn_Template email) vars = Inr body"
    using Inr by (auto simp: rendered_def split: sum.splits)
  let ?f = "\<lambda>h. (Ret (nw_mail W h (mail_of W email body h)), mail_of W email body h # h)"
  have run: "EmailSenderHandler R W q (Some n) headers = bnd (R 3 ?f) (\<lambda>err. case err of
      Some e \<Rightarrow> publishFinalStatus W q Delivery_FAILED (err_text (ErrWrap ''error sending email'' e)) (Some n) headers
    | None \<Rightarrow> publishFinalStatus W q Delivery_PUBLISHED ''SUCCESS'' (Some n) headers)"
    by (simp add: EmailSenderHandler_def SendEmail_def assms(3) vars smtp_function Let_def)
       (intro arg_cong [of _ _ "bnd _"] ext, simp split: option.split)
  obtain k h1 where mails: "refused_mails W email body h k h1"
    and answer: "(k < 3 \<and> nw_mail W h1 (mail_of W email body h1) = None \<and> R 3 ?f h = (Ret None, mail_of W email body h1 # h1)) \<or>
      (k \<le> 3 \<and> (\<exists>e. R 3 ?f h = (Ret (Some e), h1)))"
    by (rule smtp_run [OF assms(1)])
  have status: "publishFinalStatus W q st reason (Some n) headers h =
      (Ret None, NSend q (n\<lparr>ntn_Status := st, ntn_StatusReason := reason\<rparr>) headers # h)" for st reason h
    using assms(2) by (simp add: publishFinalStatus_def bnd_call ret_run)
  from answer show ?thesis
  proof (elim disjE conjE exE)
    assume "R 3 ?f h = (Ret None, mail_of W email body h1 # h1)"
      "k < 3" "nw_mail W h1 (mail_of W email body h1) = None"
    then show ?thesis
      using mails Inr unfolding run bnd_def email_done_def Let_def by (auto simp: status)
  next
    fix e
    assume "R 3 ?f h = (Ret (Some e), h1)" "k \<le> 3"
    then show ?thesis
      using mails Inr unfolding run bnd_def email_done_def Let_def by (auto simp: status simp del: err_text.simps)
  qed
qed

section \<open>What a mail discloses\<close>

lemma Address_String_not_Nil: "Address_String W a \<noteq> []"
  by (simp add: Address_String_def Let_def split: option.splits prod.splits)

lemma join_comma_eq_Nil: "join_comma xs = [] \<longleftrightarrow> set xs \<subseteq> {[]} \<and> length xs \<le> 1"
  by (induction xs rule: join_comma.induct) auto

lemma Addresses_String_not_Nil: "as \<noteq> [] \<Longrightarrow> Addresses_String W as \<noteq> []"
  using Address_String_not_Nil
  by (cases as) (auto simp: Addresses_String_def join_comma_eq_Nil)

text \<open>The header line with the blind copies.\<close>

definition bcc_line :: "n_world \<Rightarrow> EmailNotification \<Rightarrow> string" where
  "bcc_line W email =
     ''Bcc: '' @ Addresses_String W (AddressesFromProto
        (env_BccAddress (case emn_Envelope email of None \<Rightarrow> zero_EmailEnvelope | Some e \<Rightarrow> e))) @ CRLF"

lemma mail_of_bcc:
  assumes "env_BccAddress (case emn_Envelope email of None \<Rightarrow> zero_EmailEnvelope | Some e \<Rightarrow> e) \<noteq> []"
  shows "\<exists>frm receivers before after. mail_of W email body h = NMail frm receivers (before @ bcc_line W email @ after)"
proof -
  let ?e = "case emn_Envelope email of None \<Rightarrow> zero_EmailEnvelope | Some e \<Rightarrow> e"
  have "optional_addr W ''Bcc: '' (AddressesFromProto (env_BccAddress ?e)) = bcc_line W email"
    using assms Addresses_String_not_Nil [of "AddressesFromProto (env_BccAddress ?e)" W]
    by (simp add: optional_addr_def bcc_line_def Let_def AddressesFromProto_def)
  then have "BuildRFC822 W now m f r to cc (AddressesFromProto (env_BccAddress ?e)) =
      (''Date: '' @ format_RFC822 (UTC now) @ CRLF @ ''From: '' @ Address_String W f @ CRLF @
       ''Subject: '' @ mmg_Subject m @ CRLF @ ''MIME-version: 1.0;'' @ CRLF @
       ''Content-Type: text/html; charset='' @ quote_string ''UTF-8'' @ '';'' @ CRLF @
       optional_addr W ''Reply-To: '' [r] @ optional_addr W ''To: '' to @ optional_addr W ''cc: '' cc)
      @ bcc_line W email @ (CRLF @ mmg_Body m)" for now m f r to cc
    by (simp add: BuildRFC822_def)
  then show ?thesis unfolding mail_of_def Let_def by metis
qed

lemma refused_mails_are:
  "refused_mails W email body h k h1 \<Longrightarrow> \<exists>d. h1 = d @ h \<and> (\<forall>e \<in> set d. \<exists>h. e = mail_of W email body h)"
  by (induction rule: refused_mails.induct) (auto intro: exI [of _ "_ # _"])

fun is_mail :: "n_event \<Rightarrow> bool" where
  "is_mail (NMail f r t) = True"
| "is_mail e = False"

lemma email_done_mails:
  assumes "email_done W q headers n email h h'"
  shows "\<exists>d. h' = d @ h \<and> (\<forall>e \<in> set d. is_mail e \<longrightarrow> (\<exists>body h. e = mail_of W email body h))"
proof (cases "rendered W n email")
  case (Inl e)
  then obtain n' where "h' = NSend q n' headers # h"
    using assms(1) by (auto simp: email_done_def Let_def)
  then show ?thesis by simp
next
  case (Inr body)
  then obtain k h1 n' where sent: "refused_mails W email body h k h1"
      "h' = [NSend q n' headers] @ h1 \<or> h' = [NSend q n' headers, mail_of W email body h1] @ h1"
    using assms by (auto simp: email_done_def Let_def)
  obtain d where d: "h1 = d @ h" "\<forall>e \<in> set d. \<exists>h. e = mail_of W email body h"
    using refused_mails_are [OF sent(1)] by blast
  from sent(2) show ?thesis
  proof
    assume "h' = [NSend q n' headers] @ h1"
    then have "h' = (NSend q n' headers # d) @ h" using d(1) by simp
    moreover have "\<forall>e \<in> set (NSend q n' headers # d). is_mail e \<longrightarrow> (\<exists>body h. e = mail_of W email body h)"
      using d(2) by auto blast
    ultimately show ?thesis by blast
  next
    assume "h' = [NSend q n' headers, mail_of W email body h1] @ h1"
    then have "h' = (NSend q n' headers # mail_of W email body h1 # d) @ h" using d(1) by simp
    moreover have "\<forall>e \<in> set (NSend q n' headers # mail_of W email body h1 # d).
        is_mail e \<longrightarrow> (\<exists>body h. e = mail_of W email body h)"
      using d(2) by auto blast+
    ultimately show ?thesis by blast
  qed
qed

section \<open>Properties\<close>

text \<open>
  C22. Every delivery of an email notification ends in one message with its final status, whatever the
  template and the mail server do. A notification that cannot be rendered fails without a mail; otherwise
  the mail is tried at most three times, and the notification is published exactly if the last try was
  accepted.
\<close>

theorem email_reaches_final:
  assumes "retry_law R" "\<forall>h e. nw_send W h e = None" "ntn_EmailNotification n = Some email"
  shows "\<exists>h'. EmailSenderHandler R W q (Some n) headers h = (Ret None, h') \<and> email_done W q headers n email h h'"
  using assms by (rule email_run)

text \<open>
  C23. The blind copies are not blind: every mail sent for a notification with blind-copy addresses lists them
  in a header, which all receivers read. The comment above \<^verbatim>\<open>BuildRFC822\<close> says the opposite.
\<close>

theorem blind_copies_disclosed:
  assumes "retry_law R" "\<forall>h e. nw_send W h e = None" "ntn_EmailNotification n = Some email"
    "emn_Envelope email = Some envelope" "env_BccAddress envelope \<noteq> []"
    "EmailSenderHandler R W q (Some n) headers [] = (r, h')" "NMail frm receivers content \<in> set h'"
  shows "\<exists>before after. content = before @ ''Bcc: '' @ Addresses_String W (AddressesFromProto (env_BccAddress envelope)) @ CRLF @ after"
proof -
  have "email_done W q headers n email [] h'"
    using email_run [OF assms(1-3), of q headers "[]"] assms(6) by auto
  then obtain d where "h' = d @ []" "\<forall>e \<in> set d. is_mail e \<longrightarrow> (\<exists>body h. e = mail_of W email body h)"
    using email_done_mails by blast
  then obtain body h where mail: "NMail frm receivers content = mail_of W email body h"
    using assms(7) by fastforce
  then obtain before after where "content = before @ bcc_line W email @ after"
    using mail_of_bcc [of email W body h] assms(4,5) by auto
  then show ?thesis
    by (intro exI [of _ before] exI [of _ after]) (simp add: bcc_line_def assms(4))
qed

section \<open>Witnesses\<close>

text \<open>A retry that tries until the function succeeds, \<open>n\<close> times at most.\<close>

fun simple_retry :: "nat \<Rightarrow> (n_hist, gerr option) go \<Rightarrow> (n_hist, gerr option) go" where
  "simple_retry 0 f = ret (Some (ErrNew ''attempts''))"
| "simple_retry (Suc n) f = bnd f (\<lambda>err. if err = None then ret None else simple_retry n f)"

lemma failed_calls_first:
  "failed_calls f h1 k h2 \<Longrightarrow> f h = (Ret (Some e), h1) \<Longrightarrow> failed_calls f h (Suc k) h2"
proof (induction rule: failed_calls.induct)
  case none
  then show ?case by (auto intro: failed_calls.intros)
next
  case (another k h1 e' h2)
  then show ?case by (auto intro: failed_calls.another)
qed

lemma simple_retry_law: "retry_law simple_retry"
proof -
  have "\<exists>k h1. failed_calls f h k h1 \<and>
      ((k < n \<and> (\<exists>h2. f h1 = (Ret None, h2) \<and> simple_retry n f h = (Ret None, h2))) \<or>
       (k \<le> n \<and> (\<exists>e. simple_retry n f h = (Ret (Some e), h1))))"
    if total: "\<forall>h. \<exists>r h'. f h = (Ret r, h')" for n f h
  proof (induction n arbitrary: h)
    case 0
    show ?case by (intro exI [of _ 0] exI [of _ h]) (auto intro: failed_calls.none simp: ret_run)
  next
    case (Suc n)
    obtain r h' where step: "f h = (Ret r, h')" using total by blast
    show ?case
    proof (cases r)
      case None
      then show ?thesis
        using step by (intro exI [of _ 0] exI [of _ h]) (auto intro: failed_calls.none simp: bnd_def ret_run)
    next
      case (Some e)
      obtain k h1 where rest: "failed_calls f h' k h1"
        "(k < n \<and> (\<exists>h2. f h1 = (Ret None, h2) \<and> simple_retry n f h' = (Ret None, h2))) \<or>
         (k \<le> n \<and> (\<exists>e. simple_retry n f h' = (Ret (Some e), h1)))"
        using Suc.IH by blast
      have "failed_calls f h (Suc k) h1"
        using failed_calls_first [OF rest(1)] step Some by simp
      moreover have "simple_retry (Suc n) f h = simple_retry n f h'"
        using step Some by (simp add: bnd_def)
      ultimately show ?thesis
        using rest(2) by (intro exI [of _ "Suc k"] exI [of _ h1]) auto
    qed
  qed
  then show ?thesis by (simp add: retry_law_def)
qed

definition sample_envelope :: EmailEnvelope where
  "sample_envelope = zero_EmailEnvelope
     \<lparr>env_Subject := ''hello'', env_FromAddress := Some \<lparr>ead_Email = ''a@a.com'', ead_Name = []\<rparr>,
      env_ToAddress := [\<lparr>ead_Email = ''b@b.com'', ead_Name = ''B''\<rparr>], env_BccAddress := [\<lparr>ead_Email = ''c@c.com'', ead_Name = []\<rparr>]\<rparr>"

definition sample_email :: Notification where
  "sample_email = \<lparr>ntn_Id = ''n2'', ntn_Type = ''domain.renew'', ntn_TenantId = ''t1'', ntn_TenantCustomerId = None,
     ntn_SubscriptionId = [], ntn_WebhookUrl = None, ntn_SigningSecret = None, ntn_CreatedDate = None,
     ntn_Status = Delivery_PUBLISHING, ntn_StatusReason = [], ntn_Data = None,
     ntn_EmailNotification = Some \<lparr>emn_Envelope = Some sample_envelope, emn_Template = ''body''\<rparr>\<rparr>"

text \<open>The mail server refuses twice.\<close>

definition mail_world :: n_world where
  "mail_world = \<lparr>nw_send = \<lambda>h e. None, nw_post = \<lambda>h e. PostStatus 200,
     nw_mail = \<lambda>h e. if length h < 2 then Some (ErrExt ''421'') else None,
     nw_update = \<lambda>h e. (1, None), nw_now = \<lambda>h. \<lparr>t_sec = 0, t_nsec = 0, t_off = 0\<rparr>,
     nw_done = \<lambda>h. None, nw_unpack = \<lambda>a. Inr [], nw_newstruct = \<lambda>m. None, nw_pack = \<lambda>m. if m = [] then Inr (Any [] []) else Inl (ErrExt ''pack''), nw_json_error = \<lambda>s. ''invalid'', nw_hmac = \<lambda>k m. [],
     nw_sha256 = \<lambda>m. [], nw_render = \<lambda>t v. Inr t, nw_mime = \<lambda>b s. s, nw_envelope = \<lambda>j. zero_EmailEnvelope,
     nw_status0 = Delivery_RECEIVED\<rparr>"

theorem email_reaches_final_witness:
  "\<exists>h'. EmailSenderHandler simple_retry mail_world ''final'' (Some sample_email) [] [] = (Ret None, h') \<and>
     email_done mail_world ''final'' [] sample_email (the (ntn_EmailNotification sample_email)) [] h'"
  using email_reaches_final [OF simple_retry_law, of mail_world sample_email "the (ntn_EmailNotification sample_email)" "''final''" "[]" "[]"]
  by (simp add: mail_world_def sample_email_def)

lemma sample_email_mails:
  "filter is_mail (snd (EmailSenderHandler simple_retry mail_world ''final'' (Some sample_email) [] [])) \<noteq> []"
  by code_simp

theorem blind_copies_disclosed_witness:
  "\<exists>frm receivers before after.
     NMail frm receivers (before @ ''Bcc: '' @ Addresses_String mail_world (AddressesFromProto (env_BccAddress sample_envelope)) @ CRLF @ after)
       \<in> set (snd (EmailSenderHandler simple_retry mail_world ''final'' (Some sample_email) [] []))"
proof -
  let ?run = "EmailSenderHandler simple_retry mail_world ''final'' (Some sample_email) [] []"
  obtain e where "e \<in> set (snd ?run)" "is_mail e"
    using sample_email_mails unfolding filter_empty_conv by blast
  then obtain frm receivers content where mail: "NMail frm receivers content \<in> set (snd ?run)"
    by (metis is_mail.elims(2))
  have "\<exists>before after. content = before @ ''Bcc: '' @ Addresses_String mail_world (AddressesFromProto (env_BccAddress sample_envelope)) @ CRLF @ after"
    using blind_copies_disclosed [OF simple_retry_law, of mail_world sample_email "the (ntn_EmailNotification sample_email)"
        sample_envelope "''final''" "[]" "fst ?run" "snd ?run" frm receivers content] mail
    by (simp add: mail_world_def sample_email_def sample_envelope_def)
  with mail show ?thesis by blast
qed

end
