(* ===== verification/Webhook_Sender.thy ===== *)
theory Webhook_Sender
  imports Notification_Data "HOL-Library.Multiset"
begin

text \<open>
  \<^verbatim>\<open>sm/tdp-notifications/webhook-sender-service\<close>: a notification is posted to the subscriber's URL and its
  final status published. What may be tried again goes to a retry queue, from which the broker
  returns it to the service after the queue's delay; the number of tries travels in a header.
\<close>

section \<open>Configuration and queues\<close>

record RetryQueue =
  rq_Name :: string
  rq_TTL :: i64

record webhook_config =
  whc_SendQueue :: string
  whc_MaxPriority :: int
  whc_FinalStatusQueue :: string
  whc_Exchange :: string
  whc_DLExchange :: string
  whc_RetryQueues :: "RetryQueue list"

text \<open>
  The retry queues made of the configured intervals. \<open>sorter\<close> is \<^verbatim>\<open>sort.Slice\<close> with the comparison by
  TTL, which orders the queues but need not keep the order of equal ones.
\<close>

definition retry_queues :: "(RetryQueue list \<Rightarrow> RetryQueue list) \<Rightarrow> string \<Rightarrow> i64 list \<Rightarrow> RetryQueue list" where
  "retry_queues sorter name intervals =
     sorter (map (\<lambda>(i, ttl). \<lparr>rq_Name = name @ ''_retry_'' @ nat_text (i + 1), rq_TTL = ttl\<rparr>)
            (zip [0..<length intervals] intervals))"

text \<open>The queues the service declares: name, dead-letter exchange, bindings (exchange and routing keys), priority.\<close>

record queue_decl =
  qd_Name :: string
  qd_DLExchange :: "string option"
  qd_Bindings :: "(string \<times> string list) list"
  qd_MaxPriority :: "int option"

definition declared_queues :: "webhook_config \<Rightarrow> queue_decl list" where
  "declared_queues cfg =
     map (\<lambda>q. \<lparr>qd_Name = rq_Name q, qd_DLExchange = Some (whc_DLExchange cfg), qd_Bindings = [], qd_MaxPriority = None\<rparr>)
       (whc_RetryQueues cfg) @
     [\<lparr>qd_Name = whc_SendQueue cfg, qd_DLExchange = None,
       qd_Bindings = [(whc_Exchange cfg, [whc_SendQueue cfg]), (whc_DLExchange cfg, map rq_Name (whc_RetryQueues cfg))],
       qd_MaxPriority = Some (whc_MaxPriority cfg)\<rparr>]"

section \<open>The HTTP client\<close>

definition SignPayload :: "n_world \<Rightarrow> string \<Rightarrow> string \<Rightarrow> string" where
  "SignPayload W payload secret = hex_text (nw_hmac W secret payload)"

definition GenerateIdempotencyKey :: "n_world \<Rightarrow> string \<Rightarrow> string" where
  "GenerateIdempotencyKey W payload = hex_text (nw_sha256 W payload)"

text \<open>\<open>ErrNetwork\<close> is the sentinel of the package \<^verbatim>\<open>rest\<close>.\<close>

definition ErrNetwork :: gerr where
  "ErrNetwork = ErrNew ''network error''"

definition isNetworkError :: "net_error list \<Rightarrow> bool" where
  "isNetworkError es \<longleftrightarrow>
     NetTimeout \<in> set es \<or> NetClosed \<in> set es \<or>
     (\<exists>e \<in> set es. e \<in> {ECONNRESET, ECONNREFUSED, EHOSTUNREACH, ENETUNREACH, ETIMEDOUT})"

definition setWebhookHeaders :: "n_world \<Rightarrow> string \<Rightarrow> string \<Rightarrow> string \<Rightarrow> string \<Rightarrow> gotime \<Rightarrow> webhook_request" where
  "setWebhookHeaders W url eventID payload signedPayload createdAt =
     \<lparr>wr_Url = url, wr_Payload = payload, wr_Signature = signedPayload, wr_CreatedAt = format_RFC3339 (UTC createdAt),
      wr_EventId = eventID, wr_IdempotencyKey = GenerateIdempotencyKey W payload\<rparr>"

definition SendPostRequest ::
  "n_world \<Rightarrow> string \<Rightarrow> string \<Rightarrow> string \<Rightarrow> string \<Rightarrow> (n_hist, int \<times> gerr option) go" where
  "SendPostRequest W url payload signedPayload requestID =
     bnd (look (nw_now W)) (\<lambda>now.
     bnd (call (NPost (setWebhookHeaders W url requestID payload signedPayload now)) (nw_post W)) (\<lambda>answer.
     ret (case answer of
            PostRefused e \<Rightarrow> (0, Some (ErrWrap ''failed to create request'' e))
          | PostError e kinds \<Rightarrow> (0, Some (if isNetworkError kinds then ErrNetwork else e))
          | PostStatus code \<Rightarrow> (code, None))))"

section \<open>The service\<close>

text \<open>\<^verbatim>\<open>models.RequestFromProto\<close> and its JSON form: empty members are left out.\<close>

record webhook_body =
  whb_NotificationID :: string
  whb_NotificationType :: string
  whb_SubscriptionID :: string
  whb_CreatedDate :: string
  whb_Payload :: "(string \<times> json) list"

definition RequestFromProto :: "n_world \<Rightarrow> Notification \<Rightarrow> gerr + webhook_body" where
  "RequestFromProto W reqProto =
     (let req = \<lparr>whb_NotificationID = ntn_Id reqProto, whb_NotificationType = ntn_Type reqProto,
                 whb_SubscriptionID = ntn_SubscriptionId reqProto,
                 whb_CreatedDate = (case ntn_CreatedDate reqProto of None \<Rightarrow> [] | Some t \<Rightarrow> format_RFC3339 (AsTime (Some t))),
                 whb_Payload = []\<rparr>
      in case ntn_Data reqProto of
           None \<Rightarrow> Inr req
         | Some data \<Rightarrow>
             (case nw_unpack W data of
                Inl e \<Rightarrow> Inl (ErrWrap ''failed to unmarshal protobuf Any to Struct'' e)
              | Inr payload \<Rightarrow> Inr (req\<lparr>whb_Payload := payload\<rparr>)))"

definition enc_webhook_body :: "webhook_body \<Rightarrow> json" where
  "enc_webhook_body b =
     JObj ((if whb_NotificationID b = [] then [] else [(''id'', JStr (whb_NotificationID b))]) @
           (if whb_NotificationType b = [] then [] else [(''notification_typ'', JStr (whb_NotificationType b))]) @
           (if whb_SubscriptionID b = [] then [] else [(''subscription_id'', JStr (whb_SubscriptionID b))]) @
           (if whb_CreatedDate b = [] then [] else [(''created_date'', JStr (whb_CreatedDate b))]) @
           (if whb_Payload b = [] then [] else [(''payload'', any_value (JObj (whb_Payload b)))]))"

definition validateRequest :: "n_world \<Rightarrow> Notification \<Rightarrow> gerr + string" where
  "validateRequest W req =
     (if ntn_WebhookUrl req = None then Inl (ErrNew ''webhook_url is nil'')
      else if ntn_SigningSecret req = None then Inl (ErrNew ''signing_secret is nil'')
      else (case RequestFromProto W req of
              Inl e \<Rightarrow> Inl (ErrWrap ''failed to convert proto message to webhook request'' e)
            | Inr body \<Rightarrow> Inr (json_print (enc_webhook_body body))))"

text \<open>\<open>bus\<close>: whether the service has a message bus.\<close>

definition PublishToFinalStatusQueue ::
  "n_world \<Rightarrow> webhook_config \<Rightarrow> bool \<Rightarrow> Notification \<Rightarrow> (n_hist, gerr option) go" where
  "PublishToFinalStatusQueue W cfg bus req =
     (if \<not> bus then ret (Some (ErrNew ''message bus not initialized to publish to final status queue''))
      else bnd (call (NSend (whc_FinalStatusQueue cfg) req []) (nw_send W)) (\<lambda>err.
           ret (map_option (ErrWrap (''failed to send message to queue '' @ whc_FinalStatusQueue cfg)) err)))"

text \<open>An index outside the slice panics. The delay is computed in 64 bits.\<close>

definition retry_queue_at :: "webhook_config \<Rightarrow> int \<Rightarrow> (n_hist, RetryQueue) go" where
  "retry_queue_at cfg i =
     (if 0 \<le> i \<and> i < int (length (whc_RetryQueues cfg)) then ret (whc_RetryQueues cfg ! nat i)
      else go_panic ''index out of range'')"

definition retry_headers :: "int \<Rightarrow> RetryQueue \<Rightarrow> (string \<times> header_value) list" where
  "retry_headers newRetryCount q =
     [(''x_retry'', HString (int_text newRetryCount)), (''expires_in_ms'', HInt (rq_TTL q * 1000))]"

definition PublishToRetryQueue ::
  "n_world \<Rightarrow> webhook_config \<Rightarrow> bool \<Rightarrow> string \<Rightarrow> Notification \<Rightarrow> int \<Rightarrow> (n_hist, gerr option) go" where
  "PublishToRetryQueue W cfg bus queueName req retryCount =
     (if \<not> bus then ret (Some (ErrNew ''message bus not initialized to publish to retry queue''))
      else
        bnd (retry_queue_at cfg retryCount) (\<lambda>q.
        bnd (call (NSend queueName req (retry_headers (retryCount + 1) q)) (nw_send W)) (\<lambda>err.
        ret (map_option (ErrWrap (''failed to send message to queue '' @ queueName)) err))))"

definition GetNextRetryQueue :: "webhook_config \<Rightarrow> int \<Rightarrow> (n_hist, string \<times> gerr option) go" where
  "GetNextRetryQueue cfg retryCount =
     (if retryCount \<ge> int (length (whc_RetryQueues cfg)) then ret ([], Some (ErrNew ''no more retry queues available''))
      else bnd (retry_queue_at cfg retryCount) (\<lambda>q. ret (rq_Name q, None)))"

definition ProcessWebhook ::
  "n_world \<Rightarrow> webhook_config \<Rightarrow> bool \<Rightarrow> Notification option \<Rightarrow> int \<Rightarrow> (n_hist, gerr option) go" where
  "ProcessWebhook W cfg bus req retryCount =
     (case req of
        None \<Rightarrow> ret (Some (ErrNew ''received nil request''))
      | Some req \<Rightarrow>
          let final = PublishToFinalStatusQueue W cfg bus;
              failed = req\<lparr>ntn_Status := Delivery_FAILED\<rparr>;
              maxRetryCount = int (length (whc_RetryQueues cfg));
              retry = (if retryCount \<ge> maxRetryCount then final failed
                       else bnd (retry_queue_at cfg retryCount) (\<lambda>q.
                            PublishToRetryQueue W cfg bus (rq_Name q) req retryCount))
          in if retryCount > maxRetryCount then final failed
             else (case validateRequest W req of
                     Inl e \<Rightarrow> final failed
                   | Inr payload \<Rightarrow>
                       bnd (deref (ntn_SigningSecret req)) (\<lambda>secret.
                       bnd (deref (ntn_WebhookUrl req)) (\<lambda>url.
                       bnd (SendPostRequest W url payload (SignPayload W payload secret) (ntn_Id req)) (\<lambda>(statusCode, err).
                       case err of
                         Some e \<Rightarrow>
                           if errors_is e ErrNetwork then retry
                           else final (failed\<lparr>ntn_StatusReason := ''Network error''\<rparr>)
                       | None \<Rightarrow>
                           if statusCode \<ge> 500 then retry
                           else if statusCode \<ge> 400 then final (failed\<lparr>ntn_StatusReason := ''4xx Client error''\<rparr>)
                           else if statusCode \<ge> 300
                           then final (failed\<lparr>ntn_StatusReason := ''Redirections not supported for webhook URLs''\<rparr>)
                           else final (req\<lparr>ntn_Status := Delivery_PUBLISHED, ntn_StatusReason := ''SUCCESS''\<rparr>))))))"

section \<open>The handler\<close>

text \<open>
  The header of an incoming message: absent, or a packed value that is not a string
  (\<open>Inl\<close> the error of unpacking it), or a string. A message is nil, of another type (\<open>Some None\<close>), or a
  notification.
\<close>

definition extractRetryCount :: "gerr + string \<Rightarrow> gerr + int" where
  "extractRetryCount v = (case v of Inl e \<Rightarrow> Inl e | Inr s \<Rightarrow> Atoi s)"

definition ParseHeaders :: "(string \<times> (gerr + string)) list \<Rightarrow> gerr + int" where
  "ParseHeaders headers =
     (case map_of headers ''x_retry'' of None \<Rightarrow> Inr 0 | Some v \<Rightarrow> extractRetryCount v)"

definition ProcessWebhookHandler ::
  "n_world \<Rightarrow> webhook_config \<Rightarrow> bool \<Rightarrow> Notification option option \<Rightarrow> (string \<times> (gerr + string)) list
     \<Rightarrow> (n_hist, gerr option) go" where
  "ProcessWebhookHandler W cfg bus msg headers =
     (case msg of
        None \<Rightarrow> ret (Some (ErrNew ''received nil msg''))
      | Some None \<Rightarrow> ret (Some (ErrNew ''received invalid webhook notification message''))
      | Some (Some request) \<Rightarrow>
          (case ParseHeaders headers of
             Inl e \<Rightarrow> ret (Some e)
           | Inr xretry \<Rightarrow> ProcessWebhook W cfg bus (Some request) xretry))"

end
