(* ===== verification/Webhook_Spec.thy ===== *)
theory Webhook_Spec
  imports Webhook_Sender
begin

text \<open>
  What becomes of a webhook notification: the deliveries of the sender composed with the broker, which
  returns a message from a retry queue to the queue bound to its dead-letter exchange. A notification
  is posted at most once more than there are retry queues, and ends in the final status queue.
\<close>

section \<open>The broker\<close>

text \<open>
  The documented behaviour of dead-letter exchanges for the queues the service declares: a message
  that expires in a queue goes, with the queue's name as routing key, to the queues bound to its
  dead-letter exchange by that key.
\<close>

definition dead_letter :: "webhook_config \<Rightarrow> string \<Rightarrow> string list" where
  "dead_letter cfg q =
     (case List.find (\<lambda>d. qd_Name d = q) (declared_queues cfg) of
        None \<Rightarrow> []
      | Some d \<Rightarrow>
          (case qd_DLExchange d of
             None \<Rightarrow> []
           | Some x \<Rightarrow> map qd_Name (filter (\<lambda>d'. \<exists>b \<in> set (qd_Bindings d'). fst b = x \<and> q \<in> set (snd b)) (declared_queues cfg))))"

text \<open>Headers arrive packed; a number is not a packed string.\<close>

fun received_header :: "string \<times> header_value \<Rightarrow> string \<times> (gerr + string)" where
  "received_header (k, HString s) = (k, Inr s)"
| "received_header (k, HInt n) = (k, Inl (ErrExt ''mismatched message type''))"

text \<open>The deliveries of a notification, as long as the broker brings it back; \<open>n\<close> bounds their number.\<close>

fun webhook_life ::
  "n_world \<Rightarrow> webhook_config \<Rightarrow> nat \<Rightarrow> Notification \<Rightarrow> (string \<times> (gerr + string)) list \<Rightarrow> n_hist
     \<Rightarrow> (gerr option outcome \<times> n_hist) option" where
  "webhook_life W cfg 0 req headers h = None"
| "webhook_life W cfg (Suc n) req headers h =
     (case ProcessWebhookHandler W cfg True (Some (Some req)) headers h of
        (r, h') \<Rightarrow>
          (case h' of
             NSend q req' hs # h'' \<Rightarrow>
               if r = Ret None \<and> dead_letter cfg q = [whc_SendQueue cfg]
               then webhook_life W cfg n req' (map received_header hs) h'
               else Some (r, h')
           | _ \<Rightarrow> Some (r, h')))"

section \<open>Specification\<close>

definition accepted :: "post_answer \<Rightarrow> bool" where
  "accepted a \<longleftrightarrow> (\<exists>code < 300. a = PostStatus code)"

definition retryable :: "post_answer \<Rightarrow> bool" where
  "retryable a \<longleftrightarrow> (\<exists>code \<ge> 500. a = PostStatus code) \<or> (\<exists>e kinds. a = PostError e kinds \<and> isNetworkError kinds)"

text \<open>The final form of a notification whose last answer was \<open>a\<close>.\<close>

definition verdict :: "post_answer \<Rightarrow> Notification \<Rightarrow> Notification" where
  "verdict a req =
     (if accepted a then req\<lparr>ntn_Status := Delivery_PUBLISHED, ntn_StatusReason := ''SUCCESS''\<rparr>
      else if retryable a then req\<lparr>ntn_Status := Delivery_FAILED\<rparr>
      else req\<lparr>ntn_Status := Delivery_FAILED,
               ntn_StatusReason :=
                 (case a of PostStatus code \<Rightarrow> if code < 400 then ''Redirections not supported for webhook URLs''
                                               else ''4xx Client error''
                          | _ \<Rightarrow> ''Network error'')\<rparr>)"

text \<open>The request of a try at history \<open>h\<close>: only its date depends on \<open>h\<close>.\<close>

definition webhook_post :: "n_world \<Rightarrow> Notification \<Rightarrow> string \<Rightarrow> n_hist \<Rightarrow> n_event" where
  "webhook_post W req payload h =
     NPost (setWebhookHeaders W (the (ntn_WebhookUrl req)) (ntn_Id req) payload
              (SignPayload W payload (the (ntn_SigningSecret req))) (nw_now W h))"

text \<open>\<open>k\<close> tries have failed, each followed by its message to the next retry queue.\<close>

inductive failed_tries :: "n_world \<Rightarrow> webhook_config \<Rightarrow> Notification \<Rightarrow> string \<Rightarrow> n_hist \<Rightarrow> nat \<Rightarrow> n_hist \<Rightarrow> bool"
  for W cfg req payload h where
  none: "failed_tries W cfg req payload h 0 h"
| again: "\<lbrakk>failed_tries W cfg req payload h k h1; k < length (whc_RetryQueues cfg);
           retryable (nw_post W h1 (webhook_post W req payload h1))\<rbrakk> \<Longrightarrow>
    failed_tries W cfg req payload h (Suc k)
      (NSend (rq_Name (whc_RetryQueues cfg ! k)) req (retry_headers (int k + 1) (whc_RetryQueues cfg ! k))
         # webhook_post W req payload h1 # h1)"

fun is_post :: "n_event \<Rightarrow> bool" where
  "is_post (NPost r) = True"
| "is_post e = False"

text \<open>The client's own errors are not the sentinel of the package, and the bus accepts every message.\<close>

definition plain_client :: "n_world \<Rightarrow> bool" where
  "plain_client W \<longleftrightarrow>
     (\<forall>h e x kinds. nw_post W h e = PostError x kinds \<longrightarrow> \<not> errors_is x ErrNetwork) \<and>
     (\<forall>h e x. nw_post W h e = PostRefused x \<longrightarrow> \<not> errors_is x ErrNetwork)"

definition bus_accepts :: "n_world \<Rightarrow> bool" where
  "bus_accepts W \<longleftrightarrow> (\<forall>h e. nw_send W h e = None)"

text \<open>What \<^verbatim>\<open>sort.Slice\<close> promises.\<close>

definition sorts_by_TTL :: "(RetryQueue list \<Rightarrow> RetryQueue list) \<Rightarrow> bool" where
  "sorts_by_TTL sorter \<longleftrightarrow>
     (\<forall>qs. mset (sorter qs) = mset qs \<and> sorted (map (\<lambda>q. sint (rq_TTL q)) (sorter qs)))"

section \<open>The retry queues\<close>

lemma nat_text_inj: "nat_text m = nat_text n \<longleftrightarrow> m = n"
proof
  assume "nat_text m = nat_text n"
  then have "digits_value (nat_text m) 0 = digits_value (nat_text n) 0" by simp
  then show "m = n" by (simp add: digits_value_nat_text)
qed simp

lemma retry_queues_names:
  assumes "sorts_by_TTL sorter"
  shows "distinct (name # map rq_Name (retry_queues sorter name intervals))"
    "length (retry_queues sorter name intervals) = length intervals"
proof -
  let ?qs = "map (\<lambda>(i, ttl). \<lparr>rq_Name = name @ ''_retry_'' @ nat_text (i + 1), rq_TTL = ttl\<rparr>)
    (zip [0..<length intervals] intervals)"
  have same: "mset (retry_queues sorter name intervals) = mset ?qs"
    using assms by (simp add: retry_queues_def sorts_by_TTL_def)
  have names: "map rq_Name ?qs = map (\<lambda>i. name @ ''_retry_'' @ nat_text (i + 1)) [0..<length intervals]"
    by (rule nth_equalityI) (auto simp: nth_append)
  let ?names = "map (\<lambda>i. name @ ''_retry_'' @ nat_text (i + 1)) [0..<length intervals]"
  have fresh: "distinct ?names" "name \<notin> set ?names"
    by (auto simp: distinct_map inj_on_def nat_text_inj)
  have "mset (map rq_Name (retry_queues sorter name intervals)) = image_mset rq_Name (mset ?qs)"
    by (simp only: mset_map same)
  also have "\<dots> = mset ?names" by (simp only: mset_map [symmetric] names)
  finally have equal: "mset (map rq_Name (retry_queues sorter name intervals)) = mset ?names" .
  show "distinct (name # map rq_Name (retry_queues sorter name intervals))"
    unfolding distinct.simps mset_eq_setD [OF equal] mset_eq_imp_distinct_iff [OF equal]
    using fresh by blast
  show "length (retry_queues sorter name intervals) = length intervals"
    using mset_eq_length [OF same] by simp
qed

lemma dead_letter_retry:
  assumes "distinct (whc_SendQueue cfg # map rq_Name (whc_RetryQueues cfg))" "q \<in> set (whc_RetryQueues cfg)"
    "whc_Exchange cfg \<noteq> whc_DLExchange cfg"
  shows "dead_letter cfg (rq_Name q) = [whc_SendQueue cfg]"
proof -
  let ?decl = "\<lambda>q. \<lparr>qd_Name = rq_Name q, qd_DLExchange = Some (whc_DLExchange cfg), qd_Bindings = [], qd_MaxPriority = None\<rparr>"
  have "q \<in> set qs \<Longrightarrow> \<exists>d. List.find (\<lambda>d. qd_Name d = rq_Name q) (map ?decl qs @ ds) = Some d \<and>
      qd_DLExchange d = Some (whc_DLExchange cfg)" for qs ds
    by (induction qs) auto
  from this [OF assms(2)] obtain d where "List.find (\<lambda>d. qd_Name d = rq_Name q) (declared_queues cfg) = Some d"
      "qd_DLExchange d = Some (whc_DLExchange cfg)"
    unfolding declared_queues_def by blast
  moreover have "map qd_Name (filter (\<lambda>d'. \<exists>b \<in> set (qd_Bindings d'). fst b = whc_DLExchange cfg \<and> rq_Name q \<in> set (snd b))
      (declared_queues cfg)) = [whc_SendQueue cfg]"
    using assms by (auto simp: declared_queues_def filter_map comp_def)
  ultimately show ?thesis by (simp add: dead_letter_def)
qed

lemma dead_letter_final:
  assumes "whc_FinalStatusQueue cfg \<notin> set (map rq_Name (whc_RetryQueues cfg))"
  shows "dead_letter cfg (whc_FinalStatusQueue cfg) = []"
proof -
  have "List.find (\<lambda>d. qd_Name d = whc_FinalStatusQueue cfg) (declared_queues cfg) = Some d \<Longrightarrow> qd_DLExchange d = None" for d
    using assms by (auto simp: declared_queues_def find_Some_iff nth_append split: if_splits) (metis imageI nth_mem)
  then show ?thesis by (auto simp: dead_letter_def split: option.splits)
qed

section \<open>One delivery\<close>

lemma Atoi_count: "i < 2 ^ 63 \<Longrightarrow> Atoi (int_text (int i)) = Inr (int i)"
  by (simp add: int_text_def Atoi_nat_text)

definition count_headers :: "nat \<Rightarrow> (string \<times> (gerr + string)) list \<Rightarrow> bool" where
  "count_headers k headers \<longleftrightarrow> ParseHeaders headers = Inr (int k)"

lemma validated:
  assumes "validateRequest W req = Inr payload"
  obtains url secret where "ntn_WebhookUrl req = Some url" "ntn_SigningSecret req = Some secret"
  using assms by (auto simp: validateRequest_def split: if_splits)

lemma delivery:
  fixes W req payload h
  defines "p \<equiv> webhook_post W req payload h"
  assumes "bus_accepts W" "plain_client W" "validateRequest W req = Inr payload"
    "count_headers k headers" "k \<le> length (whc_RetryQueues cfg)"
  shows "ProcessWebhookHandler W cfg True (Some (Some req)) headers h =
    (Ret None,
     (if retryable (nw_post W h p) \<and> k < length (whc_RetryQueues cfg)
      then NSend (rq_Name (whc_RetryQueues cfg ! k)) req (retry_headers (int k + 1) (whc_RetryQueues cfg ! k))
      else NSend (whc_FinalStatusQueue cfg) (verdict (nw_post W h p) req) []) # p # h)"
proof -
  obtain url secret where known: "ntn_WebhookUrl req = Some url" "ntn_SigningSecret req = Some secret"
    using assms(4) by (rule validated)
  have p: "p = NPost (setWebhookHeaders W url (ntn_Id req) payload (SignPayload W payload secret) (nw_now W h))"
    by (simp add: p_def webhook_post_def known)
  have foreign: "nw_post W h p = PostError x kinds \<Longrightarrow> \<not> errors_is x ErrNetwork"
    "nw_post W h p = PostRefused x \<Longrightarrow> \<not> errors_is x ErrNetwork" for x kinds
    using assms(3) by (auto simp: plain_client_def)
  have sentinel: "ErrWrap s e \<noteq> ErrNetwork" for s e
    by (simp add: ErrNetwork_def)
  show ?thesis
    using assms(2,4-6) known foreign
    by (cases "nw_post W h p")
       (auto simp: ProcessWebhookHandler_def count_headers_def ProcessWebhook_def SendPostRequest_def bnd_assoc bnd_look bnd_call
          p [symmetric] PublishToFinalStatusQueue_def PublishToRetryQueue_def retry_queue_at_def Let_def bus_accepts_def
          verdict_def accepted_def retryable_def ret_run sentinel)
qed

section \<open>The life of a notification\<close>

lemma count_headers_retry:
  "k < 2 ^ 62 \<Longrightarrow> count_headers (Suc k) (map received_header (retry_headers (int k + 1) q))"
  using Atoi_count [of "Suc k"]
  by (simp add: count_headers_def ParseHeaders_def retry_headers_def extractRetryCount_def add.commute)

lemma failed_tries_posts:
  "failed_tries W cfg req payload h k h1 \<Longrightarrow>
     length (filter is_post h1) = length (filter is_post h) + k \<and> k \<le> length (whc_RetryQueues cfg)"
  by (induction rule: failed_tries.induct) (auto simp: webhook_post_def)

lemma life_from:
  assumes "bus_accepts W" "plain_client W" "validateRequest W req = Inr payload"
    "distinct (whc_SendQueue cfg # map rq_Name (whc_RetryQueues cfg))" "whc_Exchange cfg \<noteq> whc_DLExchange cfg"
    "whc_FinalStatusQueue cfg \<notin> set (map rq_Name (whc_RetryQueues cfg))" "length (whc_RetryQueues cfg) < 2 ^ 62"
  shows "failed_tries W cfg req payload h k h1 \<Longrightarrow> count_headers k headers \<Longrightarrow>
     length (whc_RetryQueues cfg) - k < n \<Longrightarrow>
     \<exists>k' h2. failed_tries W cfg req payload h k' h2 \<and>
       (retryable (nw_post W h2 (webhook_post W req payload h2)) \<longrightarrow> k' = length (whc_RetryQueues cfg)) \<and>
       webhook_life W cfg n req headers h1 = Some (Ret None,
         NSend (whc_FinalStatusQueue cfg) (verdict (nw_post W h2 (webhook_post W req payload h2)) req) []
           # webhook_post W req payload h2 # h2)"
proof (induction n arbitrary: k h1 headers)
  case 0
  then show ?case by simp
next
  case (Suc n)
  let ?p = "webhook_post W req payload h1"
  have k: "k \<le> length (whc_RetryQueues cfg)"
    using failed_tries_posts [OF Suc.prems(1)] by simp
  note run = delivery [OF assms(1-3) Suc.prems(2) k, of h1]
  show ?case
  proof (cases "retryable (nw_post W h1 ?p) \<and> k < length (whc_RetryQueues cfg)")
    case True
    let ?q = "whc_RetryQueues cfg ! k"
    have next_try: "failed_tries W cfg req payload h (Suc k) (NSend (rq_Name ?q) req (retry_headers (int k + 1) ?q) # ?p # h1)"
      using True Suc.prems(1) by (auto intro: failed_tries.again)
    have headers: "count_headers (Suc k) (map received_header (retry_headers (int k + 1) ?q))"
      using True assms(7) by (intro count_headers_retry) simp
    have "dead_letter cfg (rq_Name ?q) = [whc_SendQueue cfg]"
      using True assms(4,5) by (intro dead_letter_retry) auto
    moreover have "length (whc_RetryQueues cfg) - Suc k < n" using Suc.prems(3) True by linarith
    ultimately show ?thesis
      using Suc.IH [OF next_try headers] True by (simp add: run)
  next
    case False
    then show ?thesis
      using Suc.prems(1) k dead_letter_final [OF assms(6)] run by auto
  qed
qed

lemma webhook_final:
  assumes "bus_accepts W" "plain_client W" "validateRequest W req = Inr payload" "sorts_by_TTL sorter"
    "whc_RetryQueues cfg = retry_queues sorter (whc_SendQueue cfg) intervals" "length intervals < 2 ^ 62"
    "whc_Exchange cfg \<noteq> whc_DLExchange cfg" "whc_FinalStatusQueue cfg \<notin> set (map rq_Name (whc_RetryQueues cfg))"
  shows "\<exists>k h1 final. failed_tries W cfg req payload h k h1 \<and> k \<le> length intervals \<and>
    (let post = webhook_post W req payload h1; answer = nw_post W h1 post; h' = NSend (whc_FinalStatusQueue cfg) final [] # post # h1
     in webhook_life W cfg (Suc (length intervals)) req [] h = Some (Ret None, h') \<and>
        length (filter is_post h') = length (filter is_post h) + Suc k \<and>
        (retryable answer \<longrightarrow> k = length intervals) \<and> final = verdict answer req \<and>
        (ntn_Status final = Delivery_PUBLISHED \<longleftrightarrow> accepted answer))"
proof -
  have len: "length (whc_RetryQueues cfg) = length intervals"
    and names: "distinct (whc_SendQueue cfg # map rq_Name (whc_RetryQueues cfg))"
    unfolding assms(5) by (rule retry_queues_names [OF assms(4)])+
  have "count_headers 0 []" by (simp add: count_headers_def ParseHeaders_def)
  then obtain k h1 where life: "failed_tries W cfg req payload h k h1"
      "retryable (nw_post W h1 (webhook_post W req payload h1)) \<longrightarrow> k = length intervals"
      "webhook_life W cfg (Suc (length intervals)) req [] h = Some (Ret None,
         NSend (whc_FinalStatusQueue cfg) (verdict (nw_post W h1 (webhook_post W req payload h1)) req) []
           # webhook_post W req payload h1 # h1)"
    using life_from [OF assms(1-3) names assms(7,8) _ failed_tries.none, of "[]" "Suc (length intervals)" h] assms(6) len
    by auto
  moreover have "is_post (webhook_post W req payload h1)" by (simp add: webhook_post_def)
  ultimately show ?thesis
    using failed_tries_posts [OF life(1)] len
    by (intro exI [of _ k] exI [of _ h1] exI [of _ "verdict (nw_post W h1 (webhook_post W req payload h1)) req"])
       (auto simp: Let_def verdict_def)
qed

section \<open>Properties\<close>

text \<open>
  C19. Every valid webhook notification reaches a final status. The sender posts it once, and again only
  after an answer worth another try, moving through the retry queues in order; all posts carry the same
  body, signature and idempotency key; after the last queue it gives up. It is marked as published
  exactly if the last post was accepted.
\<close>

theorem webhook_reaches_final:
  assumes "bus_accepts W" "plain_client W" "validateRequest W req = Inr payload" "sorts_by_TTL sorter"
    "whc_RetryQueues cfg = retry_queues sorter (whc_SendQueue cfg) intervals" "length intervals < 2 ^ 62"
    "whc_Exchange cfg \<noteq> whc_DLExchange cfg" "whc_FinalStatusQueue cfg \<notin> set (map rq_Name (whc_RetryQueues cfg))"
  shows "\<exists>k h1 final. failed_tries W cfg req payload h k h1 \<and> k \<le> length intervals \<and>
    (let post = webhook_post W req payload h1; answer = nw_post W h1 post; h' = NSend (whc_FinalStatusQueue cfg) final [] # post # h1
     in webhook_life W cfg (Suc (length intervals)) req [] h = Some (Ret None, h') \<and>
        length (filter is_post h') = length (filter is_post h) + Suc k \<and>
        (retryable answer \<longrightarrow> k = length intervals) \<and> final = verdict answer req \<and>
        (ntn_Status final = Delivery_PUBLISHED \<longleftrightarrow> accepted answer))"
  using assms by (rule webhook_final)

section \<open>Witnesses\<close>

definition sample_webhook_config :: webhook_config where
  "sample_webhook_config = \<lparr>whc_SendQueue = ''hook'', whc_MaxPriority = 5, whc_FinalStatusQueue = ''final'',
     whc_Exchange = ''x'', whc_DLExchange = ''dlx'', whc_RetryQueues = retry_queues (sort_key (\<lambda>q. sint (rq_TTL q))) ''hook'' [60, 5]\<rparr>"

definition sample_webhook :: Notification where
  "sample_webhook = \<lparr>ntn_Id = ''n1'', ntn_Type = ''domain.renew'', ntn_TenantId = ''t1'', ntn_TenantCustomerId = None,
     ntn_SubscriptionId = [], ntn_WebhookUrl = Some ''https://a.com'', ntn_SigningSecret = Some ''s'',
     ntn_CreatedDate = Some \<lparr>ts_seconds = 0, ts_nanos = 0\<rparr>, ntn_Status = Delivery_PUBLISHING, ntn_StatusReason = [],
     ntn_Data = None, ntn_EmailNotification = None\<rparr>"

text \<open>The subscriber answers 503, then refuses the connection, then accepts.\<close>

definition sample_n_world :: n_world where
  "sample_n_world = \<lparr>nw_send = \<lambda>h e. None,
     nw_post = \<lambda>h e. let n = length (filter is_post h) in
       if n = 0 then PostStatus 503 else if n = 1 then PostError (ErrExt ''refused'') [ECONNREFUSED] else PostStatus 200,
     nw_mail = \<lambda>h e. None, nw_update = \<lambda>h e. (1, None), nw_now = \<lambda>h. \<lparr>t_sec = 0, t_nsec = 0, t_off = 0\<rparr>,
     nw_done = \<lambda>h. None, nw_unpack = \<lambda>a. Inr [], nw_newstruct = \<lambda>m. None, nw_pack = \<lambda>m. if m = [] then Inr (Any [] []) else Inl (ErrExt ''pack''), nw_json_error = \<lambda>s. ''invalid'', nw_hmac = \<lambda>k m. [],
     nw_sha256 = \<lambda>m. [], nw_render = \<lambda>t v. Inr t, nw_mime = \<lambda>b s. s, nw_envelope = \<lambda>j. zero_EmailEnvelope,
     nw_status0 = Delivery_RECEIVED\<rparr>"

lemma sort_key_sorts: "sorts_by_TTL (sort_key (\<lambda>q. sint (rq_TTL q)))"
  by (simp add: sorts_by_TTL_def)

theorem webhook_reaches_final_witness:
  "\<exists>k h1 final. failed_tries sample_n_world sample_webhook_config sample_webhook
       (projr (validateRequest sample_n_world sample_webhook)) [] k h1 \<and> k \<le> length [60, 5 :: i64] \<and>
     webhook_life sample_n_world sample_webhook_config (Suc (length [60, 5 :: i64])) sample_webhook [] [] =
       Some (Ret None, NSend (whc_FinalStatusQueue sample_webhook_config) final []
         # webhook_post sample_n_world sample_webhook (projr (validateRequest sample_n_world sample_webhook)) h1 # h1)"
proof -
  have valid: "validateRequest sample_n_world sample_webhook = Inr (projr (validateRequest sample_n_world sample_webhook))"
    by (simp add: validateRequest_def RequestFromProto_def sample_webhook_def)
  have world: "bus_accepts sample_n_world" "plain_client sample_n_world"
    by (auto simp: bus_accepts_def plain_client_def sample_n_world_def Let_def ErrNetwork_def split: if_splits)
  have queues: "whc_RetryQueues sample_webhook_config =
      retry_queues (sort_key (\<lambda>q. sint (rq_TTL q))) (whc_SendQueue sample_webhook_config) [60, 5]"
    "whc_FinalStatusQueue sample_webhook_config \<notin> set (map rq_Name (whc_RetryQueues sample_webhook_config))"
    by (simp_all add: sample_webhook_config_def retry_queues_def)
  have sides: "length [60, 5 :: i64] < 2 ^ 62" "whc_Exchange sample_webhook_config \<noteq> whc_DLExchange sample_webhook_config"
    by (simp_all add: sample_webhook_config_def)
  show ?thesis
    using webhook_reaches_final [OF world valid sort_key_sorts queues(1) sides queues(2), of "[]"]
    unfolding Let_def by blast
qed

end
