(* ===== verification/Notification_Manager.thy ===== *)
theory Notification_Manager
  imports Notification_Data
begin

text \<open>
  The two ends of the way of a notification: the enqueuer turns the rows of \<^verbatim>\<open>v_notification\<close> into
  messages (\<^verbatim>\<open>sm/tdp-notifications/enqueuer/internal/database/model\<close>), and the notification manager writes the
  final status back (\<^verbatim>\<open>sm/tdp-notifications/notification-manager-service\<close>).
\<close>

section \<open>Payloads\<close>

text \<open>\<^verbatim>\<open>json.Unmarshal\<close> into a map: \<^verbatim>\<open>null\<close> leaves it nil, a value that is not an object is refused.\<close>

definition unmarshal_map :: "n_world \<Rightarrow> string \<Rightarrow> gerr + (string \<times> json) list" where
  "unmarshal_map W s =
     (case scan s of
        Raw JNull \<Rightarrow> Inr []
      | Raw (JObj kvs) \<Rightarrow> (case any_value (JObj kvs) of JObj m \<Rightarrow> Inr m | _ \<Rightarrow> Inr [])
      | _ \<Rightarrow> Inl (ErrJSON (nw_json_error W s)))"

definition marshal_map :: "(string \<times> json) list \<Rightarrow> string" where
  "marshal_map m = json_print (any_value (JObj m))"

section \<open>From the row to the message\<close>

definition queued_status :: "n_world \<Rightarrow> string \<Rightarrow> DeliveryStatus" where
  "queued_status W s =
     (if s = ''received'' then Delivery_RECEIVED else if s = ''publishing'' then Delivery_PUBLISHING
      else if s = ''published'' then Delivery_PUBLISHED else if s = ''failed'' then Delivery_FAILED
      else if s = ''unsupported'' then Delivery_UNSUPPORTED else nw_status0 W)"

text \<open>\<^verbatim>\<open>PointerToValue\<close>.\<close>

definition PointerToValue :: "string option \<Rightarrow> string" where
  "PointerToValue p = (case p of None \<Rightarrow> [] | Some s \<Rightarrow> s)"

definition empty_notification :: "DeliveryStatus \<Rightarrow> Notification" where
  "empty_notification st = \<lparr>ntn_Id = [], ntn_Type = [], ntn_TenantId = [], ntn_TenantCustomerId = None, ntn_SubscriptionId = [],
     ntn_WebhookUrl = None, ntn_SigningSecret = None, ntn_CreatedDate = None, ntn_Status = st, ntn_StatusReason = [],
     ntn_Data = None, ntn_EmailNotification = None\<rparr>"

text \<open>An error of packing is printed and forgotten; the message then has no data.\<close>

definition ToWebhookProto :: "n_world \<Rightarrow> QueuedNotification \<Rightarrow> ('s, Notification option \<times> gerr option) go" where
  "ToWebhookProto W s =
     bnd (deref (qn_Payload s)) (\<lambda>payload.
     case unmarshal_map W payload of
       Inl e \<Rightarrow> ret (None, Some e)
     | Inr result \<Rightarrow>
         (case nw_newstruct W result of
            Some e \<Rightarrow> ret (None, Some e)
          | None \<Rightarrow>
              bnd (deref (qn_ID s)) (\<lambda>i. bnd (deref (qn_Type s)) (\<lambda>ty. bnd (deref (qn_TenantID s)) (\<lambda>tenant.
              bnd (deref (qn_CreatedDate s)) (\<lambda>created. bnd (deref (qn_Status s)) (\<lambda>status.
              ret (Some ((empty_notification (queued_status W status))
                \<lparr>ntn_Id := i, ntn_Type := ty, ntn_TenantId := tenant, ntn_TenantCustomerId := qn_TenantCustomerID s,
                 ntn_WebhookUrl := qn_WebhookURL s, ntn_SigningSecret := qn_SigningSecret s,
                 ntn_CreatedDate := Some (timestamp_New created),
                 ntn_Data := (case nw_pack W result of Inl e \<Rightarrow> None | Inr a \<Rightarrow> Some a)\<rparr>), None))))))))"

definition email_error :: "string \<Rightarrow> string option \<Rightarrow> Notification option \<times> gerr option" where
  "email_error what i = (None, Some (ErrNew (what @ '' for notification '' @ PointerToValue i)))"

definition email_wrapped :: "string \<Rightarrow> string option \<Rightarrow> gerr \<Rightarrow> Notification option \<times> gerr option" where
  "email_wrapped what i e = (None, Some (ErrWrap (what @ '' for notification '' @ PointerToValue i) e))"

text \<open>A member of a decoded object; a missing one and \<^verbatim>\<open>null\<close> both read as nil.\<close>

definition json_member :: "(string \<times> json) list \<Rightarrow> string \<Rightarrow> json option" where
  "json_member m k = (case map_of m k of Some JNull \<Rightarrow> None | v \<Rightarrow> v)"

definition email_message ::
  "n_world \<Rightarrow> QueuedNotification \<Rightarrow> any \<Rightarrow> json \<Rightarrow> ('s, Notification option \<times> gerr option) go" where
  "email_message W n anyData envelopeJson =
     (let failed = (\<lambda>what. ret (email_error what (qn_NotificationID n)))
      in if qn_ID n = None then failed ''ID is nil''
         else if qn_Type n = None then failed ''type is nil''
         else if qn_TenantID n = None then failed ''tenant ID is nil''
         else if qn_CreatedDate n = None then failed ''created date is nil''
         else
           bnd (deref (qn_Status n)) (\<lambda>status.
           ret (Some ((empty_notification (queued_status W status))
             \<lparr>ntn_Id := the (qn_ID n), ntn_Type := the (qn_Type n), ntn_TenantId := the (qn_TenantID n),
              ntn_TenantCustomerId := qn_TenantCustomerID n,
              ntn_EmailNotification := Some \<lparr>emn_Envelope = Some (nw_envelope W envelopeJson),
                                             emn_Template = PointerToValue (qn_EmailTemplate n)\<rparr>,
              ntn_CreatedDate := Some (timestamp_New (the (qn_CreatedDate n))), ntn_Data := Some anyData\<rparr>), None)))"

definition ToEmailProto :: "n_world \<Rightarrow> QueuedNotification option \<Rightarrow> ('s, Notification option \<times> gerr option) go" where
  "ToEmailProto W row =
     (case row of
        None \<Rightarrow> ret (None, Some (ErrNew ''VNotification is nil''))
      | Some n \<Rightarrow>
          let failed = (\<lambda>what. ret (email_error what (qn_NotificationID n)))
          in if qn_ChannelType n = None then failed ''channel type is nil''
             else if qn_EmailTemplate n = None then failed ''email template is nil''
             else (case qn_Payload n of
                None \<Rightarrow> failed ''payload is nil''
              | Some payload \<Rightarrow>
                  (case unmarshal_map W payload of
                     Inl e \<Rightarrow> ret (email_wrapped ''failed to unmarshal payload'' (qn_NotificationID n) e)
                   | Inr payloadJson \<Rightarrow>
                       (case json_member payloadJson ''data'' of
                          None \<Rightarrow> failed ''data is nil''
                        | Some (JObj dataJson) \<Rightarrow>
                            (case nw_newstruct W dataJson of
                               Some e \<Rightarrow> ret (email_wrapped ''failed to convert dataJson to structpb'' (qn_NotificationID n) e)
                             | None \<Rightarrow>
                                 (case nw_pack W dataJson of
                                    Inl e \<Rightarrow> ret (email_wrapped (''failed to convert structValue to '' @ [CHR 0x27] @ ''any'' @ [CHR 0x27]) (qn_NotificationID n) e)
                                  | Inr anyData \<Rightarrow>
                                      (case json_member payloadJson ''envelope'' of
                                         None \<Rightarrow> failed ''envelope is nil''
                                       | Some envelopeJson \<Rightarrow> email_message W n anyData envelopeJson)))
                        | Some _ \<Rightarrow> failed ''data is not a map''))))"

section \<open>The notification manager\<close>

definition protoStatusFromString :: "n_world \<Rightarrow> string \<Rightarrow> DeliveryStatus" where
  "protoStatusFromString W s =
     (if s = ''received'' then Delivery_RECEIVED else if s = ''publishing'' then Delivery_PUBLISHING
      else if s = ''published'' then Delivery_PUBLISHED else if s = ''failed'' then Delivery_FAILED
      else nw_status0 W)"

fun notificationStatusFromProto :: "DeliveryStatus \<Rightarrow> string" where
  "notificationStatusFromProto Delivery_RECEIVED = ''received''"
| "notificationStatusFromProto Delivery_PUBLISHING = ''publishing''"
| "notificationStatusFromProto Delivery_PUBLISHED = ''published''"
| "notificationStatusFromProto Delivery_FAILED = ''failed''"
| "notificationStatusFromProto Delivery_UNSUPPORTED = []"

definition extractPayloadJSON :: "n_world \<Rightarrow> any option \<Rightarrow> gerr + string" where
  "extractPayloadJSON W anyData =
     (case anyData of
        None \<Rightarrow> Inr []
      | Some a \<Rightarrow> (case nw_unpack W a of Inl e \<Rightarrow> Inl e | Inr mapData \<Rightarrow> Inr (marshal_map mapData)))"

text \<open>The template is never set.\<close>

definition VNotificationFromProto :: "n_world \<Rightarrow> Notification option \<Rightarrow> gerr + VNotification" where
  "VNotificationFromProto W req =
     (case req of
        None \<Rightarrow> Inl (ErrNew ''notification is nil'')
      | Some req \<Rightarrow>
          (case extractPayloadJSON W (ntn_Data req) of
             Inl e \<Rightarrow> Inl e
           | Inr payload \<Rightarrow>
               (case ntn_CreatedDate req of
                  None \<Rightarrow> Inl (ErrNew ''created date is nil'')
                | Some created \<Rightarrow>
                    Inr (zero_VNotification
                      \<lparr>vn_ID := ntn_Id req, vn_NotificationID := ntn_Id req, vn_Type := ntn_Type req,
                       vn_TenantID := ntn_TenantId req, vn_TenantCustomerID := PointerToValue (ntn_TenantCustomerId req),
                       vn_WebhookURL := PointerToValue (ntn_WebhookUrl req),
                       vn_SigningSecret := PointerToValue (ntn_SigningSecret req),
                       vn_CreatedDate := AsTime (Some created), vn_Status := notificationStatusFromProto (ntn_Status req),
                       vn_StatusReason := ntn_StatusReason req, vn_Payload := payload,
                       vn_EmailSubject :=
                         (case ntn_EmailNotification req of
                            None \<Rightarrow> []
                          | Some email \<Rightarrow> (case emn_Envelope email of None \<Rightarrow> [] | Some e \<Rightarrow> env_Subject e))\<rparr>))))"

definition handlePayload :: "n_world \<Rightarrow> string \<Rightarrow> gerr + any" where
  "handlePayload W payload =
     (case unmarshal_map W payload of
        Inl e \<Rightarrow> Inl e
      | Inr generic \<Rightarrow> (case nw_newstruct W generic of Some e \<Rightarrow> Inl e | None \<Rightarrow> nw_pack W generic))"

definition VNotificationToProto :: "n_world \<Rightarrow> VNotification option \<Rightarrow> gerr + Notification" where
  "VNotificationToProto W vn =
     (case vn of
        None \<Rightarrow> Inl (ErrNew ''notification is nil'')
      | Some vn \<Rightarrow>
          let notification = (empty_notification (protoStatusFromString W (vn_Status vn)))
                \<lparr>ntn_Id := vn_ID vn, ntn_Type := vn_Type vn, ntn_TenantId := vn_TenantID vn,
                 ntn_TenantCustomerId := Some (vn_TenantCustomerID vn), ntn_WebhookUrl := Some (vn_WebhookURL vn),
                 ntn_SigningSecret := Some (vn_SigningSecret vn), ntn_CreatedDate := Some (timestamp_New (vn_CreatedDate vn)),
                 ntn_StatusReason := vn_StatusReason vn,
                 ntn_EmailNotification :=
                   (if vn_EmailSubject vn \<noteq> [] \<or> vn_EmailTemplate vn \<noteq> []
                    then Some \<lparr>emn_Envelope = Some (zero_EmailEnvelope\<lparr>env_Subject := vn_EmailSubject vn\<rparr>), emn_Template = []\<rparr>
                    else None)\<rparr>
          in if vn_Payload vn = [] then Inr notification
             else (case handlePayload W (vn_Payload vn) of
                     Inl e \<Rightarrow> Inl e
                   | Inr anyMsg \<Rightarrow> Inr (notification\<lparr>ntn_Data := Some anyMsg\<rparr>)))"

definition ErrInvalidFinalStatus :: gerr where
  "ErrInvalidFinalStatus = ErrNew ''invalid final status''"

definition ErrInvalidNotification :: gerr where
  "ErrInvalidNotification = ErrNew ''could not deserialize notification''"

definition ErrDatabaseUpdateFailed :: gerr where
  "ErrDatabaseUpdateFailed = ErrNew ''failed to update notification''"

definition NM_ErrNotFound :: gerr where
  "NM_ErrNotFound = ErrNew ''not found''"

text \<open>A lost connection ends the process, so that the broker delivers the message again elsewhere.\<close>

definition UpdateNotificationStatus :: "n_world \<Rightarrow> Notification \<Rightarrow> (n_hist, gerr option) go" where
  "UpdateNotificationStatus W msg =
     (if ntn_Status msg \<noteq> Delivery_FAILED \<and> ntn_Status msg \<noteq> Delivery_PUBLISHED then ret (Some ErrInvalidFinalStatus)
      else (case VNotificationFromProto W (Some msg) of
              Inl e \<Rightarrow> ret (Some ErrInvalidNotification)
            | Inr vnotification \<Rightarrow>
                bnd (call (NUpdate vnotification) (nw_update W)) (\<lambda>(rows, err).
                case err of
                  Some (e, connectError) \<Rightarrow> if connectError then go_exit else ret (Some ErrDatabaseUpdateFailed)
                | None \<Rightarrow> ret (if rows = 0 then Some NM_ErrNotFound else None))))"

text \<open>\<open>None\<close> is a message of another type.\<close>

definition UpdateNotificationStatusHandler :: "n_world \<Rightarrow> Notification option \<Rightarrow> (n_hist, gerr option) go" where
  "UpdateNotificationStatusHandler W msg =
     (case msg of
        None \<Rightarrow> go_panic ''interface conversion''
      | Some notification \<Rightarrow>
          bnd (UpdateNotificationStatus W notification) (\<lambda>err.
          if (case err of None \<Rightarrow> False | Some e \<Rightarrow> errors_is e ErrInvalidFinalStatus) then ret None else ret err))"

end
