(* ===== verification/Notification_Pipeline.thy ===== *)
theory Notification_Pipeline
  imports Webhook_Spec Notification_Manager
begin

text \<open>
  The way of a webhook notification through the services: the enqueuer's message of a row, the
  deliveries of the sender, and the notification manager, which receives what the sender put into the
  final status queue.
\<close>

section \<open>The ends\<close>

text \<open>The message package: what was packed is unpacked again.\<close>

definition packs_faithfully :: "n_world \<Rightarrow> bool" where
  "packs_faithfully W \<longleftrightarrow> (\<forall>m a. nw_pack W m = Inr a \<longrightarrow> nw_unpack W a = Inr m)"

lemma ToWebhookProto_Some:
  assumes "ToWebhookProto W row h = (Ret (Some req, None), h')"
  obtains payload m i ty tenant created status where "qn_Payload row = Some payload" "unmarshal_map W payload = Inr m"
    "qn_ID row = Some i" "qn_Type row = Some ty" "qn_TenantID row = Some tenant" "qn_CreatedDate row = Some created"
    "req = (empty_notification (queued_status W status))
       \<lparr>ntn_Id := i, ntn_Type := ty, ntn_TenantId := tenant, ntn_TenantCustomerId := qn_TenantCustomerID row,
        ntn_WebhookUrl := qn_WebhookURL row, ntn_SigningSecret := qn_SigningSecret row,
        ntn_CreatedDate := Some (timestamp_New created),
        ntn_Data := (case nw_pack W m of Inl e \<Rightarrow> None | Inr a \<Rightarrow> Some a)\<rparr>"
  using assms
  by (cases "qn_Payload row"; cases "qn_ID row"; cases "qn_Type row"; cases "qn_TenantID row"; cases "qn_CreatedDate row";
      cases "qn_Status row")
     (auto simp: ToWebhookProto_def panic_run ret_run split: sum.splits option.splits)

lemma validateRequest_queued:
  assumes "packs_faithfully W" "ToWebhookProto W row h = (Ret (Some req, None), h')"
    "qn_WebhookURL row = Some url" "qn_SigningSecret row = Some secret"
  shows "\<exists>payload. validateRequest W req = Inr payload"
  by (rule ToWebhookProto_Some [OF assms(2)])
    (use assms(1,3,4) in \<open>auto simp: validateRequest_def RequestFromProto_def packs_faithfully_def Let_def split: sum.splits\<close>)

text \<open>The subscription of a notification does not reach the subscriber.\<close>

lemma webhook_without_subscription:
  assumes "ToWebhookProto W row h = (Ret (Some req, None), h')" "RequestFromProto W req = Inr body"
  shows "whb_SubscriptionID body = []"
  by (rule ToWebhookProto_Some [OF assms(1)])
    (use assms(2) in \<open>auto simp: RequestFromProto_def empty_notification_def Let_def split: sum.splits option.splits\<close>)

lemma status_written:
  assumes "ntn_Status final \<in> {Delivery_FAILED, Delivery_PUBLISHED}" "VNotificationFromProto W (Some final) = Inr v"
    "nw_update W h (NUpdate v) = (1, None)"
  shows "UpdateNotificationStatusHandler W (Some final) h = (Ret None, NUpdate v # h)"
  using assms by (auto simp: UpdateNotificationStatusHandler_def UpdateNotificationStatus_def bnd_call ret_run bnd_assoc)

lemma verdict_form:
  "\<exists>reason. verdict a req = req\<lparr>ntn_Status := (if accepted a then Delivery_PUBLISHED else Delivery_FAILED),
     ntn_StatusReason := reason\<rparr>"
proof -
  have same: "req\<lparr>ntn_Status := st\<rparr> = req\<lparr>ntn_Status := st, ntn_StatusReason := ntn_StatusReason req\<rparr>" for st
    by (cases req) simp
  consider "accepted a" | "\<not> accepted a" "retryable a" | "\<not> accepted a" "\<not> retryable a" by blast
  then show ?thesis
  proof cases
    case 2
    then show ?thesis
      unfolding verdict_def by (intro exI [of _ "ntn_StatusReason req"]) (simp add: same [symmetric])
  qed (auto simp: verdict_def simp del: ex_simps)
qed

text \<open>What a final message of a queued row says about the row.\<close>

definition written_row :: "n_world \<Rightarrow> QueuedNotification \<Rightarrow> string \<Rightarrow> VNotification \<Rightarrow> bool" where
  "written_row W row status v \<longleftrightarrow>
     Some (vn_ID v) = qn_ID row \<and> vn_Status v = status \<and> Some (vn_Type v) = qn_Type row \<and>
     Some (vn_TenantID v) = qn_TenantID row \<and> vn_WebhookURL v = PointerToValue (qn_WebhookURL row) \<and>
     (\<forall>m a. unmarshal_map W (the (qn_Payload row)) = Inr m \<and> nw_pack W m = Inr a \<longrightarrow> vn_Payload v = marshal_map m)"

lemma final_row:
  assumes "packs_faithfully W" "ToWebhookProto W row h = (Ret (Some req, None), h')"
  shows "\<exists>v. VNotificationFromProto W (Some (req\<lparr>ntn_Status := st, ntn_StatusReason := reason\<rparr>)) = Inr v \<and>
     written_row W row (notificationStatusFromProto st) v"
proof (rule ToWebhookProto_Some [OF assms(2)], goal_cases)
  case (1 payload m i ty tenant created status)
  let ?data = "case nw_pack W m of Inl e \<Rightarrow> None | Inr a \<Rightarrow> Some a"
  obtain p where p: "extractPayloadJSON W ?data = Inr p" "\<forall>a. nw_pack W m = Inr a \<longrightarrow> p = marshal_map m"
    using assms(1) by (cases "nw_pack W m") (auto simp: extractPayloadJSON_def packs_faithfully_def)
  show ?case
    using 1(1-6) p by (simp add: 1(7) VNotificationFromProto_def written_row_def)
qed

section \<open>The whole way\<close>

text \<open>
  C20. A queued webhook notification is answered for: the message the enqueuer makes of its row is posted until
  it is accepted, refused for good or out of tries; the manager then writes to the row it came from whether
  it was published or failed, and leaves type, tenant, address and payload as they were.
\<close>

theorem webhook_status_recorded:
  assumes "bus_accepts W" "plain_client W" "packs_faithfully W" "\<forall>h e. nw_update W h e = (1, None)" "sorts_by_TTL sorter"
    "whc_RetryQueues cfg = retry_queues sorter (whc_SendQueue cfg) intervals" "length intervals < 2 ^ 62"
    "whc_Exchange cfg \<noteq> whc_DLExchange cfg" "whc_FinalStatusQueue cfg \<notin> set (map rq_Name (whc_RetryQueues cfg))"
    "ToWebhookProto W row h = (Ret (Some req, None), h)" "qn_WebhookURL row = Some url" "qn_SigningSecret row = Some secret"
  shows "\<exists>final answer h1 v. webhook_life W cfg (Suc (length intervals)) req [] h =
       Some (Ret None, NSend (whc_FinalStatusQueue cfg) final [] # h1) \<and>
     (\<exists>post h2. h1 = post # h2 \<and> is_post post \<and> answer = nw_post W h2 post) \<and>
     UpdateNotificationStatusHandler W (Some final) (NSend (whc_FinalStatusQueue cfg) final [] # h1) =
       (Ret None, NUpdate v # NSend (whc_FinalStatusQueue cfg) final [] # h1) \<and>
     written_row W row (if accepted answer then ''published'' else ''failed'') v"
proof -
  obtain payload where valid: "validateRequest W req = Inr payload"
    using validateRequest_queued [OF assms(3,10-12)] by blast
  obtain k h2 where life: "webhook_life W cfg (Suc (length intervals)) req [] h = Some (Ret None,
        NSend (whc_FinalStatusQueue cfg) (verdict (nw_post W h2 (webhook_post W req payload h2)) req) []
          # webhook_post W req payload h2 # h2)"
    using webhook_final [OF assms(1,2) valid assms(5-9), of h] unfolding Let_def by blast
  let ?answer = "nw_post W h2 (webhook_post W req payload h2)"
  obtain reason where form: "verdict ?answer req =
      req\<lparr>ntn_Status := (if accepted ?answer then Delivery_PUBLISHED else Delivery_FAILED), ntn_StatusReason := reason\<rparr>"
    using verdict_form by blast
  obtain v where v: "VNotificationFromProto W (Some (verdict ?answer req)) = Inr v"
      "written_row W row (notificationStatusFromProto (if accepted ?answer then Delivery_PUBLISHED else Delivery_FAILED)) v"
    using final_row [OF assms(3,10)] unfolding form by blast
  let ?h1 = "webhook_post W req payload h2 # h2"
  have "UpdateNotificationStatusHandler W (Some (verdict ?answer req)) (NSend (whc_FinalStatusQueue cfg) (verdict ?answer req) [] # ?h1) =
      (Ret None, NUpdate v # NSend (whc_FinalStatusQueue cfg) (verdict ?answer req) [] # ?h1)"
    by (rule status_written [OF _ v(1)]) (simp_all add: form assms(4))
  moreover have "written_row W row (if accepted ?answer then ''published'' else ''failed'') v"
    using v(2) by (simp split: if_splits)
  moreover have "is_post (webhook_post W req payload h2)" by (simp add: webhook_post_def)
  ultimately show ?thesis using life by blast
qed

section \<open>Witness\<close>

definition sample_queued :: QueuedNotification where
  "sample_queued = \<lparr>qn_ID = Some ''n1'', qn_NotificationID = Some ''n1'', qn_Type = Some ''domain.renew'', qn_Payload = Some ''{}'',
     qn_CreatedDate = Some \<lparr>t_sec = 0, t_nsec = 0, t_off = 0\<rparr>, qn_TenantID = Some ''t1'', qn_TenantCustomerID = None,
     qn_Status = Some ''publishing'', qn_Retries = None, qn_ChannelType = Some ''webhook'', qn_SubscriptionID = Some ''s1'',
     qn_WebhookURL = Some ''https://a.com'', qn_SigningSecret = Some ''s'', qn_EmailSubject = None, qn_EmailTemplate = None,
     qn_StatusID = None\<rparr>"

lemma sample_world_ok:
  "bus_accepts sample_n_world" "plain_client sample_n_world" "packs_faithfully sample_n_world"
  "\<forall>h e. nw_update sample_n_world h e = (1, None)"
  by (auto simp: bus_accepts_def plain_client_def packs_faithfully_def sample_n_world_def Let_def ErrNetwork_def split: if_splits)

lemma sample_config_ok:
  "whc_RetryQueues sample_webhook_config = retry_queues (sort_key (\<lambda>q. sint (rq_TTL q))) (whc_SendQueue sample_webhook_config) [60, 5]"
  "length [60, 5 :: i64] < 2 ^ 62" "whc_Exchange sample_webhook_config \<noteq> whc_DLExchange sample_webhook_config"
  "whc_FinalStatusQueue sample_webhook_config \<notin> set (map rq_Name (whc_RetryQueues sample_webhook_config))"
  by (simp_all add: sample_webhook_config_def retry_queues_def)

lemma sample_queued_message:
  "\<exists>req. ToWebhookProto sample_n_world sample_queued ([] :: n_hist) = (Ret (Some req, None), [])"
proof -
  have "unmarshal_map sample_n_world ''{}'' = Inr []" by code_simp
  then show ?thesis by (simp add: ToWebhookProto_def sample_queued_def sample_n_world_def ret_run)
qed

theorem webhook_status_recorded_witness:
  "\<exists>req final answer h1 v. ToWebhookProto sample_n_world sample_queued ([] :: n_hist) = (Ret (Some req, None), []) \<and>
     webhook_life sample_n_world sample_webhook_config (Suc (length [60, 5 :: i64])) req [] [] =
       Some (Ret None, NSend (whc_FinalStatusQueue sample_webhook_config) final [] # h1) \<and>
     fst (UpdateNotificationStatusHandler sample_n_world (Some final)
       (NSend (whc_FinalStatusQueue sample_webhook_config) final [] # h1)) = Ret None \<and>
     written_row sample_n_world sample_queued (if accepted answer then ''published'' else ''failed'') v"
proof -
  obtain req where "ToWebhookProto sample_n_world sample_queued ([] :: n_hist) = (Ret (Some req, None), [])"
    using sample_queued_message by blast
  with webhook_status_recorded [OF sample_world_ok sort_key_sorts sample_config_ok this, of "''https://a.com''" "''s''"]
  show ?thesis by (fastforce simp: sample_queued_def)
qed

end
