(* ===== verification/Notification_Enqueuer.thy ===== *)
theory Notification_Enqueuer
  imports Enqueuer Notification_Manager
begin

text \<open>
  The enqueuer of \<^verbatim>\<open>sm/tdp-notifications/enqueuer\<close>: the copy of \<^verbatim>\<open>pkg/enqueuer\<close> that reads its rows with a
  statement of its own and writes \<^verbatim>\<open>correlation_id\<close> into the headers (\<^verbatim>\<open>internal/enqueuer\<close>), and the two
  enqueuers that \<^verbatim>\<open>cmd/main.go\<close> builds of it, for webhooks and for mails. Unlike the original, an error of a row
  is returned and leaves the whole batch unmarked, and a failed update is only logged. A handler may panic;
  the deferred update then runs all the same.
\<close>

section \<open>Configuration\<close>

text \<open>Values of Go's \<^verbatim>\<open>any\<close> are strings or integers here, the only ones the program puts there.\<close>

record nq_config =
  nqc_QueryExpression :: string
  nqc_QueryValues :: "header_value list"
  nqc_UpdateFieldValueMap :: "(string \<times> header_value) list option"
  nqc_Queue :: string
  nqc_BatchSize :: int
  nqc_OrderByExpression :: string
  nqc_OrderByDirection :: int
  nqc_RawSelect :: string
  nqc_Headers :: "(string \<times> header_value) list"

definition NQ_DefaultBatchSize :: int where
  "NQ_DefaultBatchSize = 100"

definition NQ_NewBuilder :: nq_config where
  "NQ_NewBuilder =
     \<lparr>nqc_QueryExpression = [], nqc_QueryValues = [], nqc_UpdateFieldValueMap = None, nqc_Queue = [],
      nqc_BatchSize = NQ_DefaultBatchSize, nqc_OrderByExpression = [], nqc_OrderByDirection = 0,
      nqc_RawSelect = [], nqc_Headers = []\<rparr>"

definition NQ_WithRawSelect :: "string \<Rightarrow> nq_config \<Rightarrow> nq_config" where
  "NQ_WithRawSelect expression b = b\<lparr>nqc_RawSelect := expression\<rparr>"

definition NQ_WithQueryExpression :: "string \<Rightarrow> nq_config \<Rightarrow> nq_config" where
  "NQ_WithQueryExpression expression b = b\<lparr>nqc_QueryExpression := expression\<rparr>"

definition NQ_WithQueryValues :: "header_value list \<Rightarrow> nq_config \<Rightarrow> nq_config" where
  "NQ_WithQueryValues vs b = b\<lparr>nqc_QueryValues := vs\<rparr>"

definition NQ_WithUpdateFieldValueMap :: "(string \<times> header_value) list option \<Rightarrow> nq_config \<Rightarrow> nq_config" where
  "NQ_WithUpdateFieldValueMap vs b = b\<lparr>nqc_UpdateFieldValueMap := vs\<rparr>"

definition NQ_WithQueue :: "string \<Rightarrow> nq_config \<Rightarrow> nq_config" where
  "NQ_WithQueue queue b = b\<lparr>nqc_Queue := queue\<rparr>"

definition NQ_WithHeaders :: "(string \<times> header_value) list \<Rightarrow> nq_config \<Rightarrow> nq_config" where
  "NQ_WithHeaders headers b = b\<lparr>nqc_Headers := headers\<rparr>"

definition NQ_WithBatchSize :: "int \<Rightarrow> nq_config \<Rightarrow> nq_config" where
  "NQ_WithBatchSize n b = b\<lparr>nqc_BatchSize := n\<rparr>"

definition NQ_WithOrderByExpression :: "string \<Rightarrow> nq_config \<Rightarrow> nq_config" where
  "NQ_WithOrderByExpression e b = b\<lparr>nqc_OrderByExpression := e\<rparr>"

definition NQ_WithOrderByDirection :: "int \<Rightarrow> nq_config \<Rightarrow> nq_config" where
  "NQ_WithOrderByDirection d b = b\<lparr>nqc_OrderByDirection := d\<rparr>"

definition NQ_Build :: "nq_config \<Rightarrow> gerr + nq_config" where
  "NQ_Build b =
     (if nqc_Queue b = [] then Inl (ErrNew ''queue is required'')
      else if nqc_BatchSize b < NQ_DefaultBatchSize then Inl (ErrNew ''BatchSize must be greater than or equal to 100'')
      else Inr b)"

lemmas NQ_builder_defs = NQ_NewBuilder_def NQ_WithRawSelect_def NQ_WithQueue_def NQ_WithUpdateFieldValueMap_def
  NQ_DefaultBatchSize_def

text \<open>\<^verbatim>\<open>cmd/main.go\<close>: the statement of a channel and the enqueuer's configuration.\<close>

definition select_channel :: "string \<Rightarrow> string" where
  "select_channel channel =
     ''SELECT vn.* FROM notification_delivery nd JOIN v_notification vn ON vn.id = nd.id WHERE vn.status = '' @
     [CHR 0x27] @ ''received'' @ [CHR 0x27] @ '' and vn.channel_type='' @ [CHR 0x27] @ channel @ [CHR 0x27] @
     '' order by created_date asc LIMIT 100''"

definition channel_config :: "string \<Rightarrow> string \<Rightarrow> gerr + nq_config" where
  "channel_config channel queue =
     NQ_Build (NQ_WithQueue queue (NQ_WithUpdateFieldValueMap (Some [(''status'', HString ''publishing'')])
       (NQ_WithRawSelect (select_channel channel) NQ_NewBuilder)))"

section \<open>Operations\<close>

datatype 'm nq_event =
    NqAsk
  | NqQuery int string "header_value list" "string option"
  | NqRaw string "header_value list"
  | NqMark "string list" "(string \<times> header_value) list"
  | NqSend string "'m option" "(string \<times> header_value) list"

type_synonym 'm nq_hist = "'m nq_event list"

record ('r, 'm) nq_world =
  nqw_done :: "'m nq_hist \<Rightarrow> gerr option"
  nqw_rows :: "'m nq_hist \<Rightarrow> gerr + 'r list"
  nqw_update :: "'m nq_hist \<Rightarrow> gerr option"
  nqw_send :: "'m nq_hist \<Rightarrow> gerr option"

definition NQ_select :: "nq_config \<Rightarrow> 'm nq_event" where
  "NQ_select cfg =
     (if nqc_RawSelect cfg = [] then
        NqQuery (nqc_BatchSize cfg) (nqc_QueryExpression cfg) (nqc_QueryValues cfg)
          (if nqc_OrderByExpression cfg = [] then None
           else Some (nqc_OrderByExpression cfg @ '' '' @ OrderByDirection_String (nqc_OrderByDirection cfg)))
      else NqRaw (nqc_RawSelect cfg) (nqc_QueryValues cfg))"

definition NQ_getRows :: "('r, 'm) nq_world \<Rightarrow> nq_config \<Rightarrow> 'm nq_hist \<Rightarrow> (gerr + 'r list) \<times> 'm nq_hist" where
  "NQ_getRows W cfg h = (let h' = NQ_select cfg # h in (nqw_rows W h', h'))"

definition NQ_updateRows :: "('r, 'm) nq_world \<Rightarrow> nq_config \<Rightarrow> string list \<Rightarrow> 'm nq_hist \<Rightarrow> gerr option \<times> 'm nq_hist" where
  "NQ_updateRows W cfg Ids h =
     (let h' = NqMark Ids (case nqc_UpdateFieldValueMap cfg of None \<Rightarrow> [] | Some m \<Rightarrow> m) # h in (nqw_update W h', h'))"

definition NQ_publishRow ::
  "('r, 'm) nq_world \<Rightarrow> ('r \<Rightarrow> string) \<Rightarrow> nq_config \<Rightarrow> 'r \<Rightarrow> 'm option \<Rightarrow> 'm nq_hist \<Rightarrow> gerr option \<times> 'm nq_hist" where
  "NQ_publishRow W GetID cfg row msg h =
     (let headers = (''correlation_id'', HString (GetID row)) # filter (\<lambda>(k, v). k \<noteq> ''correlation_id'') (nqc_Headers cfg);
          h' = NqSend (nqc_Queue cfg) msg headers # h
      in (nqw_send W h', h'))"

text \<open>The loop of \<^verbatim>\<open>processRows\<close> with the ids collected so far, which the deferred function reads also in a panic.\<close>

fun NQ_publish_rows ::
  "('r, 'm) nq_world \<Rightarrow> ('r \<Rightarrow> string) \<Rightarrow> nq_config \<Rightarrow> ('r \<Rightarrow> ('m nq_hist, 'm option \<times> gerr option) go) \<Rightarrow>
   string list \<Rightarrow> 'r list \<Rightarrow> 'm nq_hist \<Rightarrow> (gerr option outcome \<times> string list) \<times> 'm nq_hist" where
  "NQ_publish_rows W GetID cfg handler ids [] h = ((Ret None, ids), h)"
| "NQ_publish_rows W GetID cfg handler ids (row # rows) h =
     (case handler row h of
        (Panicked p, h1) \<Rightarrow> ((Panicked p, ids), h1)
      | (Exited, h1) \<Rightarrow> ((Exited, ids), h1)
      | (Ret (msg, Some e), h1) \<Rightarrow> ((Ret (Some (ErrWrap ''failed to convert row to proto message'' e)), ids), h1)
      | (Ret (msg, None), h1) \<Rightarrow>
          (case NQ_publishRow W GetID cfg row msg h1 of
             (Some e, h2) \<Rightarrow> ((Ret (Some (ErrWrap ''failed to publish message'' e)), ids), h2)
           | (None, h2) \<Rightarrow>
               NQ_publish_rows W GetID cfg handler
                 (if nqc_UpdateFieldValueMap cfg \<noteq> None then ids @ [GetID row] else ids) rows h2))"

definition NQ_processRows ::
  "('r, 'm) nq_world \<Rightarrow> ('r \<Rightarrow> string) \<Rightarrow> nq_config \<Rightarrow> ('r \<Rightarrow> ('m nq_hist, 'm option \<times> gerr option) go) \<Rightarrow>
   'r list \<Rightarrow> ('m nq_hist, gerr option) go" where
  "NQ_processRows W GetID cfg handler rows h =
     (case NQ_publish_rows W GetID cfg handler [] rows h of
        ((r, ids), h1) \<Rightarrow>
          if nqc_UpdateFieldValueMap cfg \<noteq> None \<and> (case r of Ret err \<Rightarrow> err = None | Panicked p \<Rightarrow> True | Exited \<Rightarrow> False)
          then (r, snd (NQ_updateRows W cfg ids h1)) else (r, h1))"

partial_function (option) NQ_loop ::
  "('r, 'm) nq_world \<Rightarrow> ('r \<Rightarrow> string) \<Rightarrow> nq_config \<Rightarrow> ('r \<Rightarrow> ('m nq_hist, 'm option \<times> gerr option) go) \<Rightarrow>
   'm nq_hist \<Rightarrow> (gerr option outcome \<times> 'm nq_hist) option" where
  "NQ_loop W GetID cfg handler h =
     (case nqw_done W (NqAsk # h) of
        Some e \<Rightarrow> Some (Ret (Some e), NqAsk # h)
      | None \<Rightarrow>
          (case NQ_getRows W cfg (NqAsk # h) of
             (Inl e, h1) \<Rightarrow> Some (Ret (Some e), h1)
           | (Inr rows, h1) \<Rightarrow>
               if rows = [] then Some (Ret None, h1)
               else (case NQ_processRows W GetID cfg handler rows h1 of
                       (r, h2) \<Rightarrow> if r = Ret None then NQ_loop W GetID cfg handler h2 else Some (r, h2))))"

definition NQ_EnqueuerDbMessages ::
  "('r, 'm) nq_world \<Rightarrow> ('r \<Rightarrow> string) \<Rightarrow> nq_config option \<Rightarrow> ('r \<Rightarrow> ('m nq_hist, 'm option \<times> gerr option) go) \<Rightarrow>
   'm nq_hist \<Rightarrow> (gerr option outcome \<times> 'm nq_hist) option" where
  "NQ_EnqueuerDbMessages W GetID Config handler h =
     (case Config of
        None \<Rightarrow> Some (Ret (Some (ErrNew ''enqueuer config must be provided'')), h)
      | Some cfg \<Rightarrow> NQ_loop W GetID cfg handler h)"

definition queued_GetID :: "QueuedNotification \<Rightarrow> string" where
  "queued_GetID p = (case qn_ID p of None \<Rightarrow> [] | Some i \<Rightarrow> i)"

text \<open>
  The two enqueuers of \<^verbatim>\<open>run\<close>; they share no row, since each reads its own channel, and run to their
  ends side by side.
\<close>

definition webhook_enqueuer ::
  "(QueuedNotification, Notification) nq_world \<Rightarrow> n_world \<Rightarrow> nq_config \<Rightarrow> Notification nq_hist
     \<Rightarrow> (gerr option outcome \<times> Notification nq_hist) option" where
  "webhook_enqueuer W N cfg = NQ_EnqueuerDbMessages W queued_GetID (Some cfg) (ToWebhookProto N)"

definition email_enqueuer ::
  "(QueuedNotification, Notification) nq_world \<Rightarrow> n_world \<Rightarrow> nq_config \<Rightarrow> Notification nq_hist
     \<Rightarrow> (gerr option outcome \<times> Notification nq_hist) option" where
  "email_enqueuer W N cfg = NQ_EnqueuerDbMessages W queued_GetID (Some cfg) (\<lambda>row. ToEmailProto N (Some row))"

section \<open>A table as the row source\<close>

text \<open>
  What a history sent and marked, oldest first; and the documented behaviour of the table: a selection
  returns the first rows of the channel, up to the limit of the statement, that no update has marked.
\<close>

fun nq_sent :: "'m nq_hist \<Rightarrow> (string \<times> 'm option \<times> (string \<times> header_value) list) list" where
  "nq_sent [] = []"
| "nq_sent (NqSend q m headers # h) = nq_sent h @ [(q, m, headers)]"
| "nq_sent (e # h) = nq_sent h"

fun nq_marked :: "'m nq_hist \<Rightarrow> string list" where
  "nq_marked [] = []"
| "nq_marked (NqMark ids m # h) = nq_marked h @ ids"
| "nq_marked (e # h) = nq_marked h"

definition nq_unmarked :: "('r \<Rightarrow> string) \<Rightarrow> 'r list \<Rightarrow> 'm nq_hist \<Rightarrow> 'r list" where
  "nq_unmarked GetID tbl h = filter (\<lambda>r. GetID r \<notin> set (nq_marked h)) tbl"

definition nq_table :: "('r, 'm) nq_world \<Rightarrow> ('r \<Rightarrow> string) \<Rightarrow> nq_config \<Rightarrow> nat \<Rightarrow> 'r list \<Rightarrow> bool" where
  "nq_table W GetID cfg limit tbl \<longleftrightarrow>
     (\<forall>h. nqw_done W h = None \<and> nqw_update W h = None \<and> nqw_send W h = None \<and>
          nqw_rows W (NQ_select cfg # h) = Inr (take limit (nq_unmarked GetID tbl h)))"

definition nq_message :: "('r \<Rightarrow> string) \<Rightarrow> nq_config \<Rightarrow> ('r \<Rightarrow> 'm option) \<Rightarrow> 'r \<Rightarrow> string \<times> 'm option \<times> (string \<times> header_value) list" where
  "nq_message GetID cfg msg r =
     (nqc_Queue cfg, msg r,
      (''correlation_id'', HString (GetID r)) # filter (\<lambda>(k, v). k \<noteq> ''correlation_id'') (nqc_Headers cfg))"

text \<open>Runs of the scheduled process, one after the other.\<close>

fun nq_runs :: "('h \<Rightarrow> ('o \<times> 'h) option) \<Rightarrow> nat \<Rightarrow> 'h \<Rightarrow> 'h option" where
  "nq_runs run 0 h = Some h"
| "nq_runs run (Suc k) h = (case run h of None \<Rightarrow> None | Some (r, h') \<Rightarrow> nq_runs run k h')"

lemma NQ_select_neutral [simp]:
  "nq_sent (NQ_select cfg # h) = nq_sent h" "nq_marked (NQ_select cfg # h) = nq_marked h"
  by (simp_all add: NQ_select_def)

lemma nq_unmarked_neutral [simp]:
  "nq_unmarked GetID tbl (NQ_select cfg # h) = nq_unmarked GetID tbl h"
  "nq_unmarked GetID tbl (NqAsk # h) = nq_unmarked GetID tbl h"
  by (simp_all add: nq_unmarked_def)

lemma publishRow_table:
  "nq_table W GetID cfg limit tbl \<Longrightarrow>
   \<exists>h'. NQ_publishRow W GetID cfg row msg h = (None, h') \<and> nq_marked h' = nq_marked h \<and>
     nq_sent h' = nq_sent h @ [nq_message GetID cfg (\<lambda>r. msg) row]"
  by (simp add: NQ_publishRow_def nq_table_def nq_message_def Let_def)

text \<open>The rows before the first one that cannot be converted are published; the ids are collected.\<close>

lemma NQ_publish_prefix:
  assumes "nq_table W GetID cfg limit tbl" "nqc_UpdateFieldValueMap cfg \<noteq> None"
    "\<forall>r\<in>set pre. \<forall>h. handler r h = (Ret (msg r, None), h)"
  shows "\<exists>h'. NQ_publish_rows W GetID cfg handler ids (pre @ rest) h =
       NQ_publish_rows W GetID cfg handler (ids @ map GetID pre) rest h' \<and>
     nq_sent h' = nq_sent h @ map (nq_message GetID cfg msg) pre \<and> nq_marked h' = nq_marked h"
  using assms(3)
proof (induction pre arbitrary: ids h)
  case (Cons r pre)
  obtain h1 where h1: "NQ_publishRow W GetID cfg r (msg r) h = (None, h1)" "nq_marked h1 = nq_marked h"
      "nq_sent h1 = nq_sent h @ [nq_message GetID cfg msg r]"
    using publishRow_table [OF assms(1), of r "msg r" h] by (auto simp: nq_message_def)
  from Cons.IH [of "ids @ [GetID r]" h1] Cons.prems assms(2) h1 show ?case by auto
qed auto


text \<open>One run on a table whose first unconvertible row is within the first batch.\<close>

lemma blocked_run:
  assumes table: "nq_table W GetID cfg limit (pre @ bad # post)" "length pre < limit"
    and map: "nqc_UpdateFieldValueMap cfg \<noteq> None"
    and pre: "\<forall>r\<in>set pre. \<forall>h. handler r h = (Ret (msg r, None), h)"
    and bad: "\<forall>h. handler bad h = (Ret (m, Some e), h)" and h: "nq_marked h = []"
  shows "\<exists>h'. NQ_EnqueuerDbMessages W GetID (Some cfg) handler h =
       Some (Ret (Some (ErrWrap ''failed to convert row to proto message'' e)), h') \<and>
     nq_sent h' = nq_sent h @ map (nq_message GetID cfg msg) pre \<and> nq_marked h' = []"
proof -
  let ?h1 = "NQ_select cfg # NqAsk # h" and ?rest = "take (limit - length pre) (bad # post)"
  have rows: "nqw_rows W ?h1 = Inr (pre @ ?rest)"
    using table h by (simp add: nq_table_def nq_unmarked_def)
  obtain rest where rest: "?rest = bad # rest" using table(2) by (cases "limit - length pre") auto
  obtain h' where h': "NQ_publish_rows W GetID cfg handler [] (pre @ bad # rest) ?h1 =
         NQ_publish_rows W GetID cfg handler ([] @ map GetID pre) (bad # rest) h'"
      "nq_sent h' = nq_sent ?h1 @ map (nq_message GetID cfg msg) pre" "nq_marked h' = nq_marked ?h1"
    using NQ_publish_prefix [OF table(1) map pre, of "[]" "bad # rest" ?h1] by blast
  have "NQ_processRows W GetID cfg handler (pre @ bad # rest) ?h1 =
      (Ret (Some (ErrWrap ''failed to convert row to proto message'' e)), h')"
    using bad by (simp add: NQ_processRows_def h'(1))
  then have "NQ_EnqueuerDbMessages W GetID (Some cfg) handler h =
      Some (Ret (Some (ErrWrap ''failed to convert row to proto message'' e)), h')"
    using table(1) rows rest
    by (simp add: NQ_EnqueuerDbMessages_def NQ_loop.simps [of _ _ _ _ h] NQ_getRows_def Let_def nq_table_def)
  then show ?thesis using h'(2,3) h by simp
qed

lemma blocked_runs:
  assumes "nq_table W GetID cfg limit (pre @ bad # post)" "length pre < limit" "nqc_UpdateFieldValueMap cfg \<noteq> None"
    "\<forall>r\<in>set pre. \<forall>h. handler r h = (Ret (msg r, None), h)" "\<forall>h. handler bad h = (Ret (m, Some e), h)"
    "nq_marked h = []"
  shows "\<exists>h'. nq_runs (NQ_EnqueuerDbMessages W GetID (Some cfg) handler) k h = Some h' \<and>
     nq_sent h' = nq_sent h @ concat (replicate k (map (nq_message GetID cfg msg) pre)) \<and> nq_marked h' = []"
  using assms(6)
proof (induction k arbitrary: h)
  case (Suc k)
  from blocked_run [OF assms(1-5) Suc.prems] obtain h1 where
    "NQ_EnqueuerDbMessages W GetID (Some cfg) handler h =
       Some (Ret (Some (ErrWrap ''failed to convert row to proto message'' e)), h1)"
    "nq_sent h1 = nq_sent h @ map (nq_message GetID cfg msg) pre" "nq_marked h1 = []"
    by blast
  with Suc.IH [of h1] show ?case by auto
qed simp

lemma NQ_loop_drains:
  assumes table: "nq_table W GetID cfg limit tbl" "0 < limit" and map: "nqc_UpdateFieldValueMap cfg \<noteq> None"
    and handler: "\<forall>r\<in>set tbl. \<forall>h. handler r h = (Ret (msg r, None), h)" and ids: "distinct (map GetID tbl)"
  shows "\<exists>h'. NQ_loop W GetID cfg handler h = Some (Ret None, h') \<and>
     nq_sent h' = nq_sent h @ map (nq_message GetID cfg msg) (nq_unmarked GetID tbl h) \<and> nq_unmarked GetID tbl h' = []"
proof (induction "length (nq_unmarked GetID tbl h)" arbitrary: h rule: less_induct)
  case less
  let ?u = "nq_unmarked GetID tbl h" and ?h1 = "NQ_select cfg # NqAsk # h"
  have rows: "nqw_rows W ?h1 = Inr (take limit ?u)" and free: "nqw_done W h = None" for h
    using table(1) by (simp_all add: nq_table_def)
  have world: "nqw_done W h = None" "nqw_rows W (NQ_select cfg # h) = Inr (take limit (nq_unmarked GetID tbl h))" for h
    using table(1) by (simp_all add: nq_table_def)
  show ?case
  proof (cases "?u = []")
    case True
    then show ?thesis by (simp add: NQ_loop.simps [of _ _ _ _ h] world NQ_getRows_def Let_def)
  next
    case False
    let ?b = "take limit ?u"
    have ok: "\<forall>r\<in>set ?b. \<forall>h. handler r h = (Ret (msg r, None), h)"
      using handler by (auto simp: nq_unmarked_def dest!: in_set_takeD)
    obtain h2 where h2: "NQ_publish_rows W GetID cfg handler [] (?b @ []) ?h1 =
           NQ_publish_rows W GetID cfg handler ([] @ map GetID ?b) [] h2"
        "nq_sent h2 = nq_sent ?h1 @ map (nq_message GetID cfg msg) ?b" "nq_marked h2 = nq_marked ?h1"
      using NQ_publish_prefix [OF table(1) map ok, of "[]" "[]" ?h1] by blast
    obtain fields where fields: "nqc_UpdateFieldValueMap cfg = Some fields" using map by blast
    let ?h3 = "NqMark (map GetID ?b) fields # h2"
    have step: "NQ_loop W GetID cfg handler h = NQ_loop W GetID cfg handler ?h3"
      using False table(2) h2(1)
      by (simp add: NQ_loop.simps [of _ _ _ _ h] world NQ_getRows_def Let_def NQ_processRows_def fields NQ_updateRows_def)
    have "distinct (map GetID ?u)" using ids by (simp add: nq_unmarked_def distinct_map_filter)
    from filter_after_take [OF this, of limit]
    have u3: "nq_unmarked GetID tbl ?h3 = drop limit ?u"
      using h2(3) by (simp add: nq_unmarked_def conj_commute)
    then have "length (nq_unmarked GetID tbl ?h3) < length ?u" using False table(2) by simp
    from less [OF this] obtain h' where h': "NQ_loop W GetID cfg handler ?h3 = Some (Ret None, h')"
        "nq_sent h' = nq_sent ?h3 @ map (nq_message GetID cfg msg) (drop limit ?u)" "nq_unmarked GetID tbl h' = []"
      unfolding u3 by blast
    have "nq_sent h' = nq_sent h @ map (nq_message GetID cfg msg) ?u"
      using h'(2) h2(2) by (simp flip: map_append)
    then show ?thesis using step h'(1,3) by auto
  qed
qed

section \<open>Properties\<close>

lemma channel_config_Inr:
  "channel_config channel queue = Inr cfg \<Longrightarrow>
   nqc_UpdateFieldValueMap cfg = Some [(''status'', HString ''publishing'')] \<and> nqc_Queue cfg = queue \<and> nqc_Headers cfg = []"
  by (auto simp: channel_config_def NQ_Build_def NQ_builder_defs split: if_splits)

text \<open>
  When every received webhook notification can be converted, a run of the webhook enqueuer returns, having
  sent each of them exactly once and in order, with its id as the correlation id, and marked all of them.
\<close>

theorem webhook_enqueuer_drains:
  assumes "channel_config ''webhook'' queue = Inr cfg" "nq_table W queued_GetID cfg limit tbl" "0 < limit"
    "distinct (map queued_GetID tbl)" "\<forall>r\<in>set tbl. \<forall>h :: Notification nq_hist. ToWebhookProto N r h = (Ret (Some (msg r), None), h)"
  shows "\<exists>h'. webhook_enqueuer W N cfg [] = Some (Ret None, h') \<and>
     nq_sent h' = map (\<lambda>r. (queue, Some (msg r), [(''correlation_id'', HString (queued_GetID r))])) tbl \<and>
     set (map queued_GetID tbl) \<subseteq> set (nq_marked h')"
proof -
  from NQ_loop_drains [OF assms(2,3) _ assms(5,4), of "[]"] channel_config_Inr [OF assms(1)]
  obtain h' where "NQ_loop W queued_GetID cfg (ToWebhookProto N) [] = Some (Ret None, h')"
      "nq_sent h' = map (nq_message queued_GetID cfg (\<lambda>r. Some (msg r))) tbl" "nq_unmarked queued_GetID tbl h' = []"
    by (auto simp: nq_unmarked_def)
  then show ?thesis
    using channel_config_Inr [OF assms(1)]
    by (auto simp: webhook_enqueuer_def NQ_EnqueuerDbMessages_def nq_message_def nq_unmarked_def filter_empty_conv)
qed

text \<open>
  C21. One received webhook notification whose payload is no JSON object blocks all later ones for ever and
  multiplies the earlier ones: after \<open>k\<close> runs of the enqueuer the rows before it have been sent \<open>k\<close> times each, the
  row itself and those after it never, and none has been marked.
\<close>

theorem webhook_enqueuer_blocked:
  assumes "channel_config ''webhook'' queue = Inr cfg" "nq_table W queued_GetID cfg limit (pre @ bad # post)" "length pre < limit"
    "\<forall>r\<in>set pre. \<forall>h :: Notification nq_hist. ToWebhookProto N r h = (Ret (Some (msg r), None), h)"
    "qn_Payload bad = Some payload" "unmarshal_map N payload = Inl e"
  shows "\<exists>h. nq_runs (webhook_enqueuer W N cfg) k [] = Some h \<and> nq_marked h = [] \<and>
     nq_sent h = concat (replicate k
       (map (\<lambda>r. (queue, Some (msg r), [(''correlation_id'', HString (queued_GetID r))])) pre))"
proof -
  have bad: "\<forall>h :: Notification nq_hist. ToWebhookProto N bad h = (Ret (None, Some e), h)"
    using assms(5,6) by (simp add: ToWebhookProto_def ret_run)
  note cfg = channel_config_Inr [OF assms(1)]
  have message: "map (nq_message queued_GetID cfg (\<lambda>r. Some (msg r))) pre =
      map (\<lambda>r. (queue, Some (msg r), [(''correlation_id'', HString (queued_GetID r))])) pre"
    using cfg by (simp add: nq_message_def)
  have "nqc_UpdateFieldValueMap cfg \<noteq> None" "nq_marked ([] :: Notification nq_hist) = []" using cfg by simp_all
  from blocked_runs [OF assms(2,3) this(1) assms(4) bad this(2), of k] show ?thesis
    unfolding message webhook_enqueuer_def by auto
qed

text \<open>A table of that kind.\<close>

definition nq_table_world :: "('r \<Rightarrow> string) \<Rightarrow> nat \<Rightarrow> 'r list \<Rightarrow> ('r, 'm) nq_world" where
  "nq_table_world GetID limit tbl =
     \<lparr>nqw_done = \<lambda>h. None, nqw_rows = \<lambda>h. Inr (take limit (nq_unmarked GetID tbl (tl h))),
      nqw_update = \<lambda>h. None, nqw_send = \<lambda>h. None\<rparr>"

lemma nq_table_world: "nq_table (nq_table_world GetID limit tbl) GetID cfg limit tbl"
  by (simp add: nq_table_def nq_table_world_def)

definition queued_row :: "string \<Rightarrow> string \<Rightarrow> QueuedNotification" where
  "queued_row i payload = \<lparr>qn_ID = Some i, qn_NotificationID = Some i, qn_Type = Some ''domain.renew'', qn_Payload = Some payload,
     qn_CreatedDate = Some \<lparr>t_sec = 0, t_nsec = 0, t_off = 0\<rparr>, qn_TenantID = Some ''t1'', qn_TenantCustomerID = None,
     qn_Status = Some ''received'', qn_Retries = None, qn_ChannelType = Some ''webhook'', qn_SubscriptionID = Some ''s1'',
     qn_WebhookURL = Some ''https://a.com'', qn_SigningSecret = Some ''s'', qn_EmailSubject = None, qn_EmailTemplate = None,
     qn_StatusID = None\<rparr>"

definition queued_message :: "QueuedNotification \<Rightarrow> Notification" where
  "queued_message r = (empty_notification Delivery_RECEIVED)
     \<lparr>ntn_Id := the (qn_ID r), ntn_Type := ''domain.renew'', ntn_TenantId := ''t1'', ntn_WebhookUrl := Some ''https://a.com'',
      ntn_SigningSecret := Some ''s'', ntn_CreatedDate := Some (timestamp_New \<lparr>t_sec = 0, t_nsec = 0, t_off = 0\<rparr>),
      ntn_Data := Some (Any [] [])\<rparr>"

definition plain_n_world :: n_world where
  "plain_n_world = \<lparr>nw_send = \<lambda>h e. None, nw_post = \<lambda>h e. PostStatus 200, nw_mail = \<lambda>h e. None,
     nw_update = \<lambda>h e. (1, None), nw_now = \<lambda>h. \<lparr>t_sec = 0, t_nsec = 0, t_off = 0\<rparr>, nw_done = \<lambda>h. None,
     nw_unpack = \<lambda>a. Inr [], nw_newstruct = \<lambda>m. None, nw_pack = \<lambda>m. Inr (Any [] []), nw_json_error = \<lambda>s. ''invalid'',
     nw_hmac = \<lambda>k m. [], nw_sha256 = \<lambda>m. [], nw_render = \<lambda>t v. Inr t, nw_mime = \<lambda>b s. s,
     nw_envelope = \<lambda>j. zero_EmailEnvelope, nw_status0 = Delivery_RECEIVED\<rparr>"

lemma queued_row_payloads:
  "unmarshal_map plain_n_world ''{}'' = Inr []" "unmarshal_map plain_n_world ''[1]'' = Inl (projl (unmarshal_map plain_n_world ''[1]''))"
  by code_simp+

lemma queued_row_converts:
  "ToWebhookProto plain_n_world (queued_row i ''{}'') h = (Ret (Some (queued_message (queued_row i ''{}'')), None), h)"
  by (simp add: ToWebhookProto_def queued_row_def queued_row_payloads(1) queued_message_def queued_status_def empty_notification_def
      plain_n_world_def [THEN arg_cong [where f = nw_newstruct]] plain_n_world_def [THEN arg_cong [where f = nw_pack]] ret_run)

definition webhook_channel :: nq_config where
  "webhook_channel = projr (channel_config ''webhook'' ''webhook_send'')"

lemma webhook_channel: "channel_config ''webhook'' ''webhook_send'' = Inr webhook_channel"
  by (simp add: webhook_channel_def channel_config_def NQ_Build_def NQ_builder_defs)

theorem webhook_enqueuer_drains_witness:
  "\<exists>h'. webhook_enqueuer (nq_table_world queued_GetID 1 [queued_row ''1'' ''{}'', queued_row ''2'' ''{}'']) plain_n_world
         webhook_channel [] = Some (Ret None, h') \<and> map (\<lambda>(q, m, hd). q) (nq_sent h') = [''webhook_send'', ''webhook_send'']"
proof -
  have "distinct (map queued_GetID [queued_row ''1'' ''{}'', queued_row ''2'' ''{}''])"
    by (simp add: queued_GetID_def queued_row_def)
  from webhook_enqueuer_drains [OF webhook_channel nq_table_world _ this, of 1 plain_n_world queued_message]
  show ?thesis by (auto simp: queued_row_converts)
qed

theorem webhook_enqueuer_blocked_witness:
  "\<exists>h. nq_runs (webhook_enqueuer (nq_table_world queued_GetID 100 ([queued_row ''1'' ''{}''] @ queued_row ''2'' ''[1]'' # []))
         plain_n_world webhook_channel) 3 [] = Some h \<and> nq_marked h = [] \<and> length (nq_sent h) = 3"
proof -
  have bad: "qn_Payload (queued_row ''2'' ''[1]'') = Some ''[1]''" by (simp add: queued_row_def)
  have pre: "\<forall>r\<in>set [queued_row ''1'' ''{}'']. \<forall>h :: Notification nq_hist.
      ToWebhookProto plain_n_world r h = (Ret (Some (queued_message r), None), h)"
    by (simp add: queued_row_converts)
  have "length [queued_row ''1'' ''{}''] < 100" by simp
  from webhook_enqueuer_blocked [OF webhook_channel nq_table_world this pre bad queued_row_payloads(2), where k = 3 and post = "[]"]
  show ?thesis by (auto simp: numeral_3_eq_3)
qed

end
