(* ===== verification/Subscription_Manager.thy ===== *)
theory Subscription_Manager
  imports Notification_Data Go_Strings
begin

text \<open>
  The subscription manager of \<^verbatim>\<open>sm/tdp-notifications/subscription-manager-service\<close>: its rows and messages
  (\<^verbatim>\<open>internal/app/model\<close>), its service (\<^verbatim>\<open>internal/app/service\<close>) and the handlers with their error replies
  (\<^verbatim>\<open>internal/app/handlers/rpc/v1\<close>). The repository, the transactions, the cache and the lookup tables are those of
  \<^verbatim>\<open>tdp-shared-go\<close>, a library of another repository: they are the fields of \<open>sub_repo\<close>, computations on
  a database state \<open>'db\<close> that stays abstract.
\<close>

section \<open>Rows\<close>

record VSubscription =
  vs_ID :: string
  vs_Description :: "string option"
  vs_Metadata :: "string option"
  vs_Tags :: "string list"
  vs_CreatedDate :: "gotime option"
  vs_UpdatedDate :: "gotime option"
  vs_DeletedDate :: "gotime option"
  vs_Status :: string
  vs_TenantID :: string
  vs_TenantCustomerID :: "string option"
  vs_NotificationEmail :: string
  vs_Notifications :: "string list"
  vs_Type :: "string option"
  vs_WebhookURL :: "string option"
  vs_SigningSecret :: "string option"

definition zero_VSubscription :: VSubscription where
  "zero_VSubscription = \<lparr>vs_ID = [], vs_Description = None, vs_Metadata = None, vs_Tags = [], vs_CreatedDate = None,
     vs_UpdatedDate = None, vs_DeletedDate = None, vs_Status = [], vs_TenantID = [], vs_TenantCustomerID = None,
     vs_NotificationEmail = [], vs_Notifications = [], vs_Type = None, vs_WebhookURL = None, vs_SigningSecret = None\<rparr>"

record Subscription =
  sb_CreatedDate :: "gotime option"
  sb_UpdatedDate :: "gotime option"
  sb_CreatedBy :: "string option"
  sb_UpdatedBy :: "string option"
  sb_DeletedDate :: "gotime option"
  sb_DeletedBy :: "string option"
  sb_ID :: string
  sb_Descr :: "string option"
  sb_StatusID :: string
  sb_TenantID :: string
  sb_TenantCustomerID :: "string option"
  sb_NotificationEmail :: string
  sb_Metadata :: "string option"
  sb_Tags :: "string list"

record SubscriptionWebhookChannel =
  wch_CreatedDate :: "gotime option"
  wch_UpdatedDate :: "gotime option"
  wch_CreatedBy :: "string option"
  wch_UpdatedBy :: "string option"
  wch_DeletedDate :: "gotime option"
  wch_DeletedBy :: "string option"
  wch_ID :: string
  wch_TypeID :: string
  wch_SubscriptionID :: string
  wch_WebhookURL :: string
  wch_SigningSecret :: string

record SubscriptionNotificationType =
  snt_ID :: string
  snt_SubscriptionID :: string
  snt_TypeID :: string

text \<open>The row of a customer; only its tenant is read.\<close>

record VTenantCustomer =
  vtc_TenantID :: "string option"
  vtc_CustomerID :: "string option"
  vtc_TenantName :: "string option"
  vtc_TenantDescr :: "string option"
  vtc_CustomerNumber :: "string option"
  vtc_ID :: "string option"
  vtc_Name :: "string option"
  vtc_Descr :: "string option"
  vtc_CustomerCreatedDate :: "gotime option"
  vtc_CustomerUpdatedDate :: "gotime option"
  vtc_TenantCustomerCreatedDate :: "gotime option"
  vtc_TenantCustomerUpdatedDate :: "gotime option"

definition zero_VTenantCustomer :: VTenantCustomer where
  "zero_VTenantCustomer = \<lparr>vtc_TenantID = None, vtc_CustomerID = None, vtc_TenantName = None, vtc_TenantDescr = None,
     vtc_CustomerNumber = None, vtc_ID = None, vtc_Name = None, vtc_Descr = None, vtc_CustomerCreatedDate = None,
     vtc_CustomerUpdatedDate = None, vtc_TenantCustomerCreatedDate = None, vtc_TenantCustomerUpdatedDate = None\<rparr>"

section \<open>Messages\<close>

datatype SubscriptionStatus = Subscription_ACTIVE | Subscription_PAUSED | Subscription_DEGRADED | Subscription_DEACTIVATED

type_synonym metadata = "(string \<times> any option) list"

record SubscriptionCreateRequest =
  scr_TenantCustomerId :: string
  scr_NotificationTypes :: "string list"
  scr_Description :: "string option"
  scr_NotificationEmail :: string
  scr_Url :: string
  scr_Tags :: "string list"
  scr_Metadata :: "metadata option"

record SubscriptionUpdateRequest =
  sur_Id :: string
  sur_TenantCustomerId :: string
  sur_Description :: "string option"
  sur_NotificationEmail :: string
  sur_Tags :: "string list"
  sur_Metadata :: "metadata option"
  sur_AddNotificationTypes :: "string list"
  sur_RemNotificationTypes :: "string list"

record sub_pagination =
  pgn_PageSize :: i32
  pgn_PageNumber :: i32
  pgn_SortBy :: string
  pgn_SortDirection :: string

record SubscriptionDetailsResponse =
  sdr_Id :: string
  sdr_Description :: "string option"
  sdr_Metadata :: "metadata option"
  sdr_Tags :: "string list"
  sdr_CreatedDate :: "timestamp option"
  sdr_UpdatedDate :: "timestamp option"
  sdr_Status :: SubscriptionStatus
  sdr_NotificationEmail :: string
  sdr_NotificationTypes :: "string list"
  sdr_Url :: string

text \<open>
  The requests that share the identifier and the customer, and what is replied: one constructor per
  response message; the inner message may be nil.
\<close>

record sub_key =
  sk_Id :: string
  sk_TenantCustomerId :: string

datatype sub_response =
    CreateResponse "SubscriptionDetailsResponse option" string
  | GetResponse "SubscriptionDetailsResponse option"
  | PauseResponse "SubscriptionDetailsResponse option"
  | ResumeResponse "SubscriptionDetailsResponse option"
  | UpdateResponse "SubscriptionDetailsResponse option"
  | DeleteResponse
  | ListResponse "SubscriptionDetailsResponse option list" i32

section \<open>The library\<close>

text \<open>
  A condition on the view is the row whose non-zero fields must agree; \<^verbatim>\<open>Where\<close> and \<^verbatim>\<open>Or\<close> make a list of
  alternatives. \<open>sr_Update\<close> gets the model, the alternatives and whether the new row is read back into the
  model, and returns the number of rows, the error and the model as it is afterwards.
\<close>

record 'db sub_repo =
  sr_type_id :: "string \<Rightarrow> string"
  sr_status_id :: "string \<Rightarrow> string"
  sr_status0 :: SubscriptionStatus
  sr_marshal :: "metadata option \<Rightarrow> gerr + string"
  sr_unmarshal :: "string \<Rightarrow> gerr + metadata option"
  sr_cached :: "string \<Rightarrow> ('db, VTenantCustomer option \<times> gerr option) go \<Rightarrow> ('db, VTenantCustomer option \<times> gerr option) go"
  sr_customer :: "string \<Rightarrow> VTenantCustomer list \<Rightarrow> ('db, VTenantCustomer option \<times> gerr option) go"
  sr_transaction :: "('db, VSubscription option \<times> gerr option) go \<Rightarrow> ('db, VSubscription option \<times> gerr option) go"
  sr_Update :: "VSubscription \<Rightarrow> VSubscription list \<Rightarrow> bool \<Rightarrow> ('db, int \<times> gerr option \<times> VSubscription) go"
  sr_GetByID :: "string \<Rightarrow> VSubscription list \<Rightarrow> ('db, VSubscription option \<times> gerr option) go"
  sr_Count :: "VSubscription list \<Rightarrow> ('db, i64 \<times> gerr option) go"
  sr_Find :: "VSubscription list \<Rightarrow> (int \<times> int \<times> string \<times> string) option \<Rightarrow> ('db, VSubscription list \<times> gerr option) go"
  sr_Delete :: "VSubscription \<Rightarrow> VSubscription list \<Rightarrow> ('db, int \<times> gerr option) go"
  sr_create :: "Subscription \<Rightarrow> ('db, Subscription \<times> gerr option) go"
  sr_create_channel :: "SubscriptionWebhookChannel \<Rightarrow> ('db, gerr option) go"
  sr_create_types :: "SubscriptionNotificationType list \<Rightarrow> bool \<Rightarrow> ('db, gerr option) go"
  sr_delete_types :: "string \<Rightarrow> string list \<Rightarrow> ('db, gerr option) go"
  sr_count_types :: "string \<Rightarrow> ('db, i64 \<times> gerr option) go"
  sr_uuid :: "('db, string) go"
  sr_ErrNotFound :: gerr

section \<open>Errors and names\<close>

definition SM_ErrNotFound :: gerr where "SM_ErrNotFound = ErrNew ''not found''"

definition ErrInvalidTenantCustomerID :: gerr where
  "ErrInvalidTenantCustomerID = ErrNew ''invalid tenant customer id''"

definition ErrStatusCannotBePaused :: gerr where
  "ErrStatusCannotBePaused = ErrNew ''only active or degraded subscription can be paused''"

definition ErrStatusCannotBeResumed :: gerr where
  "ErrStatusCannotBeResumed = ErrNew ''only paused subscription can be resumed''"

definition ErrInvalidNotificationType :: gerr where
  "ErrInvalidNotificationType = ErrNew ''invalid notification type''"

definition ErrInvalidRequest :: gerr where
  "ErrInvalidRequest = ErrNew ''invalid request''"

lemmas sm_errors = SM_ErrNotFound_def ErrInvalidTenantCustomerID_def ErrStatusCannotBePaused_def
  ErrStatusCannotBeResumed_def ErrInvalidNotificationType_def ErrInvalidRequest_def

definition SubscriptionType_Webhook :: string where "SubscriptionType_Webhook = ''webhook''"

fun SubscriptionStatusFromProto :: "SubscriptionStatus \<Rightarrow> string" where
  "SubscriptionStatusFromProto Subscription_ACTIVE = ''active''"
| "SubscriptionStatusFromProto Subscription_PAUSED = ''paused''"
| "SubscriptionStatusFromProto Subscription_DEGRADED = ''degraded''"
| "SubscriptionStatusFromProto Subscription_DEACTIVATED = ''deactivated''"

text \<open>The inverted map; a name that is not in it yields the status with number 0.\<close>

definition SubscriptionStatusToProto :: "'db sub_repo \<Rightarrow> string \<Rightarrow> SubscriptionStatus" where
  "SubscriptionStatusToProto R s =
     (if s = ''active'' then Subscription_ACTIVE else if s = ''paused'' then Subscription_PAUSED
      else if s = ''degraded'' then Subscription_DEGRADED else if s = ''deactivated'' then Subscription_DEACTIVATED
      else sr_status0 R)"

section \<open>Conversions\<close>

definition SubscriptionFromProto :: "'db sub_repo \<Rightarrow> SubscriptionCreateRequest \<Rightarrow> string \<Rightarrow> gerr + Subscription" where
  "SubscriptionFromProto R req tenantID =
     (case sr_marshal R (scr_Metadata req) of
        Inl e \<Rightarrow> Inl (ErrWrap ''failed to marshal metadata from request'' e)
      | Inr metadata \<Rightarrow>
          Inr \<lparr>sb_CreatedDate = None, sb_UpdatedDate = None, sb_CreatedBy = None, sb_UpdatedBy = None, sb_DeletedDate = None,
               sb_DeletedBy = None, sb_ID = [], sb_Descr = scr_Description req, sb_StatusID = [], sb_TenantID = tenantID,
               sb_TenantCustomerID = Some (scr_TenantCustomerId req), sb_NotificationEmail = scr_NotificationEmail req,
               sb_Metadata = Some metadata, sb_Tags = scr_Tags req\<rparr>)"

definition timeToProto :: "gotime option \<Rightarrow> timestamp option" where
  "timeToProto t = (case t of None \<Rightarrow> None | Some t \<Rightarrow> Some (timestamp_New t))"

definition toProto :: "'db sub_repo \<Rightarrow> VSubscription \<Rightarrow> gerr + SubscriptionDetailsResponse" where
  "toProto R s =
     (case (case vs_Metadata s of None \<Rightarrow> Inr None | Some m \<Rightarrow> sr_unmarshal R m) of
        Inl e \<Rightarrow> Inl e
      | Inr metadata \<Rightarrow>
          Inr \<lparr>sdr_Id = vs_ID s, sdr_Description = vs_Description s, sdr_Metadata = metadata, sdr_Tags = vs_Tags s,
               sdr_CreatedDate = timeToProto (vs_CreatedDate s), sdr_UpdatedDate = timeToProto (vs_UpdatedDate s),
               sdr_Status = SubscriptionStatusToProto R (vs_Status s), sdr_NotificationEmail = vs_NotificationEmail s,
               sdr_NotificationTypes = vs_Notifications s,
               sdr_Url = (case vs_WebhookURL s of None \<Rightarrow> [] | Some u \<Rightarrow> u)\<rparr>)"

text \<open>
  \<^verbatim>\<open>ToProtoGet\<close>, \<^verbatim>\<open>ToProtoPause\<close>, \<^verbatim>\<open>ToProtoResume\<close> and \<^verbatim>\<open>ToProtoUpdate\<close> differ in the message they
  build; of a nil row they make a nil message, \<open>None\<close>.
\<close>

definition ToProto_with ::
  "(SubscriptionDetailsResponse option \<Rightarrow> sub_response) \<Rightarrow> 'db sub_repo \<Rightarrow> VSubscription option \<Rightarrow> gerr + sub_response option" where
  "ToProto_with build R s =
     (case s of
        None \<Rightarrow> Inr None
      | Some s \<Rightarrow> (case toProto R s of Inl e \<Rightarrow> Inl e | Inr sub \<Rightarrow> Inr (Some (build (Some sub)))))"

definition ToProtoGet :: "'db sub_repo \<Rightarrow> VSubscription option \<Rightarrow> gerr + sub_response option" where
  "ToProtoGet = ToProto_with GetResponse"

definition ToProtoPause :: "'db sub_repo \<Rightarrow> VSubscription option \<Rightarrow> gerr + sub_response option" where
  "ToProtoPause = ToProto_with PauseResponse"

definition ToProtoResume :: "'db sub_repo \<Rightarrow> VSubscription option \<Rightarrow> gerr + sub_response option" where
  "ToProtoResume = ToProto_with ResumeResponse"

definition ToProtoUpdate :: "'db sub_repo \<Rightarrow> VSubscription option \<Rightarrow> gerr + sub_response option" where
  "ToProtoUpdate = ToProto_with UpdateResponse"

definition ToProtoCreate :: "'db sub_repo \<Rightarrow> VSubscription option \<Rightarrow> gerr + sub_response option" where
  "ToProtoCreate R s =
     (case s of
        None \<Rightarrow> Inr None
      | Some s \<Rightarrow> (case toProto R s of
                     Inl e \<Rightarrow> Inl e
                   | Inr sub \<Rightarrow> Inr (Some (CreateResponse (Some sub) (case vs_SigningSecret s of None \<Rightarrow> [] | Some k \<Rightarrow> k)))))"

fun to_proto_list :: "'db sub_repo \<Rightarrow> VSubscription list \<Rightarrow> gerr + SubscriptionDetailsResponse option list" where
  "to_proto_list R [] = Inr []"
| "to_proto_list R (s # rest) =
     (case toProto R s of
        Inl e \<Rightarrow> Inl e
      | Inr r \<Rightarrow> (case to_proto_list R rest of Inl e \<Rightarrow> Inl e | Inr rs \<Rightarrow> Inr (Some r # rs)))"

definition VSubscriptionListToProto :: "'db sub_repo \<Rightarrow> VSubscription list \<Rightarrow> i64 \<Rightarrow> gerr + sub_response option" where
  "VSubscriptionListToProto R sList n =
     (case to_proto_list R sList of Inl e \<Rightarrow> Inl e | Inr res \<Rightarrow> Inr (Some (ListResponse res (to_i32 (sint n)))))"

definition VSubscriptionFromProtoUpdate :: "'db sub_repo \<Rightarrow> SubscriptionUpdateRequest \<Rightarrow> gerr + VSubscription option" where
  "VSubscriptionFromProtoUpdate R req =
     (if sur_Description req = None \<and>
         length (sur_NotificationEmail req) + length (sur_Tags req) +
           (case sur_Metadata req of None \<Rightarrow> 0 | Some m \<Rightarrow> length m) = 0
      then Inr None
      else
        let v = zero_VSubscription\<lparr>vs_ID := sur_Id req, vs_Description := sur_Description req,
                  vs_NotificationEmail := sur_NotificationEmail req, vs_Tags := sur_Tags req\<rparr>
        in case sur_Metadata req of
             None \<Rightarrow> Inr (Some v)
           | Some m \<Rightarrow>
               (case sr_marshal R (Some m) of
                  Inl e \<Rightarrow> Inl (ErrWrap ''failed to marshal metadata from request'' e)
                | Inr metadata \<Rightarrow> Inr (Some (v\<lparr>vs_Metadata := Some metadata\<rparr>))))"

section \<open>The service\<close>

text \<open>An error with the text of \<^verbatim>\<open>fmt.Errorf("...: %w", err)\<close>, as the second result of a call.\<close>

definition failed :: "string \<Rightarrow> gerr \<Rightarrow> ('db, 'a option \<times> gerr option) go" where
  "failed what e = ret (None, Some (ErrWrap what e))"

definition or_return ::
  "('db, 'a \<times> gerr option) go \<Rightarrow> (gerr \<Rightarrow> ('db, 'b) go) \<Rightarrow> ('a \<Rightarrow> ('db, 'b) go) \<Rightarrow> ('db, 'b) go" where
  "or_return m on_error f = bnd m (\<lambda>(a, err). case err of Some e \<Rightarrow> on_error e | None \<Rightarrow> f a)"

definition GetTenantID :: "'db sub_repo \<Rightarrow> string \<Rightarrow> ('db, string \<times> gerr option) go" where
  "GetTenantID R tenantCustomerID =
     bnd (sr_cached R tenantCustomerID
            (sr_customer R tenantCustomerID [zero_VTenantCustomer\<lparr>vtc_CustomerNumber := Some tenantCustomerID\<rparr>]))
       (\<lambda>(tenantCustomer, err).
        case err of
          Some e \<Rightarrow> if errors_is e (sr_ErrNotFound R) then ret ([], Some ErrInvalidTenantCustomerID) else ret ([], Some e)
        | None \<Rightarrow>
            bnd (deref tenantCustomer) (\<lambda>tenantCustomer.
            case vtc_TenantID tenantCustomer of
              Some tenantID \<Rightarrow> ret (tenantID, None)
            | None \<Rightarrow> ret ([], Some ErrInvalidTenantCustomerID)))"

text \<open>The condition every operation on the view uses: the tenant's subscriptions of type webhook.\<close>

definition own_webhook :: "string \<Rightarrow> VSubscription" where
  "own_webhook tenantID = zero_VSubscription\<lparr>vs_TenantID := tenantID, vs_Type := Some SubscriptionType_Webhook\<rparr>"

definition getVSubscriptionByID :: "'db sub_repo \<Rightarrow> string \<Rightarrow> string \<Rightarrow> ('db, VSubscription option \<times> gerr option) go" where
  "getVSubscriptionByID R i tenantID =
     bnd (sr_GetByID R i [own_webhook tenantID]) (\<lambda>(vSubscription, err).
       if (case err of None \<Rightarrow> False | Some e \<Rightarrow> errors_is e (sr_ErrNotFound R)) then ret (None, Some SM_ErrNotFound)
       else ret (vSubscription, err))"

definition convert :: "gerr + sub_response option \<Rightarrow> ('db, sub_response option \<times> gerr option) go" where
  "convert r = ret (case r of Inl e \<Rightarrow> (None, Some e) | Inr m \<Rightarrow> (m, None))"

definition PauseSubscription :: "'db sub_repo \<Rightarrow> sub_key \<Rightarrow> ('db, sub_response option \<times> gerr option) go" where
  "PauseSubscription R req =
     or_return (GetTenantID R (sk_TenantCustomerId req)) (failed ''failed to get TenantID'') (\<lambda>tenantID.
     if sr_status_id R ''paused'' = [] then ret (None, Some (ErrNew ''failed to get paused status id from lookup table''))
     else
       bnd (sr_Update R (zero_VSubscription\<lparr>vs_ID := sk_Id req, vs_Status := ''paused''\<rparr>)
              [(own_webhook tenantID)\<lparr>vs_Status := ''active''\<rparr>, (own_webhook tenantID)\<lparr>vs_Status := ''degraded''\<rparr>] True)
         (\<lambda>(rowsAffected, err, vSubscription).
          case err of
            Some e \<Rightarrow> failed ''failed to update subscription status'' e
          | None \<Rightarrow>
              if rowsAffected > 0 then convert (ToProtoPause R (Some vSubscription))
              else
                or_return (sr_Count R [(own_webhook tenantID)\<lparr>vs_ID := sk_Id req\<rparr>])
                  (failed ''failed to get subscriptions number'') (\<lambda>num.
                if num = 0 then ret (None, Some SM_ErrNotFound) else ret (None, Some ErrStatusCannotBePaused))))"

definition ResumeSubscription :: "'db sub_repo \<Rightarrow> sub_key \<Rightarrow> ('db, sub_response option \<times> gerr option) go" where
  "ResumeSubscription R req =
     or_return (GetTenantID R (sk_TenantCustomerId req)) (failed ''failed to get TenantID'') (\<lambda>tenantID.
     if sr_status_id R ''active'' = [] then ret (None, Some (ErrNew ''failed to get active status id from lookup table''))
     else
       or_return
         (sr_transaction R
           (bnd (sr_Update R (zero_VSubscription\<lparr>vs_ID := sk_Id req, vs_Status := ''active''\<rparr>)
                   [(own_webhook tenantID)\<lparr>vs_Status := ''paused''\<rparr>] False)
              (\<lambda>(rowsAffected, err, model).
               case err of
                 Some e \<Rightarrow> failed ''failed to update subscription status'' e
               | None \<Rightarrow>
                   bnd (sr_GetByID R (sk_Id req) [own_webhook tenantID]) (\<lambda>(vSubscription, err).
                   case err of
                     Some e \<Rightarrow>
                       if errors_is e (sr_ErrNotFound R) then ret (vSubscription, Some SM_ErrNotFound)
                       else ret (vSubscription, Some (ErrWrap ''failed to get subscription'' e))
                   | None \<Rightarrow>
                       if rowsAffected = 0 then ret (vSubscription, Some ErrStatusCannotBeResumed)
                       else ret (vSubscription, None)))))
         (\<lambda>e. ret (None, Some e)) (\<lambda>vSubscription. convert (ToProtoResume R vSubscription)))"

definition DeleteSubscriptionByID :: "'db sub_repo \<Rightarrow> sub_key \<Rightarrow> ('db, sub_response option \<times> gerr option) go" where
  "DeleteSubscriptionByID R req =
     or_return (GetTenantID R (sk_TenantCustomerId req)) (failed ''failed to get TenantID'') (\<lambda>tenantID.
     or_return (sr_Delete R (zero_VSubscription\<lparr>vs_ID := sk_Id req\<rparr>) [own_webhook tenantID])
       (failed ''failed to delete subscription'') (\<lambda>rowsAffected.
     if rowsAffected = 0 then ret (None, Some SM_ErrNotFound) else ret (Some DeleteResponse, None)))"

definition GetSubscriptionByID :: "'db sub_repo \<Rightarrow> sub_key \<Rightarrow> ('db, sub_response option \<times> gerr option) go" where
  "GetSubscriptionByID R req =
     or_return (GetTenantID R (sk_TenantCustomerId req)) (failed ''failed to get TenantID'') (\<lambda>tenantID.
     or_return (getVSubscriptionByID R (sk_Id req) tenantID) (failed ''failed to get subscription'')
       (\<lambda>vSubscription. convert (ToProtoGet R vSubscription)))"

text \<open>\<^verbatim>\<open>ListSubscriptions\<close>: the customer and the optional pagination.\<close>

definition find_list ::
  "'db sub_repo \<Rightarrow> string \<Rightarrow> (int \<times> int \<times> string \<times> string) option \<Rightarrow> i64 \<Rightarrow> ('db, sub_response option \<times> gerr option) go" where
  "find_list R tenantID page n =
     or_return (sr_Find R [own_webhook tenantID] page) (failed ''failed to get list of subscriptions'') (\<lambda>vSubscriptions.
     convert (VSubscriptionListToProto R vSubscriptions (if n = 0 then word_of_int (int (length vSubscriptions)) else n)))"

definition ListSubscriptions ::
  "'db sub_repo \<Rightarrow> string \<Rightarrow> sub_pagination option \<Rightarrow> ('db, sub_response option \<times> gerr option) go" where
  "ListSubscriptions R customer pagination =
     or_return (GetTenantID R customer) (failed ''failed to get TenantID'') (\<lambda>tenantID.
     case pagination of
       None \<Rightarrow> find_list R tenantID None 0
     | Some p \<Rightarrow>
         or_return (sr_Count R [own_webhook tenantID]) (failed ''failed to get total count of subscriptions'') (\<lambda>n.
         if n = 0 then ret (Some (ListResponse [] 0), None)
         else find_list R tenantID
                (Some (sint (pgn_PageSize p), sint (pgn_PageNumber p), pgn_SortBy p, pgn_SortDirection p)) n))"

text \<open>Names of notification types: those to add are looked up in lower case, those to remove as they are.\<close>

fun notificationTypeIDs :: "'db sub_repo \<Rightarrow> string list \<Rightarrow> gerr + string list" where
  "notificationTypeIDs R [] = Inr []"
| "notificationTypeIDs R (name # names) =
     (let i = sr_type_id R name
      in if i = [] then Inl (ErrNote ErrInvalidNotificationType name)
         else (case notificationTypeIDs R names of Inl e \<Rightarrow> Inl e | Inr ids \<Rightarrow> Inr (i # ids)))"

fun notificationTypes :: "'db sub_repo \<Rightarrow> string \<Rightarrow> string list \<Rightarrow> gerr + SubscriptionNotificationType list" where
  "notificationTypes R subID [] = Inr []"
| "notificationTypes R subID (name # names) =
     (let i = sr_type_id R (ToLower name)
      in if i = [] then Inl (ErrNote ErrInvalidNotificationType name)
         else (case notificationTypes R subID names of
                 Inl e \<Rightarrow> Inl e
               | Inr types \<Rightarrow> Inr (\<lparr>snt_ID = [], snt_SubscriptionID = subID, snt_TypeID = i\<rparr> # types)))"

definition CreateSubscription :: "'db sub_repo \<Rightarrow> SubscriptionCreateRequest \<Rightarrow> ('db, sub_response option \<times> gerr option) go" where
  "CreateSubscription R req =
     or_return (GetTenantID R (scr_TenantCustomerId req)) (failed ''failed to get TenantID'') (\<lambda>tenantID.
     case SubscriptionFromProto R req tenantID of
       Inl e \<Rightarrow> failed ''error converting create subscription request'' e
     | Inr subscription \<Rightarrow>
         (case notificationTypes R [] (scr_NotificationTypes req) of
            Inl e \<Rightarrow> failed ''error converting notification types'' e
          | Inr types \<Rightarrow>
              or_return
                (sr_transaction R
                  (or_return (sr_create R subscription) (failed ''failed to create subscription'') (\<lambda>subscription.
                   bnd (sr_uuid R) (\<lambda>secret.
                   bnd (sr_create_channel R \<lparr>wch_CreatedDate = None, wch_UpdatedDate = None, wch_CreatedBy = None,
                          wch_UpdatedBy = None, wch_DeletedDate = None, wch_DeletedBy = None, wch_ID = [], wch_TypeID = [],
                          wch_SubscriptionID = sb_ID subscription, wch_WebhookURL = scr_Url req, wch_SigningSecret = secret\<rparr>)
                     (\<lambda>err. case err of
                        Some e \<Rightarrow> failed ''failed to create subscription channel'' e
                      | None \<Rightarrow>
                          bnd (sr_create_types R (map (\<lambda>t. t\<lparr>snt_SubscriptionID := sb_ID subscription\<rparr>) types) False)
                            (\<lambda>err. case err of
                               Some e \<Rightarrow> failed ''failed to create subscription notification types'' e
                             | None \<Rightarrow>
                                 or_return (sr_GetByID R (sb_ID subscription) [])
                                   (failed ''failed to get created subscription entity'')
                                   (\<lambda>vSubscription. ret (vSubscription, None))))))))
                (\<lambda>e. ret (None, Some e)) (\<lambda>vSubscription. convert (ToProtoCreate R vSubscription))))"

definition updateNotificationTypes ::
  "'db sub_repo \<Rightarrow> string \<Rightarrow> string \<Rightarrow> SubscriptionNotificationType list \<Rightarrow> string list \<Rightarrow> ('db, gerr option) go" where
  "updateNotificationTypes R subID tenantID addTypes remTypeIDs =
     (if length remTypeIDs + length addTypes = 0 then ret None
      else
        or_return (sr_Count R [(own_webhook tenantID)\<lparr>vs_ID := subID\<rparr>])
          (\<lambda>e. ret (Some (ErrWrap ''failed to get subscription count to make sure that subscription exists'' e))) (\<lambda>sCount.
        if sCount = 0 then ret (Some SM_ErrNotFound)
        else
          bnd (if addTypes \<noteq> [] then sr_create_types R addTypes True else ret None) (\<lambda>err.
          case err of
            Some e \<Rightarrow> ret (Some (ErrWrap ''failed to add subscription notification types'' e))
          | None \<Rightarrow>
              if remTypeIDs = [] then ret None
              else
                bnd (sr_delete_types R subID remTypeIDs) (\<lambda>err.
                case err of
                  Some e \<Rightarrow> ret (Some (ErrWrap ''failed to delete subscription notification types'' e))
                | None \<Rightarrow>
                    or_return (sr_count_types R subID)
                      (\<lambda>e. ret (Some (ErrWrap ''failed to count subscription notification types after removal'' e))) (\<lambda>ntCount.
                    if ntCount = 0 then ret (Some (ErrNew ''removing all subscription notification types is not allowed''))
                    else ret None)))))"

definition UpdateSubscription :: "'db sub_repo \<Rightarrow> SubscriptionUpdateRequest \<Rightarrow> ('db, sub_response option \<times> gerr option) go" where
  "UpdateSubscription R req =
     (case VSubscriptionFromProtoUpdate R req of
        Inl e \<Rightarrow> failed ''error converting update subscription request'' e
      | Inr vSubUpdate \<Rightarrow>
          if vSubUpdate = None \<and> length (sur_RemNotificationTypes req) + length (sur_AddNotificationTypes req) = 0
          then ret (None, Some ErrInvalidRequest)
          else
            let subID = sur_Id req
            in case notificationTypes R subID (sur_AddNotificationTypes req) of
                 Inl e \<Rightarrow> failed ''error converting notification types to add'' e
               | Inr addTypes \<Rightarrow>
                   (case notificationTypeIDs R (sur_RemNotificationTypes req) of
                      Inl e \<Rightarrow> failed ''error getting notification type IDs to remove'' e
                    | Inr remTypeIDs \<Rightarrow>
                        or_return (GetTenantID R (sur_TenantCustomerId req)) (failed ''failed to get TenantID'') (\<lambda>tenantID.
                        or_return
                          (sr_transaction R
                            (bnd (updateNotificationTypes R subID tenantID addTypes remTypeIDs) (\<lambda>err.
                             case err of
                               Some e \<Rightarrow> ret (vSubUpdate, Some (ErrWrap ''failed to update subscription notification types'' e))
                             | None \<Rightarrow>
                                 (case vSubUpdate of
                                    None \<Rightarrow>
                                      bnd (getVSubscriptionByID R subID tenantID) (\<lambda>(vSubUpdate, err).
                                      case err of
                                        Some e \<Rightarrow> ret (vSubUpdate, Some (ErrWrap ''failed to get subscription after update'' e))
                                      | None \<Rightarrow> ret (vSubUpdate, None))
                                  | Some v \<Rightarrow>
                                      bnd (sr_Update R v [own_webhook tenantID] True) (\<lambda>(rowsAffected, err, v).
                                      case err of
                                        Some e \<Rightarrow> ret (Some v, Some (ErrWrap ''failed to update subscription'' e))
                                      | None \<Rightarrow>
                                          if rowsAffected = 0 then ret (Some v, Some SM_ErrNotFound) else ret (Some v, None))))))
                          (failed ''failed to update subscription'')
                          (\<lambda>vSubUpdate. convert (ToProtoUpdate R vSubUpdate)))))"

section \<open>The handlers\<close>

datatype sub_request =
    CreateRequest SubscriptionCreateRequest
  | DeleteRequest sub_key
  | GetRequest sub_key
  | ListRequest string "sub_pagination option"
  | PauseRequest sub_key
  | ResumeRequest sub_key
  | UpdateRequest SubscriptionUpdateRequest

datatype reply_code = BAD_REQUEST | NOT_FOUND | FAILED_PRECONDITION | FAILED_OPERATION

datatype sm_reply = Reply "sub_response option" | ErrorReply reply_code string string

text \<open>The state of a handler: the databases and the replies sent so far, the last one first. \<open>bus\<close> accepts a reply or not.\<close>

type_synonym 'db sm_state = "'db \<times> sm_reply list"

definition serve :: "('db, 'a) go \<Rightarrow> ('db sm_state, 'a) go" where
  "serve m = (\<lambda>(db, log). case m db of (r, db') \<Rightarrow> (r, (db', log)))"

definition send_reply :: "(sm_reply list \<Rightarrow> gerr option) \<Rightarrow> sm_reply \<Rightarrow> ('db sm_state, gerr option) go" where
  "send_reply bus r = (\<lambda>(db, log). (Ret (bus (r # log)), (db, r # log)))"

definition ErrorReply_to :: "(sm_reply list \<Rightarrow> gerr option) \<Rightarrow> reply_code \<Rightarrow> string \<Rightarrow> ('db sm_state, gerr option) go" where
  "ErrorReply_to bus code text = send_reply bus (ErrorReply code text [])"

text \<open>
  The body the seven handlers share: the errors a handler answers itself, with code and text, then the
  error or the response. A message of another type or a nil one is \<open>None\<close>.
\<close>

definition handle_with ::
  "(sm_reply list \<Rightarrow> gerr option) \<Rightarrow> (gerr \<times> reply_code \<times> string) list \<Rightarrow> 'req option \<Rightarrow>
   ('req \<Rightarrow> ('db, sub_response option \<times> gerr option) go) \<Rightarrow> ('db sm_state, gerr option) go" where
  "handle_with bus answered request operation =
     (case request of
        None \<Rightarrow> ErrorReply_to bus BAD_REQUEST ''empty request or wrong request message type''
      | Some req \<Rightarrow>
          bnd (serve (operation req)) (\<lambda>(resp, err).
          case err of
            Some e \<Rightarrow>
              (case find (\<lambda>(t, c, s). errors_is e t) answered of
                 Some (t, c, s) \<Rightarrow> ErrorReply_to bus c s
               | None \<Rightarrow> ret (Some e))
          | None \<Rightarrow> send_reply bus (Reply resp)))"

definition not_found_answered :: "(gerr \<times> reply_code \<times> string) list" where
  "not_found_answered = [(SM_ErrNotFound, NOT_FOUND, ''subscription not found'')]"

definition CreateSubscriptionHandler ::
  "(sm_reply list \<Rightarrow> gerr option) \<Rightarrow> 'db sub_repo \<Rightarrow> SubscriptionCreateRequest option \<Rightarrow> ('db sm_state, gerr option) go" where
  "CreateSubscriptionHandler bus R request = handle_with bus [] request (CreateSubscription R)"

definition GetSubscriptionByIDHandler ::
  "(sm_reply list \<Rightarrow> gerr option) \<Rightarrow> 'db sub_repo \<Rightarrow> sub_key option \<Rightarrow> ('db sm_state, gerr option) go" where
  "GetSubscriptionByIDHandler bus R request = handle_with bus not_found_answered request (GetSubscriptionByID R)"

definition ListSubscriptionsHandler ::
  "(sm_reply list \<Rightarrow> gerr option) \<Rightarrow> 'db sub_repo \<Rightarrow> (string \<times> sub_pagination option) option \<Rightarrow> ('db sm_state, gerr option) go" where
  "ListSubscriptionsHandler bus R request = handle_with bus [] request (\<lambda>(customer, p). ListSubscriptions R customer p)"

definition PauseSubscriptionHandler ::
  "(sm_reply list \<Rightarrow> gerr option) \<Rightarrow> 'db sub_repo \<Rightarrow> sub_key option \<Rightarrow> ('db sm_state, gerr option) go" where
  "PauseSubscriptionHandler bus R request =
     handle_with bus (not_found_answered @ [(ErrStatusCannotBePaused, FAILED_PRECONDITION, err_text ErrStatusCannotBePaused)])
       request (PauseSubscription R)"

definition ResumeSubscriptionHandler ::
  "(sm_reply list \<Rightarrow> gerr option) \<Rightarrow> 'db sub_repo \<Rightarrow> sub_key option \<Rightarrow> ('db sm_state, gerr option) go" where
  "ResumeSubscriptionHandler bus R request =
     handle_with bus (not_found_answered @ [(ErrStatusCannotBeResumed, FAILED_PRECONDITION, err_text ErrStatusCannotBeResumed)])
       request (ResumeSubscription R)"

definition DeleteSubscriptionByIDHandler ::
  "(sm_reply list \<Rightarrow> gerr option) \<Rightarrow> 'db sub_repo \<Rightarrow> sub_key option \<Rightarrow> ('db sm_state, gerr option) go" where
  "DeleteSubscriptionByIDHandler bus R request = handle_with bus not_found_answered request (DeleteSubscriptionByID R)"

definition UpdateSubscriptionHandler ::
  "(sm_reply list \<Rightarrow> gerr option) \<Rightarrow> 'db sub_repo \<Rightarrow> SubscriptionUpdateRequest option \<Rightarrow> ('db sm_state, gerr option) go" where
  "UpdateSubscriptionHandler bus R request = handle_with bus [] request (UpdateSubscription R)"

definition WithErrorReply ::
  "(sm_reply list \<Rightarrow> gerr option) \<Rightarrow> ('db sm_state, gerr option) go \<Rightarrow> string \<Rightarrow> ('db sm_state, gerr option) go" where
  "WithErrorReply bus handler errMessage =
     bnd handler (\<lambda>err.
     case err of
       None \<Rightarrow> ret None
     | Some e \<Rightarrow>
         send_reply bus
           (if errors_is e ErrInvalidTenantCustomerID then ErrorReply BAD_REQUEST ''invalid tenant customer id'' (err_text e)
            else if errors_is e SM_ErrNotFound then ErrorReply NOT_FOUND ''subscription not found'' (err_text e)
            else if errors_is e ErrInvalidNotificationType then ErrorReply BAD_REQUEST ''invalid notification type'' (err_text e)
            else ErrorReply FAILED_OPERATION errMessage (err_text e)))"

text \<open>\<^verbatim>\<open>Register\<close>: what a delivered request runs.\<close>

definition SM_Register :: "(sm_reply list \<Rightarrow> gerr option) \<Rightarrow> 'db sub_repo \<Rightarrow> sub_request \<Rightarrow> ('db sm_state, gerr option) go" where
  "SM_Register bus R request =
     (case request of
        CreateRequest q \<Rightarrow> WithErrorReply bus (CreateSubscriptionHandler bus R (Some q)) ''error creating subscription''
      | DeleteRequest q \<Rightarrow> WithErrorReply bus (DeleteSubscriptionByIDHandler bus R (Some q)) ''error deleting subscription''
      | GetRequest q \<Rightarrow> WithErrorReply bus (GetSubscriptionByIDHandler bus R (Some q)) ''error getting subscription''
      | ListRequest c p \<Rightarrow> WithErrorReply bus (ListSubscriptionsHandler bus R (Some (c, p))) ''error getting list of subscriptions''
      | PauseRequest q \<Rightarrow> WithErrorReply bus (PauseSubscriptionHandler bus R (Some q)) ''error pausing subscription''
      | ResumeRequest q \<Rightarrow> WithErrorReply bus (ResumeSubscriptionHandler bus R (Some q)) ''error resuming subscription''
      | UpdateRequest q \<Rightarrow> WithErrorReply bus (UpdateSubscriptionHandler bus R (Some q)) ''error updating subscription'')"

end
