(* ===== verification/Subscription_Spec.thy ===== *)
theory Subscription_Spec
  imports Subscription_Manager "HOL-Library.AList"
begin

text \<open>
  What the subscription manager promises: an abstract registry of subscriptions with one operation per
  request, the documented behaviour of the repository it works on, stated through an abstraction function from
  database states to registries, and the refinement of the former by the service on the latter.
\<close>

section \<open>The registry\<close>

record sub_entry =
  se_Tenant :: string
  se_Type :: "string option"
  se_Status :: string
  se_Description :: "string option"
  se_Email :: string
  se_Tags :: "string list"
  se_Metadata :: "string option"
  se_Types :: "string set"

type_synonym registry = "string \<Rightarrow> sub_entry option"

datatype sub_error = UnknownCustomer | NoSubscription | NotPausable | NotResumable | NoTypes | BadType | BadRequest

definition owned :: "string \<Rightarrow> registry \<Rightarrow> string \<Rightarrow> bool" where
  "owned tenant reg i \<longleftrightarrow> (case reg i of None \<Rightarrow> False | Some e \<Rightarrow> se_Tenant e = tenant \<and> se_Type e = Some ''webhook'')"

text \<open>The two status changes a customer may ask for.\<close>

definition change_status :: "sub_error \<Rightarrow> string list \<Rightarrow> string \<Rightarrow> string \<Rightarrow> string \<Rightarrow> registry \<Rightarrow> sub_error + registry" where
  "change_status wrong from_status to_status tenant i reg =
     (if \<not> owned tenant reg i then Inl NoSubscription
      else if se_Status (the (reg i)) \<in> set from_status then Inr (reg(i \<mapsto> (the (reg i))\<lparr>se_Status := to_status\<rparr>))
      else Inl wrong)"

definition overwrite :: "VSubscription \<Rightarrow> sub_entry \<Rightarrow> sub_entry" where
  "overwrite v e = e\<lparr>se_Status := if vs_Status v = [] then se_Status e else vs_Status v,
     se_Description := if vs_Description v = None then se_Description e else vs_Description v,
     se_Email := if vs_NotificationEmail v = [] then se_Email e else vs_NotificationEmail v,
     se_Tags := if vs_Tags v = [] then se_Tags e else vs_Tags v,
     se_Metadata := if vs_Metadata v = None then se_Metadata e else vs_Metadata v\<rparr>"

definition change_types :: "string set \<Rightarrow> string set \<Rightarrow> sub_entry \<Rightarrow> sub_entry" where
  "change_types add rem e = e\<lparr>se_Types := (se_Types e \<union> add) - rem\<rparr>"

definition type_ids :: "'db sub_repo \<Rightarrow> string list \<Rightarrow> string list option" where
  "type_ids R names = (let ids = map (sr_type_id R) names in if [] \<in> set ids then None else Some ids)"

definition update_entry :: "'db sub_repo \<Rightarrow> SubscriptionUpdateRequest \<Rightarrow> string \<Rightarrow> registry \<Rightarrow> sub_error + registry" where
  "update_entry R q tenant reg =
     (case (type_ids R (map ToLower (sur_AddNotificationTypes q)), type_ids R (sur_RemNotificationTypes q)) of
        (Some add, Some rem) \<Rightarrow>
          if \<not> owned tenant reg (sur_Id q) then Inl NoSubscription
          else
            let e = change_types (set add) (set rem) (the (reg (sur_Id q)))
            in if rem \<noteq> [] \<and> se_Types e = {} then Inl NoTypes
               else (case VSubscriptionFromProtoUpdate R q of
                       Inr (Some v) \<Rightarrow> Inr (reg(sur_Id q \<mapsto> overwrite v e))
                     | _ \<Rightarrow> Inr (reg(sur_Id q \<mapsto> e)))
      | _ \<Rightarrow> Inl BadType)"

definition nothing_to_update :: "SubscriptionUpdateRequest \<Rightarrow> bool" where
  "nothing_to_update q \<longleftrightarrow> sur_Description q = None \<and> sur_NotificationEmail q = [] \<and> sur_Tags q = [] \<and>
     sur_Metadata q \<in> {None, Some []} \<and> sur_AddNotificationTypes q = [] \<and> sur_RemNotificationTypes q = []"

definition new_entry :: "'db sub_repo \<Rightarrow> SubscriptionCreateRequest \<Rightarrow> string \<Rightarrow> string list \<Rightarrow> sub_entry" where
  "new_entry R q tenant types =
     \<lparr>se_Tenant = tenant, se_Type = Some ''webhook'', se_Status = ''active'', se_Description = scr_Description q,
      se_Email = scr_NotificationEmail q, se_Tags = scr_Tags q, se_Metadata = Some (projr (sr_marshal R (scr_Metadata q))),
      se_Types = set types\<rparr>"

text \<open>
  One operation per request: what may become of the registry, or why it is refused. Only the identifier of a
  new subscription is open.
\<close>

definition for_tenant :: "(string \<Rightarrow> string option) \<Rightarrow> string \<Rightarrow> (string \<Rightarrow> (sub_error + registry) set) \<Rightarrow> (sub_error + registry) set" where
  "for_tenant tenants customer f = (case tenants customer of None \<Rightarrow> {Inl UnknownCustomer} | Some t \<Rightarrow> f t)"

fun sub_step :: "'db sub_repo \<Rightarrow> (string \<Rightarrow> string option) \<Rightarrow> sub_request \<Rightarrow> registry \<Rightarrow> (sub_error + registry) set" where
  "sub_step R tenants (PauseRequest q) reg =
     for_tenant tenants (sk_TenantCustomerId q) (\<lambda>t. {change_status NotPausable [''active'', ''degraded''] ''paused'' t (sk_Id q) reg})"
| "sub_step R tenants (ResumeRequest q) reg =
     for_tenant tenants (sk_TenantCustomerId q) (\<lambda>t. {change_status NotResumable [''paused''] ''active'' t (sk_Id q) reg})"
| "sub_step R tenants (DeleteRequest q) reg =
     for_tenant tenants (sk_TenantCustomerId q)
       (\<lambda>t. {if owned t reg (sk_Id q) then Inr (reg(sk_Id q := None)) else Inl NoSubscription})"
| "sub_step R tenants (GetRequest q) reg =
     for_tenant tenants (sk_TenantCustomerId q) (\<lambda>t. {if owned t reg (sk_Id q) then Inr reg else Inl NoSubscription})"
| "sub_step R tenants (ListRequest c p) reg = for_tenant tenants c (\<lambda>t. {Inr reg})"
| "sub_step R tenants (UpdateRequest q) reg =
     (if nothing_to_update q then {Inl BadRequest}
      else if type_ids R (map ToLower (sur_AddNotificationTypes q)) = None \<or> type_ids R (sur_RemNotificationTypes q) = None
      then {Inl BadType}
      else for_tenant tenants (sur_TenantCustomerId q) (\<lambda>t. {update_entry R q t reg}))"
| "sub_step R tenants (CreateRequest q) reg =
     for_tenant tenants (scr_TenantCustomerId q)
       (\<lambda>t. case type_ids R (map ToLower (scr_NotificationTypes q)) of
              None \<Rightarrow> {Inl BadType}
            | Some types \<Rightarrow> {Inr (reg(i \<mapsto> new_entry R q t types)) |i. reg i = None \<and> i \<noteq> []})"

section \<open>The repository\<close>

text \<open>A condition holds of an entry when its non-zero fields agree; a row shows an entry.\<close>

definition fits :: "VSubscription \<Rightarrow> string \<Rightarrow> sub_entry \<Rightarrow> bool" where
  "fits c i e \<longleftrightarrow> (vs_ID c = [] \<or> vs_ID c = i) \<and> (vs_TenantID c = [] \<or> vs_TenantID c = se_Tenant e) \<and>
     (vs_Type c = None \<or> vs_Type c = se_Type e) \<and> (vs_Status c = [] \<or> vs_Status c = se_Status e)"

definition fits_any :: "VSubscription list \<Rightarrow> string \<Rightarrow> sub_entry \<Rightarrow> bool" where
  "fits_any cs i e \<longleftrightarrow> cs = [] \<or> (\<exists>c\<in>set cs. fits c i e)"

definition row_of :: "'db sub_repo \<Rightarrow> string \<Rightarrow> sub_entry \<Rightarrow> VSubscription \<Rightarrow> bool" where
  "row_of R i e v \<longleftrightarrow> vs_ID v = i \<and> vs_Status v = se_Status e \<and> vs_Description v = se_Description e \<and>
     vs_NotificationEmail v = se_Email e \<and> vs_Tags v = se_Tags e \<and>
     (\<forall>m. vs_Metadata v = Some m \<longrightarrow> (\<exists>x. sr_unmarshal R m = Inr x))"

definition add_types :: "SubscriptionNotificationType list \<Rightarrow> registry \<Rightarrow> registry" where
  "add_types ts reg = (\<lambda>i. map_option (change_types (snt_TypeID ` set (filter (\<lambda>t. snt_SubscriptionID t = i) ts)) {}) (reg i))"

definition remove_types :: "string \<Rightarrow> string list \<Rightarrow> registry \<Rightarrow> registry" where
  "remove_types s ids reg = reg(s := map_option (change_types {} (set ids)) (reg s))"

text \<open>
  The laws, one per operation: without an error the operation has its effect on the registry, with one it
  has none; \<open>quiet\<close> says that the database itself never fails. \<open>hit\<close> is the entry an update or a deletion is about.
\<close>

definition hit :: "registry \<Rightarrow> VSubscription list \<Rightarrow> string \<Rightarrow> sub_entry option" where
  "hit reg cs i = (case reg i of None \<Rightarrow> None | Some e \<Rightarrow> if fits_any cs i e then Some e else None)"

definition update_law :: "bool \<Rightarrow> 'db sub_repo \<Rightarrow> ('db \<Rightarrow> registry) \<Rightarrow> bool" where
  "update_law quiet R A \<longleftrightarrow> (\<forall>v cs back db. vs_ID v \<noteq> [] \<longrightarrow> wp (sr_Update R v cs back) (\<lambda>r db'. \<exists>n err v'. r = Ret (n, err, v') \<and>
     (case err of
        Some e \<Rightarrow> \<not> quiet \<and> A db' = A db
      | None \<Rightarrow> (case hit (A db) cs (vs_ID v) of
                   None \<Rightarrow> n = 0 \<and> A db' = A db
                 | Some e \<Rightarrow> n = 1 \<and> A db' = (A db)(vs_ID v \<mapsto> overwrite v e) \<and>
                     (back \<longrightarrow> row_of R (vs_ID v) (overwrite v e) v')))) db)"

definition delete_law :: "bool \<Rightarrow> 'db sub_repo \<Rightarrow> ('db \<Rightarrow> registry) \<Rightarrow> bool" where
  "delete_law quiet R A \<longleftrightarrow> (\<forall>v cs db. vs_ID v \<noteq> [] \<longrightarrow> wp (sr_Delete R v cs) (\<lambda>r db'. \<exists>n err. r = Ret (n, err) \<and>
     (case err of
        Some e \<Rightarrow> \<not> quiet \<and> A db' = A db
      | None \<Rightarrow> (case hit (A db) cs (vs_ID v) of
                   None \<Rightarrow> n = 0 \<and> A db' = A db
                 | Some e \<Rightarrow> n = 1 \<and> A db' = (A db)(vs_ID v := None)))) db)"

definition get_law :: "bool \<Rightarrow> 'db sub_repo \<Rightarrow> ('db \<Rightarrow> registry) \<Rightarrow> bool" where
  "get_law quiet R A \<longleftrightarrow> (\<forall>i cs db. i \<noteq> [] \<longrightarrow> wp (sr_GetByID R i cs) (\<lambda>r db'. \<exists>v err. r = Ret (v, err) \<and> A db' = A db \<and>
     (case err of
        Some e \<Rightarrow> if errors_is e (sr_ErrNotFound R) then hit (A db) cs i = None else \<not> quiet
      | None \<Rightarrow> (\<exists>e row. hit (A db) cs i = Some e \<and> v = Some row \<and> row_of R i e row))) db)"

definition count_law :: "bool \<Rightarrow> 'db sub_repo \<Rightarrow> ('db \<Rightarrow> registry) \<Rightarrow> bool" where
  "count_law quiet R A \<longleftrightarrow> (\<forall>c db. wp (sr_Count R [c]) (\<lambda>r db'. \<exists>n err. r = Ret (n, err) \<and> A db' = A db \<and>
     (case err of Some e \<Rightarrow> \<not> quiet | None \<Rightarrow> n = 0 \<longleftrightarrow> \<not> (\<exists>i e. A db i = Some e \<and> fits c i e))) db)"

definition find_law :: "bool \<Rightarrow> 'db sub_repo \<Rightarrow> ('db \<Rightarrow> registry) \<Rightarrow> bool" where
  "find_law quiet R A \<longleftrightarrow> (\<forall>c page db. wp (sr_Find R [c] page) (\<lambda>r db'. \<exists>vs err. r = Ret (vs, err) \<and> A db' = A db \<and>
     (case err of
        Some e \<Rightarrow> \<not> quiet
      | None \<Rightarrow> (\<forall>v\<in>set vs. \<exists>i e. A db i = Some e \<and> fits c i e \<and> row_of R i e v) \<and>
          (page = None \<longrightarrow> vs_ID ` set vs = {i. \<exists>e. A db i = Some e \<and> fits c i e}))) db)"

definition types_law :: "bool \<Rightarrow> 'db sub_repo \<Rightarrow> ('db \<Rightarrow> registry) \<Rightarrow> bool" where
  "types_law quiet R A \<longleftrightarrow>
     (\<forall>ts skip db. wp (sr_create_types R ts skip) (\<lambda>r db'. \<exists>err. r = Ret err \<and>
        (case err of Some e \<Rightarrow> \<not> (quiet \<and> ts \<noteq> []) | None \<Rightarrow> A db' = add_types ts (A db))) db) \<and>
     (\<forall>s ids db. wp (sr_delete_types R s ids) (\<lambda>r db'. \<exists>err. r = Ret err \<and>
        (case err of Some e \<Rightarrow> \<not> quiet | None \<Rightarrow> A db' = remove_types s ids (A db))) db) \<and>
     (\<forall>s db. wp (sr_count_types R s) (\<lambda>r db'. \<exists>n err. r = Ret (n, err) \<and> A db' = A db \<and>
        (case err of Some e \<Rightarrow> \<not> quiet | None \<Rightarrow> n = 0 \<longleftrightarrow> (\<forall>e. A db s = Some e \<longrightarrow> se_Types e = {}))) db)"

text \<open>A new subscription starts active, without a channel; the webhook channel gives it its type.\<close>

definition entry_of :: "Subscription \<Rightarrow> sub_entry" where
  "entry_of s = \<lparr>se_Tenant = sb_TenantID s, se_Type = None, se_Status = ''active'', se_Description = sb_Descr s,
     se_Email = sb_NotificationEmail s, se_Tags = sb_Tags s, se_Metadata = sb_Metadata s, se_Types = {}\<rparr>"

definition create_law :: "bool \<Rightarrow> 'db sub_repo \<Rightarrow> ('db \<Rightarrow> registry) \<Rightarrow> bool" where
  "create_law quiet R A \<longleftrightarrow>
     (\<forall>s db. wp (sr_create R s) (\<lambda>r db'. \<exists>s' err. r = Ret (s', err) \<and>
        (case err of
           Some e \<Rightarrow> \<not> quiet
         | None \<Rightarrow> A db (sb_ID s') = None \<and> sb_ID s' \<noteq> [] \<and> A db' = (A db)(sb_ID s' \<mapsto> entry_of s))) db) \<and>
     (\<forall>c db. wp (sr_create_channel R c) (\<lambda>r db'. \<exists>err. r = Ret err \<and>
        (case err of
           Some e \<Rightarrow> \<not> quiet
         | None \<Rightarrow> A db' = (A db)(wch_SubscriptionID c :=
                     map_option (\<lambda>e. e\<lparr>se_Type := Some ''webhook''\<rparr>) (A db (wch_SubscriptionID c))))) db) \<and>
     (\<forall>db. wp (sr_uuid R) (\<lambda>r db'. \<exists>u. r = Ret u \<and> A db' = A db) db)"

text \<open>A transaction keeps what its body did when the body ends without an error and the commit succeeds, else nothing.\<close>

definition transaction_law :: "bool \<Rightarrow> 'db sub_repo \<Rightarrow> ('db \<Rightarrow> registry) \<Rightarrow> bool" where
  "transaction_law quiet R A \<longleftrightarrow> (\<forall>body db v err db1. body db = (Ret (v, err), db1) \<longrightarrow>
     (\<exists>v' err' db'. sr_transaction R body db = (Ret (v', err'), db') \<and>
        (case err' of
           None \<Rightarrow> err = None \<and> v' = v \<and> A db' = A db1
         | Some e' \<Rightarrow> (quiet \<longrightarrow> err = Some e') \<and> A db' = A db)))"

definition customer_law :: "bool \<Rightarrow> 'db sub_repo \<Rightarrow> ('db \<Rightarrow> registry) \<Rightarrow> (string \<Rightarrow> string option) \<Rightarrow> bool" where
  "customer_law quiet R A tenants \<longleftrightarrow> (\<forall>customer conds db.
     wp (sr_cached R customer (sr_customer R customer conds)) (\<lambda>r db'. \<exists>c err. r = Ret (c, err) \<and> A db' = A db \<and>
       (case err of
          Some e \<Rightarrow> if errors_is e (sr_ErrNotFound R) then tenants customer = None else \<not> quiet
        | None \<Rightarrow> (\<exists>row. c = Some row \<and> vtc_TenantID row = tenants customer) \<and> tenants customer \<noteq> Some [])) db)"

definition store :: "bool \<Rightarrow> 'db sub_repo \<Rightarrow> ('db \<Rightarrow> registry) \<Rightarrow> (string \<Rightarrow> string option) \<Rightarrow> bool" where
  "store quiet R A tenants \<longleftrightarrow> update_law quiet R A \<and> delete_law quiet R A \<and> get_law quiet R A \<and> count_law quiet R A \<and>
     find_law quiet R A \<and> types_law quiet R A \<and> create_law quiet R A \<and> transaction_law quiet R A \<and>
     customer_law quiet R A tenants \<and>
     (quiet \<longrightarrow> sr_status_id R ''paused'' \<noteq> [] \<and> sr_status_id R ''active'' \<noteq> [] \<and> (\<forall>m. \<exists>t. sr_marshal R m = Inr t))"

section \<open>Rules\<close>

text \<open>The laws as rules for the calls: what may be assumed of the answer and of the state after it.\<close>

lemma store_laws:
  assumes "store quiet R A tenants"
  shows "update_law quiet R A" "delete_law quiet R A" "get_law quiet R A" "count_law quiet R A" "find_law quiet R A"
    "types_law quiet R A" "create_law quiet R A" "transaction_law quiet R A" "customer_law quiet R A tenants"
  using assms by (simp_all add: store_def)

lemma wp_Update:
  assumes "store quiet R A tenants" "vs_ID v \<noteq> []"
    "\<And>n err v' db'. (case err of
        Some e \<Rightarrow> \<not> quiet \<and> A db' = A db
      | None \<Rightarrow> (case hit (A db) cs (vs_ID v) of
                   None \<Rightarrow> n = 0 \<and> A db' = A db
                 | Some e \<Rightarrow> n = 1 \<and> A db' = (A db)(vs_ID v \<mapsto> overwrite v e) \<and>
                     (back \<longrightarrow> row_of R (vs_ID v) (overwrite v e) v'))) \<Longrightarrow> Q (Ret (n, err, v')) db'"
  shows "wp (sr_Update R v cs back) Q db"
  by (rule wp_mono [OF store_laws(1) [OF assms(1), unfolded update_law_def, rule_format, OF assms(2)]]) (elim exE conjE, simp only:, rule assms(3))

lemma wp_Delete:
  assumes "store quiet R A tenants" "vs_ID v \<noteq> []"
    "\<And>n err db'. (case err of
        Some e \<Rightarrow> \<not> quiet \<and> A db' = A db
      | None \<Rightarrow> (case hit (A db) cs (vs_ID v) of
                   None \<Rightarrow> n = 0 \<and> A db' = A db
                 | Some e \<Rightarrow> n = 1 \<and> A db' = (A db)(vs_ID v := None))) \<Longrightarrow> Q (Ret (n, err)) db'"
  shows "wp (sr_Delete R v cs) Q db"
  by (rule wp_mono [OF store_laws(2) [OF assms(1), unfolded delete_law_def, rule_format, OF assms(2)]]) (elim exE conjE, simp only:, rule assms(3))

lemma wp_GetByID:
  assumes "store quiet R A tenants" "i \<noteq> []"
    "\<And>v err db'. A db' = A db \<Longrightarrow> (case err of
        Some e \<Rightarrow> if errors_is e (sr_ErrNotFound R) then hit (A db) cs i = None else \<not> quiet
      | None \<Rightarrow> (\<exists>e row. hit (A db) cs i = Some e \<and> v = Some row \<and> row_of R i e row)) \<Longrightarrow> Q (Ret (v, err)) db'"
  shows "wp (sr_GetByID R i cs) Q db"
  by (rule wp_mono [OF store_laws(3) [OF assms(1), unfolded get_law_def, rule_format, OF assms(2)]]) (elim exE conjE, simp only:, rule assms(3))

lemma wp_Count:
  assumes "store quiet R A tenants"
    "\<And>n err db'. A db' = A db \<Longrightarrow> (case err of Some e \<Rightarrow> \<not> quiet
       | None \<Rightarrow> n = 0 \<longleftrightarrow> \<not> (\<exists>i e. A db i = Some e \<and> fits c i e)) \<Longrightarrow> Q (Ret (n, err)) db'"
  shows "wp (sr_Count R [c]) Q db"
  by (rule wp_mono [OF store_laws(4) [OF assms(1), unfolded count_law_def, rule_format]]) (elim exE conjE, simp only:, rule assms(2))

lemma wp_Find:
  assumes "store quiet R A tenants"
    "\<And>vs err db'. A db' = A db \<Longrightarrow> (case err of
        Some e \<Rightarrow> \<not> quiet
      | None \<Rightarrow> (\<forall>v\<in>set vs. \<exists>i e. A db i = Some e \<and> fits c i e \<and> row_of R i e v) \<and>
          (page = None \<longrightarrow> vs_ID ` set vs = {i. \<exists>e. A db i = Some e \<and> fits c i e})) \<Longrightarrow> Q (Ret (vs, err)) db'"
  shows "wp (sr_Find R [c] page) Q db"
  by (rule wp_mono [OF store_laws(5) [OF assms(1), unfolded find_law_def, rule_format]]) (elim exE conjE, simp only:, rule assms(2))

lemma wp_create_types:
  assumes "store quiet R A tenants"
    "\<And>err db'. (case err of Some e \<Rightarrow> \<not> (quiet \<and> ts \<noteq> []) | None \<Rightarrow> A db' = add_types ts (A db)) \<Longrightarrow> Q (Ret err) db'"
  shows "wp (sr_create_types R ts skip) Q db"
  by (rule wp_mono [OF store_laws(6) [OF assms(1), unfolded types_law_def, THEN conjunct1, rule_format]]) (elim exE conjE, simp only:, rule assms(2))

lemma wp_delete_types:
  assumes "store quiet R A tenants"
    "\<And>err db'. (case err of Some e \<Rightarrow> \<not> quiet | None \<Rightarrow> A db' = remove_types s ids (A db)) \<Longrightarrow> Q (Ret err) db'"
  shows "wp (sr_delete_types R s ids) Q db"
  by (rule wp_mono [OF store_laws(6) [OF assms(1), unfolded types_law_def, THEN conjunct2, THEN conjunct1, rule_format]]) (elim exE conjE, simp only:, rule assms(2))

lemma wp_count_types:
  assumes "store quiet R A tenants"
    "\<And>n err db'. A db' = A db \<Longrightarrow> (case err of Some e \<Rightarrow> \<not> quiet
       | None \<Rightarrow> n = 0 \<longleftrightarrow> (\<forall>e. A db s = Some e \<longrightarrow> se_Types e = {})) \<Longrightarrow> Q (Ret (n, err)) db'"
  shows "wp (sr_count_types R s) Q db"
  by (rule wp_mono [OF store_laws(6) [OF assms(1), unfolded types_law_def, THEN conjunct2, THEN conjunct2, rule_format]]) (elim exE conjE, simp only:, rule assms(2))

lemma wp_create:
  assumes "store quiet R A tenants"
    "\<And>s' err db'. (case err of
        Some e \<Rightarrow> \<not> quiet
      | None \<Rightarrow> A db (sb_ID s') = None \<and> sb_ID s' \<noteq> [] \<and> A db' = (A db)(sb_ID s' \<mapsto> entry_of s)) \<Longrightarrow> Q (Ret (s', err)) db'"
  shows "wp (sr_create R s) Q db"
  by (rule wp_mono [OF store_laws(7) [OF assms(1), unfolded create_law_def, THEN conjunct1, rule_format]]) (elim exE conjE, simp only:, rule assms(2))

lemma wp_create_channel:
  assumes "store quiet R A tenants"
    "\<And>err db'. (case err of
        Some e \<Rightarrow> \<not> quiet
      | None \<Rightarrow> A db' = (A db)(wch_SubscriptionID c :=
                  map_option (\<lambda>e. e\<lparr>se_Type := Some ''webhook''\<rparr>) (A db (wch_SubscriptionID c)))) \<Longrightarrow> Q (Ret err) db'"
  shows "wp (sr_create_channel R c) Q db"
  by (rule wp_mono [OF store_laws(7) [OF assms(1), unfolded create_law_def, THEN conjunct2, THEN conjunct1, rule_format]]) (elim exE conjE, simp only:, rule assms(2))

lemma wp_uuid:
  assumes "store quiet R A tenants" "\<And>u db'. A db' = A db \<Longrightarrow> Q (Ret u) db'"
  shows "wp (sr_uuid R) Q db"
  by (rule wp_mono [OF store_laws(7) [OF assms(1), unfolded create_law_def, THEN conjunct2, THEN conjunct2, rule_format]]) (elim exE conjE, simp only:, rule assms(2))

text \<open>A transaction: its body is run on the same database, and an error leaves the registry as it was.\<close>

lemma wp_transaction:
  assumes "store quiet R A tenants"
    "wp body (\<lambda>r db1. \<exists>v err. r = Ret (v, err) \<and>
       (case err of
          None \<Rightarrow> \<forall>db'. A db' = A db1 \<longrightarrow> Q (Ret (v, None)) db'
        | Some e \<Rightarrow> quiet \<longrightarrow> (\<forall>v' db'. A db' = A db \<longrightarrow> Q (Ret (v', Some e)) db'))) db"
    "\<And>v' e' db'. \<not> quiet \<Longrightarrow> A db' = A db \<Longrightarrow> Q (Ret (v', Some e')) db'"
  shows "wp (sr_transaction R body) Q db"
proof -
  obtain v err db1 where body: "body db = (Ret (v, err), db1)"
    and post: "case err of None \<Rightarrow> \<forall>db'. A db' = A db1 \<longrightarrow> Q (Ret (v, None)) db'
      | Some e \<Rightarrow> quiet \<longrightarrow> (\<forall>v' db'. A db' = A db \<longrightarrow> Q (Ret (v', Some e)) db')"
    using assms(2) by (auto simp: wp_def split: prod.splits)
  obtain v' err' db' where run: "sr_transaction R body db = (Ret (v', err'), db')"
    and law: "case err' of None \<Rightarrow> err = None \<and> v' = v \<and> A db' = A db1 | Some e' \<Rightarrow> (quiet \<longrightarrow> err = Some e') \<and> A db' = A db"
    using assms(1) body unfolding store_def transaction_law_def by metis
  show ?thesis
    using law post assms(3) by (cases "err'"; cases quiet) (auto simp: wp_def run)
qed

lemma wp_GetTenantID:
  assumes "store quiet R A tenants"
    "\<And>t db'. A db' = A db \<Longrightarrow> tenants customer = Some t \<Longrightarrow> t \<noteq> [] \<Longrightarrow> Q (Ret (t, None)) db'"
    "\<And>db'. A db' = A db \<Longrightarrow> tenants customer = None \<Longrightarrow> Q (Ret ([], Some ErrInvalidTenantCustomerID)) db'"
    "\<And>e db'. A db' = A db \<Longrightarrow> \<not> quiet \<Longrightarrow> Q (Ret ([], Some e)) db'"
  shows "wp (GetTenantID R customer) Q db"
proof -
  have "wp (sr_cached R customer (sr_customer R customer [zero_VTenantCustomer\<lparr>vtc_CustomerNumber := Some customer\<rparr>]))
      (\<lambda>r db'. \<exists>c err. r = Ret (c, err) \<and> A db' = A db \<and>
       (case err of
          Some e \<Rightarrow> if errors_is e (sr_ErrNotFound R) then tenants customer = None else \<not> quiet
        | None \<Rightarrow> (\<exists>row. c = Some row \<and> vtc_TenantID row = tenants customer) \<and> tenants customer \<noteq> Some [])) db"
    using store_laws(9) [OF assms(1)] unfolding customer_law_def by blast
  then show ?thesis
    unfolding GetTenantID_def wp_bnd
  proof (rule wp_mono, elim exE conjE, goal_cases)
    case (1 r s' c err)
    then show ?case
      by (cases err; cases "tenants customer")
         (auto simp: wp assms(2-4) split: if_splits)
  qed
qed

end
