(* ===== verification/Subscription_Refine.thy ===== *)
theory Subscription_Refine
  imports Subscription_Spec
begin

text \<open>
  The service of the subscription manager refines the registry: every operation, on a repository that keeps the
  laws, either takes the registry's step or reports an error and leaves the registry as it was.
\<close>

section \<open>Results\<close>

text \<open>The sentinel by which an error tells what was wrong; only one of them is in an error's chain.\<close>

fun sentinel :: "sub_error \<Rightarrow> gerr" where
  "sentinel UnknownCustomer = ErrInvalidTenantCustomerID"
| "sentinel NoSubscription = SM_ErrNotFound"
| "sentinel NotPausable = ErrStatusCannotBePaused"
| "sentinel NotResumable = ErrStatusCannotBeResumed"
| "sentinel NoTypes = ErrNew ''removing all subscription notification types is not allowed''"
| "sentinel BadType = ErrInvalidNotificationType"
| "sentinel BadRequest = ErrInvalidRequest"

definition signals :: "gerr \<Rightarrow> sub_error \<Rightarrow> bool" where
  "signals e er \<longleftrightarrow> (\<forall>er'\<in>{UnknownCustomer, NoSubscription, NotPausable, NotResumable, NoTypes, BadType, BadRequest}.
     errors_is e (sentinel er') = (er' = er))"

lemma signals_simps [simp]:
  "signals ErrInvalidTenantCustomerID er = (er = UnknownCustomer)" "signals SM_ErrNotFound er = (er = NoSubscription)"
  "signals ErrStatusCannotBePaused er = (er = NotPausable)" "signals ErrStatusCannotBeResumed er = (er = NotResumable)"
  "signals (ErrNew ''removing all subscription notification types is not allowed'') er = (er = NoTypes)"
  "signals (ErrNote ErrInvalidNotificationType s) er = (er = BadType)" "signals ErrInvalidRequest er = (er = BadRequest)"
  "signals (ErrWrap s e) er = signals e er"
  by (cases er; simp add: signals_def sm_errors)+

definition describes :: "'db sub_repo \<Rightarrow> registry \<Rightarrow> string \<Rightarrow> SubscriptionDetailsResponse \<Rightarrow> bool" where
  "describes R reg i d \<longleftrightarrow> (\<exists>e. reg i = Some e \<and> sdr_Id d = i \<and> sdr_Status d = SubscriptionStatusToProto R (se_Status e) \<and>
     sdr_Description d = se_Description e \<and> sdr_NotificationEmail d = se_Email e \<and> sdr_Tags d = se_Tags e)"

text \<open>What a request is answered with, given the registry before and after it.\<close>

fun response_ok ::
  "'db sub_repo \<Rightarrow> (string \<Rightarrow> string option) \<Rightarrow> registry \<Rightarrow> registry \<Rightarrow> sub_request \<Rightarrow> sub_response option \<Rightarrow> bool" where
  "response_ok R tenants old reg (PauseRequest q) resp = (\<exists>d. resp = Some (PauseResponse (Some d)) \<and> describes R reg (sk_Id q) d)"
| "response_ok R tenants old reg (ResumeRequest q) resp = (\<exists>d. resp = Some (ResumeResponse (Some d)) \<and> describes R reg (sk_Id q) d)"
| "response_ok R tenants old reg (GetRequest q) resp = (\<exists>d. resp = Some (GetResponse (Some d)) \<and> describes R reg (sk_Id q) d)"
| "response_ok R tenants old reg (DeleteRequest q) resp = (resp = Some DeleteResponse)"
| "response_ok R tenants old reg (UpdateRequest q) resp = (\<exists>d. resp = Some (UpdateResponse (Some d)) \<and> describes R reg (sur_Id q) d)"
| "response_ok R tenants old reg (CreateRequest q) resp =
     (\<exists>d k. resp = Some (CreateResponse (Some d) k) \<and> old (sdr_Id d) = None \<and> describes R reg (sdr_Id d) d)"
| "response_ok R tenants old reg (ListRequest c p) resp =
     (\<exists>ds n. resp = Some (ListResponse ds n) \<and>
        (\<forall>d\<in>set ds. \<exists>d'. d = Some d' \<and> owned (the (tenants c)) reg (sdr_Id d') \<and> describes R reg (sdr_Id d') d') \<and>
        (p = None \<longrightarrow> (\<lambda>d. sdr_Id (the d)) ` set ds = {i. owned (the (tenants c)) reg i} \<and>
           (length ds < 2 ^ 63 \<longrightarrow> n = to_i32 (int (length ds)))))"

definition settles ::
  "bool \<Rightarrow> 'db sub_repo \<Rightarrow> ('db \<Rightarrow> registry) \<Rightarrow> (string \<Rightarrow> string option) \<Rightarrow> sub_request \<Rightarrow> 'db
     \<Rightarrow> (sub_response option \<times> gerr option) outcome \<Rightarrow> 'db \<Rightarrow> bool" where
  "settles quiet R A tenants req db r db' \<longleftrightarrow> (\<exists>resp err. r = Ret (resp, err) \<and>
     (case err of
        None \<Rightarrow> Inr (A db') \<in> sub_step R tenants req (A db) \<and> response_ok R tenants (A db) (A db') req resp
      | Some e \<Rightarrow> A db' = A db \<and> (quiet \<longrightarrow> (\<exists>er. signals e er \<and> Inl er \<in> sub_step R tenants req (A db)))))"

fun operation :: "'db sub_repo \<Rightarrow> sub_request \<Rightarrow> ('db, sub_response option \<times> gerr option) go" where
  "operation R (CreateRequest q) = CreateSubscription R q"
| "operation R (DeleteRequest q) = DeleteSubscriptionByID R q"
| "operation R (GetRequest q) = GetSubscriptionByID R q"
| "operation R (ListRequest c p) = ListSubscriptions R c p"
| "operation R (PauseRequest q) = PauseSubscription R q"
| "operation R (ResumeRequest q) = ResumeSubscription R q"
| "operation R (UpdateRequest q) = UpdateSubscription R q"

text \<open>The requests that name a subscription do name one.\<close>

fun names_one :: "sub_request \<Rightarrow> bool" where
  "names_one (DeleteRequest q) = (sk_Id q \<noteq> [])"
| "names_one (GetRequest q) = (sk_Id q \<noteq> [])"
| "names_one (PauseRequest q) = (sk_Id q \<noteq> [])"
| "names_one (ResumeRequest q) = (sk_Id q \<noteq> [])"
| "names_one (UpdateRequest q) = (sur_Id q \<noteq> [])"
| "names_one (CreateRequest q) = (scr_NotificationTypes q \<noteq> [])"
| "names_one (ListRequest c p) = True"

section \<open>Lemmas\<close>

lemma wp_or_return [wp]:
  "wp (or_return m on_error f) Q s =
     wp m (\<lambda>r s'. case r of
         Ret (a, err) \<Rightarrow> (case err of Some e \<Rightarrow> wp (on_error e) Q s' | None \<Rightarrow> wp (f a) Q s')
       | Panicked p \<Rightarrow> Q (Panicked p) s' | Exited \<Rightarrow> Q Exited s') s"
  by (simp add: or_return_def wp_bnd split_def wp_case_option cong: outcome.case_cong)

lemma wp_failed [wp]: "wp (failed what e) Q s = Q (Ret (None, Some (ErrWrap what e))) s"
  by (simp add: failed_def wp)

lemma wp_convert [wp]: "wp (convert r) Q s = Q (Ret (case r of Inl e \<Rightarrow> (None, Some e) | Inr m \<Rightarrow> (m, None))) s"
  by (simp add: convert_def wp)

lemma toProto_row:
  assumes "row_of R i e v"
  obtains d where "toProto R v = Inr d" "sdr_Id d = i" "sdr_Status d = SubscriptionStatusToProto R (se_Status e)"
    "sdr_Description d = se_Description e" "sdr_NotificationEmail d = se_Email e" "sdr_Tags d = se_Tags e"
  using assms by (cases "vs_Metadata v") (auto simp: row_of_def toProto_def)

lemma describes_row:
  assumes "row_of R i e v" "reg i = Some e"
  shows "\<exists>d. ToProto_with build R (Some v) = Inr (Some (build (Some d))) \<and> describes R reg i d"
  by (rule toProto_row [OF assms(1)]) (auto simp: ToProto_with_def describes_def assms(2))

lemma describes_created:
  assumes "row_of R i e v" "reg i = Some e"
  shows "\<exists>d k. ToProtoCreate R (Some v) = Inr (Some (CreateResponse (Some d) k)) \<and> describes R reg i d"
  by (rule toProto_row [OF assms(1)]) (auto simp: ToProtoCreate_def describes_def assms(2))

lemma own_webhook_simps [simp]:
  "vs_ID (own_webhook t) = []" "vs_TenantID (own_webhook t) = t" "vs_Type (own_webhook t) = Some ''webhook''"
  "vs_Status (own_webhook t) = []"
  by (simp_all add: own_webhook_def zero_VSubscription_def SubscriptionType_Webhook_def)

lemma hit_own:
  "t \<noteq> [] \<Longrightarrow> hit reg [own_webhook t] i = (if owned t reg i then reg i else None)"
  by (auto simp: hit_def fits_any_def fits_def owned_def split: option.splits)

lemma hit_own_status:
  "t \<noteq> [] \<Longrightarrow> [] \<notin> set ss \<Longrightarrow> ss \<noteq> [] \<Longrightarrow>
   hit reg (map (\<lambda>s. (own_webhook t)\<lparr>vs_Status := s\<rparr>) ss) i =
     (if owned t reg i \<and> se_Status (the (reg i)) \<in> set ss then reg i else None)"
  by (fastforce simp: hit_def fits_any_def fits_def owned_def split: option.splits)

lemma owned_Some: "owned t reg i \<Longrightarrow> \<exists>e. reg i = Some e"
  by (auto simp: owned_def split: option.splits)

lemma fits_own:
  "t \<noteq> [] \<Longrightarrow> i \<noteq> [] \<Longrightarrow> (\<exists>j e. reg j = Some e \<and> fits ((own_webhook t)\<lparr>vs_ID := i\<rparr>) j e) \<longleftrightarrow> owned t reg i"
  by (auto simp: fits_def owned_def split: option.splits)

lemma overwrite_status: "s \<noteq> [] \<Longrightarrow> overwrite (zero_VSubscription\<lparr>vs_ID := i, vs_Status := s\<rparr>) e = e\<lparr>se_Status := s\<rparr>"
  by (simp add: overwrite_def zero_VSubscription_def)

section \<open>The operations\<close>

lemma Pause_settles:
  assumes "store quiet R A tenants" "sk_Id q \<noteq> []"
  shows "wp (PauseSubscription R q) (settles quiet R A tenants (PauseRequest q) db) db"
  unfolding PauseSubscription_def wp_or_return
proof (rule wp_GetTenantID [OF assms(1)], goal_cases)
  case (1 t db1)
  have statuses: "hit reg [(own_webhook t)\<lparr>vs_Status := ''active''\<rparr>, (own_webhook t)\<lparr>vs_Status := ''degraded''\<rparr>] i =
      (if owned t reg i \<and> se_Status (the (reg i)) \<in> {''active'', ''degraded''} then reg i else None)" for reg i
    using hit_own_status [OF 1(3), of "[''active'', ''degraded'']"] by simp
  show ?case
  proof (cases "sr_status_id R ''paused'' = []")
    case True
    then show ?thesis using 1 assms(1) by (simp add: wp settles_def store_def)
  next
    case False
    show ?thesis
      unfolding prod.case outcome.case option.case if_not_P [OF False] wp_bnd
    proof (rule wp_Update [OF assms(1)], goal_cases)
      case 1 then show ?case using assms(2) by simp
    next
      case (2 n err v db2)
      note tenant = 1 and law = this [unfolded statuses]
      show ?case
      proof (cases "err = None \<and> owned t (A db) (sk_Id q) \<and> se_Status (the (A db (sk_Id q))) \<in> {''active'', ''degraded''}")
        case True
        then obtain e where e: "A db (sk_Id q) = Some e" using owned_Some by blast
        let ?e = "e\<lparr>se_Status := ''paused''\<rparr>"
        have new: "n = 1" "A db2 = (A db)(sk_Id q \<mapsto> ?e)" "row_of R (sk_Id q) ?e v"
          using law True tenant(1) e by (simp_all add: overwrite_status)
        then obtain d where "ToProtoPause R (Some v) = Inr (Some (PauseResponse (Some d)))" "describes R (A db2) (sk_Id q) d"
          using describes_row [OF new(3), of "A db2" PauseResponse] by (auto simp: ToProtoPause_def)
        then show ?thesis
          using new True tenant(2) e by (simp add: wp settles_def for_tenant_def change_status_def)
      next
        case False
        then have same: "A db2 = A db" "err = None \<longrightarrow> n = 0" "err \<noteq> None \<longrightarrow> \<not> quiet"
          using law tenant(1) by (cases err; simp split: if_splits option.splits)+
        show ?thesis
        proof (cases err)
          case None
          show ?thesis
            unfolding outcome.case prod.case None option.case
          proof (simp add: same None wp, rule wp_Count [OF assms(1)], goal_cases)
            case (1 n' err' db3)
            then show ?case
              using same None False tenant(2) fits_own [OF tenant(3) assms(2), of "A db2"]
              by (auto simp: wp settles_def for_tenant_def change_status_def split: option.splits)
          qed
        qed (use same in \<open>simp add: wp settles_def\<close>)
      qed
    qed
  qed
qed (simp_all add: wp settles_def for_tenant_def)

lemma Delete_settles:
  assumes "store quiet R A tenants" "sk_Id q \<noteq> []"
  shows "wp (DeleteSubscriptionByID R q) (settles quiet R A tenants (DeleteRequest q) db) db"
  unfolding DeleteSubscriptionByID_def wp_or_return
proof (rule wp_GetTenantID [OF assms(1)], goal_cases)
  case (1 t db1)
  show ?case
    unfolding prod.case outcome.case option.case wp_or_return
  proof (rule wp_Delete [OF assms(1)], goal_cases)
    case (2 n err db2)
    then show ?case
      using 1 owned_Some [of t "A db" "sk_Id q"]
      by (cases err) (auto simp: wp settles_def for_tenant_def hit_own split: if_splits)
  qed (use assms(2) in simp)
qed (simp_all add: wp settles_def for_tenant_def)

lemma wp_getVSubscriptionByID:
  assumes "store quiet R A tenants" "i \<noteq> []" "t \<noteq> []"
    "\<And>e row db'. A db' = A db \<Longrightarrow> owned t (A db) i \<Longrightarrow> A db i = Some e \<Longrightarrow> row_of R i e row \<Longrightarrow> Q (Ret (Some row, None)) db'"
    "\<And>db'. A db' = A db \<Longrightarrow> \<not> owned t (A db) i \<Longrightarrow> Q (Ret (None, Some SM_ErrNotFound)) db'"
    "\<And>v e db'. A db' = A db \<Longrightarrow> \<not> quiet \<Longrightarrow> Q (Ret (v, Some e)) db'"
  shows "wp (getVSubscriptionByID R i t) Q db"
  unfolding getVSubscriptionByID_def wp_bnd
proof (rule wp_GetByID [OF assms(1,2)], goal_cases)
  case (1 v err db')
  then show ?case
    using assms(4-6) [OF 1(1)] owned_Some [of t "A db" i]
    by (auto simp: wp hit_own [OF assms(3)] split: option.splits if_splits)
qed

lemma Get_settles:
  assumes "store quiet R A tenants" "sk_Id q \<noteq> []"
  shows "wp (GetSubscriptionByID R q) (settles quiet R A tenants (GetRequest q) db) db"
  unfolding GetSubscriptionByID_def wp_or_return
proof (rule wp_GetTenantID [OF assms(1)], goal_cases)
  case (1 t db1)
  show ?case
    unfolding prod.case outcome.case option.case wp_or_return
  proof (rule wp_getVSubscriptionByID [OF assms 1(3)], goal_cases)
    case (1 e row db2)
    then show ?case
      using \<open>A db1 = A db\<close> \<open>tenants _ = _\<close> describes_row [OF 1(4), of "A db" GetResponse]
      by (auto simp: wp settles_def for_tenant_def ToProtoGet_def)
  qed (use 1 in \<open>simp_all add: wp settles_def for_tenant_def\<close>)
qed (simp_all add: wp settles_def for_tenant_def)

lemma Resume_settles:
  assumes "store quiet R A tenants" "sk_Id q \<noteq> []"
  shows "wp (ResumeSubscription R q) (settles quiet R A tenants (ResumeRequest q) db) db"
  unfolding ResumeSubscription_def wp_or_return
proof (rule wp_GetTenantID [OF assms(1)], goal_cases)
  case (1 t db1)
  note tenant = 1
  have paused: "hit reg [(own_webhook t)\<lparr>vs_Status := ''paused''\<rparr>] i =
      (if owned t reg i \<and> se_Status (the (reg i)) = ''paused'' then reg i else None)" for reg i
    using hit_own_status [OF 1(3), of "[''paused'']"] by simp
  show ?case
  proof (cases "sr_status_id R ''active'' = []")
    case True
    then show ?thesis using 1 assms(1) by (simp add: wp settles_def store_def)
  next
    case False
    show ?thesis
      unfolding prod.case outcome.case option.case if_not_P [OF False] wp_or_return
    proof (rule wp_transaction [OF assms(1)], unfold wp_bnd, rule wp_Update [OF assms(1)], goal_cases)
      case 1 then show ?case using assms(2) by simp
    next
      case (2 n err v db2)
      note update = this [unfolded paused]
      show ?case
      proof (cases err)
        case (Some e)
        then show ?thesis using update tenant(1) by (simp add: wp settles_def)
      next
        case None
        show ?thesis
          unfolding None outcome.case prod.case option.case wp_bnd
        proof (rule wp_GetByID [OF assms], goal_cases)
          case (1 row err db3)
          show ?case
          proof (cases "owned t (A db) (sk_Id q) \<and> se_Status (the (A db (sk_Id q))) = ''paused''")
            case True
            then obtain e where e: "A db (sk_Id q) = Some e" "se_Tenant e = t" "se_Type e = Some ''webhook''"
              by (auto simp: owned_def split: option.splits)
            let ?e = "e\<lparr>se_Status := ''active''\<rparr>"
            have new: "n = 1" "A db2 = (A db)(sk_Id q \<mapsto> ?e)" "owned t (A db2) (sk_Id q)"
              using update None True tenant(1) e by (simp_all add: overwrite_status owned_def)
            show ?thesis
            proof (cases err)
              case err: None
              then obtain v where v: "row = Some v" "row_of R (sk_Id q) ?e v"
                using 1 new by (auto simp: hit_own [OF tenant(3)])
              obtain d where d: "ToProtoResume R (Some v) = Inr (Some (ResumeResponse (Some d)))" "describes R (A db2) (sk_Id q) d"
                using describes_row [OF v(2), of "A db2" ResumeResponse] new(2) by (auto simp: ToProtoResume_def)
              then show ?thesis
                using err v(1) new True tenant(1,2) e 1(1)
                by (simp add: wp settles_def for_tenant_def change_status_def)
            next
              case (Some e')
              then show ?thesis using 1 new by (simp add: wp hit_own [OF tenant(3)] split: if_splits)
            qed
          next
            case False
            then have same: "n = 0" "A db2 = A db" using update None tenant(1) by (simp_all split: if_splits)
            show ?thesis
              using 1 same False tenant(1,2)
              by (cases err)
                 (auto simp: wp settles_def for_tenant_def change_status_def hit_own [OF tenant(3)] split: if_splits
                    dest: owned_Some)
          qed
        qed
      qed
    qed (use tenant in \<open>simp add: wp settles_def\<close>)
  qed
qed (simp_all add: wp settles_def for_tenant_def)

lemma to_proto_list_rows:
  assumes "\<forall>v\<in>set vs. \<exists>i e. reg i = Some e \<and> P i e \<and> row_of R i e v"
  shows "\<exists>ds. to_proto_list R vs = Inr ds \<and> map (\<lambda>d. sdr_Id (the d)) ds = map vs_ID vs \<and>
     (\<forall>d\<in>set ds. \<exists>d' e. d = Some d' \<and> describes R reg (sdr_Id d') d' \<and> reg (sdr_Id d') = Some e \<and> P (sdr_Id d') e)"
  using assms
proof (induction vs)
  case (Cons v vs)
  then obtain ds where ds: "to_proto_list R vs = Inr ds" "map (\<lambda>d. sdr_Id (the d)) ds = map vs_ID vs"
      "\<forall>d\<in>set ds. \<exists>d' e. d = Some d' \<and> describes R reg (sdr_Id d') d' \<and> reg (sdr_Id d') = Some e \<and> P (sdr_Id d') e"
    by auto
  obtain i e where e: "reg i = Some e" "P i e" "row_of R i e v" using Cons.prems by auto
  from toProto_row [OF e(3)] obtain d where "toProto R v = Inr d" "sdr_Id d = i" "describes R reg i d"
    using e(1) by (metis describes_def)
  moreover have "vs_ID v = i" using e(3) by (simp add: row_of_def)
  ultimately show ?case using ds e by auto
qed simp

lemma find_list_settles:
  assumes "store quiet R A tenants" "t \<noteq> []" "tenants customer = Some t" "A db1 = A db" "p = None \<longrightarrow> page = None \<and> n = 0"
  shows "wp (find_list R t page n) (settles quiet R A tenants (ListRequest customer p) db) db1"
  unfolding find_list_def wp_or_return
proof (rule wp_Find [OF assms(1)], goal_cases)
  case (1 vs err db2)
  show ?case
  proof (cases err)
    case None
    have owned: "(\<exists>e. reg i = Some e \<and> fits (own_webhook t) i e) = owned t reg i" for i reg
      using assms(2) by (auto simp: fits_def owned_def split: option.splits)
    have rows: "\<forall>v\<in>set vs. \<exists>i e. A db i = Some e \<and> fits (own_webhook t) i e \<and> row_of R i e v"
      and all: "page = None \<longrightarrow> vs_ID ` set vs = {i. owned t (A db) i}"
      using 1 None assms(4) by (simp_all add: owned)
    from to_proto_list_rows [OF rows] obtain ds where
      ds: "to_proto_list R vs = Inr ds" "map (\<lambda>d. sdr_Id (the d)) ds = map vs_ID vs"
        "\<forall>d\<in>set ds. \<exists>d' e. d = Some d' \<and> describes R (A db) (sdr_Id d') d' \<and> A db (sdr_Id d') = Some e \<and> fits (own_webhook t) (sdr_Id d') e"
      by blast
    have "length ds = length vs" using ds(2) by (metis length_map)
    moreover have "length vs < 2 ^ 63 \<Longrightarrow> sint (word_of_nat (length vs) :: i64) = int (length vs)"
      using sint_word_of_int_64 [of "int (length vs)"] by simp
    moreover have "(\<lambda>d. sdr_Id (the d)) ` set ds = vs_ID ` set vs" using ds(2) by (metis list.set_map)
    moreover have "\<forall>d\<in>set ds. \<exists>d'. d = Some d' \<and> owned t (A db) (sdr_Id d') \<and> describes R (A db) (sdr_Id d') d'"
      using ds(3) owned by blast
    ultimately show ?thesis
      using 1(1) None assms(3-5) ds(1) all
      by (simp add: wp settles_def for_tenant_def VSubscriptionListToProto_def sint_word_of_int_64)
  qed (use 1 assms(4) in \<open>simp add: wp settles_def\<close>)
qed

lemma List_settles:
  assumes "store quiet R A tenants"
  shows "wp (ListSubscriptions R c p) (settles quiet R A tenants (ListRequest c p) db) db"
  unfolding ListSubscriptions_def wp_or_return
proof (rule wp_GetTenantID [OF assms(1)], goal_cases)
  case (1 t db1)
  show ?case
  proof (cases p)
    case None
    then show ?thesis using find_list_settles [OF assms 1(3,2,1), of None None 0] by simp
  next
    case (Some pg)
    show ?thesis
      unfolding prod.case outcome.case option.case Some wp_or_return
    proof (rule wp_Count [OF assms], goal_cases)
      case count: (1 n err db2)
      then show ?case
        using 1 find_list_settles [OF assms 1(3,2), of db2 db "Some pg"]
        by (cases err) (simp_all add: wp settles_def for_tenant_def)
    qed
  qed
qed (simp_all add: wp settles_def for_tenant_def)

text \<open>Looking up names of types.\<close>

lemma type_ids_Cons:
  "type_ids R (n # ns) =
     (if sr_type_id R n = [] then None else map_option ((#) (sr_type_id R n)) (type_ids R ns))"
  by (auto simp: type_ids_def Let_def)

lemma type_ids_Nil [simp]: "type_ids R [] = Some []"
  by (simp add: type_ids_def)

lemma type_ids_length: "type_ids R ns = Some ids \<Longrightarrow> length ids = length ns"
  by (auto simp: type_ids_def Let_def split: if_splits)

lemma notificationTypeIDs_spec:
  "(case type_ids R names of
      None \<Rightarrow> (\<exists>n. notificationTypeIDs R names = Inl (ErrNote ErrInvalidNotificationType n))
    | Some ids \<Rightarrow> notificationTypeIDs R names = Inr ids)"
  by (induction names) (auto simp: type_ids_Cons Let_def split: option.splits)

definition type_rows :: "string \<Rightarrow> string list \<Rightarrow> SubscriptionNotificationType list" where
  "type_rows s ids = map (\<lambda>i. \<lparr>snt_ID = [], snt_SubscriptionID = s, snt_TypeID = i\<rparr>) ids"

lemma notificationTypes_spec:
  "(case type_ids R (map ToLower names) of
      None \<Rightarrow> (\<exists>n. notificationTypes R s names = Inl (ErrNote ErrInvalidNotificationType n))
    | Some ids \<Rightarrow> notificationTypes R s names = Inr (type_rows s ids))"
  by (induction names) (auto simp: type_ids_Cons type_rows_def Let_def split: option.splits)

lemma type_rows_empty [simp]: "type_rows s ids = [] \<longleftrightarrow> ids = []" "length (type_rows s ids) = length ids"
  by (simp_all add: type_rows_def)

definition retype :: "string \<Rightarrow> string list \<Rightarrow> string list \<Rightarrow> registry \<Rightarrow> registry" where
  "retype s add rem reg = reg(s := map_option (change_types (set add) (set rem)) (reg s))"

lemma change_types_simps [simp]:
  "change_types {} {} = id" "change_types {} c (change_types a {} e) = change_types a c e"
  by (simp_all add: change_types_def fun_eq_iff)

lemma retype_simps [simp]: "retype s [] [] reg = reg"
  by (simp add: retype_def option.map_id)

lemma add_types_rows: "add_types (type_rows s ids) reg = retype s ids [] reg"
  by (rule ext) (simp add: add_types_def retype_def type_rows_def filter_map comp_def image_image option.map_id)

lemma remove_retype: "remove_types s rem (retype s add [] reg) = retype s add rem reg"
  by (simp add: remove_types_def retype_def option.map_comp comp_def)

lemma owned_retype [simp]: "owned t (retype s add rem reg) i = owned t reg i"
  by (simp add: owned_def retype_def change_types_def split: option.splits)

lemma wp_updateNotificationTypes:
  assumes st: "store quiet R A tenants" and ids: "s \<noteq> []" "t \<noteq> []"
    and Q: "\<And>err db'. (case err of
        None \<Rightarrow> A db' = retype s add rem (A db) \<and> (add \<noteq> [] \<or> rem \<noteq> [] \<longrightarrow> owned t (A db) s) \<and>
          (rem \<noteq> [] \<longrightarrow> se_Types (change_types (set add) (set rem) (the (A db s))) \<noteq> {})
      | Some e \<Rightarrow> quiet \<longrightarrow> (if owned t (A db) s
          then signals e NoTypes \<and> rem \<noteq> [] \<and> se_Types (change_types (set add) (set rem) (the (A db s))) = {}
          else signals e NoSubscription)) \<Longrightarrow> Q (Ret err) db'"
  shows "wp (updateNotificationTypes R s t (type_rows s add) rem) Q db"
proof (cases "add = [] \<and> rem = []")
  case True
  then show ?thesis using Q [where err = None and db' = db] by (simp add: updateNotificationTypes_def wp)
next
  case False
  then have some: "\<not> length rem + length (type_rows s add) = 0" by auto
  show ?thesis
    unfolding updateNotificationTypes_def if_not_P [OF some] wp_or_return
  proof (rule wp_Count [OF st], goal_cases)
    case (1 n err db1)
    note own = fits_own [OF ids(2,1), of "A db"]
    show ?case
    proof (cases "err = None \<and> n \<noteq> 0")
      case False
      then show ?thesis using 1 Q own by (cases err) (auto simp: wp split: if_splits)
    next
      case True
      then have owned: "owned t (A db) s" using 1 own by simp
      then obtain e where e: "A db s = Some e" using owned_Some by blast
      have add: "wp (if type_rows s add \<noteq> [] then sr_create_types R (type_rows s add) True else ret None)
          (\<lambda>r db2. \<exists>err. r = Ret err \<and> (case err of Some e \<Rightarrow> \<not> quiet | None \<Rightarrow> A db2 = retype s add [] (A db))) db1"
        using 1(1) by (auto simp: wp add_types_rows split: option.splits intro!: wp_create_types [OF st])
      show ?thesis
        unfolding outcome.case prod.case option.case conjunct1 [OF True] if_not_P [OF conjunct2 [OF True]] wp_bnd
      proof (rule wp_mono [OF add], elim exE conjE, goal_cases)
        case (1 r db2 err)
        show ?case
        proof (cases "err = None \<and> rem \<noteq> []")
          case False
          then show ?thesis using 1 Q owned by (cases err) (auto simp: wp)
        next
          case True
          show ?thesis
            unfolding 1(1) outcome.case option.case conjunct1 [OF True] if_not_P [OF conjunct2 [OF True]] wp_bnd
          proof (rule wp_delete_types [OF st], goal_cases)
            case (1 err3 db3)
            have types: "A db3 = retype s add rem (A db)" if "err3 = None"
              using 1 that True \<open>case err of Some e \<Rightarrow> \<not> quiet | None \<Rightarrow> A db2 = retype s add [] (A db)\<close>
              by (simp add: remove_retype)
            show ?case
            proof (cases err3)
              case (Some e3)
              then show ?thesis using 1 Q by (simp add: wp)
            next
              case None
              show ?thesis
                unfolding outcome.case None option.case wp_or_return
              proof (rule wp_count_types [OF st], goal_cases)
                case (1 k err4 db4)
                then show ?case
                  using Q owned True types [OF None] e
                  by (cases err4) (auto simp: wp retype_def)
              qed
            qed
          qed
        qed
      qed
    qed
  qed
qed

lemma FromProtoUpdate_cases:
  assumes "VSubscriptionFromProtoUpdate R q = Inr (Some v)"
  shows "vs_ID v = sur_Id q" "vs_Status v = []"
  using assms by (auto simp: VSubscriptionFromProtoUpdate_def Let_def zero_VSubscription_def split: if_splits option.splits sum.splits)

lemma FromProtoUpdate_None:
  "VSubscriptionFromProtoUpdate R q = Inr None \<longleftrightarrow>
     sur_Description q = None \<and> sur_NotificationEmail q = [] \<and> sur_Tags q = [] \<and> sur_Metadata q \<in> {None, Some []}"
  by (auto simp: VSubscriptionFromProtoUpdate_def Let_def split: option.splits sum.splits)

lemma FromProtoUpdate_quiet:
  "store True R A tenants \<Longrightarrow> \<exists>v. VSubscriptionFromProtoUpdate R q = Inr v"
proof -
  assume "store True R A tenants"
  then obtain t where "\<And>m. sr_marshal R m = Inr (t m)" unfolding store_def by metis
  then show ?thesis by (simp add: VSubscriptionFromProtoUpdate_def Let_def split: option.splits)
qed

lemma overwrite_owned:
  "vs_Status v = [] \<Longrightarrow> owned t (reg(i \<mapsto> overwrite v e)) i = (se_Tenant e = t \<and> se_Type e = Some ''webhook'')"
  by (simp add: owned_def overwrite_def)

text \<open>The body of the transaction of an update.\<close>

lemma update_body:
  fixes R :: "'db sub_repo"
  assumes st: "store quiet R A tenants" and ids: "sur_Id q \<noteq> []" "t \<noteq> []"
    and types: "type_ids R (map ToLower (sur_AddNotificationTypes q)) = Some add" "type_ids R (sur_RemNotificationTypes q) = Some rem"
    and v: "VSubscriptionFromProtoUpdate R q = Inr vu" and some: "vu = None \<longrightarrow> add \<noteq> [] \<or> rem \<noteq> []"
  shows "wp (bnd (updateNotificationTypes R (sur_Id q) t (type_rows (sur_Id q) add) rem) (\<lambda>err.
       case err of
         Some e \<Rightarrow> ret (vu, Some (ErrWrap ''failed to update subscription notification types'' e))
       | None \<Rightarrow>
           (case vu of
              None \<Rightarrow>
                bnd (getVSubscriptionByID R (sur_Id q) t) (\<lambda>(vSubUpdate, err).
                case err of
                  Some e \<Rightarrow> ret (vSubUpdate, Some (ErrWrap ''failed to get subscription after update'' e))
                | None \<Rightarrow> ret (vSubUpdate, None))
            | Some v \<Rightarrow>
                bnd (sr_Update R v [own_webhook t] True) (\<lambda>(rowsAffected, err, v).
                case err of
                  Some e \<Rightarrow> ret (Some v, Some (ErrWrap ''failed to update subscription'' e))
                | None \<Rightarrow>
                    if rowsAffected = 0 then ret (Some v, Some SM_ErrNotFound) else ret (Some v, None)))))
     (\<lambda>r db2. \<exists>w err. r = Ret (w, err) \<and> (case err of
         None \<Rightarrow> update_entry R q t (A db1) = Inr (A db2) \<and>
           (\<exists>row e. w = Some row \<and> A db2 (sur_Id q) = Some e \<and> row_of R (sur_Id q) e row)
       | Some e \<Rightarrow> quiet \<longrightarrow> (\<exists>er. signals e er \<and> update_entry R q t (A db1) = Inl er))) db1"
  unfolding wp_bnd
proof (rule wp_updateNotificationTypes [OF st ids], goal_cases)
  case (1 err db2)
  let ?e = "change_types (set add) (set rem) (the (A db1 (sur_Id q)))"
  have step: "update_entry R q t (A db1) =
      (if \<not> owned t (A db1) (sur_Id q) then Inl NoSubscription
       else if rem \<noteq> [] \<and> se_Types ?e = {} then Inl NoTypes
       else case vu of None \<Rightarrow> Inr ((A db1)(sur_Id q \<mapsto> ?e)) | Some v \<Rightarrow> Inr ((A db1)(sur_Id q \<mapsto> overwrite v ?e)))"
    by (simp add: update_entry_def types v Let_def split: option.splits)
  show ?case
  proof (cases err)
    case (Some e)
    then show ?thesis using 1 by (auto simp: wp step)
  next
    case None
    have reg: "A db2 = retype (sur_Id q) add rem (A db1)" "rem \<noteq> [] \<longrightarrow> se_Types ?e \<noteq> {}"
      and own: "add \<noteq> [] \<or> rem \<noteq> [] \<longrightarrow> owned t (A db1) (sur_Id q)"
      using 1 None by simp_all
    have entry: "owned t (A db1) (sur_Id q) \<Longrightarrow> A db2 (sur_Id q) = Some ?e \<and> A db2 = (A db1)(sur_Id q \<mapsto> ?e)"
      using owned_Some [of t "A db1" "sur_Id q"] by (auto simp: reg(1) retype_def)
    show ?thesis
    proof (cases vu)
      case vu: None
      have owned: "owned t (A db1) (sur_Id q)" using some own vu by simp
      show ?thesis
        unfolding None vu outcome.case option.case wp_bnd
      proof (rule wp_getVSubscriptionByID [OF st ids], goal_cases)
        case (1 e row db3)
        then show ?case using entry [OF owned] owned reg(2) by (auto simp: wp step vu)
      next
        case (2 db3)
        then show ?case using owned reg(1) by simp
      qed (simp add: wp)
    next
      case (Some v')
      have v': "vs_ID v' = sur_Id q" "vs_Status v' = []" using FromProtoUpdate_cases [of R q v'] v Some by simp_all
      show ?thesis
        unfolding None Some outcome.case option.case wp_bnd
      proof (rule wp_Update [OF st], goal_cases)
        case (2 n err3 w db3)
        note law = 2
        show ?case
        proof (cases "owned t (A db1) (sur_Id q)")
          case True
          have new: "A db2 = (A db1)(sur_Id q \<mapsto> ?e)" "A db2 (sur_Id q) = Some ?e" using entry [OF True] by simp_all
          have "owned t (A db2) (sur_Id q)" using True by (simp add: reg(1))
          then have "hit (A db2) [own_webhook t] (vs_ID v') = Some ?e" by (simp add: v' hit_own [OF ids(2)] new(2))
          with law v'(1) have "case err3 of Some e \<Rightarrow> \<not> quiet
              | None \<Rightarrow> n = 1 \<and> A db3 = (A db2)(sur_Id q \<mapsto> overwrite v' ?e) \<and> row_of R (sur_Id q) (overwrite v' ?e) w"
            by (simp split: option.splits)
          then show ?thesis
            using True reg(2) new(1) Some by (auto simp: wp step split: option.splits)
        next
          case False
          then have "hit (A db2) [own_webhook t] (vs_ID v') = None" by (simp add: v' hit_own [OF ids(2)] reg(1))
          then show ?thesis
            using law False by (cases err3) (auto simp: wp step)
        qed
      qed (use v' ids in simp)
    qed
  qed
qed

lemma Update_settles:
  assumes st: "store quiet R A tenants" and i: "sur_Id q \<noteq> []"
  shows "wp (UpdateSubscription R q) (settles quiet R A tenants (UpdateRequest q) db) db"
proof (cases "VSubscriptionFromProtoUpdate R q")
  case (Inl e)
  then have "\<not> quiet" using FromProtoUpdate_quiet [of R A tenants q] st by (cases quiet) auto
  then show ?thesis by (simp add: UpdateSubscription_def Inl wp settles_def)
next
  case (Inr vu)
  have empty: "vu = None \<and> length (sur_RemNotificationTypes q) + length (sur_AddNotificationTypes q) = 0 \<longleftrightarrow> nothing_to_update q"
    using FromProtoUpdate_None [of R q] Inr by (auto simp: nothing_to_update_def)
  show ?thesis
  proof (cases "nothing_to_update q")
    case True
    then show ?thesis using empty by (simp add: UpdateSubscription_def Inr wp settles_def)
  next
    case False
    note some = False
    have ne: "\<not> (vu = None \<and> length (sur_RemNotificationTypes q) + length (sur_AddNotificationTypes q) = 0)"
      using some empty by simp
    show ?thesis
    proof (cases "type_ids R (map ToLower (sur_AddNotificationTypes q))")
      case None
      then obtain n where "notificationTypes R (sur_Id q) (sur_AddNotificationTypes q) = Inl (ErrNote ErrInvalidNotificationType n)"
        using notificationTypes_spec [where R = R and names = "sur_AddNotificationTypes q" and s = "sur_Id q"] by auto
      then show ?thesis
        unfolding UpdateSubscription_def Inr sum.case if_not_P [OF ne] Let_def using None some by (simp add: wp settles_def)
    next
      case add: (Some add)
      then have rows: "notificationTypes R (sur_Id q) (sur_AddNotificationTypes q) = Inr (type_rows (sur_Id q) add)"
        using notificationTypes_spec [where R = R and names = "sur_AddNotificationTypes q" and s = "sur_Id q"] by simp
      show ?thesis
      proof (cases "type_ids R (sur_RemNotificationTypes q)")
        case None
        then obtain n where "notificationTypeIDs R (sur_RemNotificationTypes q) = Inl (ErrNote ErrInvalidNotificationType n)"
          using notificationTypeIDs_spec [where R = R and names = "sur_RemNotificationTypes q"] by auto
        then show ?thesis
          unfolding UpdateSubscription_def Inr sum.case if_not_P [OF ne] Let_def rows using None some by (simp add: wp settles_def)
      next
        case rem: (Some rem)
        then have rem_ids: "notificationTypeIDs R (sur_RemNotificationTypes q) = Inr rem"
          using notificationTypeIDs_spec [where R = R and names = "sur_RemNotificationTypes q"] by simp
        have change: "vu = None \<longrightarrow> add \<noteq> [] \<or> rem \<noteq> []"
          using empty some type_ids_length [OF add] type_ids_length [OF rem] by auto
        show ?thesis
          unfolding UpdateSubscription_def Inr sum.case if_not_P [OF ne] Let_def rows rem_ids wp_or_return
        proof (rule wp_GetTenantID [OF st], goal_cases)
          case (1 t db1)
          show ?case
            unfolding prod.case outcome.case option.case wp_or_return
          proof (rule wp_transaction [OF st wp_mono [OF update_body [OF st i 1(3) add rem Inr change]]], elim exE conjE, goal_cases)
            case (1 r db2 w err)
            then show ?case
            proof (cases err)
              case None
              then obtain row e where row: "w = Some row" "A db2 (sur_Id q) = Some e" "row_of R (sur_Id q) e row"
                  "update_entry R q t (A db1) = Inr (A db2)"
                using 1 by auto
              obtain d where "ToProtoUpdate R (Some row) = Inr (Some (UpdateResponse (Some d)))" "describes R (A db2) (sur_Id q) d"
                using describes_row [OF row(3), of "A db2" UpdateResponse] row(2) by (auto simp: ToProtoUpdate_def)
              then show ?thesis
                using 1(1) None row some add rem \<open>A db1 = A db\<close> \<open>tenants _ = Some t\<close>
                by (simp add: wp settles_def for_tenant_def)
            next
              case (Some e)
              then show ?thesis
                using 1 some add rem \<open>A db1 = A db\<close> \<open>tenants _ = Some t\<close>
                by (auto simp: wp settles_def for_tenant_def)
            qed
          qed (use 1 in \<open>simp add: wp settles_def\<close>)
        qed (use some add rem in \<open>simp_all add: wp settles_def for_tenant_def\<close>)
      qed
    qed
  qed
qed

text \<open>The four statements of a creation: the subscription, its channel, its types, and the row that is read back.\<close>

lemma create_body:
  fixes R :: "'db sub_repo"
  assumes st: "store quiet R A tenants" and types: "type_ids R (map ToLower (scr_NotificationTypes q)) = Some ids"
    and some: "scr_NotificationTypes q \<noteq> []" and sub: "SubscriptionFromProto R q t = Inr sub"
  shows "wp (or_return (sr_create R sub) (failed ''failed to create subscription'') (\<lambda>subscription.
       bnd (sr_uuid R) (\<lambda>secret.
       bnd (sr_create_channel R \<lparr>wch_CreatedDate = None, wch_UpdatedDate = None, wch_CreatedBy = None,
              wch_UpdatedBy = None, wch_DeletedDate = None, wch_DeletedBy = None, wch_ID = [], wch_TypeID = [],
              wch_SubscriptionID = sb_ID subscription, wch_WebhookURL = scr_Url q, wch_SigningSecret = secret\<rparr>)
         (\<lambda>err. case err of
            Some e \<Rightarrow> failed ''failed to create subscription channel'' e
          | None \<Rightarrow>
              bnd (sr_create_types R (map (\<lambda>t. t\<lparr>snt_SubscriptionID := sb_ID subscription\<rparr>) (type_rows [] ids)) False)
                (\<lambda>err. case err of
                   Some e \<Rightarrow> failed ''failed to create subscription notification types'' e
                 | None \<Rightarrow>
                     or_return (sr_GetByID R (sb_ID subscription) [])
                       (failed ''failed to get created subscription entity'')
                       (\<lambda>vSubscription. ret (vSubscription, None)))))))
     (\<lambda>r db2. \<exists>w err. r = Ret (w, err) \<and> (case err of
         None \<Rightarrow> (\<exists>i row. A db1 i = None \<and> i \<noteq> [] \<and> A db2 = (A db1)(i \<mapsto> new_entry R q t ids) \<and>
           w = Some row \<and> row_of R i (new_entry R q t ids) row)
       | Some e \<Rightarrow> \<not> quiet)) db1"
  unfolding wp_or_return
proof (rule wp_create [OF st], goal_cases)
  case (1 s' err db2)
  have ids: "ids \<noteq> []" using type_ids_length [OF types] some by auto
  have rows: "map (\<lambda>t. t\<lparr>snt_SubscriptionID := s\<rparr>) (type_rows [] ids) = type_rows s ids" for s
    by (simp add: type_rows_def)
  have typed: "change_types (set ids) {} ((entry_of sub)\<lparr>se_Type := Some ''webhook''\<rparr>) = new_entry R q t ids"
    using sub by (auto simp: SubscriptionFromProto_def entry_of_def change_types_def new_entry_def split: sum.splits)
  show ?case
  proof (cases err)
    case None
    have new: "A db1 (sb_ID s') = None" "sb_ID s' \<noteq> []" "A db2 = (A db1)(sb_ID s' \<mapsto> entry_of sub)"
      using 1 None by simp_all
    show ?thesis
      unfolding None outcome.case prod.case option.case wp_bnd rows
    proof (rule wp_uuid [OF st], unfold outcome.case, rule wp_create_channel [OF st], goal_cases)
      case (1 u db3 err db4)
      show ?case
      proof (cases err)
        case None
        have channel: "A db4 = (A db1)(sb_ID s' \<mapsto> (entry_of sub)\<lparr>se_Type := Some ''webhook''\<rparr>)"
          using 1 None new(3) by simp
        show ?thesis
          unfolding None outcome.case option.case wp_bnd
        proof (rule wp_create_types [OF st], goal_cases)
          case (1 err db5)
          show ?case
          proof (cases err)
            case None
            have reg: "A db5 = (A db1)(sb_ID s' \<mapsto> new_entry R q t ids)"
              using 1 None channel by (simp add: add_types_rows retype_def typed)
            show ?thesis
              unfolding None outcome.case option.case wp_or_return
            proof (rule wp_GetByID [OF st new(2)], goal_cases)
              case (1 v err db6)
              then show ?case
                using reg new(1,2) by (cases err) (auto simp: wp hit_def fits_any_def split: if_splits)
            qed
          qed (use 1 ids in \<open>simp add: wp\<close>)
        qed
      qed (use 1 in \<open>simp add: wp\<close>)
    qed
  qed (use 1 in \<open>simp add: wp\<close>)
qed

lemma Create_settles:
  assumes st: "store quiet R A tenants" and some: "scr_NotificationTypes q \<noteq> []"
  shows "wp (CreateSubscription R q) (settles quiet R A tenants (CreateRequest q) db) db"
  unfolding CreateSubscription_def wp_or_return
proof (rule wp_GetTenantID [OF st], goal_cases)
  case (1 t db1)
  note tenant = 1
  show ?case
  proof (cases "SubscriptionFromProto R q t")
    case (Inl e)
    then have "\<not> quiet" using st by (auto simp: SubscriptionFromProto_def store_def split: sum.splits) (metis sum.distinct(1))
    then show ?thesis using tenant by (simp add: Inl wp settles_def)
  next
    case sub: (Inr sub)
    show ?thesis
    proof (cases "type_ids R (map ToLower (scr_NotificationTypes q))")
      case None
      then obtain n where "notificationTypes R [] (scr_NotificationTypes q) = Inl (ErrNote ErrInvalidNotificationType n)"
        using notificationTypes_spec [where R = R and names = "scr_NotificationTypes q" and s = "[]"] by auto
      then show ?thesis using None tenant by (simp add: sub wp settles_def for_tenant_def)
    next
      case ids: (Some ids)
      then have rows: "notificationTypes R [] (scr_NotificationTypes q) = Inr (type_rows [] ids)"
        using notificationTypes_spec [where R = R and names = "scr_NotificationTypes q" and s = "[]"] by simp
      show ?thesis
        unfolding prod.case outcome.case option.case sub sum.case rows
        unfolding wp_or_return [of "sr_transaction R _"]
      proof (rule wp_transaction [OF st wp_mono [OF create_body [OF st ids some sub]]], elim exE conjE, goal_cases)
        case (1 r db2 w err)
        then show ?case
        proof (cases err)
          case None
          then obtain i row where new: "A db1 i = None" "i \<noteq> []" "A db2 = (A db1)(i \<mapsto> new_entry R q t ids)" "w = Some row"
              "row_of R i (new_entry R q t ids) row"
            using 1 by auto
          then obtain d k where "ToProtoCreate R (Some row) = Inr (Some (CreateResponse (Some d) k))" "describes R (A db2) i d"
            using describes_created [OF new(5), of "A db2"] by auto
          moreover from this(2) have "sdr_Id d = i" by (auto simp: describes_def)
          ultimately show ?thesis
            using 1(1) None new ids tenant by (auto simp: wp settles_def for_tenant_def)
        qed simp
      qed (use tenant in \<open>simp add: wp settles_def\<close>)
    qed
  qed
qed (simp_all add: wp settles_def for_tenant_def)

lemma operation_settles:
  assumes "store quiet R A tenants" "names_one req"
  shows "wp (operation R req) (settles quiet R A tenants req db) db"
  using assms
  by (cases req)
     (simp_all add: Create_settles Delete_settles Get_settles List_settles Pause_settles Resume_settles Update_settles)

end
