(* ===== verification/Subscription_Service.thy ===== *)
theory Subscription_Service
  imports Subscription_Refine
begin

text \<open>
  What the subscription manager as a whole guarantees: the refinement of the registry by every operation, the
  reply to every request, and what no sequence of requests can do.
\<close>

section \<open>Handlers\<close>

lemma wp_run: "wp m Q s \<longleftrightarrow> (\<exists>r s'. m s = (r, s') \<and> Q r s')"
  by (simp add: wp_def split: prod.splits)

lemma wp_serve [wp]: "wp (serve m) Q (db, log) = wp m (\<lambda>r db'. Q r (db', log)) db"
  by (simp add: wp_def serve_def split: prod.splits)

lemma wp_send_reply [wp]: "wp (send_reply bus r) Q (db, log) = Q (Ret (bus (r # log))) (db, r # log)"
  by (simp add: wp_def send_reply_def)

fun answered :: "sub_request \<Rightarrow> (gerr \<times> reply_code \<times> string) list" where
  "answered (CreateRequest q) = []"
| "answered (DeleteRequest q) = not_found_answered"
| "answered (GetRequest q) = not_found_answered"
| "answered (ListRequest c p) = []"
| "answered (PauseRequest q) = not_found_answered @ [(ErrStatusCannotBePaused, FAILED_PRECONDITION, err_text ErrStatusCannotBePaused)]"
| "answered (ResumeRequest q) = not_found_answered @ [(ErrStatusCannotBeResumed, FAILED_PRECONDITION, err_text ErrStatusCannotBeResumed)]"
| "answered (UpdateRequest q) = []"

lemma SM_Register_operation:
  "\<exists>errMessage. SM_Register bus R req = WithErrorReply bus (handle_with bus (answered req) (Some req) (operation R)) errMessage"
  by (cases req)
     (auto simp: SM_Register_def handle_with_def CreateSubscriptionHandler_def DeleteSubscriptionByIDHandler_def
        GetSubscriptionByIDHandler_def ListSubscriptionsHandler_def PauseSubscriptionHandler_def
        ResumeSubscriptionHandler_def UpdateSubscriptionHandler_def)

text \<open>Replies leave the database alone: what an operation settles stays settled.\<close>

lemma wp_SM_Register:
  assumes "wp (operation R req) (\<lambda>r db'. \<exists>resp err. r = Ret (resp, err) \<and> P db') db"
  shows "wp (SM_Register bus R req) (\<lambda>r s. (\<exists>e. r = Ret e) \<and> P (fst s)) (db, log)"
proof -
  obtain errMessage where "SM_Register bus R req = WithErrorReply bus (handle_with bus (answered req) (Some req) (operation R)) errMessage"
    using SM_Register_operation by blast
  then show ?thesis
    using assms
    by (auto simp: WithErrorReply_def handle_with_def ErrorReply_to_def wp elim!: wp_mono split: option.splits prod.splits)
qed

section \<open>The reply to a request\<close>

fun code_of :: "sub_error \<Rightarrow> reply_code" where
  "code_of UnknownCustomer = BAD_REQUEST"
| "code_of NoSubscription = NOT_FOUND"
| "code_of NotPausable = FAILED_PRECONDITION"
| "code_of NotResumable = FAILED_PRECONDITION"
| "code_of NoTypes = FAILED_OPERATION"
| "code_of BadType = BAD_REQUEST"
| "code_of BadRequest = FAILED_OPERATION"

lemma signals_is:
  assumes "signals e er"
  shows "errors_is e SM_ErrNotFound = (er = NoSubscription)" "errors_is e ErrInvalidTenantCustomerID = (er = UnknownCustomer)"
    "errors_is e ErrInvalidNotificationType = (er = BadType)" "errors_is e ErrStatusCannotBePaused = (er = NotPausable)"
    "errors_is e ErrStatusCannotBeResumed = (er = NotResumable)"
  using assms by (auto simp: signals_def)

text \<open>The errors a request may be refused with.\<close>

fun refusals :: "sub_request \<Rightarrow> sub_error set" where
  "refusals (PauseRequest q) = {UnknownCustomer, NoSubscription, NotPausable}"
| "refusals (ResumeRequest q) = {UnknownCustomer, NoSubscription, NotResumable}"
| "refusals (DeleteRequest q) = {UnknownCustomer, NoSubscription}"
| "refusals (GetRequest q) = {UnknownCustomer, NoSubscription}"
| "refusals (ListRequest c p) = {UnknownCustomer}"
| "refusals (CreateRequest q) = {UnknownCustomer, BadType}"
| "refusals (UpdateRequest q) = {UnknownCustomer, NoSubscription, NoTypes, BadType, BadRequest}"

lemma step_refusals: "Inl er \<in> sub_step R tenants req reg \<Longrightarrow> er \<in> refusals req"
  by (cases req)
     (auto simp: for_tenant_def change_status_def update_entry_def Let_def split: option.splits sum.splits if_splits)

lemma refused_reply:
  assumes "\<forall>l. bus l = None" "signals e er" "er \<in> refusals req"
  shows "wp (WithErrorReply bus (case find (\<lambda>(t, c, s). errors_is e t) (answered req) of
        Some (t, c, s) \<Rightarrow> ErrorReply_to bus c s | None \<Rightarrow> ret (Some e)) m)
      (\<lambda>r s. r = Ret None \<and> fst s = db \<and> (\<exists>what detail. snd s = ErrorReply (code_of er) what detail # log)) (db, log)"
  using assms(1,3) signals_is [OF assms(2)]
  by (cases req)
     (auto simp: not_found_answered_def WithErrorReply_def ErrorReply_to_def wp split: if_splits)

lemma wp_reply:
  assumes bus: "\<forall>l. bus l = None"
    and op: "wp (operation R req) (settles True R A tenants req db) db"
  shows "wp (SM_Register bus R req) (\<lambda>r s. r = Ret None \<and> (\<exists>reply. snd s = reply # log \<and>
      (case reply of
         Reply resp \<Rightarrow> Inr (A (fst s)) \<in> sub_step R tenants req (A db) \<and> response_ok R tenants (A db) (A (fst s)) req resp
       | ErrorReply code what detail \<Rightarrow> A (fst s) = A db \<and>
           (\<exists>er. Inl er \<in> sub_step R tenants req (A db) \<and> code = code_of er)))) (db, log)"
proof -
  obtain errMessage where reg: "SM_Register bus R req = WithErrorReply bus (handle_with bus (answered req) (Some req) (operation R)) errMessage"
    using SM_Register_operation by blast
  obtain resp err db' where run: "operation R req db = (Ret (resp, err), db')"
    and post: "case err of
        None \<Rightarrow> Inr (A db') \<in> sub_step R tenants req (A db) \<and> response_ok R tenants (A db) (A db') req resp
      | Some e \<Rightarrow> A db' = A db \<and> (\<exists>er. signals e er \<and> Inl er \<in> sub_step R tenants req (A db))"
    using op unfolding wp_run settles_def simp_thms by blast
  show ?thesis
  proof (cases err)
    case None
    have "wp (SM_Register bus R req) Q (db, log) = Q (Ret None) (db', Reply resp # log)" for Q
      unfolding reg WithErrorReply_def handle_with_def option.case wp_bnd wp_serve
      unfolding wp_def [of "operation R req"] run None prod.case outcome.case option.case wp_send_reply
      by (simp add: bus wp_ret)
    then show ?thesis using post None by simp
  next
    case (Some e)
    then obtain er where er: "signals e er" "Inl er \<in> sub_step R tenants req (A db)" "A db' = A db" using post by auto
    have run_eq: "wp (SM_Register bus R req) Q (db, log) = wp (WithErrorReply bus (case find (\<lambda>(t, c, s). errors_is e t) (answered req) of
        Some (t, c, s) \<Rightarrow> ErrorReply_to bus c s | None \<Rightarrow> ret (Some e)) errMessage) Q (db', log)" for Q
      unfolding reg WithErrorReply_def handle_with_def option.case wp_bnd wp_serve
      by (simp add: wp_def [of "operation R req"] run Some)
    obtain r s what detail where reply: "SM_Register bus R req (db, log) = (r, s)" "r = Ret None" "fst s = db'"
        "snd s = ErrorReply (code_of er) what detail # log"
      using refused_reply [OF bus er(1) step_refusals [OF er(2)], where log = log and db = db' and m = errMessage, folded run_eq] unfolding wp_run by blast
    then show ?thesis using er(2,3) unfolding wp_run by auto
  qed
qed

section \<open>Sequences of requests\<close>

text \<open>The customer a request acts for; every request names one.\<close>

fun customer_of :: "sub_request \<Rightarrow> string" where
  "customer_of (CreateRequest q) = scr_TenantCustomerId q"
| "customer_of (DeleteRequest q) = sk_TenantCustomerId q"
| "customer_of (GetRequest q) = sk_TenantCustomerId q"
| "customer_of (ListRequest c p) = c"
| "customer_of (PauseRequest q) = sk_TenantCustomerId q"
| "customer_of (ResumeRequest q) = sk_TenantCustomerId q"
| "customer_of (UpdateRequest q) = sur_TenantCustomerId q"

definition typed :: "registry \<Rightarrow> bool" where
  "typed reg \<longleftrightarrow> (\<forall>i e. reg i = Some e \<longrightarrow> se_Types e \<noteq> {})"

lemma type_ids_set: "type_ids R names = Some ids \<Longrightarrow> names \<noteq> [] \<Longrightarrow> ids \<noteq> []"
  using type_ids_length by fastforce

text \<open>A step keeps every subscription typed, and leaves alone what is not the tenant's or not a webhook.\<close>

lemma step_typed:
  assumes "Inr reg' \<in> sub_step R tenants req reg" "typed reg" "names_one req"
  shows "typed reg'"
proof (cases req)
  case (UpdateRequest q)
  have kept: "se_Types (change_types (set add) {} e) \<noteq> {}" if "se_Types e \<noteq> {}" for e and add :: "string list"
    using that by (simp add: change_types_def)
  show ?thesis
    using assms(1,2) UpdateRequest kept owned_Some
    by (fastforce simp: for_tenant_def update_entry_def typed_def Let_def overwrite_def
        split: option.splits if_splits sum.splits)
next
  case (CreateRequest q)
  then show ?thesis
    using assms type_ids_set
    by (fastforce simp: for_tenant_def typed_def new_entry_def split: option.splits if_splits)
qed (use assms in \<open>auto simp: for_tenant_def change_status_def typed_def owned_def split: option.splits if_splits\<close>)

lemma step_foreign:
  assumes "Inr reg' \<in> sub_step R tenants req reg" "reg i = Some e" "tenants (customer_of req) \<noteq> Some (se_Tenant e) \<or> se_Type e \<noteq> Some ''webhook''"
  shows "reg' i = Some e"
  using assms
  by (cases req)
     (auto simp: for_tenant_def change_status_def update_entry_def owned_def Let_def
        split: option.splits if_splits sum.splits)

definition deliver :: "(sm_reply list \<Rightarrow> gerr option) \<Rightarrow> 'db sub_repo \<Rightarrow> sub_request list \<Rightarrow> 'db sm_state \<Rightarrow> 'db sm_state" where
  "deliver bus R reqs s = foldl (\<lambda>s req. snd (SM_Register bus R req s)) s reqs"

lemma delivered_step:
  assumes "store quiet R A tenants" "names_one req"
  shows "A (fst (snd (SM_Register bus R req (db, log)))) = A db \<or>
     Inr (A (fst (snd (SM_Register bus R req (db, log))))) \<in> sub_step R tenants req (A db)"
proof -
  have "wp (operation R req) (\<lambda>r db'. \<exists>resp err. r = Ret (resp, err) \<and>
      (A db' = A db \<or> Inr (A db') \<in> sub_step R tenants req (A db))) db"
    by (rule wp_mono [OF operation_settles [OF assms]]) (auto simp: settles_def split: option.splits)
  from wp_SM_Register [OF this, of bus log] show ?thesis by (simp add: wp_iff)
qed

lemma deliveries:
  assumes "store quiet R A tenants" "\<forall>req\<in>set reqs. names_one req"
    and step: "\<And>req reg reg'. req \<in> set reqs \<Longrightarrow> Inr reg' \<in> sub_step R tenants req reg \<Longrightarrow> P reg \<Longrightarrow> P reg'"
    and start: "P (A (fst s))"
  shows "P (A (fst (deliver bus R reqs s)))"
  using assms(2) step start
proof (induction reqs arbitrary: s)
  case (Cons req reqs)
  let ?s = "snd (SM_Register bus R req s)"
  have "P (A (fst ?s))"
    using delivered_step [OF assms(1), of req bus "fst s" "snd s"] Cons.prems by auto
  moreover have "\<forall>req\<in>set reqs. names_one req" using Cons.prems(1) by simp
  moreover have "\<And>r reg reg'. r \<in> set reqs \<Longrightarrow> Inr reg' \<in> sub_step R tenants r reg \<Longrightarrow> P reg \<Longrightarrow> P reg'"
    using Cons.prems(2) by (metis list.set_intros(2))
  ultimately have "P (A (fst (deliver bus R reqs ?s)))" using Cons.IH by blast
  then show ?case by (simp add: deliver_def)
qed (simp add: deliver_def)

section \<open>Properties\<close>

text \<open>
  C16. Every operation of the subscription manager refines the registry. On a repository that keeps the laws it
  returns; with a response it has taken the registry's step for the request, and the response shows the new
  state; with an error the registry is as before, and unless the database failed the error says why the
  registry refuses the request.
\<close>

theorem subscriptions_refine_registry:
  assumes "store quiet R A tenants" "names_one req"
  shows "\<exists>resp err db'. operation R req db = (Ret (resp, err), db') \<and>
     (case err of
        None \<Rightarrow> Inr (A db') \<in> sub_step R tenants req (A db) \<and> response_ok R tenants (A db) (A db') req resp
      | Some e \<Rightarrow> A db' = A db \<and> (quiet \<longrightarrow> (\<exists>er. signals e er \<and> Inl er \<in> sub_step R tenants req (A db))))"
  using operation_settles [OF assms, of db] unfolding wp_run settles_def by blast

text \<open>
  C17. When neither the database nor the bus fails, every request is answered with exactly one reply: the response of
  its operation after the registry's step, or, when the registry refuses the request, the error code that
  belongs to the refusal, with the registry unchanged.
\<close>

theorem subscription_request_answered:
  assumes "store True R A tenants" "names_one req" "\<forall>l. bus l = None"
  shows "\<exists>reply db'. SM_Register bus R req (db, log) = (Ret None, (db', reply # log)) \<and>
     (case reply of
        Reply resp \<Rightarrow> Inr (A db') \<in> sub_step R tenants req (A db) \<and> response_ok R tenants (A db) (A db') req resp
      | ErrorReply code what detail \<Rightarrow> A db' = A db \<and>
          (\<exists>er. Inl er \<in> sub_step R tenants req (A db) \<and> code = code_of er))"
proof -
  obtain r s reply where "SM_Register bus R req (db, log) = (r, s)" "r = Ret None" "snd s = reply # log"
      "case reply of
         Reply resp \<Rightarrow> Inr (A (fst s)) \<in> sub_step R tenants req (A db) \<and> response_ok R tenants (A db) (A (fst s)) req resp
       | ErrorReply code what detail \<Rightarrow> A (fst s) = A db \<and>
           (\<exists>er. Inl er \<in> sub_step R tenants req (A db) \<and> code = code_of er)"
    using wp_reply [OF assms(3) operation_settles [OF assms(1,2)], of log db] unfolding wp_run by blast
  then show ?thesis by (intro exI [of _ reply] exI [of _ "fst s"]) (cases s, simp)
qed

text \<open>
  C18. Whatever requests arrive, and whatever fails on the way: a subscription keeps at least one notification type,
  and one of another tenant, or one that is no webhook, is never touched.
\<close>

theorem subscriptions_isolated:
  assumes "store quiet R A tenants" "\<forall>req\<in>set reqs. names_one req" "typed (A db)"
  shows "typed (A (fst (deliver bus R reqs (db, log)))) \<and>
     (\<forall>i e. A db i = Some e \<and>
        (se_Type e \<noteq> Some ''webhook'' \<or> (\<forall>req\<in>set reqs. tenants (customer_of req) \<noteq> Some (se_Tenant e))) \<longrightarrow>
        A (fst (deliver bus R reqs (db, log))) i = Some e)"
proof (intro conjI allI impI)
  show "typed (A (fst (deliver bus R reqs (db, log))))"
    by (rule deliveries [OF assms(1,2)]) (use assms(2,3) in \<open>auto intro: step_typed\<close>)
next
  fix i e
  assume e: "A db i = Some e \<and> (se_Type e \<noteq> Some ''webhook'' \<or> (\<forall>req\<in>set reqs. tenants (customer_of req) \<noteq> Some (se_Tenant e)))"
  show "A (fst (deliver bus R reqs (db, log))) i = Some e"
    by (rule deliveries [OF assms(1,2), where P = "\<lambda>reg. reg i = Some e"]) (use e in \<open>auto intro: step_foreign\<close>)
qed

end
