(* ===== verification/Subscription_Memory.thy ===== *)
theory Subscription_Memory
  imports Subscription_Service
begin

text \<open>
  A repository in memory that keeps all the laws and never fails, an association list of entries; the
  properties are applied to it.
\<close>

section \<open>The repository\<close>

type_synonym mem_store = "(string \<times> sub_entry) list"

definition mem_row :: "string \<Rightarrow> sub_entry \<Rightarrow> VSubscription" where
  "mem_row i e = zero_VSubscription\<lparr>vs_ID := i, vs_Description := se_Description e, vs_Metadata := se_Metadata e,
     vs_Tags := se_Tags e, vs_Status := se_Status e, vs_TenantID := se_Tenant e, vs_NotificationEmail := se_Email e,
     vs_Type := se_Type e\<rparr>"

definition mem_tenants :: "string \<Rightarrow> string option" where
  "mem_tenants c = (if c = ''c1'' then Some ''t1'' else if c = ''c2'' then Some ''t2'' else None)"

definition mem_rows :: "VSubscription list \<Rightarrow> mem_store \<Rightarrow> VSubscription list" where
  "mem_rows cs db = concat (map (\<lambda>i. case hit (map_of db) cs i of None \<Rightarrow> [] | Some e \<Rightarrow> [mem_row i e]) (map fst db))"

definition fresh_id :: "mem_store \<Rightarrow> string" where
  "fresh_id db = replicate (Suc (sum_list (map (length \<circ> fst) db))) (CHR ''x'')"

definition mem_repo :: "mem_store sub_repo" where
  "mem_repo = \<lparr>
     sr_type_id = \<lambda>n. n, sr_status_id = \<lambda>n. n, sr_status0 = Subscription_ACTIVE,
     sr_marshal = \<lambda>m. Inr ''{}'', sr_unmarshal = \<lambda>m. Inr None,
     sr_cached = \<lambda>k f. f,
     sr_customer = \<lambda>c cs. ret (case mem_tenants c of None \<Rightarrow> (None, Some ErrRecordNotFound)
                        | Some t \<Rightarrow> (Some (zero_VTenantCustomer\<lparr>vtc_TenantID := Some t\<rparr>), None)),
     sr_transaction = \<lambda>body db. (case body db of
         (Ret (v, None), db') \<Rightarrow> (Ret (v, None), db') | (r, db') \<Rightarrow> (r, db)),
     sr_Update = \<lambda>v cs back db. (case hit (map_of db) cs (vs_ID v) of
         None \<Rightarrow> (Ret (0, None, v), db)
       | Some e \<Rightarrow> (Ret (1, None, if back then mem_row (vs_ID v) (overwrite v e) else v), (vs_ID v, overwrite v e) # db)),
     sr_GetByID = \<lambda>i cs db. (case hit (map_of db) cs i of
         None \<Rightarrow> (Ret (None, Some ErrRecordNotFound), db) | Some e \<Rightarrow> (Ret (Some (mem_row i e), None), db)),
     sr_Count = \<lambda>cs db. (Ret (if mem_rows cs db = [] then 0 else 1, None), db),
     sr_Find = \<lambda>cs page db. (Ret (mem_rows cs db, None), db),
     sr_Delete = \<lambda>v cs db. (case hit (map_of db) cs (vs_ID v) of
         None \<Rightarrow> (Ret (0, None), db) | Some e \<Rightarrow> (Ret (1, None), AList.delete (vs_ID v) db)),
     sr_create = \<lambda>s db. (Ret (s\<lparr>sb_ID := fresh_id db\<rparr>, None), (fresh_id db, entry_of s) # db),
     sr_create_channel = \<lambda>c db. (Ret None, map (\<lambda>(i, e). (i, if i = wch_SubscriptionID c then e\<lparr>se_Type := Some ''webhook''\<rparr> else e)) db),
     sr_create_types = \<lambda>ts skip db. (Ret None,
       map (\<lambda>(i, e). (i, change_types (snt_TypeID ` set (filter (\<lambda>t. snt_SubscriptionID t = i) ts)) {} e)) db),
     sr_delete_types = \<lambda>s ids db. (Ret None, map (\<lambda>(i, e). (i, if i = s then change_types {} (set ids) e else e)) db),
     sr_count_types = \<lambda>s db. (Ret (case map_of db s of None \<Rightarrow> 0 | Some e \<Rightarrow> if se_Types e = {} then 0 else 1, None), db),
     sr_uuid = ret ''secret'', sr_ErrNotFound = ErrRecordNotFound\<rparr>"

section \<open>Its laws\<close>

lemma map_of_map_key: "map_of (map (\<lambda>(k, v). (k, f k v)) xs) = (\<lambda>k. map_option (f k) (map_of xs k))"
  by (induction xs) auto

lemma row_of_mem_row [simp]: "row_of mem_repo i e (mem_row i e)"
  by (simp add: row_of_def mem_row_def zero_VSubscription_def mem_repo_def)

lemma fresh_id: "map_of db (fresh_id db) = None" "fresh_id db \<noteq> []"
proof -
  have "length i \<le> sum_list (map (length \<circ> fst) db)" if "(i, e) \<in> set db" for i e
    using that by (force intro: member_le_sum_list simp: image_iff)
  then show "map_of db (fresh_id db) = None"
    by (fastforce simp: map_of_eq_None_iff fresh_id_def)
qed (simp add: fresh_id_def)

lemma hit_Some: "hit reg cs i = Some e \<longleftrightarrow> reg i = Some e \<and> fits_any cs i e"
  by (auto simp: hit_def split: option.splits)

lemma set_mem_rows: "set (mem_rows cs db) = {mem_row i e |i e. map_of db i = Some e \<and> fits_any cs i e}"
proof -
  have dom: "i \<in> fst ` set db" if "hit (map_of db) cs i = Some e" for i e
    using that map_of_SomeD [of db i e] by (force simp: hit_Some)
  have "v \<in> set (mem_rows cs db) \<longleftrightarrow> (\<exists>i\<in>fst ` set db. \<exists>e. hit (map_of db) cs i = Some e \<and> v = mem_row i e)" for v
    by (simp add: mem_rows_def) (metis (no_types, lifting) empty_iff empty_set list.set_intros(1) option.case(1,2) option.exhaust set_ConsD)
  then have "set (mem_rows cs db) = {mem_row i e |i e. hit (map_of db) cs i = Some e}" using dom by blast
  then show ?thesis by (simp add: hit_Some)
qed

lemma mem_rows_Nil: "mem_rows [c] db = [] \<longleftrightarrow> \<not> (\<exists>i e. map_of db i = Some e \<and> fits c i e)"
proof -
  have "mem_rows [c] db = [] \<longleftrightarrow> set (mem_rows [c] db) = {}" by simp
  then show ?thesis unfolding set_mem_rows by (auto simp: fits_any_def)
qed

lemma mem_Update:
  "sr_Update mem_repo v cs back db = (case hit (map_of db) cs (vs_ID v) of
         None \<Rightarrow> (Ret (0, None, v), db)
       | Some e \<Rightarrow> (Ret (1, None, if back then mem_row (vs_ID v) (overwrite v e) else v), (vs_ID v, overwrite v e) # db))"
  by (simp add: mem_repo_def)

lemma mem_ErrNotFound [simp]: "sr_ErrNotFound mem_repo = ErrRecordNotFound"
  by (simp add: mem_repo_def)

lemma mem_GetByID:
  "sr_GetByID mem_repo i cs db = (case hit (map_of db) cs i of
         None \<Rightarrow> (Ret (None, Some ErrRecordNotFound), db) | Some e \<Rightarrow> (Ret (Some (mem_row i e), None), db))"
  by (simp add: mem_repo_def)

lemma mem_update: "update_law True mem_repo map_of"
  by (auto simp: update_law_def wp_run mem_Update split: option.splits)

lemma mem_delete: "delete_law True mem_repo map_of"
  by (auto simp: delete_law_def wp_run mem_repo_def AList.delete_conv' split: option.splits)

lemma mem_get: "get_law True mem_repo map_of"
  by (auto simp: get_law_def wp_run mem_GetByID split: option.splits)

lemma mem_count: "count_law True mem_repo map_of"
  by (auto simp: count_law_def wp_run mem_repo_def mem_rows_Nil)

lemma mem_find: "find_law True mem_repo map_of"
proof -
  have "vs_ID ` set (mem_rows [c] db) = {i. \<exists>e. map_of db i = Some e \<and> fits c i e}" for c db
    by (force simp: set_mem_rows fits_any_def mem_row_def zero_VSubscription_def)
  moreover have "\<forall>v\<in>set (mem_rows [c] db). \<exists>i e. map_of db i = Some e \<and> fits c i e \<and> row_of mem_repo i e v" for c db
    using row_of_mem_row unfolding set_mem_rows fits_any_def by fastforce
  moreover have "sr_Find mem_repo = (\<lambda>cs page db. (Ret (mem_rows cs db, None), db))" by (simp add: mem_repo_def)
  ultimately show ?thesis by (simp add: find_law_def wp_run)
qed

lemma mem_types: "types_law True mem_repo map_of"
  by (auto simp: types_law_def wp_run mem_repo_def add_types_def remove_types_def map_of_map_key option.map_ident fun_eq_iff split: option.splits)

lemma mem_create: "create_law True mem_repo map_of"
  by (auto simp: create_law_def wp_run mem_repo_def ret_def fresh_id map_of_map_key option.map_ident fun_eq_iff split: option.splits)

lemma mem_transaction: "transaction_law True mem_repo map_of"
  by (auto simp: transaction_law_def mem_repo_def split: option.splits)

lemma mem_customer: "customer_law True mem_repo map_of mem_tenants"
  by (auto simp: customer_law_def wp_run mem_repo_def ret_def mem_tenants_def zero_VTenantCustomer_def)

lemma mem_store: "store True mem_repo map_of mem_tenants"
  by (simp add: store_def mem_update mem_delete mem_get mem_count mem_find mem_types mem_create mem_transaction mem_customer)
     (simp add: mem_repo_def)

section \<open>Witnesses\<close>

definition mem_db :: mem_store where
  "mem_db =
     [(''s1'', \<lparr>se_Tenant = ''t1'', se_Type = Some ''webhook'', se_Status = ''active'', se_Description = None,
        se_Email = ''a@b.com'', se_Tags = [], se_Metadata = None, se_Types = {''domain.renew''}\<rparr>),
      (''s2'', \<lparr>se_Tenant = ''t2'', se_Type = Some ''poll'', se_Status = ''paused'', se_Description = None,
        se_Email = ''b@b.com'', se_Tags = [], se_Metadata = None, se_Types = {''domain.renew''}\<rparr>)]"

definition key :: "string \<Rightarrow> string \<Rightarrow> sub_key" where
  "key i c = \<lparr>sk_Id = i, sk_TenantCustomerId = c\<rparr>"

lemma step_pause: "sub_step mem_repo mem_tenants (PauseRequest (key ''s1'' ''c1'')) (map_of mem_db) =
    {Inr ((map_of mem_db)(''s1'' \<mapsto> (the (map_of mem_db ''s1''))\<lparr>se_Status := ''paused''\<rparr>))}"
  by (simp add: for_tenant_def mem_tenants_def key_def change_status_def owned_def mem_db_def)

lemma step_resume_poll: "sub_step mem_repo mem_tenants (ResumeRequest (key ''s2'' ''c2'')) (map_of mem_db) = {Inl NoSubscription}"
  by (simp add: for_tenant_def mem_tenants_def key_def change_status_def owned_def mem_db_def)

theorem subscriptions_refine_registry_witness:
  "\<exists>resp db'. operation mem_repo (PauseRequest (key ''s1'' ''c1'')) mem_db = (Ret (resp, None), db') \<and>
     map_option se_Status (map_of db' ''s1'') = Some ''paused''"
proof -
  have "names_one (PauseRequest (key ''s1'' ''c1''))" by (simp add: key_def)
  from subscriptions_refine_registry [OF mem_store this, of mem_db]
  obtain resp err db' where run: "operation mem_repo (PauseRequest (key ''s1'' ''c1'')) mem_db = (Ret (resp, err), db')"
    and "case err of None \<Rightarrow> Inr (map_of db') \<in> sub_step mem_repo mem_tenants (PauseRequest (key ''s1'' ''c1'')) (map_of mem_db)
      | Some e \<Rightarrow> \<exists>er. Inl er \<in> sub_step mem_repo mem_tenants (PauseRequest (key ''s1'' ''c1'')) (map_of mem_db)"
    by (fastforce split: option.splits)
  then have "err = None" "map_of db' ''s1'' = Some ((the (map_of mem_db ''s1''))\<lparr>se_Status := ''paused''\<rparr>)"
    unfolding step_pause by (auto split: option.splits)
  then show ?thesis using run by simp
qed

theorem subscription_request_answered_witness:
  "\<exists>what detail db'. SM_Register (\<lambda>l. None) mem_repo (ResumeRequest (key ''s2'' ''c2'')) (mem_db, []) =
     (Ret None, (db', [ErrorReply NOT_FOUND what detail]))"
proof -
  have "names_one (ResumeRequest (key ''s2'' ''c2''))" by (simp add: key_def)
  from subscription_request_answered [OF mem_store this, of "\<lambda>l. None" mem_db "[]"]
  obtain reply db' where run: "SM_Register (\<lambda>l. None) mem_repo (ResumeRequest (key ''s2'' ''c2'')) (mem_db, []) = (Ret None, (db', [reply]))"
    and reply: "case reply of
        Reply resp \<Rightarrow> Inr (map_of db') \<in> sub_step mem_repo mem_tenants (ResumeRequest (key ''s2'' ''c2'')) (map_of mem_db)
      | ErrorReply code what detail \<Rightarrow>
          \<exists>er. Inl er \<in> sub_step mem_repo mem_tenants (ResumeRequest (key ''s2'' ''c2'')) (map_of mem_db) \<and> code = code_of er"
    by (fastforce split: sm_reply.splits)
  then obtain what detail where "reply = ErrorReply NOT_FOUND what detail"
    unfolding step_resume_poll by (cases reply) auto
  then show ?thesis using run by blast
qed

theorem subscriptions_isolated_witness:
  "map_of (fst (deliver (\<lambda>l. None) mem_repo [PauseRequest (key ''s1'' ''c1''), DeleteRequest (key ''s2'' ''c2'')] (mem_db, []))) ''s2''
     = map_of mem_db ''s2''"
proof -
  have "\<forall>req\<in>set [PauseRequest (key ''s1'' ''c1''), DeleteRequest (key ''s2'' ''c2'')]. names_one req" by (simp add: key_def)
  moreover have "typed (map_of mem_db)" by (simp add: typed_def mem_db_def)
  ultimately show ?thesis
    using subscriptions_isolated [OF mem_store, of "[PauseRequest (key ''s1'' ''c1''), DeleteRequest (key ''s2'' ''c2'')]" mem_db "\<lambda>l. None" "[]"]
    by (simp add: mem_db_def)
qed

end
