(* ===== verification/Spec2Isabelle.thy ===== *)
theory Spec2Isabelle
  imports Hosting_Updater Certificate_Updater DU_Service Job_Machine DW_Update_Spec Crons_Spec Poll_Spec Job_Scheduler Sqs_Consumer Notification_Worker Email_Spec Notification_Pipeline Notification_Enqueuer Subscription_Memory
begin

text \<open>
  \<^bold>\<open>Verification of the TDP domain workers.\<close>

  The repository holds workers written in Go that provision domains, hosts, contacts, hosting and
  certificates at registries. A database holds jobs; a worker sends each job's command to a registry
  interface over a message bus and sets the job to \<^verbatim>\<open>processing\<close>; an \<^emph>\<open>updater\<close> receives the answer,
  records its data in the job's provision row and gives the job a final status. Errors and
  timeouts of the registry interface come back as error responses. The core of all of this is the
  handling of one message: find the job, check that it is in processing, decide from the answer,
  write rows, write the job, commit.

  \<^bold>\<open>Effects.\<close> A function that touches the outside world is a function from the history of the calls
  made so far to an outcome (a result, a panic, a process exit) and a longer history (theories
  \<open>Go_Prelude\<close> and \<open>Services\<close>). How the database driver, the message bus, the registries and the
  clock answer is a record of functions (\<open>services\<close>) of which nothing is assumed unless a statement
  says so. What a history has changed in the database is the function \<open>effective\<close>, by the rules of
  transactions.

  \<^bold>\<open>Theories.\<close>
  \<^item> \<open>Go_Prelude\<close>, \<open>Go_Time\<close>, \<open>Go_Json\<close>: the language and its library as far as it is used: the effect
    monad with its weakest preconditions, what a computation adds to its history (\<open>adds\<close>) and how it
    ends (\<open>ends\<close>), error values, 32- and 64-bit integers, calendar dates, \<^verbatim>\<open>encoding/json\<close>.
  \<^item> \<open>Model_Rows\<close>, \<open>Job_Data\<close>: the rows of \<^verbatim>\<open>pkg/database/model\<close> and the job payloads of
    \<^verbatim>\<open>pkg/types/domain.go\<close> with their JSON decoders.
  \<^item> \<open>Services\<close>: constants of \<^verbatim>\<open>pkg/types\<close>, registry messages, calls and histories.
  \<^item> \<open>Enumerator\<close>: \<^verbatim>\<open>pkg/enumerator\<close> and \<^verbatim>\<open>pkg/database/model/enumerators.go\<close>.
  \<^item> \<open>Database\<close>: \<^verbatim>\<open>pkg/database/database.go\<close>: lookups, transactions, jobs, provision rows, orders.
  \<^item> \<open>Pkg_Types\<close>: helpers of \<^verbatim>\<open>pkg/types\<close>, \<^verbatim>\<open>pkg/epp_utils\<close>, \<^verbatim>\<open>pkg/message_bus\<close>.
  \<^item> \<open>Job_Protocol\<close>: the frame of a handler (\<open>with_job\<close>) and the locales \<open>status_body\<close>, \<open>job_body\<close> and
    \<open>settling_body\<close>: what a body promises, and what every handler built on it then guarantees.
  \<^item> \<open>Sample\<close>: concrete surroundings for the witnesses.
  \<^item> \<open>DU_Common\<close>, \<open>DU_Write\<close>, \<open>DU_Transfer\<close>, \<open>DU_Info\<close>, \<open>DU_Check\<close>, \<open>DU_Routers\<close>, \<open>DU_Service\<close>: the domain
    updater, \<^verbatim>\<open>domain_updater/handlers\<close>, one definition per Go function, every body interpreting the
    locales.
  \<^item> \<open>DU_Timeout\<close>, \<open>Error_Response\<close>: error responses; the locale \<open>reconciler\<close> states what the six
    reconcilers share.
  \<^item> \<open>Host_Contact_Data\<close>: the payloads of \<^verbatim>\<open>pkg/types/host.go\<close> and \<^verbatim>\<open>contact.go\<close>.
  \<^item> \<open>Request_Protocol\<close>: the frame of a request handler: send the command, set the job to processing
    (\<open>send_and_mark\<close>); the locales \<open>request_body\<close> and \<open>dispatching_body\<close> extend the ones of \<open>Job_Protocol\<close>.
  \<^item> \<open>DW_Create\<close>, \<open>DW_Requests\<close>, \<open>DW_Update\<close>, \<open>DW_Update_Spec\<close>: the domain worker, \<^verbatim>\<open>domain/handlers\<close>.
  \<^item> \<open>Host_Worker\<close>, \<open>Contact_Worker\<close>: \<^verbatim>\<open>host/handlers\<close>, \<^verbatim>\<open>contact/handlers\<close>; \<open>DW_Service\<close>: the three routers,
    every body interpreting the request locales.
  \<^item> \<open>Host_Updater\<close>, \<open>Contact_Updater\<close>: \<^verbatim>\<open>host_updater/handlers\<close>, \<^verbatim>\<open>contact_updater/handlers\<close>.
  \<^item> \<open>Job_Machine\<close>: the abstract status machine of a job, and the deliveries of the three workers and the
    three updaters that refine it.
  \<^item> \<open>Enqueuer\<close>: \<^verbatim>\<open>pkg/enqueuer\<close>, the loop that drains a table into a queue.
  \<^item> \<open>Go_Strings\<close>: functions of \<^verbatim>\<open>strings\<close> and \<^verbatim>\<open>fmt\<close>.
  \<^item> \<open>Crons\<close>, \<open>Crons_Spec\<close>: the scheduled jobs of \<^verbatim>\<open>crons/handlers\<close> and what they promise.
  \<^item> \<open>Poll_Worker\<close>, \<open>Poll_Spec\<close>: \<^verbatim>\<open>poll_worker/handlers\<close>, storing and processing poll messages.
  \<^item> \<open>Sql_Where\<close>: the where clauses the code writes as text: a reader for them and their meaning on a row.
  \<^item> \<open>Poll_Enqueuer\<close>: \<^verbatim>\<open>poll_enqueuer\<close> and the event cron of \<^verbatim>\<open>crons\<close>, both on top of \<open>Enqueuer\<close>.
  \<^item> \<open>Pg_Listener\<close>, \<open>Job_Scheduler\<close>: \<^verbatim>\<open>pkg/pgevents\<close> with the SQL function that feeds it, and \<^verbatim>\<open>job_scheduler\<close>;
    \<open>Go_Text\<close>: \<^verbatim>\<open>strings.SplitN\<close>, \<^verbatim>\<open>strconv.Atoi\<close> and the scanner of \<^verbatim>\<open>encoding/json\<close>.
  \<^item> \<open>Sqs_Consumer\<close>: \<^verbatim>\<open>pkg/sqs\<close>, options and the consumer's goroutines as a step relation.
  \<^item> \<open>Notification_Worker\<close>: \<^verbatim>\<open>notification_worker\<close> with \<^verbatim>\<open>pkg/repository\<close>.
  \<^item> \<open>Hosting_Data\<close>: the payloads of \<^verbatim>\<open>pkg/types/hosting.go\<close> and the records of the hosting API.
  \<^item> \<open>Hosting_Api\<close>, \<open>Hosting_Worker\<close>: \<^verbatim>\<open>hosting/handlers\<close>, the clients of the two backends with \<^verbatim>\<open>pkg/certificate\<close>,
    and the five request handlers with their router; \<open>Hosting_Spec\<close>: the bodies interpret \<open>final_body\<close>.
  \<^item> \<open>Hosting_Updater\<close>, \<open>Certificate_Updater\<close>: \<^verbatim>\<open>hosting_updater/handlers\<close> and \<^verbatim>\<open>certificate_updater/handlers\<close>.

  \<^bold>\<open>What is shown.\<close> For every answer of the registry: atomicity, no job left behind, at most one job
  write, exactly-once handling under redelivery (C1 to C4), with the exceptions the code has: a
  panic commits (C5), an unexpected success code of a transfer-in request changes nothing
  (\<open>leaves_open\<close>; \<open>transfer_in_request_outcome\<close> of \<open>DU_Transfer\<close>). Whatever else the bus delivers between
  two answers does not undo the first. For each handler of the domain updater its decision table, errors included
  (the theories \<open>DU_Write\<close> to \<open>DU_Timeout\<close> and \<open>Error_Response\<close>). For the workers and updaters together:
  they refine the job machine (C14): announcements and answers on their own
  (\<open>delivery\<close>), error responses and timeouts as well (\<open>any_delivery\<close>) with the schema's trigger
  \<^verbatim>\<open>job_prevent_if_final\<close>, whose contract is the hypothesis \<open>final_locked\<close>; an announcement is dispatched at
  most once or settled (C15), a refused commit duplicates a request (\<open>announcement_duplicates\<close>). For single requests: the
  update of a domain (C24) and of a host (C11) bring about the wanted state, the answer to
  a host delete (C26). The enqueuer drains its table exactly once (C25). The purge job
  deletes only what the registry confirms to be gone (C10) and covers its batch
  (\<open>purge_covers_batch\<close>); a pending transfer in is settled by the holder of the domain (C13); a poll
  message keeps its content on the way to the poll worker (C33), is published when it is due
  (C32), unless a row cannot be converted (\<open>poll_enqueuer_stuck\<close>), and is settled or left
  untouched (C12). The listener reassembles the database's messages
  (C27), dies of exactly the payloads of \<open>listener_dies_iff\<close>, and the scheduler forwards every announced job
  (C28). The SQS consumer neither loses a message nor hands it to its handler twice, also
  while it is being stopped (C29), deletes a message
  only after its handler succeeded (C30), and can deadlock (C31). A domain transfer
  event ends as one notification row (\<open>transfer_event_stored\<close>). A hosting job is not left behind (C34);
  it places at most one order, for a client the backend knows (C35), and the order's
  notice completes the row that waits for it, or makes the database delete it when the order has failed
  (C37, and worker and updater together C38). Certificates are requested, fetched, stored and renewed as C36,
  C39 and C40 say; a DNS check, as \<open>dns_check_outcome\<close> says.
  A webhook reaches a final status within its retry queues (C19), which the manager writes to the row it
  came from (C20); a row that cannot be converted blocks the enqueuer (C21;
  \<open>webhook_enqueuer_drains\<close> when there is none). A mail is sent at most three times and reported once
  (C22), and names the receivers of blind copies (C23). The subscription
  manager refines a registry of subscriptions (C16), answers every request once
  (C17) and keeps subscriptions typed and tenants apart (C18).

  \<^bold>\<open>Termination and bounds.\<close> All modelled functions of the updater are total; no fuel is used there. Integers keep
  their width; where a sum must fit, the statement says so (\<open>expiry_check_period\<close>, \<open>operation_price_sum\<close>, C9). The loop of the
  enqueuer is a partial function into \<open>option\<close>; that it returns is part of C25, that it need not of
  \<open>poll_enqueuer_stuck\<close>; likewise the loop of the notification enqueuer. The deliveries of a webhook (\<open>webhook_life\<close>)
  take as fuel one more than the number of retry queues, which is enough by C19.

  \<^bold>\<open>Not modelled.\<close> Logging and tracing (except where building a log field dereferences a pointer),
  health checks, process start-up and configuration. PostgreSQL, gorm, RabbitMQ, protobuf and XML
  decoding, floating point: parameters. Inside free-form metadata numbers keep their text, where Go
  passes them through a float64. Of \<^verbatim>\<open>pkg/repository\<close> and \<^verbatim>\<open>pkg/database/model\<close> what no
  modelled code uses, the publisher of \<^verbatim>\<open>pkg/sqs\<close>, which nothing calls, and the wiring in \<^verbatim>\<open>cmd\<close>. Of \<^verbatim>\<open>sm/tdp-notifications\<close> the REST
  front (\<^verbatim>\<open>api-service\<close>), which binds requests and renders responses around one bus call per route, and the
  SQL schema; the repository library the subscription manager calls is not in the repository, and its
  documented behaviour is the hypothesis \<open>store\<close>, which includes that a condition and the id of a row are both
  required and that a subscription has one channel.

  \<^bold>\<open>Triggers of the schema.\<close> The database runs triggers of its own (\<^verbatim>\<open>sm/tdp-database-design/db\<close>). Modelled
  are the ones of \<^verbatim>\<open>provision_hosting_create\<close> that decide which rows are left (\<open>after_update\<close>: the finish and
  clean-up of a provision row, which deletes a failed one, and its audit columns), and, as the hypothesis
  \<open>final_locked\<close>, \<^verbatim>\<open>job_prevent_if_final\<close>. Not modelled are those that write other tables when a job or a
  provision row ends (parent jobs, order items, the hosting of an order), and the retry of
  \<^verbatim>\<open>job_finish\<close>, which puts a failed job back to submitted while the job has tries left; a job has one
  try unless it is created with more, and a database that retries jobs is outside the hypothesis
  \<open>reads_committed\<close>.
\<close>

section \<open>Every answer of the registry\<close>

text \<open>
  C1. Atomicity. An answer of the registry whose handler reports an error, so that the message will be
  delivered again, has changed nothing: the statements in effect are the ones from before, even if
  the error came from the last statement or from the commit.
\<close>

theorem answer_atomic:
  assumes "RegisterHandlers TIMEOUT S db m = Some H" "\<not> is_error_response m"
    "H cid m h = (Ret (Some e), h')"
  shows "effective S h' = effective S h"
  using answer.handler_error_no_effect assms registered_answer [OF assms(1,2)] by metis

definition renew_ok :: message where
  "renew_ok = DomainRenewResponseMsg \<lparr>dre_ExpiryDate = None, dre_RegistryResponse = Some (sample_rr True 1000)\<rparr>"

lemma renew_ok_registered:
  "RegisterHandlers 3 S db renew_ok = Some (RyDomainRenewHandler S db)"
  "\<not> is_error_response renew_ok" "\<not> leaves_open renew_ok job"
  by (simp_all add: RegisterHandlers_def renew_ok_def leaves_open_def)

text \<open>Services that refuse the commit.\<close>

definition commit_fails :: services where
  "commit_fails = sample_services (plain_job ''t'')
     (\<lambda>e. if e = CommitTx (Tx 0) then Some (ErrNew ''x'') else None) (Inl ErrNotFound)"

lemma commit_fails_run:
  "RyDomainRenewHandler commit_fails sample_db ''c'' renew_ok [] =
     (Ret (Some (ErrNew ''x'')), snd (RyDomainRenewHandler commit_fails sample_db ''c'' renew_ok []))"
proof -
  have "fst (RyDomainRenewHandler commit_fails sample_db ''c'' renew_ok []) = Ret (Some (ErrNew ''x''))"
    by code_simp
  then show ?thesis by (metis prod.collapse)
qed

theorem answer_atomic_witness:
  "effective commit_fails (snd (RyDomainRenewHandler commit_fails sample_db ''c'' renew_ok [])) = []"
  using answer_atomic [OF renew_ok_registered(1,2) commit_fails_run] by simp

text \<open>
  C2. No job is left behind. If the handler of an answer reports success and the job it found was being
  processed, the job now has a final status in the database. The one exception is the answer to a
  transfer-in request that reports a success other than a pending one.
\<close>

theorem answer_settles:
  assumes "RegisterHandlers TIMEOUT S db m = Some H" "\<not> is_error_response m"
    "H cid m h = (Ret None, h')" "fetched S db cid h = (Ret (job, None), h1)"
    "job_StatusID job = GetJobStatusId db ''processing''" "\<not> leaves_open m job"
  shows "\<exists>st \<in> GetJobStatusId db ` {''completed'', ''failed'', ''completed_conditionally''}.
     last_status (effective S h') (job_ID job) = Some st"
proof -
  have "process_job S db cid (settling_answer_body S m) h = (Ret None, h')"
    using registered_settling [OF assms(1,2,4,6)] assms(3) by metis
  from settling_answer.handler_settles [OF this assms(4,5)] show ?thesis
    by (simp add: final_statuses_def)
qed

abbreviation memory :: services where "memory \<equiv> store_services (plain_job ''t'')"

lemma memory_run:
  "RyDomainRenewHandler memory sample_db ''c'' renew_ok [] =
     (Ret None, snd (RyDomainRenewHandler memory sample_db ''c'' renew_ok []))"
proof -
  have "fst (RyDomainRenewHandler memory sample_db ''c'' renew_ok []) = Ret None" by code_simp
  then show ?thesis by (metis prod.collapse)
qed

lemma memory_job:
  "sv_job memory h e = ((plain_job ''t'')\<lparr>job_StatusID :=
     (case last_status (effective memory h) ''j1'' of None \<Rightarrow> ''s3'' | Some st \<Rightarrow> st)\<rparr>, None)"
proof -
  let ?E = "sample_services (plain_job ''t'') (\<lambda>e. None) (Inl (ErrNew ''no reply''))"
  have same: "effective ?E h = effective memory h"
    by (rule effective_cong) (simp add: store_services_def Let_def)
  have "sv_job memory h e = ((plain_job ''t'')\<lparr>job_StatusID :=
     (case last_status (effective ?E h) (job_ID (plain_job ''t'')) of
        None \<Rightarrow> job_StatusID (plain_job ''t'') | Some st \<Rightarrow> st)\<rparr>, None)"
    by (simp add: store_services_def Let_def)
  then show ?thesis unfolding same sample_job_simps .
qed

lemma memory_fetched:
  "\<exists>st h1. fetched memory sample_db cid h = (Ret ((plain_job ''t'')\<lparr>job_StatusID := st\<rparr>, None), h1) \<and>
     (h = [] \<longrightarrow> st = ''s3'')"
proof -
  let ?h = "BeginTx (fresh_tx h) # h"
  let ?st = "case last_status (effective memory ?h) ''j1'' of None \<Rightarrow> ''s3'' | Some st \<Rightarrow> st"
  have "fetched memory sample_db cid h = (Ret ((plain_job ''t'')\<lparr>job_StatusID := ?st\<rparr>, None),
      Query (Tx (fresh_tx h)) (FindJob ''id'' cid True) # ?h)"
    by (simp add: fetched_def GetJobById_def getJobByField_def perform_def bnd_def ret_def Let_def memory_job
        del: effective.simps)
  then show ?thesis by auto
qed

theorem answer_settles_witness:
  "\<exists>st \<in> GetJobStatusId sample_db ` {''completed'', ''failed'', ''completed_conditionally''}.
     last_status (effective memory (snd (RyDomainRenewHandler memory sample_db ''c'' renew_ok []))) ''j1'' = Some st"
proof -
  obtain st h1 where "fetched memory sample_db ''c'' [] = (Ret ((plain_job ''t'')\<lparr>job_StatusID := st\<rparr>, None), h1)"
    "st = ''s3''"
    using memory_fetched [of "''c''" "[]"] by auto
  from answer_settles [OF renew_ok_registered(1,2) memory_run this(1) _ renew_ok_registered(3)] this(2) show ?thesis
    by (simp add: sample_db_def GetJobStatusId_def GetByKey_def sample_statuses_def assoc_bimap_def)
qed

text \<open>
  C3. What an answer may change of jobs: at most one job row is written, it is the row of the job
  named by the correlation id, that job was being processed when it was fetched under lock in the
  same transaction, and it is given a final status.
\<close>

theorem answer_job_writes:
  assumes "RegisterHandlers TIMEOUT S db m = Some H" "\<not> is_error_response m" "H cid m h = (r, h')"
  shows "\<exists>d. h' = d @ h \<and> length (job_writes d) \<le> 1 \<and>
     (\<forall>j \<in> set (job_writes d). \<exists>job h1. fetched S db cid h = (Ret (job, None), h1) \<and>
        job_StatusID job = GetJobStatusId db ''processing'' \<and> job_ID j = job_ID job \<and>
        job_StatusID j \<in> GetJobStatusId db ` {''completed'', ''failed'', ''completed_conditionally''})"
proof -
  have "process_job S db cid (answer_body S m) h = (r, h')"
    using registered_answer [OF assms(1,2)] assms(3) by metis
  from answer.handler_job_writes [OF this] show ?thesis by (simp add: final_statuses_def)
qed

theorem answer_job_writes_witness:
  "\<exists>d. snd (RyDomainRenewHandler memory sample_db ''c'' renew_ok []) = d @ [] \<and> length (job_writes d) \<le> 1"
  using answer_job_writes [OF renew_ok_registered(1,2) memory_run] by blast

text \<open>
  C4. Exactly once. The bus may deliver an answer again, or deliver another answer for the same job, under
  any correlation id that leads to it. Once an answer has been handled successfully and has settled its
  job, a later answer for that job writes nothing, on a database whose reads see what was committed,
  whatever announcements and answers come in between; and with the trigger of the schema also whatever
  error responses and timeouts do. (A later error response or timeout is not an answer in this sense;
  the answer that leaves its job open is the one of the property before.)
\<close>

theorem answer_exactly_once:
  assumes "reads_committed S" "ids_distinct db"
    "RegisterHandlers TIMEOUT S db m = Some H" "\<not> is_error_response m"
    "H cid m h = (Ret None, h')" "fetched S db cid h = (Ret (job, None), h1)"
    "job_StatusID job = GetJobStatusId db ''processing''" "\<not> leaves_open m job"
    "(delivery S db)\<^sup>*\<^sup>* h' h2 \<or>
     final_locked S db \<and> db_gorm db = Pool \<and> (any_delivery S db)\<^sup>*\<^sup>* h' h2"
    "RegisterHandlers TIMEOUT' S db m' = Some H'" "\<not> is_error_response m'"
    "fetched S db cid' h2 = (Ret (job', None), h3)" "job_ID job' = job_ID job"
    "H' cid' m' h2 = (r, h'')"
  shows "\<exists>d. h'' = d @ h2 \<and> list_all (\<lambda>e. \<not> is_write e) d"
proof -
  have "process_job S db cid (settling_answer_body S m) h = (Ret None, h')"
    using registered_settling [OF assms(3,4,6,8)] assms(5) by metis
  from settling_answer.handler_settles [OF this assms(6,7)] obtain x where
    x: "x \<in> final_statuses" "last_status (effective S h') (job_ID job) = Some (GetJobStatusId db x)"
    by blast
  then have "x \<in> job_statuses" by (simp add: job_statuses_def)
  from assms(9) have still: "last_status (effective S h2) (job_ID job) = Some (GetJobStatusId db x)"
  proof (elim disjE conjE)
    assume "(delivery S db)\<^sup>*\<^sup>* h' h2"
    from deliveries_machine [OF assms(1,2) this \<open>x \<in> job_statuses\<close> x(2)] show ?thesis
      using final_stays x(1) by blast
  next
    assume "final_locked S db" "db_gorm db = Pool" "(any_delivery S db)\<^sup>*\<^sup>* h' h2"
    from any_deliveries_machine [OF assms(1,2) this \<open>x \<in> job_statuses\<close> x(2)] show ?thesis
      using final_stays_any x(1) by blast
  qed
  have "x \<noteq> JobStatus_Processing" "JobStatus_Processing \<in> job_statuses"
    using x(1) by (auto simp: final_statuses_def job_statuses_def)
  then have "GetJobStatusId db x \<noteq> GetJobStatusId db JobStatus_Processing"
    using assms(2) \<open>x \<in> job_statuses\<close> by (auto simp: ids_distinct_def dest: inj_onD)
  moreover have "process_job S db cid' (answer_body S m') h2 = (r, h'')"
    using registered_answer [OF assms(10,11)] assms(14) by metis
  ultimately show ?thesis
    using answer.handler_redelivery [OF _ assms(1,12)] still assms(13) by metis
qed

text \<open>The renewal is answered, announced once more, and answered again under another correlation id.\<close>

theorem answer_exactly_once_witness:
  "let h = snd (RyDomainRenewHandler memory sample_db ''c'' renew_ok []);
       h2 = snd (worker_router DomainWorker memory sample_db (JobNotificationMsg ''j1'' ''provision_domain_renew'' [] [] []) h) in
   \<exists>d. snd (RyDomainRenewHandler memory sample_db ''c2'' renew_ok h2) = d @ h2 \<and> list_all (\<lambda>e. \<not> is_write e) d"
proof -
  let ?h = "snd (RyDomainRenewHandler memory sample_db ''c'' renew_ok [])"
  let ?run = "worker_router DomainWorker memory sample_db (JobNotificationMsg ''j1'' ''provision_domain_renew'' [] [] []) ?h"
  obtain h1 where f1: "fetched memory sample_db ''c'' [] = (Ret ((plain_job ''t'')\<lparr>job_StatusID := ''s3''\<rparr>, None), h1)"
    using memory_fetched [of "''c''" "[]"] by auto
  obtain st h2 where f2: "fetched memory sample_db ''c2'' (snd ?run) = (Ret ((plain_job ''t'')\<lparr>job_StatusID := st\<rparr>, None), h2)"
    using memory_fetched [of "''c2''" "snd ?run"] by auto
  have processing: "job_StatusID ((plain_job ''t'')\<lparr>job_StatusID := ''s3''\<rparr>) = GetJobStatusId sample_db ''processing''"
    by (simp add: sample_db_def GetJobStatusId_def GetByKey_def sample_statuses_def assoc_bimap_def)
  have "delivery memory sample_db ?h (snd ?run)"
    by (rule delivery.announcement [OF prod.collapse [symmetric]])
  then have between: "(delivery memory sample_db)\<^sup>*\<^sup>* ?h (snd ?run) \<or>
      final_locked memory sample_db \<and> db_gorm sample_db = Pool \<and> (any_delivery memory sample_db)\<^sup>*\<^sup>* ?h (snd ?run)"
    by blast
  show ?thesis
    unfolding Let_def
    by (rule answer_exactly_once [OF store_reads_committed sample_ids_distinct renew_ok_registered(1,2) memory_run
          f1 processing renew_ok_registered(3) between renew_ok_registered(1,2) f2 _ prod.collapse [symmetric]]) simp
qed

text \<open>
  C5. A panic inside a transaction does not undo it. The deferred function of \<^verbatim>\<open>WithTransaction\<close> sees no
  error and commits what the body had written before it panicked; only then the panic goes on.
\<close>

theorem panic_commits:
  assumes "f (db\<lparr>db_gorm := Tx (fresh_tx h)\<rparr>) (BeginTx (fresh_tx h) # h) = (Panicked p, g)"
    "sv_err S g (CommitTx (Tx (fresh_tx h))) = None"
  shows "WithTransaction S db f h = (Panicked p, CommitTx (Tx (fresh_tx h)) # g) \<and>
     effective S (CommitTx (Tx (fresh_tx h)) # g) = pending S (fresh_tx h) g @ effective S g"
  using assms by (simp add: WithTransaction_run Let_def)

theorem panic_commits_witness:
  "let f = (\<lambda>tx. bnd (UpdateProvisionDomain memory tx zero_ProvisionDomain) (\<lambda>_. go_panic ''boom''));
       w = UpdatesProvisionDomain zero_ProvisionDomain
   in fst (WithTransaction memory sample_db f []) = Panicked ''boom'' \<and>
      effective memory (snd (WithTransaction memory sample_db f [])) = [w]"
  using panic_commits [where f = "\<lambda>tx. bnd (UpdateProvisionDomain memory tx zero_ProvisionDomain) (\<lambda>_. go_panic ''boom'')"
      and db = sample_db and h = "[]" and p = "''boom''" and S = memory
      and g = "[Exec (Tx 0) (UpdatesProvisionDomain zero_ProvisionDomain), BeginTx 0]"]
  by (simp add: fresh_tx_def UpdateProvisionDomain_def exec_or_die_def perform_def bnd_def ret_def go_panic_def
      store_services_def sample_services_def Let_def)

end
